(* ===== verification/RustStr.thy ===== *)
theory RustStr
  imports Prelude "HOL-Library.Char_ord" "HOL-Library.List_Lexorder"
begin

text \<open>
  The string operations of the Rust standard library the source uses. A \<open>String\<close> and a
  \<open>Vec<u8>\<close> are both a HOL \<open>string\<close> whose characters are the bytes: a \<open>String\<close> is its
  UTF-8 encoding, so \<open>len\<close> is the byte length, \<open>as_bytes\<close> the identity, and the library's
  lexicographic order on lists of characters is the order of \<open>str\<close> (and of the keys of a
  \<open>BTreeMap\<close>). Operations on scalar values go through the split into encoded characters.
\<close>

type_synonym bytes = string

section \<open>Prefixes, separators\<close>

fun strip_prefix :: "string \<Rightarrow> string \<Rightarrow> string option" where
  "strip_prefix [] s = Some s"
| "strip_prefix (p # ps) [] = None"
| "strip_prefix (p # ps) (c # cs) = (if p = c then strip_prefix ps cs else None)"

definition starts_with :: "string \<Rightarrow> string \<Rightarrow> bool" where
  "starts_with p s = (strip_prefix p s \<noteq> None)"

definition ends_with :: "string \<Rightarrow> string \<Rightarrow> bool" where
  "ends_with p s = (strip_prefix (rev p) (rev s) \<noteq> None)"

text \<open>\<open>split_once\<close> on a character and on a string: at the first occurrence.\<close>

fun split_once :: "char \<Rightarrow> string \<Rightarrow> (string \<times> string) option" where
  "split_once d [] = None"
| "split_once d (c # cs) =
     (if c = d then Some ([], cs)
      else (case split_once d cs of None \<Rightarrow> None | Some (a, b) \<Rightarrow> Some (c # a, b)))"

fun split_once_str :: "string \<Rightarrow> string \<Rightarrow> (string \<times> string) option" where
  "split_once_str p [] = (if p = [] then Some ([], []) else None)"
| "split_once_str p (c # cs) =
     (case strip_prefix p (c # cs) of
        Some r \<Rightarrow> Some ([], r)
      | None \<Rightarrow> (case split_once_str p cs of None \<Rightarrow> None | Some (a, b) \<Rightarrow> Some (c # a, b)))"

lemma strip_prefix_append [simp]: "strip_prefix p (p @ s) = Some s"
  by (induction p) auto

lemma strip_prefix_Some: "strip_prefix p s = Some r \<longleftrightarrow> s = p @ r"
  by (induction p s rule: strip_prefix.induct) auto

lemma starts_with_iff: "starts_with p s \<longleftrightarrow> (\<exists>r. s = p @ r)"
  by (auto simp: starts_with_def strip_prefix_Some)

lemma split_once_Some:
  "split_once d s = Some (a, b) \<longleftrightarrow> s = a @ d # b \<and> d \<notin> set a"
proof (induction s arbitrary: a)
  case Nil
  show ?case by simp
next
  case (Cons c cs)
  show ?case
  proof (cases "c = d")
    case True
    then show ?thesis by (cases a) auto
  next
    case False
    have "split_once d (c # cs) = Some (a, b) \<longleftrightarrow> (\<exists>a'. a = c # a' \<and> split_once d cs = Some (a', b))"
      using False by (auto split: option.splits)
    with False show ?thesis by (cases a) (auto simp: Cons.IH)
  qed
qed

lemma split_once_None: "split_once d s = None \<longleftrightarrow> d \<notin> set s"
  by (induction s) (auto split: option.splits)

lemma split_once_append [simp]: "d \<notin> set a \<Longrightarrow> split_once d (a @ d # b) = Some (a, b)"
  by (simp add: split_once_Some)

section \<open>Bytes\<close>

lemma of_char_less_256: "(of_char c :: nat) < 256"
  by (metis of_char_mod_256 mod_less_divisor zero_less_numeral)

section \<open>Decimal numbers\<close>

definition digit_char :: "nat \<Rightarrow> char" where
  "digit_char d = char_of (48 + d)"

definition is_ascii_digit :: "char \<Rightarrow> bool" where
  "is_ascii_digit c \<longleftrightarrow> (48::nat) \<le> of_char c \<and> of_char c \<le> (57::nat)"

definition digit_val :: "char \<Rightarrow> nat" where
  "digit_val c = of_char c - 48"

fun show_nat :: "nat \<Rightarrow> string" where
  "show_nat n = (if n < 10 then [digit_char n] else show_nat (n div 10) @ [digit_char (n mod 10)])"

declare show_nat.simps [simp del]

definition digits_val :: "string \<Rightarrow> nat" where
  "digits_val ds = foldl (\<lambda>acc c. acc * 10 + digit_val c) 0 ds"

text \<open>
  \<open>str::parse\<close> at an unsigned type with \<open>bound\<close> values: one optional plus sign, at least one
  digit, only digits, no overflow.
\<close>

definition parse_uint :: "nat \<Rightarrow> string \<Rightarrow> nat option" where
  "parse_uint bound s =
     (let ds = (case s of [] \<Rightarrow> [] | c # cs \<Rightarrow> if c = CHR ''+'' then cs else c # cs)
      in if ds = [] \<or> \<not> list_all is_ascii_digit ds then None
         else if digits_val ds < bound then Some (digits_val ds) else None)"

lemma digit_char_props:
  "d < 10 \<Longrightarrow> is_ascii_digit (digit_char d) \<and> digit_val (digit_char d) = d"
  by (simp add: digit_char_def is_ascii_digit_def digit_val_def)

lemma show_nat_digits: "list_all is_ascii_digit (show_nat n)"
proof (induction n rule: show_nat.induct)
  case (1 n)
  then show ?case by (subst show_nat.simps) (auto simp: digit_char_props)
qed

lemma show_nat_nonempty: "show_nat n \<noteq> []"
  by (subst show_nat.simps) simp

lemma digits_val_snoc: "digits_val (ds @ [c]) = digits_val ds * 10 + digit_val c"
  by (simp add: digits_val_def)

lemma digits_val_show_nat: "digits_val (show_nat n) = n"
proof (induction n rule: show_nat.induct)
  case (1 n)
  show ?case
  proof (cases "n < 10")
    case True
    then show ?thesis
      by (subst show_nat.simps) (simp add: digits_val_def digit_char_props)
  next
    case False
    with 1 show ?thesis
      by (subst show_nat.simps) (simp add: digits_val_snoc digit_char_props)
  qed
qed

lemma plus_not_digit: "\<not> is_ascii_digit (CHR ''+'')"
  by (simp add: is_ascii_digit_def)

lemma parse_uint_digits:
  "ds \<noteq> [] \<Longrightarrow> list_all is_ascii_digit ds \<Longrightarrow>
   parse_uint bound ds = (if digits_val ds < bound then Some (digits_val ds) else None)"
  by (cases ds) (auto simp: parse_uint_def plus_not_digit Let_def)

lemma parse_show_nat: "n < bound \<Longrightarrow> parse_uint bound (show_nat n) = Some n"
  by (simp add: parse_uint_digits show_nat_nonempty show_nat_digits digits_val_show_nat)

lemma show_nat_inj: "show_nat m = show_nat n \<Longrightarrow> m = n"
  by (metis digits_val_show_nat)

lemma parse_uint_bound: "parse_uint bound s = Some n \<Longrightarrow> n < bound"
  by (auto simp: parse_uint_def Let_def split: if_splits)

section \<open>ASCII case\<close>

definition is_ascii :: "char \<Rightarrow> bool" where
  "is_ascii c \<longleftrightarrow> of_char c < (128::nat)"

definition is_ascii_upper :: "char \<Rightarrow> bool" where
  "is_ascii_upper c \<longleftrightarrow> (65::nat) \<le> of_char c \<and> of_char c \<le> (90::nat)"

definition is_ascii_lower :: "char \<Rightarrow> bool" where
  "is_ascii_lower c \<longleftrightarrow> (97::nat) \<le> of_char c \<and> of_char c \<le> (122::nat)"

definition ascii_upper :: "char \<Rightarrow> char" where
  "ascii_upper c = (if is_ascii_lower c then char_of (of_char c - 32 :: nat) else c)"

definition ascii_lower :: "char \<Rightarrow> char" where
  "ascii_lower c = (if is_ascii_upper c then char_of (of_char c + 32 :: nat) else c)"

definition is_ascii_alnum :: "char \<Rightarrow> bool" where
  "is_ascii_alnum c \<longleftrightarrow> is_ascii_digit c \<or> is_ascii_upper c \<or> is_ascii_lower c"

definition is_ascii_hexdigit :: "char \<Rightarrow> bool" where
  "is_ascii_hexdigit c \<longleftrightarrow> is_ascii_digit c
     \<or> ((65::nat) \<le> of_char c \<and> of_char c \<le> (70::nat))
     \<or> ((97::nat) \<le> of_char c \<and> of_char c \<le> (102::nat))"

lemma ascii_upper_lower [simp]: "ascii_upper (ascii_lower c) = ascii_upper c"
  by (auto simp: ascii_upper_def ascii_lower_def is_ascii_upper_def is_ascii_lower_def)

lemma ascii_lower_upper [simp]: "ascii_lower (ascii_upper c) = ascii_lower c"
  by (auto simp: ascii_upper_def ascii_lower_def is_ascii_upper_def is_ascii_lower_def)

lemma ascii_upper_idem [simp]: "ascii_upper (ascii_upper c) = ascii_upper c"
  by (auto simp: ascii_upper_def is_ascii_lower_def)

lemma ascii_lower_idem [simp]: "ascii_lower (ascii_lower c) = ascii_lower c"
  by (auto simp: ascii_lower_def is_ascii_upper_def)

section \<open>UTF-8 characters\<close>

text \<open>
  The encoded length a lead byte announces, the split of an encoded string into its characters,
  and the scalar value of one of them. On the UTF-8 bytes of a \<open>String\<close> these are the items and
  the values \<open>chars\<close> yields.
\<close>

definition utf8_len :: "char \<Rightarrow> nat" where
  "utf8_len c = (let b = of_char c in
     if b < (192::nat) then 1 else if b < 224 then 2 else if b < 240 then 3 else 4)"

fun utf8_chars :: "string \<Rightarrow> string list" where
  "utf8_chars [] = []"
| "utf8_chars (c # cs) = (c # take (utf8_len c - 1) cs) # utf8_chars (drop (utf8_len c - 1) cs)"

definition utf8_tail :: "string \<Rightarrow> nat" where
  "utf8_tail cs = foldl (\<lambda>acc c. acc * 64 + of_char c mod 64) 0 cs"

definition scalar_value :: "string \<Rightarrow> nat" where
  "scalar_value ch = (case ch of [] \<Rightarrow> 0 | c # cs \<Rightarrow>
     (let b = of_char c in
        if b < 128 then b
        else if b < 224 then (b mod 32) * 64 ^ length cs + utf8_tail cs
        else if b < 240 then (b mod 16) * 64 ^ length cs + utf8_tail cs
        else (b mod 8) * 64 ^ length cs + utf8_tail cs))"

definition utf8_wf :: "string \<Rightarrow> bool" where
  "utf8_wf s \<longleftrightarrow> list_all (\<lambda>ch. case ch of [] \<Rightarrow> False | c # cs \<Rightarrow> length ch = utf8_len c) (utf8_chars s)"

lemma concat_utf8_chars [simp]: "concat (utf8_chars s) = s"
  by (induction s rule: utf8_chars.induct) auto

lemma utf8_len_pos: "0 < utf8_len c"
  by (simp add: utf8_len_def Let_def)

lemma utf8_len_ascii: "is_ascii c \<Longrightarrow> utf8_len c = 1"
  by (simp add: utf8_len_def is_ascii_def)

lemma utf8_chars_ascii: "list_all is_ascii s \<Longrightarrow> utf8_chars s = map (\<lambda>c. [c]) s"
  by (induction s) (auto simp: utf8_len_ascii)

definition utf8_unit :: "string \<Rightarrow> bool" where
  "utf8_unit ch \<longleftrightarrow> (case ch of [] \<Rightarrow> False | c # cs \<Rightarrow> length ch = utf8_len c)"

lemma utf8_wf_alt: "utf8_wf s \<longleftrightarrow> list_all utf8_unit (utf8_chars s)"
  by (simp add: utf8_wf_def utf8_unit_def [abs_def])

lemma utf8_chars_unit_append:
  "utf8_unit ch \<Longrightarrow> utf8_chars (ch @ s) = ch # utf8_chars s"
  using utf8_len_pos by (cases ch) (auto simp: utf8_unit_def)

lemma utf8_chars_concat: "list_all utf8_unit chs \<Longrightarrow> utf8_chars (concat chs) = chs"
  by (induction chs) (auto simp: utf8_chars_unit_append)

text \<open>\<open>str::trim\<close>: the characters with the Unicode \<open>White_Space\<close> property go at both ends.\<close>

definition is_whitespace :: "nat \<Rightarrow> bool" where
  "is_whitespace v \<longleftrightarrow>
     (9 \<le> v \<and> v \<le> 13) \<or> v = 32 \<or> v = 133 \<or> v = 160 \<or> v = 5760 \<or> (8192 \<le> v \<and> v \<le> 8202)
     \<or> v = 8232 \<or> v = 8233 \<or> v = 8239 \<or> v = 8287 \<or> v = 12288"

definition whitespace_char :: "string \<Rightarrow> bool" where
  "whitespace_char ch = is_whitespace (scalar_value ch)"

definition trim_chars :: "string list \<Rightarrow> string list" where
  "trim_chars chs = rev (dropWhile whitespace_char (rev (dropWhile whitespace_char chs)))"

definition trim :: "string \<Rightarrow> string" where
  "trim s = concat (trim_chars (utf8_chars s))"

lemma list_all_dropWhile: "list_all P xs \<Longrightarrow> list_all P (dropWhile Q xs)"
  by (induction xs) auto

lemma list_all_trim_chars: "list_all P chs \<Longrightarrow> list_all P (trim_chars chs)"
  by (simp add: trim_chars_def list_all_dropWhile)

lemma dropWhile_same: "xs = [] \<or> \<not> P (hd xs) \<Longrightarrow> dropWhile P xs = xs"
  by (cases xs) auto

lemma hd_rev_dropWhile: "xs = [] \<or> \<not> Q (hd xs) \<Longrightarrow>
  rev (dropWhile Q (rev xs)) = [] \<or> \<not> Q (hd (rev (dropWhile Q (rev xs))))"
proof (cases xs)
  case (Cons y ys)
  assume "xs = [] \<or> \<not> Q (hd xs)"
  with Cons have n: "\<not> Q y" by simp
  then have "dropWhile Q (rev ys @ [y]) = dropWhile Q (rev ys) @ [y]"
    by (induction ys rule: rev_induct) auto
  with Cons n show ?thesis by simp
qed simp

lemma dropWhile_trim_chars:
  "dropWhile Q (rev (dropWhile Q (rev (dropWhile Q xs)))) = rev (dropWhile Q (rev (dropWhile Q xs)))"
proof (rule dropWhile_same, rule hd_rev_dropWhile)
  show "dropWhile Q xs = [] \<or> \<not> Q (hd (dropWhile Q xs))" by (metis hd_dropWhile)
qed

lemma trim_chars_idem: "trim_chars (trim_chars chs) = trim_chars chs"
proof -
  have "dropWhile whitespace_char (trim_chars chs) = trim_chars chs"
    unfolding trim_chars_def by (rule dropWhile_trim_chars)
  moreover have "dropWhile whitespace_char (rev (trim_chars chs)) = rev (trim_chars chs)"
    unfolding trim_chars_def by (simp add: dropWhile_idem)
  ultimately show ?thesis by (metis rev_rev_ident trim_chars_def)
qed

lemma trim_idem: "utf8_wf s \<Longrightarrow> trim (trim s) = trim s"
  by (simp add: trim_def utf8_wf_alt utf8_chars_concat list_all_trim_chars trim_chars_idem)

lemma trim_chars_id:
  "chs = [] \<or> (\<not> whitespace_char (hd chs) \<and> \<not> whitespace_char (last chs)) \<Longrightarrow> trim_chars chs = chs"
  by (auto simp: trim_chars_def dropWhile_same hd_rev)

text \<open>
  \<open>str::to_uppercase\<close>: the ASCII letters here, every other character through the Unicode
  uppercase table, which is data of the Rust library and a parameter of the model.
\<close>

definition to_uppercase :: "(string \<Rightarrow> string) \<Rightarrow> string \<Rightarrow> string" where
  "to_uppercase table s = concat (map (\<lambda>ch. case ch of
       [c] \<Rightarrow> if is_ascii c then [ascii_upper c] else table [c]
     | _ \<Rightarrow> table ch) (utf8_chars s))"

text \<open>\<open>str::to_lowercase\<close> on ASCII; on other text it depends on the context of a character (the final
  sigma), and is the parameter.\<close>

definition to_lowercase :: "(string \<Rightarrow> string) \<Rightarrow> string \<Rightarrow> string" where
  "to_lowercase unicode s = (if list_all is_ascii s then map ascii_lower s else unicode s)"

lemma to_uppercase_ascii: "list_all is_ascii s \<Longrightarrow> to_uppercase table s = map ascii_upper s"
  by (simp add: to_uppercase_def utf8_chars_ascii comp_def list_all_iff cong: map_cong)

lemma to_lowercase_ascii: "list_all is_ascii s \<Longrightarrow> to_lowercase unicode s = map ascii_lower s"
  by (simp add: to_lowercase_def)

text \<open>\<open>str::encode_utf16\<close>: the code units of each character.\<close>

definition utf16_of_scalar :: "nat \<Rightarrow> nat list" where
  "utf16_of_scalar v =
     (if v < 65536 then [v]
      else [55296 + (v - 65536) div 1024, 56320 + (v - 65536) mod 1024])"

definition encode_utf16 :: "string \<Rightarrow> nat list" where
  "encode_utf16 s = concat (map (\<lambda>ch. utf16_of_scalar (scalar_value ch)) (utf8_chars s))"

lemma encode_utf16_ascii:
  "list_all is_ascii s \<Longrightarrow> encode_utf16 s = map of_char s"
  by (induction s) (auto simp: encode_utf16_def utf8_len_ascii utf16_of_scalar_def scalar_value_def
      is_ascii_def Let_def)

text \<open>\<open>core::str::from_utf8\<close>: the well-formed byte sequences of the Unicode standard.\<close>

definition utf8_cont :: "nat \<Rightarrow> bool" where
  "utf8_cont b \<longleftrightarrow> 0x80 \<le> b \<and> b \<le> 0xBF"

fun utf8_bytes_ok :: "nat list \<Rightarrow> bool" where
  "utf8_bytes_ok [] \<longleftrightarrow> True"
| "utf8_bytes_ok (b # bs) \<longleftrightarrow>
     (if b < 0x80 then utf8_bytes_ok bs
      else if b < 0xC2 then False
      else if b < 0xE0 then
        (case bs of c # r \<Rightarrow> utf8_cont c \<and> utf8_bytes_ok r | _ \<Rightarrow> False)
      else if b < 0xF0 then
        (case bs of
           c # d # r \<Rightarrow>
             (if b = 0xE0 then 0xA0 \<le> c else True) \<and> (if b = 0xED then c \<le> 0x9F else True)
             \<and> utf8_cont c \<and> utf8_cont d \<and> utf8_bytes_ok r
         | _ \<Rightarrow> False)
      else if b < 0xF5 then
        (case bs of
           c # d # e # r \<Rightarrow>
             (if b = 0xF0 then 0x90 \<le> c else True) \<and> (if b = 0xF4 then c \<le> 0x8F else True)
             \<and> utf8_cont c \<and> utf8_cont d \<and> utf8_cont e \<and> utf8_bytes_ok r
         | _ \<Rightarrow> False)
      else False)"

definition is_utf8 :: "bytes \<Rightarrow> bool" where
  "is_utf8 bs = utf8_bytes_ok (map of_char bs)"

lemma is_utf8_ascii: "list_all is_ascii bs \<Longrightarrow> is_utf8 bs"
proof -
  have "list_all (\<lambda>b. b < 128) ns \<Longrightarrow> utf8_bytes_ok ns" for ns by (induction ns) auto
  then show "list_all is_ascii bs \<Longrightarrow> is_utf8 bs" by (simp add: is_utf8_def is_ascii_def list_all_iff)
qed

section \<open>Self-delimiting encodings\<close>

text \<open>The contract of an encoder whose output tells where it ends: encodings can be written one after
  the other and read back.\<close>

locale prefix_code =
  fixes enc :: "'a \<Rightarrow> 'c list" and valid :: "'a \<Rightarrow> bool"
  assumes enc_cancel: "valid x \<Longrightarrow> valid y \<Longrightarrow> enc x @ s = enc y @ t \<Longrightarrow> x = y \<and> s = t"
begin

lemma enc_inj: "valid x \<Longrightarrow> valid y \<Longrightarrow> enc x = enc y \<Longrightarrow> x = y"
  using enc_cancel [of x y "[]" "[]"] by simp

lemma concat_cancel:
  "list_all valid xs \<Longrightarrow> list_all valid ys \<Longrightarrow> length xs = length ys \<Longrightarrow>
   concat (map enc xs) @ s = concat (map enc ys) @ t \<Longrightarrow> xs = ys \<and> s = t"
proof (induction xs arbitrary: ys)
  case (Cons x xs)
  then obtain y ys' where ys: "ys = y # ys'" by (cases ys) auto
  with Cons.prems have "enc x @ (concat (map enc xs) @ s) = enc y @ (concat (map enc ys') @ t)" by simp
  with Cons.prems ys have "x = y \<and> concat (map enc xs) @ s = concat (map enc ys') @ t"
    by (intro enc_cancel) auto
  with Cons.prems ys Cons.IH [of ys'] show ?case by auto
qed simp

text \<open>With no empty encoding, a whole sequence is determined by its text.\<close>

lemma concat_inj:
  assumes "\<And>x. valid x \<Longrightarrow> enc x \<noteq> []"
  shows "list_all valid xs \<Longrightarrow> list_all valid ys \<Longrightarrow> concat (map enc xs) = concat (map enc ys) \<Longrightarrow> xs = ys"
proof (induction xs arbitrary: ys)
  case Nil
  with assms show ?case by (cases ys) auto
next
  case (Cons x xs)
  with assms obtain y ys' where ys: "ys = y # ys'" by (cases ys) auto
  with Cons.prems have "x = y \<and> concat (map enc xs) = concat (map enc ys')"
    by (intro enc_cancel) auto
  with Cons ys show ?case by auto
qed

end

end
