(* ===== verification/Json.thy ===== *)
theory Json
  imports RustStr
begin

text \<open>
  The JSON values the client reads and builds (\<open>serde_json::Value\<close>). The workspace builds
  \<open>serde_json\<close> without \<open>preserve_order\<close>, so its \<open>Map\<close> is a \<open>BTreeMap\<close>: an association list
  with strictly increasing keys. The contract of that map is the locale \<open>ordered_map\<close>, in
  which its clients' facts (last insert wins, order of insertion does not matter) are proved;
  the association list interprets it.
\<close>

section \<open>The ordered map contract\<close>

locale ordered_map =
  fixes emp :: "'m"
    and ins :: "'k \<Rightarrow> 'v \<Rightarrow> 'm \<Rightarrow> 'm"
    and look :: "'m \<Rightarrow> 'k \<Rightarrow> 'v option"
    and inv :: "'m \<Rightarrow> bool"
  assumes inv_emp: "inv emp"
    and inv_ins: "inv m \<Longrightarrow> inv (ins k v m)"
    and look_emp: "look emp k = None"
    and look_ins: "inv m \<Longrightarrow> look (ins k v m) k' = (if k' = k then Some v else look m k')"
    and look_ext: "inv m \<Longrightarrow> inv m' \<Longrightarrow> (\<And>k. look m k = look m' k) \<Longrightarrow> m = m'"
begin

lemma ins_twice: "inv m \<Longrightarrow> ins k v (ins k w m) = ins k v m"
  by (rule look_ext) (simp_all add: inv_ins look_ins)

lemma ins_commute: "inv m \<Longrightarrow> k \<noteq> l \<Longrightarrow> ins k v (ins l w m) = ins l w (ins k v m)"
  by (rule look_ext) (simp_all add: inv_ins look_ins)

lemma inv_fold: "inv m \<Longrightarrow> inv (foldl (\<lambda>m (k, v). ins k v m) m kvs)"
  by (induction kvs arbitrary: m) (auto simp: inv_ins)

lemma look_fold:
  "inv m \<Longrightarrow> look (foldl (\<lambda>m (k, v). ins k v m) m kvs) k =
     (case map_of (rev kvs) k of Some v \<Rightarrow> Some v | None \<Rightarrow> look m k)"
proof (induction kvs arbitrary: m)
  case Nil
  then show ?case by simp
next
  case (Cons kv kvs)
  then show ?case
    by (cases kv) (auto simp: inv_ins look_ins map_add_def split: option.splits)
qed

lemma fold_cong:
  assumes "map_of (rev kvs) = map_of (rev kvs')"
  shows "foldl (\<lambda>m (k, v). ins k v m) emp kvs = foldl (\<lambda>m (k, v). ins k v m) emp kvs'"
  by (rule look_ext) (simp_all add: inv_fold look_fold inv_emp assms)

end

section \<open>Maps as strictly sorted association lists\<close>

fun map_insert :: "'k::linorder \<Rightarrow> 'v \<Rightarrow> ('k \<times> 'v) list \<Rightarrow> ('k \<times> 'v) list" where
  "map_insert k v [] = [(k, v)]"
| "map_insert k v ((k', v') # kvs) =
     (if k = k' then (k, v) # kvs
      else if k < k' then (k, v) # (k', v') # kvs
      else (k', v') # map_insert k v kvs)"

definition map_ok :: "('k::linorder \<times> 'v) list \<Rightarrow> bool" where
  "map_ok kvs \<longleftrightarrow> sorted_wrt (<) (map fst kvs)"

lemma map_ok_Nil [simp]: "map_ok []"
  by (simp add: map_ok_def)

lemma map_ok_Cons: "map_ok ((k, v) # kvs) \<longleftrightarrow> (\<forall>k' \<in> fst ` set kvs. k < k') \<and> map_ok kvs"
  by (auto simp: map_ok_def)

lemma map_ok_distinct: "map_ok kvs \<Longrightarrow> distinct (map fst kvs)"
  by (auto simp: map_ok_def strict_sorted_iff)

lemma keys_map_insert: "fst ` set (map_insert k v kvs) = insert k (fst ` set kvs)"
  by (induction k v kvs rule: map_insert.induct) (auto simp: insert_commute)

lemma map_ok_insert: "map_ok kvs \<Longrightarrow> map_ok (map_insert k v kvs)"
  by (induction k v kvs rule: map_insert.induct) (auto simp: map_ok_Cons keys_map_insert)

lemma map_of_map_insert:
  "map_ok kvs \<Longrightarrow> map_of (map_insert k v kvs) k' = (if k' = k then Some v else map_of kvs k')"
  by (induction k v kvs rule: map_insert.induct) (auto simp: map_ok_Cons)

lemma map_of_insert: "map_of (map_insert k v kvs) k' = (if k' = k then Some v else map_of kvs k')"
  by (induction k v kvs rule: map_insert.induct) auto

lemma map_ok_ext: "map_ok kvs \<Longrightarrow> map_ok kvs' \<Longrightarrow> (\<And>k. map_of kvs k = map_of kvs' k) \<Longrightarrow> kvs = kvs'"
proof (induction kvs arbitrary: kvs')
  case Nil
  show ?case
  proof (cases kvs')
    case (Cons kv kvs)
    then show ?thesis using Nil.prems(3) [of "fst kv"] by (cases kv) simp
  qed simp
next
  case (Cons kv kvs)
  obtain k v where kv: "kv = (k, v)" by (cases kv)
  have eq: "map_of ((k, v) # kvs) l = map_of kvs' l" for l using Cons.prems(3) kv by simp
  have "map_of kvs' k = Some v" using eq [of k] by simp
  then obtain k' v' kvs'' where kvs': "kvs' = (k', v') # kvs''" by (cases kvs') auto
  have lt: "\<And>l. l \<in> fst ` set kvs \<Longrightarrow> k < l" "\<And>l. l \<in> fst ` set kvs'' \<Longrightarrow> k' < l"
    using Cons.prems kv kvs' by (auto simp: map_ok_Cons)
  have "map_of kvs' k' = Some v'" using kvs' by simp
  then have "k' = k \<or> k' \<in> fst ` set kvs" using eq [of k'] by (auto split: if_splits dest: map_of_SomeD intro: rev_image_eqI)
  moreover have "k = k' \<or> k \<in> fst ` set kvs''"
    using \<open>map_of kvs' k = Some v\<close> kvs' by (auto split: if_splits dest: map_of_SomeD intro: rev_image_eqI)
  ultimately have kk: "k' = k" using lt by (metis less_asym)
  then have vv: "v' = v" using eq [of k] kvs' by simp
  have "map_of kvs l = map_of kvs'' l" for l
  proof (cases "l = k")
    case True
    then have "l \<notin> fst ` set kvs" "l \<notin> fst ` set kvs''" using lt kk by auto
    then show ?thesis by (metis map_of_eq_None_iff)
  next
    case False
    then show ?thesis using eq [of l] kvs' kk by simp
  qed
  with Cons.IH [of kvs''] Cons.prems kv kvs' have "kvs = kvs''" by (auto simp: map_ok_Cons)
  with kv kvs' kk vv show ?case by simp
qed

interpretation btree: ordered_map "[] :: ('k::linorder \<times> 'v) list" map_insert map_of map_ok
  by unfold_locales (auto simp: map_ok_insert map_of_map_insert intro: map_ok_ext)

text \<open>A map built by inserting entries one after the other, as \<open>Map::insert\<close> calls do.\<close>

definition map_from :: "('k::linorder \<times> 'v) list \<Rightarrow> ('k \<times> 'v) list" where
  "map_from kvs = foldl (\<lambda>m (k, v). map_insert k v m) [] kvs"

lemma map_ok_from [simp]: "map_ok (map_from kvs)"
  by (simp add: map_from_def btree.inv_fold)

lemma map_of_map_from: "map_of (map_from kvs) k = map_of (rev kvs) k"
  by (simp add: map_from_def btree.look_fold split: option.splits)

lemma map_from_cong: "map_of (rev kvs) = map_of (rev kvs') \<Longrightarrow> map_from kvs = map_from kvs'"
  unfolding map_from_def by (rule btree.fold_cong)

lemma map_of_rev_distinct: "distinct (map fst kvs) \<Longrightarrow> map_of (rev kvs) = map_of kvs"
  by (rule map_of_inject_set [THEN iffD2]) (simp_all add: rev_map [symmetric])

lemma map_from_id: "map_ok kvs \<Longrightarrow> map_from kvs = kvs"
  by (rule map_ok_ext) (simp_all add: map_of_map_from map_of_rev_distinct map_ok_distinct)

section \<open>Values\<close>

text \<open>
  A number is a non-negative integer, a negative integer (read by \<open>sint\<close>), or a float kept as its
  bits: \<open>serde_json\<close>'s three cases.
\<close>

datatype number = PosInt u64 | NegInt u64 | Float u64

datatype json =
    JNull
  | JBool bool
  | JNumber number
  | JString string
  | JArray "json list"
  | JObject "(string \<times> json) list"

fun as_object :: "json \<Rightarrow> (string \<times> json) list option" where
  "as_object (JObject m) = Some m"
| "as_object _ = None"

fun as_array :: "json \<Rightarrow> json list option" where
  "as_array (JArray xs) = Some xs"
| "as_array _ = None"

fun as_str :: "json \<Rightarrow> string option" where
  "as_str (JString s) = Some s"
| "as_str _ = None"

fun as_bool :: "json \<Rightarrow> bool option" where
  "as_bool (JBool b) = Some b"
| "as_bool _ = None"

fun as_u64 :: "json \<Rightarrow> u64 option" where
  "as_u64 (JNumber (PosInt n)) = Some n"
| "as_u64 _ = None"

fun is_null :: "json \<Rightarrow> bool" where
  "is_null JNull = True"
| "is_null _ = False"

text \<open>\<open>Value::get\<close> with a key and with an index.\<close>

fun get_key :: "string \<Rightarrow> json \<Rightarrow> json option" where
  "get_key k (JObject m) = map_of m k"
| "get_key k _ = None"

fun get_index :: "nat \<Rightarrow> json \<Rightarrow> json option" where
  "get_index i (JArray xs) = (if i < length xs then Some (xs ! i) else None)"
| "get_index i _ = None"

text \<open>Every object of a \<open>Value\<close> is an ordered map.\<close>

fun json_ok :: "json \<Rightarrow> bool" where
  "json_ok (JArray xs) = list_all json_ok xs"
| "json_ok (JObject m) = (map_ok m \<and> list_all (\<lambda>(k, v). json_ok v) m)"
| "json_ok _ = True"

text \<open>
  A parsed text is first a document: the members of an object in text order, duplicates kept.
  Deserializing into \<open>Value\<close> inserts them one after the other, so the last duplicate wins.
\<close>

fun to_value :: "json \<Rightarrow> json" where
  "to_value (JArray xs) = JArray (map to_value xs)"
| "to_value (JObject m) = JObject (map_from (map (\<lambda>(k, v). (k, to_value v)) m))"
| "to_value v = v"

lemma set_map_insert: "set (map_insert k v m) \<subseteq> insert (k, v) (set m)"
  by (induction k v m rule: map_insert.induct) auto

lemma set_fold_insert: "set (foldl (\<lambda>m (k, v). map_insert k v m) m kvs) \<subseteq> set m \<union> set kvs"
proof (induction kvs arbitrary: m)
  case (Cons kv kvs)
  show ?case
    using Cons [of "map_insert (fst kv) (snd kv) m"] set_map_insert [of "fst kv" "snd kv" m]
    by (cases kv) auto
qed simp

lemma set_map_from: "set (map_from kvs) \<subseteq> set kvs"
  using set_fold_insert [of "[]" kvs] by (simp add: map_from_def)

lemma json_ok_to_value: "json_ok (to_value v)"
proof (induction v rule: to_value.induct)
  case (2 m)
  have "list_all (\<lambda>(k, v). json_ok v) (map (\<lambda>(k, v). (k, to_value v)) m)"
    using 2 by (auto simp: list_all_iff)
  then have "list_all (\<lambda>(k, v). json_ok v) (map_from (map (\<lambda>(k, v). (k, to_value v)) m))"
    using set_map_from by (fastforce simp: list_all_iff)
  then show ?case by simp
qed (auto simp: list_all_iff)

lemma to_value_id: "json_ok v \<Longrightarrow> to_value v = v"
proof (induction v rule: to_value.induct)
  case (2 m)
  have "map (\<lambda>(k, v). (k, to_value v)) m = m"
    using 2 by (auto simp: list_all_iff intro!: map_idI)
  with 2 show ?case by (simp add: map_from_id)
qed (auto simp: list_all_iff intro: map_idI)

lemma to_value_idem [simp]: "to_value (to_value v) = to_value v"
  by (rule to_value_id) (rule json_ok_to_value)

section \<open>Building values\<close>

text \<open>The \<open>json!\<close> macro: an object by insertions, an absent option as null.\<close>

definition json_object :: "(string \<times> json) list \<Rightarrow> json" where
  "json_object kvs = JObject (map_from kvs)"

definition json_option :: "('a \<Rightarrow> json) \<Rightarrow> 'a option \<Rightarrow> json" where
  "json_option f x = (case x of None \<Rightarrow> JNull | Some v \<Rightarrow> f v)"

lemma get_key_json_object [simp]: "get_key k (json_object kvs) = map_of (rev kvs) k"
  by (simp add: json_object_def map_of_map_from)

lemma json_option_simps [simp]: "json_option f None = JNull" "json_option f (Some v) = f v"
  by (simp_all add: json_option_def)

end
