(* ===== verification/Transport.thy ===== *)
theory Transport
  imports Json
begin

text \<open>
  \<open>keetanetwork-anchor-client/src/transport\<close> and the transport part of \<open>error.rs\<close>: the completed
  HTTP response, the \<open>Retry-After\<close> value with its parser and printer, and the failures of a
  transport. The HTTP clients themselves (\<open>reqwest\<close>, \<open>wstd\<close>) are third-party; the components that
  send requests take the transport as a parameter.
\<close>

section \<open>Retry-After\<close>

datatype retry_after = Seconds u64 | HttpDate string

datatype empty_retry_after = EmptyRetryAfter

definition ms_per_second :: u64 where
  "ms_per_second = 1000"

fun to_millis :: "retry_after \<Rightarrow> u64 option" where
  "to_millis (Seconds s) = Some (saturating_mul s ms_per_second)"
| "to_millis (HttpDate _) = None"

definition retry_after_from_str :: "string \<Rightarrow> empty_retry_after + retry_after" where
  "retry_after_from_str value =
     (let trimmed = trim value in
        if trimmed = [] then Inl EmptyRetryAfter
        else Inr (case parse_uint (2 ^ 64) trimmed of
                    None \<Rightarrow> HttpDate trimmed
                  | Some n \<Rightarrow> Seconds (word_of_nat n)))"

fun retry_after_display :: "retry_after \<Rightarrow> string" where
  "retry_after_display (Seconds s) = show_nat (unat s)"
| "retry_after_display (HttpDate d) = d"

section \<open>Responses\<close>

record http_response =
  resp_status :: u16
  resp_body :: bytes
  resp_retry_after :: "retry_after option"

definition http_response_new :: "u16 \<Rightarrow> bytes \<Rightarrow> http_response" where
  "http_response_new st b = \<lparr>resp_status = st, resp_body = b, resp_retry_after = None\<rparr>"

definition with_retry_after :: "http_response \<Rightarrow> retry_after option \<Rightarrow> http_response" where
  "with_retry_after r ra = r\<lparr>resp_retry_after := ra\<rparr>"

definition is_success :: "http_response \<Rightarrow> bool" where
  "is_success r \<longleftrightarrow> 200 \<le> resp_status r \<and> resp_status r < 300"

text \<open>
  The header lookup of the two backends: absent, unreadable and empty headers are no hint.
  The header is the readable value, when there is one.
\<close>

definition parse_retry_after :: "string option \<Rightarrow> retry_after option" where
  "parse_retry_after header =
     (case header of None \<Rightarrow> None | Some v \<Rightarrow> ok (retry_after_from_str v))"

definition into_response :: "u16 \<Rightarrow> string option \<Rightarrow> bytes \<Rightarrow> http_response" where
  "into_response st header b = with_retry_after (http_response_new st b) (parse_retry_after header)"

section \<open>Failures\<close>

datatype transport_error =
    TRequest string
  | TInvalidUrl string
  | TResilience resilience_error
and resilience_error =
    RateLimited u64
  | RetryExhausted u32 u64 transport_error

fun resilience_retryable :: "resilience_error \<Rightarrow> bool" where
  "resilience_retryable (RateLimited _) = True"
| "resilience_retryable (RetryExhausted _ _ _) = False"

fun resilience_status :: "resilience_error \<Rightarrow> u16" where
  "resilience_status (RateLimited _) = 429"
| "resilience_status (RetryExhausted _ _ _) = 500"

fun resilience_retry_after_ms :: "resilience_error \<Rightarrow> u64 option" where
  "resilience_retry_after_ms (RateLimited ms) = Some ms"
| "resilience_retry_after_ms (RetryExhausted _ _ _) = None"

fun transient :: "transport_error \<Rightarrow> bool" where
  "transient (TRequest _) = True"
| "transient _ = False"

definition retryable_status :: "u16 \<Rightarrow> bool" where
  "retryable_status st \<longleftrightarrow> (st = 408 \<or> st = 429) \<or> (500 \<le> st \<and> st < 600)"

section \<open>The transport interface\<close>

text \<open>\<open>AnchorHttpTransport\<close>: sending threads a world \<open>'w\<close>, the state of everything outside.\<close>

type_synonym 'w operation = "'w \<Rightarrow> (transport_error + http_response) \<times> 'w"

record 'w transport =
  t_get :: "string \<Rightarrow> 'w operation"
  t_post :: "string \<Rightarrow> bytes \<Rightarrow> 'w operation"

section \<open>Facts\<close>

lemma is_ascii_digit_ascii: "is_ascii_digit c \<Longrightarrow> is_ascii c"
  by (simp add: is_ascii_digit_def is_ascii_def)

lemma digit_not_whitespace: "is_ascii_digit c \<Longrightarrow> \<not> whitespace_char [c]"
  by (auto simp: whitespace_char_def is_whitespace_def scalar_value_def is_ascii_digit_def Let_def)

lemma trim_digits: "list_all is_ascii_digit ds \<Longrightarrow> trim ds = ds"
proof -
  assume d: "list_all is_ascii_digit ds"
  then have a: "list_all is_ascii ds" by (auto simp: list_all_iff is_ascii_digit_ascii)
  have "trim_chars (map (\<lambda>c. [c]) ds) = map (\<lambda>c. [c]) ds"
    using d by (cases "ds = []")
      (auto simp: list_all_iff hd_map last_map digit_not_whitespace intro!: trim_chars_id)
  moreover have "concat (map (\<lambda>c. [c]) ds) = ds" by (induction ds) auto
  ultimately show ?thesis by (simp add: trim_def utf8_chars_ascii [OF a])
qed

lemma retry_after_seconds_roundtrip:
  "retry_after_from_str (retry_after_display (Seconds s)) = Inr (Seconds s)"
proof -
  have "unat s < 2 ^ 64" using unsigned_less [of s, where ?'a = nat] by simp
  then show ?thesis
    by (simp add: retry_after_from_str_def trim_digits show_nat_digits show_nat_nonempty
        parse_show_nat Let_def del: power_numeral)
qed

lemma retry_after_from_str_trimmed:
  "retry_after_from_str v = Inr r \<Longrightarrow> trim v \<noteq> []"
  by (auto simp: retry_after_from_str_def Let_def split: if_splits)

text \<open>A value that parses prints back to itself up to the surrounding white space, unless it is a
  decimal with a plus sign or leading zeros, which prints in canonical form.\<close>

lemma retry_after_reparse:
  assumes wf: "utf8_wf v" and p: "retry_after_from_str v = Inr r"
  shows "retry_after_from_str (retry_after_display r) = Inr r"
proof (cases r)
  case (Seconds s)
  then show ?thesis using retry_after_seconds_roundtrip by simp
next
  case (HttpDate d)
  with p have d: "d = trim v" "trim v \<noteq> []" "parse_uint (2 ^ 64) (trim v) = None"
    by (auto simp: retry_after_from_str_def Let_def split: if_splits option.splits)
  with trim_idem [OF wf] HttpDate show ?thesis by (simp add: retry_after_from_str_def Let_def)
qed

lemma retryable_not_success: "retryable_status (resp_status r) \<Longrightarrow> \<not> is_success r"
  by (auto simp: retryable_status_def is_success_def word_le_nat_alt word_less_nat_alt)

section \<open>Properties\<close>

text \<open>Parsing a \<open>Retry-After\<close> value and printing it back is stable: what a header parsed to
  prints to a value that parses to the same again, for seconds (whatever plus sign, leading zeros or
  white space the header had) and for dates.\<close>

lemma retry_after_roundtrip:
  assumes "utf8_wf v" and "retry_after_from_str v = Inr r"
  shows "retry_after_from_str (retry_after_display r) = Inr r"
  using assms by (rule retry_after_reparse)

lemma padded_header: "retry_after_from_str '' +030 '' = Inr (Seconds 30)"
  by (simp add: retry_after_from_str_def trim_def trim_chars_def whitespace_char_def is_whitespace_def
      scalar_value_def utf8_len_def parse_uint_def is_ascii_digit_def digits_val_def digit_val_def Let_def)

end
