(* ===== verification/Backoff.thy ===== *)
theory Backoff
  imports Prelude
begin

text \<open>
  \<open>keetanetwork-anchor-client/src/resilience/backoff.rs\<close> and \<open>lease.rs\<close>: the truncated
  exponential schedule, the jitter that perturbs a delay, and the lease work budget. Attempts are
  \<open>u32\<close>, delays \<open>u64\<close> milliseconds; a panic of the code is \<open>None\<close>.
\<close>

section \<open>The schedule\<close>

record backoff =
  base_ms :: u64
  factor :: u32
  max_ms :: u64
  max_retries :: "u32 option"

definition default_backoff :: backoff where
  "default_backoff = \<lparr>base_ms = 500, factor = 2, max_ms = 30000, max_retries = None\<rparr>"

definition delay :: "backoff \<Rightarrow> u32 \<Rightarrow> u64 option" where
  "delay b attempt =
     (if (case max_retries b of None \<Rightarrow> False | Some m \<Rightarrow> m \<le> attempt) then None
      else
        let growth = (case checked_pow (ucast (factor b) :: u64) (unat attempt) of
                        None \<Rightarrow> u64_max | Some g \<Rightarrow> g)
        in Some (min (saturating_mul (base_ms b) growth) (max_ms b)))"

definition with_base_ms :: "backoff \<Rightarrow> u64 \<Rightarrow> backoff" where
  "with_base_ms b v = b\<lparr>base_ms := v\<rparr>"

definition with_factor :: "backoff \<Rightarrow> u32 \<Rightarrow> backoff" where
  "with_factor b v = b\<lparr>factor := v\<rparr>"

definition with_max_ms :: "backoff \<Rightarrow> u64 \<Rightarrow> backoff" where
  "with_max_ms b v = b\<lparr>max_ms := v\<rparr>"

definition with_max_retries :: "backoff \<Rightarrow> u32 \<Rightarrow> backoff" where
  "with_max_retries b v = b\<lparr>max_retries := Some v\<rparr>"

section \<open>Jitter\<close>

datatype jitter = NoJitter | Full | Equal

text \<open>
  \<open>max + 1\<close> overflows at \<open>u64::MAX\<close>: with overflow checks the addition panics, without them the
  divisor is zero and the remainder panics.
\<close>

definition bounded :: "u64 \<Rightarrow> u64 \<Rightarrow> u64 option" where
  "bounded rand mx =
     (if mx = 0 then Some 0
      else case checked_add mx 1 of None \<Rightarrow> None | Some d \<Rightarrow> Some (rand mod d))"

fun jitter_apply :: "jitter \<Rightarrow> u64 \<Rightarrow> u64 \<Rightarrow> u64 option" where
  "jitter_apply NoJitter delay_ms rand = Some delay_ms"
| "jitter_apply Full delay_ms rand = bounded rand delay_ms"
| "jitter_apply Equal delay_ms rand =
     (let floor = delay_ms div 2
      in case bounded rand (delay_ms - floor) of None \<Rightarrow> None | Some r \<Rightarrow> checked_add floor r)"

section \<open>Leases\<close>

definition default_lease_ms :: u64 where
  "default_lease_ms = 30000"

definition max_abort_margin_ms :: u64 where
  "max_abort_margin_ms = 5000"

definition lease_work_budget_ms :: "u64 \<Rightarrow> u64" where
  "lease_work_budget_ms lease_ms =
     (let margin = min max_abort_margin_ms (lease_ms div 10)
      in saturating_sub lease_ms margin)"

section \<open>Facts\<close>

lemma unat_ucast_u32_u64: "unat (ucast (x :: u32) :: u64) = unat x"
proof -
  have "unat x < 2 ^ 32" using unsigned_less [of x, where ?'a = nat] by simp
  then have "unat x < 2 ^ 64" by simp
  then show ?thesis by (simp add: unsigned_ucast_eq take_bit_nat_eq_self_iff)
qed

text \<open>
  The saturating arithmetic never shows: the delay is the exact truncated exponential.
\<close>

lemma delay_exact:
  assumes "delay b attempt = Some d"
  shows "unat d = min (unat (base_ms b) * unat (factor b) ^ unat attempt) (unat (max_ms b))"
proof -
  let ?f = "ucast (factor b) :: u64" and ?n = "unat attempt"
  have m: "unat (max_ms b) \<le> 2 ^ 64 - 1" using unat_le_max [of "max_ms b"] by simp
  have bm: "unat (base_ms b) \<le> 2 ^ 64 - 1" using unat_le_max [of "base_ms b"] by simp
  show ?thesis
  proof (cases "checked_pow ?f ?n")
    case None
    then have big: "2 ^ 64 \<le> unat (factor b) ^ ?n"
      by (simp add: checked_pow_def unat_ucast_u32_u64 split: if_splits)
    have d: "unat d = min (min (unat (base_ms b) * (2 ^ 64 - 1)) (2 ^ 64 - 1)) (unat (max_ms b))"
      using assms None by (auto simp: delay_def rust_arith unat_max_word Let_def split: if_splits)
    show ?thesis
    proof (cases "unat (base_ms b) = 0")
      case True
      with d show ?thesis by simp
    next
      case False
      then have "unat (factor b) ^ ?n \<le> unat (base_ms b) * unat (factor b) ^ ?n" by simp
      with big have "unat (max_ms b) \<le> unat (base_ms b) * unat (factor b) ^ ?n" using m by linarith
      moreover from False have "(2::nat) ^ 64 - 1 \<le> unat (base_ms b) * (2 ^ 64 - 1)" by simp
      ultimately show ?thesis using d m by simp
    qed
  next
    case (Some g)
    then have "unat g = unat (factor b) ^ ?n" by (simp add: checked_pow_Some unat_ucast_u32_u64)
    moreover have "d = min (saturating_mul (base_ms b) g) (max_ms b)"
      using assms Some by (auto simp: delay_def Let_def split: if_splits)
    ultimately have "unat d = min (min (unat (base_ms b) * unat (factor b) ^ ?n) (2 ^ 64 - 1)) (unat (max_ms b))"
      by (simp add: rust_arith)
    with m show ?thesis by linarith
  qed
qed

lemma delay_None: "delay b attempt = None \<longleftrightarrow> (\<exists>m. max_retries b = Some m \<and> m \<le> attempt)"
  by (auto simp: delay_def Let_def split: option.splits)

lemma delay_le_max: "delay b attempt = Some d \<Longrightarrow> d \<le> max_ms b"
  by (simp add: word_le_nat_alt delay_exact)

lemma delay_mono:
  assumes "0 < factor b" "m \<le> n" "delay b m = Some d" "delay b n = Some e"
  shows "d \<le> e"
proof -
  have "1 \<le> unat (factor b)" using assms(1) by (simp add: word_less_nat_alt)
  then have "unat (factor b) ^ unat m \<le> unat (factor b) ^ unat n"
    using assms(2) by (simp add: power_increasing word_le_nat_alt)
  then have "unat (base_ms b) * unat (factor b) ^ unat m \<le> unat (base_ms b) * unat (factor b) ^ unat n"
    by (rule mult_le_mono2)
  then show ?thesis
    unfolding word_le_nat_alt delay_exact [OF assms(3)] delay_exact [OF assms(4)]
    by (intro min.mono) simp_all
qed

lemma bounded_le: "bounded r mx = Some v \<Longrightarrow> v \<le> mx"
proof (cases "mx = 0")
  case False
  assume b: "bounded r mx = Some v"
  with False obtain d where d: "checked_add mx 1 = Some d" "v = r mod d"
    by (auto simp: bounded_def split: option.splits)
  then have "unat d = unat mx + 1" using checked_add_Some by fastforce
  then have "unat v < unat mx + 1" using d(2) by (simp add: unat_mod_distrib)
  then show ?thesis by (simp add: word_le_nat_alt)
qed (simp add: bounded_def)

lemma bounded_None: "bounded r mx = None \<longleftrightarrow> mx = u64_max"
proof -
  have "checked_add mx 1 = None \<longleftrightarrow> mx = u64_max"
    using unat_le_max [of mx]
    by (auto simp: checked_add_def word_eq_iff_unat unat_max_word)
  then show ?thesis by (auto simp: bounded_def split: option.splits)
qed

lemma jitter_full_surj: "v \<le> d \<Longrightarrow> d \<noteq> u64_max \<Longrightarrow> jitter_apply Full d v = Some v"
proof (cases "d = 0")
  case False
  assume v: "v \<le> d" "d \<noteq> u64_max"
  then obtain e where e: "checked_add d 1 = Some e"
    using bounded_None [of 0 d] False by (auto simp: bounded_def split: option.splits)
  then have "unat e = unat d + 1" using checked_add_Some by fastforce
  then have "v mod e = v" using v by (simp add: word_eq_iff_unat unat_mod_distrib word_le_nat_alt)
  with e False show ?thesis by (simp add: bounded_def)
qed (simp add: bounded_def)

lemma unat_half: "unat (d div 2) = unat d div 2" for d :: u64
  by (simp add: unat_div_distrib)

lemma jitter_equal_bounds:
  assumes "jitter_apply Equal d r = Some v"
  shows "unat d div 2 \<le> unat v \<and> v \<le> d"
proof -
  obtain w where w: "bounded r (d - d div 2) = Some w" "checked_add (d div 2) w = Some v"
    using assms by (auto simp: Let_def split: option.splits)
  have "d div 2 \<le> d" by (simp add: word_le_nat_alt unat_half)
  then have "unat (d - d div 2) = unat d - unat d div 2" by (simp add: unat_sub unat_half)
  with bounded_le [OF w(1)] have "unat w \<le> unat d - unat d div 2" by (simp add: word_le_nat_alt)
  with checked_add_Some [OF w(2)] show ?thesis by (simp add: unat_half word_le_nat_alt)
qed

lemma jitter_le: "jitter_apply j d r = Some v \<Longrightarrow> v \<le> d"
  by (cases j) (auto simp: bounded_le dest: jitter_equal_bounds simp del: jitter_apply.simps(3))

lemma jitter_equal_total: "jitter_apply Equal d r \<noteq> None"
proof -
  have h: "d div 2 \<le> d" by (simp add: word_le_nat_alt unat_half)
  then have s: "unat (d - d div 2) = unat d - unat d div 2" by (simp add: unat_sub unat_half)
  moreover have "unat d \<le> 2 ^ 64 - 1" using unat_le_max [of d] by simp
  ultimately have "d - d div 2 \<noteq> u64_max" by (auto simp: word_eq_iff_unat unat_max_word)
  then obtain w where w: "bounded r (d - d div 2) = Some w" using bounded_None [of r "d - d div 2"] by auto
  have "unat w \<le> unat d - unat d div 2" using bounded_le [OF w] s by (simp add: word_le_nat_alt)
  then have "unat (d div 2) + unat w < 2 ^ 64" using unsigned_less [of d, where ?'a = nat]
    by (simp add: unat_half)
  with w show ?thesis by (simp add: Let_def checked_add_def)
qed

lemma jitter_panics: "jitter_apply j d r = None \<longleftrightarrow> j = Full \<and> d = u64_max"
  using jitter_equal_total by (cases j) (auto simp: bounded_None simp del: jitter_apply.simps(3))

lemma lease_budget:
  "unat (lease_work_budget_ms l) = unat l - min 5000 (unat l div 10)"
  by (simp add: lease_work_budget_ms_def rust_arith max_abort_margin_ms_def unat_div_distrib Let_def)

lemma lease_budget_positive: "0 < l \<Longrightarrow> 0 < lease_work_budget_ms l \<and> lease_work_budget_ms l \<le> l"
  by (auto simp: word_less_nat_alt word_le_nat_alt lease_budget min_def)

section \<open>Properties\<close>

text \<open>The delay of an attempt is the exact truncated exponential
  \<open>min (base * factor ^ attempt) max\<close> over the naturals, for every attempt below the retry ceiling
  and none at or beyond it: the saturating and checked arithmetic on \<open>u64\<close> never shows.\<close>

lemma backoff_schedule:
  "map_option unat (delay b n) =
     (if \<exists>m. max_retries b = Some m \<and> m \<le> n then None
      else Some (min (unat (base_ms b) * unat (factor b) ^ unat n) (unat (max_ms b))))"
  using delay_exact [of b n] delay_None [of b n] by (cases "delay b n") auto

text \<open>Jitter only ever shortens a delay: \<open>Full\<close> draws from \<open>[0, delay]\<close>, \<open>Equal\<close> from
  \<open>[delay / 2, delay]\<close>, \<open>None\<close> keeps it. It panics on exactly one input, \<open>Full\<close> jitter of the delay
  \<open>u64::MAX\<close>, where \<open>max + 1\<close> overflows.\<close>

lemma jitter_range:
  "(jitter_apply j d r = None \<longleftrightarrow> j = Full \<and> d = u64_max)
   \<and> (case jitter_apply j d r of
        None \<Rightarrow> True
      | Some v \<Rightarrow> (case j of
            NoJitter \<Rightarrow> v = d
          | Full \<Rightarrow> v \<le> d
          | Equal \<Rightarrow> unat d div 2 \<le> unat v \<and> v \<le> d))"
proof (intro conjI jitter_panics)
  show "case jitter_apply j d r of None \<Rightarrow> True
      | Some v \<Rightarrow> (case j of NoJitter \<Rightarrow> v = d | Full \<Rightarrow> v \<le> d | Equal \<Rightarrow> unat d div 2 \<le> unat v \<and> v \<le> d)"
    using bounded_le [of r d] jitter_equal_bounds [of d r]
    by (cases j) (auto split: option.splits simp del: jitter_apply.simps(3))
qed

end
