(* ===== verification/RateLimit.thy ===== *)
theory RateLimit
  imports Prelude
begin

text \<open>
  \<open>keetanetwork-anchor-client/src/resilience/rate_limit.rs\<close>: the token bucket, in millitokens on
  \<open>u64\<close>. Its contract to the transport decorator is the locale \<open>rate_limiter\<close>: a take that fails
  names a wait, and a take after that wait succeeds.
\<close>

definition millitokens_per_token :: u64 where
  "millitokens_per_token = 1000"

record token_bucket =
  capacity_millitokens :: u64
  refill_per_sec :: u64
  tokens_millitokens :: u64
  last_ms :: u64

definition bucket_new :: "u32 \<Rightarrow> u32 \<Rightarrow> u64 \<Rightarrow> token_bucket" where
  "bucket_new cap refill_rate now_ms =
     (let cap_mt = saturating_mul (ucast cap) millitokens_per_token
      in \<lparr>capacity_millitokens = cap_mt, refill_per_sec = ucast refill_rate,
          tokens_millitokens = cap_mt, last_ms = now_ms\<rparr>)"

definition refill :: "token_bucket \<Rightarrow> u64 \<Rightarrow> token_bucket" where
  "refill b now_ms =
     (let elapsed_ms = saturating_sub now_ms (last_ms b) in
        if elapsed_ms = 0 then b
        else
          let gained = saturating_mul elapsed_ms (refill_per_sec b) in
          b\<lparr>tokens_millitokens :=
               min (saturating_add (tokens_millitokens b) gained) (capacity_millitokens b),
            last_ms := now_ms\<rparr>)"

definition div_ceil :: "u64 \<Rightarrow> u64 \<Rightarrow> u64" where
  "div_ceil a b = (if a mod b = 0 then a div b else a div b + 1)"

definition try_take :: "token_bucket \<Rightarrow> u64 \<Rightarrow> (u64 + unit) \<times> token_bucket" where
  "try_take b now_ms =
     (let b = refill b now_ms in
        if millitokens_per_token \<le> tokens_millitokens b then
          (Inr (), b\<lparr>tokens_millitokens := tokens_millitokens b - millitokens_per_token\<rparr>)
        else
          let deficit = millitokens_per_token - tokens_millitokens b in
          if refill_per_sec b = 0 then (Inl u64_max, b)
          else (Inl (div_ceil deficit (refill_per_sec b)), b))"

definition available :: "token_bucket \<Rightarrow> u64 \<Rightarrow> u32 \<times> token_bucket" where
  "available b now_ms =
     (let b = refill b now_ms in
        (case try_narrow (tokens_millitokens b div millitokens_per_token) of
           None \<Rightarrow> u32_max | Some n \<Rightarrow> n, b))"

section \<open>Invariant and refinement of the refill\<close>

definition bucket_ok :: "token_bucket \<Rightarrow> bool" where
  "bucket_ok b \<longleftrightarrow> tokens_millitokens b \<le> capacity_millitokens b"

lemma bucket_ok_new: "bucket_ok (bucket_new c r t)"
  by (simp add: bucket_ok_def bucket_new_def Let_def)

lemma bucket_ok_refill: "bucket_ok b \<Longrightarrow> bucket_ok (refill b now)"
  by (simp add: bucket_ok_def refill_def Let_def)

lemma refill_frame [simp]:
  "capacity_millitokens (refill b now) = capacity_millitokens b"
  "refill_per_sec (refill b now) = refill_per_sec b"
  by (simp_all add: refill_def Let_def)

lemma saturating_sub_0: "saturating_sub a b = 0 \<longleftrightarrow> a \<le> b" for a b :: "'a::len word"
  by (simp add: word_eq_iff_unat rust_arith word_le_nat_alt)

lemma last_refill: "last_ms (refill b now) = max (last_ms b) now"
  by (auto simp: refill_def Let_def saturating_sub_0 max_def)

text \<open>The refill is the exact linear refill capped at the capacity: no saturation shows.\<close>

lemma tokens_refill:
  assumes "bucket_ok b"
  shows "unat (tokens_millitokens (refill b now)) =
    min (unat (tokens_millitokens b) + (unat now - unat (last_ms b)) * unat (refill_per_sec b))
        (unat (capacity_millitokens b))"
proof (cases "now \<le> last_ms b")
  case True
  then show ?thesis using assms
    by (simp add: refill_def Let_def saturating_sub_0 [THEN iffD2] bucket_ok_def word_le_nat_alt)
next
  case False
  have "unat (capacity_millitokens b) \<le> 2 ^ 64 - 1" using unat_le_max [of "capacity_millitokens b"] by simp
  moreover have "unat (tokens_millitokens (refill b now)) =
      min (min (unat (tokens_millitokens b)
        + min ((unat now - unat (last_ms b)) * unat (refill_per_sec b)) (2 ^ 64 - 1)) (2 ^ 64 - 1))
        (unat (capacity_millitokens b))"
    using False by (simp add: refill_def Let_def saturating_sub_0 rust_arith)
  ultimately show ?thesis by linarith
qed

lemma bucket_ok_try_take: "bucket_ok b \<Longrightarrow> bucket_ok (snd (try_take b now))"
  using bucket_ok_refill [of b now]
  by (auto simp: try_take_def Let_def bucket_ok_def word_le_nat_alt unat_sub)

lemma try_take_frame [simp]:
  "capacity_millitokens (snd (try_take b now)) = capacity_millitokens b"
  "refill_per_sec (snd (try_take b now)) = refill_per_sec b"
  "last_ms (snd (try_take b now)) = max (last_ms b) now"
  by (simp_all add: try_take_def Let_def last_refill)

lemma try_take_ok_iff:
  "is_ok (fst (try_take b now)) \<longleftrightarrow> 1000 \<le> unat (tokens_millitokens (refill b now))"
  by (simp add: try_take_def Let_def millitokens_per_token_def word_le_nat_alt)

lemma try_take_tokens:
  "unat (tokens_millitokens (snd (try_take b now))) =
     unat (tokens_millitokens (refill b now)) - (if is_ok (fst (try_take b now)) then 1000 else 0)"
  by (simp add: try_take_def Let_def millitokens_per_token_def unat_sub word_le_nat_alt)

section \<open>The rate bound\<close>

text \<open>The number of takes that succeed in a sequence of takes at the given clock readings.\<close>

fun takes :: "token_bucket \<Rightarrow> u64 list \<Rightarrow> nat \<times> token_bucket" where
  "takes b [] = (0, b)"
| "takes b (t # ts) =
     (let (r, b') = try_take b t; (n, b'') = takes b' ts
      in ((if is_ok r then Suc n else n), b''))"

lemma try_take_budget:
  assumes "bucket_ok b"
  shows "(if is_ok (fst (try_take b now)) then 1000 else 0)
      + unat (tokens_millitokens (snd (try_take b now)))
    \<le> unat (tokens_millitokens b) + (unat (max (last_ms b) now) - unat (last_ms b)) * unat (refill_per_sec b)"
proof -
  have "(if is_ok (fst (try_take b now)) then 1000 else 0)
      + unat (tokens_millitokens (snd (try_take b now))) = unat (tokens_millitokens (refill b now))"
    using try_take_ok_iff [of b now] by (simp add: try_take_tokens)
  moreover have "unat (max (last_ms b) now) - unat (last_ms b) = unat now - unat (last_ms b)"
    by (simp add: rust_arith)
  ultimately show ?thesis by (simp add: tokens_refill [OF assms])
qed

lemma takes_budget:
  "bucket_ok b \<Longrightarrow> takes b ts = (n, b') \<Longrightarrow>
   1000 * n + unat (tokens_millitokens b')
     \<le> unat (tokens_millitokens b) + (unat (last_ms b') - unat (last_ms b)) * unat (refill_per_sec b)
   \<and> last_ms b \<le> last_ms b' \<and> (\<forall>T. last_ms b \<le> T \<and> (\<forall>t \<in> set ts. t \<le> T) \<longrightarrow> last_ms b' \<le> T)"
proof (induction ts arbitrary: b n)
  case Nil
  then show ?case by simp
next
  case (Cons t ts)
  let ?b = "snd (try_take b t)" and ?r = "unat (refill_per_sec b)"
  obtain m b0 where m0: "takes ?b ts = (m, b0)" by (cases "takes ?b ts")
  with Cons.prems(2) have m: "takes ?b ts = (m, b')"
    and n: "n = (if is_ok (fst (try_take b t)) then Suc m else m)"
    by (auto simp: split_beta Let_def)
  have IH: "1000 * m + unat (tokens_millitokens b')
      \<le> unat (tokens_millitokens ?b) + (unat (last_ms b') - unat (max (last_ms b) t)) * ?r"
    "max (last_ms b) t \<le> last_ms b'"
    "\<And>T. max (last_ms b) t \<le> T \<Longrightarrow> (\<forall>t \<in> set ts. t \<le> T) \<Longrightarrow> last_ms b' \<le> T"
    using Cons.IH [OF bucket_ok_try_take [OF Cons.prems(1)] m] by auto
  have le: "unat (last_ms b) \<le> unat (max (last_ms b) t)" "unat (max (last_ms b) t) \<le> unat (last_ms b')"
    using IH(2) by (simp_all add: word_le_nat_alt rust_arith)
  have "(unat (max (last_ms b) t) - unat (last_ms b)) * ?r + (unat (last_ms b') - unat (max (last_ms b) t)) * ?r
      = (unat (last_ms b') - unat (last_ms b)) * ?r"
    using le by (simp add: add_mult_distrib [symmetric])
  with IH(1) try_take_budget [OF Cons.prems(1), of t] n
  have "1000 * n + unat (tokens_millitokens b')
      \<le> unat (tokens_millitokens b) + (unat (last_ms b') - unat (last_ms b)) * ?r"
    by (auto split: if_splits)
  moreover have "last_ms b \<le> last_ms b'" using IH(2) by simp
  moreover have "last_ms b' \<le> T" if "last_ms b \<le> T" "\<forall>u \<in> set (t # ts). u \<le> T" for T
    using that by (intro IH(3)) auto
  ultimately show ?case by blast
qed

section \<open>The wait a failed take names\<close>

lemma ceil_le_iff: "0 < r \<Longrightarrow> (if d mod r = 0 then d div r else d div r + 1) \<le> x \<longleftrightarrow> d \<le> x * r"
  for d r x :: nat
proof -
  assume r: "0 < r"
  have d: "d = d div r * r + d mod r" by simp
  show ?thesis
  proof (cases "d mod r = 0")
    case True
    with d have "d = d div r * r" by simp
    with r True show ?thesis by (metis mult_le_cancel2)
  next
    case False
    have "d \<le> x * r \<longleftrightarrow> d div r < x"
    proof
      assume "d \<le> x * r"
      moreover have "d \<noteq> x * r" using False by auto
      ultimately show "d div r < x" using r by (simp add: less_mult_imp_div_less)
    next
      assume "d div r < x"
      then have "(d div r + 1) * r \<le> x * r" by (intro mult_le_mono1) simp
      moreover have "d mod r < r" using r by simp
      ultimately show "d \<le> x * r" using d unfolding add_mult_distrib by linarith
    qed
    with False show ?thesis by auto
  qed
qed

lemma unat_div_ceil:
  assumes "b \<noteq> 0" "unat a \<le> 1000"
  shows "unat (div_ceil a b) =
    (if unat a mod unat b = 0 then unat a div unat b else unat a div unat b + 1)"
proof -
  have "unat a div unat b \<le> 1000" using assms(2) div_le_dividend [of "unat a" "unat b"] by linarith
  then have "unat (a div b + 1) = unat a div unat b + 1"
    by (simp add: unat_word_ariths unat_div_distrib)
  moreover have "a mod b = 0 \<longleftrightarrow> unat a mod unat b = 0"
    by (simp add: word_eq_iff_unat unat_mod_distrib)
  ultimately show ?thesis by (simp add: div_ceil_def unat_div_distrib)
qed

lemma div_ceil_le:
  assumes "b \<noteq> 0" "unat a \<le> 1000"
  shows "unat (div_ceil a b) \<le> x \<longleftrightarrow> unat a \<le> x * unat b"
  unfolding unat_div_ceil [OF assms] by (rule ceil_le_iff) (simp add: assms(1) unat_gt_0)

lemma wait_exact:
  assumes ok: "bucket_ok b" and cap: "1000 \<le> unat (capacity_millitokens b)"
    and fail: "try_take b now = (Inl w, b')" and w: "w \<noteq> u64_max"
    and t: "last_ms b' \<le> t"
  shows "is_ok (fst (try_take b' t)) \<longleftrightarrow> unat w \<le> unat t - unat (last_ms b')"
proof -
  let ?rb = "refill b now" and ?r = "unat (refill_per_sec b)"
  have b': "b' = ?rb" and low: "unat (tokens_millitokens ?rb) < 1000" and r: "refill_per_sec b \<noteq> 0"
    and weq: "w = div_ceil (millitokens_per_token - tokens_millitokens ?rb) (refill_per_sec b)"
    using fail w by (auto simp: try_take_def Let_def millitokens_per_token_def word_le_nat_alt split: if_splits)
  have def: "unat (millitokens_per_token - tokens_millitokens ?rb) = 1000 - unat (tokens_millitokens ?rb)"
    using low by (simp add: millitokens_per_token_def unat_sub word_le_nat_alt)
  have r0: "0 < ?r" using r by (simp add: unat_gt_0)
  let ?x = "unat t - unat (last_ms b')"
  have "unat w \<le> ?x \<longleftrightarrow> 1000 - unat (tokens_millitokens ?rb) \<le> ?x * ?r"
    unfolding weq by (simp add: div_ceil_le r def)
  moreover have "is_ok (fst (try_take b' t)) \<longleftrightarrow> 1000 \<le> unat (tokens_millitokens ?rb) + ?x * ?r"
    using cap unfolding try_take_ok_iff b' by (simp add: tokens_refill [OF bucket_ok_refill [OF ok]])
  ultimately show ?thesis using low by linarith
qed

section \<open>The contract of a rate limiter\<close>

text \<open>
  What the transport decorator relies on: takes keep the limiter's invariant, a failed take at
  \<open>now\<close> names a finite wait, and the take is granted exactly from that wait on.
\<close>

locale rate_limiter =
  fixes take :: "'l \<Rightarrow> u64 \<Rightarrow> (u64 + unit) \<times> 'l"
    and valid :: "'l \<Rightarrow> bool"
    and clock :: "'l \<Rightarrow> u64"
  assumes take_valid: "valid l \<Longrightarrow> valid (snd (take l now))"
    and take_clock: "valid l \<Longrightarrow> clock l \<le> now \<Longrightarrow> clock (snd (take l now)) = now"
    and wait_pos: "valid l \<Longrightarrow> take l now = (Inl w, l') \<Longrightarrow> 0 < unat w \<and> unat w \<le> 1000"
    and wait_enough: "valid l \<Longrightarrow> take l now = (Inl w, l') \<Longrightarrow> clock l' \<le> t \<Longrightarrow>
      is_ok (fst (take l' t)) \<longleftrightarrow> unat w \<le> unat t - unat (clock l')"
begin

text \<open>One failed take, a sleep of at least the wait it named, and the next take is granted.\<close>

lemma granted_after_wait:
  assumes "valid l" "clock l \<le> now" "take l now = (Inl w, l')" "unat now + unat w \<le> unat t"
  shows "\<exists>l''. take l' t = (Inr (), l'')"
proof -
  have c: "clock l' = now" using take_clock [OF assms(1,2)] assms(3) by simp
  with assms(4) have "clock l' \<le> t" by (simp add: word_le_nat_alt)
  with wait_enough [OF assms(1,3)] assms(4) c have "is_ok (fst (take l' t))" by simp
  then show ?thesis by (cases "take l' t") (auto simp: result_elims)
qed

end

definition bucket_usable :: "token_bucket \<Rightarrow> bool" where
  "bucket_usable b \<longleftrightarrow> bucket_ok b \<and> 1000 \<le> unat (capacity_millitokens b) \<and> refill_per_sec b \<noteq> 0"

lemma bucket_usable_try_take: "bucket_usable b \<Longrightarrow> bucket_usable (snd (try_take b now))"
  by (simp add: bucket_usable_def bucket_ok_try_take)

lemma try_take_wait_bounds:
  assumes "bucket_usable b" "try_take b now = (Inl w, b')"
  shows "0 < unat w \<and> unat w \<le> 1000"
proof -
  let ?rb = "refill b now"
  have low: "unat (tokens_millitokens ?rb) < 1000" and r: "refill_per_sec b \<noteq> 0"
    and weq: "w = div_ceil (millitokens_per_token - tokens_millitokens ?rb) (refill_per_sec b)"
    using assms by (auto simp: bucket_usable_def try_take_def Let_def millitokens_per_token_def word_le_nat_alt split: if_splits)
  have def: "unat (millitokens_per_token - tokens_millitokens ?rb) = 1000 - unat (tokens_millitokens ?rb)"
    using low by (simp add: millitokens_per_token_def unat_sub word_le_nat_alt)
  have r0: "0 < unat (refill_per_sec b)" using r by (simp add: unat_gt_0)
  have "unat w \<le> x \<longleftrightarrow> 1000 - unat (tokens_millitokens ?rb) \<le> x * unat (refill_per_sec b)" for x
    unfolding weq by (simp add: div_ceil_le r def)
  from this [of 0] this [of 1000] show ?thesis using low r0 by (auto simp: Suc_le_eq)
qed

lemma bucket_wait_finite:
  "bucket_usable b \<Longrightarrow> try_take b now = (Inl w, b') \<Longrightarrow> w \<noteq> u64_max"
  using try_take_wait_bounds [of b now w b'] by (auto simp: word_eq_iff_unat unat_max_word)

interpretation bucket: rate_limiter try_take bucket_usable last_ms
proof unfold_locales
  fix l now w l' t
  assume "bucket_usable l" "try_take l now = (Inl w, l')" "last_ms l' \<le> t"
  then show "is_ok (fst (try_take l' t)) \<longleftrightarrow> unat w \<le> unat t - unat (last_ms l')"
    using wait_exact bucket_wait_finite by (auto simp: bucket_usable_def)
qed (auto simp: bucket_usable_try_take max_def word_le_nat_alt dest: try_take_wait_bounds)

section \<open>Properties\<close>

lemma unat_capacity_new: "unat (capacity_millitokens (bucket_new c r t)) = 1000 * unat c"
proof -
  have "unat c < 2 ^ 32" using unsigned_less [of c, where ?'a = nat] by simp
  then have "unat (ucast c :: u64) = unat c" "unat c * 1000 \<le> 2 ^ 64 - 1"
    by (simp_all add: unsigned_ucast_eq take_bit_nat_eq_self_iff)
  then show ?thesis by (simp add: bucket_new_def Let_def rust_arith millitokens_per_token_def)
qed

lemma bucket_new_fields:
  "tokens_millitokens (bucket_new c r t) = capacity_millitokens (bucket_new c r t)"
  "last_ms (bucket_new c r t) = t" "unat (refill_per_sec (bucket_new c r t)) = unat r"
proof -
  have "unat r < 2 ^ 32" using unsigned_less [of r, where ?'a = nat] by simp
  then show "unat (refill_per_sec (bucket_new c r t)) = unat r"
    by (simp add: bucket_new_def Let_def unsigned_ucast_eq take_bit_nat_eq_self_iff)
qed (simp_all add: bucket_new_def Let_def)

text \<open>C30. The token bucket bounds the rate: of any sequence of takes at clock readings up to \<open>T\<close>,
  in any order, at most \<open>capacity + refill * elapsed\<close> succeed (counted in millitokens, so with no
  rounding).\<close>

theorem bucket_rate_bound:
  assumes "takes (bucket_new c r t0) ts = (n, b')" "t0 \<le> T" "\<forall>t \<in> set ts. t \<le> T"
  shows "1000 * n \<le> 1000 * unat c + (unat T - unat t0) * unat r"
proof -
  let ?b = "bucket_new c r t0"
  note budget = takes_budget [OF bucket_ok_new assms(1)]
  have last: "t0 \<le> last_ms b'" "last_ms b' \<le> T"
    using budget assms(2,3) by (simp_all add: bucket_new_fields)
  have "1000 * n \<le> 1000 * unat c + (unat (last_ms b') - unat t0) * unat r"
    using budget by (simp add: bucket_new_fields unat_capacity_new)
  also have "\<dots> \<le> 1000 * unat c + (unat T - unat t0) * unat r"
    using last by (intro add_left_mono mult_le_mono1 diff_le_mono) (simp add: word_le_nat_alt)
  finally show ?thesis .
qed

text \<open>The wait a refused take names is exact: a bucket that can hold a token and refills grants a
  take at a later time if and only if at least that many milliseconds have passed.\<close>

lemma bucket_wait_exact:
  assumes "bucket_usable b" "last_ms b \<le> now" "try_take b now = (Inl w, b')" "now \<le> t"
  shows "is_ok (fst (try_take b' t)) \<longleftrightarrow> unat w \<le> unat t - unat now"
  using bucket.take_clock [OF assms(1,2)] bucket.wait_enough [OF assms(1,3), of t] assms(3,4) by simp

lemma small_bucket: "bucket_usable (bucket_new 1 2 100)"
  unfolding bucket_usable_def
  using bucket_ok_new unat_capacity_new [of 1 2 100] bucket_new_fields(3) [of 1 2 100]
  by (auto simp: word_eq_iff_unat)

lemma small_bucket_takes:
  "try_take (bucket_new 1 2 100) 100 = (Inr (), (bucket_new 1 2 100)\<lparr>tokens_millitokens := 0\<rparr>)"
  "try_take ((bucket_new 1 2 100)\<lparr>tokens_millitokens := 0\<rparr>) 100
     = (Inl 500, (bucket_new 1 2 100)\<lparr>tokens_millitokens := 0\<rparr>)"
  by (simp_all add: try_take_def refill_def bucket_new_def Let_def saturating_sub_def saturating_mul_def
      millitokens_per_token_def div_ceil_def)

theorem bucket_rate_bound_witness:
  "fst (takes (bucket_new 1 2 100) [100, 100]) = 1 \<and> 1000 * 1 \<le> 1000 * unat (1 :: u32) + (unat (100 :: u64) - unat (100 :: u64)) * unat (2 :: u32)"
proof -
  have t: "takes (bucket_new 1 2 100) [100, 100] = (1, (bucket_new 1 2 100)\<lparr>tokens_millitokens := 0\<rparr>)"
    by (simp add: small_bucket_takes)
  show ?thesis using bucket_rate_bound [OF t, of 100] t by simp
qed

end
