(* ===== verification/Loop.thy ===== *)
theory Loop
  imports Prelude
begin

text \<open>
  The \<open>loop\<close> and \<open>while\<close> statements of the code. One turn of a loop either leaves it with a
  result (\<open>Inl\<close>) or goes on with the next state (\<open>Inr\<close>); \<open>None\<close> is a loop that never leaves.
  The three rules say what the components prove of their loops: an invariant with a decreasing
  measure makes the loop return (and bounds its result), an invariant alone bounds the result of a
  loop that returns, and an invariant under which no turn leaves makes the loop run forever.
\<close>

partial_function (option) loop :: "('s \<Rightarrow> 'r + 's) \<Rightarrow> 's \<Rightarrow> 'r option" where
  "loop step s = (case step s of Inl r \<Rightarrow> Some r | Inr s' \<Rightarrow> loop step s')"

lemma loop_halt: "step s = Inl r \<Longrightarrow> loop step s = Some r"
  by (subst loop.simps) simp

lemma loop_next: "step s = Inr s' \<Longrightarrow> loop step s = loop step s'"
  by (subst loop.simps) simp

lemma loop_total:
  assumes inv: "I s"
    and turn: "\<And>s. I s \<Longrightarrow> (case step s of Inl r \<Rightarrow> Q r | Inr s' \<Rightarrow> I s' \<and> m s' < (m s :: nat))"
  shows "\<exists>r. loop step s = Some r \<and> Q r"
  using inv
proof (induction "m s" arbitrary: s rule: less_induct)
  case less
  show ?case
  proof (cases "step s")
    case (Inl r)
    with turn [OF less.prems] show ?thesis by (auto simp: loop_halt)
  next
    case (Inr s')
    with turn [OF less.prems] less.hyps [of s'] show ?thesis by (auto simp: loop_next)
  qed
qed

lemma loop_total_wf:
  assumes wf: "wf R" and inv: "I s"
    and turn: "\<And>s. I s \<Longrightarrow> (case step s of Inl r \<Rightarrow> Q r | Inr s' \<Rightarrow> I s' \<and> (s', s) \<in> R)"
  shows "\<exists>r. loop step s = Some r \<and> Q r"
  using wf inv
proof (induction s rule: wf_induct_rule)
  case (less s)
  show ?case
  proof (cases "step s")
    case (Inl r)
    with turn [OF less.prems] show ?thesis by (auto simp: loop_halt)
  next
    case (Inr s')
    with turn [OF less.prems] less.IH [of s'] show ?thesis by (auto simp: loop_next)
  qed
qed

lemma loop_partial:
  assumes ret: "loop step s = Some r"
    and inv: "I s"
    and turn: "\<And>s s'. I s \<Longrightarrow> step s = Inr s' \<Longrightarrow> I s'"
    and out: "\<And>s r. I s \<Longrightarrow> step s = Inl r \<Longrightarrow> Q r"
  shows "Q r"
proof -
  have "(\<forall>s r. I s \<and> step s = Inl r \<longrightarrow> Q r) \<longrightarrow> (\<forall>s s'. I s \<and> step s = Inr s' \<longrightarrow> I s') \<longrightarrow> I s \<longrightarrow> Q r"
  proof (rule loop.raw_induct [OF _ ret])
    fix lp step' s r
    assume IH: "\<And>step' s r. lp step' s = Some r \<Longrightarrow>
        (\<forall>s r. I s \<and> step' s = Inl r \<longrightarrow> Q r) \<longrightarrow> (\<forall>s s'. I s \<and> step' s = Inr s' \<longrightarrow> I s') \<longrightarrow> I s \<longrightarrow> Q r"
      and eq: "(case step' s of Inl r \<Rightarrow> Some r | Inr s' \<Rightarrow> lp step' s') = Some r"
    show "(\<forall>s r. I s \<and> step' s = Inl r \<longrightarrow> Q r) \<longrightarrow> (\<forall>s s'. I s \<and> step' s = Inr s' \<longrightarrow> I s') \<longrightarrow> I s \<longrightarrow> Q r"
    proof (cases "step' s")
      case (Inl a)
      with eq show ?thesis by auto
    next
      case (Inr s')
      with eq have "lp step' s' = Some r" by simp
      from IH [OF this] Inr show ?thesis by blast
    qed
  qed
  with assms show ?thesis by blast
qed

lemma loop_diverges:
  assumes "I s" and "\<And>s. I s \<Longrightarrow> \<exists>s'. step s = Inr s' \<and> I s'"
  shows "loop step s = None"
proof (rule ccontr)
  assume "loop step s \<noteq> None"
  then obtain r where r: "loop step s = Some r" by auto
  show False
  proof (rule loop_partial [where I = I and Q = "\<lambda>_. False", OF r assms(1)])
    fix t t'
    assume "I t" "step t = Inr t'"
    with assms(2) show "I t'" by fastforce
  next
    fix t q
    assume "I t" "step t = Inl q"
    with assms(2) show False by fastforce
  qed
qed

text \<open>A loop that returns does so after a number of turns: the states it went through.\<close>

inductive turns :: "('s \<Rightarrow> 'r + 's) \<Rightarrow> 's \<Rightarrow> nat \<Rightarrow> 's \<Rightarrow> bool" for step where
  turns_0: "turns step s 0 s"
| turns_Suc: "step s = Inr s' \<Longrightarrow> turns step s' n s'' \<Longrightarrow> turns step s (Suc n) s''"

inductive_cases turns_0E: "turns step s 0 s'"
inductive_cases turns_SucE: "turns step s (Suc n) s'"

lemma turns_loop: "turns step s n s' \<Longrightarrow> loop step s = loop step s'"
  by (induction rule: turns.induct) (auto simp: loop_next)

lemma turns_invariant:
  "turns step s n s' \<Longrightarrow> I s \<Longrightarrow> (\<And>s s'. I s \<Longrightarrow> step s = Inr s' \<Longrightarrow> I s') \<Longrightarrow> I s'"
  by (induction rule: turns.induct) auto

end
