(* ===== verification/Retry.thy ===== *)
theory Retry
  imports Transport Backoff RateLimit Loop
begin

text \<open>
  \<open>keetanetwork-anchor-client/src/resilience/retry.rs\<close> and \<open>transport.rs\<close>: the retry loop with its
  jitter source, and the transport decorator that paces and retries. The runtime (clock and sleep)
  and the wrapped transport are parameters that thread a world \<open>'w\<close>: reading the clock, sleeping and
  sending may each change it.
\<close>

section \<open>The runtime and the outcome of a run\<close>

record 'w runtime =
  now_millis :: "'w \<Rightarrow> u64 \<times> 'w"
  sleep_ms :: "u64 \<Rightarrow> 'w \<Rightarrow> 'w"

text \<open>A computation of the code may panic; \<open>Done\<close> holds what it returns.\<close>

datatype 'a outcome = Panic | Done 'a

section \<open>The jitter source\<close>

definition seed_salt :: u64 where
  "seed_salt = 0x9E3779B97F4A7C15"

definition next_rand :: "u64 \<Rightarrow> u64" where
  "next_rand state =
     (let v = state;
          v = v XOR push_bit 13 v;
          v = v XOR drop_bit 7 v;
          v = v XOR push_bit 17 v
      in v)"

section \<open>The policy\<close>

record retry_policy =
  policy_backoff :: backoff
  policy_jitter :: jitter
  max_total_ms :: u64

definition default_retry_policy :: retry_policy where
  "default_retry_policy =
     \<lparr>policy_backoff = default_backoff, policy_jitter = Full, max_total_ms = 30000\<rparr>"

definition with_backoff :: "retry_policy \<Rightarrow> backoff \<Rightarrow> retry_policy" where
  "with_backoff p b = p\<lparr>policy_backoff := b\<rparr>"

definition with_jitter :: "retry_policy \<Rightarrow> jitter \<Rightarrow> retry_policy" where
  "with_jitter p j = p\<lparr>policy_jitter := j\<rparr>"

definition with_max_total_ms :: "retry_policy \<Rightarrow> u64 \<Rightarrow> retry_policy" where
  "with_max_total_ms p v = p\<lparr>max_total_ms := v\<rparr>"

definition remaining_budget :: "retry_policy \<Rightarrow> u64 \<Rightarrow> u64 \<Rightarrow> u64" where
  "remaining_budget p start_ms now_ms =
     saturating_sub (max_total_ms p) (saturating_sub now_ms start_ms)"

definition next_delay ::
    "retry_policy \<Rightarrow> u32 \<Rightarrow> u64 option \<Rightarrow> u64 \<Rightarrow> u64 \<Rightarrow> u64 option outcome \<times> u64" where
  "next_delay p attempt hint remaining_ms seed =
     (if remaining_ms = 0 then (Done None, seed)
      else case delay (policy_backoff p) attempt of
        None \<Rightarrow> (Done None, seed)
      | Some scheduled \<Rightarrow>
          let seed = next_rand seed in
          (case jitter_apply (policy_jitter p) scheduled seed of
             None \<Rightarrow> (Panic, seed)
           | Some jittered \<Rightarrow>
               let wanted = (case hint of None \<Rightarrow> jittered | Some h \<Rightarrow> max h jittered)
               in (Done (Some (min wanted remaining_ms)), seed)))"

section \<open>The retry loop\<close>

type_synonym 'w retry_state = "u64 \<times> u32 \<times> 'w"

text \<open>The end of a turn: sleep and count the attempt (\<open>attempt += 1\<close>, checked), or leave.\<close>

definition sleep_or ::
    "'w runtime \<Rightarrow> u64 option outcome \<times> u64 \<Rightarrow> u32 \<Rightarrow> (transport_error + http_response) outcome \<Rightarrow> 'w
     \<Rightarrow> (transport_error + http_response) outcome \<times> 'w + 'w retry_state" where
  "sleep_or rt d attempt give_up w =
     (case d of
        (Panic, _) \<Rightarrow> Inl (Panic, w)
      | (Done None, _) \<Rightarrow> Inl (give_up, w)
      | (Done (Some ms), seed) \<Rightarrow>
          let w = sleep_ms rt ms w in
          (case checked_add attempt 1 of
             None \<Rightarrow> Inl (Panic, w)
           | Some attempt' \<Rightarrow> Inr (seed, attempt', w)))"

definition run_turn ::
    "retry_policy \<Rightarrow> 'w runtime \<Rightarrow> 'w operation \<Rightarrow> u64 \<Rightarrow> 'w retry_state
     \<Rightarrow> (transport_error + http_response) outcome \<times> 'w + 'w retry_state" where
  "run_turn p rt operation start st =
     (case st of (seed, attempt, w) \<Rightarrow>
       (case operation w of
          (Inr response, w) \<Rightarrow>
            if \<not> retryable_status (resp_status response) then Inl (Done (Inr response), w)
            else
              let hint = Option.bind (resp_retry_after response) to_millis;
                  (now, w) = now_millis rt w;
                  remaining = remaining_budget p start now
              in sleep_or rt (next_delay p attempt hint remaining seed) attempt (Done (Inr response)) w
        | (Inl error, w) \<Rightarrow>
            if \<not> transient error then Inl (Done (Inl error), w)
            else
              let (now, w) = now_millis rt w;
                  remaining = remaining_budget p start now;
                  elapsed_ms = saturating_sub now start;
                  exhausted = (case checked_add attempt 1 of
                      None \<Rightarrow> Panic
                    | Some attempts \<Rightarrow>
                        Done (Inl (TResilience (RetryExhausted attempts elapsed_ms error))))
              in sleep_or rt (next_delay p attempt None remaining seed) attempt exhausted w))"

definition run ::
    "retry_policy \<Rightarrow> 'w runtime \<Rightarrow> 'w operation \<Rightarrow> 'w
     \<Rightarrow> ((transport_error + http_response) outcome \<times> 'w) option" where
  "run p rt operation w =
     (let (start, w) = now_millis rt w;
          seed = (start XOR seed_salt) OR 1
      in loop (run_turn p rt operation start) (seed, 0, w))"

section \<open>The transport decorator\<close>

record 'w resilient_transport =
  inner :: "'w transport"
  rt_runtime :: "'w runtime"
  rt_retry :: retry_policy
  limiter :: "token_bucket option"

definition resilient_new :: "'w transport \<Rightarrow> 'w runtime \<Rightarrow> 'w resilient_transport" where
  "resilient_new t rt = \<lparr>inner = t, rt_runtime = rt, rt_retry = default_retry_policy, limiter = None\<rparr>"

definition with_retry :: "'w resilient_transport \<Rightarrow> retry_policy \<Rightarrow> 'w resilient_transport" where
  "with_retry t p = t\<lparr>rt_retry := p\<rparr>"

definition with_rate_limit ::
    "'w resilient_transport \<Rightarrow> u32 \<Rightarrow> u32 \<Rightarrow> 'w \<Rightarrow> 'w resilient_transport \<times> 'w" where
  "with_rate_limit t cap refill_rate w =
     (let (now, w) = now_millis (rt_runtime t) w
      in (t\<lparr>limiter := Some (bucket_new cap refill_rate now)\<rparr>, w))"

definition acquire_turn ::
    "'w runtime \<Rightarrow> token_bucket \<times> 'w
     \<Rightarrow> (transport_error + unit) \<times> token_bucket \<times> 'w + token_bucket \<times> 'w" where
  "acquire_turn rt st =
     (case st of (b, w) \<Rightarrow>
        let (now, w) = now_millis rt w in
        (case try_take b now of
           (Inr _, b) \<Rightarrow> Inl (Inr (), b, w)
         | (Inl wait, b) \<Rightarrow>
             if wait = u64_max then Inl (Inl (TResilience (RateLimited wait)), b, w)
             else Inr (b, sleep_ms rt wait w)))"

definition acquire ::
    "'w resilient_transport \<Rightarrow> 'w \<Rightarrow> ((transport_error + unit) \<times> 'w resilient_transport \<times> 'w) option" where
  "acquire t w =
     (case limiter t of
        None \<Rightarrow> Some (Inr (), t, w)
      | Some b \<Rightarrow>
          map_option (\<lambda>(r, b, w). (r, t\<lparr>limiter := Some b\<rparr>, w)) (loop (acquire_turn (rt_runtime t)) (b, w)))"

definition send_resilient ::
    "'w resilient_transport \<Rightarrow> 'w operation \<Rightarrow> 'w
     \<Rightarrow> ((transport_error + http_response) outcome \<times> 'w resilient_transport \<times> 'w) option" where
  "send_resilient t operation w =
     (case acquire t w of
        None \<Rightarrow> None
      | Some (Inl e, t, w) \<Rightarrow> Some (Done (Inl e), t, w)
      | Some (Inr _, t, w) \<Rightarrow>
          map_option (\<lambda>(r, w). (r, t, w)) (run (rt_retry t) (rt_runtime t) operation w))"

definition resilient_get where
  "resilient_get t url w = send_resilient t (t_get (inner t) url) w"

definition resilient_post where
  "resilient_post t url body w = send_resilient t (t_post (inner t) url body) w"

record 'w resilient_factory =
  f_inner :: "'w transport"
  f_runtime :: "'w runtime"
  f_retry :: retry_policy
  f_rate_limit :: "(u32 \<times> u32) option"

definition factory_create :: "'w resilient_factory \<Rightarrow> 'w \<Rightarrow> 'w resilient_transport \<times> 'w" where
  "factory_create f w =
     (let t = with_retry (resilient_new (f_inner f) (f_runtime f)) (f_retry f)
      in case f_rate_limit f of
           None \<Rightarrow> (t, w)
         | Some (cap, rate) \<Rightarrow> with_rate_limit t cap rate w)"

end
