(* ===== verification/RetryFacts.thy ===== *)
theory RetryFacts
  imports Retry
begin

text \<open>
  What holds of the retry loop and of the decorator: the jitter source never gets stuck at zero, the
  sleeps respect the hint and the budget, the loop returns, and what it may return.
\<close>

section \<open>The jitter source\<close>

lemma xor_eq_0: "a XOR b = 0 \<longleftrightarrow> a = b" for a b :: "'a::len word"
proof
  assume "a XOR b = 0"
  then have "(a XOR b) XOR b = b" by simp
  then show "a = b" by (simp add: xor.assoc)
qed simp

lemma push_bit_fixpoint: "v = push_bit k v \<Longrightarrow> 0 < k \<Longrightarrow> v = 0" for v :: "'a::len word"
proof (rule bit_word_eqI)
  fix n
  assume v: "v = push_bit k v" and k: "0 < k"
  have "\<not> bit v n"
  proof (induction n rule: less_induct)
    case (less n)
    show ?case
    proof
      assume "bit v n"
      then have "bit (push_bit k v) n" using v by simp
      then have "k \<le> n" "bit v (n - k)" by (auto simp: bit_push_bit_iff)
      with less.IH [of "n - k"] k show False by simp
    qed
  qed
  then show "bit v n = bit (0 :: 'a word) n" by simp
qed

lemma drop_bit_fixpoint: "v = drop_bit k v \<Longrightarrow> 0 < k \<Longrightarrow> v = 0" for v :: "'a::len word"
proof -
  assume v: "v = drop_bit k v" and k: "0 < k"
  have "unat v = unat (drop_bit k v)" using v by (rule arg_cong)
  also have "\<dots> = unat v div 2 ^ k" by (simp add: unat_drop_bit_eq) (simp add: drop_bit_eq_div)
  finally have "unat v = unat v div 2 ^ k" .
  moreover have "unat v div 2 ^ k \<le> unat v div 2"
    using k by (intro div_le_mono2) (simp_all add: self_le_power)
  ultimately have "unat v \<le> unat v div 2" by simp
  then show ?thesis by (simp add: word_eq_iff_unat)
qed

lemma xor_push_bit_nonzero: "v \<noteq> 0 \<Longrightarrow> 0 < k \<Longrightarrow> v XOR push_bit k v \<noteq> 0" for v :: "'a::len word"
  using push_bit_fixpoint by (auto simp: xor_eq_0)

lemma xor_drop_bit_nonzero: "v \<noteq> 0 \<Longrightarrow> 0 < k \<Longrightarrow> v XOR drop_bit k v \<noteq> 0" for v :: "'a::len word"
  using drop_bit_fixpoint by (auto simp: xor_eq_0)

lemma next_rand_nonzero: "s \<noteq> 0 \<Longrightarrow> next_rand s \<noteq> 0"
  unfolding next_rand_def Let_def
  by (intro xor_push_bit_nonzero xor_drop_bit_nonzero) simp_all

section \<open>One delay\<close>

lemma next_delay_Some:
  assumes "next_delay p attempt hint rem seed = (Done (Some d), seed')"
  shows "d \<le> rem \<and> (\<forall>h. hint = Some h \<longrightarrow> min h rem \<le> d)
    \<and> (\<exists>s. delay (policy_backoff p) attempt = Some s
          \<and> d \<le> (case hint of None \<Rightarrow> s | Some h \<Rightarrow> max h s))
    \<and> rem \<noteq> 0"
  using assms jitter_le
  by (auto simp: next_delay_def Let_def le_max_iff_disj min_le_iff_disj
      split: if_splits option.splits; fastforce simp: le_max_iff_disj min_le_iff_disj)

lemma next_delay_exhausted:
  "next_delay p attempt hint rem seed = (Done None, seed') \<longleftrightarrow>
     (rem = 0 \<or> delay (policy_backoff p) attempt = None) \<and> seed' = seed"
  by (auto simp: next_delay_def Let_def split: option.splits)

lemma next_delay_panic:
  "next_delay p attempt hint rem seed = (Panic, seed') \<Longrightarrow>
     policy_jitter p = Full \<and> delay (policy_backoff p) attempt = Some u64_max"
  using jitter_panics by (auto simp: next_delay_def Let_def split: if_splits option.splits)

lemma unat_remaining_budget:
  "unat (remaining_budget p start now) = unat (max_total_ms p) - (unat now - unat start)"
  by (simp add: remaining_budget_def rust_arith)

section \<open>One turn\<close>

text \<open>A turn that goes on slept once, within the budget left at its clock reading.\<close>

lemma run_turn_next:
  assumes "run_turn p rt operation start (seed, attempt, w) = Inr (seed', attempt', w')"
  shows "\<exists>r w1 now w2 d hint. operation w = (r, w1) \<and> now_millis rt w1 = (now, w2)
    \<and> next_delay p attempt hint (remaining_budget p start now) seed = (Done (Some d), seed')
    \<and> w' = sleep_ms rt d w2 \<and> unat attempt' = unat attempt + 1"
proof -
  obtain r w1 where op: "operation w = (r, w1)" by (cases "operation w")
  obtain now w2 where now: "now_millis rt w1 = (now, w2)" by (cases "now_millis rt w1")
  have "\<exists>hint give_up. sleep_or rt (next_delay p attempt hint (remaining_budget p start now) seed)
      attempt give_up w2 = Inr (seed', attempt', w')"
    using assms op now by (cases r) (auto simp: run_turn_def Let_def split: if_splits)
  then obtain hint give_up where s: "sleep_or rt (next_delay p attempt hint (remaining_budget p start now) seed)
      attempt give_up w2 = Inr (seed', attempt', w')" by blast
  then obtain d where "next_delay p attempt hint (remaining_budget p start now) seed = (Done (Some d), seed')"
    "w' = sleep_ms rt d w2" "checked_add attempt 1 = Some attempt'"
    by (auto simp: sleep_or_def Let_def split: prod.splits outcome.splits option.splits)
  with op now checked_add_Some [of attempt 1 attempt'] show ?thesis by auto
qed

text \<open>What a run may hand back, and when it gives up.\<close>

definition gave_up :: "retry_policy \<Rightarrow> u64 \<Rightarrow> u32 \<Rightarrow> u64 \<Rightarrow> bool" where
  "gave_up p start attempt now \<longleftrightarrow>
     remaining_budget p start now = 0 \<or> delay (policy_backoff p) attempt = None"

lemma sleep_or_halt:
  assumes "sleep_or rt d attempt give_up w = Inl (r, w')"
  shows "r = Panic \<or> r = give_up \<and> fst d = Done None \<and> w' = w"
  using assms by (auto simp: sleep_or_def Let_def split: prod.splits outcome.splits option.splits)

lemma next_delay_gave_up:
  "fst (next_delay p attempt hint (remaining_budget p start now) seed) = Done None \<Longrightarrow>
     gave_up p start attempt now"
  using next_delay_exhausted [of p attempt hint "remaining_budget p start now" seed
      "snd (next_delay p attempt hint (remaining_budget p start now) seed)"]
  by (simp add: gave_up_def prod_eq_iff)

text \<open>Which answers of the operation may be retried, the hint they carry, and what stands for one once
  the policy gives up.\<close>

fun may_retry :: "transport_error + http_response \<Rightarrow> bool" where
  "may_retry (Inl e) = transient e"
| "may_retry (Inr response) = retryable_status (resp_status response)"

fun hint_of :: "transport_error + http_response \<Rightarrow> u64 option" where
  "hint_of (Inl e) = None"
| "hint_of (Inr response) = Option.bind (resp_retry_after response) to_millis"

text \<open>The outcome after \<open>n\<close> retries: a response is handed back as it is, a failure is reported with the
  number of attempts made and the time they took.\<close>

definition exhausted_as ::
    "u32 \<Rightarrow> u64 \<Rightarrow> transport_error + http_response \<Rightarrow> transport_error + http_response \<Rightarrow> bool" where
  "exhausted_as n elapsed x r \<longleftrightarrow>
     (case x of
        Inr response \<Rightarrow> r = Inr response
      | Inl e \<Rightarrow> \<exists>attempts. unat attempts = unat n + 1 \<and> r = Inl (TResilience (RetryExhausted attempts elapsed e)))"

lemma run_turn_exact:
  assumes "operation v = (x, v1)" "now_millis rt v1 = (now, v2)"
  shows "run_turn p rt operation start (seed, n, v) =
    (if \<not> may_retry x then Inl (Done x, v1)
     else sleep_or rt (next_delay p n (hint_of x) (remaining_budget p start now) seed) n
       (case x of Inr response \<Rightarrow> Done (Inr response)
        | Inl e \<Rightarrow> (case checked_add n 1 of None \<Rightarrow> Panic
            | Some k \<Rightarrow> Done (Inl (TResilience (RetryExhausted k (saturating_sub now start) e))))) v2)"
  using assms by (cases x) (simp_all add: run_turn_def Let_def)

text \<open>The specification of a run: after \<open>n\<close> retries it stands in a world. Every retry follows an answer
  that may be retried, at a moment at which the policy has not given up, and sleeps no longer than the
  budget left and no shorter than the hint of the answer within it.\<close>

inductive retried ::
    "retry_policy \<Rightarrow> 'w runtime \<Rightarrow> 'w operation \<Rightarrow> u64 \<Rightarrow> 'w \<Rightarrow> u32 \<Rightarrow> 'w \<Rightarrow> bool"
  for p rt operation start w0 where
  first_attempt: "retried p rt operation start w0 0 w0"
| next_attempt: "retried p rt operation start w0 n v \<Longrightarrow> operation v = (x, v1) \<Longrightarrow> may_retry x \<Longrightarrow>
    now_millis rt v1 = (now, v2) \<Longrightarrow> \<not> gave_up p start n now \<Longrightarrow> d \<le> remaining_budget p start now \<Longrightarrow>
    (\<forall>h. hint_of x = Some h \<longrightarrow> min h (remaining_budget p start now) \<le> d) \<Longrightarrow> unat m = unat n + 1 \<Longrightarrow>
    retried p rt operation start w0 m (sleep_ms rt d v2)"

lemma run_turn_goes_on:
  assumes "retried p rt operation start w0 n v" "run_turn p rt operation start (seed, n, v) = Inr (seed', m, v')"
  shows "retried p rt operation start w0 m v'"
proof -
  obtain x v1 where op: "operation v = (x, v1)" by (metis surj_pair)
  obtain now v2 where now: "now_millis rt v1 = (now, v2)" by (metis surj_pair)
  note turn = run_turn_exact [where operation = operation and v = v and rt = rt, OF op now]
  from assms(2) have may: "may_retry x" by (auto simp: turn split: if_splits)
  with assms(2) obtain d where d: "next_delay p n (hint_of x) (remaining_budget p start now) seed = (Done (Some d), seed')"
      "v' = sleep_ms rt d v2" "checked_add n 1 = Some m"
    by (auto simp: turn sleep_or_def Let_def split: prod.splits outcome.splits option.splits)
  note bounds = next_delay_Some [OF d(1)]
  then have "\<not> gave_up p start n now" by (auto simp: gave_up_def)
  moreover have "unat m = unat n + 1" using checked_add_Some [OF d(3)] by simp
  ultimately show ?thesis unfolding d(2) using bounds by (intro next_attempt [OF assms(1) op may now]) simp_all
qed

text \<open>How a run ends, after a number of retries and the answer to one more attempt.\<close>

definition run_ends ::
    "retry_policy \<Rightarrow> 'w runtime \<Rightarrow> u64 \<Rightarrow> u32 \<Rightarrow> transport_error + http_response \<Rightarrow> 'w
     \<Rightarrow> transport_error + http_response \<Rightarrow> 'w \<Rightarrow> bool" where
  "run_ends p rt start n x v1 r w' \<longleftrightarrow>
     (if may_retry x then \<exists>now. now_millis rt v1 = (now, w') \<and> gave_up p start n now
        \<and> exhausted_as n (saturating_sub now start) x r
      else r = x \<and> w' = v1)"

lemma run_turn_halt:
  assumes "run_turn p rt operation start (seed, n, v) = Inl (Done r, w')"
  shows "\<exists>x v1. operation v = (x, v1) \<and> run_ends p rt start n x v1 r w'"
proof -
  obtain x v1 where op: "operation v = (x, v1)" by (metis surj_pair)
  obtain now v2 where now: "now_millis rt v1 = (now, v2)" by (metis surj_pair)
  note turn = run_turn_exact [where operation = operation and v = v and rt = rt, OF op now]
  have "run_ends p rt start n x v1 r w'"
  proof (cases "may_retry x")
    case False
    with assms show ?thesis by (simp add: turn run_ends_def)
  next
    case True
    let ?d = "next_delay p n (hint_of x) (remaining_budget p start now) seed"
    from sleep_or_halt [OF assms [unfolded turn, simplified True not_True_eq_False if_False]]
    have h: "fst ?d = Done None" "w' = v2" "Done r = (case x of Inr response \<Rightarrow> Done (Inr response)
        | Inl e \<Rightarrow> (case checked_add n 1 of None \<Rightarrow> Panic
            | Some k \<Rightarrow> Done (Inl (TResilience (RetryExhausted k (saturating_sub now start) e)))))" by simp_all
    from h(3) checked_add_Some have "exhausted_as n (saturating_sub now start) x r"
      by (fastforce simp: exhausted_as_def split: sum.splits option.splits)
    with True h(2) now next_delay_gave_up [OF h(1)] show ?thesis by (simp add: run_ends_def)
  qed
  with op show ?thesis by blast
qed

lemma run_loop:
  assumes "run p rt operation w = res" "now_millis rt w = (start, w1)"
  shows "loop (run_turn p rt operation start) ((start XOR seed_salt) OR 1, 0, w1) = res"
  using assms by (simp add: run_def)

text \<open>C5. What a run hands back. It makes attempts as long as it may: after \<open>n\<close> retries, each of an answer
  that may be retried and at a moment the policy still allowed, it hands back the answer to the next
  attempt if that is final; if it may be retried, it stops only because the policy gives up at that
  attempt and that reading of the clock (no budget is left, or the schedule is used up), and hands back
  a response as it is and a failure as \<open>RetryExhausted\<close> with its \<open>n + 1\<close> attempts and the time they took.
  So a transient failure is never handed back bare.\<close>

theorem retry_run_outcome:
  assumes ret: "run p rt operation w = Some (Done r, w')" and start: "now_millis rt w = (start, w0)"
  shows "(\<exists>n v x v1. retried p rt operation start w0 n v \<and> operation v = (x, v1)
      \<and> (if may_retry x then \<exists>now. now_millis rt v1 = (now, w') \<and> gave_up p start n now
           \<and> exhausted_as n (saturating_sub now start) x r
         else r = x \<and> w' = v1))
    \<and> (\<forall>e. r = Inl e \<longrightarrow> \<not> transient e)"
proof -
  let ?ends = "\<lambda>r w'. \<exists>n v x v1. retried p rt operation start w0 n v \<and> operation v = (x, v1) \<and> run_ends p rt start n x v1 r w'"
  have "(\<lambda>(q, w'). \<forall>r. q = Done r \<longrightarrow> ?ends r w') (Done r, w')"
  proof (rule loop_partial [OF run_loop [OF ret start], where I = "\<lambda>(seed, n, v). retried p rt operation start w0 n v"])
    show "case ((start XOR seed_salt) OR 1, 0, w0) of (seed, n, v) \<Rightarrow> retried p rt operation start w0 n v"
      by (simp add: first_attempt)
  next
    fix st st' assume "case st of (seed, n, v) \<Rightarrow> retried p rt operation start w0 n v" "run_turn p rt operation start st = Inr st'"
    then show "case st' of (seed, n, v) \<Rightarrow> retried p rt operation start w0 n v"
      by (cases st, cases st') (auto intro: run_turn_goes_on)
  next
    fix st q assume "case st of (seed, n, v) \<Rightarrow> retried p rt operation start w0 n v" "run_turn p rt operation start st = Inl q"
    then show "case q of (x, w') \<Rightarrow> \<forall>r. x = Done r \<longrightarrow> ?ends r w'"
      by (cases st, cases q) (use run_turn_halt in fastforce)
  qed
  then have ends: "?ends r w'" by simp
  have "\<not> transient e" if "run_ends p rt start n x v1 (Inl e) w'" for n x v1 e
    using that by (cases x) (auto simp: run_ends_def exhausted_as_def split: if_splits)
  with ends show ?thesis unfolding run_ends_def by metis
qed

section \<open>The loop returns\<close>


lemma jitter_positive:
  assumes "j \<noteq> Full" "2 \<le> unat s" "jitter_apply j s r = Some v"
  shows "0 < unat v"
proof (cases j)
  case Equal
  with assms jitter_equal_bounds [of s r v] show ?thesis by fastforce
qed (use assms in auto)

lemma next_delay_positive:
  assumes "policy_jitter p \<noteq> Full" "0 < factor (policy_backoff p)"
    and "2 \<le> unat (base_ms (policy_backoff p))" "2 \<le> unat (max_ms (policy_backoff p))"
    and d: "next_delay p attempt hint rem seed = (Done (Some d), seed')"
  shows "0 < unat d"
proof -
  let ?b = "policy_backoff p"
  obtain s v where s: "delay ?b attempt = Some s" and v: "jitter_apply (policy_jitter p) s seed' = Some v"
    and r: "rem \<noteq> 0" and dd: "d = min (case hint of None \<Rightarrow> v | Some h \<Rightarrow> max h v) rem"
    using d by (auto simp: next_delay_def Let_def split: if_splits option.splits)
  have "1 \<le> unat (factor ?b) ^ unat attempt" using assms(2) by (simp add: word_less_nat_alt)
  then have "2 * 1 \<le> unat (base_ms ?b) * unat (factor ?b) ^ unat attempt"
    using assms(3) by (intro mult_le_mono)
  then have "2 \<le> unat s" using delay_exact [OF s] assms(4) by simp
  then have "0 < unat v" using jitter_positive [OF assms(1) _ v] by simp
  moreover have "0 < unat rem" using r by (simp add: unat_gt_0)
  moreover have "unat v \<le> unat (case hint of None \<Rightarrow> v | Some h \<Rightarrow> max h v)"
    by (cases hint) (simp_all add: rust_arith)
  ultimately show ?thesis unfolding dd unat_word_min by linarith
qed

text \<open>Without a ceiling the time budget stops the retry loop, where every delay is positive
  (a jitter other than \<open>Full\<close>) and the clock moves on by at least what was slept.\<close>

lemma retry_run_terminates_clock:
  assumes jit: "policy_jitter p \<noteq> Full" "0 < factor (policy_backoff p)"
      "2 \<le> unat (base_ms (policy_backoff p))" "2 \<le> unat (max_ms (policy_backoff p))"
    and room: "unat (clk w) + unat (max_total_ms p) < 2 ^ 64"
    and now: "\<And>w. fst (now_millis rt w) = clk w" "\<And>w. clk (snd (now_millis rt w)) = clk w"
    and op: "\<And>w. clk w \<le> clk (snd (operation w))"
    and sleep: "\<And>d w. unat (clk w) + unat d < 2 ^ 64 \<Longrightarrow> unat (clk w) + unat d \<le> unat (clk (sleep_ms rt d w))"
  shows "\<exists>r. run p rt operation w = Some r"
proof -
  let ?start = "clk w"
  obtain w1 where n: "now_millis rt w = (?start, w1)" using now(1) [of w] by (cases "now_millis rt w") simp
  have w1: "clk w1 = ?start" using now(2) [of w] n by simp
  let ?m = "\<lambda>(seed, attempt, v). unat (max_total_ms p) - (unat (clk v) - unat ?start)"
  have "\<exists>r. loop (run_turn p rt operation ?start) ((?start XOR seed_salt) OR 1, 0, w1) = Some r \<and> True"
  proof (rule loop_total [where I = "\<lambda>(seed, attempt, v). ?start \<le> clk v" and m = ?m])
    fix st :: "'a retry_state"
    assume I: "case st of (seed, attempt, v) \<Rightarrow> ?start \<le> clk v"
    obtain seed attempt v where st: "st = (seed, attempt, v)" by (cases st)
    show "case run_turn p rt operation ?start st of Inl r \<Rightarrow> True
       | Inr s' \<Rightarrow> (case s' of (seed, attempt, v) \<Rightarrow> ?start \<le> clk v) \<and> ?m s' < ?m st"
    proof (cases "run_turn p rt operation ?start st")
      case (Inr s')
      obtain seed' attempt' v' where s': "s' = (seed', attempt', v')" by (cases s')
      have rtn: "run_turn p rt operation ?start (seed, attempt, v) = Inr (seed', attempt', v')"
        using Inr st s' by simp
      from run_turn_next [OF rtn] obtain r w2 t w3 d hint where
        o: "operation v = (r, w2)" and t: "now_millis rt w2 = (t, w3)"
        and d: "next_delay p attempt hint (remaining_budget p ?start t) seed = (Done (Some d), seed')"
        and v': "v' = sleep_ms rt d w3" by blast
      have c: "clk v \<le> clk w2" "t = clk w2" "clk w3 = clk w2"
        using op [of v] o now(1) [of w2] now(2) [of w2] t by auto
      have dr: "unat d \<le> unat (max_total_ms p) - (unat t - unat ?start)"
        using next_delay_Some [OF d] by (simp add: word_le_nat_alt unat_remaining_budget)
      have dp: "0 < unat d" using next_delay_positive [OF jit d] .
      have le: "unat ?start \<le> unat (clk v)" "unat (clk v) \<le> unat t"
        using I st c by (simp_all add: word_le_nat_alt)
      have "unat t + unat d < 2 ^ 64" using dr dp le room by linarith
      then have "unat t + unat d \<le> unat (clk v')" using sleep [of w3 d] c v' by simp
      with dr dp le s' st Inr show ?thesis by (simp add: word_le_nat_alt)
    qed simp
  qed (simp add: w1)
  then show ?thesis by (simp add: run_def n)
qed

section \<open>The budget bounds the time slept\<close>

text \<open>The sleeps of a whole run add up to at most the total time budget of the policy,
  however long the operation itself takes between them.\<close>

lemma retry_sleep_budget:
  assumes room: "unat (clk w) + unat (max_total_ms p) < 2 ^ 64"
    and now: "\<And>w. fst (now_millis rt w) = clk w" "\<And>w. clk (snd (now_millis rt w)) = clk w"
      "\<And>w. slept (snd (now_millis rt w)) = slept w"
    and op: "\<And>w. clk w \<le> clk (snd (operation w))" "\<And>w. slept (snd (operation w)) = slept w"
    and sleep: "\<And>d w. unat (clk w) + unat d < 2 ^ 64 \<Longrightarrow> unat (clk w) + unat d \<le> unat (clk (sleep_ms rt d w))"
      "\<And>d w. slept (sleep_ms rt d w) = slept w + unat d"
    and ret: "run p rt operation w = Some (r, w')" and clean: "r \<noteq> Panic"
  shows "slept w' \<le> slept w + unat (max_total_ms p)"
proof -
  let ?start = "clk w"
  obtain w1 where n: "now_millis rt w = (?start, w1)" using now(1) [of w] by (cases "now_millis rt w") simp
  have w1: "clk w1 = ?start" "slept w1 = slept w" using now(2) [of w] now(3) [of w] n by simp_all
  have l: "loop (run_turn p rt operation ?start) ((?start XOR seed_salt) OR 1, 0, w1) = Some (r, w')"
    using ret by (simp add: run_def n)
  let ?I = "\<lambda>(seed, attempt, v). ?start \<le> clk v \<and> slept v \<le> slept w + unat (max_total_ms p)
      \<and> slept v \<le> slept w + (unat (clk v) - unat ?start)"
  have "(\<lambda>(r, v). r = Panic \<or> slept v \<le> slept w + unat (max_total_ms p)) (r, w')"
  proof (rule loop_partial [OF l, where I = ?I])
    fix st s' :: "'a retry_state"
    assume I: "?I st" and step: "run_turn p rt operation ?start st = Inr s'"
    obtain seed attempt v where st: "st = (seed, attempt, v)" by (cases st)
    obtain seed' attempt' v' where s': "s' = (seed', attempt', v')" by (cases s')
    have rtn: "run_turn p rt operation ?start (seed, attempt, v) = Inr (seed', attempt', v')"
      using step st s' by simp
    from run_turn_next [OF rtn] obtain x w2 t w3 d hint where
      o: "operation v = (x, w2)" and t: "now_millis rt w2 = (t, w3)"
      and d: "next_delay p attempt hint (remaining_budget p ?start t) seed = (Done (Some d), seed')"
      and v': "v' = sleep_ms rt d w3" by blast
    have c: "clk v \<le> clk w2" "t = clk w2" "clk w3 = clk w2" "slept w3 = slept v"
      using op(1) [of v] op(2) [of v] o now [of w2] t by auto
    have dr: "unat d \<le> unat (max_total_ms p) - (unat t - unat ?start)" and nz: "remaining_budget p ?start t \<noteq> 0"
      using next_delay_Some [OF d] by (simp_all add: word_le_nat_alt unat_remaining_budget)
    have rp: "0 < unat (max_total_ms p) - (unat t - unat ?start)"
      using nz unat_remaining_budget [of p ?start t] by (simp add: unat_gt_0 [symmetric])
    have le: "unat ?start \<le> unat (clk v)" "unat (clk v) \<le> unat t"
      using I st c by (simp_all add: word_le_nat_alt)
    have sl: "slept v \<le> slept w + (unat (clk v) - unat ?start)" using I st by simp
    have "unat t + unat d < 2 ^ 64" using dr rp le room by linarith
    then have "unat t + unat d \<le> unat (clk v')" using sleep(1) [of w3 d] c v' by simp
    moreover have "slept v' = slept v + unat d" using sleep(2) c v' by simp
    ultimately show "?I s'" using dr rp le sl s' by (auto simp: word_le_nat_alt)
  next
    fix st :: "'a retry_state" and q
    assume I: "?I st" and step: "run_turn p rt operation ?start st = Inl q"
    obtain seed attempt v where st: "st = (seed, attempt, v)" by (cases st)
    obtain x v' where q: "q = (x, v')" by (cases q)
    obtain y w2 where o: "operation v = (y, w2)" by (cases "operation v")
    obtain t w3 where t: "now_millis rt w2 = (t, w3)" by (cases "now_millis rt w2")
    have "slept w2 = slept v" "slept w3 = slept v" using op(2) [of v] now(3) [of w2] o t by auto
    moreover have "x = Panic \<or> v' = w2 \<or> v' = w3"
      using step st q o t
      by (cases y) (auto simp: run_turn_def Let_def sleep_or_def split: if_splits option.splits outcome.splits prod.splits)
    ultimately show "case q of (r, v) \<Rightarrow> r = Panic \<or> slept v \<le> slept w + unat (max_total_ms p)"
      using I st q by auto
  qed (simp add: w1)
  with clean show ?thesis by simp
qed

section \<open>Pacing\<close>

lemma acquire_turn_cases:
  "now_millis rt w = (now, w1) \<Longrightarrow> try_take b now = (Inr u, b') \<Longrightarrow>
     acquire_turn rt (b, w) = Inl (Inr (), b', w1)"
  "now_millis rt w = (now, w1) \<Longrightarrow> try_take b now = (Inl u64_max, b') \<Longrightarrow>
     acquire_turn rt (b, w) = Inl (Inl (TResilience (RateLimited u64_max)), b', w1)"
  "now_millis rt w = (now, w1) \<Longrightarrow> try_take b now = (Inl wait, b') \<Longrightarrow> wait \<noteq> u64_max \<Longrightarrow>
     acquire_turn rt (b, w) = Inr (b', sleep_ms rt wait w1)"
  by (simp_all add: acquire_turn_def)

text \<open>
  With a usable bucket and a clock that moves on by what is slept, one sleep is enough: the second
  take is granted, because the wait the first one named is exact.
\<close>

lemma acquire_loop_granted:
  assumes use: "bucket_usable b"
    and clock: "last_ms b \<le> clk w" "unat (clk w) + 1000 < 2 ^ 64"
    and now: "\<And>w. fst (now_millis rt w) = clk w" "\<And>w. clk (snd (now_millis rt w)) = clk w"
    and sleep: "\<And>d w. unat (clk w) + unat d < 2 ^ 64 \<Longrightarrow> unat (clk w) + unat d \<le> unat (clk (sleep_ms rt d w))"
  shows "\<exists>b' w'. loop (acquire_turn rt) (b, w) = Some (Inr (), b', w')"
proof -
  obtain w1 where n: "now_millis rt w = (clk w, w1)" using now(1) [of w] by (cases "now_millis rt w") simp
  have w1: "clk w1 = clk w" using now(2) [of w] n by simp
  obtain r b' where take: "try_take b (clk w) = (r, b')" by (cases "try_take b (clk w)")
  show ?thesis
  proof (cases r)
    case (Inr u)
    with take acquire_turn_cases(1) [OF n] show ?thesis by (auto simp: loop_halt)
  next
    case (Inl wait)
    with take have t: "try_take b (clk w) = (Inl wait, b')" by simp
    have wait: "unat wait \<le> 1000" "wait \<noteq> u64_max"
      using try_take_wait_bounds [OF use t] bucket_wait_finite [OF use t] by auto
    let ?w2 = "sleep_ms rt wait w1"
    have c2: "unat (clk w) + unat wait \<le> unat (clk ?w2)"
      using sleep [of w1 wait] wait(1) clock(2) w1 by simp
    obtain w3 where n2: "now_millis rt ?w2 = (clk ?w2, w3)"
      using now(1) [of ?w2] by (cases "now_millis rt ?w2") simp
    obtain b'' where "try_take b' (clk ?w2) = (Inr (), b'')"
      using bucket.granted_after_wait [OF use clock(1) t c2] by blast
    then have "loop (acquire_turn rt) (b', ?w2) = Some (Inr (), b'', w3)"
      by (intro loop_halt acquire_turn_cases(1) [OF n2])
    moreover have "loop (acquire_turn rt) (b, w) = loop (acquire_turn rt) (b', ?w2)"
      by (rule loop_next) (rule acquire_turn_cases(3) [OF n t wait(2)])
    ultimately show ?thesis by auto
  qed
qed

text \<open>A limiter of capacity zero with a positive refill never grants: the loop sleeps forever.\<close>

lemma try_take_capacity_0:
  assumes "bucket_ok b" "capacity_millitokens b = 0" "refill_per_sec b \<noteq> 0"
  shows "\<exists>wait b'. try_take b now = (Inl wait, b') \<and> wait \<noteq> u64_max
    \<and> bucket_ok b' \<and> capacity_millitokens b' = 0 \<and> refill_per_sec b' \<noteq> 0"
proof -
  have t: "tokens_millitokens (refill b now) = 0"
    using tokens_refill [OF assms(1), of now] assms(2) by (simp add: word_eq_iff_unat)
  let ?w = "div_ceil (millitokens_per_token - tokens_millitokens (refill b now)) (refill_per_sec b)"
  have "unat ?w \<le> 1000"
    using assms(3) t by (subst div_ceil_le) (auto simp: millitokens_per_token_def unat_gt_0 Suc_le_eq)
  then have "?w \<noteq> u64_max" by (auto simp: word_eq_iff_unat unat_max_word)
  moreover have "try_take b now = (Inl ?w, refill b now)"
    using t assms(3) by (simp add: try_take_def Let_def millitokens_per_token_def)
  ultimately show ?thesis using assms bucket_ok_refill by auto
qed

lemma acquire_loop_diverges:
  assumes "bucket_ok b" "capacity_millitokens b = 0" "refill_per_sec b \<noteq> 0"
  shows "loop (acquire_turn rt) (b, w) = None"
proof (rule loop_diverges [where I = "\<lambda>(b, w). bucket_ok b \<and> capacity_millitokens b = 0 \<and> refill_per_sec b \<noteq> 0"])
  fix st :: "token_bucket \<times> 'a"
  assume I: "case st of (b, w) \<Rightarrow> bucket_ok b \<and> capacity_millitokens b = 0 \<and> refill_per_sec b \<noteq> 0"
  obtain c v where st: "st = (c, v)" by (cases st)
  obtain now v1 where n: "now_millis rt v = (now, v1)" by (cases "now_millis rt v")
  from try_take_capacity_0 [of c now] I st obtain wait c' where
    "try_take c now = (Inl wait, c')" "wait \<noteq> u64_max"
    "bucket_ok c'" "capacity_millitokens c' = 0" "refill_per_sec c' \<noteq> 0" by auto
  with acquire_turn_cases(3) [OF n] st
  show "\<exists>s'. acquire_turn rt st = Inr s' \<and>
      (case s' of (b, w) \<Rightarrow> bucket_ok b \<and> capacity_millitokens b = 0 \<and> refill_per_sec b \<noteq> 0)"
    by auto
qed (use assms in simp)

section \<open>A scripted world\<close>

text \<open>
  A clock, the time slept so far and the responses still to come (the last one repeats): the
  concrete runtime and transport on which the properties are exercised.
\<close>

type_synonym script_world = "u64 \<times> nat \<times> (transport_error + http_response) list"

definition script_runtime :: "script_world runtime" where
  "script_runtime = \<lparr>now_millis = (\<lambda>w. (fst w, w)),
     sleep_ms = (\<lambda>d (t, n, rs). (saturating_add t d, n + unat d, rs))\<rparr>"

fun script_operation :: "script_world operation" where
  "script_operation (t, n, []) = (Inl (TInvalidUrl []), (t, n, []))"
| "script_operation (t, n, [r]) = (r, (t, n, [r]))"
| "script_operation (t, n, r # rs) = (r, (t, n, rs))"

lemma script_clock:
  "fst (now_millis script_runtime w) = fst w"
  "fst (snd (now_millis script_runtime w)) = fst w"
  "fst (snd (snd (now_millis script_runtime w))) = fst (snd w)"
  "fst (snd (script_operation w)) = fst w"
  "fst (snd (snd (script_operation w))) = fst (snd w)"
  "fst (snd (sleep_ms script_runtime d w)) = fst (snd w) + unat d"
  by (simp_all add: script_runtime_def split_beta)
    (induction w rule: script_operation.induct; simp)+

lemma script_sleep:
  "unat (fst w) + unat d < 2 ^ 64 \<Longrightarrow> unat (fst w) + unat d \<le> unat (fst (sleep_ms script_runtime d w))"
  by (simp add: script_runtime_def split_beta rust_arith)

section \<open>Witnesses\<close>

definition unavailable :: http_response where
  "unavailable = http_response_new 503 []"

definition quick_policy :: retry_policy where
  "quick_policy = \<lparr>policy_backoff = \<lparr>base_ms = 500, factor = 2, max_ms = 30000, max_retries = Some 1\<rparr>,
     policy_jitter = NoJitter, max_total_ms = 30000\<rparr>"

lemma retryable_503: "retryable_status 503" "\<not> retryable_status 200"
  by (simp_all add: retryable_status_def)

lemma quick_delays:
  "delay (policy_backoff quick_policy) 0 = Some 500" "delay (policy_backoff quick_policy) 1 = None"
  by (simp_all add: quick_policy_def delay_def checked_pow_def saturating_mul_def)

lemma next_delay_NoJitter:
  "policy_jitter p = NoJitter \<Longrightarrow> rem \<noteq> 0 \<Longrightarrow> delay (policy_backoff p) attempt = Some d \<Longrightarrow>
     next_delay p attempt None rem seed = (Done (Some (min d rem)), next_rand seed)"
  by (simp add: next_delay_def Let_def)

lemma next_delay_ceiling:
  "delay (policy_backoff p) attempt = None \<Longrightarrow> next_delay p attempt hint rem seed = (Done None, seed)"
  by (simp add: next_delay_def)

lemma quick_run:
  "run quick_policy script_runtime script_operation (0, 0, [Inr unavailable])
     = Some (Done (Inr unavailable), (500, 500, [Inr unavailable]))"
proof -
  have b: "remaining_budget quick_policy 0 0 = 30000" "remaining_budget quick_policy 0 500 = 29500"
    by (simp_all add: remaining_budget_def quick_policy_def saturating_sub_def)
  have j: "policy_jitter quick_policy = NoJitter" by (simp add: quick_policy_def)
  have d0: "next_delay quick_policy 0 None 30000 seed = (Done (Some 500), next_rand seed)" for seed
    by (subst next_delay_NoJitter [OF j _ quick_delays(1)]) (simp_all add: min_def)
  have 1: "run_turn quick_policy script_runtime script_operation 0 (seed, 0, (0, 0, [Inr unavailable]))
      = Inr (next_rand seed, 1, (500, 500, [Inr unavailable]))" for seed
    by (simp add: run_turn_def script_runtime_def unavailable_def http_response_new_def retryable_503 b d0
        sleep_or_def saturating_add_def checked_add_def)
  have 2: "run_turn quick_policy script_runtime script_operation 0 (seed, 1, (500, 500, [Inr unavailable]))
      = Inl (Done (Inr unavailable), (500, 500, [Inr unavailable]))" for seed
    by (simp add: run_turn_def script_runtime_def unavailable_def http_response_new_def retryable_503 b
        next_delay_ceiling [OF quick_delays(2)] sleep_or_def)
  let ?L = "loop (run_turn quick_policy script_runtime script_operation 0)"
  have "?L (seed, 0, (0, 0, [Inr unavailable]))
      = ?L (next_rand seed, 1, (500, 500, [Inr unavailable]))" for seed
    by (rule loop_next) (rule 1)
  also have "?L (seed, 1, (500, 500, [Inr unavailable]))
      = Some (Done (Inr unavailable), (500, 500, [Inr unavailable]))" for seed
    by (rule loop_halt) (rule 2)
  finally have l: "?L (seed, 0, (0, 0, [Inr unavailable]))
      = Some (Done (Inr unavailable), (500, 500, [Inr unavailable]))" for seed .
  have "now_millis script_runtime (0, 0, [Inr unavailable]) = (0, (0, 0, [Inr unavailable]))"
    by (simp add: script_runtime_def)
  then show ?thesis by (simp add: run_def l)
qed

theorem retry_run_outcome_witness:
  "\<exists>n v. retried quick_policy script_runtime script_operation 0 (0, 0, [Inr unavailable]) n v \<and> gave_up quick_policy 0 n 500"
proof -
  have start: "now_millis script_runtime (0, 0, [Inr unavailable]) = (0, (0, 0, [Inr unavailable]))"
    by (simp add: script_runtime_def)
  from retry_run_outcome [OF quick_run start] retryable_503 show ?thesis
    by (auto simp: unavailable_def http_response_new_def script_runtime_def exhausted_as_def split: if_splits sum.splits)
qed


definition patient_policy :: retry_policy where
  "patient_policy = \<lparr>policy_backoff = default_backoff, policy_jitter = Equal, max_total_ms = 30000\<rparr>"

section \<open>Properties of the pacing\<close>

text \<open>C32. With a bucket that can hold a token and refills, acquiring a permit returns: the
  rate limiter's first refusal is followed by one sleep, after which the take is granted.\<close>

theorem acquire_granted:
  assumes "limiter t = Some b" "bucket_usable b" "last_ms b \<le> clk w" "unat (clk w) + 1000 < 2 ^ 64"
    and "\<And>w. fst (now_millis (rt_runtime t) w) = clk w" "\<And>w. clk (snd (now_millis (rt_runtime t) w)) = clk w"
    and "\<And>d w. unat (clk w) + unat d < 2 ^ 64 \<Longrightarrow>
      unat (clk w) + unat d \<le> unat (clk (sleep_ms (rt_runtime t) d w))"
  shows "\<exists>t' w'. acquire t w = Some (Inr (), t', w')"
  using acquire_loop_granted [OF assms(2-7)] assms(1) by (auto simp: acquire_def)

text \<open>A limiter of capacity zero with a positive refill rate never grants and never sheds: whatever
  the clock does, acquiring a permit sleeps forever.\<close>

lemma acquire_capacity_zero_diverges:
  assumes "limiter t = Some (bucket_new 0 rate t0)" "rate \<noteq> 0"
  shows "acquire t w = None"
proof -
  have "capacity_millitokens (bucket_new 0 rate t0) = 0" "refill_per_sec (bucket_new 0 rate t0) \<noteq> 0"
    using assms(2) unat_capacity_new [of 0 rate t0] bucket_new_fields(3) [of 0 rate t0]
    by (auto simp: word_eq_iff_unat)
  then have "loop (acquire_turn (rt_runtime t)) (bucket_new 0 rate t0, w) = None"
    by (rule acquire_loop_diverges [OF bucket_ok_new])
  with assms(1) show ?thesis by (simp add: acquire_def)
qed

definition paced :: "token_bucket \<Rightarrow> script_world resilient_transport" where
  "paced b = \<lparr>inner = \<lparr>t_get = (\<lambda>_. script_operation), t_post = (\<lambda>_ _. script_operation)\<rparr>,
     rt_runtime = script_runtime, rt_retry = quick_policy, limiter = Some b\<rparr>"

theorem acquire_granted_witness:
  "\<exists>t' w'. acquire (paced ((bucket_new 1 2 100)\<lparr>tokens_millitokens := 0\<rparr>)) (100, 0, []) = Some (Inr (), t', w')"
proof -
  have u: "bucket_usable ((bucket_new 1 2 100)\<lparr>tokens_millitokens := 0\<rparr>)"
    using small_bucket by (simp add: bucket_usable_def bucket_ok_def)
  have l: "last_ms ((bucket_new 1 2 100)\<lparr>tokens_millitokens := 0\<rparr>) \<le> 100"
    by (simp add: bucket_new_def Let_def)
  show ?thesis
    by (rule acquire_granted [where clk = fst, OF _ u])
      (use l in \<open>simp_all add: paced_def bucket_new_fields script_clock script_sleep\<close>)
qed

end
