(* ===== verification/Errors.thy ===== *)
theory Errors
  imports Transport
begin

text \<open>
  The error types of the two crates (the \<open>error.rs\<close> files): every variant with its fields. Failures
  of third-party code (account, crypto, X.509, encoders) are kept as the message or an opaque value
  they carry, a \<open>string\<close>.
\<close>

section \<open>Core crate\<close>

datatype asn1_error = InvalidOid string | Asn1EncodeError string | Asn1DecodeError string

datatype sensitive_attribute_error =
    SaMissingValue
  | SaInvalidOid string
  | SaSigningError string
  | SaMissingPublicKey
  | SaUnsupportedKeyType
  | SaInvalidVersion
  | SaUnsupportedVersion u64
  | SaInvalidProof
  | SaInvalidUtf8
  | SaInvalidAttributeIsSensitive string
  | SaInvalidAttributeIsPlain string
  | SaAccountError string
  | SaCryptoError string
  | SaAsn1Error asn1_error

datatype kyc_schema_error =
    KsAsn1Error asn1_error
  | KsSerialization string
  | KsMissingOid
  | KsMissingValue
  | KsUnsupportedDigestAlgorithm string
  | KsUnsupportedEncryptionAlgorithm string

datatype kyc_certificate_error =
    KcSensitiveAttributeError sensitive_attribute_error
  | KcX509Error string
  | KcAsn1Error asn1_error
  | KcKycSchemaError kyc_schema_error
  | KcAttributeNotFound string
  | KcInvalidAttributeValue string string
  | KcMissingRequiredField string
  | KcUnsupportedSubjectKey

datatype container_error =
    UnsupportedVersion u64
  | UnsupportedCipherAlgorithm
  | UnsupportedDigestAlgorithm
  | UnsupportedSignatureAlgorithm
  | UnsupportedKeyType
  | NoKeysProvided
  | NoMatchingKey
  | DecryptionFailed
  | DecompressionFailed
  | SignerRequiresPrivateKey
  | NotSigned
  | NoPlaintextAvailable
  | NoEncodedDataAvailable
  | PlaintextDisabled
  | EncryptionRequired
  | InvalidPrincipals
  | AccessManagementNotAllowed
  | CeAccountError string
  | CeCryptoError string
  | CeAsn1Error asn1_error

datatype sharable_error =
    ShContainer container_error
  | ShCertificate kyc_certificate_error
  | ShX509 string
  | ShAccount string
  | ShAsn1 asn1_error
  | ShAttributeNotFound string
  | SensitivityMismatch string
  | ValueMismatch string
  | ProofValidationFailed string
  | ShUnsupportedSubjectKey
  | NoPrincipals
  | InvalidPem
  | InvalidJson
  | InvalidBase64
  | ReferenceDigestMismatch string string
  | ReferenceDecrypt string string container_error

datatype anchor_error =
    AnAsn1Error asn1_error
  | AnKycCertificateError kyc_certificate_error
  | AnSensitiveAttributeError sensitive_attribute_error
  | AnEncryptedContainerError container_error

section \<open>Signing\<close>

datatype signing_error =
    NonFiniteNumber
  | IntegerOutOfRange
  | NonIntegerNumber
  | OutputTooLarge
  | NonCanonicalTimestamp
  | SeEncode string
  | SeAccount string

datatype verify_error =
    SignatureMismatch
  | ClockSkew int int
  | MalformedTimestamp
  | MalformedSignature string
  | VeEncoding signing_error

datatype request_error =
    DuplicateParameter string
  | IncompleteSignature
  | MissingAuthentication
  | MalformedAccount string
  | ReVerify verify_error

section \<open>Resolver\<close>

datatype resolver_error =
    RBase64 string
  | RUtf8
  | RJson string
  | RField string
  | RUnsupportedScheme string
  | RNotFound string
  | RNoRootMetadata
  | RAccount string
  | RTransport transport_error
  | RNode string

text \<open>The text of an ASN.1 error.\<close>

fun asn1_message :: "asn1_error \<Rightarrow> string" where
  "asn1_message (InvalidOid reason) = ''Invalid OID: '' @ reason"
| "asn1_message (Asn1EncodeError reason) = ''ASN.1 encoding error: '' @ reason"
| "asn1_message (Asn1DecodeError reason) = ''ASN.1 decoding error: '' @ reason"

section \<open>Conversions\<close>

text \<open>\<open>OrDecryptionFailed\<close>: any failure of a decryption step is the one error.\<close>

definition or_decryption_failed :: "'e + 'a \<Rightarrow> container_error + 'a" where
  "or_decryption_failed m = map_err (\<lambda>_. DecryptionFailed) m"

text \<open>Failures of the DER coder.\<close>

definition rasn_encode_error :: "string \<Rightarrow> asn1_error" where
  "rasn_encode_error e = Asn1EncodeError (''ASN.1 encoding error: '' @ e)"

definition rasn_decode_error :: "string \<Rightarrow> asn1_error" where
  "rasn_decode_error e = Asn1DecodeError (''ASN.1 decoding error: '' @ e)"

text \<open>A schema error enters the sharable surface through the certificate error.\<close>

definition sharable_of_schema :: "kyc_schema_error \<Rightarrow> sharable_error" where
  "sharable_of_schema e = ShCertificate (KcKycSchemaError e)"

end
