(* ===== verification/Blocker.thy ===== *)
theory Blocker
  imports Json
begin

text \<open>
  \<open>keetanetwork-anchor-client/src/services/asset_movement/error.rs\<close>: the blockers an anchor reports,
  read from its error envelope and printed to the shape the FFI boundaries emit.
\<close>

definition KYC_SHARE_NEEDED :: string where
  "KYC_SHARE_NEEDED = ''KEETA_ANCHOR_ASSET_MOVEMENT_KYC_SHARE_NEEDED''"

definition ADDITIONAL_KYC_NEEDED :: string where
  "ADDITIONAL_KYC_NEEDED = ''KEETA_ANCHOR_ASSET_MOVEMENT_ADDITIONAL_KYC_NEEDED''"

definition OPERATION_NOT_SUPPORTED :: string where
  "OPERATION_NOT_SUPPORTED = ''KEETA_ANCHOR_ASSET_MOVEMENT_OPERATION_NOT_SUPPORTED''"

definition USER_ACTION_NEEDED :: string where
  "USER_ACTION_NEEDED = ''KEETA_ANCHOR_ASSET_MOVEMENT_USER_ACTION_NEEDED''"

lemmas blocker_codes =
  KYC_SHARE_NEEDED_def ADDITIONAL_KYC_NEEDED_def OPERATION_NOT_SUPPORTED_def USER_ACTION_NEEDED_def

text \<open>\<open>KycShareNeeded\<close> holds the flow, the needed attributes, the principals and the issuers;
  \<open>Other\<close> the name, the code and the message.\<close>

datatype blocker =
    KycShareNeeded "json option" "string list option" "string list" json
  | AdditionalKycNeeded "json option"
  | OperationNotSupported "json option" "string option"
  | UserActionNeeded "json list"
  | OtherBlocker string "string option" string

fun transport_code :: "blocker \<Rightarrow> string option" where
  "transport_code (KycShareNeeded _ _ _ _) = Some KYC_SHARE_NEEDED"
| "transport_code (AdditionalKycNeeded _) = Some ADDITIONAL_KYC_NEEDED"
| "transport_code (OperationNotSupported _ _) = Some OPERATION_NOT_SUPPORTED"
| "transport_code (UserActionNeeded _) = Some USER_ACTION_NEEDED"
| "transport_code (OtherBlocker _ _ _) = None"

definition is_recognized :: "blocker \<Rightarrow> bool" where
  "is_recognized b = (transport_code b \<noteq> None)"

fun blocker_to_json :: "blocker \<Rightarrow> json" where
  "blocker_to_json (KycShareNeeded tos_flow needed share issuers) = json_object
     [(''type'', JString ''kycShareNeeded''),
      (''tosFlow'', json_option id tos_flow),
      (''neededAttributes'', json_option (\<lambda>xs. JArray (map JString xs)) needed),
      (''shareWithPrincipals'', JArray (map JString share)),
      (''acceptedIssuers'', issuers)]"
| "blocker_to_json (AdditionalKycNeeded flow) = json_object
     [(''type'', JString ''additionalKycNeeded''), (''toCompleteFlow'', json_option id flow)]"
| "blocker_to_json (OperationNotSupported for_asset for_rail) = json_object
     [(''type'', JString ''operationNotSupported''),
      (''forAsset'', json_option id for_asset),
      (''forRail'', json_option JString for_rail)]"
| "blocker_to_json (UserActionNeeded actions) = json_object
     [(''type'', JString ''userActionNeeded''), (''actionsNeeded'', JArray actions)]"
| "blocker_to_json (OtherBlocker name code message) = json_object
     [(''type'', JString ''other''),
      (''name'', JString name),
      (''code'', json_option JString code),
      (''message'', JString message)]"

text \<open>A field of the optional \<open>data\<close> object; a null counts as absent.\<close>

definition field :: "json option \<Rightarrow> string \<Rightarrow> json option" where
  "field data key =
     (case Option.bind data (get_key key) of
        None \<Rightarrow> None
      | Some v \<Rightarrow> if is_null v then None else Some v)"

definition array_field :: "json option \<Rightarrow> string \<Rightarrow> json list" where
  "array_field data key =
     (case Option.bind (field data key) as_array of None \<Rightarrow> [] | Some xs \<Rightarrow> xs)"

definition kyc_share_needed :: "json option \<Rightarrow> blocker" where
  "kyc_share_needed data =
     KycShareNeeded
       (field data ''tosFlow'')
       (map_option (filter_map as_str) (Option.bind (field data ''neededAttributes'') as_array))
       (filter_map as_str (array_field data ''shareWithPrincipals''))
       (case field data ''acceptedIssuers'' of None \<Rightarrow> JNull | Some v \<Rightarrow> v)"

definition other_blocker :: "json \<Rightarrow> string option \<Rightarrow> blocker" where
  "other_blocker entry code =
     OtherBlocker
       (case Option.bind (get_key ''name'' entry) as_str of None \<Rightarrow> [] | Some s \<Rightarrow> s)
       code
       (case Option.bind (get_key ''error'' entry) as_str of None \<Rightarrow> [] | Some s \<Rightarrow> s)"

definition from_transport :: "json \<Rightarrow> blocker" where
  "from_transport entry =
     (let code = Option.bind (get_key ''code'' entry) as_str;
          data = get_key ''data'' entry
      in if code = Some KYC_SHARE_NEEDED then kyc_share_needed data
         else if code = Some ADDITIONAL_KYC_NEEDED then
           AdditionalKycNeeded (field data ''toCompleteFlow'')
         else if code = Some OPERATION_NOT_SUPPORTED then
           OperationNotSupported (field data ''forAsset'') (Option.bind (field data ''forRail'') as_str)
         else if code = Some USER_ACTION_NEEDED then
           UserActionNeeded (array_field data ''actionsNeeded'')
         else other_blocker entry code)"

datatype account_status = AccountReady | ActionRequired "blocker list"

section \<open>Facts\<close>

lemma transport_code_from_transport:
  "transport_code (from_transport entry) =
     (case Option.bind (get_key ''code'' entry) as_str of
        Some c \<Rightarrow> if c \<in> {KYC_SHARE_NEEDED, ADDITIONAL_KYC_NEEDED, OPERATION_NOT_SUPPORTED, USER_ACTION_NEEDED}
                  then Some c else None
      | None \<Rightarrow> None)"
  by (auto simp: from_transport_def kyc_share_needed_def other_blocker_def Let_def split: option.splits)

lemma filter_map_as_str [simp]: "filter_map as_str (map JString xs) = xs"
  by (induction xs) auto

text \<open>The optional values a blocker read from an envelope can hold: a null is never kept.\<close>

fun blocker_normal :: "blocker \<Rightarrow> bool" where
  "blocker_normal (KycShareNeeded tos _ _ _) \<longleftrightarrow> tos \<noteq> Some JNull"
| "blocker_normal (AdditionalKycNeeded flow) \<longleftrightarrow> flow \<noteq> Some JNull"
| "blocker_normal (OperationNotSupported for_asset _) \<longleftrightarrow> for_asset \<noteq> Some JNull"
| "blocker_normal _ \<longleftrightarrow> True"

lemma field_not_null: "field data key \<noteq> Some JNull"
  by (auto simp: field_def split: option.splits)

lemma blocker_normal_from_transport: "blocker_normal (from_transport entry)"
  by (simp add: from_transport_def kyc_share_needed_def other_blocker_def Let_def field_not_null)

lemma is_null_iff: "is_null v \<longleftrightarrow> v = JNull"
  by (cases v) auto

lemma field_json_object:
  "field (Some (json_object kvs)) key =
     (case map_of (rev kvs) key of None \<Rightarrow> None | Some v \<Rightarrow> if v = JNull then None else Some v)"
  by (simp add: field_def get_key_json_object is_null_iff split: option.splits)

lemma code_distinct:
  "ADDITIONAL_KYC_NEEDED \<noteq> KYC_SHARE_NEEDED" "OPERATION_NOT_SUPPORTED \<noteq> KYC_SHARE_NEEDED"
  "USER_ACTION_NEEDED \<noteq> KYC_SHARE_NEEDED" "OPERATION_NOT_SUPPORTED \<noteq> ADDITIONAL_KYC_NEEDED"
  "USER_ACTION_NEEDED \<noteq> ADDITIONAL_KYC_NEEDED" "USER_ACTION_NEEDED \<noteq> OPERATION_NOT_SUPPORTED"
  by (simp_all add: blocker_codes)

lemma from_transport_data:
  assumes "transport_code b = Some c" "blocker_normal b"
    and "get_key ''code'' entry = Some (JString c)" "get_key ''data'' entry = Some (blocker_to_json b)"
  shows "from_transport entry = b"
proof (cases b)
  case (KycShareNeeded tos needed share issuers)
  with assms show ?thesis
    by (cases tos; cases needed)
      (auto simp: from_transport_def kyc_share_needed_def field_json_object array_field_def json_option_def Let_def)
next
  case (AdditionalKycNeeded flow)
  with assms code_distinct show ?thesis
    by (cases flow) (auto simp: from_transport_def field_json_object json_option_def Let_def)
next
  case (OperationNotSupported for_asset for_rail)
  with assms code_distinct show ?thesis
    by (cases for_asset; cases for_rail)
      (auto simp: from_transport_def field_json_object json_option_def Let_def)
next
  case (UserActionNeeded actions)
  with assms code_distinct show ?thesis
    by (auto simp: from_transport_def field_json_object array_field_def Let_def)
next
  case (OtherBlocker name code message)
  with assms show ?thesis by simp
qed

section \<open>Properties\<close>

text \<open>Blockers survive the JSON boundary: the blocker read from any envelope, when recognized,
  printed with \<open>to_json\<close> and put back as the data of an envelope with its own code, reads back as the
  same blocker.\<close>

lemma blocker_json_roundtrip:
  assumes "b = from_transport entry" and "transport_code b = Some c"
  shows "from_transport (json_object [(''code'', JString c), (''data'', blocker_to_json b)]) = b"
  using assms(2)
  by (rule from_transport_data) (simp_all add: assms(1) blocker_normal_from_transport get_key_json_object)

end
