(* ===== verification/ClientError.thy ===== *)
theory ClientError
  imports Errors Blocker
begin

text \<open>
  \<open>keetanetwork-anchor-client/src/error.rs\<close>: the unified error of the client and its stable codes.
\<close>

datatype client_error =
    CeTransport transport_error
  | CeResolver resolver_error
  | CeUrl string
  | CeSigning signing_error
  | CeRequest request_error
  | CeBody string
  | CeService u16
  | CeBlocker blocker
  | CeUnsupportedOperation string
  | CeTimeout string u32
  | CeReferenceFetch string u16
  | CeSharable sharable_error

fun client_error_code :: "client_error \<Rightarrow> string" where
  "client_error_code (CeTransport _) = ''TRANSPORT''"
| "client_error_code (CeResolver _) = ''RESOLVER''"
| "client_error_code (CeUrl _) = ''INVALID_URL''"
| "client_error_code (CeSigning _) = ''SIGNING''"
| "client_error_code (CeRequest _) = ''REQUEST''"
| "client_error_code (CeBody _) = ''INVALID_BODY''"
| "client_error_code (CeService _) = ''SERVICE''"
| "client_error_code (CeBlocker b) = (case transport_code b of None \<Rightarrow> ''SERVICE'' | Some c \<Rightarrow> c)"
| "client_error_code (CeUnsupportedOperation _) = ''UNSUPPORTED_OPERATION''"
| "client_error_code (CeTimeout _ _) = ''TIMEOUT''"
| "client_error_code (CeReferenceFetch _ _) = ''REFERENCE_FETCH''"
| "client_error_code (CeSharable _) = ''SHARABLE''"

end
