(* ===== verification/Endpoint.thy ===== *)
theory Endpoint
  imports ClientError
begin

text \<open>
  \<open>keetanetwork-anchor-client/src/service/endpoint.rs\<close>: the operation templates. Each \<open>{key}\<close> is
  replaced by the percent-encoding of its value, one parameter after the other; the result is parsed
  by the \<open>url\<close> crate, which is the parameter \<open>url_parse\<close>.
\<close>

section \<open>Percent-encoding\<close>

definition component_safe :: "char \<Rightarrow> bool" where
  "component_safe c \<longleftrightarrow> is_ascii_alnum c \<or> c \<in> set ''-_.!~*'' \<or> c = CHR 0x27 \<or> c \<in> set ''()''"

definition hex_digit :: "nat \<Rightarrow> char" where
  "hex_digit d = (if d < 10 then char_of (48 + d) else char_of (55 + d))"

definition percent_byte :: "char \<Rightarrow> string" where
  "percent_byte c = [CHR ''%'', hex_digit (of_char c div 16), hex_digit (of_char c mod 16)]"

definition percent_encode :: "string \<Rightarrow> string" where
  "percent_encode v = concat (map (\<lambda>c. if component_safe c then [c] else percent_byte c) v)"

section \<open>Substitution\<close>

text \<open>\<open>str::replace\<close>: the non-overlapping occurrences from the left, here for a pattern that is not
  empty (a placeholder holds at least its braces).\<close>

fun replace_from :: "nat \<Rightarrow> string \<Rightarrow> string \<Rightarrow> string \<Rightarrow> string" where
  "replace_from skip pat new [] = []"
| "replace_from (Suc skip) pat new (c # cs) = replace_from skip pat new cs"
| "replace_from 0 pat new (c # cs) =
     (case strip_prefix pat (c # cs) of
        Some _ \<Rightarrow> new @ replace_from (length pat - 1) pat new cs
      | None \<Rightarrow> c # replace_from 0 pat new cs)"

definition replace :: "string \<Rightarrow> string \<Rightarrow> string \<Rightarrow> string" where
  "replace pat new s = replace_from 0 pat new s"

definition placeholder :: "string \<Rightarrow> string" where
  "placeholder key = CHR 0x7B # key @ [CHR 0x7D]"

type_synonym endpoint = string

definition fill :: "endpoint \<Rightarrow> (string \<times> string) list \<Rightarrow> string" where
  "fill template params =
     foldl (\<lambda>filled (key, v). replace (placeholder key) (percent_encode v) filled) template params"

definition endpoint_url :: "(string \<Rightarrow> string + 'u) \<Rightarrow> endpoint \<Rightarrow> (string \<times> string) list \<Rightarrow> client_error + 'u" where
  "endpoint_url url_parse template params = map_err CeUrl (url_parse (fill template params))"

section \<open>Facts about the encoding\<close>

text \<open>The decoder of \<open>encodeURIComponent\<close>, a specification.\<close>

definition hex_val :: "char \<Rightarrow> nat" where
  "hex_val c = (let b = of_char c in if b < 58 then b - 48 else b - 55)"

fun percent_decode :: "string \<Rightarrow> string" where
  "percent_decode [] = []"
| "percent_decode (c # cs) =
     (if c = CHR ''%'' then
        (case cs of h # l # rest \<Rightarrow> char_of (16 * hex_val h + hex_val l) # percent_decode rest
         | _ \<Rightarrow> c # percent_decode cs)
      else c # percent_decode cs)"

lemma hex_val_digit: "d < 16 \<Longrightarrow> hex_val (hex_digit d) = d"
  by (simp add: hex_val_def hex_digit_def Let_def)

lemma percent_not_safe: "component_safe c \<Longrightarrow> c \<noteq> CHR ''%''"
  by (auto simp: component_safe_def is_ascii_alnum_def is_ascii_digit_def is_ascii_upper_def is_ascii_lower_def)

lemma of_char_div_16: "(of_char c :: nat) div 16 < 16"
  using of_char_less_256 [of c] by (intro less_mult_imp_div_less) simp

lemma percent_decode_byte:
  "percent_decode (percent_byte c @ s) = c # percent_decode s"
  by (simp add: percent_byte_def hex_val_digit of_char_div_16)

lemma percent_decode_encode: "percent_decode (percent_encode v) = v"
proof (induction v)
  case (Cons c v)
  have "percent_encode (c # v) = (if component_safe c then [c] else percent_byte c) @ percent_encode v"
    by (simp add: percent_encode_def)
  with Cons percent_not_safe show ?case by (auto simp: percent_decode_byte)
qed (simp add: percent_encode_def)

lemma hex_digit_safe: "d < 16 \<Longrightarrow> is_ascii_alnum (hex_digit d)"
  by (auto simp: hex_digit_def is_ascii_alnum_def is_ascii_digit_def is_ascii_upper_def)

lemma percent_encode_safe:
  assumes "c \<in> set (percent_encode v)"
  shows "c = CHR ''%'' \<or> component_safe c"
proof -
  from assms obtain d where d: "c \<in> set (if component_safe d then [d] else percent_byte d)"
    unfolding percent_encode_def by fastforce
  with d of_char_div_16 [of d] show ?thesis by (auto simp: percent_byte_def component_safe_def hex_digit_safe split: if_splits)
qed

lemma percent_encode_no_brace: "CHR 0x7B \<notin> set (percent_encode v)" "CHR 0x7D \<notin> set (percent_encode v)"
  by (auto dest!: percent_encode_safe
      simp: component_safe_def is_ascii_alnum_def is_ascii_digit_def is_ascii_upper_def is_ascii_lower_def)

section \<open>Templates as segments\<close>

text \<open>A template as its literal text and its holes.\<close>

datatype template_segment = Lit string | Hole string

fun render_segment :: "template_segment \<Rightarrow> string" where
  "render_segment (Lit s) = s"
| "render_segment (Hole k) = placeholder k"

definition render :: "template_segment list \<Rightarrow> string" where
  "render segs = concat (map render_segment segs)"

definition no_braces :: "string \<Rightarrow> bool" where
  "no_braces s \<longleftrightarrow> CHR 0x7B \<notin> set s \<and> CHR 0x7D \<notin> set s"

fun segment_ok :: "template_segment \<Rightarrow> bool" where
  "segment_ok (Lit s) = no_braces s"
| "segment_ok (Hole k) = no_braces k"

text \<open>The specification of a filled template: every hole that a parameter names, at once, the
  first parameter of a name counting.\<close>

fun fill_segment :: "(string \<times> string) list \<Rightarrow> template_segment \<Rightarrow> template_segment" where
  "fill_segment params (Lit s) = Lit s"
| "fill_segment params (Hole k) =
     (case map_of params k of None \<Rightarrow> Hole k | Some v \<Rightarrow> Lit (percent_encode v))"

lemma replace_from_skip: "replace_from (length xs) pat new (xs @ s) = replace_from 0 pat new s"
  by (induction xs) auto

lemma replace_hit: "replace_from 0 (p # ps) new ((p # ps) @ s) = new @ replace_from 0 (p # ps) new s"
  by (simp add: replace_from_skip)

lemma replace_lit:
  "p \<notin> set xs \<Longrightarrow> replace_from 0 (p # ps) new (xs @ s) = xs @ replace_from 0 (p # ps) new s"
  by (induction xs) auto

lemma close_brace_unique:
  "CHR 0x7D \<notin> set k \<Longrightarrow> CHR 0x7D \<notin> set k' \<Longrightarrow> k @ CHR 0x7D # r = k' @ CHR 0x7D # s \<Longrightarrow> k = k'"
  by (metis Pair_inject option.inject split_once_append)

lemma placeholder_prefix:
  assumes "no_braces k" "no_braces k'"
  shows "strip_prefix (placeholder k) (placeholder k' @ s) = (if k = k' then Some s else None)"
proof (cases "strip_prefix (placeholder k) (placeholder k' @ s)")
  case None
  then show ?thesis by (cases "k = k'") simp_all
next
  case (Some r)
  then have "k @ CHR 0x7D # r = k' @ CHR 0x7D # s"
    unfolding strip_prefix_Some by (simp add: placeholder_def)
  with assms close_brace_unique [of k k' r s] Some show ?thesis by (simp add: no_braces_def)
qed

lemma replace_hole:
  assumes "no_braces k" "no_braces k'"
  shows "replace_from 0 (placeholder k) new (placeholder k' @ s) =
    (if k = k' then new else placeholder k') @ replace_from 0 (placeholder k) new s"
proof (cases "k = k'")
  case True
  then show ?thesis using replace_hit [of "CHR 0x7B" "k @ [CHR 0x7D]" new s] by (simp add: placeholder_def)
next
  case False
  from placeholder_prefix [OF assms, of s] False
  have "replace_from 0 (placeholder k) new (placeholder k' @ s)
      = CHR 0x7B # replace_from 0 (placeholder k) new ((k' @ [CHR 0x7D]) @ s)"
    by (simp add: placeholder_def)
  also have "\<dots> = CHR 0x7B # (k' @ [CHR 0x7D]) @ replace_from 0 (placeholder k) new s"
    using assms(2) by (simp only: placeholder_def, subst replace_lit) (auto simp: no_braces_def)
  finally show ?thesis using False by (simp add: placeholder_def)
qed

lemma replace_render:
  assumes "list_all segment_ok segs" "no_braces k"
  shows "replace (placeholder k) (percent_encode v) (render segs) = render (map (fill_segment [(k, v)]) segs)"
  using assms(1) unfolding replace_def
proof (induction segs)
  case Nil
  show ?case by (simp add: render_def)
next
  case (Cons seg segs)
  have r: "render (s # ss) = render_segment s @ render ss" for s ss by (simp add: render_def)
  show ?case
  proof (cases seg)
    case (Lit s)
    with Cons have "CHR 0x7B \<notin> set s" by (simp add: no_braces_def)
    then have "replace_from 0 (placeholder k) (percent_encode v) (s @ render segs)
        = s @ replace_from 0 (placeholder k) (percent_encode v) (render segs)"
      unfolding placeholder_def by (rule replace_lit)
    with Cons Lit show ?thesis by (simp add: r)
  next
    case (Hole k')
    with Cons assms(2) show ?thesis by (auto simp: r replace_hole)
  qed
qed

lemma segment_ok_fill: "segment_ok seg \<Longrightarrow> segment_ok (fill_segment params seg)"
  by (cases seg) (auto simp: no_braces_def percent_encode_no_brace split: option.splits)

lemma fill_segment_Cons: "fill_segment params (fill_segment [(k, v)] seg) = fill_segment ((k, v) # params) seg"
  by (cases seg) (auto split: option.splits)

lemma fill_render:
  "list_all segment_ok segs \<Longrightarrow> list_all no_braces (map fst params) \<Longrightarrow>
   fill (render segs) params = render (map (fill_segment params) segs)"
proof (induction params arbitrary: segs)
  case Nil
  have "fill_segment [] seg = seg" for seg by (cases seg) auto
  then show ?case by (simp add: fill_def map_idI)
next
  case (Cons kv params)
  obtain k v where kv: "kv = (k, v)" by (cases kv)
  let ?segs = "map (fill_segment [(k, v)]) segs"
  have "fill (render segs) (kv # params) = fill (render ?segs) params"
    using Cons.prems kv by (simp add: fill_def replace_render)
  also have "\<dots> = render (map (fill_segment params) ?segs)"
    using Cons.prems by (intro Cons.IH) (auto simp: list_all_iff segment_ok_fill)
  finally show ?case by (simp add: kv comp_def fill_segment_Cons)
qed

section \<open>Properties\<close>

text \<open>Filling a template one parameter after the other is the simultaneous substitution: every
  hole a parameter names holds the percent-encoding of its value and nothing else changes, so a value
  never opens a hole that a later parameter fills.\<close>

lemma endpoint_fill_simultaneous:
  assumes "list_all segment_ok segs" and "list_all no_braces (map fst params)"
  shows "fill (render segs) params = render (map (fill_segment params) segs)"
  using assms by (rule fill_render)

text \<open>An encoded value stays inside its URL component: it decodes to the value it encodes, and
  none of its characters is a delimiter, only the unreserved characters and the escapes.\<close>

lemma percent_encode_roundtrip:
  "percent_decode (percent_encode v) = v \<and> set (percent_encode v) \<subseteq> insert (CHR ''%'') {c. component_safe c}"
  using percent_decode_encode percent_encode_safe by blast

end
