(* ===== verification/Envelope.thy ===== *)
theory Envelope
  imports ClientError
begin

text \<open>
  \<open>keetanetwork-anchor-client/src/service/envelope.rs\<close>: the outcome of an operation, read from the
  HTTP response. The parser of \<open>serde_json\<close> is the parameter \<open>jt\<close>: it takes the bytes of a body to
  the document they hold (the members of an object in text order, duplicates kept) or to its message;
  a decoder takes the document to the Rust value.
\<close>

section \<open>Decoders\<close>

type_synonym json_text = "bytes \<Rightarrow> string + json"
type_synonym 'a decoder = "json \<Rightarrow> string + 'a"

definition from_slice :: "json_text \<Rightarrow> 'a decoder \<Rightarrow> bytes \<Rightarrow> string + 'a" where
  "from_slice jt dec body = bindR (jt body) dec"

definition decode_value :: "json decoder" where
  "decode_value doc = Inr (to_value doc)"

text \<open>The derived deserializer of an optional field: absent and null are \<open>None\<close>. A derived struct
  reads an object by its field names, refusing a field that occurs twice and skipping the names it
  does not know, and an array by position, refusing what is left over.\<close>

definition optional_value :: "(json \<Rightarrow> string + 'a) \<Rightarrow> json option \<Rightarrow> string + 'a option" where
  "optional_value dec v =
     (case v of None \<Rightarrow> Inr None
      | Some j \<Rightarrow> if is_null j then Inr None else bindR (dec j) (\<lambda>x. Inr (Some x)))"

definition occurrences :: "string \<Rightarrow> (string \<times> json) list \<Rightarrow> json list" where
  "occurrences k members = map snd (filter (\<lambda>(k', _). k' = k) members)"

definition struct_field :: "string \<Rightarrow> (string \<times> json) list \<Rightarrow> string + json option" where
  "struct_field k members =
     (case occurrences k members of
        [] \<Rightarrow> Inr None
      | [v] \<Rightarrow> Inr (Some v)
      | _ \<Rightarrow> Inl (''duplicate field '' @ k))"

definition decode_bool :: "bool decoder" where
  "decode_bool j = ok_or ''invalid type'' (as_bool j)"

definition decode_u32 :: "u32 decoder" where
  "decode_u32 j = ok_or ''invalid value'' (Option.bind (as_u64 j) try_narrow)"

section \<open>Outcomes\<close>

datatype 'a anchor_outcome = Ready 'a | Retry u32

fun outcome_ready :: "'a anchor_outcome \<Rightarrow> 'a option" where
  "outcome_ready (Ready v) = Some v"
| "outcome_ready (Retry _) = None"

definition default_retry_ms :: u32 where "default_retry_ms = 500"
definition not_found_status :: u16 where "not_found_status = 404"
definition accepted_status :: u16 where "accepted_status = 202"

record envelope =
  env_ok :: "bool option"
  env_retry_after :: "u32 option"

definition default_envelope :: envelope where
  "default_envelope = \<lparr>env_ok = None, env_retry_after = None\<rparr>"

definition envelope_of :: "json option \<Rightarrow> json option \<Rightarrow> string + envelope" where
  "envelope_of ok_field retry_field =
     bindR (optional_value decode_bool ok_field) (\<lambda>okv.
     bindR (optional_value decode_u32 retry_field) (\<lambda>r.
     Inr \<lparr>env_ok = okv, env_retry_after = r\<rparr>))"

fun decode_envelope :: "envelope decoder" where
  "decode_envelope (JObject members) =
     bindR (struct_field ''ok'' members) (\<lambda>okv.
     bindR (struct_field ''retryAfter'' members) (\<lambda>r. envelope_of okv r))"
| "decode_envelope (JArray []) = envelope_of None None"
| "decode_envelope (JArray [okv]) = envelope_of (Some okv) None"
| "decode_envelope (JArray [okv, r]) = envelope_of (Some okv) (Some r)"
| "decode_envelope _ = Inl ''invalid type''"

definition read_envelope :: "json_text \<Rightarrow> bytes \<Rightarrow> envelope" where
  "read_envelope jt body =
     (case from_slice jt decode_envelope body of Inl _ \<Rightarrow> default_envelope | Inr e \<Rightarrow> e)"

section \<open>Classification\<close>

definition header_delay_ms :: "retry_after \<Rightarrow> u32 option" where
  "header_delay_ms ra = Option.bind (to_millis ra) try_narrow"

definition retry_delay :: "http_response \<Rightarrow> envelope \<Rightarrow> u32 option" where
  "retry_delay response env =
     (case env_retry_after env of
        Some after_ms \<Rightarrow> Some after_ms
      | None \<Rightarrow>
          (case Option.bind (resp_retry_after response) header_delay_ms of
             Some after_ms \<Rightarrow> Some after_ms
           | None \<Rightarrow>
               if resp_status response = not_found_status \<or> resp_status response = accepted_status
               then Some default_retry_ms else None))"

definition pending_delay :: "json_text \<Rightarrow> http_response \<Rightarrow> u32 option" where
  "pending_delay jt response = retry_delay response (read_envelope jt (resp_body response))"

definition failure :: "json_text \<Rightarrow> http_response \<Rightarrow> client_error" where
  "failure jt response =
     (case from_slice jt decode_value (resp_body response) of
        Inr body \<Rightarrow>
          let b = from_transport body in
          if is_recognized b then CeBlocker b else CeService (resp_status response)
      | Inl _ \<Rightarrow> CeService (resp_status response))"

definition classify :: "json_text \<Rightarrow> 'a decoder \<Rightarrow> http_response \<Rightarrow> client_error + 'a anchor_outcome" where
  "classify jt dec response =
     (let env = read_envelope jt (resp_body response) in
      case retry_delay response env of
        Some after_ms \<Rightarrow> Inr (Retry after_ms)
      | None \<Rightarrow>
          if \<not> is_success response \<or> env_ok env = Some False then Inl (failure jt response)
          else bindR (map_err CeBody (from_slice jt dec (resp_body response))) (\<lambda>v. Inr (Ready v)))"

section \<open>Facts\<close>

lemma classify_retry_iff: "classify jt dec r = Inr (Retry ms) \<longleftrightarrow> pending_delay jt r = Some ms"
  by (auto simp: classify_def pending_delay_def Let_def result_elims split: option.splits if_splits)

lemma classify_ready_iff:
  "classify jt dec r = Inr (Ready v) \<longleftrightarrow>
     pending_delay jt r = None \<and> is_success r \<and> env_ok (read_envelope jt (resp_body r)) \<noteq> Some False
     \<and> from_slice jt dec (resp_body r) = Inr v"
  by (auto simp: classify_def pending_delay_def Let_def result_elims split: option.splits if_splits)

lemma failure_cases:
  "failure jt r = CeService (resp_status r)
   \<or> (\<exists>b. failure jt r = CeBlocker b \<and> is_recognized b)"
  by (auto simp: failure_def Let_def split: sum.splits)

lemma classify_error_iff:
  "classify jt dec r = Inl e \<longleftrightarrow>
     pending_delay jt r = None \<and>
     (if is_success r \<and> env_ok (read_envelope jt (resp_body r)) \<noteq> Some False
      then \<exists>m. from_slice jt dec (resp_body r) = Inl m \<and> e = CeBody m
      else e = failure jt r)"
  by (auto simp: classify_def pending_delay_def Let_def result_elims split: option.splits)

lemma pending_delay_none:
  "pending_delay jt r = None \<longleftrightarrow>
     env_retry_after (read_envelope jt (resp_body r)) = None
     \<and> Option.bind (resp_retry_after r) header_delay_ms = None
     \<and> resp_status r \<noteq> 404 \<and> resp_status r \<noteq> 202"
  by (auto simp: pending_delay_def retry_delay_def not_found_status_def accepted_status_def split: option.splits)

section \<open>Properties\<close>

text \<open>A response is classified in exactly one way: pending with the delay the hints give, ready
  with the decoded body when it is a settled success, a body error when that body does not decode, and
  otherwise the service failure with the status or a blocker, which is always a recognized one.\<close>

lemma classify_outcome:
  "case classify jt dec r of
     Inr (Retry ms) \<Rightarrow> pending_delay jt r = Some ms
   | Inr (Ready v) \<Rightarrow> pending_delay jt r = None \<and> is_success r
       \<and> env_ok (read_envelope jt (resp_body r)) \<noteq> Some False \<and> from_slice jt dec (resp_body r) = Inr v
   | Inl (CeBody m) \<Rightarrow> pending_delay jt r = None \<and> is_success r \<and> from_slice jt dec (resp_body r) = Inl m
   | Inl (CeService st) \<Rightarrow> pending_delay jt r = None \<and> st = resp_status r
       \<and> \<not> (is_success r \<and> env_ok (read_envelope jt (resp_body r)) \<noteq> Some False)
   | Inl (CeBlocker b) \<Rightarrow> pending_delay jt r = None \<and> is_recognized b
       \<and> \<not> (is_success r \<and> env_ok (read_envelope jt (resp_body r)) \<noteq> Some False)
   | Inl _ \<Rightarrow> False"
proof (cases "classify jt dec r")
  case (Inl e)
  with classify_error_iff [of jt dec r e] failure_cases [of jt r] show ?thesis
    by (auto split: if_splits)
next
  case (Inr out)
  show ?thesis
  proof (cases out)
    case (Ready v)
    with Inr classify_ready_iff [of jt dec r v] show ?thesis by simp
  next
    case (Retry ms)
    with Inr classify_retry_iff [of jt dec r ms] show ?thesis by simp
  qed
qed

text \<open>A response is pending exactly if its body names a delay, or its header names one that fits,
  or its status is 202 or 404, in this order of precedence; an opaque body never matters.\<close>

lemma pending_precedence:
  "pending_delay jt r =
     (if env_retry_after (read_envelope jt (resp_body r)) \<noteq> None
      then env_retry_after (read_envelope jt (resp_body r))
      else if \<exists>s. resp_retry_after r = Some (Seconds s) \<and> unat s * 1000 < 2 ^ 32
      then map_option (\<lambda>ra. case ra of Seconds s \<Rightarrow> word_of_nat (unat s * 1000) | _ \<Rightarrow> 0) (resp_retry_after r)
      else if resp_status r \<in> {202, 404} then Some 500 else None)"
proof -
  have header: "header_delay_ms (Seconds s) =
      (if unat s * 1000 < 2 ^ 32 then Some (word_of_nat (unat s * 1000)) else None)" for s
    by (simp add: header_delay_ms_def try_narrow_def unat_saturating_mul ms_per_second_def min_def)
  have date: "header_delay_ms (HttpDate d) = None" for d by (simp add: header_delay_ms_def)
  have opt: "Option.bind (resp_retry_after r) header_delay_ms =
      (if \<exists>s. resp_retry_after r = Some (Seconds s) \<and> unat s * 1000 < 2 ^ 32
       then map_option (\<lambda>ra. case ra of Seconds s \<Rightarrow> word_of_nat (unat s * 1000) | _ \<Rightarrow> 0) (resp_retry_after r)
       else None)"
  proof (cases "resp_retry_after r")
    case (Some ra)
    then show ?thesis by (cases ra) (simp_all add: header date)
  qed simp
  show ?thesis
    unfolding pending_delay_def retry_delay_def opt
    by (auto simp: not_found_status_def accepted_status_def default_retry_ms_def split: option.splits)
qed

end
