(* ===== verification/Canonical.thy ===== *)
theory Canonical
  imports Json Errors "HOL-Library.Multiset"
begin

text \<open>
  \<open>keetanetwork-anchor/src/signing/canonical.rs\<close> (and \<open>Signable\<close> of \<open>signable.rs\<close>): the canonical
  JSON of RFC 8785 that object payloads are signed as. The code expands the value with an explicit
  stack; here the top of the stack is the head of the list. The recursive printer \<open>canon\<close> is the
  specification the loop is shown to implement.
\<close>

section \<open>Signable payloads\<close>

text \<open>An integer part is an \<open>i64\<close>, an account part the public key with its type.\<close>

datatype signable = Text string | Integer "64 word" | AccountPart bytes

section \<open>Limits\<close>

definition max_output_bytes :: nat where "max_output_bytes = 65536"
definition max_nodes_limit :: nat where "max_nodes_limit = 1000"
definition max_safe_integer :: u64 where "max_safe_integer = 9007199254740991"

section \<open>Scalars\<close>

fun as_i64 :: "number \<Rightarrow> int option" where
  "as_i64 (PosInt n) = (if unat n < 2 ^ 63 then Some (int (unat n)) else None)"
| "as_i64 (NegInt n) = Some (sint n)"
| "as_i64 (Float _) = None"

fun number_u64 :: "number \<Rightarrow> u64 option" where
  "number_u64 (PosInt n) = Some n"
| "number_u64 _ = None"

text \<open>\<open>f64::is_finite\<close> on the bits: the exponent is not all ones.\<close>

definition is_finite :: "u64 \<Rightarrow> bool" where
  "is_finite bits \<longleftrightarrow> drop_bit 52 bits AND 0x7FF \<noteq> 0x7FF"

fun as_f64 :: "number \<Rightarrow> u64 option" where
  "as_f64 (Float bits) = Some bits"
| "as_f64 _ = None"

definition show_int :: "int \<Rightarrow> string" where
  "show_int i = (if i < 0 then CHR ''-'' # show_nat (nat (- i)) else show_nat (nat i))"

definition write_number :: "number \<Rightarrow> string \<Rightarrow> signing_error + string" where
  "write_number n output =
     (case as_i64 n of
        Some v \<Rightarrow>
          if nat \<bar>v\<bar> > unat max_safe_integer then Inl IntegerOutOfRange else Inr (output @ show_int v)
      | None \<Rightarrow>
          (case number_u64 n of
             Some v \<Rightarrow>
               if v > max_safe_integer then Inl IntegerOutOfRange else Inr (output @ show_nat (unat v))
           | None \<Rightarrow>
               (case as_f64 n of
                  Some bits \<Rightarrow> if \<not> is_finite bits then Inl NonFiniteNumber else Inl NonIntegerNumber
                | None \<Rightarrow> Inl NonIntegerNumber)))"

definition hex_lower :: "nat \<Rightarrow> char" where
  "hex_lower d = (if d < 10 then char_of (48 + d) else char_of (87 + d))"

text \<open>One byte of a string literal: the control characters and the two delimiters are ASCII, the
  bytes of any other character pass through.\<close>

definition escape_char :: "char \<Rightarrow> string" where
  "escape_char c =
     (let b = of_char c :: nat in
      if b = 0x22 then [CHR 0x5C, CHR 0x22]
      else if b = 0x5C then [CHR 0x5C, CHR 0x5C]
      else if b = 0x08 then CHR 0x5C # ''b''
      else if b = 0x09 then CHR 0x5C # ''t''
      else if b = 0x0A then CHR 0x5C # ''n''
      else if b = 0x0C then CHR 0x5C # ''f''
      else if b = 0x0D then CHR 0x5C # ''r''
      else if b < 0x20 then CHR 0x5C # ''u00'' @ [hex_lower (b div 16), hex_lower (b mod 16)]
      else [c])"

definition escape_string :: "string \<Rightarrow> string \<Rightarrow> string" where
  "escape_string v output = output @ [CHR 0x22] @ concat (map escape_char v) @ [CHR 0x22]"

section \<open>The canonicalizing loop\<close>

datatype frame = Emit string | Visit json

definition push_all :: "frame list \<Rightarrow> frame list \<Rightarrow> frame list" where
  "push_all frames stack = foldl (\<lambda>stack frame. frame # stack) stack (rev frames)"

definition push_array :: "json list \<Rightarrow> frame list \<Rightarrow> frame list" where
  "push_array items stack =
     push_all
       ([Emit ''['']
        @ concat (map (\<lambda>(index, item). (if index > 0 then [Emit '',''] else []) @ [Visit item])
            (enumerate 0 items))
        @ [Emit '']''])
       stack"

definition utf16_key :: "string \<times> 'a \<Rightarrow> nat list" where
  "utf16_key kv = encode_utf16 (fst kv)"

definition push_object :: "(string \<times> json) list \<Rightarrow> frame list \<Rightarrow> frame list" where
  "push_object m stack =
     (let entries = sort_key utf16_key m in
      push_all
        ([Emit [CHR 0x7B]]
         @ concat (map (\<lambda>(index, key, child).
              (if index > 0 then [Emit '',''] else [])
              @ [Emit (escape_string key [] @ '':''), Visit child])
            (enumerate 0 entries))
         @ [Emit [CHR 0x7D]])
        stack)"

fun expand :: "json \<Rightarrow> string \<Rightarrow> frame list \<Rightarrow> signing_error + string \<times> frame list" where
  "expand JNull output stack = Inr (output @ ''null'', stack)"
| "expand (JBool True) output stack = Inr (output @ ''true'', stack)"
| "expand (JBool False) output stack = Inr (output @ ''false'', stack)"
| "expand (JNumber n) output stack = bindR (write_number n output) (\<lambda>out. Inr (out, stack))"
| "expand (JString s) output stack = Inr (escape_string s output, stack)"
| "expand (JArray items) output stack = Inr (output, push_array items stack)"
| "expand (JObject m) output stack = Inr (output, push_object m stack)"

text \<open>The work a value stands for, which bounds the number of turns of the loop.\<close>

fun weight :: "json \<Rightarrow> nat" where
  "weight (JArray xs) = 3 + sum_list (map (\<lambda>x. weight x + 1) xs)"
| "weight (JObject m) = 3 + sum_list (map (\<lambda>(k, v). weight v + 2) m)"
| "weight _ = 1"

fun frame_weight :: "frame \<Rightarrow> nat" where
  "frame_weight (Emit _) = 1"
| "frame_weight (Visit v) = weight v"

definition stack_weight :: "frame list \<Rightarrow> nat" where
  "stack_weight stack = sum_list (map frame_weight stack)"

lemma push_all_append [simp]: "push_all frames stack = frames @ stack"
  by (induction frames) (simp_all add: push_all_def)

lemma stack_weight_simps [simp]:
  "stack_weight [] = 0" "stack_weight (f # fs) = frame_weight f + stack_weight fs"
  "stack_weight (fs @ gs) = stack_weight fs + stack_weight gs"
  by (simp_all add: stack_weight_def)

lemma weight_array_frames:
  "stack_weight (concat (map (\<lambda>(index, item). (if index > 0 then [Emit '',''] else []) @ [Visit item])
      (enumerate n items))) \<le> sum_list (map (\<lambda>x. weight x + 1) items)"
proof (induction items arbitrary: n)
  case (Cons x xs)
  from Cons [of "Suc n"] show ?case by (cases n) simp_all
qed simp

lemma weight_object_frames:
  "stack_weight (concat (map (\<lambda>(index, key, child). (if index > 0 then [Emit '',''] else [])
      @ [Emit (escape_string key [] @ '':''), Visit child]) (enumerate n m)))
   \<le> sum_list (map (\<lambda>(k, v). weight v + 2) m)"
proof (induction m arbitrary: n)
  case (Cons kv m)
  from Cons [of "Suc n"] show ?case by (cases kv; cases n) simp_all
qed simp

lemma sum_list_sort_key: "sum_list (map f (sort_key g xs)) = sum_list (map f xs)" for f :: "'a \<Rightarrow> nat"
  by (metis mset_map mset_sort sum_mset_sum_list)

lemma weight_push_array: "stack_weight (push_array items stack) < weight (JArray items) + stack_weight stack"
  using weight_array_frames [of 0 items] by (simp add: push_array_def)

lemma weight_push_object: "stack_weight (push_object m stack) < weight (JObject m) + stack_weight stack"
  using weight_object_frames [of 0 "sort_key utf16_key m"]
  by (simp add: push_object_def sum_list_sort_key Let_def)

lemma weight_expand:
  "expand v output stack = Inr (output', stack') \<Longrightarrow> stack_weight stack' < weight v + stack_weight stack"
  using weight_push_array weight_push_object
  by (cases "(v, output, stack)" rule: expand.cases) (auto simp: result_elims)

function canonicalize_loop :: "nat option \<Rightarrow> frame list \<Rightarrow> string \<Rightarrow> nat \<Rightarrow> signing_error + string" where
  "canonicalize_loop max_nodes [] output nodes = Inr output"
| "canonicalize_loop max_nodes (Emit fragment # stack) output nodes =
     canonicalize_loop max_nodes stack (output @ fragment) nodes"
| "canonicalize_loop max_nodes (Visit v # stack) output nodes =
     (if (case max_nodes of None \<Rightarrow> False | Some limit \<Rightarrow> nodes + 1 > limit) then Inl OutputTooLarge
      else case expand v output stack of
        Inl e \<Rightarrow> Inl e
      | Inr (output', stack') \<Rightarrow> canonicalize_loop max_nodes stack' output' (nodes + 1))"
  by pat_completeness auto
termination
  by (relation "measure (\<lambda>(_, stack, _, _). stack_weight stack)") (auto simp: weight_expand)

definition canonicalize_into :: "json \<Rightarrow> nat option \<Rightarrow> signing_error + string" where
  "canonicalize_into v max_nodes = canonicalize_loop max_nodes [Visit v] [] 0"

definition object_to_signable :: "json \<Rightarrow> signing_error + signable list" where
  "object_to_signable v =
     bindR (canonicalize_into v (Some max_nodes_limit)) (\<lambda>canonical.
       if length canonical > max_output_bytes then Inl OutputTooLarge else Inr [Text canonical])"

section \<open>The specification\<close>

fun join_comma :: "string list \<Rightarrow> string" where
  "join_comma [] = []"
| "join_comma [x] = x"
| "join_comma (x # y # ys) = x @ '','' @ join_comma (y # ys)"

definition number_text :: "number \<Rightarrow> string" where
  "number_text n =
     (case as_i64 n of Some v \<Rightarrow> show_int v
      | None \<Rightarrow> (case number_u64 n of Some v \<Rightarrow> show_nat (unat v) | None \<Rightarrow> []))"

definition string_text :: "string \<Rightarrow> string" where
  "string_text s = escape_string s []"

definition member_text :: "string \<times> string \<Rightarrow> string" where
  "member_text kv = string_text (fst kv) @ '':'' @ snd kv"

fun canon :: "json \<Rightarrow> string" where
  "canon JNull = ''null''"
| "canon (JBool b) = (if b then ''true'' else ''false'')"
| "canon (JNumber n) = number_text n"
| "canon (JString s) = string_text s"
| "canon (JArray xs) = ''['' @ join_comma (map canon xs) @ '']''"
| "canon (JObject m) =
     [CHR 0x7B] @ join_comma (map member_text (sort_key utf16_key (map (\<lambda>(k, v). (k, canon v)) m))) @ [CHR 0x7D]"

text \<open>The values inside a value, itself first, in the order they are visited.\<close>

fun preorder :: "json \<Rightarrow> json list" where
  "preorder (JArray xs) = JArray xs # concat (map preorder xs)"
| "preorder (JObject m) =
     JObject m # concat (map snd (sort_key utf16_key (map (\<lambda>(k, v). (k, preorder v)) m)))"
| "preorder v = [v]"

fun node_error :: "json \<Rightarrow> signing_error option" where
  "node_error (JNumber n) = (case write_number n [] of Inl e \<Rightarrow> Some e | Inr _ \<Rightarrow> None)"
| "node_error _ = None"

text \<open>The first failure of a visit: the node over the limit, or a number outside the subset.\<close>

fun first_failure :: "nat option \<Rightarrow> nat \<Rightarrow> json list \<Rightarrow> signing_error option" where
  "first_failure max_nodes n [] = None"
| "first_failure max_nodes n (v # vs) =
     (if (case max_nodes of None \<Rightarrow> False | Some limit \<Rightarrow> n + 1 > limit) then Some OutputTooLarge
      else case node_error v of Some e \<Rightarrow> Some e | None \<Rightarrow> first_failure max_nodes (n + 1) vs)"

section \<open>The loop implements the specification\<close>

lemma insort_key_map: "insort_key f (g x) (map g xs) = map g (insort_key (\<lambda>x. f (g x)) x xs)"
  by (induction xs) auto

lemma sort_key_map: "sort_key f (map g xs) = map g (sort_key (\<lambda>x. f (g x)) xs)"
  by (induction xs) (simp_all add: insort_key_map)

lemma sort_members: "sort_key utf16_key (map (\<lambda>(k, v). (k, f v)) m) = map (\<lambda>(k, v). (k, f v)) (sort_key utf16_key m)"
  by (simp add: sort_key_map utf16_key_def [abs_def] case_prod_beta)

lemma escape_string_output: "escape_string s out = out @ string_text s"
  by (simp add: escape_string_def string_text_def)

lemma write_number_output:
  "write_number n out = (case write_number n [] of Inl e \<Rightarrow> Inl e | Inr _ \<Rightarrow> Inr (out @ number_text n))"
  by (cases n) (auto simp: write_number_def number_text_def)

fun frame_text :: "frame \<Rightarrow> string" where
  "frame_text (Emit s) = s"
| "frame_text (Visit v) = canon v"

fun frame_nodes :: "frame \<Rightarrow> json list" where
  "frame_nodes (Emit _) = []"
| "frame_nodes (Visit v) = preorder v"

lemma preorder_Cons: "preorder v = v # tl (preorder v)"
  by (cases v) auto

lemma join_comma_Cons: "join_comma (x # xs) = x @ concat (map (\<lambda>y. '','' @ y) xs)"
  by (induction xs arbitrary: x) auto

lemma array_frames_tail:
  "concat (map frame_text (concat (map (\<lambda>(index, item). (if index > 0 then [Emit '',''] else []) @ [Visit item])
      (enumerate (Suc n) items)))) = concat (map (\<lambda>y. '','' @ y) (map canon items))"
  by (induction items arbitrary: n) auto

lemma array_frames_text:
  "concat (map frame_text (concat (map (\<lambda>(index, item). (if index > 0 then [Emit '',''] else []) @ [Visit item])
      (enumerate 0 items)))) = join_comma (map canon items)"
  using array_frames_tail [of 0] by (cases items) (simp_all add: join_comma_Cons)

lemma array_frames_nodes:
  "concat (map frame_nodes (concat (map (\<lambda>(index, item). (if index > 0 then [Emit '',''] else []) @ [Visit item])
      (enumerate n items)))) = concat (map preorder items)"
  by (induction items arbitrary: n) auto

lemma object_frames_tail:
  "concat (map frame_text (concat (map (\<lambda>(index, key, child). (if index > 0 then [Emit '',''] else [])
      @ [Emit (string_text key @ '':''), Visit child]) (enumerate (Suc n) m))))
   = concat (map (\<lambda>y. '','' @ y) (map (member_text \<circ> (\<lambda>(k, v). (k, canon v))) m))"
  by (induction m arbitrary: n) (auto simp: member_text_def)

lemma object_frames_text:
  "concat (map frame_text (concat (map (\<lambda>(index, key, child). (if index > 0 then [Emit '',''] else [])
      @ [Emit (string_text key @ '':''), Visit child]) (enumerate 0 m))))
   = join_comma (map (member_text \<circ> (\<lambda>(k, v). (k, canon v))) m)"
proof (cases m)
  case (Cons kv kvs)
  with object_frames_tail [of 0 kvs] show ?thesis
    by (cases kv) (simp add: join_comma_Cons member_text_def)
qed simp

lemma object_frames_nodes:
  "concat (map frame_nodes (concat (map (\<lambda>(index, key, child). (if index > 0 then [Emit '',''] else [])
      @ [Emit (escape_string key [] @ '':''), Visit child]) (enumerate n m))))
   = concat (map preorder (map snd m))"
  by (induction m arbitrary: n) auto

lemma expand_text:
  "expand v out stack = Inr (out', stack') \<Longrightarrow>
   out' @ concat (map frame_text stack') = out @ canon v @ concat (map frame_text stack)"
proof (cases v)
  case (JNumber n)
  moreover assume "expand v out stack = Inr (out', stack')"
  ultimately show ?thesis
    using write_number_output [of n out] by (auto simp: result_elims split: sum.splits)
next
  case (JBool b)
  moreover assume "expand v out stack = Inr (out', stack')"
  ultimately show ?thesis by (cases b) auto
qed (auto simp: escape_string_output push_array_def push_object_def array_frames_text object_frames_text
      sort_members Let_def)

lemma expand_nodes:
  "expand v out stack = Inr (out', stack') \<Longrightarrow>
   node_error v = None \<and> concat (map frame_nodes stack') = tl (preorder v) @ concat (map frame_nodes stack)"
proof (cases v)
  case (JNumber n)
  moreover assume "expand v out stack = Inr (out', stack')"
  ultimately show ?thesis
    using write_number_output [of n out] by (auto simp: result_elims split: sum.splits)
next
  case (JBool b)
  moreover assume "expand v out stack = Inr (out', stack')"
  ultimately show ?thesis by (cases b) auto
qed (auto simp: push_array_def push_object_def array_frames_nodes object_frames_nodes sort_members Let_def
      comp_def case_prod_beta)

lemma expand_error: "expand v out stack = Inl e \<Longrightarrow> node_error v = Some e"
proof (cases v)
  case (JNumber n)
  moreover assume "expand v out stack = Inl e"
  ultimately show ?thesis
    using write_number_output [of n out] by (auto simp: result_elims split: sum.splits)
next
  case (JBool b)
  moreover assume "expand v out stack = Inl e"
  ultimately show ?thesis by (cases b) auto
qed auto

lemma canonicalize_loop_spec:
  "canonicalize_loop lim stack out n =
     (case first_failure lim n (concat (map frame_nodes stack)) of
        Some e \<Rightarrow> Inl e
      | None \<Rightarrow> Inr (out @ concat (map frame_text stack)))"
proof (induction lim stack out n rule: canonicalize_loop.induct)
  case (3 lim v stack out n)
  have nodes: "concat (map frame_nodes (Visit v # stack)) = v # tl (preorder v) @ concat (map frame_nodes stack)"
    using preorder_Cons [of v] by (metis append_Cons concat.simps(2) frame_nodes.simps(2) list.simps(9))
  show ?case
  proof (cases "case lim of None \<Rightarrow> False | Some limit \<Rightarrow> n + 1 > limit")
    case True
    then show ?thesis unfolding nodes by simp
  next
    case False
    show ?thesis
    proof (cases "expand v out stack")
      case (Inl e)
      with False show ?thesis unfolding nodes by (simp add: expand_error)
    next
      case (Inr res)
      obtain out' stack' where res: "res = (out', stack')" by (cases res)
      from 3 [OF False Inr res [symmetric]] expand_nodes [OF Inr [unfolded res]] expand_text [OF Inr [unfolded res]]
        False Inr res
      show ?thesis unfolding nodes by (auto split: option.splits)
    qed
  qed
qed (simp_all split: option.splits)

lemma canonicalize_into_spec:
  "canonicalize_into v lim =
     (case first_failure lim 0 (preorder v) of Some e \<Rightarrow> Inl e | None \<Rightarrow> Inr (canon v))"
  by (simp add: canonicalize_into_def canonicalize_loop_spec split: option.splits)

lemma first_failure_None:
  "first_failure (Some k) n vs = None \<longleftrightarrow> n + length vs \<le> max n k \<and> (\<forall>v \<in> set vs. node_error v = None)"
  by (induction vs arbitrary: n) (auto split: option.splits)

definition signable_value :: "json \<Rightarrow> bool" where
  "signable_value v \<longleftrightarrow>
     length (preorder v) \<le> max_nodes_limit \<and> list_all (\<lambda>w. node_error w = None) (preorder v)
     \<and> length (canon v) \<le> max_output_bytes"

lemma object_to_signable_Inr:
  "object_to_signable v = Inr parts \<longleftrightarrow> signable_value v \<and> parts = [Text (canon v)]"
proof -
  have "first_failure (Some max_nodes_limit) 0 (preorder v) = None \<longleftrightarrow>
      length (preorder v) \<le> max_nodes_limit \<and> list_all (\<lambda>w. node_error w = None) (preorder v)"
    by (simp add: first_failure_None list_all_iff)
  then show ?thesis
    by (auto simp: object_to_signable_def canonicalize_into_spec signable_value_def split: option.splits)
qed

section \<open>Properties\<close>

text \<open>C4. The stack machine that canonicalizes a value implements the recursive canonical form under
  the limits: it always returns; it fails with the first failure in the order of the visit (the node
  past the limit, or a number outside the subset), and otherwise prints the canonical form.\<close>

theorem canonicalize_refines:
  "canonicalize_into v lim =
     (case first_failure lim 0 (preorder v) of Some e \<Rightarrow> Inl e | None \<Rightarrow> Inr (canon v))"
  by (rule canonicalize_into_spec)

end
