(* ===== verification/Der.thy ===== *)
theory Der
  imports Canonical
begin

text \<open>
  \<open>keetanetwork-anchor/src/signing/format.rs\<close>: the DER verification bytes. The sequence header and
  its length are written here; the elements are encoded by \<open>rasn\<close>, whose three encoders are the
  record \<open>der_ops\<close>. A length is a \<open>usize\<close> of 64 bits.
\<close>

section \<open>Definitions\<close>

record der_ops =
  der_utf8 :: "string \<Rightarrow> string + bytes"
  der_octet :: "bytes \<Rightarrow> string + bytes"
  der_integer :: "64 word \<Rightarrow> string + bytes"

definition sequence_tag :: char where "sequence_tag = CHR 0x30"
definition long_form_flag :: nat where "long_form_flag = 0x80"

text \<open>\<open>usize::to_be_bytes\<close>\<close>

definition to_be_bytes :: "nat \<Rightarrow> bytes" where
  "to_be_bytes n = map (\<lambda>i. char_of (n div 256 ^ (7 - i))) [0..<8]"

definition encode_length :: "nat \<Rightarrow> bytes \<Rightarrow> bytes" where
  "encode_length len output =
     (if len < 0x80 then output @ [char_of len]
      else let significant = dropWhile (\<lambda>c. c = CHR 0x00) (to_be_bytes len)
           in output @ [char_of (long_form_flag + length significant)] @ significant)"

definition encode_utf8 :: "der_ops \<Rightarrow> string \<Rightarrow> signing_error + bytes" where
  "encode_utf8 ops v = map_err SeEncode (der_utf8 ops v)"

definition encode_octet :: "der_ops \<Rightarrow> bytes \<Rightarrow> signing_error + bytes" where
  "encode_octet ops v = map_err SeEncode (der_octet ops v)"

definition encode_integer :: "der_ops \<Rightarrow> 64 word \<Rightarrow> signing_error + bytes" where
  "encode_integer ops v = map_err SeEncode (der_integer ops v)"

fun encode_part :: "der_ops \<Rightarrow> signable \<Rightarrow> signing_error + bytes" where
  "encode_part ops (Text s) = encode_utf8 ops s"
| "encode_part ops (Integer v) = encode_integer ops v"
| "encode_part ops (AccountPart b) = encode_octet ops b"

definition wrap_sequence :: "bytes list \<Rightarrow> bytes" where
  "wrap_sequence elements =
     (let body_length = sum_list (map length elements)
      in encode_length body_length [sequence_tag] @ concat elements)"

definition format_data :: "der_ops \<Rightarrow> bytes \<Rightarrow> string \<Rightarrow> string \<Rightarrow> signable list \<Rightarrow> signing_error + bytes" where
  "format_data ops signer nonce timestamp data =
     bindR (encode_utf8 ops nonce) (\<lambda>e1.
     bindR (encode_utf8 ops timestamp) (\<lambda>e2.
     bindR (encode_octet ops signer) (\<lambda>e3.
     bindR (mapM_result (encode_part ops) data) (\<lambda>es.
     Inr (wrap_sequence ([e1, e2, e3] @ es))))))"

section \<open>Lengths\<close>

definition fits_usize :: "nat \<Rightarrow> bool" where
  "fits_usize n \<longleftrightarrow> n < 2 ^ 64"

text \<open>The value of big-endian bytes, and the reader of a length: the specification.\<close>

definition be_value :: "bytes \<Rightarrow> nat" where
  "be_value bs = foldl (\<lambda>acc c. acc * 256 + of_char c) 0 bs"

definition decode_length :: "bytes \<Rightarrow> nat \<times> bytes" where
  "decode_length s =
     (let b = of_char (hd s) in
      if b < 0x80 then (b, tl s)
      else (be_value (take (b - 0x80) (tl s)), drop (b - 0x80) (tl s)))"

lemma be_value_snoc: "be_value (bs @ [c]) = be_value bs * 256 + of_char c"
  by (simp add: be_value_def)

lemma foldl_be: "foldl (\<lambda>acc c. acc * 256 + of_char c) a bs = a * 256 ^ length bs + be_value bs"
proof (induction bs rule: rev_induct)
  case (snoc c bs)
  then show ?case by (simp add: be_value_snoc algebra_simps)
qed (simp add: be_value_def)

lemma be_value_Cons: "be_value (c # bs) = of_char c * 256 ^ length bs + be_value bs"
  using foldl_be [of "of_char c" bs] by (simp add: be_value_def)

lemma be_value_dropWhile: "be_value (dropWhile (\<lambda>c. c = CHR 0x00) bs) = be_value bs"
  by (induction bs) (auto simp: be_value_Cons)

lemma to_be_bytes_list:
  "to_be_bytes n = map char_of [n div 256 ^ 7, n div 256 ^ 6, n div 256 ^ 5, n div 256 ^ 4,
     n div 256 ^ 3, n div 256 ^ 2, n div 256, n]"
  by (simp add: to_be_bytes_def upt_conv_Cons del: power_numeral)

lemma be_value_to_be_bytes:
  assumes "fits_usize n"
  shows "be_value (to_be_bytes n) = n"
proof -
  define v where "v k = foldl (\<lambda>acc i. acc * 256 + (n div 256 ^ i) mod 256) 0 (rev [k..<8])" for k
  have step: "n div 256 ^ k = (n div 256 ^ Suc k) * 256 + (n div 256 ^ k) mod 256" for k
  proof -
    have "n div 256 ^ Suc k = (n div 256 ^ k) div 256"
      by (metis div_mult2_eq power_Suc2)
    then show ?thesis by simp
  qed
  have z: "n div 256 ^ 8 = 0" using assms by (simp add: fits_usize_def)
  have "v (8 - k) = n div 256 ^ (8 - k)" if "k \<le> 8" for k
    using that
  proof (induction k)
    case 0
    show ?case using z by (simp add: v_def)
  next
    case (Suc k)
    then have s: "8 - k = Suc (8 - Suc k)" by simp
    have "[8 - Suc k..<8] = (8 - Suc k) # [8 - k..<8]" using Suc.prems s by (simp add: upt_conv_Cons)
    then have "v (8 - Suc k) = v (8 - k) * 256 + (n div 256 ^ (8 - Suc k)) mod 256" by (simp add: v_def)
    also have "\<dots> = n div 256 ^ (8 - Suc k)" using Suc step [of "8 - Suc k"] s by simp
    finally show ?case .
  qed
  from this [of 8] have "v 0 = n" by simp
  then show ?thesis
    by (simp add: v_def be_value_def to_be_bytes_list upt_conv_Cons)
qed

lemma length_significant: "length (dropWhile P (to_be_bytes n)) \<le> 8"
  using length_dropWhile_le [of P "to_be_bytes n"] by (simp add: to_be_bytes_def)

lemma decode_encode_length:
  assumes "fits_usize n"
  shows "decode_length (encode_length n [] @ s) = (n, s)"
proof (cases "n < 0x80")
  case True
  then show ?thesis by (simp add: encode_length_def decode_length_def)
next
  case False
  define sig where "sig = dropWhile (\<lambda>c. c = CHR 0x00) (to_be_bytes n)"
  have "length sig \<le> 8" unfolding sig_def by (rule length_significant)
  then have "of_char (char_of (0x80 + length sig) :: char) = 0x80 + length sig" by simp
  moreover have "be_value sig = n"
    unfolding sig_def by (simp only: be_value_dropWhile be_value_to_be_bytes [OF assms])
  moreover have "encode_length n [] = char_of (0x80 + length sig) # sig"
    using False by (simp add: encode_length_def sig_def long_form_flag_def Let_def)
  ultimately show ?thesis by (simp add: decode_length_def)
qed

interpretation der_length: prefix_code "\<lambda>n. encode_length n []" fits_usize
proof unfold_locales
  fix m n :: nat and s t
  assume "fits_usize m" "fits_usize n" and eq: "encode_length m [] @ s = encode_length n [] @ t"
  note d = decode_encode_length [OF \<open>fits_usize m\<close>, of s] decode_encode_length [OF \<open>fits_usize n\<close>, of t]
  from d(1) have "decode_length (encode_length n [] @ t) = (m, s)" unfolding eq .
  with d(2) show "m = n \<and> s = t" by (metis Pair_inject)
qed

text \<open>The long form is minimal: its first significant byte is not zero, and it is used for the
  lengths the short form cannot hold only.\<close>

lemma significant_nonzero:
  assumes "0x80 \<le> n" "fits_usize n"
  shows "\<exists>c cs. dropWhile (\<lambda>c. c = CHR 0x00) (to_be_bytes n) = c # cs \<and> c \<noteq> CHR 0x00"
proof (cases "dropWhile (\<lambda>c. c = CHR 0x00) (to_be_bytes n)")
  case Nil
  with be_value_dropWhile [of "to_be_bytes n"] be_value_to_be_bytes [OF assms(2)] assms(1)
  show ?thesis by (simp add: be_value_def)
next
  case (Cons c cs)
  with hd_dropWhile [of "\<lambda>c. c = CHR 0x00" "to_be_bytes n"] show ?thesis by simp
qed

lemma encode_length_output: "encode_length n out = out @ encode_length n []"
  by (simp add: encode_length_def Let_def)

lemma length_encode_length: "length (encode_length n out) \<le> length out + 9"
  using length_significant [of "\<lambda>c. c = CHR 0x00" n] by (simp add: encode_length_def Let_def)

lemma length_wrap_le: "length (wrap_sequence es) \<le> 10 + length (concat es)"
  using length_encode_length [of "sum_list (map length es)" "[sequence_tag]"] by (simp add: wrap_sequence_def Let_def)

section \<open>Payloads\<close>

text \<open>What the payload relies on in \<open>rasn\<close>: a DER element tells its tag and its length, so elements
  written one after the other can be read back.\<close>

definition self_delimiting :: "der_ops \<Rightarrow> bool" where
  "self_delimiting ops \<longleftrightarrow>
     (\<forall>p q x y s t. encode_part ops p = Inr x \<longrightarrow> encode_part ops q = Inr y \<longrightarrow> x @ s = y @ t \<longrightarrow> p = q \<and> s = t)
     \<and> (\<forall>p. encode_part ops p \<noteq> Inr [])"

definition payload_parts :: "bytes \<Rightarrow> string \<Rightarrow> string \<Rightarrow> signable list \<Rightarrow> signable list" where
  "payload_parts signer nonce timestamp data = [Text nonce, Text timestamp, AccountPart signer] @ data"

lemma format_data_elements:
  "format_data ops signer nonce timestamp data = Inr b \<longleftrightarrow>
     (\<exists>es. mapM_result (encode_part ops) (payload_parts signer nonce timestamp data) = Inr es \<and> b = wrap_sequence es)"
  by (auto simp: format_data_def payload_parts_def result_elims)

lemma elements_cancel:
  assumes "self_delimiting ops"
  shows "mapM_result (encode_part ops) ps = Inr es \<Longrightarrow> mapM_result (encode_part ops) qs = Inr fs \<Longrightarrow>
    concat es = concat fs \<Longrightarrow> ps = qs"
proof (induction ps arbitrary: es qs fs)
  case Nil
  show ?case
  proof (cases qs)
    case (Cons q qs')
    with Nil assms show ?thesis by (auto simp: result_elims self_delimiting_def)
  qed simp
next
  case (Cons p ps)
  then obtain x xs where x: "encode_part ops p = Inr x" "mapM_result (encode_part ops) ps = Inr xs" "es = x # xs"
    by (auto simp: result_elims)
  show ?case
  proof (cases qs)
    case Nil
    with Cons.prems x assms show ?thesis by (auto simp: self_delimiting_def)
  next
    case qs: (Cons q qs')
    with Cons.prems obtain y ys where y: "encode_part ops q = Inr y" "mapM_result (encode_part ops) qs' = Inr ys" "fs = y # ys"
      by (auto simp: result_elims)
    from Cons.prems(3) x y have "x @ concat xs = y @ concat ys" by simp
    with assms x y have "p = q" "concat xs = concat ys" unfolding self_delimiting_def by blast+
    with Cons.IH [OF x(2) y(2)] qs show ?thesis by simp
  qed
qed

lemma wrap_sequence_cancel:
  assumes "wrap_sequence es = wrap_sequence fs" "fits_usize (length (concat es))" "fits_usize (length (concat fs))"
  shows "concat es = concat fs"
proof -
  have w: "wrap_sequence xs = sequence_tag # encode_length (length (concat xs)) [] @ concat xs" for xs
    by (simp add: wrap_sequence_def length_concat encode_length_output [of _ "[sequence_tag]"])
  from assms have "encode_length (length (concat es)) [] @ concat es = encode_length (length (concat fs)) [] @ concat fs"
    unfolding w by simp
  then have "length (concat es) = length (concat fs) \<and> concat es = concat fs"
    by (rule der_length.enc_cancel [OF assms(2,3)])
  then show ?thesis by (rule conjunct2)
qed

lemma length_wrap_sequence: "length (concat es) < length (wrap_sequence es)"
  by (simp add: wrap_sequence_def encode_length_def Let_def)

lemma format_data_inj:
  assumes "self_delimiting ops" "fits_usize (length b)"
    and "format_data ops signer nonce timestamp data = Inr b"
    and "format_data ops signer' nonce' timestamp' data' = Inr b"
  shows "signer = signer' \<and> nonce = nonce' \<and> timestamp = timestamp' \<and> data = data'"
proof -
  from assms(3) obtain es where es: "mapM_result (encode_part ops) (payload_parts signer nonce timestamp data) = Inr es"
      "b = wrap_sequence es" by (auto simp: format_data_elements)
  from assms(4) obtain fs where fs: "mapM_result (encode_part ops) (payload_parts signer' nonce' timestamp' data') = Inr fs"
      "b = wrap_sequence fs" by (auto simp: format_data_elements)
  have "concat es = concat fs"
    using es fs assms(2) length_wrap_sequence [of es] length_wrap_sequence [of fs]
    by (intro wrap_sequence_cancel) (auto simp: fits_usize_def)
  with elements_cancel [OF assms(1) es(1) fs(1)] show ?thesis by (simp add: payload_parts_def)
qed

section \<open>A DER writer\<close>

text \<open>A writer of elements with the lengths of this file shows that the reliance can hold.\<close>

definition tlv :: "char \<Rightarrow> bytes \<Rightarrow> string + bytes" where
  "tlv tag content =
     (if fits_usize (length content) then Inr (tag # encode_length (length content) [] @ content)
      else Inl ''too long'')"

definition tlv_ops :: der_ops where
  "tlv_ops = \<lparr>der_utf8 = tlv (CHR 0x0C), der_octet = tlv (CHR 0x04),
     der_integer = (\<lambda>v. tlv (CHR 0x02) (to_be_bytes (unat v)))\<rparr>"

lemma tlv_cancel:
  assumes "tlv t1 c1 = Inr x" "tlv t2 c2 = Inr y" "x @ s = y @ t"
  shows "t1 = t2 \<and> c1 = c2 \<and> s = t"
proof -
  from assms have l: "fits_usize (length c1)" "fits_usize (length c2)"
    and x: "x = t1 # encode_length (length c1) [] @ c1" "y = t2 # encode_length (length c2) [] @ c2"
    by (auto simp: tlv_def split: if_splits)
  from assms(3) have "encode_length (length c1) [] @ (c1 @ s) = encode_length (length c2) [] @ (c2 @ t)" "t1 = t2"
    by (simp_all add: x)
  moreover from this(1) have "length c1 = length c2 \<and> c1 @ s = c2 @ t" by (rule der_length.enc_cancel [OF l])
  ultimately show ?thesis by (metis append_eq_append_conv)
qed

lemma length_tlv: "tlv t c = Inr x \<Longrightarrow> length x \<le> 10 + length c"
  using length_encode_length [of "length c" "[]"] by (auto simp: tlv_def split: if_splits)

lemma tlv_nonempty: "tlv t c \<noteq> Inr []"
  by (simp add: tlv_def)

lemma unat_less_64: "fits_usize (unat (v :: 64 word))"
  using unsigned_less [of v, where ?'a = nat] by (simp add: fits_usize_def)

lemma be_bytes_unat_inj: "to_be_bytes (unat v) = to_be_bytes (unat w) \<Longrightarrow> v = w" for v w :: "64 word"
  by (metis be_value_to_be_bytes unat_less_64 word_eq_iff_unat)

fun part_tlv :: "signable \<Rightarrow> char \<times> bytes" where
  "part_tlv (Text v) = (CHR 0x0C, v)"
| "part_tlv (AccountPart v) = (CHR 0x04, v)"
| "part_tlv (Integer v) = (CHR 0x02, to_be_bytes (unat v))"

lemma part_tlv_inj: "part_tlv p = part_tlv q \<Longrightarrow> p = q"
  by (cases p; cases q) (simp_all, rule be_bytes_unat_inj)

lemma encode_part_tlv:
  "encode_part tlv_ops p = Inr x \<longleftrightarrow> tlv (fst (part_tlv p)) (snd (part_tlv p)) = Inr x"
  by (cases p) (simp_all add: tlv_ops_def encode_utf8_def encode_octet_def encode_integer_def map_err_eq_Inr)

lemma self_delimiting_tlv: "self_delimiting tlv_ops"
  unfolding self_delimiting_def encode_part_tlv
proof (intro conjI allI impI)
  fix p q x y s t
  assume "tlv (fst (part_tlv p)) (snd (part_tlv p)) = Inr x" "tlv (fst (part_tlv q)) (snd (part_tlv q)) = Inr y"
    "x @ s = y @ t"
  then have c: "fst (part_tlv p) = fst (part_tlv q) \<and> snd (part_tlv p) = snd (part_tlv q) \<and> s = t"
    by (rule tlv_cancel)
  then show "p = q" by (metis part_tlv_inj prod.expand)
  from c show "s = t" by simp
next
  fix p
  show "tlv (fst (part_tlv p)) (snd (part_tlv p)) \<noteq> Inr []" by (rule tlv_nonempty)
qed

section \<open>Properties\<close>

text \<open>C31. A signature covers exactly one request: when the elements are self-delimiting, two payloads
  with the same verification bytes have the same signer, nonce, timestamp and parts.\<close>

theorem verification_bytes_injective:
  assumes "self_delimiting ops" and "fits_usize (length b)"
    and "format_data ops signer nonce timestamp data = Inr b"
    and "format_data ops signer' nonce' timestamp' data' = Inr b"
  shows "signer = signer' \<and> nonce = nonce' \<and> timestamp = timestamp' \<and> data = data'"
  using assms by (rule format_data_inj)

lemma small_payload:
  "format_data tlv_ops ''k'' ''n'' ''t'' [Text ''x''] =
     Inr ([sequence_tag, char_of (12 :: nat), CHR 0x0C, char_of (1 :: nat)] @ ''n'' @ [CHR 0x0C, char_of (1 :: nat)] @ ''t''
       @ [CHR 0x04, char_of (1 :: nat)] @ ''k'' @ [CHR 0x0C, char_of (1 :: nat)] @ ''x'')"
  by (simp add: format_data_def tlv_ops_def encode_utf8_def encode_octet_def tlv_def wrap_sequence_def
      encode_length_def sequence_tag_def fits_usize_def)

theorem verification_bytes_injective_witness:
  "''k'' = ''k'' \<and> ''n'' = ''n'' \<and> ''t'' = ''t'' \<and> [Text ''x''] = [Text ''x'']"
  by (rule verification_bytes_injective [OF self_delimiting_tlv _ small_payload small_payload]) (simp add: fits_usize_def)

text \<open>The lengths are DER: every 64-bit length decodes from its encoding with the rest of the bytes
  left over, the short form is used exactly below 128, and the long form holds no leading zero.\<close>

lemma encode_length_der:
  assumes "fits_usize n"
  shows "decode_length (encode_length n [] @ s) = (n, s)
    \<and> (n < 128 \<longrightarrow> length (encode_length n []) = 1)
    \<and> (128 \<le> n \<longrightarrow> hd (tl (encode_length n [])) \<noteq> CHR 0x00)"
proof (intro conjI impI)
  show "decode_length (encode_length n [] @ s) = (n, s)" by (rule decode_encode_length [OF assms])
  show "n < 128 \<Longrightarrow> length (encode_length n []) = 1" by (simp add: encode_length_def)
next
  assume "128 \<le> n"
  with significant_nonzero [of n] assms show "hd (tl (encode_length n [])) \<noteq> CHR 0x00"
    by (auto simp: encode_length_def Let_def)
qed

end
