(* ===== verification/Signing.thy ===== *)
theory Signing
  imports Der
begin

text \<open>
  \<open>keetanetwork-anchor/src/signing/mod.rs\<close> and \<open>request.rs\<close>: signed envelopes, their verification, and
  their projection onto a URL. Accounts, base64, the timestamps of \<open>chrono\<close>, the clock, the random
  nonces and the URLs of the \<open>url\<close> crate are third-party: the records \<open>signing_env\<close> and \<open>url_ops\<close>.
  Instants are read in milliseconds; those of \<open>chrono\<close> are far inside the \<open>i64\<close> range, so the skew is
  computed on integers.
\<close>

section \<open>Third-party operations\<close>

record ('a, 't, 'w) signing_env =
  key_with_type :: "'a \<Rightarrow> bytes"
  raw_sign :: "'a \<Rightarrow> bytes \<Rightarrow> string + bytes"
  raw_verify :: "'a \<Rightarrow> bytes \<Rightarrow> bytes \<Rightarrow> bool"
  account_from_str :: "string \<Rightarrow> string + 'a"
  account_to_string :: "'a \<Rightarrow> string"
  der :: der_ops
  base64_encode :: "bytes \<Rightarrow> string"
  base64_decode :: "string \<Rightarrow> string + bytes"
  parse_rfc3339 :: "string \<Rightarrow> 't option"
  format_iso8601 :: "'t \<Rightarrow> string"
  timestamp_millis :: "'t \<Rightarrow> int"
  unix_epoch :: 't
  uuid_v4 :: "'w \<Rightarrow> string \<times> 'w"
  utc_now :: "'w \<Rightarrow> 't \<times> 'w"

record 'u url_ops =
  url_parse :: "string \<Rightarrow> string + 'u"
  url_as_str :: "'u \<Rightarrow> string"
  query_pairs :: "'u \<Rightarrow> (string \<times> string) list"
  append_pair :: "'u \<Rightarrow> string \<Rightarrow> string \<Rightarrow> 'u"

section \<open>Envelopes\<close>

record signed_envelope =
  nonce :: string
  timestamp :: string
  signature :: string

record sign_params =
  sp_nonce :: string
  sp_timestamp :: string

record 't verify_options =
  max_skew_ms :: int
  reference_time :: 't

definition default_max_skew_ms :: int where
  "default_max_skew_ms = 5 * 60 * 1000"

definition generate :: "('a, 't, 'w) signing_env \<Rightarrow> 'w \<Rightarrow> sign_params \<times> 'w" where
  "generate env w =
     (let (n, w) = uuid_v4 env w;
          (now, w) = utc_now env w
      in (\<lparr>sp_nonce = n, sp_timestamp = format_iso8601 env now\<rparr>, w))"

definition default_verify_options :: "('a, 't, 'w) signing_env \<Rightarrow> 'w \<Rightarrow> 't verify_options \<times> 'w" where
  "default_verify_options env w =
     (let (now, w) = utc_now env w in (\<lparr>max_skew_ms = default_max_skew_ms, reference_time = now\<rparr>, w))"

definition unbounded :: "('a, 't, 'w) signing_env \<Rightarrow> 't verify_options" where
  "unbounded env = \<lparr>max_skew_ms = 2 ^ 63 - 1, reference_time = unix_epoch env\<rparr>"

section \<open>Signing\<close>

definition ensure_canonical_timestamp :: "('a, 't, 'w) signing_env \<Rightarrow> string \<Rightarrow> signing_error + unit" where
  "ensure_canonical_timestamp env ts =
     bindR (ok_or NonCanonicalTimestamp (parse_rfc3339 env ts)) (\<lambda>parsed.
       if format_iso8601 env parsed \<noteq> ts then Inl NonCanonicalTimestamp else Inr ())"

definition verification_data ::
    "('a, 't, 'w) signing_env \<Rightarrow> 'a \<Rightarrow> signable list \<Rightarrow> sign_params \<Rightarrow> signing_error + bytes" where
  "verification_data env account data params =
     format_data (der env) (key_with_type env account) (sp_nonce params) (sp_timestamp params) data"

definition sign_with ::
    "('a, 't, 'w) signing_env \<Rightarrow> 'a \<Rightarrow> signable list \<Rightarrow> sign_params \<Rightarrow> signing_error + signed_envelope" where
  "sign_with env account data params =
     bindR (ensure_canonical_timestamp env (sp_timestamp params)) (\<lambda>_.
     bindR (verification_data env account data params) (\<lambda>verification.
     bindR (map_err SeAccount (raw_sign env account verification)) (\<lambda>sig.
     Inr \<lparr>nonce = sp_nonce params, timestamp = sp_timestamp params, signature = base64_encode env sig\<rparr>)))"

definition sign ::
    "('a, 't, 'w) signing_env \<Rightarrow> 'a \<Rightarrow> signable list \<Rightarrow> 'w \<Rightarrow> (signing_error + signed_envelope) \<times> 'w" where
  "sign env account data w =
     (let (params, w) = generate env w in (sign_with env account data params, w))"

section \<open>Verification\<close>

definition verify_envelope ::
    "('a, 't, 'w) signing_env \<Rightarrow> 'a \<Rightarrow> signable list \<Rightarrow> signed_envelope \<Rightarrow> 't verify_options
     \<Rightarrow> verify_error + unit" where
  "verify_envelope env account data envl options =
     bindR (ok_or MalformedTimestamp (parse_rfc3339 env (timestamp envl))) (\<lambda>ts.
     if format_iso8601 env ts \<noteq> timestamp envl then Inl MalformedTimestamp
     else
       let skew = \<bar>timestamp_millis env ts - timestamp_millis env (reference_time options)\<bar> in
       if skew > max_skew_ms options then Inl (ClockSkew skew (max_skew_ms options))
       else
         bindR (map_err MalformedSignature (base64_decode env (signature envl))) (\<lambda>sig.
         bindR (map_err VeEncoding
             (format_data (der env) (key_with_type env account) (nonce envl) (timestamp envl) data))
           (\<lambda>verification.
         if raw_verify env account verification sig then Inr () else Inl SignatureMismatch)))"

definition verify ::
    "('a, 't, 'w) signing_env \<Rightarrow> 'a \<Rightarrow> signable list \<Rightarrow> signed_envelope \<Rightarrow> 't verify_options
     \<Rightarrow> verify_error + unit" where
  "verify env account data envl options = verify_envelope env account data envl options"

section \<open>Signed requests\<close>

definition PARAM_NONCE :: string where "PARAM_NONCE = ''signed.nonce''"
definition PARAM_TIMESTAMP :: string where "PARAM_TIMESTAMP = ''signed.timestamp''"
definition PARAM_SIGNATURE :: string where "PARAM_SIGNATURE = ''signed.signature''"
definition PARAM_ACCOUNT :: string where "PARAM_ACCOUNT = ''account''"

definition SIGNED_PARAMS :: "string list" where
  "SIGNED_PARAMS = [PARAM_NONCE, PARAM_TIMESTAMP, PARAM_SIGNATURE]"

lemmas param_defs = PARAM_NONCE_def PARAM_TIMESTAMP_def PARAM_SIGNATURE_def PARAM_ACCOUNT_def

definition add_signature_to_url :: "'u url_ops \<Rightarrow> 'u \<Rightarrow> string \<Rightarrow> signed_envelope \<Rightarrow> request_error + 'u" where
  "add_signature_to_url ops base account envl =
     (case find (\<lambda>name. list_ex (\<lambda>(key, _). key = name) (query_pairs ops base)) SIGNED_PARAMS of
        Some name \<Rightarrow> Inl (DuplicateParameter name)
      | None \<Rightarrow>
          let url = append_pair ops base PARAM_NONCE (nonce envl);
              url = append_pair ops url PARAM_TIMESTAMP (timestamp envl);
              url = append_pair ops url PARAM_SIGNATURE (signature envl)
          in Inr (append_pair ops url PARAM_ACCOUNT account))"

text \<open>The scan of the query: the nonce, the timestamp, the signature and the account, each the last
  value of its key.\<close>

type_synonym credentials = "string option \<times> string option \<times> string option \<times> string option"

definition read_pair :: "credentials \<Rightarrow> string \<times> string \<Rightarrow> credentials" where
  "read_pair st kv =
     (case st of (n, t, s, a) \<Rightarrow> case kv of (key, v) \<Rightarrow>
        if key = PARAM_NONCE then (Some v, t, s, a)
        else if key = PARAM_TIMESTAMP then (n, Some v, s, a)
        else if key = PARAM_SIGNATURE then (n, t, Some v, a)
        else if key = PARAM_ACCOUNT then (n, t, s, Some v)
        else (n, t, s, a))"

definition parse_signature_from_url :: "'u url_ops \<Rightarrow> 'u \<Rightarrow> request_error + string \<times> signed_envelope" where
  "parse_signature_from_url ops url =
     (case foldl read_pair (None, None, None, None) (query_pairs ops url) of
        (n, t, s, a) \<Rightarrow>
          bindR
            (case (n, t, s) of
               (Some n, Some t, Some s) \<Rightarrow> Inr \<lparr>nonce = n, timestamp = t, signature = s\<rparr>
             | (None, None, None) \<Rightarrow> Inl MissingAuthentication
             | _ \<Rightarrow> Inl IncompleteSignature)
            (\<lambda>envl. bindR (ok_or MissingAuthentication a) (\<lambda>account. Inr (account, envl))))"

definition verify_body ::
    "('a, 't, 'w) signing_env \<Rightarrow> string \<Rightarrow> signed_envelope \<Rightarrow> signable list \<Rightarrow> 't verify_options
     \<Rightarrow> request_error + 'a" where
  "verify_body env account_string envl data options =
     bindR (map_err MalformedAccount (account_from_str env account_string)) (\<lambda>account.
     bindR (map_err ReVerify (verify_envelope env account data envl options)) (\<lambda>_. Inr account))"

definition verify_url ::
    "('a, 't, 'w) signing_env \<Rightarrow> 'u url_ops \<Rightarrow> 'u \<Rightarrow> signable list \<Rightarrow> 't verify_options
     \<Rightarrow> request_error + 'a" where
  "verify_url env ops url data options =
     bindR (parse_signature_from_url ops url) (\<lambda>(account_string, envl).
     bindR (map_err MalformedAccount (account_from_str env account_string)) (\<lambda>account.
     bindR (map_err ReVerify (verify_envelope env account data envl options)) (\<lambda>_. Inr account)))"

section \<open>What the code relies on\<close>

text \<open>The account crate verifies what it signed, and base64 decodes what it encoded.\<close>

definition signing_laws :: "('a, 't, 'w) signing_env \<Rightarrow> bool" where
  "signing_laws env \<longleftrightarrow>
     (\<forall>a m s. raw_sign env a m = Inr s \<longrightarrow> raw_verify env a m s)
     \<and> (\<forall>s. base64_decode env (base64_encode env s) = Inr s)"

text \<open>The query of a URL with one more pair.\<close>

definition url_laws :: "'u url_ops \<Rightarrow> bool" where
  "url_laws ops \<longleftrightarrow> (\<forall>u k v. query_pairs ops (append_pair ops u k v) = query_pairs ops u @ [(k, v)])"

section \<open>Facts\<close>

definition timely :: "('a, 't, 'w) signing_env \<Rightarrow> string \<Rightarrow> 't verify_options \<Rightarrow> bool" where
  "timely env ts options \<longleftrightarrow>
     (\<exists>t. parse_rfc3339 env ts = Some t \<and> format_iso8601 env t = ts
        \<and> \<bar>timestamp_millis env t - timestamp_millis env (reference_time options)\<bar> \<le> max_skew_ms options)"

lemma ensure_canonical_timestamp_Inr:
  "ensure_canonical_timestamp env ts = Inr () \<longleftrightarrow> (\<exists>t. parse_rfc3339 env ts = Some t \<and> format_iso8601 env t = ts)"
  by (auto simp: ensure_canonical_timestamp_def result_elims)

lemma verify_envelope_Inr:
  "verify_envelope env account data envl options = Inr () \<longleftrightarrow>
     timely env (timestamp envl) options
     \<and> (\<exists>sig b. base64_decode env (signature envl) = Inr sig
          \<and> format_data (der env) (key_with_type env account) (nonce envl) (timestamp envl) data = Inr b
          \<and> raw_verify env account b sig)"
proof (cases "parse_rfc3339 env (timestamp envl)")
  case None
  then show ?thesis by (simp add: verify_envelope_def timely_def)
next
  case (Some t)
  then show ?thesis
    by (simp add: verify_envelope_def timely_def result_elims Let_def not_less) blast
qed

lemma sign_with_Inr:
  "sign_with env account data params = Inr envl \<longleftrightarrow>
     ensure_canonical_timestamp env (sp_timestamp params) = Inr ()
     \<and> (\<exists>b sig. format_data (der env) (key_with_type env account) (sp_nonce params) (sp_timestamp params) data = Inr b
          \<and> raw_sign env account b = Inr sig
          \<and> envl = \<lparr>nonce = sp_nonce params, timestamp = sp_timestamp params, signature = base64_encode env sig\<rparr>)"
  by (auto simp: sign_with_def verification_data_def result_elims)

lemma sign_verify:
  assumes "signing_laws env" "sign_with env account data params = Inr envl"
    and "timely env (timestamp envl) options"
  shows "verify_envelope env account data envl options = Inr ()"
  using assms by (auto simp: verify_envelope_Inr sign_with_Inr signing_laws_def)

lemma find_signed_param_None:
  "find (\<lambda>name. list_ex (\<lambda>(key, _). key = name) kvs) SIGNED_PARAMS = None \<longleftrightarrow> set SIGNED_PARAMS \<inter> fst ` set kvs = {}"
  by (force simp: find_None_iff list_ex_iff)

lemma add_signature_Inr:
  "url_laws ops \<Longrightarrow> add_signature_to_url ops base account envl = Inr url \<Longrightarrow>
   set SIGNED_PARAMS \<inter> fst ` set (query_pairs ops base) = {} \<and>
   query_pairs ops url = query_pairs ops base
     @ [(PARAM_NONCE, nonce envl), (PARAM_TIMESTAMP, timestamp envl),
        (PARAM_SIGNATURE, signature envl), (PARAM_ACCOUNT, account)]"
  by (auto simp: add_signature_to_url_def find_signed_param_None url_laws_def Let_def split: option.splits)

lemma params_distinct [simp]:
  "PARAM_NONCE \<noteq> PARAM_TIMESTAMP" "PARAM_NONCE \<noteq> PARAM_SIGNATURE" "PARAM_NONCE \<noteq> PARAM_ACCOUNT"
  "PARAM_TIMESTAMP \<noteq> PARAM_NONCE" "PARAM_TIMESTAMP \<noteq> PARAM_SIGNATURE" "PARAM_TIMESTAMP \<noteq> PARAM_ACCOUNT"
  "PARAM_SIGNATURE \<noteq> PARAM_NONCE" "PARAM_SIGNATURE \<noteq> PARAM_TIMESTAMP" "PARAM_SIGNATURE \<noteq> PARAM_ACCOUNT"
  "PARAM_ACCOUNT \<noteq> PARAM_NONCE" "PARAM_ACCOUNT \<noteq> PARAM_TIMESTAMP" "PARAM_ACCOUNT \<noteq> PARAM_SIGNATURE"
  by (simp_all add: param_defs)

lemma parse_added_signature:
  assumes "url_laws ops" "add_signature_to_url ops base account envl = Inr url"
  shows "parse_signature_from_url ops url = Inr (account, envl)"
proof -
  obtain n t s a where "foldl read_pair (None, None, None, None) (query_pairs ops base) = (n, t, s, a)"
    by (cases "foldl read_pair (None, None, None, None) (query_pairs ops base)")
  then have "foldl read_pair (None, None, None, None) (query_pairs ops url)
      = (Some (nonce envl), Some (timestamp envl), Some (signature envl), Some account)"
    using add_signature_Inr [OF assms] by (simp add: read_pair_def)
  then show ?thesis by (simp add: parse_signature_from_url_def)
qed

lemma add_signature_twice:
  assumes "url_laws ops" "add_signature_to_url ops base account envl = Inr url"
  shows "\<exists>name. add_signature_to_url ops url account' envl' = Inl (DuplicateParameter name)"
proof -
  have "PARAM_NONCE \<in> set SIGNED_PARAMS \<inter> fst ` set (query_pairs ops url)"
    using add_signature_Inr [OF assms] by (auto simp: SIGNED_PARAMS_def)
  then have "find (\<lambda>name. list_ex (\<lambda>(key, _). key = name) (query_pairs ops url)) SIGNED_PARAMS \<noteq> None"
    by (auto simp: find_signed_param_None)
  then show ?thesis by (auto simp: add_signature_to_url_def)
qed

definition payload_fits :: "('a, 't, 'w) signing_env \<Rightarrow> 'a \<Rightarrow> signed_envelope \<Rightarrow> signable list \<Rightarrow> bool" where
  "payload_fits env a envl data \<longleftrightarrow>
     (\<forall>b. format_data (der env) (key_with_type env a) (nonce envl) (timestamp envl) data = Inr b \<longrightarrow> fits_usize (length b))"

text \<open>What breaks the binding: one signature that verifies the payloads of two requests, though they are
  different messages. For a sound signature scheme this is a forgery.\<close>

definition verifies_both ::
    "('a, 't, 'w) signing_env \<Rightarrow> 'a \<Rightarrow> signed_envelope \<Rightarrow> signable list \<Rightarrow> signed_envelope \<Rightarrow> signable list \<Rightarrow> bool" where
  "verifies_both env account envl data envl' data' \<longleftrightarrow>
     (\<exists>m m' s. m \<noteq> m' \<and> base64_decode env (signature envl) = Inr s
        \<and> format_data (der env) (key_with_type env account) (nonce envl) (timestamp envl) data = Inr m
        \<and> format_data (der env) (key_with_type env account) (nonce envl') (timestamp envl') data' = Inr m'
        \<and> raw_verify env account m s \<and> raw_verify env account m' s)"

lemma verified_request_unique:
  assumes "self_delimiting (der env)" "payload_fits env account envl data"
    and "verify_envelope env account data envl options = Inr ()"
    and "verify_envelope env account data' envl' options' = Inr ()"
    and "signature envl' = signature envl"
  shows "data' = data \<and> envl' = envl \<or> verifies_both env account envl data envl' data'"
proof -
  from assms(3) obtain s b where b: "base64_decode env (signature envl) = Inr s"
      "format_data (der env) (key_with_type env account) (nonce envl) (timestamp envl) data = Inr b"
      "raw_verify env account b s" by (auto simp: verify_envelope_Inr)
  from assms(4,5) b(1) obtain b' where b': "raw_verify env account b' s"
      "format_data (der env) (key_with_type env account) (nonce envl') (timestamp envl') data' = Inr b'"
    by (auto simp: verify_envelope_Inr)
  show ?thesis
  proof (cases "b' = b")
    case True
    have "fits_usize (length b)" using assms(2) b(2) by (simp add: payload_fits_def)
    with True have "nonce envl = nonce envl' \<and> timestamp envl = timestamp envl' \<and> data = data'"
      using format_data_inj [OF assms(1) _ b(2)] b'(2) by blast
    with assms(5) show ?thesis by simp
  next
    case False
    with b b' show ?thesis unfolding verifies_both_def by metis
  qed
qed

section \<open>Properties\<close>

text \<open>C1. What is signed verifies: an envelope produced by \<open>sign_with\<close> over any payload is accepted by
  \<open>verify\<close> for the same account and payload at every reference time within the skew of its timestamp
  (which signing has checked to be canonical).\<close>

theorem sign_then_verify:
  assumes "signing_laws env" and "sign_with env account data params = Inr envl"
    and "parse_rfc3339 env (sp_timestamp params) = Some t"
    and "\<bar>timestamp_millis env t - timestamp_millis env (reference_time options)\<bar> \<le> max_skew_ms options"
  shows "verify env account data envl options = Inr ()"
proof -
  from assms(2-4) have "timely env (timestamp envl) options"
    by (auto simp: timely_def sign_with_Inr ensure_canonical_timestamp_Inr)
  with sign_verify assms(1,2) show ?thesis by (simp add: verify_def)
qed


text \<open>The signature survives the URL: what \<open>add_signature_to_url\<close> attaches is what
  \<open>parse_signature_from_url\<close> reads, whatever the query held before, and attaching a second one is
  refused as a duplicate.\<close>

lemma url_signature_roundtrip:
  assumes "url_laws ops" and "add_signature_to_url ops base account envl = Inr url"
  shows "parse_signature_from_url ops url = Inr (account, envl)
    \<and> (\<exists>name. add_signature_to_url ops url account' envl' = Inl (DuplicateParameter name))"
  using parse_added_signature [OF assms] add_signature_twice [OF assms] by blast

text \<open>A signed URL authenticates its account: a request signed with \<open>sign_with\<close> and attached to a URL
  is accepted by \<open>verify_url\<close>, which returns the account that signed.\<close>

lemma signed_url_verifies:
  assumes "signing_laws env" "url_laws ops"
    and "sign_with env account data params = Inr envl"
    and "add_signature_to_url ops base (account_to_string env account) envl = Inr url"
    and "account_from_str env (account_to_string env account) = Inr account"
    and "timely env (timestamp envl) options"
  shows "verify_url env ops url data options = Inr account"
  using sign_verify [OF assms(1,3,6)] parse_added_signature [OF assms(2,4)] assms(5)
  by (simp add: verify_url_def)

section \<open>A concrete environment\<close>

text \<open>Accounts named by their key whose signature is the key and the message, times that are
  milliseconds of the epoch, and URLs that are a base and a list of pairs.\<close>

definition toy_env :: "(string, int, unit) signing_env" where
  "toy_env = \<lparr>key_with_type = (\<lambda>a. a), raw_sign = (\<lambda>a m. Inr (a @ m)), raw_verify = (\<lambda>a m s. s = a @ m),
     account_from_str = Inr, account_to_string = (\<lambda>a. a), der = tlv_ops,
     base64_encode = (\<lambda>b. b), base64_decode = Inr,
     parse_rfc3339 = (\<lambda>s. if s = ''t'' then Some 0 else None), format_iso8601 = (\<lambda>_. ''t''),
     timestamp_millis = (\<lambda>t. t), unix_epoch = 0,
     uuid_v4 = (\<lambda>w. (''n'', w)), utc_now = (\<lambda>w. (0, w))\<rparr>"

definition toy_url :: "(string \<times> (string \<times> string) list) url_ops" where
  "toy_url = \<lparr>url_parse = (\<lambda>s. Inr (s, [])), url_as_str = fst, query_pairs = snd,
     append_pair = (\<lambda>u k v. (fst u, snd u @ [(k, v)]))\<rparr>"

definition toy_signed :: signed_envelope where
  "toy_signed = \<lparr>nonce = ''n'', timestamp = ''t'',
     signature = ''k'' @ [sequence_tag, char_of (12 :: nat), CHR 0x0C, char_of (1 :: nat)] @ ''n''
       @ [CHR 0x0C, char_of (1 :: nat)] @ ''t'' @ [CHR 0x04, char_of (1 :: nat)] @ ''k''
       @ [CHR 0x0C, char_of (1 :: nat)] @ ''x''\<rparr>"

lemma toy_laws: "signing_laws toy_env" "url_laws toy_url" "self_delimiting (der toy_env)"
  by (simp_all add: signing_laws_def url_laws_def toy_env_def toy_url_def self_delimiting_tlv)

lemma toy_sign: "sign_with toy_env ''k'' [Text ''x''] \<lparr>sp_nonce = ''n'', sp_timestamp = ''t''\<rparr> = Inr toy_signed"
  using small_payload
  by (simp add: sign_with_def verification_data_def ensure_canonical_timestamp_def toy_env_def toy_signed_def)

lemma toy_timely: "timely toy_env (timestamp toy_signed) \<lparr>max_skew_ms = 10, reference_time = 5\<rparr>"
  by (simp add: timely_def toy_env_def toy_signed_def)

theorem sign_then_verify_witness:
  "verify toy_env ''k'' [Text ''x''] toy_signed \<lparr>max_skew_ms = 10, reference_time = 5\<rparr> = Inr ()"
  by (rule sign_then_verify [OF toy_laws(1) toy_sign, where t = 0]) (simp_all add: toy_env_def)


end
