(* ===== verification/Caller.thy ===== *)
theory Caller
  imports Endpoint Envelope Signing
begin

text \<open>
  \<open>keetanetwork-anchor-client/src/service/caller.rs\<close> and \<open>context.rs\<close>: the request spine every service
  shares. Fill the endpoint, attach the signature the mode requires, send, classify. The transport, the
  serializer of JSON (\<open>to_vec\<close>) and the operations of \<open>signing_env\<close> and \<open>url_ops\<close> are parameters.
\<close>

section \<open>Calls\<close>

datatype auth = AuthNone | SignedUrl | SignedBody

datatype body_envelope = RequestBody | Flat

datatype http_method = Get | Post

record call =
  call_endpoint :: endpoint
  call_params :: "(string \<times> string) list"
  call_method :: http_method
  call_auth :: auth
  call_signed :: "signable list"
  call_envelope :: body_envelope
  call_body :: "json option"

record ('a, 't, 'w, 'u) caller =
  caller_env :: "('a, 't, 'w) signing_env"
  caller_urls :: "'u url_ops"
  caller_to_vec :: "json \<Rightarrow> string + bytes"
  caller_text :: json_text
  caller_transport :: "'w transport"
  caller_signer :: 'a
  caller_account :: string

definition caller_new ::
    "('a, 't, 'w) signing_env \<Rightarrow> 'u url_ops \<Rightarrow> (json \<Rightarrow> string + bytes) \<Rightarrow> json_text \<Rightarrow> 'w transport \<Rightarrow> 'a
     \<Rightarrow> ('a, 't, 'w, 'u) caller" where
  "caller_new env urls to_vec jt transport signer =
     \<lparr>caller_env = env, caller_urls = urls, caller_to_vec = to_vec, caller_text = jt,
      caller_transport = transport, caller_signer = signer, caller_account = account_to_string env signer\<rparr>"

section \<open>Signatures of a request\<close>

definition caller_sign ::
    "('a, 't, 'w, 'u) caller \<Rightarrow> signable list \<Rightarrow> 'w \<Rightarrow> (client_error + signed_envelope) \<times> 'w" where
  "caller_sign c payload w =
     (let (params, w) = generate (caller_env c) w
      in (map_err CeSigning (sign_with (caller_env c) (caller_signer c) payload params), w))"

definition signed_field :: "signed_envelope \<Rightarrow> json" where
  "signed_field s = json_object
     [(''nonce'', JString (nonce s)), (''timestamp'', JString (timestamp s)), (''signature'', JString (signature s))]"

definition authenticated_url ::
    "('a, 't, 'w, 'u) caller \<Rightarrow> auth \<Rightarrow> signable list \<Rightarrow> 'u \<Rightarrow> 'w \<Rightarrow> (client_error + 'u) \<times> 'w" where
  "authenticated_url c mode payload url w =
     (case mode of
        SignedUrl \<Rightarrow>
          (case caller_sign c payload w of
             (Inl e, w) \<Rightarrow> (Inl e, w)
           | (Inr envl, w) \<Rightarrow>
               (map_err CeRequest (add_signature_to_url (caller_urls c) url (caller_account c) envl), w))
      | _ \<Rightarrow> (Inr url, w))"

text \<open>The shape of a body around the request fields, and the fields themselves: a body that is not an
  object counts as empty.\<close>

definition body_fields :: "json option \<Rightarrow> (string \<times> json) list" where
  "body_fields body = (case body of Some (JObject m) \<Rightarrow> m | _ \<Rightarrow> [])"

definition shape_body :: "string \<Rightarrow> body_envelope \<Rightarrow> signed_envelope option \<Rightarrow> (string \<times> json) list \<Rightarrow> json" where
  "shape_body account shape sig flds =
     (case shape of
        RequestBody \<Rightarrow>
          let flds =
            (case sig of None \<Rightarrow> flds
             | Some s \<Rightarrow> map_insert ''signed'' (signed_field s) (map_insert ''account'' (JString account) flds))
          in json_object [(''request'', JObject flds)]
      | Flat \<Rightarrow>
          let flds =
            (case sig of None \<Rightarrow> flds | Some s \<Rightarrow> map_insert ''signed'' (signed_field s) flds)
          in JObject flds)"

definition request_body ::
    "('a, 't, 'w, 'u) caller \<Rightarrow> auth \<Rightarrow> body_envelope \<Rightarrow> signable list \<Rightarrow> json option \<Rightarrow> 'w
     \<Rightarrow> (client_error + bytes) \<times> 'w" where
  "request_body c mode shape payload body w =
     (let flds = body_fields body;
          (sig, w) = (case mode of
              SignedBody \<Rightarrow>
                (case caller_sign c payload w of
                   (Inl e, w) \<Rightarrow> (Inl e, w)
                 | (Inr envl, w) \<Rightarrow> (Inr (Some envl), w))
            | _ \<Rightarrow> (Inr None, w))
      in (bindR sig (\<lambda>s. map_err CeBody (caller_to_vec c (shape_body (caller_account c) shape s flds))), w))"

section \<open>Dispatch\<close>

definition send_get ::
    "('a, 't, 'w, 'u) caller \<Rightarrow> auth \<Rightarrow> signable list \<Rightarrow> 'u \<Rightarrow> 'w \<Rightarrow> (client_error + http_response) \<times> 'w" where
  "send_get c mode payload url w =
     (case authenticated_url c mode payload url w of
        (Inl e, w) \<Rightarrow> (Inl e, w)
      | (Inr target, w) \<Rightarrow>
          (case t_get (caller_transport c) (url_as_str (caller_urls c) target) w of
             (r, w) \<Rightarrow> (map_err CeTransport r, w)))"

definition send_post ::
    "('a, 't, 'w, 'u) caller \<Rightarrow> call \<Rightarrow> 'u \<Rightarrow> 'w \<Rightarrow> (client_error + http_response) \<times> 'w" where
  "send_post c cl url w =
     (case request_body c (call_auth cl) (call_envelope cl) (call_signed cl) (call_body cl) w of
        (Inl e, w) \<Rightarrow> (Inl e, w)
      | (Inr payload, w) \<Rightarrow>
          (case t_post (caller_transport c) (url_as_str (caller_urls c) url) payload w of
             (r, w) \<Rightarrow> (map_err CeTransport r, w)))"

definition dispatch ::
    "('a, 't, 'w, 'u) caller \<Rightarrow> call \<Rightarrow> 'u \<Rightarrow> 'w \<Rightarrow> (client_error + http_response) \<times> 'w" where
  "dispatch c cl url w =
     (case call_method cl of
        Get \<Rightarrow> send_get c (call_auth cl) (call_signed cl) url w
      | Post \<Rightarrow> send_post c cl url w)"

definition send :: "('a, 't, 'w, 'u) caller \<Rightarrow> call \<Rightarrow> 'w \<Rightarrow> (client_error + http_response) \<times> 'w" where
  "send c cl w =
     (case endpoint_url (url_parse (caller_urls c)) (call_endpoint cl) (call_params cl) of
        Inl e \<Rightarrow> (Inl e, w)
      | Inr url \<Rightarrow> dispatch c cl url w)"

definition invoke ::
    "('a, 't, 'w, 'u) caller \<Rightarrow> 'r decoder \<Rightarrow> call \<Rightarrow> 'w \<Rightarrow> (client_error + 'r anchor_outcome) \<times> 'w" where
  "invoke c dec cl w =
     (case endpoint_url (url_parse (caller_urls c)) (call_endpoint cl) (call_params cl) of
        Inl e \<Rightarrow> (Inl e, w)
      | Inr url \<Rightarrow>
          (case dispatch c cl url w of
             (r, w) \<Rightarrow> (bindR r (classify (caller_text c) dec), w)))"

section \<open>Facts\<close>

lemma caller_sign_Inr:
  "caller_sign c payload w = (Inr envl, w') \<Longrightarrow>
   \<exists>params. generate (caller_env c) w = (params, w') \<and> sign_with (caller_env c) (caller_signer c) payload params = Inr envl"
  by (auto simp: caller_sign_def result_elims split: prod.splits)

text \<open>The server's reading of a body: the account and the envelope of a request.\<close>

definition read_signed :: "json \<Rightarrow> signed_envelope option" where
  "read_signed flds =
     (case get_key ''signed'' flds of None \<Rightarrow> None
      | Some s \<Rightarrow>
         (case (Option.bind (get_key ''nonce'' s) as_str, Option.bind (get_key ''timestamp'' s) as_str,
                Option.bind (get_key ''signature'' s) as_str) of
            (Some n, Some t, Some g) \<Rightarrow> Some \<lparr>nonce = n, timestamp = t, signature = g\<rparr>
          | _ \<Rightarrow> None))"

lemma read_signed_field: "get_key ''signed'' flds = Some (signed_field s) \<Longrightarrow> read_signed flds = Some s"
  by (simp add: read_signed_def signed_field_def)

lemma invoke_send: "invoke c dec cl w = (case send c cl w of (r, w) \<Rightarrow> (bindR r (classify (caller_text c) dec), w))"
  by (auto simp: invoke_def send_def split: sum.splits prod.splits)

lemma request_body_signed:
  assumes "request_body c SignedBody shape payload body w = (Inr b, w')"
  shows "\<exists>envl. caller_sign c payload w = (Inr envl, w')
    \<and> caller_to_vec c (shape_body (caller_account c) shape (Some envl) (body_fields body)) = Inr b"
  using assms by (auto simp: request_body_def result_elims Let_def split: prod.splits sum.splits)

lemma shape_request:
  assumes "map_ok flds"
  shows "get_key ''request'' (shape_body account RequestBody (Some s) flds) =
    Some (JObject (map_insert ''signed'' (signed_field s) (map_insert ''account'' (JString account) flds)))"
  by (simp add: shape_body_def Let_def)

lemma get_signed_field: "map_ok flds \<Longrightarrow> get_key k (JObject (map_insert k v flds)) = Some v"
  by (simp add: map_of_map_insert)

section \<open>Properties\<close>

text \<open>A signed \<open>GET\<close> authenticates: the URL the caller requests in the \<open>SignedUrl\<close> mode is accepted by
  \<open>verify_url\<close> on the other side, for the signed payload, at any time within the skew of the timestamp it
  was signed with, and names the caller's account.\<close>

lemma signed_get_authenticates:
  assumes "signing_laws (caller_env c)" "url_laws (caller_urls c)"
    and "caller_account c = account_to_string (caller_env c) (caller_signer c)"
    and "account_from_str (caller_env c) (caller_account c) = Inr (caller_signer c)"
    and "authenticated_url c SignedUrl payload url w = (Inr target, w')"
    and "\<And>envl. caller_sign c payload w = (Inr envl, w') \<Longrightarrow> timely (caller_env c) (timestamp envl) options"
  shows "verify_url (caller_env c) (caller_urls c) target payload options = Inr (caller_signer c)"
proof -
  from assms(5) obtain envl where e: "caller_sign c payload w = (Inr envl, w')"
      "add_signature_to_url (caller_urls c) url (caller_account c) envl = Inr target"
    by (auto simp: authenticated_url_def result_elims split: prod.splits sum.splits)
  from caller_sign_Inr [OF e(1)] obtain params where
    s: "sign_with (caller_env c) (caller_signer c) payload params = Inr envl" by blast
  show ?thesis
    using sign_verify [OF assms(1) s assms(6) [OF e(1)]] parse_added_signature [OF assms(2) e(2)] assms(4)
    by (simp add: verify_url_def)
qed

text \<open>C17. A signed \<open>POST\<close> authenticates and carries its fields: the value serialized as the body holds
  every request field but the two the signature owns unchanged, and the account and the envelope read
  back from it are accepted by \<open>verify_body\<close> (in the flat shape the account is the caller's own field).\<close>

theorem signed_post_authenticates:
  assumes "signing_laws (caller_env c)"
    and "account_from_str (caller_env c) (caller_account c) = Inr (caller_signer c)"
    and "map_ok m"
    and "request_body c SignedBody shape payload (Some (JObject m)) w = (Inr b, w')"
    and "\<And>envl. caller_sign c payload w = (Inr envl, w') \<Longrightarrow> timely (caller_env c) (timestamp envl) options"
  shows "\<exists>v envl. caller_to_vec c (case shape of RequestBody \<Rightarrow> json_object [(''request'', v)] | Flat \<Rightarrow> v) = Inr b
    \<and> read_signed v = Some envl
    \<and> (shape = RequestBody \<longrightarrow> get_key ''account'' v = Some (JString (caller_account c)))
    \<and> verify_body (caller_env c) (caller_account c) envl payload options = Inr (caller_signer c)
    \<and> (\<forall>k. k \<noteq> ''signed'' \<longrightarrow> k \<noteq> ''account'' \<or> shape = Flat \<longrightarrow> get_key k v = map_of m k)"
proof -
  from request_body_signed [OF assms(4)] obtain envl where e: "caller_sign c payload w = (Inr envl, w')"
      "caller_to_vec c (shape_body (caller_account c) shape (Some envl) m) = Inr b"
    by (auto simp: body_fields_def)
  from caller_sign_Inr [OF e(1)] obtain params where
    s: "sign_with (caller_env c) (caller_signer c) payload params = Inr envl" by blast
  have ver: "verify_body (caller_env c) (caller_account c) envl payload options = Inr (caller_signer c)"
    using sign_verify [OF assms(1) s assms(5) [OF e(1)]] assms(2) by (simp add: verify_body_def)
  define v where "v = JObject (map_insert ''signed'' (signed_field envl)
      (case shape of RequestBody \<Rightarrow> map_insert ''account'' (JString (caller_account c)) m | Flat \<Rightarrow> m))"
  have ok: "map_ok (case shape of RequestBody \<Rightarrow> map_insert ''account'' (JString (caller_account c)) m | Flat \<Rightarrow> m)"
    using assms(3) by (cases shape) (simp_all add: map_ok_insert)
  have "read_signed v = Some envl"
    using ok by (intro read_signed_field) (simp add: v_def map_of_map_insert)
  moreover have "caller_to_vec c (case shape of RequestBody \<Rightarrow> json_object [(''request'', v)] | Flat \<Rightarrow> v) = Inr b"
    using e(2) by (cases shape) (simp_all add: shape_body_def v_def Let_def)
  moreover have "get_key k v = map_of m k" if "k \<noteq> ''signed''" "k \<noteq> ''account'' \<or> shape = Flat" for k
    using ok that assms(3) by (cases shape) (auto simp: v_def map_of_map_insert)
  moreover have "get_key ''account'' v = Some (JString (caller_account c))" if "shape = RequestBody"
    using ok that assms(3) by (simp add: v_def map_of_map_insert)
  ultimately show ?thesis using ver by blast
qed

section \<open>A concrete caller\<close>

definition toy_transport :: "unit transport" where
  "toy_transport = \<lparr>t_get = (\<lambda>_ w. (Inr (http_response_new 200 []), w)),
     t_post = (\<lambda>_ _ w. (Inr (http_response_new 200 []), w))\<rparr>"

definition toy_caller :: "(string, int, unit, string \<times> (string \<times> string) list) caller" where
  "toy_caller = caller_new toy_env toy_url (\<lambda>_. Inr ''body'') (\<lambda>_. Inr JNull) toy_transport ''k''"

lemma toy_caller_sign: "caller_sign toy_caller [Text ''x''] () = (Inr toy_signed, ())"
  using toy_sign by (simp add: caller_sign_def toy_caller_def caller_new_def generate_def) (simp add: toy_env_def)

theorem signed_post_authenticates_witness:
  "\<exists>v envl. caller_to_vec toy_caller v = Inr ''body'' \<and> read_signed v = Some envl \<and> get_key ''f'' v = Some JNull"
proof -
  have e: "caller_env toy_caller = toy_env" "caller_signer toy_caller = ''k''" "caller_account toy_caller = ''k''"
    by (simp_all add: toy_caller_def caller_new_def toy_env_def)
  have b: "request_body toy_caller SignedBody Flat [Text ''x''] (Some (JObject [(''f'', JNull)])) () = (Inr ''body'', ())"
    by (simp add: request_body_def toy_caller_sign) (simp add: toy_caller_def caller_new_def)
  have "\<exists>v envl. caller_to_vec toy_caller (case Flat of RequestBody \<Rightarrow> json_object [(''request'', v)] | Flat \<Rightarrow> v) = Inr ''body''
    \<and> read_signed v = Some envl
    \<and> (Flat = RequestBody \<longrightarrow> get_key ''account'' v = Some (JString (caller_account toy_caller)))
    \<and> verify_body (caller_env toy_caller) (caller_account toy_caller) envl [Text ''x'']
        \<lparr>max_skew_ms = 10, reference_time = 5\<rparr> = Inr (caller_signer toy_caller)
    \<and> (\<forall>k. k \<noteq> ''signed'' \<longrightarrow> k \<noteq> ''account'' \<or> Flat = Flat \<longrightarrow> get_key k v = map_of [(''f'', JNull)] k)"
    by (rule signed_post_authenticates [OF _ _ _ b])
      (use toy_laws(1) toy_timely toy_caller_sign in \<open>simp_all add: e map_ok_def toy_env_def\<close>)
  then obtain v envl where "caller_to_vec toy_caller v = Inr ''body''" "read_signed v = Some envl"
    "\<forall>k. k \<noteq> ''signed'' \<longrightarrow> k \<noteq> ''account'' \<or> Flat = Flat \<longrightarrow> get_key k v = map_of [(''f'', JNull)] k" by auto
  moreover from this(3) have "get_key ''f'' v = Some JNull" by simp
  ultimately show ?thesis by blast
qed

end
