(* ===== verification/CanonicalInj.thy ===== *)
theory CanonicalInj
  imports Canonical
begin

text \<open>
  The canonical form determines the value: what is signed names one JSON value and no other. String
  literals and numbers are self-delimiting up to the delimiters that follow a value, so arrays and
  objects can be read back; the members are sorted, so equal texts hold equal maps.
\<close>

section \<open>String literals\<close>

text \<open>Reading one escaped byte: its code and the rest.\<close>

definition hex_lower_val :: "char \<Rightarrow> nat" where
  "hex_lower_val c = (let b = of_char c in if b < 58 then b - 48 else b - 87)"

definition unescape_char :: "string \<Rightarrow> nat \<times> string" where
  "unescape_char s =
     (if hd s \<noteq> CHR 0x5C then (of_char (hd s), tl s)
      else if s ! 1 = CHR 0x22 then (0x22, drop 2 s)
      else if s ! 1 = CHR 0x5C then (0x5C, drop 2 s)
      else if s ! 1 = CHR ''b'' then (0x08, drop 2 s)
      else if s ! 1 = CHR ''t'' then (0x09, drop 2 s)
      else if s ! 1 = CHR ''n'' then (0x0A, drop 2 s)
      else if s ! 1 = CHR ''f'' then (0x0C, drop 2 s)
      else if s ! 1 = CHR ''r'' then (0x0D, drop 2 s)
      else (16 * hex_lower_val (s ! 4) + hex_lower_val (s ! 5), drop 6 s))"

lemma hex_lower_val: "d < 16 \<Longrightarrow> hex_lower_val (hex_lower d) = d"
  by (simp add: hex_lower_val_def hex_lower_def Let_def)

lemma backslash_iff: "c = CHR 0x5C \<longleftrightarrow> of_char c = (0x5C :: nat)"
  using of_char_eq_iff [of c "CHR 0x5C", where ?'a = nat] by simp

lemma unescape_escape: "unescape_char (escape_char c @ s) = (of_char c, s)"
proof (cases "(of_char c :: nat) < 0x20")
  case True
  then have "(of_char c :: nat) div 16 < 16" by simp
  with True show ?thesis
    by (simp add: escape_char_def unescape_char_def hex_lower_val Let_def)
next
  case False
  then show ?thesis by (simp add: escape_char_def unescape_char_def backslash_iff Let_def)
qed

lemma escape_char_cancel: "escape_char c @ s = escape_char d @ t \<Longrightarrow> c = d \<and> s = t"
  by (metis Pair_inject of_char_eq_iff unescape_escape)

lemma escape_char_nonempty: "escape_char c \<noteq> []"
  by (simp add: escape_char_def Let_def)

lemma hd_escape_char: "hd (escape_char c) \<noteq> CHR 0x22"
proof
  assume h: "hd (escape_char c) = CHR 0x22"
  have "of_char c = fst (unescape_char (escape_char c @ []))" unfolding unescape_escape by simp
  also have "\<dots> = of_char (hd (escape_char c))" using h by (simp add: unescape_char_def)
  finally have "(of_char c :: nat) = of_char (CHR 0x22)" using h by simp
  then have "hd (escape_char c) = CHR 0x5C" by (simp add: escape_char_def Let_def)
  with h show False by simp
qed

lemma escape_char_start: "\<exists>x xs. escape_char c = x # xs \<and> x \<noteq> CHR 0x22"
  using hd_escape_char [of c] escape_char_nonempty [of c] by (cases "escape_char c") auto

lemma escape_body_cancel:
  "concat (map escape_char a) @ CHR 0x22 # s = concat (map escape_char b) @ CHR 0x22 # t \<Longrightarrow> a = b \<and> s = t"
proof (induction a arbitrary: b)
  case Nil
  show ?case
  proof (cases b)
    case (Cons d ds)
    obtain x xs where "escape_char d = x # xs" "x \<noteq> CHR 0x22" using escape_char_start by blast
    with Nil Cons show ?thesis by auto
  qed (use Nil in auto)
next
  case (Cons c a)
  show ?case
  proof (cases b)
    case Nil
    obtain x xs where "escape_char c = x # xs" "x \<noteq> CHR 0x22" using escape_char_start by blast
    with Nil Cons.prems show ?thesis by auto
  next
    case (Cons d ds)
    with Cons.prems have "escape_char c @ (concat (map escape_char a) @ CHR 0x22 # s)
        = escape_char d @ (concat (map escape_char ds) @ CHR 0x22 # t)" by simp
    then have "c = d \<and> concat (map escape_char a) @ CHR 0x22 # s = concat (map escape_char ds) @ CHR 0x22 # t"
      by (rule escape_char_cancel)
    with Cons.IH [of ds] Cons show ?thesis by auto
  qed
qed

interpretation literal: prefix_code string_text "\<lambda>_. True"
proof unfold_locales
  fix a b s t
  assume "string_text a @ s = string_text b @ t"
  then have "concat (map escape_char a) @ CHR 0x22 # s = concat (map escape_char b) @ CHR 0x22 # t"
    by (simp add: string_text_def escape_string_def)
  then show "a = b \<and> s = t" by (rule escape_body_cancel)
qed

section \<open>Numbers\<close>

text \<open>A value is followed by the end of the text, a comma or a closing bracket.\<close>

definition delimited :: "string \<Rightarrow> bool" where
  "delimited s \<longleftrightarrow> s = [] \<or> hd s \<in> {CHR '','', CHR '']'', CHR 0x7D}"

text \<open>A negative number is negative; a float has no canonical form.\<close>

fun number_wf :: "number \<Rightarrow> bool" where
  "number_wf (PosInt n) \<longleftrightarrow> True"
| "number_wf (NegInt n) \<longleftrightarrow> sint n < 0"
| "number_wf (Float b) \<longleftrightarrow> False"

lemma number_text_wf:
  "number_text (PosInt n) = show_nat (unat n)"
  "sint n < 0 \<Longrightarrow> number_text (NegInt n) = CHR ''-'' # show_nat (nat (- sint n))"
  by (simp_all add: number_text_def show_int_def)

lemma takeWhile_digits:
  "delimited s \<Longrightarrow> takeWhile is_ascii_digit (show_nat n @ s) = show_nat n"
proof -
  assume "delimited s"
  then have "takeWhile is_ascii_digit s = []"
    by (cases s) (auto simp: delimited_def is_ascii_digit_def)
  moreover have "\<forall>c \<in> set (show_nat n). is_ascii_digit c"
    using show_nat_digits [of n] by (simp add: list_all_iff)
  ultimately show ?thesis by (simp add: takeWhile_append2)
qed

lemma show_nat_cancel:
  assumes "delimited s" "delimited t" "show_nat m @ s = show_nat n @ t"
  shows "m = n \<and> s = t"
proof -
  from assms takeWhile_digits have "show_nat m = show_nat n" by metis
  with assms show ?thesis by (auto dest: show_nat_inj)
qed

lemma show_nat_start: "\<exists>x xs. show_nat n = x # xs \<and> is_ascii_digit x"
  using show_nat_digits [of n] show_nat_nonempty [of n] by (cases "show_nat n") auto

lemma minus_not_digit: "\<not> is_ascii_digit (CHR ''-'')"
  by (simp add: is_ascii_digit_def)

lemma number_text_start:
  "number_wf n \<Longrightarrow> \<exists>x xs. number_text n = x # xs \<and> (x = CHR ''-'' \<or> is_ascii_digit x)"
proof (cases n)
  case (PosInt a)
  with show_nat_start [of "unat a"] show ?thesis by (auto simp: number_text_wf)
qed (simp_all add: number_text_wf)

lemma number_text_cancel:
  assumes "number_wf m" "number_wf n" "delimited s" "delimited t" "number_text m @ s = number_text n @ t"
  shows "m = n \<and> s = t"
proof (cases m; cases n)
  fix a b
  assume "m = PosInt a" "n = PosInt b"
  with assms show_nat_cancel [of s t "unat a" "unat b"] show ?thesis
    by (simp add: number_text_wf word_eq_iff_unat)
next
  fix a b
  assume "m = PosInt a" "n = NegInt b"
  with assms show_nat_start [of "unat a"] show ?thesis by (auto simp: number_text_wf minus_not_digit)
next
  fix a b
  assume "m = NegInt a" "n = PosInt b"
  with assms show_nat_start [of "unat b"] show ?thesis by (auto simp: number_text_wf minus_not_digit)
next
  fix a b
  assume mn: "m = NegInt a" "n = NegInt b"
  with assms show_nat_cancel [of s t "nat (- sint a)" "nat (- sint b)"]
  have "nat (- sint a) = nat (- sint b)" "s = t" by (simp_all add: number_text_wf)
  with assms mn have "sint a = sint b" by auto
  then have "a = b" by (rule signed_word_eqI)
  with mn \<open>s = t\<close> show ?thesis by simp
qed (use assms in auto)

section \<open>Values\<close>

fun json_wf :: "json \<Rightarrow> bool" where
  "json_wf (JNumber n) = number_wf n"
| "json_wf (JArray xs) = list_all json_wf xs"
| "json_wf (JObject m) = (map_ok m \<and> list_all (\<lambda>(k, v). json_wf v) m)"
| "json_wf _ = True"

definition cancels :: "('a \<Rightarrow> string) \<Rightarrow> 'a \<Rightarrow> 'a \<Rightarrow> bool" where
  "cancels f x y \<longleftrightarrow> (\<forall>s t. delimited s \<longrightarrow> delimited t \<longrightarrow> f x @ s = f y @ t \<longrightarrow> x = y \<and> s = t)"

lemma delimited_tail:
  "e \<in> {CHR '']'', CHR 0x7D} \<Longrightarrow> delimited (concat (map (\<lambda>y. '','' @ y) xs) @ e # s)"
  by (cases xs) (auto simp: delimited_def)

lemma tail_cancel:
  assumes e: "e \<in> {CHR '']'', CHR 0x7D}"
  shows "\<forall>x \<in> set xs. \<forall>y \<in> set ys. cancels f x y \<Longrightarrow>
    concat (map (\<lambda>y. '','' @ y) (map f xs)) @ e # s = concat (map (\<lambda>y. '','' @ y) (map f ys)) @ e # t \<Longrightarrow>
    xs = ys \<and> s = t"
proof (induction xs arbitrary: ys)
  case Nil
  with e show ?case by (cases ys) auto
next
  case (Cons x xs)
  show ?case
  proof (cases ys)
    case Nil
    with e Cons.prems show ?thesis by auto
  next
    case (Cons y ys')
    let ?r = "\<lambda>zs u. concat (map (\<lambda>y. '','' @ y) (map f zs)) @ e # u"
    from Cons Cons.prems have "f x @ ?r xs s = f y @ ?r ys' t" "cancels f x y" by simp_all
    with delimited_tail [OF e] have "x = y \<and> ?r xs s = ?r ys' t" unfolding cancels_def by blast
    with Cons.IH [of ys'] Cons Cons.prems show ?thesis by simp
  qed
qed

lemma join_cancel:
  assumes e: "e \<in> {CHR '']'', CHR 0x7D}"
    and c: "\<forall>x \<in> set xs. \<forall>y \<in> set ys. cancels f x y"
    and start: "\<forall>x \<in> set xs \<union> set ys. f x \<noteq> [] \<and> hd (f x) \<notin> {CHR '']'', CHR 0x7D}"
    and eq: "join_comma (map f xs) @ e # s = join_comma (map f ys) @ e # t"
  shows "xs = ys \<and> s = t"
proof (cases xs)
  case Nil
  with e eq start show ?thesis
    by (cases ys) (auto simp: join_comma_Cons neq_Nil_conv)
next
  case (Cons x xs')
  show ?thesis
  proof (cases ys)
    case Nil
    with e eq start Cons show ?thesis by (auto simp: join_comma_Cons neq_Nil_conv)
  next
    case ys: (Cons y ys')
    let ?r = "\<lambda>zs u. concat (map (\<lambda>y. '','' @ y) (map f zs)) @ e # u"
    from Cons ys eq c have "f x @ ?r xs' s = f y @ ?r ys' t" "cancels f x y" by (simp_all add: join_comma_Cons)
    with delimited_tail [OF e] have xy: "x = y" "?r xs' s = ?r ys' t" unfolding cancels_def by blast+
    have "xs' = ys' \<and> s = t"
      by (rule tail_cancel [OF e _ xy(2)]) (use Cons ys c in auto)
    with Cons ys xy show ?thesis by simp
  qed
qed

text \<open>The first character tells the kind of a value.\<close>

fun starts_value :: "json \<Rightarrow> char \<Rightarrow> bool" where
  "starts_value JNull c \<longleftrightarrow> c = CHR ''n''"
| "starts_value (JBool b) c \<longleftrightarrow> c = (if b then CHR ''t'' else CHR ''f'')"
| "starts_value (JNumber n) c \<longleftrightarrow> c = CHR ''-'' \<or> is_ascii_digit c"
| "starts_value (JString s) c \<longleftrightarrow> c = CHR 0x22"
| "starts_value (JArray xs) c \<longleftrightarrow> c = CHR ''[''"
| "starts_value (JObject m) c \<longleftrightarrow> c = CHR 0x7B"

lemma canon_start: "json_wf v \<Longrightarrow> \<exists>c cs. canon v = c # cs \<and> starts_value v c"
  using number_text_start by (cases v) (auto simp: string_text_def escape_string_def)

lemma canon_start_append:
  "json_wf v \<Longrightarrow> json_wf w \<Longrightarrow> canon v @ s = canon w @ t \<Longrightarrow> \<exists>c. starts_value v c \<and> starts_value w c"
  using canon_start [of v] canon_start [of w] by auto

lemma starts_value_not_closing: "starts_value v c \<Longrightarrow> c \<notin> {CHR '']'', CHR 0x7D}"
  by (cases v) (auto simp: is_ascii_digit_def)

lemma canon_not_closing: "json_wf v \<Longrightarrow> canon v \<noteq> [] \<and> hd (canon v) \<notin> {CHR '']'', CHR 0x7D}"
  using canon_start [of v] starts_value_not_closing by fastforce

definition member :: "string \<times> json \<Rightarrow> string" where
  "member kv = string_text (fst kv) @ '':'' @ canon (snd kv)"

lemma member_not_closing: "member kv \<noteq> [] \<and> hd (member kv) \<notin> {CHR '']'', CHR 0x7D}"
  by (simp add: member_def string_text_def escape_string_def)

lemma member_cancels: "cancels canon v w \<Longrightarrow> cancels member (k, v) (l, w)"
proof (unfold cancels_def, intro allI impI)
  fix s t
  assume IH: "\<forall>s t. delimited s \<longrightarrow> delimited t \<longrightarrow> canon v @ s = canon w @ t \<longrightarrow> v = w \<and> s = t"
    and d: "delimited s" "delimited t" and eq: "member (k, v) @ s = member (l, w) @ t"
  from eq have "string_text k @ '':'' @ canon v @ s = string_text l @ '':'' @ canon w @ t"
    by (simp add: member_def)
  then have "k = l \<and> '':'' @ canon v @ s = '':'' @ canon w @ t" by (intro literal.enc_cancel) auto
  with IH d show "(k, v) = (l, w) \<and> s = t" by simp
qed

lemma canon_object: "canon (JObject m) = [CHR 0x7B] @ join_comma (map member (sort_key utf16_key m)) @ [CHR 0x7D]"
  by (simp add: sort_members comp_def member_text_def member_def [abs_def] case_prod_beta)

lemma map_ok_mset:
  "map_ok m \<Longrightarrow> map_ok m' \<Longrightarrow> mset m = mset m' \<Longrightarrow> m = m'"
proof (rule map_ok_ext)
  fix k
  assume "map_ok m" "map_ok m'" "mset m = mset m'"
  then show "map_of m k = map_of m' k"
    by (metis map_of_eqI map_ok_distinct map_of_inject_set mset_eq_setD)
qed

lemma array_cancels:
  assumes "\<forall>x \<in> set xs. \<forall>y \<in> set ys. cancels canon x y" "list_all json_wf xs" "list_all json_wf ys"
    "canon (JArray xs) @ s = canon (JArray ys) @ t"
  shows "xs = ys \<and> s = t"
  by (rule join_cancel [where e = "CHR '']''" and f = canon])
    (use assms canon_not_closing in \<open>auto simp: list_all_iff\<close>)

lemma object_cancels:
  assumes c: "\<forall>x \<in> set m. \<forall>y \<in> set m'. cancels canon (snd x) (snd y)" and ok: "map_ok m" "map_ok m'"
    and eq: "canon (JObject m) @ s = canon (JObject m') @ t"
  shows "m = m' \<and> s = t"
proof -
  have "sort_key utf16_key m = sort_key utf16_key m' \<and> s = t"
  proof (rule join_cancel [where e = "CHR 0x7D" and f = member])
    show "\<forall>x \<in> set (sort_key utf16_key m). \<forall>y \<in> set (sort_key utf16_key m'). cancels member x y"
      using c member_cancels by (metis prod.collapse set_sort)
    show "join_comma (map member (sort_key utf16_key m)) @ CHR 0x7D # s
        = join_comma (map member (sort_key utf16_key m')) @ CHR 0x7D # t"
      using eq by (simp add: canon_object del: canon.simps)
  qed (use member_not_closing in auto)
  then have "mset m = mset m'" "s = t" by (metis mset_sort, simp)
  with map_ok_mset ok show ?thesis by blast
qed

lemma canon_cancels:
  "json_wf v \<Longrightarrow> json_wf w \<Longrightarrow> cancels canon v w"
proof (induction v arbitrary: w)
  case (JArray xs)
  show ?case
  proof (unfold cancels_def, intro allI impI)
    fix s t
    assume d: "delimited s" "delimited t" and eq: "canon (JArray xs) @ s = canon w @ t"
    from canon_start_append [OF JArray.prems eq] obtain ys where w: "w = JArray ys"
      by (cases w) (auto simp: is_ascii_digit_def split: if_splits)
    have "xs = ys \<and> s = t"
      by (rule array_cancels) (use JArray eq w in \<open>auto simp: list_all_iff\<close>)
    with w show "JArray xs = w \<and> s = t" by simp
  qed
next
  case (JObject m)
  show ?case
  proof (unfold cancels_def, intro allI impI)
    fix s t
    assume d: "delimited s" "delimited t" and eq: "canon (JObject m) @ s = canon w @ t"
    from canon_start_append [OF JObject.prems eq] obtain m' where w: "w = JObject m'"
      by (cases w) (auto simp: is_ascii_digit_def split: if_splits)
    have "m = m' \<and> s = t"
    proof (rule object_cancels)
      show "\<forall>x \<in> set m. \<forall>y \<in> set m'. cancels canon (snd x) (snd y)"
        using JObject w by (fastforce simp: list_all_iff)
    qed (use JObject eq w in auto)
    with w show "JObject m = w \<and> s = t" by simp
  qed
next
  case (JNumber n)
  show ?case
  proof (unfold cancels_def, intro allI impI)
    fix s t
    assume d: "delimited s" "delimited t" and eq: "canon (JNumber n) @ s = canon w @ t"
    from canon_start_append [OF JNumber.prems eq] obtain n' where w: "w = JNumber n'"
      by (cases w) (auto simp: is_ascii_digit_def split: if_splits)
    with number_text_cancel [of n n' s t] JNumber.prems d eq show "JNumber n = w \<and> s = t" by simp
  qed
next
  case (JString x)
  show ?case
  proof (unfold cancels_def, intro allI impI)
    fix s t
    assume d: "delimited s" "delimited t" and eq: "canon (JString x) @ s = canon w @ t"
    from canon_start_append [OF JString.prems eq] obtain y where w: "w = JString y"
      by (cases w) (auto simp: is_ascii_digit_def split: if_splits)
    with literal.enc_cancel [where x = x and y = y and s = s and t = t] eq show "JString x = w \<and> s = t" by simp
  qed
next
  case JNull
  show ?case
  proof (unfold cancels_def, intro allI impI)
    fix s t
    assume eq: "canon JNull @ s = canon w @ t"
    from canon_start_append [OF JNull.prems eq] have "w = JNull"
      by (cases w) (auto simp: is_ascii_digit_def split: if_splits)
    with eq show "JNull = w \<and> s = t" by simp
  qed
next
  case (JBool b)
  show ?case
  proof (unfold cancels_def, intro allI impI)
    fix s t
    assume eq: "canon (JBool b) @ s = canon w @ t"
    from canon_start_append [OF JBool.prems eq] have "w = JBool b"
      by (cases w) (auto simp: is_ascii_digit_def split: if_splits)
    with eq show "JBool b = w \<and> s = t" by simp
  qed
qed

lemma canon_inj: "json_wf v \<Longrightarrow> json_wf w \<Longrightarrow> canon v = canon w \<Longrightarrow> v = w"
  using canon_cancels [of v w] by (auto simp: cancels_def delimited_def)

section \<open>What a canonical signable says\<close>

text \<open>The values of the program: ordered maps, and negative integers that are negative.\<close>

fun json_valid :: "json \<Rightarrow> bool" where
  "json_valid (JNumber (NegInt n)) \<longleftrightarrow> sint n < 0"
| "json_valid (JArray xs) \<longleftrightarrow> list_all json_valid xs"
| "json_valid (JObject m) \<longleftrightarrow> map_ok m \<and> list_all (\<lambda>(k, v). json_valid v) m"
| "json_valid _ \<longleftrightarrow> True"

lemma preorder_member: "(k, v) \<in> set m \<Longrightarrow> set (preorder v) \<subseteq> set (preorder (JObject m))"
  by (force simp: sort_members)

text \<open>A float never passes, so what canonicalizes holds integers only.\<close>

lemma json_wf_canonicalized:
  "json_valid v \<Longrightarrow> \<forall>w \<in> set (preorder v). node_error w = None \<Longrightarrow> json_wf v"
proof (induction v)
  case (JNumber n)
  then show ?case by (cases n) (auto simp: write_number_def split: if_splits)
next
  case (JArray xs)
  then show ?case by (auto simp: list_all_iff)
next
  case (JObject m)
  have "json_wf v" if kv: "(k, v) \<in> set m" for k v
  proof -
    from kv JObject.prems have "json_valid v" by (auto simp: list_all_iff)
    moreover have "\<forall>w \<in> set (preorder v). node_error w = None"
      using preorder_member [OF kv] JObject.prems(2) by blast
    ultimately show ?thesis using JObject.IH [OF kv] by simp
  qed
  with JObject.prems show ?case by (auto simp: list_all_iff)
qed auto

lemma object_to_signable_wf: "json_valid v \<Longrightarrow> object_to_signable v = Inr parts \<Longrightarrow> json_wf v"
  by (auto simp: object_to_signable_Inr signable_value_def list_all_iff intro: json_wf_canonicalized)

section \<open>Properties\<close>

text \<open>C3. The canonical form is injective: two values that both canonicalize to the same payload are
  equal, so a signature over an object binds exactly one JSON value (and the order in which the
  members were inserted plays no part).\<close>

theorem canonical_binds_value:
  assumes "json_valid v" "json_valid w"
    and "object_to_signable v = Inr parts" "object_to_signable w = Inr parts"
  shows "v = w"
  using assms object_to_signable_wf by (auto simp: object_to_signable_Inr intro: canon_inj)

lemma small_canonical:
  "object_to_signable (JObject [(''a'', JNumber (PosInt 1))]) = Inr [Text (CHR 0x7B # CHR 0x22 # ''a'' @ CHR 0x22 # '':1'' @ [CHR 0x7D])]"
  by (simp add: object_to_signable_def canonicalize_into_def max_nodes_limit_def max_output_bytes_def
      push_object_def escape_string_def escape_char_def write_number_def max_safe_integer_def show_int_def
      show_nat.simps digit_char_def Let_def char_of_eq_iff)

theorem canonical_binds_value_witness:
  "JObject [(''a'', JNumber (PosInt 1))] = JObject [(''a'', JNumber (PosInt 1))]"
  by (rule canonical_binds_value [OF _ _ small_canonical small_canonical]) (simp_all add: map_ok_def)

end
