(* ===== verification/Location.thy ===== *)
theory Location
  imports Errors
begin

text \<open>
  \<open>keetanetwork-anchor-client/src/services/asset_movement/location.rs\<close>: asset locations, their
  canonical printer and their parser.
\<close>

datatype chain_location =
    Keeta string
  | Evm string
  | Solana string
  | Bitcoin string
  | Tron string

datatype asset_location =
    Chain chain_location
  | BankAccount string
  | MobileWallet string

fun location_display :: "asset_location \<Rightarrow> string" where
  "location_display (Chain (Keeta network_id)) = ''chain:keeta:'' @ network_id"
| "location_display (Chain (Evm chain_id)) = ''chain:evm:'' @ chain_id"
| "location_display (Chain (Solana genesis_hash)) = ''chain:solana:'' @ genesis_hash"
| "location_display (Chain (Bitcoin magic_bytes)) = ''chain:bitcoin:'' @ magic_bytes"
| "location_display (Chain (Tron network_alias)) = ''chain:tron:'' @ network_alias"
| "location_display (BankAccount account_type) = ''bank-account:'' @ account_type"
| "location_display (MobileWallet account_type) = ''mobile-wallet:'' @ account_type"

definition location_field :: resolver_error where
  "location_field = RField ''assetLocation''"

definition non_empty :: "string \<Rightarrow> resolver_error + string" where
  "non_empty v = (if v = [] then Inl location_field else Inr v)"

definition non_negative_integer :: "string \<Rightarrow> resolver_error + string" where
  "non_negative_integer v =
     (if v \<noteq> [] \<and> list_all is_ascii_digit v then Inr v else Inl location_field)"

definition is_base58 :: "char \<Rightarrow> bool" where
  "is_base58 c \<longleftrightarrow> (let b = of_char c :: nat in
     (49 \<le> b \<and> b \<le> 57) \<or> (65 \<le> b \<and> b \<le> 72) \<or> (74 \<le> b \<and> b \<le> 78) \<or> (80 \<le> b \<and> b \<le> 90)
     \<or> (97 \<le> b \<and> b \<le> 107) \<or> (109 \<le> b \<and> b \<le> 122))"

definition solana_genesis_hash :: "string \<Rightarrow> resolver_error + string" where
  "solana_genesis_hash v =
     (if (length v = 43 \<or> length v = 44) \<and> list_all is_base58 v then Inr v else Inl location_field)"

definition bitcoin_magic_bytes :: "string \<Rightarrow> resolver_error + string" where
  "bitcoin_magic_bytes v =
     (if length v = 8 \<and> list_all is_ascii_hexdigit v then Inr v else Inl location_field)"

definition tron_network_alias :: "string \<Rightarrow> resolver_error + string" where
  "tron_network_alias v =
     (let known = (v = ''mainnet'' \<or> v = ''shasta'' \<or> v = ''nile'');
          custom = (case strip_prefix ''custom:'' v of None \<Rightarrow> False | Some name \<Rightarrow> name \<noteq> [])
      in if known \<or> custom then Inr v else Inl location_field)"

definition parse_chain :: "string \<Rightarrow> resolver_error + chain_location" where
  "parse_chain rest =
     bindR (ok_or location_field (split_once (CHR '':'') rest)) (\<lambda>(chain_type, id).
       if id = [] \<or> CHR '':'' \<in> set id then Inl location_field
       else if chain_type = ''keeta'' then bindR (non_negative_integer id) (\<lambda>v. Inr (Keeta v))
       else if chain_type = ''evm'' then bindR (non_negative_integer id) (\<lambda>v. Inr (Evm v))
       else if chain_type = ''solana'' then bindR (solana_genesis_hash id) (\<lambda>v. Inr (Solana v))
       else if chain_type = ''bitcoin'' then bindR (bitcoin_magic_bytes id) (\<lambda>v. Inr (Bitcoin v))
       else if chain_type = ''tron'' then bindR (tron_network_alias id) (\<lambda>v. Inr (Tron v))
       else Inl location_field)"

definition location_from_str :: "string \<Rightarrow> resolver_error + asset_location" where
  "location_from_str input =
     bindR (ok_or location_field (split_once (CHR '':'') input)) (\<lambda>(kind, rest).
       if kind = ''chain'' then bindR (parse_chain rest) (\<lambda>c. Inr (Chain c))
       else if kind = ''bank-account'' then bindR (non_empty rest) (\<lambda>v. Inr (BankAccount v))
       else if kind = ''mobile-wallet'' then bindR (non_empty rest) (\<lambda>v. Inr (MobileWallet v))
       else Inl location_field)"

definition canonicalize_location :: "string \<Rightarrow> string" where
  "canonicalize_location input = input"

section \<open>Facts\<close>

text \<open>The locations the parser can yield. The \<open>custom:\<close> aliases the alias check admits contain the
  separator the chain parser refuses, so they are not among them.\<close>

fun location_valid :: "asset_location \<Rightarrow> bool" where
  "location_valid (Chain (Keeta n)) \<longleftrightarrow> n \<noteq> [] \<and> list_all is_ascii_digit n"
| "location_valid (Chain (Evm n)) \<longleftrightarrow> n \<noteq> [] \<and> list_all is_ascii_digit n"
| "location_valid (Chain (Solana h)) \<longleftrightarrow> length h \<in> {43, 44} \<and> list_all is_base58 h"
| "location_valid (Chain (Bitcoin m)) \<longleftrightarrow> length m = 8 \<and> list_all is_ascii_hexdigit m"
| "location_valid (Chain (Tron a)) \<longleftrightarrow> a \<in> {''mainnet'', ''shasta'', ''nile''}"
| "location_valid (BankAccount t) \<longleftrightarrow> t \<noteq> []"
| "location_valid (MobileWallet t) \<longleftrightarrow> t \<noteq> []"

lemma colon_not_in:
  "list_all is_ascii_digit s \<Longrightarrow> CHR '':'' \<notin> set s"
  "list_all is_base58 s \<Longrightarrow> CHR '':'' \<notin> set s"
  "list_all is_ascii_hexdigit s \<Longrightarrow> CHR '':'' \<notin> set s"
  by (auto simp: list_all_iff is_ascii_digit_def is_base58_def is_ascii_hexdigit_def Let_def)

lemma tron_alias_no_colon:
  "CHR '':'' \<notin> set a \<Longrightarrow> tron_network_alias a = (if a \<in> {''mainnet'', ''shasta'', ''nile''} then Inr a else Inl location_field)"
proof -
  assume "CHR '':'' \<notin> set a"
  then have "strip_prefix ''custom:'' a = None"
    by (cases "strip_prefix ''custom:'' a") (auto simp: strip_prefix_Some)
  then show ?thesis by (simp add: tron_network_alias_def Let_def)
qed

lemmas component_defs =
  non_negative_integer_def solana_genesis_hash_def bitcoin_magic_bytes_def non_empty_def

lemma parse_chain_sound:
  "parse_chain rest = Inr c \<Longrightarrow> location_valid (Chain c) \<and> ''chain:'' @ rest = location_display (Chain c)"
  by (auto simp: parse_chain_def result_elims split_once_Some component_defs tron_alias_no_colon
      split: if_splits)

lemma parse_chain_complete:
  "location_valid (Chain c) \<Longrightarrow> ''chain:'' @ rest = location_display (Chain c) \<Longrightarrow> parse_chain rest = Inr c"
  by (cases c) (auto simp: parse_chain_def component_defs colon_not_in tron_network_alias_def)

lemma location_from_str_sound:
  "location_from_str s = Inr l \<Longrightarrow> location_valid l \<and> s = location_display l"
  by (auto simp: location_from_str_def result_elims split_once_Some component_defs
      dest!: parse_chain_sound split: if_splits)

lemma split_location:
  "split_once (CHR '':'') (''chain:'' @ r) = Some (''chain'', r)"
  "split_once (CHR '':'') (''bank-account:'' @ r) = Some (''bank-account'', r)"
  "split_once (CHR '':'') (''mobile-wallet:'' @ r) = Some (''mobile-wallet'', r)"
  by simp_all

lemma location_from_str_complete:
  assumes "location_valid l"
  shows "location_from_str (location_display l) = Inr l"
proof (cases l)
  case (Chain c)
  obtain rest where r: "location_display (Chain c) = ''chain:'' @ rest" by (cases c) auto
  from assms Chain r [symmetric] have "parse_chain rest = Inr c" by (simp add: parse_chain_complete)
  moreover have "split_once (CHR '':'') (location_display l) = Some (''chain'', rest)"
    unfolding Chain r by (rule split_location)
  ultimately show ?thesis by (simp add: Chain location_from_str_def)
qed (use assms in \<open>simp_all add: location_from_str_def non_empty_def\<close>)

section \<open>Properties\<close>

text \<open>Parsing and printing locations are inverse to each other: a string parses to a location
  exactly if the location is valid and the string is its canonical form, so no two strings name one
  location and no valid location is unparsable.\<close>

lemma location_roundtrip:
  "location_from_str s = Inr l \<longleftrightarrow> location_valid l \<and> s = location_display l"
  using location_from_str_sound location_from_str_complete by blast

text \<open>The \<open>custom:\<close> aliases of Tron that the alias check admits never parse as a location: the
  chain parser has refused the second separator before.\<close>

lemma tron_custom_unreachable:
  "tron_network_alias (''custom:'' @ n # ns) = Inr (''custom:'' @ n # ns)
   \<and> location_from_str (''chain:tron:custom:'' @ n # ns) = Inl location_field"
  by (simp add: tron_network_alias_def location_from_str_def parse_chain_def)

end
