(* ===== verification/Metadata.thy ===== *)
theory Metadata
  imports Caller
begin

text \<open>
  \<open>keetanetwork-anchor-client/src/resolver/decode.rs\<close>, \<open>metadata.rs\<close> and \<open>read.rs\<close>: decoding a
  metadata blob, the provider entries it holds, and reading a document from a location. Inflating, the
  base64 and account parsers, the node client and the transport are third-party or interfaces: the
  fields of the record \<open>metadata_source\<close>. \<open>serde_json::from_value\<close> reads an object by field names and
  an array by position.
\<close>

section \<open>Decoding a blob\<close>

record ('a, 't, 'w) metadata_source =
  ms_env :: "('a, 't, 'w) signing_env"
  ms_inflate :: "bytes \<Rightarrow> bytes option"
  ms_text :: json_text
  ms_state :: "'a \<Rightarrow> 'w \<Rightarrow> (string + string option option) \<times> 'w"
  ms_transport :: "'w transport"

definition EXTERNAL_URL_MARKER :: string where
  "EXTERNAL_URL_MARKER = ''2b828e33-2692-46e9-817e-9b93d63f28fd''"

definition decode_base64 :: "('a, 't, 'w) metadata_source \<Rightarrow> string \<Rightarrow> resolver_error + bytes" where
  "decode_base64 src blob = map_err RBase64 (base64_decode (ms_env src) (trim blob))"

definition parse_metadata :: "('a, 't, 'w) metadata_source \<Rightarrow> bytes \<Rightarrow> resolver_error + json" where
  "parse_metadata src raw =
     (let bs = (case ms_inflate src raw of Some decompressed \<Rightarrow> decompressed | None \<Rightarrow> raw)
      in if \<not> is_utf8 bs then Inl RUtf8
         else map_err RJson (from_slice (ms_text src) decode_value bs))"

definition as_external_url :: "json \<Rightarrow> string option" where
  "as_external_url v =
     Option.bind (as_object v) (\<lambda>obj.
     Option.bind (Option.bind (map_of obj ''external'') as_str) (\<lambda>marker.
     if marker \<noteq> EXTERNAL_URL_MARKER then None
     else Option.bind (map_of obj ''url'') as_str))"

section \<open>Locations\<close>

datatype 'a metadata_location = KeetaNet 'a | Https string | Http string

definition METADATA_PATH :: string where "METADATA_PATH = ''metadata''"
definition no_content :: u16 where "no_content = 204"

definition scheme_of :: "string \<Rightarrow> string" where
  "scheme_of v = (case split_once_str ''://'' v of Some (scheme, _) \<Rightarrow> scheme | None \<Rightarrow> v)"

definition keetanet_location ::
    "('a, 't, 'w) metadata_source \<Rightarrow> string \<Rightarrow> resolver_error + 'a metadata_location" where
  "keetanet_location src rest =
     (let (account, path) = (case split_once (CHR ''/'') rest of None \<Rightarrow> (rest, None) | Some (a, p) \<Rightarrow> (a, Some p))
      in if account = [] then Inl (RField ''keetanet account'')
         else if path \<noteq> Some METADATA_PATH then Inl (RUnsupportedScheme ''keetanet'')
         else bindR (map_err RAccount (account_from_str (ms_env src) account)) (\<lambda>a. Inr (KeetaNet a)))"

definition metadata_location_from_str ::
    "('a, 't, 'w) metadata_source \<Rightarrow> string \<Rightarrow> resolver_error + 'a metadata_location" where
  "metadata_location_from_str src v =
     (case strip_prefix ''keetanet://'' v of
        Some rest \<Rightarrow> keetanet_location src rest
      | None \<Rightarrow>
          if starts_with ''https://'' v then Inr (Https v)
          else if starts_with ''http://'' v then Inr (Http v)
          else Inl (RUnsupportedScheme (scheme_of v)))"

section \<open>Reading\<close>

definition read_keetanet ::
    "('a, 't, 'w) metadata_source \<Rightarrow> 'a \<Rightarrow> 'w \<Rightarrow> (resolver_error + json) \<times> 'w" where
  "read_keetanet src account w =
     (case ms_state src account w of
        (Inl e, w) \<Rightarrow> (Inl (RNode e), w)
      | (Inr info, w) \<Rightarrow>
          let metadata = (case Option.bind info (\<lambda>m. m) of None \<Rightarrow> [] | Some m \<Rightarrow> m)
          in if metadata = [] then (Inr (JObject []), w)
             else (bindR (decode_base64 src metadata) (parse_metadata src), w))"

definition read_https ::
    "('a, 't, 'w) metadata_source \<Rightarrow> string \<Rightarrow> 'w \<Rightarrow> (resolver_error + json) \<times> 'w" where
  "read_https src url w =
     (case t_get (ms_transport src) url w of
        (Inl e, w) \<Rightarrow> (Inl (RTransport e), w)
      | (Inr response, w) \<Rightarrow>
          if resp_status response = no_content then (Inr (JObject []), w)
          else if \<not> is_success response then (Inl (RNotFound url), w)
          else (parse_metadata src (resp_body response), w))"

fun read_document ::
    "('a, 't, 'w) metadata_source \<Rightarrow> 'a metadata_location \<Rightarrow> 'w \<Rightarrow> (resolver_error + json) \<times> 'w" where
  "read_document src (KeetaNet account) w = read_keetanet src account w"
| "read_document src (Https url) w = read_https src url w"
| "read_document src (Http url) w = read_https src url w"

section \<open>Provider entries\<close>

text \<open>The derived deserializers on a \<open>Value\<close>: the members of a struct by name or by position. A
  required string, and a struct of required strings.\<close>

definition struct_members :: "string list \<Rightarrow> json \<Rightarrow> string + (string \<Rightarrow> json option)" where
  "struct_members names v =
     (case v of
        JObject m \<Rightarrow> Inr (map_of m)
      | JArray xs \<Rightarrow>
          if length xs \<le> length names then Inr (map_of (zip names xs)) else Inl ''invalid length''
      | _ \<Rightarrow> Inl ''invalid type'')"

text \<open>The derived deserializer of a struct on a document, where a known field may not occur twice.\<close>

definition doc_struct :: "string list \<Rightarrow> json \<Rightarrow> string + (string \<Rightarrow> json option)" where
  "doc_struct names doc =
     (case doc of
        JObject members \<Rightarrow>
          (case find (\<lambda>n. 1 < length (occurrences n members)) names of
             Some n \<Rightarrow> Inl (''duplicate field '' @ n)
           | None \<Rightarrow> Inr (map_of members))
      | _ \<Rightarrow> struct_members names doc)"

text \<open>Members of a struct: required, defaulted and optional ones, and the decoders of common types.\<close>

definition required :: "(string \<Rightarrow> json option) \<Rightarrow> string \<Rightarrow> (json \<Rightarrow> string + 'a) \<Rightarrow> string + 'a" where
  "required members name dec = bindR (ok_or (''missing field '' @ name) (members name)) dec"

definition defaulted :: "(string \<Rightarrow> json option) \<Rightarrow> string \<Rightarrow> 'a \<Rightarrow> (json \<Rightarrow> string + 'a) \<Rightarrow> string + 'a" where
  "defaulted members name d dec = (case members name of None \<Rightarrow> Inr d | Some v \<Rightarrow> dec v)"

definition decode_string :: "string decoder" where
  "decode_string v = ok_or ''invalid type'' (as_str v)"

definition decode_list :: "'a decoder \<Rightarrow> 'a list decoder" where
  "decode_list dec v = bindR (ok_or ''invalid type'' (as_array v)) (mapM_result dec)"

text \<open>A \<open>BTreeMap\<close> with string keys: the entries of an object in text order, the last of a key wins.\<close>

definition decode_map :: "'v decoder \<Rightarrow> (string \<times> 'v) list decoder" where
  "decode_map dec doc =
     bindR (ok_or ''invalid type'' (as_object doc)) (\<lambda>members.
     bindR (mapM_result (\<lambda>(k, v). bindR (dec v) (\<lambda>x. Inr (k, x))) members) (\<lambda>kvs.
     Inr (map_from kvs)))"

definition json_map :: "('v \<Rightarrow> json) \<Rightarrow> (string \<times> 'v) list \<Rightarrow> json" where
  "json_map f kvs = JObject (map (\<lambda>(k, v). (k, f v)) kvs)"

lemma decode_map_json_map:
  assumes "map_ok kvs" "\<forall>(k, v) \<in> set kvs. dec (f v) = Inr v"
  shows "decode_map dec (json_map f kvs) = Inr kvs"
proof -
  have "mapM_result (\<lambda>(k, v). bindR (dec v) (\<lambda>x. Inr (k, x))) (map (\<lambda>(k, v). (k, f v)) kvs) = Inr kvs"
    using assms(2) by (induction kvs) (auto split: prod.splits)
  with assms(1) show ?thesis by (simp add: decode_map_def json_map_def map_from_id)
qed

definition required_string :: "(string \<Rightarrow> json option) \<Rightarrow> string \<Rightarrow> string + string" where
  "required_string members name =
     bindR (ok_or (''missing field '' @ name) (members name)) (\<lambda>v. ok_or ''invalid type'' (as_str v))"

definition decode_strings :: "json \<Rightarrow> string + string list" where
  "decode_strings v =
     bindR (ok_or ''invalid type'' (as_array v)) (mapM_result (\<lambda>x. ok_or ''invalid type'' (as_str x)))"

text \<open>\<open>SignedJson\<close>, read into the envelope.\<close>

definition signed_envelope_of :: "json \<Rightarrow> signed_envelope option" where
  "signed_envelope_of v =
     ok (bindR (struct_members [''nonce'', ''timestamp'', ''signature''] v) (\<lambda>members.
         bindR (required_string members ''nonce'') (\<lambda>n.
         bindR (required_string members ''timestamp'') (\<lambda>t.
         bindR (required_string members ''signature'') (\<lambda>s.
         Inr \<lparr>nonce = n, timestamp = t, signature = s\<rparr>)))))"

record kyc_provider_json =
  kp_operations :: json
  kp_country_codes :: "string list option"
  kp_ca :: string

definition decode_kyc_provider_json :: "json \<Rightarrow> string + kyc_provider_json" where
  "decode_kyc_provider_json v =
     bindR (struct_members [''operations'', ''countryCodes'', ''ca''] v) (\<lambda>members.
     bindR (ok_or ''missing field operations'' (members ''operations'')) (\<lambda>operations.
     bindR (optional_value decode_strings (members ''countryCodes'')) (\<lambda>codes.
     bindR (required_string members ''ca'') (\<lambda>ca.
     Inr \<lparr>kp_operations = operations, kp_country_codes = codes, kp_ca = ca\<rparr>))))"

record kyc_operations =
  create_verification :: "string option"
  get_certificates :: "string option"
  get_verification_status :: "string option"
  check_locality :: "string option"
  get_estimate :: "string option"

text \<open>One endpoint: absent or null, a string, or a struct with a string \<open>url\<close>.\<close>

definition decode_endpoint :: "json \<Rightarrow> string + string" where
  "decode_endpoint v =
     (case v of
        JString url \<Rightarrow> Inr url
      | _ \<Rightarrow> map_err (\<lambda>_. ''data did not match any variant of untagged enum Raw'')
               (bindR (struct_members [''url''] v) (\<lambda>members. required_string members ''url'')))"

definition decode_kyc_operations :: "json \<Rightarrow> string + kyc_operations" where
  "decode_kyc_operations v =
     bindR (struct_members [''createVerification'', ''getCertificates'', ''getVerificationStatus'',
        ''checkLocality'', ''getEstimate''] v) (\<lambda>members.
     bindR (optional_value decode_endpoint (members ''createVerification'')) (\<lambda>create.
     bindR (optional_value decode_endpoint (members ''getCertificates'')) (\<lambda>certs.
     bindR (optional_value decode_endpoint (members ''getVerificationStatus'')) (\<lambda>status.
     bindR (optional_value decode_endpoint (members ''checkLocality'')) (\<lambda>locality.
     bindR (optional_value decode_endpoint (members ''getEstimate'')) (\<lambda>estimate.
     Inr \<lparr>create_verification = create, get_certificates = certs, get_verification_status = status,
          check_locality = locality, get_estimate = estimate\<rparr>))))))"

section \<open>Country codes and providers\<close>

text \<open>The upper-case table of Unicode beyond ASCII is data of the standard library: the parameter
  \<open>upper\<close>.\<close>

type_synonym country_code = string

definition country_code_of :: "(string \<Rightarrow> string) \<Rightarrow> string \<Rightarrow> resolver_error + country_code" where
  "country_code_of upper v =
     (let trimmed = trim v in
      if trimmed = [] then Inl (RField ''countryCode'') else Inr (to_uppercase upper trimmed))"

definition canonical_country_codes ::
    "(string \<Rightarrow> string) \<Rightarrow> string list \<Rightarrow> resolver_error + country_code list" where
  "canonical_country_codes upper codes = mapM_result (country_code_of upper) codes"

record kyc_provider_info =
  info_id :: string
  info_operations :: kyc_operations
  info_country_codes :: "country_code list option"
  info_ca :: string

definition serves :: "kyc_provider_info \<Rightarrow> country_code list \<Rightarrow> bool" where
  "serves info requested =
     (case info_country_codes info of
        None \<Rightarrow> True
      | Some supported \<Rightarrow> list_all (\<lambda>code. List.member supported code) requested)"

definition kyc_provider_info_of ::
    "(string \<Rightarrow> string) \<Rightarrow> string \<Rightarrow> json \<Rightarrow> resolver_error + kyc_provider_info" where
  "kyc_provider_info_of upper ident entry =
     bindR (map_err RJson (decode_kyc_provider_json entry)) (\<lambda>j.
     bindR (map_err RJson (decode_kyc_operations (kp_operations j))) (\<lambda>operations.
     bindR (case kp_country_codes j of
              Some codes \<Rightarrow> bindR (canonical_country_codes upper codes) (\<lambda>cs. Inr (Some cs))
            | None \<Rightarrow> Inr None) (\<lambda>country_codes.
     Inr \<lparr>info_id = ident, info_operations = operations, info_country_codes = country_codes,
          info_ca = kp_ca j\<rparr>)))"

section \<open>Signed fields\<close>

definition METADATA_SIGNATURE_NAMESPACE :: string where
  "METADATA_SIGNATURE_NAMESPACE = ''keetanet/anchor/service-metadata/v1''"

definition signed_fields :: "string \<Rightarrow> json \<Rightarrow> json option \<Rightarrow> json" where
  "signed_fields account operations legal =
     (let m = map_insert ''operations'' operations
                (map_insert ''account'' (JString account)
                  (map_insert ''namespace'' (JString METADATA_SIGNATURE_NAMESPACE) []))
      in JObject (case legal of
           Some l \<Rightarrow> if \<not> is_null l then map_insert ''legal'' l m else m
         | None \<Rightarrow> m))"

end
