(* ===== verification/Resolver.thy ===== *)
theory Resolver
  imports Metadata Loop
begin

text \<open>
  \<open>keetanetwork-anchor-client/src/resolver/mod.rs\<close>: following the \<open>ExternalURL\<close> indirections of the
  root documents, and the lookup of verified providers. The worklist of the code is a stack whose top
  is the head of the list here; the recursion of the walk over parents in \<open>set_at\<close> is structural.
\<close>

section \<open>Paths into a document\<close>

datatype segment = Key string | Index nat

definition child_at :: "json \<Rightarrow> segment \<Rightarrow> json option" where
  "child_at v seg = (case seg of Key k \<Rightarrow> get_key k v | Index i \<Rightarrow> get_index i v)"

fun node_at :: "json \<Rightarrow> segment list \<Rightarrow> json option" where
  "node_at root [] = Some root"
| "node_at root (seg # path) =
     (case child_at root seg of None \<Rightarrow> None | Some child \<Rightarrow> node_at child path)"

text \<open>\<open>*get_mut(segment) = value\<close>: the value of a present member changes in place.\<close>

definition set_child :: "json \<Rightarrow> segment \<Rightarrow> json \<Rightarrow> json" where
  "set_child v seg new =
     (case (v, seg) of
        (JObject m, Key k) \<Rightarrow> JObject (map (\<lambda>(k', v'). (k', if k' = k then new else v')) m)
      | (JArray xs, Index i) \<Rightarrow> JArray (xs[i := new])
      | _ \<Rightarrow> v)"

fun set_at :: "json \<Rightarrow> segment list \<Rightarrow> json \<Rightarrow> json" where
  "set_at root [] new = new"
| "set_at root (seg # path) new =
     (case child_at root seg of None \<Rightarrow> root | Some child \<Rightarrow> set_child root seg (set_at child path new))"

definition extend :: "segment list \<Rightarrow> segment \<Rightarrow> segment list" where
  "extend path seg = path @ [seg]"

section \<open>Resolving indirections\<close>

type_synonym pending = "(segment list \<times> string set) list"

definition push_children :: "json \<Rightarrow> segment list \<Rightarrow> string set \<Rightarrow> pending \<Rightarrow> pending" where
  "push_children document path ancestors pending =
     (case node_at document path of
        Some (JObject m) \<Rightarrow>
          foldl (\<lambda>pending key. (extend path (Key key), ancestors) # pending) pending (map fst m)
      | Some (JArray items) \<Rightarrow>
          foldl (\<lambda>pending index. (extend path (Index index), ancestors) # pending) pending [0..<length items]
      | _ \<Rightarrow> pending)"

definition fetch_external ::
    "('a, 't, 'w) metadata_source \<Rightarrow> string \<Rightarrow> 'w \<Rightarrow> json option \<times> 'w" where
  "fetch_external src url w =
     (case metadata_location_from_str src url of
        Inl _ \<Rightarrow> (None, w)
      | Inr location \<Rightarrow> (case read_document src location w of (r, w) \<Rightarrow> (ok r, w)))"

definition expand_external ::
    "('a, 't, 'w) metadata_source \<Rightarrow> json \<Rightarrow> segment list \<Rightarrow> string set \<Rightarrow> string \<Rightarrow> pending \<Rightarrow> 'w
     \<Rightarrow> json \<times> pending \<times> 'w" where
  "expand_external src document path ancestors url pending w =
     (if url \<in> ancestors then (set_at document path JNull, pending, w)
      else case fetch_external src url w of
        (Some v, w) \<Rightarrow> (set_at document path v, (path, insert url ancestors) # pending, w)
      | (None, w) \<Rightarrow> (set_at document path JNull, pending, w))"

definition resolve_turn ::
    "('a, 't, 'w) metadata_source \<Rightarrow> json \<times> pending \<times> 'w \<Rightarrow> json \<times> 'w + json \<times> pending \<times> 'w" where
  "resolve_turn src st =
     (case st of (document, pending, w) \<Rightarrow>
       (case pending of
          [] \<Rightarrow> Inl (document, w)
        | (path, ancestors) # pending \<Rightarrow>
            (case Option.bind (node_at document path) as_external_url of
               Some url \<Rightarrow> Inr (expand_external src document path ancestors url pending w)
             | None \<Rightarrow> Inr (document, push_children document path ancestors pending, w))))"

definition resolve_external_urls ::
    "('a, 't, 'w) metadata_source \<Rightarrow> json \<Rightarrow> 'w \<Rightarrow> (json \<times> 'w) option" where
  "resolve_external_urls src document w = loop (resolve_turn src) (document, [([], {})], w)"

section \<open>Root documents\<close>

definition SUPPORTED_VERSION :: u64 where "SUPPORTED_VERSION = 1"

fun root_documents ::
    "('a, 't, 'w) metadata_source \<Rightarrow> 'a list \<Rightarrow> 'w \<Rightarrow> (json list \<times> 'w) option" where
  "root_documents src [] w = Some ([], w)"
| "root_documents src (account # roots) w =
     (case read_document src (KeetaNet account) w of
        (Inl _, w) \<Rightarrow> root_documents src roots w
      | (Inr document, w) \<Rightarrow>
          (case resolve_external_urls src document w of
             None \<Rightarrow> None
           | Some (document, w) \<Rightarrow>
               (case root_documents src roots w of
                  None \<Rightarrow> None
                | Some (documents, w) \<Rightarrow>
                    Some (if Option.bind (get_key ''version'' document) as_u64 \<noteq> Some SUPPORTED_VERSION
                          then documents else document # documents, w))))"

section \<open>Entries\<close>

definition service_entries :: "json \<Rightarrow> string \<Rightarrow> (string \<times> json) list option" where
  "service_entries document service =
     Option.bind (Option.bind (get_key ''services'' document) (get_key service)) as_object"

definition verify_entry :: "('a, 't, 'w) signing_env \<Rightarrow> string \<Rightarrow> json \<Rightarrow> json \<Rightarrow> bool" where
  "verify_entry env account entry signed_value =
     (case get_key ''operations'' entry of
        None \<Rightarrow> False
      | Some operations \<Rightarrow>
          let legal = get_key ''legal'' entry in
          (case object_to_signable (signed_fields account operations legal) of
             Inl _ \<Rightarrow> False
           | Inr parts \<Rightarrow>
               (case signed_envelope_of signed_value of
                  None \<Rightarrow> False
                | Some envl \<Rightarrow> is_ok (verify_body env account envl parts (unbounded env)))))"

definition entry_signature_ok :: "('a, 't, 'w) signing_env \<Rightarrow> json \<Rightarrow> bool" where
  "entry_signature_ok env entry =
     (let account = Option.bind (get_key ''account'' entry) as_str;
          signed_value = get_key ''signed'' entry
      in case (account, signed_value) of
           (None, None) \<Rightarrow> True
         | (Some account, Some signed_value) \<Rightarrow> verify_entry env account entry signed_value
         | _ \<Rightarrow> False)"

section \<open>Lookup\<close>

text \<open>The scan of the entries of one document, and of the documents: the identifiers seen and the
  providers collected. A query is its service and its projection of an entry.\<close>

definition scan_entry ::
    "('a, 't, 'w) signing_env \<Rightarrow> (string \<Rightarrow> json \<Rightarrow> 'p option) \<Rightarrow> string set \<times> 'p list \<Rightarrow> string \<times> json
     \<Rightarrow> string set \<times> 'p list" where
  "scan_entry env parse st kv =
     (case st of (seen, providers) \<Rightarrow> case kv of (ident, entry) \<Rightarrow>
        if ident \<in> seen then (seen, providers)
        else if \<not> entry_signature_ok env entry then (insert ident seen, providers)
        else (insert ident seen,
              case parse ident entry of None \<Rightarrow> providers | Some p \<Rightarrow> providers @ [p]))"

definition scan_document ::
    "('a, 't, 'w) signing_env \<Rightarrow> string \<Rightarrow> (string \<Rightarrow> json \<Rightarrow> 'p option) \<Rightarrow> string set \<times> 'p list \<Rightarrow> json
     \<Rightarrow> string set \<times> 'p list" where
  "scan_document env service parse st document =
     (case service_entries document service of
        None \<Rightarrow> st
      | Some entries \<Rightarrow> foldl (scan_entry env parse) st entries)"

definition lookup ::
    "('a, 't, 'w) metadata_source \<Rightarrow> 'a list \<Rightarrow> string \<Rightarrow> (string \<Rightarrow> json \<Rightarrow> 'p option) \<Rightarrow> 'w
     \<Rightarrow> ((resolver_error + 'p list) \<times> 'w) option" where
  "lookup src roots service parse w =
     (case root_documents src roots w of
        None \<Rightarrow> None
      | Some (documents, w) \<Rightarrow>
          if documents = [] then Some (Inl RNoRootMetadata, w)
          else Some (Inr (snd (foldl (scan_document (ms_env src) service parse) ({}, []) documents)), w))"

section \<open>Facts about paths\<close>

lemma node_at_append:
  "node_at root (p @ q) = (case node_at root p of None \<Rightarrow> None | Some v \<Rightarrow> node_at v q)"
  by (induction p arbitrary: root) (auto split: option.splits)

lemma map_of_set_value:
  "map_of (map (\<lambda>(k', v'). (k', if k' = k then new else v')) m) l =
     (case map_of m l of None \<Rightarrow> None | Some v \<Rightarrow> Some (if l = k then new else v))"
  by (induction m) auto

lemma child_set_child:
  "child_at v seg = Some old \<Longrightarrow>
   child_at (set_child v seg new) seg' = (if seg' = seg then Some new else child_at v seg')"
proof (cases v; cases seg)
  fix m k
  assume "child_at v seg = Some old" "v = JObject m" "seg = Key k"
  then show ?thesis
    by (cases seg') (auto simp: child_at_def set_child_def map_of_set_value split: option.splits)
next
  fix xs i
  assume "child_at v seg = Some old" "v = JArray xs" "seg = Index i"
  then show ?thesis
    by (cases seg') (auto simp: child_at_def set_child_def split: if_splits)
qed (auto simp: child_at_def split: if_splits)

text \<open>After \<open>set_at\<close> the nodes under the path are those of the new value, and a path that is not
  comparable to it leads where it led.\<close>

lemma node_at_set_at:
  "node_at root p \<noteq> None \<Longrightarrow> node_at (set_at root p new) (p @ q) = node_at new q"
  by (induction p arbitrary: root) (auto simp: child_set_child split: option.splits)

definition incomparable :: "'a list \<Rightarrow> 'a list \<Rightarrow> bool" where
  "incomparable p q \<longleftrightarrow> take (length p) q \<noteq> p \<and> take (length q) p \<noteq> q"

lemma incomparable_sym: "incomparable p q = incomparable q p"
  by (auto simp: incomparable_def)

lemma incomparable_Cons: "incomparable (x # p) (y # q) \<longleftrightarrow> x \<noteq> y \<or> incomparable p q"
  by (auto simp: incomparable_def)

lemma incomparable_Nil [simp]: "\<not> incomparable [] q" "\<not> incomparable p []"
  by (simp_all add: incomparable_def)

lemma node_at_set_other:
  "incomparable p q \<Longrightarrow> node_at (set_at root p new) q = node_at root q"
proof (induction p arbitrary: root q)
  case (Cons s p)
  obtain t q' where q: "q = t # q'" using Cons.prems by (cases q) auto
  show ?case
  proof (cases "child_at root s")
    case (Some c)
    with Cons q show ?thesis by (auto simp: incomparable_Cons child_set_child split: option.splits)
  qed simp
qed simp

lemma incomparable_append: "incomparable p q \<Longrightarrow> incomparable (p @ r) q"
proof (induction p arbitrary: q)
  case (Cons x p)
  then show ?case by (cases q) (auto simp: incomparable_Cons)
qed simp

lemma incomparable_siblings: "s \<noteq> t \<Longrightarrow> incomparable (p @ [s]) (p @ [t])"
  by (induction p) (simp_all add: incomparable_Cons)

end
