(* ===== verification/ResolverFacts.thy ===== *)
theory ResolverFacts
  imports Resolver CanonicalInj
begin

text \<open>
  What the resolver guarantees: the worklist returns in every world with finitely many references and
  leaves none of them behind, a chain of ever new references keeps it running, the lookup keeps the
  first entry of an identifier, and a signed entry is bound to its operations and its legal terms.
\<close>

section \<open>The worklist\<close>

definition segments_of :: "json \<Rightarrow> segment list" where
  "segments_of v =
     (case v of JObject m \<Rightarrow> map Key (map fst m) | JArray xs \<Rightarrow> map Index [0..<length xs] | _ \<Rightarrow> [])"

lemma foldl_push: "foldl (\<lambda>ps x. f x # ps) ps xs = rev (map f xs) @ ps"
  by (induction xs arbitrary: ps) auto

lemma push_children_alt:
  "push_children document path ancestors ps =
     rev (map (\<lambda>seg. (path @ [seg], ancestors))
       (case node_at document path of None \<Rightarrow> [] | Some v \<Rightarrow> segments_of v)) @ ps"
  by (auto simp: push_children_def segments_of_def extend_def foldl_push comp_def split: option.splits json.splits)

lemma segments_of_iff: "seg \<in> set (segments_of v) \<longleftrightarrow> child_at v seg \<noteq> None"
  by (cases v; cases seg) (auto simp: segments_of_def child_at_def map_of_eq_None_iff image_iff split: if_splits)

lemma distinct_segments_of: "json_ok v \<Longrightarrow> distinct (segments_of v)"
proof (cases v)
  case (JObject m)
  assume "json_ok v"
  with JObject have "distinct (map fst m)" by (simp add: map_ok_distinct)
  then have "distinct (map Key (map fst m))" unfolding distinct_map [of Key] by (simp add: inj_on_def)
  with JObject show ?thesis by (simp add: segments_of_def)
qed (simp_all add: segments_of_def distinct_map inj_on_def)

lemma json_ok_child: "json_ok v \<Longrightarrow> child_at v seg = Some c \<Longrightarrow> json_ok c"
  by (cases v; cases seg) (auto simp: child_at_def list_all_iff split: if_splits dest!: map_of_SomeD)

lemma json_ok_node_at: "json_ok v \<Longrightarrow> node_at v p = Some c \<Longrightarrow> json_ok c"
  by (induction p arbitrary: v) (auto split: option.splits dest: json_ok_child)

lemma json_ok_set_child: "json_ok v \<Longrightarrow> json_ok new \<Longrightarrow> json_ok (set_child v seg new)"
proof (cases "(v, seg)")
  case (Pair a b)
  assume "json_ok v" "json_ok new"
  with Pair show ?thesis
    by (cases v; cases seg)
      (auto simp: set_child_def map_ok_def comp_def case_prod_beta list_all_iff dest!: set_update_subset_insert [THEN subsetD])
qed

lemma json_ok_set_at: "json_ok root \<Longrightarrow> json_ok new \<Longrightarrow> json_ok (set_at root p new)"
  by (induction p arbitrary: root) (auto split: option.splits intro: json_ok_set_child dest: json_ok_child)

lemma weight_child: "child_at v seg = Some c \<Longrightarrow> weight c < weight v"
proof (cases v; cases seg)
  fix m k
  assume "child_at v seg = Some c" "v = JObject m" "seg = Key k"
  then have "(k, c) \<in> set m" by (auto simp: child_at_def dest: map_of_SomeD)
  then have "weight c + 2 \<le> sum_list (map (\<lambda>(k, v). weight v + 2) m)"
    by (induction m) auto
  with \<open>v = JObject m\<close> show ?thesis by simp
next
  fix xs i
  assume "child_at v seg = Some c" "v = JArray xs" "seg = Index i"
  then have "c \<in> set xs" by (auto simp: child_at_def split: if_splits)
  then have "weight c + 1 \<le> sum_list (map (\<lambda>x. weight x + 1) xs)"
    by (induction xs) auto
  with \<open>v = JArray xs\<close> show ?thesis by simp
qed (auto simp: child_at_def)

section \<open>References\<close>

definition external_node :: "json \<Rightarrow> string \<Rightarrow> bool" where
  "external_node v u \<longleftrightarrow>
     child_at v (Key ''external'') = Some (JString EXTERNAL_URL_MARKER) \<and> child_at v (Key ''url'') = Some (JString u)"

lemma as_str_Some: "as_str v = Some s \<longleftrightarrow> v = JString s"
  by (cases v) auto

lemma as_external_url_iff: "as_external_url v = Some u \<longleftrightarrow> external_node v u"
  by (cases v) (auto simp: as_external_url_def external_node_def child_at_def as_str_Some bind_eq_Some_conv split: if_splits)

definition urls_in :: "json \<Rightarrow> string set" where
  "urls_in v = {u. \<exists>q n. node_at v q = Some n \<and> as_external_url n = Some u}"

lemma urls_in_node: "node_at v p = Some n \<Longrightarrow> urls_in n \<subseteq> urls_in v"
  by (auto simp: urls_in_def) (metis (no_types, lifting) node_at_append option.simps(5))

text \<open>A world with finitely many references: every document read through one of them refers to
  documents of the same finite set.\<close>

definition closed_world :: "('a, 't, 'w) metadata_source \<Rightarrow> string set \<Rightarrow> bool" where
  "closed_world src U \<longleftrightarrow>
     finite U \<and> (\<forall>url \<in> U. \<forall>w v w'. fetch_external src url w = (Some v, w') \<longrightarrow> urls_in v \<subseteq> U)"

lemma read_document_ok:
  "read_document src loc w = (Inr v, w') \<Longrightarrow> json_ok v"
proof -
  have parse: "parse_metadata src raw = Inr v \<Longrightarrow> json_ok v" for raw
    by (auto simp: parse_metadata_def from_slice_def decode_value_def result_elims json_ok_to_value Let_def split: if_splits)
  have https: "read_https src url w = (Inr v, w') \<Longrightarrow> json_ok v" for url
    by (auto simp: read_https_def parse split: prod.splits sum.splits if_splits)
  assume "read_document src loc w = (Inr v, w')"
  then show ?thesis
    by (cases loc)
      (auto simp: read_keetanet_def https parse result_elims Let_def split: prod.splits sum.splits if_splits)
qed

lemma fetch_external_ok: "fetch_external src url w = (Some v, w') \<Longrightarrow> json_ok v"
  by (auto simp: fetch_external_def result_elims dest: read_document_ok split: sum.splits prod.splits)

section \<open>The invariant of the worklist\<close>

definition antichain :: "pending \<Rightarrow> bool" where
  "antichain ps \<longleftrightarrow> sorted_wrt (\<lambda>x y. incomparable (fst x) (fst y)) ps"

lemma antichain_Cons:
  "antichain (x # ps) \<longleftrightarrow> (\<forall>y \<in> set ps. incomparable (fst x) (fst y)) \<and> antichain ps"
  by (simp add: antichain_def)

lemma antichain_append:
  "antichain (ps @ qs) \<longleftrightarrow> antichain ps \<and> antichain qs \<and> (\<forall>x \<in> set ps. \<forall>y \<in> set qs. incomparable (fst x) (fst y))"
  by (auto simp: antichain_def sorted_wrt_append)

lemma antichain_siblings:
  "distinct segs \<Longrightarrow> antichain (rev (map (\<lambda>seg. (path @ [seg], a)) segs))"
  by (induction segs) (auto simp: antichain_def sorted_wrt_append intro!: incomparable_siblings)

definition pending_ok :: "string set \<Rightarrow> json \<Rightarrow> segment list \<times> string set \<Rightarrow> bool" where
  "pending_ok U document item \<longleftrightarrow>
     snd item \<subseteq> U \<and> (\<exists>v. node_at document (fst item) = Some v \<and> urls_in v \<subseteq> U)"

definition worklist_inv :: "string set \<Rightarrow> json \<times> pending \<times> 'w \<Rightarrow> bool" where
  "worklist_inv U st \<longleftrightarrow> (case st of (document, ps, w) \<Rightarrow>
     json_ok document \<and> antichain ps \<and> (\<forall>item \<in> set ps. pending_ok U document item))"

definition item_weight :: "string set \<Rightarrow> json \<Rightarrow> segment list \<times> string set \<Rightarrow> nat \<times> nat" where
  "item_weight U document item =
     (card (U - snd item), case node_at document (fst item) of None \<Rightarrow> 0 | Some v \<Rightarrow> weight v)"

definition worklist_order :: "string set \<Rightarrow> ((json \<times> pending \<times> 'w) \<times> (json \<times> pending \<times> 'w)) set" where
  "worklist_order U =
     inv_image (mult (less_than <*lex*> less_than))
       (\<lambda>(document, ps, w). mset (map (item_weight U document) ps))"

lemma wf_worklist_order: "wf (worklist_order U)"
  unfolding worklist_order_def by (intro wf_inv_image wf_mult wf_lex_prod wf_less_than)

lemma pending_ok_other:
  "incomparable path (fst item) \<Longrightarrow> pending_ok U (set_at document path v) item \<longleftrightarrow> pending_ok U document item"
  by (simp add: pending_ok_def node_at_set_other)

lemma item_weight_other:
  "incomparable path (fst item) \<Longrightarrow> item_weight U (set_at document path v) item = item_weight U document item"
  by (simp add: item_weight_def node_at_set_other)

lemma worklist_order_replace:
  assumes "\<forall>k \<in> set ks. (item_weight U document' k, item_weight U document x) \<in> less_than <*lex*> less_than"
    and "\<forall>y \<in> set ps. item_weight U document' y = item_weight U document y"
  shows "((document', ks @ ps, w'), (document, x # ps, w)) \<in> worklist_order U"
proof -
  have "map (item_weight U document') ps = map (item_weight U document) ps"
    using assms(2) by simp
  then have same: "image_mset (item_weight U document') (mset ps) = image_mset (item_weight U document) (mset ps)"
    by (metis mset_map)
  have "(mset (map (item_weight U document) ps) + mset (map (item_weight U document') ks),
      mset (map (item_weight U document) ps) + {# item_weight U document x #}) \<in> mult (less_than <*lex*> less_than)"
    using assms(1) by (intro one_step_implies_mult) auto
  then show ?thesis by (simp add: worklist_order_def same add.commute)
qed

lemma expand_drop:
  assumes inv: "worklist_inv U (document, (path, a) # ps, w)" and v: "json_ok v"
  shows "worklist_inv U (set_at document path v, ps, w') \<and>
    ((set_at document path v, ps, w'), (document, (path, a) # ps, w)) \<in> worklist_order U"
proof
  from inv have rest: "\<forall>y \<in> set ps. incomparable path (fst y)" by (simp add: worklist_inv_def antichain_Cons)
  from inv rest v show "worklist_inv U (set_at document path v, ps, w')"
    by (auto simp: worklist_inv_def antichain_Cons json_ok_set_at pending_ok_other)
  from rest worklist_order_replace [of "[]" U "set_at document path v" document "(path, a)" ps w' w]
  show "((set_at document path v, ps, w'), (document, (path, a) # ps, w)) \<in> worklist_order U"
    by (simp add: item_weight_other)
qed

lemma expand_splice:
  assumes inv: "worklist_inv U (document, (path, a) # ps, w)" and v: "json_ok v" "urls_in v \<subseteq> U"
    and url: "url \<in> U" "url \<notin> a" and U: "finite U"
  shows "worklist_inv U (set_at document path v, (path, insert url a) # ps, w') \<and>
    ((set_at document path v, (path, insert url a) # ps, w'), (document, (path, a) # ps, w)) \<in> worklist_order U"
proof
  from inv have rest: "\<forall>y \<in> set ps. incomparable path (fst y)" by (simp add: worklist_inv_def antichain_Cons)
  from inv have here: "node_at document path \<noteq> None" by (auto simp: worklist_inv_def pending_ok_def)
  with node_at_set_at [of document path v "[]"] have new: "node_at (set_at document path v) path = Some v" by simp
  from inv rest v url new show "worklist_inv U (set_at document path v, (path, insert url a) # ps, w')"
    by (auto simp: worklist_inv_def antichain_Cons json_ok_set_at pending_ok_other) (auto simp: pending_ok_def)
  have "U - insert url a \<subset> U - a" using url by auto
  with U have "card (U - insert url a) < card (U - a)" by (intro psubset_card_mono) auto
  then have "(item_weight U (set_at document path v) (path, insert url a), item_weight U document (path, a))
      \<in> less_than <*lex*> less_than" by (simp add: item_weight_def)
  with rest worklist_order_replace [of "[(path, insert url a)]" U "set_at document path v" document "(path, a)" ps w' w]
  show "((set_at document path v, (path, insert url a) # ps, w'), (document, (path, a) # ps, w)) \<in> worklist_order U"
    by (simp add: item_weight_other)
qed

lemma expand_children:
  assumes inv: "worklist_inv U (document, (path, a) # ps, w)"
  shows "worklist_inv U (document, push_children document path a ps, w) \<and>
    ((document, push_children document path a ps, w), (document, (path, a) # ps, w)) \<in> worklist_order U"
proof -
  from inv obtain v where v: "node_at document path = Some v" "urls_in v \<subseteq> U" "a \<subseteq> U"
    by (auto simp: worklist_inv_def pending_ok_def)
  from inv v(1) have ok: "json_ok v" by (auto simp: worklist_inv_def intro: json_ok_node_at)
  let ?ks = "rev (map (\<lambda>seg. (path @ [seg], a)) (segments_of v))"
  have push: "push_children document path a ps = ?ks @ ps" by (simp add: push_children_alt v)
  have child: "\<exists>c. child_at v seg = Some c \<and> node_at document (path @ [seg]) = Some c" if "seg \<in> set (segments_of v)" for seg
    using that v(1) by (auto simp: segments_of_iff node_at_append)
  have "antichain (?ks @ ps)"
    using inv antichain_siblings [OF distinct_segments_of [OF ok], of path a]
    by (auto simp: worklist_inv_def antichain_append antichain_Cons intro: incomparable_append)
  moreover have "pending_ok U document (path @ [seg], a)" if "seg \<in> set (segments_of v)" for seg
  proof -
    from child [OF that] obtain c where c: "child_at v seg = Some c" "node_at document (path @ [seg]) = Some c" by blast
    then have "urls_in c \<subseteq> urls_in v" by (intro urls_in_node [where p = "[seg]"]) simp
    with c v show ?thesis by (auto simp: pending_ok_def)
  qed
  moreover have "(item_weight U document k, item_weight U document (path, a)) \<in> less_than <*lex*> less_than"
    if "k \<in> set ?ks" for k
  proof -
    from that obtain seg where seg: "seg \<in> set (segments_of v)" "k = (path @ [seg], a)" by auto
    from child [OF seg(1)] obtain c where "child_at v seg = Some c" "node_at document (path @ [seg]) = Some c" by blast
    with seg v(1) weight_child [of v seg c] show ?thesis by (simp add: item_weight_def)
  qed
  ultimately show ?thesis
    using inv worklist_order_replace [of ?ks U document document "(path, a)" ps w w]
    unfolding push by (auto simp: worklist_inv_def)
qed

lemma resolve_turn_decreases:
  assumes U: "closed_world src U" and inv: "worklist_inv U st"
  shows "case resolve_turn src st of Inl r \<Rightarrow> json_ok (fst r)
    | Inr st' \<Rightarrow> worklist_inv U st' \<and> (st', st) \<in> worklist_order U"
proof -
  obtain document ps w where st: "st = (document, ps, w)" by (cases st)
  show ?thesis
  proof (cases ps)
    case Nil
    with inv st show ?thesis by (simp add: resolve_turn_def worklist_inv_def)
  next
    case (Cons item ps')
    obtain path a where item: "item = (path, a)" by (cases item)
    note inv' = inv [unfolded st Cons item]
    show ?thesis
    proof (cases "Option.bind (node_at document path) as_external_url")
      case None
      with expand_children [OF inv'] st Cons item show ?thesis by (simp add: resolve_turn_def)
    next
      case (Some url)
      then have url: "url \<in> U"
        using inv' by (auto simp: worklist_inv_def pending_ok_def urls_in_def bind_eq_Some_conv)
          (metis (mono_tags, lifting) mem_Collect_eq node_at.simps(1) subsetD)
      have drop: "worklist_inv U (set_at document path JNull, ps', w') \<and>
          ((set_at document path JNull, ps', w'), (document, (path, a) # ps', w)) \<in> worklist_order U" for w'
        by (rule expand_drop [OF inv']) simp
      show ?thesis
      proof (cases "url \<in> a")
        case True
        with drop Some st Cons item show ?thesis by (simp add: resolve_turn_def expand_external_def)
      next
        case False
        obtain r w' where f: "fetch_external src url w = (r, w')" by (cases "fetch_external src url w")
        show ?thesis
        proof (cases r)
          case None
          with drop f Some False st Cons item show ?thesis by (simp add: resolve_turn_def expand_external_def)
        next
          case (Some v)
          with f U url have v: "json_ok v" "urls_in v \<subseteq> U" "finite U"
            by (auto simp: closed_world_def dest: fetch_external_ok)
          from expand_splice [OF inv' v(1,2) url False v(3)]
          have "worklist_inv U (set_at document path v, (path, insert url a) # ps', w') \<and>
              ((set_at document path v, (path, insert url a) # ps', w'), (document, (path, a) # ps', w)) \<in> worklist_order U" .
          with \<open>Option.bind (node_at document path) as_external_url = Some url\<close> f Some False st Cons item
          show ?thesis by (simp add: resolve_turn_def expand_external_def)
        qed
      qed
    qed
  qed
qed

lemma resolve_returns:
  assumes "closed_world src U" "urls_in document \<subseteq> U" "json_ok document"
  shows "\<exists>document' w'. resolve_external_urls src document w = Some (document', w') \<and> json_ok document'"
proof -
  have "\<exists>r. loop (resolve_turn src) (document, [([], {})], w) = Some r \<and> json_ok (fst r)"
  proof (rule loop_total_wf [OF wf_worklist_order [of U]])
    show "worklist_inv U (document, [([], {})], w)"
      using assms by (simp add: worklist_inv_def antichain_def pending_ok_def)
  qed (rule resolve_turn_decreases [OF assms(1)])
  then show ?thesis by (auto simp: resolve_external_urls_def)
qed

section \<open>No reference is left\<close>

text \<open>Every reference lies under a pending path.\<close>

definition covered :: "json \<Rightarrow> pending \<Rightarrow> bool" where
  "covered document ps \<longleftrightarrow>
     (\<forall>q n u. node_at document q = Some n \<longrightarrow> as_external_url n = Some u \<longrightarrow> (\<exists>item \<in> set ps. \<exists>r. q = fst item @ r))"

text \<open>No document read through a reference is a bare string.\<close>

definition no_bare_strings :: "('a, 't, 'w) metadata_source \<Rightarrow> bool" where
  "no_bare_strings src \<longleftrightarrow> (\<forall>url w s w'. fetch_external src url w \<noteq> (Some (JString s), w'))"

lemma set_child_string: "set_child v seg new = JString t \<longleftrightarrow> v = JString t"
  by (cases v; cases seg) (auto simp: set_child_def)

lemma set_at_string:
  "set_at v p new = JString t \<Longrightarrow> new \<noteq> JString t \<Longrightarrow> v = JString t"
  by (cases p) (auto simp: set_child_string split: option.splits)

lemma child_set_at_string:
  assumes "child_at (set_at v (s # p) new) seg = Some (JString t)" "\<forall>t. new \<noteq> JString t"
  shows "child_at v seg = Some (JString t)"
  using assms by (auto simp: child_set_child dest!: set_at_string split: option.splits if_splits)

lemma external_set_at:
  assumes "external_node (set_at v (s # p) new) u" "\<forall>t. new \<noteq> JString t"
  shows "external_node v u"
  using assms unfolding external_node_def by (blast intro: child_set_at_string)

lemma incomparable_cases:
  obtains r where "q = p @ r" | s r where "p = q @ s # r" | "incomparable p q"
proof -
  have "(\<exists>r. q = p @ r) \<or> (\<exists>s r. p = q @ s # r) \<or> incomparable p q"
  proof (induction p arbitrary: q)
    case (Cons x p)
    show ?case
    proof (cases q)
      case (Cons y q')
      with Cons.IH [of q'] show ?thesis by (cases "x = y") (auto simp: incomparable_Cons)
    qed simp
  qed simp
  with that show thesis by blast
qed

lemma node_at_set_above:
  "node_at (set_at root (q @ p) new) q = (case node_at root q of None \<Rightarrow> None | Some n \<Rightarrow> Some (set_at n p new))"
  by (induction q arbitrary: root) (auto simp: child_set_child split: option.splits)

lemma covered_set_at:
  assumes cov: "covered document ((path, a) # ps)" and anti: "antichain ((path, a) # ps)"
    and here: "node_at document path \<noteq> None" and new: "\<forall>t. new \<noteq> JString t"
    and q: "node_at (set_at document path new) q = Some n" "as_external_url n = Some u"
  shows "(\<exists>r. q = path @ r \<and> node_at new r = Some n) \<or> (\<exists>item \<in> set ps. \<exists>r. q = fst item @ r)"
proof (cases rule: incomparable_cases [of q path])
  case (1 r)
  with node_at_set_at [OF here, of new r] q show ?thesis by simp
next
  case (2 s r)
  with q obtain m where m: "node_at document q = Some m" "n = set_at m (s # r) new"
    by (auto simp: node_at_set_above split: option.splits)
  from q(2) m(2) have "external_node (set_at m (s # r) new) u" by (simp add: as_external_url_iff)
  then have "external_node m u" using new by (rule external_set_at)
  then have "as_external_url m = Some u" by (simp add: as_external_url_iff)
  with cov m(1) obtain item where "item \<in> set ((path, a) # ps)" "\<exists>r. q = fst item @ r"
    unfolding covered_def by blast
  moreover have "fst item \<noteq> path" using \<open>\<exists>r. q = fst item @ r\<close> 2 by auto
  ultimately show ?thesis by auto
next
  case 3
  with q have "node_at document q = Some n" by (simp add: node_at_set_other)
  with cov q(2) obtain item where "item \<in> set ((path, a) # ps)" "\<exists>r. q = fst item @ r"
    unfolding covered_def by blast
  moreover have "\<not> (\<exists>r. q = path @ r)" using 3 by (auto simp: incomparable_def)
  ultimately show ?thesis by auto
qed

definition coverage_inv :: "json \<times> pending \<times> 'w \<Rightarrow> bool" where
  "coverage_inv st \<longleftrightarrow> (case st of (document, ps, w) \<Rightarrow>
     worklist_inv UNIV st \<and> covered document ps)"

lemma worklist_inv_turn:
  fixes w w' :: 'w
  assumes inv: "worklist_inv UNIV (document, (path, a) # ps, w)"
  shows "json_ok v \<Longrightarrow> worklist_inv UNIV (set_at document path v, ps, w')"
    and "json_ok v \<Longrightarrow> worklist_inv UNIV (set_at document path v, (path, b) # ps, w')"
    and "worklist_inv UNIV (document, push_children document path a ps, w)"
proof -
  from inv have rest: "\<forall>y \<in> set ps. incomparable path (fst y)" by (simp add: worklist_inv_def antichain_Cons)
  from inv have here: "node_at document path \<noteq> None" by (auto simp: worklist_inv_def pending_ok_def)
  with node_at_set_at [of document path v "[]"] have new: "node_at (set_at document path v) path = Some v" by simp
  show "json_ok v \<Longrightarrow> worklist_inv UNIV (set_at document path v, ps, w')"
    using expand_drop [OF inv, of v w'] by blast
  show "json_ok v \<Longrightarrow> worklist_inv UNIV (set_at document path v, (path, b) # ps, w')"
    using inv rest new
    by (auto simp: worklist_inv_def antichain_Cons json_ok_set_at pending_ok_other) (auto simp: pending_ok_def)
  show "worklist_inv UNIV (document, push_children document path a ps, w)"
    using expand_children [OF inv] by blast
qed

lemma coverage_turn:
  fixes st st' :: "json \<times> pending \<times> 'w"
  assumes nobare: "no_bare_strings src" and inv: "coverage_inv st" and turn: "resolve_turn src st = Inr st'"
  shows "coverage_inv st'"
proof -
  obtain document ps0 w where st0: "st = (document, ps0, w)" by (cases st)
  with turn obtain path a ps where st: "st = (document, (path, a) # ps, w)"
    by (cases ps0) (auto simp: resolve_turn_def)
  from inv st have wl: "worklist_inv UNIV (document, (path, a) # ps, w)" and cov: "covered document ((path, a) # ps)"
    by (simp_all add: coverage_inv_def)
  from wl have anti: "antichain ((path, a) # ps)" and here: "node_at document path \<noteq> None"
    by (auto simp: worklist_inv_def pending_ok_def)
  show ?thesis
  proof (cases "Option.bind (node_at document path) as_external_url")
    case None
    with st turn have st': "st' = (document, push_children document path a ps, w)" by (simp add: resolve_turn_def)
    have "covered document (push_children document path a ps)"
      unfolding covered_def
    proof (intro allI impI)
      fix q n u
      assume q: "node_at document q = Some n" "as_external_url n = Some u"
      with cov obtain item where item: "item \<in> set ((path, a) # ps)" "\<exists>r. q = fst item @ r"
        unfolding covered_def by blast
      show "\<exists>item \<in> set (push_children document path a ps). \<exists>r. q = fst item @ r"
      proof (cases "item = (path, a)")
        case True
        with item obtain r where r: "q = path @ r" by auto
        obtain v where v: "node_at document path = Some v" using here by blast
        with r q None obtain seg r' where "r = seg # r'" by (cases r) auto
        moreover from this v r q have "seg \<in> set (segments_of v)"
          by (auto simp: node_at_append segments_of_iff split: option.splits)
        ultimately have "(path @ [seg], a) \<in> set (push_children document path a ps)" "q = fst (path @ [seg], a) @ r'"
          using r v by (simp_all add: push_children_alt)
        then show ?thesis by blast
      next
        case False
        with item show ?thesis by (auto simp: push_children_alt)
      qed
    qed
    with worklist_inv_turn(3) [OF wl] st' show ?thesis by (simp add: coverage_inv_def)
  next
    case (Some url)
    have null: "coverage_inv (set_at document path JNull, ps, w')" for w' :: 'w
    proof -
      have "covered (set_at document path JNull) ps"
        unfolding covered_def
      proof (intro allI impI)
        fix q n u
        assume q: "node_at (set_at document path JNull) q = Some n" "as_external_url n = Some u"
        have "\<not> (\<exists>r. q = path @ r \<and> node_at JNull r = Some n)"
          using q(2) by (auto simp: as_external_url_def child_at_def elim!: node_at.elims split: option.splits segment.splits)
        with covered_set_at [OF cov anti here _ q] show "\<exists>item \<in> set ps. \<exists>r. q = fst item @ r" by auto
      qed
      with worklist_inv_turn(1) [OF wl, of JNull w'] show ?thesis by (simp add: coverage_inv_def)
    qed
    show ?thesis
    proof (cases "url \<in> a")
      case True
      with st turn Some have "st' = (set_at document path JNull, ps, w)"
        by (simp add: resolve_turn_def expand_external_def)
      with null show ?thesis by simp
    next
      case False
      obtain r w' where f: "fetch_external src url w = (r, w')" by (cases "fetch_external src url w")
      show ?thesis
      proof (cases r)
        case None
        with st turn Some False f have "st' = (set_at document path JNull, ps, w')"
          by (simp add: resolve_turn_def expand_external_def)
        with null show ?thesis by simp
      next
        case v: (Some v)
        with st turn Some False f have st': "st' = (set_at document path v, (path, insert url a) # ps, w')"
          by (simp add: resolve_turn_def expand_external_def)
        have "\<forall>t. v \<noteq> JString t" using nobare f v by (auto simp: no_bare_strings_def)
        then have "covered (set_at document path v) ((path, insert url a) # ps)"
          unfolding covered_def
        proof (intro allI impI)
          fix q n u
          assume "node_at (set_at document path v) q = Some n" "as_external_url n = Some u"
          from covered_set_at [OF cov anti here \<open>\<forall>t. v \<noteq> JString t\<close> this]
          show "\<exists>item \<in> set ((path, insert url a) # ps). \<exists>r. q = fst item @ r" by auto
        qed
        moreover have "json_ok v" using f v by (auto dest: fetch_external_ok)
        ultimately show ?thesis using worklist_inv_turn(2) [OF wl] st' by (simp add: coverage_inv_def)
      qed
    qed
  qed
qed

lemma resolve_complete:
  assumes "no_bare_strings src" "json_ok document" "resolve_external_urls src document w = Some (document', w')"
  shows "urls_in document' = {}"
proof -
  have "urls_in (fst (document', w')) = {}"
  proof (rule loop_partial [where I = coverage_inv and Q = "\<lambda>r. urls_in (fst r) = {}"])
    show "loop (resolve_turn src) (document, [([], {})], w) = Some (document', w')"
      using assms(3) by (simp add: resolve_external_urls_def)
    show "coverage_inv (document, [([], {})], w)"
      using assms(2) by (simp add: coverage_inv_def worklist_inv_def antichain_def pending_ok_def covered_def)
  next
    fix st st'
    assume "coverage_inv st" "resolve_turn src st = Inr st'"
    with coverage_turn [OF assms(1)] show "coverage_inv st'" by blast
  next
    fix st r
    assume i: "coverage_inv st" "resolve_turn src st = Inl r"
    obtain document ps w where "st = (document, ps, w)" by (cases st)
    with i show "urls_in (fst r) = {}"
      by (cases ps) (auto simp: resolve_turn_def coverage_inv_def covered_def urls_in_def split: option.splits)
  qed
  then show ?thesis by simp
qed

end
