(* ===== verification/ResolverProps.thy ===== *)
theory ResolverProps
  imports ResolverFacts
begin

text \<open>
  The properties of the resolver: termination and completeness of the indirection worklist with the two
  ways it falls short, the precedence of the lookup, and what a signed entry is bound to.
\<close>

section \<open>References that never end\<close>

definition external_ref :: "string \<Rightarrow> json" where
  "external_ref u = JObject [(''external'', JString EXTERNAL_URL_MARKER), (''url'', JString u)]"

lemma as_external_url_ref [simp]: "as_external_url (external_ref u) = Some u"
  by (simp add: as_external_url_def external_ref_def)

lemma hostile_chain_diverges:
  fixes src :: "('a, 't, 'w) metadata_source"
  assumes "inj chain" "\<And>n w. fetch_external src (chain n) w = (Some (external_ref (chain (Suc n))), w)"
  shows "resolve_external_urls src (external_ref (chain 0)) w = None"
  unfolding resolve_external_urls_def
proof (rule loop_diverges [where I = "\<lambda>(document, ps, w). \<exists>n. document = external_ref (chain n) \<and> ps = [([], chain ` {..<n})]"])
  show "case (external_ref (chain 0), [([], {})], w) of (document, ps, w) \<Rightarrow>
      \<exists>n. document = external_ref (chain n) \<and> ps = [([], chain ` {..<n})]"
    by (auto intro!: exI [of _ "0 :: nat"])
next
  fix st :: "json \<times> pending \<times> 'w"
  assume "case st of (document, ps, w) \<Rightarrow> \<exists>n. document = external_ref (chain n) \<and> ps = [([], chain ` {..<n})]"
  then obtain n w' where st: "st = (external_ref (chain n), [([], chain ` {..<n})], w')" by auto
  have "chain n \<notin> chain ` {..<n}" using assms(1) by (auto simp: inj_eq)
  with st assms(2) [of n w'] have "resolve_turn src st =
      Inr (external_ref (chain (Suc n)), [([], chain ` {..<Suc n})], w')"
    by (simp add: resolve_turn_def expand_external_def lessThan_Suc)
  then show "\<exists>s'. resolve_turn src st = Inr s' \<and>
      (case s' of (document, ps, w) \<Rightarrow> \<exists>n. document = external_ref (chain n) \<and> ps = [([], chain ` {..<n})])"
    by blast
qed

lemma bare_string_leaves_reference:
  assumes "fetch_external src a w = (Some (JString EXTERNAL_URL_MARKER), w)"
  shows "resolve_external_urls src
      (JObject [(''external'', external_ref a), (''url'', JString b)]) w = Some (external_ref b, w)"
proof -
  let ?d = "JObject [(''external'', external_ref a), (''url'', JString b)]"
  have 1: "resolve_turn src (?d, [([], {})], w) = Inr (?d, [([Key ''url''], {}), ([Key ''external''], {})], w)"
    by (simp add: resolve_turn_def as_external_url_def external_ref_def push_children_def extend_def)
  have 2: "resolve_turn src (?d, [([Key ''url''], {}), ([Key ''external''], {})], w) = Inr (?d, [([Key ''external''], {})], w)"
    by (simp add: resolve_turn_def child_at_def as_external_url_def push_children_def)
  have 3: "resolve_turn src (?d, [([Key ''external''], {})], w) = Inr (external_ref b, [([Key ''external''], {a})], w)"
    using assms by (simp add: resolve_turn_def child_at_def expand_external_def set_child_def)
      (simp add: external_ref_def)
  have 4: "resolve_turn src (external_ref b, [([Key ''external''], {a})], w) = Inr (external_ref b, [], w)"
    by (simp add: resolve_turn_def child_at_def external_ref_def as_external_url_def push_children_def)
  have 5: "resolve_turn src (external_ref b, [], w) = Inl (external_ref b, w)" by (simp add: resolve_turn_def)
  show ?thesis
    unfolding resolve_external_urls_def
    by (simp only: loop_next [of "resolve_turn src", OF 1] loop_next [of "resolve_turn src", OF 2]
        loop_next [of "resolve_turn src", OF 3] loop_next [of "resolve_turn src", OF 4]
        loop_halt [of "resolve_turn src", OF 5])
qed

section \<open>The precedence of identifiers\<close>

text \<open>The first entry of every identifier, in order.\<close>

fun first_of_ids :: "string set \<Rightarrow> (string \<times> json) list \<Rightarrow> (string \<times> json) list" where
  "first_of_ids seen [] = []"
| "first_of_ids seen ((ident, entry) # es) =
     (if ident \<in> seen then first_of_ids seen es else (ident, entry) # first_of_ids (insert ident seen) es)"

definition entries_of :: "json \<Rightarrow> string \<Rightarrow> (string \<times> json) list" where
  "entries_of document service = (case service_entries document service of None \<Rightarrow> [] | Some es \<Rightarrow> es)"

definition project :: "('a, 't, 'w) signing_env \<Rightarrow> (string \<Rightarrow> json \<Rightarrow> 'p option) \<Rightarrow> string \<times> json \<Rightarrow> 'p option" where
  "project env parse kv = (if entry_signature_ok env (snd kv) then parse (fst kv) (snd kv) else None)"

lemma scan_document_entries:
  "scan_document env service parse st document = foldl (scan_entry env parse) st (entries_of document service)"
  by (simp add: scan_document_def entries_of_def split: option.splits)

lemma scan_documents_entries:
  "foldl (scan_document env service parse) st documents =
     foldl (scan_entry env parse) st (concat (map (\<lambda>d. entries_of d service) documents))"
  by (induction documents arbitrary: st) (simp_all add: scan_document_entries)

lemma scan_entries_spec:
  "snd (foldl (scan_entry env parse) (seen, ps) es) = ps @ filter_map (project env parse) (first_of_ids seen es)"
proof (induction es arbitrary: seen ps)
  case (Cons kv es)
  obtain ident entry where "kv = (ident, entry)" by (cases kv)
  with Cons show ?case by (auto simp: scan_entry_def project_def split: option.splits)
qed simp

text \<open>Where the entries of a scan come from.\<close>

lemma first_of_ids_spec:
  "(ident, entry) \<in> set (first_of_ids seen es) \<Longrightarrow>
   ident \<notin> seen \<and> (\<exists>xs ys. es = xs @ (ident, entry) # ys \<and> ident \<notin> fst ` set xs)"
proof (induction es arbitrary: seen)
  case (Cons kv es)
  obtain k e where kv: "kv = (k, e)" by (cases kv)
  show ?case
  proof (cases "k \<in> seen \<or> (ident, entry) \<noteq> (k, e)")
    case True
    then have "\<exists>seen'. seen \<subseteq> seen' \<and> (ident, entry) \<in> set (first_of_ids seen' es) \<and> (k \<notin> seen \<longrightarrow> k \<in> seen')"
      using Cons.prems kv by (auto split: if_splits)
    then obtain seen' where s: "seen \<subseteq> seen'" "(ident, entry) \<in> set (first_of_ids seen' es)" "k \<notin> seen \<longrightarrow> k \<in> seen'"
      by blast
    from Cons.IH [OF s(2)] obtain xs ys where x: "ident \<notin> seen'" "es = xs @ (ident, entry) # ys" "ident \<notin> fst ` set xs"
      by blast
    have "ident \<noteq> k" using s x(1) by blast
    with x have "kv # es = ((k, e) # xs) @ (ident, entry) # ys" "ident \<notin> fst ` set ((k, e) # xs)"
      by (simp_all add: kv)
    with x(1) s(1) show ?thesis by blast
  next
    case False
    with kv have "kv # es = [] @ (ident, entry) # es" "ident \<notin> fst ` set []" "ident \<notin> seen" by simp_all
    then show ?thesis by blast
  qed
qed simp

section \<open>Signed entries\<close>

lemma json_valid_get_key: "json_valid v \<Longrightarrow> get_key k v = Some x \<Longrightarrow> json_valid x"
  by (cases v) (auto simp: list_all_iff dest!: map_of_SomeD)

lemma json_valid_insert: "json_valid (JObject m) \<Longrightarrow> json_valid v \<Longrightarrow> json_valid (JObject (map_insert k v m))"
  using set_map_insert [of k v m] by (fastforce simp: map_ok_insert list_all_iff)

lemma signed_fields_alt:
  "signed_fields account operations (get_key ''legal'' entry) =
     (let m = JObject [(''account'', JString account), (''namespace'', JString METADATA_SIGNATURE_NAMESPACE), (''operations'', operations)]
      in case field (Some entry) ''legal'' of
           None \<Rightarrow> m
         | Some l \<Rightarrow> JObject [(''account'', JString account), (''legal'', l),
              (''namespace'', JString METADATA_SIGNATURE_NAMESPACE), (''operations'', operations)])"
  by (auto simp: signed_fields_def field_def split: option.splits)

lemma signed_fields_inj:
  assumes "signed_fields a ops (get_key ''legal'' e) = signed_fields b ops' (get_key ''legal'' e')"
  shows "a = b \<and> ops = ops' \<and> field (Some e) ''legal'' = field (Some e') ''legal''"
  using assms unfolding signed_fields_alt by (auto simp: Let_def split: option.splits)

lemma json_valid_signed_fields:
  assumes "json_valid operations" "json_valid entry"
  shows "json_valid (signed_fields account operations (get_key ''legal'' entry))"
proof -
  have "json_valid l" if "field (Some entry) ''legal'' = Some l" for l
    using that assms(2) json_valid_get_key [of entry "''legal''" l] by (auto simp: field_def split: option.splits if_splits)
  with assms(1) show ?thesis
    unfolding signed_fields_alt by (auto simp: map_ok_def split: option.splits)
qed

text \<open>What the signature of an entry covers: the bytes of the account, the operations and the legal terms
  under the nonce and the timestamp of its envelope.\<close>

definition entry_message ::
    "('a, 't, 'w) signing_env \<Rightarrow> string \<Rightarrow> 'a \<Rightarrow> json \<Rightarrow> signed_envelope \<Rightarrow> bytes option" where
  "entry_message env acct a entry envl =
     Option.bind (get_key ''operations'' entry) (\<lambda>operations.
     Option.bind (ok (object_to_signable (signed_fields acct operations (get_key ''legal'' entry)))) (\<lambda>parts.
     ok (format_data (der env) (key_with_type env a) (nonce envl) (timestamp envl) parts)))"

definition entry_signed ::
    "('a, 't, 'w) signing_env \<Rightarrow> string \<Rightarrow> json \<Rightarrow> bool" where
  "entry_signed env acct entry \<longleftrightarrow>
     (\<exists>envl a b s. Option.bind (get_key ''signed'' entry) signed_envelope_of = Some envl
        \<and> account_from_str env acct = Inr a \<and> entry_message env acct a entry envl = Some b
        \<and> base64_decode env (signature envl) = Inr s \<and> raw_verify env a b s
        \<and> timely env (timestamp envl) (unbounded env))"

lemma verify_entry_message:
  "verify_entry env acct entry signed_value \<longleftrightarrow>
     (\<exists>envl a b s. signed_envelope_of signed_value = Some envl
        \<and> account_from_str env acct = Inr a \<and> entry_message env acct a entry envl = Some b
        \<and> base64_decode env (signature envl) = Inr s \<and> raw_verify env a b s
        \<and> timely env (timestamp envl) (unbounded env))"
  by (fastforce simp: verify_entry_def verify_body_def entry_message_def Let_def is_ok_iff result_elims ok_eq_Some bind_eq_Some_conv
      verify_envelope_Inr split: option.splits sum.splits)

lemma entry_accepted_exactly:
  "entry_signature_ok env entry \<longleftrightarrow>
     (case Option.bind (get_key ''account'' entry) as_str of
        None \<Rightarrow> get_key ''signed'' entry = None
      | Some acct \<Rightarrow> entry_signed env acct entry)"
  by (auto simp: entry_signature_ok_def Let_def verify_entry_message entry_signed_def split: option.splits)

lemma entry_message_binds:
  assumes "self_delimiting (der env)" "json_valid e" "json_valid e'" "fits_usize (length b)"
    and "entry_message env acct a e envl = Some b" "entry_message env acct' a' e' envl' = Some b"
  shows "acct' = acct \<and> get_key ''operations'' e' = get_key ''operations'' e
    \<and> field (Some e') ''legal'' = field (Some e) ''legal''"
proof -
  from assms(5) obtain ops parts where e: "get_key ''operations'' e = Some ops"
      "object_to_signable (signed_fields acct ops (get_key ''legal'' e)) = Inr parts"
      "format_data (der env) (key_with_type env a) (nonce envl) (timestamp envl) parts = Inr b"
    by (auto simp: entry_message_def bind_eq_Some_conv ok_eq_Some)
  from assms(6) obtain ops' parts' where e': "get_key ''operations'' e' = Some ops'"
      "object_to_signable (signed_fields acct' ops' (get_key ''legal'' e')) = Inr parts'"
      "format_data (der env) (key_with_type env a') (nonce envl') (timestamp envl') parts' = Inr b"
    by (auto simp: entry_message_def bind_eq_Some_conv ok_eq_Some)
  have "parts = parts'" using format_data_inj [OF assms(1,4) e(3) e'(3)] by simp
  moreover have "json_valid ops" "json_valid ops'"
    using e(1) e'(1) assms(2,3) json_valid_get_key by blast+
  ultimately have "signed_fields acct ops (get_key ''legal'' e) = signed_fields acct' ops' (get_key ''legal'' e')"
    using e(2) e'(2) assms(2,3)
    by (auto simp: object_to_signable_Inr intro!: canon_inj object_to_signable_wf json_valid_signed_fields)
  with signed_fields_inj [of acct ops e acct' ops' e'] e(1) e'(1) show ?thesis by simp
qed

section \<open>The root documents\<close>

text \<open>Every document found on a root account refers to documents of the world only.\<close>

definition roots_within :: "('a, 't, 'w) metadata_source \<Rightarrow> string set \<Rightarrow> 'a list \<Rightarrow> bool" where
  "roots_within src U roots \<longleftrightarrow>
     (\<forall>account \<in> set roots. \<forall>w v w'. read_document src (KeetaNet account) w = (Inr v, w') \<longrightarrow> urls_in v \<subseteq> U)"

lemma root_documents_returns:
  assumes "closed_world src U" "roots_within src U roots"
  shows "\<exists>documents w'. root_documents src roots w = Some (documents, w')"
  using assms(2)
proof (induction roots arbitrary: w)
  case (Cons account roots)
  have rest: "\<exists>documents w'. root_documents src roots v = Some (documents, w')" for v
    using Cons by (auto simp: roots_within_def)
  obtain x v where x: "read_document src (KeetaNet account) w = (x, v)" by (metis surj_pair)
  show ?case
  proof (cases x)
    case (Inl e)
    with x rest show ?thesis by (auto simp del: read_document.simps)
  next
    case (Inr document)
    with x Cons.prems have "urls_in document \<subseteq> U" unfolding roots_within_def by (meson list.set_intros(1))
    moreover have "json_ok document" by (rule read_document_ok [OF x [unfolded Inr]])
    ultimately obtain document' u where "resolve_external_urls src document v = Some (document', u)"
      using resolve_returns [OF assms(1)] by blast
    with x Inr rest [of u] show ?thesis by (auto simp del: read_document.simps)
  qed
qed simp

section \<open>Properties\<close>

text \<open>C13. Indirection always ends where the references are finitely many: resolving a document of such a
  world returns with an ordered document, and so do the walk over the root documents and the lookup. When
  moreover no document read through a reference is a bare string, nothing in the resolved document refers
  to another document any more, at any depth (a bare string can leave one: \<open>resolver_leaves_reference\<close>).\<close>

theorem resolver_terminates:
  assumes "closed_world src U" "urls_in document \<subseteq> U" "json_ok document" "roots_within src U roots"
  shows "(\<exists>document' w'. resolve_external_urls src document w = Some (document', w') \<and> json_ok document'
      \<and> (no_bare_strings src \<longrightarrow> urls_in document' = {}))
    \<and> (\<exists>documents w'. root_documents src roots w = Some (documents, w'))
    \<and> (\<exists>r w'. lookup src roots service parse w = Some (r, w'))"
proof (intro conjI)
  obtain document' w' where r: "resolve_external_urls src document w = Some (document', w')" "json_ok document'"
    using resolve_returns [OF assms(1-3)] by blast
  with resolve_complete [OF _ assms(3) r(1)]
  show "\<exists>document' w'. resolve_external_urls src document w = Some (document', w') \<and> json_ok document'
      \<and> (no_bare_strings src \<longrightarrow> urls_in document' = {})" by blast
  show "\<exists>documents w'. root_documents src roots w = Some (documents, w')"
    by (rule root_documents_returns [OF assms(1,4)])
  then show "\<exists>r w'. lookup src roots service parse w = Some (r, w')"
    by (auto simp: lookup_def)
qed

text \<open>C34. Nothing bounds the depth of the indirection: against a provider whose every document refers to
  a document at a URL not seen before, resolving never returns.\<close>

theorem resolver_hostile_chain:
  assumes "inj chain" "\<And>n w. fetch_external src (chain n) w = (Some (external_ref (chain (Suc n))), w)"
  shows "resolve_external_urls src (external_ref (chain 0)) w = None"
  using assms by (rule hostile_chain_diverges)

text \<open>A reference can survive: a node whose \<open>external\<close> member is itself a reference to a document
  that holds the marker string becomes a reference after it was visited, and the resolved document
  still refers to the second URL.\<close>

lemma resolver_leaves_reference:
  assumes "fetch_external src a w = (Some (JString EXTERNAL_URL_MARKER), w)"
  shows "resolve_external_urls src (JObject [(''external'', external_ref a), (''url'', JString b)]) w
    = Some (external_ref b, w)"
  using assms by (rule bare_string_leaves_reference)

text \<open>C15. Lookup follows the precedence of roots and identifiers: its providers are the projections of
  the first entry of each identifier over the documents in priority order, an entry whose signature
  does not verify hiding its identifier all the same, and it fails exactly when no root has a
  document.\<close>

theorem lookup_first_entry_wins:
  "lookup src roots service parse w =
     (case root_documents src roots w of
        None \<Rightarrow> None
      | Some (documents, w) \<Rightarrow>
          Some (if documents = [] then Inl RNoRootMetadata
                else Inr (filter_map (project (ms_env src) parse)
                       (first_of_ids {} (concat (map (\<lambda>d. entries_of d service) documents)))), w))"
  by (simp add: lookup_def scan_documents_entries scan_entries_spec split: option.splits)

text \<open>C14. A provider entry is accepted exactly when it is unsigned and names no account as a text, or
  when its signature verifies, for the account it names, over the bytes made of that account, its
  operations and its legal terms at a canonical timestamp; and those bytes determine the account, the
  operations and the legal terms, so a signature over them vouches for no other entry.\<close>

theorem signed_entry_binds:
  assumes "self_delimiting (der env)" "json_valid e" "json_valid e'" "fits_usize (length b)"
  shows "(entry_signature_ok env e \<longleftrightarrow>
      (case Option.bind (get_key ''account'' e) as_str of
         None \<Rightarrow> get_key ''signed'' e = None
       | Some acct \<Rightarrow>
           (\<exists>envl a m s. Option.bind (get_key ''signed'' e) signed_envelope_of = Some envl
              \<and> account_from_str env acct = Inr a \<and> entry_message env acct a e envl = Some m
              \<and> base64_decode env (signature envl) = Inr s \<and> raw_verify env a m s
              \<and> timely env (timestamp envl) (unbounded env))))
    \<and> (entry_message env acct a e envl = Some b \<and> entry_message env acct' a' e' envl' = Some b \<longrightarrow>
         acct' = acct \<and> get_key ''operations'' e' = get_key ''operations'' e
         \<and> field (Some e') ''legal'' = field (Some e) ''legal'')"
  using entry_accepted_exactly [of env e] entry_message_binds [OF assms, of acct a envl acct' a' envl']
  by (simp add: entry_signed_def split: option.split)

section \<open>Concrete sources\<close>

text \<open>A transport that answers every URL with its own text, read as the document \<open>f\<close> gives.\<close>

definition echo_source :: "(string \<Rightarrow> json) \<Rightarrow> (string, int, unit) metadata_source" where
  "echo_source f = \<lparr>ms_env = toy_env, ms_inflate = (\<lambda>_. None), ms_text = (\<lambda>b. Inr (f b)),
     ms_state = (\<lambda>_ w. (Inr None, w)),
     ms_transport = \<lparr>t_get = (\<lambda>url w. (Inr (http_response_new 200 url), w)),
                     t_post = (\<lambda>_ _ w. (Inr (http_response_new 200 []), w))\<rparr>\<rparr>"

lemma fetch_echo:
  assumes "list_all is_ascii x"
  shows "fetch_external (echo_source f) (''https://'' @ x) w = (Some (to_value (f (''https://'' @ x))), w)"
proof -
  have "is_utf8 (''https://'' @ x)"
    using assms by (intro is_utf8_ascii) (simp add: is_ascii_def)
  moreover have "starts_with ''https://'' (''https://'' @ x)" by (auto simp: starts_with_iff)
  ultimately show ?thesis
    by (simp add: fetch_external_def metadata_location_from_str_def read_https_def echo_source_def parse_metadata_def
        from_slice_def decode_value_def http_response_new_def is_success_def no_content_def)
qed

lemma fetch_echo_only:
  assumes "fetch_external (echo_source f) url w = (Some v, w')"
  shows "v = JObject [] \<or> v = to_value (f url)"
  using assms
  by (auto simp: fetch_external_def echo_source_def read_https_def read_keetanet_def parse_metadata_def from_slice_def
      decode_value_def http_response_new_def is_success_def no_content_def metadata_location_from_str_def
      keetanet_location_def toy_env_def result_elims Let_def split: option.splits if_splits prod.splits)

lemma urls_in_leaf: "(\<And>seg. child_at v seg = None) \<Longrightarrow> urls_in v = {}"
proof -
  assume c: "\<And>seg. child_at v seg = None"
  then have "node_at v q = Some n \<Longrightarrow> n = v" for q n by (cases q) auto
  with c show ?thesis by (fastforce simp: urls_in_def as_external_url_iff external_node_def)
qed

lemma urls_in_scalar: "urls_in JNull = {}" "urls_in (JObject []) = {}"
  by (rule urls_in_leaf, simp add: child_at_def split: segment.split)+

theorem resolver_terminates_witness:
  "(\<exists>document' w'. resolve_external_urls (echo_source (\<lambda>_. JNull)) (external_ref ''https://a'') () = Some (document', w')
      \<and> json_ok document' \<and> urls_in document' = {})
    \<and> (\<exists>documents w'. root_documents (echo_source (\<lambda>_. JNull)) [''k''] () = Some (documents, w'))
    \<and> (\<exists>r w'. lookup (echo_source (\<lambda>_. JNull)) [''k''] ''kyc'' (\<lambda>ident _. Some ident) () = Some (r, w'))"
proof -
  let ?src = "echo_source (\<lambda>_. JNull)"
  have bare: "no_bare_strings ?src"
    using fetch_echo_only [of "\<lambda>_. JNull"] by (fastforce simp: no_bare_strings_def)
  have roots: "roots_within (echo_source (\<lambda>_. JNull)) {''https://a''} [''k'']"
    by (auto simp: roots_within_def read_keetanet_def echo_source_def urls_in_scalar)
  have closed: "closed_world (echo_source (\<lambda>_. JNull)) {''https://a''}"
    using fetch_echo_only [of "\<lambda>_. JNull"] by (fastforce simp: closed_world_def urls_in_scalar)
  have ok: "json_ok (external_ref ''https://a'')" by (simp add: external_ref_def map_ok_def)
  have "node_at (external_ref ''https://a'') q = Some n \<Longrightarrow> as_external_url n = Some u \<Longrightarrow> u = ''https://a''" for q n u
  proof (cases q)
    case Nil
    assume "node_at (external_ref ''https://a'') q = Some n" "as_external_url n = Some u"
    with Nil show ?thesis using as_external_url_ref [of "''https://a''"] by auto
  next
    case (Cons seg r)
    assume "node_at (external_ref ''https://a'') q = Some n" "as_external_url n = Some u"
    with Cons obtain t where "node_at (JString t) r = Some n"
      by (auto simp: external_ref_def child_at_def split: segment.splits if_splits)
    then have "n = JString t" by (cases r) (auto simp: child_at_def split: segment.splits)
    with \<open>as_external_url n = Some u\<close> show ?thesis by (simp add: as_external_url_def)
  qed
  then have within: "urls_in (external_ref ''https://a'') \<subseteq> {''https://a''}" by (auto simp: urls_in_def)
  from resolver_terminates [OF closed within ok roots, of "()" "''kyc''" "\<lambda>ident _. Some ident"] bare show ?thesis by simp
qed

theorem resolver_hostile_chain_witness:
  "resolve_external_urls (echo_source (\<lambda>b. external_ref (b @ ''x''))) (external_ref ''https://'') () = None"
proof -
  define chain where "chain n = ''https://'' @ replicate n (CHR ''x'')" for n
  have "resolve_external_urls (echo_source (\<lambda>b. external_ref (b @ ''x''))) (external_ref (chain 0)) () = None"
  proof (rule resolver_hostile_chain)
    show "inj chain" by (auto simp: inj_def chain_def dest: arg_cong [where f = length])
    fix n :: nat and w
    have "to_value (external_ref u) = external_ref u" for u
      by (intro to_value_id) (simp add: external_ref_def map_ok_def)
    then show "fetch_external (echo_source (\<lambda>b. external_ref (b @ ''x''))) (chain n) w = (Some (external_ref (chain (Suc n))), w)"
      unfolding chain_def by (subst fetch_echo) (simp_all add: list_all_iff is_ascii_def replicate_append_same)
  qed
  then show ?thesis by (simp add: chain_def)
qed

section \<open>A signed entry\<close>

text \<open>An entry with no operations signed by the toy account; its envelope is written by position.\<close>

definition toy_fields_text :: string where
  "toy_fields_text = canon (signed_fields ''k'' (JObject []) None)"

definition toy_payload :: bytes where
  "toy_payload = (case format_data tlv_ops ''k'' ''n'' ''t'' [Text toy_fields_text] of Inr b \<Rightarrow> b | Inl _ \<Rightarrow> [])"

definition toy_entry :: json where
  "toy_entry = JObject [(''account'', JString ''k''), (''operations'', JObject []),
     (''signed'', JArray [JString ''n'', JString ''t'', JString (''k'' @ toy_payload)])]"

lemma toy_signed_fields:
  "signed_fields ''k'' (JObject []) None = JObject [(''account'', JString ''k''),
     (''namespace'', JString METADATA_SIGNATURE_NAMESPACE), (''operations'', JObject [])]"
  by (simp add: signed_fields_def)

lemma sort_account_namespace:
  "sort_key utf16_key [(''account'', a), (''namespace'', b), (''operations'', c)] =
     [(''account'', a), (''namespace'', b), (''operations'', c)]"
  by (simp add: utf16_key_def encode_utf16_ascii is_ascii_def)

lemma escape_plain: "list_all (\<lambda>c. 0x20 \<le> (of_char c :: nat) \<and> of_char c \<noteq> (0x22 :: nat) \<and> of_char c \<noteq> (0x5C :: nat)) s \<Longrightarrow>
  string_text s = CHR 0x22 # s @ [CHR 0x22]"
proof -
  assume a: "list_all (\<lambda>c. 0x20 \<le> (of_char c :: nat) \<and> of_char c \<noteq> (0x22 :: nat) \<and> of_char c \<noteq> (0x5C :: nat)) s"
  then have "concat (map escape_char s) = s" by (induction s) (auto simp: escape_char_def Let_def)
  then show ?thesis by (simp add: string_text_def escape_string_def)
qed

lemma toy_fields_length: "length toy_fields_text = 81"
  by (simp add: toy_fields_text_def toy_signed_fields sort_account_namespace member_text_def escape_plain
      METADATA_SIGNATURE_NAMESPACE_def)

lemma toy_signable: "object_to_signable (signed_fields ''k'' (JObject []) None) = Inr [Text toy_fields_text]"
  using toy_fields_length
  by (simp add: object_to_signable_Inr signable_value_def toy_signed_fields sort_account_namespace max_nodes_limit_def
      max_output_bytes_def toy_fields_text_def del: canon.simps)

lemma toy_format: "format_data tlv_ops ''k'' ''n'' ''t'' [Text toy_fields_text] = Inr toy_payload"
  using toy_fields_length
  by (simp add: toy_payload_def format_data_def tlv_ops_def encode_utf8_def encode_octet_def tlv_def fits_usize_def)

lemma toy_payload_fits: "fits_usize (length toy_payload)"
proof -
  have "length toy_payload < 200"
    using toy_fields_length
    by (simp add: toy_payload_def format_data_def tlv_ops_def encode_utf8_def encode_octet_def tlv_def fits_usize_def
        wrap_sequence_def encode_length_def length_significant Let_def)
  then show ?thesis by (simp add: fits_usize_def)
qed

lemma toy_entry_envelope:
  "signed_envelope_of (JArray [JString ''n'', JString ''t'', JString g]) = Some \<lparr>nonce = ''n'', timestamp = ''t'', signature = g\<rparr>"
  by (simp add: signed_envelope_of_def struct_members_def required_string_def)

lemma toy_entry_ok: "entry_signature_ok toy_env toy_entry"
proof -
  have "verify_envelope toy_env ''k'' [Text toy_fields_text] \<lparr>nonce = ''n'', timestamp = ''t'', signature = ''k'' @ toy_payload\<rparr>
      (unbounded toy_env) = Inr ()"
    using toy_format by (simp add: verify_envelope_Inr timely_def unbounded_def) (simp add: toy_env_def)
  moreover have "account_from_str toy_env ''k'' = Inr ''k''" by (simp add: toy_env_def)
  ultimately show ?thesis
    by (simp add: entry_signature_ok_def verify_entry_def toy_entry_def toy_signable toy_entry_envelope verify_body_def)
qed

text \<open>The same envelope under another legal document: its message differs, so the entry is refused.\<close>

lemma toy_entry_message:
  "entry_message toy_env ''k'' ''k'' toy_entry \<lparr>nonce = ''n'', timestamp = ''t'', signature = ''k'' @ toy_payload\<rparr> = Some toy_payload"
  using toy_format by (simp add: entry_message_def toy_entry_def toy_signable ok_def) (simp add: toy_env_def)

definition toy_forged :: json where
  "toy_forged = JObject [(''account'', JString ''k''), (''legal'', JString ''l''), (''operations'', JObject []),
     (''signed'', JArray [JString ''n'', JString ''t'', JString (''k'' @ toy_payload)])]"

theorem signed_entry_binds_witness:
  "entry_signature_ok toy_env toy_entry \<and> \<not> entry_signature_ok toy_env toy_forged"
proof -
  have valid: "json_valid toy_forged" "json_valid toy_entry" by (simp_all add: toy_forged_def toy_entry_def map_ok_def)
  note binds = signed_entry_binds [OF toy_laws(3) valid toy_payload_fits, of "''k''" "''k''" _ "''k''" "''k''"]
  have "\<not> entry_signature_ok toy_env toy_forged"
  proof
    assume "entry_signature_ok toy_env toy_forged"
    with binds have "entry_message toy_env ''k'' ''k'' toy_forged
        \<lparr>nonce = ''n'', timestamp = ''t'', signature = ''k'' @ toy_payload\<rparr> = Some toy_payload"
      by (auto simp: toy_forged_def toy_entry_envelope) (auto simp: toy_env_def)
    with binds toy_entry_message have "field (Some toy_entry) ''legal'' = field (Some toy_forged) ''legal''" by blast
    then show False by (simp add: toy_entry_def toy_forged_def field_def)
  qed
  with toy_entry_ok show ?thesis by simp
qed

end
