(* ===== verification/Kyc.thy ===== *)
theory Kyc
  imports ResolverProps
begin

text \<open>
  \<open>keetanetwork-anchor-client/src/services/kyc.rs\<close>: selecting providers by country, the countries they
  support, and the three operations of a KYC flow over the shared caller.
\<close>

section \<open>Selection\<close>

definition KYC_SERVICE :: string where "KYC_SERVICE = ''kyc''"

definition kyc_query_parse ::
    "(string \<Rightarrow> string) \<Rightarrow> country_code list \<Rightarrow> string \<Rightarrow> json \<Rightarrow> kyc_provider_info option" where
  "kyc_query_parse upper criteria ident entry =
     Option.bind (ok (kyc_provider_info_of upper ident entry)) (\<lambda>provider.
       if serves provider criteria then Some provider else None)"

datatype supported_countries = Worldwide | Countries "country_code list"

text \<open>The loop of the fold: it leaves with \<open>Worldwide\<close> at the first provider without a list.\<close>

fun collect_countries :: "country_code list \<Rightarrow> kyc_provider_info list \<Rightarrow> country_code list option" where
  "collect_countries countries [] = Some countries"
| "collect_countries countries (provider # providers) =
     (case info_country_codes provider of
        None \<Rightarrow> None
      | Some codes \<Rightarrow> collect_countries (countries @ codes) providers)"

definition supported_countries_of :: "kyc_provider_info list \<Rightarrow> supported_countries" where
  "supported_countries_of providers =
     (case collect_countries [] providers of
        None \<Rightarrow> Worldwide
      | Some countries \<Rightarrow> Countries (remdups_adj (sort countries)))"

section \<open>Responses\<close>

record expected_cost =
  cost_min :: string
  cost_max :: string
  cost_token :: string

record verification =
  ver_id :: string
  ver_web_url :: string
  ver_expected_cost :: expected_cost

record verification_status =
  vs_status :: string
  vs_requires_manual :: "bool option"

record certificate =
  cert_certificate :: string
  cert_intermediates :: "string list"

record certificates =
  certs_results :: "certificate list"

definition decode_expected_cost :: "expected_cost decoder" where
  "decode_expected_cost doc =
     bindR (doc_struct [''min'', ''max'', ''token''] doc) (\<lambda>members.
     bindR (required_string members ''min'') (\<lambda>lo.
     bindR (required_string members ''max'') (\<lambda>hi.
     bindR (required_string members ''token'') (\<lambda>token.
     Inr \<lparr>cost_min = lo, cost_max = hi, cost_token = token\<rparr>))))"

definition decode_verification :: "verification decoder" where
  "decode_verification doc =
     bindR (doc_struct [''id'', ''webURL'', ''expectedCost''] doc) (\<lambda>members.
     bindR (required_string members ''id'') (\<lambda>i.
     bindR (required_string members ''webURL'') (\<lambda>url.
     bindR (ok_or ''missing field expectedCost'' (members ''expectedCost'')) (\<lambda>cost.
     bindR (decode_expected_cost cost) (\<lambda>cost.
     Inr \<lparr>ver_id = i, ver_web_url = url, ver_expected_cost = cost\<rparr>)))))"

definition decode_verification_status :: "verification_status decoder" where
  "decode_verification_status doc =
     bindR (doc_struct [''status'', ''requiresManualVerification''] doc) (\<lambda>members.
     bindR (required_string members ''status'') (\<lambda>st.
     bindR (optional_value decode_bool (members ''requiresManualVerification'')) (\<lambda>manual.
     Inr \<lparr>vs_status = st, vs_requires_manual = manual\<rparr>)))"

definition decode_certificate :: "certificate decoder" where
  "decode_certificate doc =
     bindR (doc_struct [''certificate'', ''intermediates''] doc) (\<lambda>members.
     bindR (required_string members ''certificate'') (\<lambda>c.
     bindR (case members ''intermediates'' of None \<Rightarrow> Inr [] | Some v \<Rightarrow> decode_strings v) (\<lambda>is.
     Inr \<lparr>cert_certificate = c, cert_intermediates = is\<rparr>)))"

definition decode_certificates :: "certificates decoder" where
  "decode_certificates doc =
     bindR (doc_struct [''results''] doc) (\<lambda>members.
     bindR (ok_or ''missing field results'' (members ''results'')) (\<lambda>v.
     bindR (ok_or ''invalid type'' (as_array v)) (\<lambda>items.
     bindR (mapM_result decode_certificate items) (\<lambda>results.
     Inr \<lparr>certs_results = results\<rparr>))))"

section \<open>The client\<close>

record ('a, 't, 'w, 'u) anchor_context =
  ctx_source :: "('a, 't, 'w) metadata_source"
  ctx_roots :: "'a list"
  ctx_caller :: "('a, 't, 'w, 'u) caller"

definition kyc_lookup ::
    "(string \<Rightarrow> string) \<Rightarrow> ('a, 't, 'w, 'u) anchor_context \<Rightarrow> country_code list \<Rightarrow> 'w
     \<Rightarrow> ((client_error + kyc_provider_info list) \<times> 'w) option" where
  "kyc_lookup upper ctx countries w =
     map_option (\<lambda>(r, w). (map_err CeResolver r, w))
       (lookup (ctx_source ctx) (ctx_roots ctx) KYC_SERVICE (kyc_query_parse upper countries) w)"

definition kyc_providers ::
    "(string \<Rightarrow> string) \<Rightarrow> ('a, 't, 'w, 'u) anchor_context \<Rightarrow> country_code list \<Rightarrow> 'w
     \<Rightarrow> ((client_error + kyc_provider_info list) \<times> 'w) option" where
  "kyc_providers upper ctx countries w = kyc_lookup upper ctx countries w"

definition get_supported_countries ::
    "(string \<Rightarrow> string) \<Rightarrow> ('a, 't, 'w, 'u) anchor_context \<Rightarrow> 'w
     \<Rightarrow> ((client_error + supported_countries) \<times> 'w) option" where
  "get_supported_countries upper ctx w =
     map_option (\<lambda>(r, w). (bindR r (\<lambda>providers. Inr (supported_countries_of providers)), w))
       (kyc_lookup upper ctx [] w)"

section \<open>Operations\<close>

definition endpoint_for :: "string option \<Rightarrow> string \<Rightarrow> client_error + endpoint" where
  "endpoint_for template operation = ok_or (CeUnsupportedOperation operation) template"

definition create_request_fields :: "country_code list \<Rightarrow> string option \<Rightarrow> json" where
  "create_request_fields countries redirect_url =
     (let m = map_insert ''countryCodes'' (JArray (map JString countries)) []
      in JObject (case redirect_url of None \<Rightarrow> m | Some url \<Rightarrow> map_insert ''redirectURL'' (JString url) m))"

definition kyc_create_verification ::
    "('a, 't, 'w, 'u) anchor_context \<Rightarrow> kyc_provider_info \<Rightarrow> country_code list \<Rightarrow> string option \<Rightarrow> 'w
     \<Rightarrow> (client_error + verification anchor_outcome) \<times> 'w" where
  "kyc_create_verification ctx info countries redirect_url w =
     (case endpoint_for (create_verification (info_operations info)) ''createVerification'' of
        Inl e \<Rightarrow> (Inl e, w)
      | Inr endp \<Rightarrow>
          invoke (ctx_caller ctx) decode_verification
            \<lparr>call_endpoint = endp, call_params = [], call_method = Post, call_auth = SignedBody,
             call_signed = [], call_envelope = RequestBody,
             call_body = Some (create_request_fields countries redirect_url)\<rparr> w)"

definition kyc_get_certificates ::
    "('a, 't, 'w, 'u) anchor_context \<Rightarrow> kyc_provider_info \<Rightarrow> string \<Rightarrow> 'w
     \<Rightarrow> (client_error + certificates anchor_outcome) \<times> 'w" where
  "kyc_get_certificates ctx info ident w =
     (case endpoint_for (get_certificates (info_operations info)) ''getCertificates'' of
        Inl e \<Rightarrow> (Inl e, w)
      | Inr endp \<Rightarrow>
          invoke (ctx_caller ctx) decode_certificates
            \<lparr>call_endpoint = endp, call_params = [(''id'', ident)], call_method = Get, call_auth = AuthNone,
             call_signed = [], call_envelope = RequestBody, call_body = None\<rparr> w)"

definition kyc_get_verification_status ::
    "('a, 't, 'w, 'u) anchor_context \<Rightarrow> kyc_provider_info \<Rightarrow> string \<Rightarrow> 'w
     \<Rightarrow> (client_error + verification_status anchor_outcome) \<times> 'w" where
  "kyc_get_verification_status ctx info ident w =
     (case endpoint_for (get_verification_status (info_operations info)) ''getVerificationStatus'' of
        Inl e \<Rightarrow> (Inl e, w)
      | Inr endp \<Rightarrow>
          invoke (ctx_caller ctx) decode_verification_status
            \<lparr>call_endpoint = endp, call_params = [(''id'', ident)], call_method = Get, call_auth = SignedUrl,
             call_signed = [], call_envelope = RequestBody, call_body = None\<rparr> w)"

section \<open>Facts\<close>

lemma collect_countries_spec:
  "collect_countries cs providers =
     (if \<exists>p \<in> set providers. info_country_codes p = None then None
      else Some (cs @ concat (map (\<lambda>p. the (info_country_codes p)) providers)))"
  by (induction providers arbitrary: cs) (auto split: option.splits)

lemma strict_sorted_dedup: "sorted (xs :: 'a::linorder list) \<Longrightarrow> sorted_wrt (<) (remdups_adj xs)"
  by (induction xs rule: remdups_adj.induct) (force simp: less_le)+

lemma lookup_providers:
  assumes "lookup src roots service parse w = Some (Inr ps, w')" "p \<in> set ps"
  shows "\<exists>ident entry. parse ident entry = Some p"
proof -
  from assms obtain es where "p \<in> set (filter_map (project (ms_env src) parse) es)"
    by (auto simp: lookup_def scan_documents_entries scan_entries_spec split: option.splits if_splits)
  then obtain kv where "project (ms_env src) parse kv = Some p" by (auto simp: set_filter_map)
  then show ?thesis by (auto simp: project_def split: if_splits)
qed

text \<open>Discovery returns providers in scope only: every provider of a lookup serves all the requested
  countries, so without a list it is worldwide, and with one the list holds each of them.\<close>

lemma kyc_providers_serve:
  assumes "kyc_providers upper ctx countries w = Some (Inr ps, w')" and "p \<in> set ps" and "c \<in> set countries"
  shows "case info_country_codes p of None \<Rightarrow> True | Some codes \<Rightarrow> c \<in> set codes"
proof -
  have "lookup (ctx_source ctx) (ctx_roots ctx) KYC_SERVICE (kyc_query_parse upper countries) w = Some (Inr ps, w')"
    using assms(1) by (auto simp: kyc_providers_def kyc_lookup_def result_elims)
  from lookup_providers [OF this assms(2)] have "serves p countries"
    by (auto simp: kyc_query_parse_def bind_eq_Some_conv split: if_splits)
  with assms(3) show ?thesis
    by (auto simp: serves_def list_all_iff split: option.splits)
qed

section \<open>Properties\<close>

text \<open>The supported countries are the fold of the providers: worldwide exactly if one of them has no
  list, and otherwise the strictly sorted codes that any of them lists.\<close>

lemma supported_countries_fold:
  "case supported_countries_of providers of
     Worldwide \<Rightarrow> \<exists>p \<in> set providers. info_country_codes p = None
   | Countries cs \<Rightarrow> None \<notin> info_country_codes ` set providers \<and> sorted_wrt (<) cs
       \<and> set cs = {c. \<exists>p codes. p \<in> set providers \<and> info_country_codes p = Some codes \<and> c \<in> set codes}"
proof (cases "\<exists>p \<in> set providers. info_country_codes p = None")
  case True
  then show ?thesis by (simp add: supported_countries_of_def collect_countries_spec)
next
  case False
  then have "set (concat (map (\<lambda>p. the (info_country_codes p)) providers)) =
      {c. \<exists>p codes. p \<in> set providers \<and> info_country_codes p = Some codes \<and> c \<in> set codes}"
    by force
  with False show ?thesis
    by (auto simp: supported_countries_of_def collect_countries_spec strict_sorted_dedup simp del: set_concat)
qed


end
