(* ===== verification/Trust.thy ===== *)
theory Trust
  imports Errors
begin

text \<open>
  \<open>keetanetwork-anchor/src/trust/mod.rs\<close> and \<open>keetanetwork-anchor-client/src/trust.rs\<close>: whether an
  account's published certificates chain to a trusted issuer. Certificates and the building of chains
  belong to the X.509 crate: the record \<open>x509_ops\<close> over certificates \<open>'c\<close>, ordered as its \<open>Ord\<close> does.
\<close>

section \<open>Definitions\<close>

record ('c, 't) x509_ops =
  is_valid_at :: "'c \<Rightarrow> 't \<Rightarrow> string + bool"
  verify_chain :: "'c \<Rightarrow> 'c list \<Rightarrow> 'c list"
  parse_pem :: "string \<Rightarrow> 'c option"

record 'c certificate_record =
  leaf :: 'c
  intermediates :: "'c list"

datatype chain_status = Trusted | NoCerts | Untrusted

datatype certificate_required_kind = CrMissing | CrUntrusted

datatype trust_error = CertificateRequired certificate_required_kind

definition record_chains_to_root ::
    "('c::linorder, 't) x509_ops \<Rightarrow> 'c certificate_record \<Rightarrow> 'c set \<Rightarrow> 't \<Rightarrow> bool" where
  "record_chains_to_root ops rec roots moment =
     (if \<not> (case is_valid_at ops (leaf rec) moment of Inl _ \<Rightarrow> False | Inr b \<Rightarrow> b) then False
      else if leaf rec \<in> roots then True
      else
        let available = intermediates rec @ sorted_list_of_set roots;
            chain = verify_chain ops (leaf rec) available
        in (case chain of [] \<Rightarrow> False | _ \<Rightarrow> last chain \<in> roots))"

definition evaluate_certificate_chain ::
    "('c::linorder, 't) x509_ops \<Rightarrow> 'c certificate_record list \<Rightarrow> 'c list \<Rightarrow> 't \<Rightarrow> chain_status" where
  "evaluate_certificate_chain ops records trusted_issuers moment =
     (if records = [] then NoCerts
      else if trusted_issuers = [] then Untrusted
      else
        let roots = set trusted_issuers;
            any_trusted = list_ex (\<lambda>rec. record_chains_to_root ops rec roots moment) records
        in if any_trusted then Trusted else Untrusted)"

definition assert_certificate_chain ::
    "('c::linorder, 't) x509_ops \<Rightarrow> 'c certificate_record list \<Rightarrow> 'c list \<Rightarrow> 't \<Rightarrow> trust_error + unit" where
  "assert_certificate_chain ops records trusted_issuers moment =
     (case evaluate_certificate_chain ops records trusted_issuers moment of
        Trusted \<Rightarrow> Inr ()
      | NoCerts \<Rightarrow> Inl (CertificateRequired CrMissing)
      | Untrusted \<Rightarrow> Inl (CertificateRequired CrUntrusted))"

text \<open>A published record: the PEM of the leaf and of its intermediates.\<close>

type_synonym account_certificate = "string \<times> string list"

definition parse_record :: "('c, 't) x509_ops \<Rightarrow> account_certificate \<Rightarrow> 'c certificate_record option" where
  "parse_record ops published =
     Option.bind (parse_pem ops (fst published)) (\<lambda>c.
     Option.bind (mapM_option (parse_pem ops) (snd published)) (\<lambda>is.
     Some \<lparr>leaf = c, intermediates = is\<rparr>))"

definition evaluate_published_chain ::
    "('c::linorder, 't) x509_ops \<Rightarrow> account_certificate list \<Rightarrow> 'c list \<Rightarrow> 't \<Rightarrow> chain_status" where
  "evaluate_published_chain ops records trusted_issuers moment =
     (if records = [] then NoCerts
      else
        let parsed = filter_map (parse_record ops) records in
        if parsed = [] then Untrusted
        else evaluate_certificate_chain ops parsed trusted_issuers moment)"

definition verify_account_certificate_chain ::
    "('c::linorder, 't) x509_ops \<Rightarrow> ('a \<Rightarrow> 'w \<Rightarrow> (string + account_certificate list) \<times> 'w) \<Rightarrow> 'a \<Rightarrow> 'c list \<Rightarrow> 't
     \<Rightarrow> 'w \<Rightarrow> (resolver_error + chain_status) \<times> 'w" where
  "verify_account_certificate_chain ops client_certificates account trusted_issuers moment w =
     (case client_certificates account w of
        (Inl e, w) \<Rightarrow> (Inl (RNode e), w)
      | (Inr records, w) \<Rightarrow> (Inr (evaluate_published_chain ops records trusted_issuers moment), w))"

section \<open>Facts\<close>

text \<open>What the chains of the X.509 crate are: every certificate of one is reached from the leaf over
  verified issuers.\<close>

definition chain_laws :: "('c, 't) x509_ops \<Rightarrow> ('c \<Rightarrow> 'c \<Rightarrow> bool) \<Rightarrow> bool" where
  "chain_laws ops issued_by \<longleftrightarrow> (\<forall>c pool x. x \<in> set (verify_chain ops c pool) \<longrightarrow> issued_by\<^sup>*\<^sup>* c x)"

lemma record_chains_sound:
  assumes "chain_laws ops issued_by" "record_chains_to_root ops rec roots moment"
  shows "is_valid_at ops (leaf rec) moment = Inr True \<and> (\<exists>root \<in> roots. issued_by\<^sup>*\<^sup>* (leaf rec) root)"
proof -
  from assms(2) have v: "is_valid_at ops (leaf rec) moment = Inr True"
    by (auto simp: record_chains_to_root_def split: sum.splits if_splits)
  show ?thesis
  proof (cases "leaf rec \<in> roots")
    case False
    with assms(2) v obtain x xs where c: "verify_chain ops (leaf rec) (intermediates rec @ sorted_list_of_set roots) = x # xs"
        "last (x # xs) \<in> roots"
      by (auto simp: record_chains_to_root_def Let_def split: list.splits)
    then have "last (x # xs) \<in> set (verify_chain ops (leaf rec) (intermediates rec @ sorted_list_of_set roots))"
      by (metis last_in_set list.distinct(1))
    with c(2) assms(1) v show ?thesis unfolding chain_laws_def by blast
  qed (use v in blast)
qed

lemma parse_record_leaf:
  "parse_record ops published = Some rec \<Longrightarrow> parse_pem ops (fst published) = Some (leaf rec)"
  by (auto simp: parse_record_def bind_eq_Some_conv)

section \<open>Properties\<close>

text \<open>C16. Trust comes from the trusted issuers only: an account is \<open>Trusted\<close> only if one of its published
  certificates parses, is valid at the moment, and is reached over verified issuers from a trusted
  issuer; the intermediates it publishes are never anchors.\<close>

theorem trusted_only_through_issuers:
  assumes "chain_laws ops issued_by"
    and "evaluate_published_chain ops records trusted_issuers moment = Trusted"
  shows "\<exists>published \<in> set records. \<exists>c. parse_pem ops (fst published) = Some c
    \<and> is_valid_at ops c moment = Inr True \<and> (\<exists>root \<in> set trusted_issuers. issued_by\<^sup>*\<^sup>* c root)"
proof -
  from assms(2) have "evaluate_certificate_chain ops (filter_map (parse_record ops) records) trusted_issuers moment = Trusted"
    by (auto simp: evaluate_published_chain_def Let_def split: if_splits)
  then obtain rec where rec: "rec \<in> set (filter_map (parse_record ops) records)"
      "record_chains_to_root ops rec (set trusted_issuers) moment"
    by (auto simp: evaluate_certificate_chain_def list_ex_iff Let_def split: if_splits)
  then obtain published where "published \<in> set records" "parse_record ops published = Some rec"
    by (auto simp: set_filter_map)
  with record_chains_sound [OF assms(1) rec(2)] parse_record_leaf show ?thesis by blast
qed

text \<open>Numbers as certificates: a number is issued by its half, and \<open>1\<close> is trusted.\<close>

definition toy_x509 :: "(nat, unit) x509_ops" where
  "toy_x509 = \<lparr>is_valid_at = (\<lambda>_ _. Inr True), verify_chain = (\<lambda>c pool. filter (\<lambda>x. x = c div 2) pool),
     parse_pem = parse_uint 100\<rparr>"

theorem trusted_only_through_issuers_witness:
  "\<exists>published \<in> set [(''2'', [] :: string list)]. \<exists>c. parse_pem toy_x509 (fst published) = Some c
    \<and> is_valid_at toy_x509 c () = Inr True \<and> (\<exists>root \<in> set [1]. (\<lambda>c r. r = c div 2)\<^sup>*\<^sup>* c root)"
proof (rule trusted_only_through_issuers)
  show "chain_laws toy_x509 (\<lambda>c r. r = c div 2)" by (auto simp: chain_laws_def toy_x509_def)
  show "evaluate_published_chain toy_x509 [(''2'', [])] [1] () = Trusted"
    by (simp add: evaluate_published_chain_def parse_record_def evaluate_certificate_chain_def
        record_chains_to_root_def toy_x509_def parse_uint_def is_ascii_digit_def digits_val_def digit_val_def Let_def)
qed

end
