(* ===== verification/Oids.thy ===== *)
theory Oids
  imports Errors Json
begin

text \<open>
  \<open>keetanetwork-anchor/src/asn1/utils.rs\<close> and the base64 and JSON helpers of
  \<open>keetanetwork-anchor/src/utils.rs\<close>. The tables of object identifiers come from the shared ASN.1
  crate, the identifier type from \<open>rasn\<close>, base64 and the hashes from their crates: the record
  \<open>oid_env\<close>. A table is the list of its entries in iteration order.
\<close>

type_synonym oid = "nat list"

datatype hash_algorithm = Sha3_256 | Sha2_256 | OtherHash string

record oid_env =
  algorithm_attributes :: "(string \<times> oid) list"
  sensitive_attributes :: "(string \<times> oid) list"
  plain_attributes :: "(string \<times> oid) list"
  oid_new :: "nat list \<Rightarrow> oid option"
  oid_from_str :: "string \<Rightarrow> oid option"
  oid_to_string :: "oid \<Rightarrow> string"
  oid_sha3 :: oid
  oid_sha2 :: oid
  oid_aes_gcm :: oid
  oid_kyc_extension :: oid
  hash_bytes :: "hash_algorithm \<Rightarrow> bytes \<Rightarrow> bytes"
  hex_upper :: "bytes \<Rightarrow> string"
  b64_encode :: "bytes \<Rightarrow> string"
  b64_decode :: "string \<Rightarrow> bytes option"

section \<open>Looking up identifiers\<close>

definition get_algorithm_by_oid :: "oid_env \<Rightarrow> oid \<Rightarrow> asn1_error + string" where
  "get_algorithm_by_oid env i =
     (case filter (\<lambda>(_, stored). stored = i) (algorithm_attributes env) of
        (name, _) # _ \<Rightarrow> Inr name
      | [] \<Rightarrow> Inl (InvalidOid (''Unknown algorithm OID: '' @ oid_to_string env i)))"

definition get_sensitive_attribute_oid :: "oid_env \<Rightarrow> string \<Rightarrow> asn1_error + oid" where
  "get_sensitive_attribute_oid env name =
     ok_or (InvalidOid (''Unknown sensitive attribute: '' @ name)) (map_of (sensitive_attributes env) name)"

definition get_plain_attribute_oid :: "oid_env \<Rightarrow> string \<Rightarrow> asn1_error + oid" where
  "get_plain_attribute_oid env name =
     ok_or (InvalidOid (''Unknown plain attribute: '' @ name)) (map_of (plain_attributes env) name)"

section \<open>Parsing an identifier\<close>

fun split_char :: "char \<Rightarrow> string \<Rightarrow> string list" where
  "split_char sep [] = [[]]"
| "split_char sep (c # cs) =
     (if c = sep then [] # split_char sep cs
      else (case split_char sep cs of [] \<Rightarrow> [[c]] | w # ws \<Rightarrow> (c # w) # ws))"

text \<open>\<open>str::parse\<close> at \<open>u32\<close>, with the message of its error.\<close>

fun parse_digits :: "nat \<Rightarrow> nat \<Rightarrow> string \<Rightarrow> string + nat" where
  "parse_digits bound acc [] = Inr acc"
| "parse_digits bound acc (c # cs) =
     (if bound \<le> acc * 10 then
        (if is_ascii_digit c then Inl ''number too large to fit in target type'' else Inl ''invalid digit found in string'')
      else if \<not> is_ascii_digit c then Inl ''invalid digit found in string''
      else if bound \<le> acc * 10 + digit_val c then Inl ''number too large to fit in target type''
      else parse_digits bound (acc * 10 + digit_val c) cs)"

definition parse_u32 :: "string \<Rightarrow> string + nat" where
  "parse_u32 s =
     (case s of
        [] \<Rightarrow> Inl ''cannot parse integer from empty string''
      | c # ds \<Rightarrow>
          if c = CHR ''+'' then (if ds = [] then Inl ''invalid digit found in string'' else parse_digits (2 ^ 32) 0 ds)
          else parse_digits (2 ^ 32) 0 (c # ds))"

definition parse_oid_string :: "oid_env \<Rightarrow> string \<Rightarrow> asn1_error + oid" where
  "parse_oid_string env s =
     (case mapM_result parse_u32 (split_char (CHR ''.'') s) of
        Inl e \<Rightarrow> Inl (InvalidOid (''Failed to parse OID '' @ [CHR 0x27] @ s @ [CHR 0x27] @ '': '' @ e))
      | Inr arcs \<Rightarrow>
          ok_or (InvalidOid (''Failed to create ObjectIdentifier from '' @ [CHR 0x27] @ s @ [CHR 0x27])) (oid_new env arcs))"

section \<open>JSON helpers\<close>

definition string_object :: "(string \<times> string) list \<Rightarrow> json" where
  "string_object kvs = json_object (map (\<lambda>(k, v). (k, JString v)) kvs)"

definition extract_string :: "(string \<times> json) list \<Rightarrow> string \<Rightarrow> string + string" where
  "extract_string m name = ok_or (''Missing or invalid '' @ name) (Option.bind (map_of m name) as_str)"

definition extract_base64 :: "oid_env \<Rightarrow> (string \<times> json) list \<Rightarrow> string \<Rightarrow> string + bytes" where
  "extract_base64 env m name =
     bindR (extract_string m name) (\<lambda>s. ok_or (''Invalid base64 in '' @ name) (b64_decode env s))"

definition extract_object :: "(string \<times> json) list \<Rightarrow> string \<Rightarrow> string + (string \<times> json) list" where
  "extract_object m name = ok_or (''Missing or invalid '' @ name) (Option.bind (map_of m name) as_object)"

definition algorithm_to_oid :: "oid_env \<Rightarrow> string \<Rightarrow> string + oid" where
  "algorithm_to_oid env algorithm =
     (if algorithm = ''aes-256-gcm'' then Inr (oid_aes_gcm env)
      else if algorithm = ''sha2-256'' then Inr (oid_sha2 env)
      else if algorithm = ''sha3-256'' then Inr (oid_sha3 env)
      else Inl (''Unknown algorithm: '' @ algorithm))"

section \<open>Identifiers and their text\<close>

lemma split_char_nonempty: "split_char sep s \<noteq> []"
  by (induction s) (auto split: list.splits)

lemma split_char_append: "sep \<notin> set w \<Longrightarrow> split_char sep (w @ sep # s) = w # split_char sep s"
  by (induction w) auto

lemma split_char_word: "sep \<notin> set w \<Longrightarrow> split_char sep w = [w]"
  by (induction w) auto

text \<open>The dotted text of arcs, and its reader.\<close>

fun join_dots :: "nat list \<Rightarrow> string" where
  "join_dots [] = []"
| "join_dots [n] = show_nat n"
| "join_dots (n # ns) = show_nat n @ CHR ''.'' # join_dots ns"

lemma parse_digits_exact:
  assumes "list_all is_ascii_digit ds" "foldl (\<lambda>acc c. acc * 10 + digit_val c) acc ds < bound" "ds \<noteq> []"
  shows "parse_digits bound acc ds = Inr (foldl (\<lambda>acc c. acc * 10 + digit_val c) acc ds)"
  using assms
proof (induction ds arbitrary: acc)
  case (Cons c ds)
  have grow: "a \<le> foldl (\<lambda>acc c. acc * 10 + digit_val c) a es" for a es
  proof (induction es arbitrary: a)
    case (Cons e es)
    from Cons [of "a * 10 + digit_val e"] show ?case by simp
  qed simp
  have b: "acc * 10 + digit_val c < bound" using grow [of "acc * 10 + digit_val c" ds] Cons.prems(2) by simp
  show ?case
  proof (cases "ds = []")
    case True
    with b Cons.prems show ?thesis by simp
  next
    case False
    with b Cons.prems Cons.IH [of "acc * 10 + digit_val c"] show ?thesis by simp
  qed
qed simp

lemma parse_u32_show: "n < 2 ^ 32 \<Longrightarrow> parse_u32 (show_nat n) = Inr n"
proof -
  assume n: "n < 2 ^ 32"
  obtain c cs where s: "show_nat n = c # cs" using show_nat_nonempty [of n] by (cases "show_nat n") auto
  have d: "list_all is_ascii_digit (show_nat n)" by (rule show_nat_digits)
  with s have "c \<noteq> CHR ''+''" using plus_not_digit by auto
  moreover have "parse_digits (2 ^ 32) 0 (show_nat n) = Inr n"
    using parse_digits_exact [OF d, of 0 "2 ^ 32"] n digits_val_show_nat [of n] show_nat_nonempty
    by (simp add: digits_val_def)
  ultimately show ?thesis unfolding s parse_u32_def by simp
qed

lemma dot_not_in_show: "CHR ''.'' \<notin> set (show_nat n)"
  using show_nat_digits [of n] by (auto simp: list_all_iff is_ascii_digit_def)

lemma split_join_dots: "ns \<noteq> [] \<Longrightarrow> split_char (CHR ''.'') (join_dots ns) = map show_nat ns"
  by (induction ns rule: join_dots.induct) (simp_all add: split_char_word split_char_append dot_not_in_show)

lemma parse_oid_join:
  assumes "ns \<noteq> []" "list_all (\<lambda>n. n < 2 ^ 32) ns"
  shows "parse_oid_string env (join_dots ns) =
    ok_or (InvalidOid (''Failed to create ObjectIdentifier from '' @ [CHR 0x27] @ join_dots ns @ [CHR 0x27])) (oid_new env ns)"
proof -
  have "mapM_result parse_u32 (map show_nat ns) = Inr ns"
    using assms(2) by (induction ns) (simp_all add: parse_u32_show)
  then show ?thesis by (simp add: parse_oid_string_def split_join_dots [OF assms(1)])
qed

section \<open>A concrete instance\<close>

definition toy_oid_env :: oid_env where
  "toy_oid_env =
     \<lparr>algorithm_attributes = [(''aes-256-gcm'', [1, 2, 1]), (''sha3-256'', [1, 2, 2]), (''sha2-256'', [1, 2, 3])],
      sensitive_attributes = [(''email'', [1, 3, 6, 1, 4, 1, 62675, 1, 3])], plain_attributes = [(''postalCode'', [2, 5, 5, 17])],
      oid_new = Some, oid_from_str = (\<lambda>s. ok (mapM_result parse_u32 (split_char (CHR ''.'') s))),
      oid_to_string = join_dots, oid_sha3 = [1, 2, 2], oid_sha2 = [1, 2, 3], oid_aes_gcm = [1, 2, 1],
      oid_kyc_extension = [1, 2, 9], hash_bytes = (\<lambda>_ b. b), hex_upper = (\<lambda>b. b), b64_encode = (\<lambda>b. b), b64_decode = Some\<rparr>"

end
