(* ===== verification/ContainerCodec.thy ===== *)
theory ContainerCodec
  imports Oids
begin

text \<open>
  \<open>keetanetwork-anchor/src/encrypted_container/codec.rs\<close>, with the transport types of
  \<open>generated/encrypted_container.rs\<close>: the package of a container, sealing its body to principals, the
  detached signature, and the way back. Accounts \<open>'a\<close>, the ciphers, the hash, zlib, the DER coder, the
  hex coder and the random seeds (drawn from the world \<open>'w\<close>) are third-party: the record
  \<open>container_env\<close>, as are the two object identifiers of the shared ASN.1 crate.
\<close>

section \<open>Transport types\<close>

record key_store =
  ks_public_key :: bytes
  ks_encrypted_key :: bytes

record encrypted_box =
  eb_keys :: "key_store list"
  eb_algorithm :: oid
  eb_iv :: bytes
  eb_value :: bytes

datatype container_box = BoxEncrypted encrypted_box | BoxPlaintext bytes

record signer_info =
  si_version :: int
  si_sid :: bytes
  si_digest_algorithm :: oid
  si_signature_algorithm :: oid
  si_signature :: bytes

record container_package =
  pkg_version :: int
  pkg_container :: container_box
  pkg_signer_info :: "signer_info option"

section \<open>Third-party operations\<close>

datatype key_pair_type = ECDSASECP256K1 | ECDSASECP256R1 | ED25519 | OtherKeyType

record ('a, 'w) container_env =
  zlib_compress :: "u8 \<Rightarrow> bytes \<Rightarrow> bytes"
  zlib_decompress :: "bytes \<Rightarrow> bytes option"
  aes_encrypt :: "bytes \<Rightarrow> bytes \<Rightarrow> bytes \<Rightarrow> string + bytes"
  aes_decrypt :: "bytes \<Rightarrow> bytes \<Rightarrow> string + bytes"
  wrap_key :: "'a \<Rightarrow> bytes \<Rightarrow> 'w \<Rightarrow> (string + bytes) \<times> 'w"
  unwrap_key :: "'a \<Rightarrow> bytes \<Rightarrow> string + bytes"
  acc_sign :: "'a \<Rightarrow> bytes \<Rightarrow> string + bytes"
  acc_verify :: "'a \<Rightarrow> bytes \<Rightarrow> bytes \<Rightarrow> bool"
  public_key :: "'a \<Rightarrow> bytes"
  from_hex :: "string \<Rightarrow> string + 'a"
  hex_encode :: "bytes \<Rightarrow> string"
  has_private_key :: "'a \<Rightarrow> bool"
  keypair_type :: "'a \<Rightarrow> key_pair_type"
  sha3_256 :: "bytes \<Rightarrow> bytes"
  random_seed :: "'w \<Rightarrow> (string + bytes) \<times> 'w"
  encode_package :: "container_package \<Rightarrow> string + bytes"
  decode_package :: "bytes \<Rightarrow> string + container_package"
  oid_aes_256_cbc :: oid
  oid_sha3_256 :: oid

section \<open>Constants\<close>

definition container_version :: u64 where "container_version = 1"
definition signer_version :: u64 where "signer_version = 3"
definition zlib_level :: u8 where "zlib_level = 6"
definition aes_iv_len :: nat where "aes_iv_len = 16"
definition OID_ED25519 :: oid where "OID_ED25519 = [1, 3, 101, 112]"
definition OID_SECP256K1 :: oid where "OID_SECP256K1 = [1, 3, 132, 0, 10]"
definition OID_SECP256R1 :: oid where "OID_SECP256R1 = [1, 2, 840, 10045, 3, 1, 7]"

record cipher_material =
  cm_key :: bytes
  cm_iv :: bytes

text \<open>\<open>CipherMaterial::random\<close>: two seeds, the vector the first bytes of the second.\<close>

definition random_material :: "('a, 'w) container_env \<Rightarrow> 'w \<Rightarrow> (container_error + cipher_material) \<times> 'w" where
  "random_material env w =
     (case random_seed env w of
        (Inl e, w) \<Rightarrow> (Inl (CeCryptoError e), w)
      | (Inr key, w) \<Rightarrow>
         (case random_seed env w of
            (Inl e, w) \<Rightarrow> (Inl (CeCryptoError e), w)
          | (Inr iv_seed, w) \<Rightarrow>
              if length iv_seed < aes_iv_len then (Inl (CeCryptoError ''InvalidIvSize''), w)
              else (Inr \<lparr>cm_key = key, cm_iv = take aes_iv_len iv_seed\<rparr>, w)))"

section \<open>Bodies\<close>

record encrypted_body =
  body_stores :: "key_store list"
  body_iv :: bytes
  body_ciphertext :: bytes

datatype container_body = PlaintextBody bytes | EncryptedBody encrypted_body

record bare_container =
  bare_body :: container_body
  bare_signer_info :: "signer_info option"

record decoded_body =
  dec_compressed :: bytes
  dec_plaintext :: bytes

fun bare_is_encrypted :: "bare_container \<Rightarrow> bool" where
  "bare_is_encrypted b = (case bare_body b of EncryptedBody _ \<Rightarrow> True | PlaintextBody _ \<Rightarrow> False)"

definition compress :: "('a, 'w) container_env \<Rightarrow> bytes \<Rightarrow> bytes" where
  "compress env plain = zlib_compress env zlib_level plain"

definition decompress :: "('a, 'w) container_env \<Rightarrow> bytes \<Rightarrow> container_error + bytes" where
  "decompress env compressed = ok_or DecompressionFailed (zlib_decompress env compressed)"

section \<open>Supported algorithms\<close>

definition require :: "bool \<Rightarrow> container_error \<Rightarrow> container_error + unit" where
  "require supported err = (if supported then Inr () else Inl err)"

definition assert_cipher_supported :: "('a, 'w) container_env \<Rightarrow> oid \<Rightarrow> container_error + unit" where
  "assert_cipher_supported env i = require (i = oid_aes_256_cbc env) UnsupportedCipherAlgorithm"

definition assert_digest_supported :: "('a, 'w) container_env \<Rightarrow> oid \<Rightarrow> container_error + unit" where
  "assert_digest_supported env i = require (i = oid_sha3_256 env) UnsupportedDigestAlgorithm"

definition assert_signature_supported :: "oid \<Rightarrow> container_error + unit" where
  "assert_signature_supported i =
     require (i = OID_ED25519 \<or> i = OID_SECP256K1 \<or> i = OID_SECP256R1) UnsupportedSignatureAlgorithm"

definition signature_algorithm_oid :: "('a, 'w) container_env \<Rightarrow> 'a \<Rightarrow> container_error + oid" where
  "signature_algorithm_oid env account =
     (case keypair_type env account of
        ECDSASECP256K1 \<Rightarrow> Inr OID_SECP256K1
      | ED25519 \<Rightarrow> Inr OID_ED25519
      | ECDSASECP256R1 \<Rightarrow> Inr OID_SECP256R1
      | _ \<Rightarrow> Inl UnsupportedKeyType)"

section \<open>Sealing\<close>

fun wrap_keys ::
    "('a, 'w) container_env \<Rightarrow> bytes \<Rightarrow> 'a list \<Rightarrow> 'w \<Rightarrow> (container_error + key_store list) \<times> 'w" where
  "wrap_keys env key [] w = (Inr [], w)"
| "wrap_keys env key (acc # principals) w =
     (case wrap_key env acc key w of
        (Inl e, w) \<Rightarrow> (Inl (CeAccountError e), w)
      | (Inr wrapped, w) \<Rightarrow>
         (case wrap_keys env key principals w of
            (Inl e, w) \<Rightarrow> (Inl e, w)
          | (Inr stores, w) \<Rightarrow>
              (Inr (\<lparr>ks_public_key = public_key env acc, ks_encrypted_key = wrapped\<rparr> # stores), w)))"

definition seal_body ::
    "('a, 'w) container_env \<Rightarrow> bytes \<Rightarrow> 'a list \<Rightarrow> cipher_material \<Rightarrow> 'w
     \<Rightarrow> (container_error + container_box) \<times> 'w" where
  "seal_body env compressed principals material w =
     (case aes_encrypt env (cm_key material) (cm_iv material) compressed of
        Inl e \<Rightarrow> (Inl (CeCryptoError e), w)
      | Inr iv_and_ciphertext \<Rightarrow>
          if length iv_and_ciphertext < aes_iv_len then (Inl (CeCryptoError ''EncryptionFailed''), w)
          else case wrap_keys env (cm_key material) principals w of
            (Inl e, w) \<Rightarrow> (Inl e, w)
          | (Inr keys, w) \<Rightarrow>
              (Inr (BoxEncrypted
                 \<lparr>eb_keys = keys, eb_algorithm = oid_aes_256_cbc env, eb_iv = cm_iv material,
                  eb_value = drop aes_iv_len iv_and_ciphertext\<rparr>), w))"

definition sign_compressed :: "('a, 'w) container_env \<Rightarrow> bytes \<Rightarrow> 'a \<Rightarrow> container_error + signer_info" where
  "sign_compressed env compressed signer =
     (if \<not> has_private_key env signer then Inl SignerRequiresPrivateKey
      else
        bindR (map_err CeAccountError (acc_sign env signer (sha3_256 env compressed))) (\<lambda>sig.
        bindR (signature_algorithm_oid env signer) (\<lambda>algorithm.
        Inr \<lparr>si_version = uint signer_version, si_sid = public_key env signer,
             si_digest_algorithm = oid_sha3_256 env, si_signature_algorithm = algorithm,
             si_signature = sig\<rparr>)))"

text \<open>The third argument is the sealing: the principals and the material, or none.\<close>

definition encode ::
    "('a, 'w) container_env \<Rightarrow> bytes \<Rightarrow> ('a list \<times> cipher_material) option \<Rightarrow> 'a option \<Rightarrow> 'w
     \<Rightarrow> (container_error + bytes) \<times> 'w" where
  "encode env plain encryption signer w =
     (let compressed = compress env plain in
      case (case encryption of
              Some (principals, material) \<Rightarrow> seal_body env compressed principals material w
            | None \<Rightarrow> (Inr (BoxPlaintext compressed), w)) of
        (Inl e, w) \<Rightarrow> (Inl e, w)
      | (Inr box, w) \<Rightarrow>
          (bindR (case signer of
                    None \<Rightarrow> Inr None
                  | Some account \<Rightarrow> bindR (sign_compressed env compressed account) (\<lambda>s. Inr (Some s)))
             (\<lambda>signer_info.
           map_err (\<lambda>e. CeAsn1Error (Asn1EncodeError e))
             (encode_package env
                \<lparr>pkg_version = uint container_version, pkg_container = box, pkg_signer_info = signer_info\<rparr>)), w))"

section \<open>Opening\<close>

text \<open>\<open>u64::try_from\<close> of a big integer, the maximum when it does not fit.\<close>

definition version_u64 :: "int \<Rightarrow> u64" where
  "version_u64 i = (if 0 \<le> i \<and> i < 2 ^ 64 then word_of_int i else u64_max)"

definition parse :: "('a, 'w) container_env \<Rightarrow> bytes \<Rightarrow> container_error + bare_container" where
  "parse env encoded =
     bindR (map_err (\<lambda>e. CeAsn1Error (Asn1DecodeError e)) (decode_package env encoded)) (\<lambda>package.
     let version = version_u64 (pkg_version package) in
     if version \<noteq> container_version then Inl (UnsupportedVersion version)
     else
       bindR (case pkg_container package of
                BoxPlaintext compressed \<Rightarrow> Inr (PlaintextBody compressed)
              | BoxEncrypted encrypted \<Rightarrow>
                  bindR (assert_cipher_supported env (eb_algorithm encrypted)) (\<lambda>_.
                  Inr (EncryptedBody \<lparr>body_stores = eb_keys encrypted, body_iv = eb_iv encrypted,
                                      body_ciphertext = eb_value encrypted\<rparr>)))
         (\<lambda>body. Inr \<lparr>bare_body = body, bare_signer_info = pkg_signer_info package\<rparr>))"

text \<open>The two loops of the search: the principals for one store, and the stores.\<close>

fun try_principals :: "('a, 'w) container_env \<Rightarrow> key_store \<Rightarrow> 'a list \<Rightarrow> bytes option" where
  "try_principals env store [] = None"
| "try_principals env store (acc # principals) =
     (if public_key env acc \<noteq> ks_public_key store then try_principals env store principals
      else case unwrap_key env acc (ks_encrypted_key store) of
        Inr key \<Rightarrow> Some key
      | Inl _ \<Rightarrow> try_principals env store principals)"

fun unwrap_symmetric_key :: "('a, 'w) container_env \<Rightarrow> key_store list \<Rightarrow> 'a list \<Rightarrow> container_error + bytes" where
  "unwrap_symmetric_key env [] principals = Inl NoMatchingKey"
| "unwrap_symmetric_key env (store # stores) principals =
     (case try_principals env store principals of
        Some key \<Rightarrow> Inr key
      | None \<Rightarrow> unwrap_symmetric_key env stores principals)"

definition decrypt_body :: "('a, 'w) container_env \<Rightarrow> encrypted_body \<Rightarrow> 'a list \<Rightarrow> container_error + bytes" where
  "decrypt_body env encrypted principals =
     (if principals = [] then Inl NoKeysProvided
      else
        bindR (unwrap_symmetric_key env (body_stores encrypted) principals) (\<lambda>cipher_key.
        or_decryption_failed (aes_decrypt env cipher_key (body_iv encrypted @ body_ciphertext encrypted))))"

definition decode_body :: "('a, 'w) container_env \<Rightarrow> container_body \<Rightarrow> 'a list \<Rightarrow> container_error + decoded_body" where
  "decode_body env body principals =
     bindR (case body of
              PlaintextBody compressed \<Rightarrow> Inr compressed
            | EncryptedBody encrypted \<Rightarrow> decrypt_body env encrypted principals) (\<lambda>compressed.
     bindR (decompress env compressed) (\<lambda>plain.
     Inr \<lparr>dec_compressed = compressed, dec_plaintext = plain\<rparr>))"

definition account_from_public_key :: "('a, 'w) container_env \<Rightarrow> bytes \<Rightarrow> container_error + 'a" where
  "account_from_public_key env pk = map_err CeAccountError (from_hex env (hex_encode env pk))"

definition verify_detached :: "('a, 'w) container_env \<Rightarrow> signer_info \<Rightarrow> bytes \<Rightarrow> container_error + bool" where
  "verify_detached env info data =
     bindR (assert_digest_supported env (si_digest_algorithm info)) (\<lambda>_.
     bindR (assert_signature_supported (si_signature_algorithm info)) (\<lambda>_.
     bindR (account_from_public_key env (si_sid info)) (\<lambda>signer.
     Inr (acc_verify env signer (sha3_256 env data) (si_signature info)))))"

end
