(* ===== verification/Container.thy ===== *)
theory Container
  imports ContainerCodec
begin

text \<open>
  \<open>keetanetwork-anchor/src/encrypted_container/mod.rs\<close>: the container, its two cached forms and its
  operations. A method on \<open>&mut self\<close> returns the container after it, on its error paths too; one that
  may draw random material also threads the world.
\<close>

section \<open>State\<close>

record 'a container =
  sealed :: bool
  principals :: "'a list"
  may_access_plaintext :: bool
  signer :: "'a option"
  parsed_signer_info :: "signer_info option"
  cached_plaintext :: "bytes option"
  cached_encoded :: "bytes option"

record 'a from_plaintext_options =
  opt_locked :: "bool option"
  opt_signer :: "'a option"

definition container_new :: "'a list option \<Rightarrow> 'a option \<Rightarrow> 'a container" where
  "container_new accounts account =
     \<lparr>sealed = (accounts \<noteq> None), principals = (case accounts of None \<Rightarrow> [] | Some ps \<Rightarrow> ps),
      may_access_plaintext = True, signer = account, parsed_signer_info = None,
      cached_plaintext = Some [], cached_encoded = None\<rparr>"

definition set_plaintext :: "bytes \<Rightarrow> 'a container \<Rightarrow> 'a container" where
  "set_plaintext data c = c\<lparr>cached_plaintext := Some data, cached_encoded := None\<rparr>"

definition set_encoded :: "bytes \<Rightarrow> 'a container \<Rightarrow> 'a container" where
  "set_encoded data c = c\<lparr>cached_encoded := Some data, cached_plaintext := None\<rparr>"

definition disable_plaintext :: "'a container \<Rightarrow> 'a container" where
  "disable_plaintext c = c\<lparr>may_access_plaintext := False\<rparr>"

definition from_plaintext :: "bytes \<Rightarrow> 'a list option \<Rightarrow> 'a from_plaintext_options \<Rightarrow> 'a container" where
  "from_plaintext data accounts options =
     (let c = container_new accounts (opt_signer options);
          locked = (case opt_locked options of None \<Rightarrow> accounts \<noteq> None | Some l \<Rightarrow> l);
          c = (if locked then disable_plaintext c else c)
      in set_plaintext data c)"

definition is_encrypted :: "'a container \<Rightarrow> bool" where "is_encrypted c = sealed c"

definition is_signed :: "'a container \<Rightarrow> bool" where
  "is_signed c \<longleftrightarrow> signer c \<noteq> None \<or> parsed_signer_info c \<noteq> None"

definition get_principals :: "'a container \<Rightarrow> container_error + 'a list" where
  "get_principals c = (if \<not> sealed c then Inl AccessManagementNotAllowed else Inr (principals c))"

section \<open>Reading the encoded form\<close>

definition swap_remove :: "nat \<Rightarrow> 'a list \<Rightarrow> 'a list" where
  "swap_remove i xs = (butlast xs)[i := last xs]"

fun position :: "('a \<Rightarrow> bool) \<Rightarrow> 'a list \<Rightarrow> nat option" where
  "position q [] = None"
| "position q (x # xs) = (if q x then Some 0 else map_option Suc (position q xs))"

fun merge_principals ::
    "('a, 'w) container_env \<Rightarrow> key_store list \<Rightarrow> 'a list \<Rightarrow> container_error + 'a list" where
  "merge_principals env [] remaining = Inr []"
| "merge_principals env (store # stores) remaining =
     (case position (\<lambda>p. public_key env p = ks_public_key store) remaining of
        Some index \<Rightarrow>
          bindR (merge_principals env stores (swap_remove index remaining)) (\<lambda>merged.
          Inr (remaining ! index # merged))
      | None \<Rightarrow>
          bindR (account_from_public_key env (ks_public_key store)) (\<lambda>account.
          bindR (merge_principals env stores remaining) (\<lambda>merged. Inr (account # merged))))"

text \<open>The provided accounts are taken out of the container first, so they are lost when the merge fails.\<close>

definition compute_and_set_key_info ::
    "('a, 'w) container_env \<Rightarrow> bool \<Rightarrow> 'a container \<Rightarrow> (container_error + bare_container) \<times> 'a container" where
  "compute_and_set_key_info env must_be_encrypted c =
     (case bindR (ok_or NoEncodedDataAvailable (cached_encoded c)) (parse env) of
        Inl e \<Rightarrow> (Inl e, c)
      | Inr bare \<Rightarrow>
          if must_be_encrypted \<and> \<not> bare_is_encrypted bare then (Inl EncryptionRequired, c)
          else case (case bare_body bare of
              EncryptedBody encrypted \<Rightarrow>
                if \<not> sealed c then (Inl InvalidPrincipals, c)
                else (case merge_principals env (body_stores encrypted) (principals c) of
                    Inl e \<Rightarrow> (Inl e, c\<lparr>principals := []\<rparr>)
                  | Inr merged \<Rightarrow> (Inr (), c\<lparr>principals := merged, sealed := True\<rparr>))
            | PlaintextBody _ \<Rightarrow> (Inr (), c\<lparr>sealed := False, principals := []\<rparr>)) of
            (Inl e, c) \<Rightarrow> (Inl e, c)
          | (Inr (), c) \<Rightarrow>
              (Inr bare, case bare_signer_info bare of
                 None \<Rightarrow> c | Some info \<Rightarrow> c\<lparr>parsed_signer_info := Some info\<rparr>))"

definition decode_from_encoded ::
    "('a, 'w) container_env \<Rightarrow> 'a container \<Rightarrow> (container_error + decoded_body) \<times> 'a container" where
  "decode_from_encoded env c =
     (if cached_encoded c = None then (Inl NoEncodedDataAvailable, c)
      else case compute_and_set_key_info env (sealed c) c of
        (Inl e, c) \<Rightarrow> (Inl e, c)
      | (Inr bare, c) \<Rightarrow>
          (decode_body env (bare_body bare) (if bare_is_encrypted bare then principals c else []), c))"

definition compute_plaintext ::
    "('a, 'w) container_env \<Rightarrow> 'a container \<Rightarrow> (container_error + unit) \<times> 'a container" where
  "compute_plaintext env c =
     (if cached_plaintext c \<noteq> None then (Inr (), c)
      else case decode_from_encoded env c of
        (Inl e, c) \<Rightarrow> (Inl e, c)
      | (Inr decoded, c) \<Rightarrow> (Inr (), c\<lparr>cached_plaintext := Some (dec_plaintext decoded)\<rparr>))"

definition get_plaintext ::
    "('a, 'w) container_env \<Rightarrow> 'a container \<Rightarrow> (container_error + bytes) \<times> 'a container" where
  "get_plaintext env c =
     (if \<not> may_access_plaintext c then (Inl PlaintextDisabled, c)
      else case compute_plaintext env c of
        (Inl e, c) \<Rightarrow> (Inl e, c)
      | (Inr (), c) \<Rightarrow> (ok_or NoPlaintextAvailable (cached_plaintext c), c))"

text \<open>The constructors from bytes: on an error there is no container.\<close>

definition from_encoded ::
    "('a, 'w) container_env \<Rightarrow> bytes \<Rightarrow> 'a list option \<Rightarrow> container_error + 'a container" where
  "from_encoded env data accounts =
     (case compute_and_set_key_info env False (set_encoded data (container_new accounts None)) of
        (Inl e, _) \<Rightarrow> Inl e
      | (Inr _, c) \<Rightarrow> Inr c)"

definition from_encrypted ::
    "('a, 'w) container_env \<Rightarrow> bytes \<Rightarrow> 'a list \<Rightarrow> container_error + 'a container" where
  "from_encrypted env data accounts =
     (case compute_and_set_key_info env True (set_encoded data (container_new (Some accounts) None)) of
        (Inl e, _) \<Rightarrow> Inl e
      | (Inr _, c) \<Rightarrow> Inr c)"

section \<open>Writing the encoded form\<close>

definition encode_plaintext ::
    "('a, 'w) container_env \<Rightarrow> 'a container \<Rightarrow> 'w \<Rightarrow> (container_error + bytes) \<times> 'w" where
  "encode_plaintext env c w =
     (case cached_plaintext c of
        None \<Rightarrow> (Inl NoPlaintextAvailable, w)
      | Some plain \<Rightarrow> encode env plain None (signer c) w)"

definition encode_encrypted ::
    "('a, 'w) container_env \<Rightarrow> 'a container \<Rightarrow> 'w \<Rightarrow> (container_error + bytes) \<times> 'w" where
  "encode_encrypted env c w =
     (case cached_plaintext c of
        None \<Rightarrow> (Inl NoPlaintextAvailable, w)
      | Some plain \<Rightarrow>
          if principals c = [] then (Inl EncryptionRequired, w)
          else case random_material env w of
            (Inl e, w) \<Rightarrow> (Inl e, w)
          | (Inr material, w) \<Rightarrow> encode env plain (Some (principals c, material)) (signer c) w)"

definition compute_encoded ::
    "('a, 'w) container_env \<Rightarrow> 'a container \<Rightarrow> 'w \<Rightarrow> (container_error + unit) \<times> 'a container \<times> 'w" where
  "compute_encoded env c w =
     (if cached_encoded c \<noteq> None then (Inr (), c, w)
      else case (if sealed c then encode_encrypted env c w else encode_plaintext env c w) of
        (Inl e, w) \<Rightarrow> (Inl e, c, w)
      | (Inr computed, w) \<Rightarrow> (Inr (), c\<lparr>cached_encoded := Some computed\<rparr>, w))"

definition get_encoded ::
    "('a, 'w) container_env \<Rightarrow> 'a container \<Rightarrow> 'w \<Rightarrow> (container_error + bytes) \<times> 'a container \<times> 'w" where
  "get_encoded env c w =
     (case compute_encoded env c w of
        (Inl e, c, w) \<Rightarrow> (Inl e, c, w)
      | (Inr (), c, w) \<Rightarrow> (ok_or NoEncodedDataAvailable (cached_encoded c), c, w))"

section \<open>Access\<close>

definition assert_access_management_allowed :: "'a container \<Rightarrow> container_error + unit" where
  "assert_access_management_allowed c = (if sealed c then Inr () else Inl AccessManagementNotAllowed)"

definition grant_access ::
    "('a, 'w) container_env \<Rightarrow> 'a list \<Rightarrow> 'a container \<Rightarrow> (container_error + unit) \<times> 'a container" where
  "grant_access env accounts c =
     (case compute_plaintext env c of
        (Inl e, c) \<Rightarrow> (Inl e, c)
      | (Inr (), c) \<Rightarrow>
         (case assert_access_management_allowed c of
            Inl e \<Rightarrow> (Inl e, c)
          | Inr () \<Rightarrow> (Inr (), c\<lparr>cached_encoded := None, principals := principals c @ accounts\<rparr>)))"

definition revoke_access ::
    "('a, 'w) container_env \<Rightarrow> bytes \<Rightarrow> 'a container \<Rightarrow> (container_error + unit) \<times> 'a container" where
  "revoke_access env target c =
     (case compute_plaintext env c of
        (Inl e, c) \<Rightarrow> (Inl e, c)
      | (Inr (), c) \<Rightarrow>
         (case assert_access_management_allowed c of
            Inl e \<Rightarrow> (Inl e, c)
          | Inr () \<Rightarrow>
              (Inr (), c\<lparr>cached_encoded := None,
                         principals := filter (\<lambda>p. public_key env p \<noteq> target) (principals c)\<rparr>)))"

section \<open>Signatures\<close>

definition signing_account :: "('a, 'w) container_env \<Rightarrow> 'a container \<Rightarrow> container_error + 'a option" where
  "signing_account env c =
     (case signer c of
        Some s \<Rightarrow> bindR (account_from_public_key env (public_key env s)) (\<lambda>a. Inr (Some a))
      | None \<Rightarrow>
         (case parsed_signer_info c of
            Some info \<Rightarrow> bindR (account_from_public_key env (si_sid info)) (\<lambda>a. Inr (Some a))
          | None \<Rightarrow> Inr None))"

text \<open>The signer is moved out first: it is gone when its public form cannot be built.\<close>

definition take_signing_account ::
    "('a, 'w) container_env \<Rightarrow> 'a container \<Rightarrow> (container_error + 'a option) \<times> 'a container" where
  "take_signing_account env c =
     (case signer c of
        None \<Rightarrow> (Inr None, c)
      | Some s \<Rightarrow>
         (case account_from_public_key env (public_key env s) of
            Inl e \<Rightarrow> (Inl e, c\<lparr>signer := None\<rparr>)
          | Inr public_only \<Rightarrow> (Inr (Some s), c\<lparr>signer := Some public_only\<rparr>)))"

definition ensure_signer_info_parsed ::
    "('a, 'w) container_env \<Rightarrow> 'a container \<Rightarrow> 'w \<Rightarrow> (container_error + unit) \<times> 'a container \<times> 'w" where
  "ensure_signer_info_parsed env c w =
     (if \<not> (parsed_signer_info c = None \<and> signer c \<noteq> None) then (Inr (), c, w)
      else case compute_encoded env c w of
        (Inl e, c, w) \<Rightarrow> (Inl e, c, w)
      | (Inr (), c, w) \<Rightarrow>
         (case bindR (ok_or NoEncodedDataAvailable (cached_encoded c)) (parse env) of
            Inl e \<Rightarrow> (Inl e, c, w)
          | Inr bare \<Rightarrow>
              (Inr (), case bare_signer_info bare of
                 None \<Rightarrow> c | Some info \<Rightarrow> c\<lparr>parsed_signer_info := Some info\<rparr>, w)))"

definition compute_signed_compressed ::
    "('a, 'w) container_env \<Rightarrow> 'a container \<Rightarrow> (container_error + bytes) \<times> 'a container" where
  "compute_signed_compressed env c =
     (case decode_from_encoded env c of (r, c) \<Rightarrow> (bindR r (\<lambda>decoded. Inr (dec_compressed decoded)), c))"

definition verify_signature ::
    "('a, 'w) container_env \<Rightarrow> 'a container \<Rightarrow> 'w \<Rightarrow> (container_error + bool) \<times> 'a container \<times> 'w" where
  "verify_signature env c w =
     (case ensure_signer_info_parsed env c w of
        (Inl e, c, w) \<Rightarrow> (Inl e, c, w)
      | (Inr (), c, w) \<Rightarrow>
         (case parsed_signer_info c of
            None \<Rightarrow> (Inl NotSigned, c, w)
          | Some info \<Rightarrow>
             (case compute_signed_compressed env c of
                (Inl e, c) \<Rightarrow> (Inl e, c, w)
              | (Inr compressed, c) \<Rightarrow> (verify_detached env info compressed, c, w))))"

end
