(* ===== verification/ContainerFacts.thy ===== *)
theory ContainerFacts
  imports Container "HOL-Library.Multiset"
begin

text \<open>
  What the container relies on in its codec, and the facts about sealing, opening and merging that the
  properties of the container rest on. \<open>container_laws\<close> is the documented behaviour of the third-party
  operations: zlib and DER read back what they wrote, the cipher returns its vector in front of a
  ciphertext that its key opens, a key wrapped to a public key is unwrapped by the accounts with its
  private key and by no other, and an account made from a public key has that key only.
\<close>

section \<open>The laws of the third-party operations\<close>

definition opens_with :: "('a, 'w) container_env \<Rightarrow> bytes \<Rightarrow> key_store \<Rightarrow> bool" where
  "opens_with env key store \<longleftrightarrow> (\<forall>q. public_key env q = ks_public_key store \<longrightarrow>
     (has_private_key env q \<longrightarrow> unwrap_key env q (ks_encrypted_key store) = Inr key)
     \<and> (\<not> has_private_key env q \<longrightarrow> (\<exists>e. unwrap_key env q (ks_encrypted_key store) = Inl e)))"

definition codec_laws :: "('a, 'w) container_env \<Rightarrow> bool" where
  "codec_laws env \<longleftrightarrow>
     (\<forall>p. zlib_decompress env (zlib_compress env zlib_level p) = Some p)
   \<and> (\<forall>pkg b. encode_package env pkg = Inr b \<longrightarrow> decode_package env b = Inr pkg)
   \<and> (\<forall>key iv c x. length iv = aes_iv_len \<longrightarrow> aes_encrypt env key iv c = Inr x \<longrightarrow>
        take aes_iv_len x = iv \<and> aes_decrypt env key x = Inr c)"

definition key_laws :: "('a, 'w) container_env \<Rightarrow> bool" where
  "key_laws env \<longleftrightarrow>
     (\<forall>p key w x w'. wrap_key env p key w = (Inr x, w') \<longrightarrow>
        opens_with env key \<lparr>ks_public_key = public_key env p, ks_encrypted_key = x\<rparr>)
   \<and> (\<forall>pk a. account_from_public_key env pk = Inr a \<longrightarrow> public_key env a = pk \<and> \<not> has_private_key env a)
   \<and> (\<forall>a. \<exists>b. account_from_public_key env (public_key env a) = Inr b)"

definition sign_laws :: "('a, 'w) container_env \<Rightarrow> bool" where
  "sign_laws env \<longleftrightarrow> (\<forall>a b m s. acc_sign env a m = Inr s \<longrightarrow> public_key env b = public_key env a \<longrightarrow> acc_verify env b m s)"

section \<open>The contract of the codec\<close>

text \<open>What the cached bytes of a container stand for: \<open>carries e p\<close> when they hold the payload \<open>p\<close>. An
  encoder produces bytes that carry its input and a decoder returns what its input carries, so the
  pair of caches stays coherent whichever of them is filled from the other.\<close>

locale payload_codec =
  fixes lawful :: "'env \<Rightarrow> bool"
    and enc :: "'env \<Rightarrow> bytes \<Rightarrow> 's \<Rightarrow> 'w \<Rightarrow> ('e + bytes) \<times> 'w"
    and dec :: "'env \<Rightarrow> bytes \<Rightarrow> 'k \<Rightarrow> 'e + bytes"
    and carries :: "'env \<Rightarrow> bytes \<Rightarrow> bytes \<Rightarrow> bool"
  assumes enc_carries: "lawful env \<Longrightarrow> enc env p s w = (Inr e, w') \<Longrightarrow> carries env e p"
    and dec_carries: "dec env e k = Inr p \<Longrightarrow> carries env e p"
begin

lemma fill_encoded:
  assumes "lawful env" "plain = Some p" "enc env p s w = (Inr e, w')"
  shows "\<forall>q. plain = Some q \<longrightarrow> carries env e q"
  using assms enc_carries by auto

lemma fill_plaintext:
  assumes "encoded = Some e" "dec env e k = Inr p"
  shows "\<forall>x. encoded = Some x \<longrightarrow> carries env x p"
  using assms dec_carries by auto

lemma transcode:
  assumes "lawful env" "dec env e k = Inr p" "enc env p s w = (Inr e', w')"
  shows "carries env e p \<and> carries env e' p"
  using assms enc_carries dec_carries by blast

end

definition body_carries :: "('a, 'w) container_env \<Rightarrow> container_body \<Rightarrow> bytes \<Rightarrow> bool" where
  "body_carries env body p =
     (case body of
        PlaintextBody c \<Rightarrow> zlib_decompress env c = Some p
      | EncryptedBody b \<Rightarrow> \<exists>key c. aes_decrypt env key (body_iv b @ body_ciphertext b) = Inr c
          \<and> zlib_decompress env c = Some p)"

definition carries :: "('a, 'w) container_env \<Rightarrow> bytes \<Rightarrow> bytes \<Rightarrow> bool" where
  "carries env e p \<longleftrightarrow> (\<exists>bare. parse env e = Inr bare \<and> body_carries env (bare_body bare) p)"

definition material_ok :: "cipher_material \<Rightarrow> bool" where
  "material_ok m \<longleftrightarrow> length (cm_iv m) = aes_iv_len"

text \<open>The encoder and decoder of the contract, with the sealing and the signer as one argument.\<close>

definition encode_for ::
    "('a, 'w) container_env \<Rightarrow> bytes \<Rightarrow> ('a list \<times> cipher_material) option \<times> 'a option \<Rightarrow> 'w
     \<Rightarrow> (container_error + bytes) \<times> 'w" where
  "encode_for env p s w =
     (if case fst s of None \<Rightarrow> True | Some (_, m) \<Rightarrow> material_ok m then encode env p (fst s) (snd s) w
      else (Inl (CeCryptoError ''InvalidIvSize''), w))"

definition decode_with :: "('a, 'w) container_env \<Rightarrow> bytes \<Rightarrow> 'a list \<Rightarrow> container_error + bytes" where
  "decode_with env e ps =
     bindR (parse env e) (\<lambda>bare. bindR (decode_body env (bare_body bare) ps) (\<lambda>d. Inr (dec_plaintext d)))"

section \<open>Sealing\<close>

lemma version_ok: "version_u64 (uint container_version) = container_version"
  by (simp add: version_u64_def container_version_def)

lemma wrapped_opens:
  "key_laws env \<Longrightarrow> wrap_key env p key w = (Inr x, w')
    \<Longrightarrow> opens_with env key \<lparr>ks_public_key = public_key env p, ks_encrypted_key = x\<rparr>"
  unfolding key_laws_def by blast

lemma wrap_keys_stores:
  assumes "key_laws env" "wrap_keys env key ps w = (Inr stores, w')"
  shows "map ks_public_key stores = map (public_key env) ps \<and> (\<forall>s \<in> set stores. opens_with env key s)"
  using assms(2)
proof (induction ps arbitrary: w stores w')
  case (Cons p ps)
  then show ?case using wrapped_opens [OF assms(1)] by (auto split: prod.splits sum.splits)
qed simp

text \<open>The signer part of a package.\<close>

definition signer_part :: "('a, 'w) container_env \<Rightarrow> bytes \<Rightarrow> 'a option \<Rightarrow> container_error + signer_info option" where
  "signer_part env compressed s =
     (case s of None \<Rightarrow> Inr None | Some account \<Rightarrow> bindR (sign_compressed env compressed account) (\<lambda>i. Inr (Some i)))"

lemma encode_plain_parse:
  assumes "codec_laws env" "encode env p None s w = (Inr e, w')"
  shows "\<exists>info. parse env e = Inr \<lparr>bare_body = PlaintextBody (compress env p), bare_signer_info = info\<rparr>
    \<and> signer_part env (compress env p) s = Inr info"
proof -
  from assms(2) obtain info where i: "signer_part env (compress env p) s = Inr info"
      "encode_package env \<lparr>pkg_version = uint container_version, pkg_container = BoxPlaintext (compress env p),
         pkg_signer_info = info\<rparr> = Inr e"
    by (auto simp: encode_def Let_def result_elims signer_part_def [symmetric])
  with assms(1) have "decode_package env e = Inr \<lparr>pkg_version = uint container_version,
      pkg_container = BoxPlaintext (compress env p), pkg_signer_info = info\<rparr>" by (simp add: codec_laws_def)
  with i(1) show ?thesis by (simp add: parse_def version_ok)
qed

lemma encode_sealed_parse:
  assumes "codec_laws env" "encode env p (Some (ps, m)) s w = (Inr e, w')" "material_ok m"
  shows "\<exists>info stores ct w1 w2. parse env e = Inr \<lparr>bare_body = EncryptedBody
        \<lparr>body_stores = stores, body_iv = cm_iv m, body_ciphertext = ct\<rparr>, bare_signer_info = info\<rparr>
    \<and> signer_part env (compress env p) s = Inr info
    \<and> wrap_keys env (cm_key m) ps w1 = (Inr stores, w2)
    \<and> aes_decrypt env (cm_key m) (cm_iv m @ ct) = Inr (compress env p)"
proof -
  from assms(2) obtain box w1 where b: "seal_body env (compress env p) ps m w = (Inr box, w1)"
    and e: "bindR (signer_part env (compress env p) s) (\<lambda>info. map_err (\<lambda>e. CeAsn1Error (Asn1EncodeError e))
        (encode_package env \<lparr>pkg_version = uint container_version, pkg_container = box, pkg_signer_info = info\<rparr>)) = Inr e"
    by (auto simp: encode_def Let_def signer_part_def [symmetric] split: prod.splits sum.splits)
  from b obtain x keys w2 where x: "aes_encrypt env (cm_key m) (cm_iv m) (compress env p) = Inr x"
      "wrap_keys env (cm_key m) ps w = (Inr keys, w2)"
    and box: "box = BoxEncrypted \<lparr>eb_keys = keys, eb_algorithm = oid_aes_256_cbc env, eb_iv = cm_iv m,
        eb_value = drop aes_iv_len x\<rparr>"
    by (auto simp: seal_body_def split: prod.splits sum.splits if_splits)
  have "cm_iv m @ drop aes_iv_len x = x" "aes_decrypt env (cm_key m) x = Inr (compress env p)"
    using assms(1,3) x(1) unfolding codec_laws_def material_ok_def by (metis append_take_drop_id)+
  moreover from e obtain info where i: "signer_part env (compress env p) s = Inr info"
      "decode_package env e = Inr \<lparr>pkg_version = uint container_version, pkg_container = box, pkg_signer_info = info\<rparr>"
    using assms(1) by (auto simp: result_elims codec_laws_def)
  moreover have "parse env e = Inr \<lparr>bare_body = EncryptedBody
        \<lparr>body_stores = keys, body_iv = cm_iv m, body_ciphertext = drop aes_iv_len x\<rparr>, bare_signer_info = info\<rparr>"
    by (simp add: parse_def i(2) version_ok box assert_cipher_supported_def require_def)
  ultimately show ?thesis using x(2) by metis
qed

lemma decompress_compress: "codec_laws env \<Longrightarrow> zlib_decompress env (compress env p) = Some p"
  by (simp add: codec_laws_def compress_def)

lemma encode_carries:
  assumes "codec_laws env" "encode env p sealing s w = (Inr e, w')"
    and "\<And>ps m. sealing = Some (ps, m) \<Longrightarrow> material_ok m"
  shows "carries env e p"
proof (cases sealing)
  case None
  with encode_plain_parse [OF assms(1)] assms(2) decompress_compress [OF assms(1)] show ?thesis
    by (fastforce simp: carries_def body_carries_def)
next
  case (Some s)
  then obtain ps m where s: "sealing = Some (ps, m)" by (cases s) auto
  with encode_sealed_parse [OF assms(1)] assms(2,3) decompress_compress [OF assms(1)] show ?thesis
    by (fastforce simp: carries_def body_carries_def)
qed

lemma decode_body_carries:
  assumes "decode_body env body ps = Inr d"
  shows "body_carries env body (dec_plaintext d)"
proof -
  from assms obtain c where c: "(case body of PlaintextBody c \<Rightarrow> Inr c | EncryptedBody b \<Rightarrow> decrypt_body env b ps) = Inr c"
      "zlib_decompress env c = Some (dec_plaintext d)"
    by (auto simp: decode_body_def decompress_def result_elims)
  then show ?thesis
    by (cases body) (auto simp: body_carries_def decrypt_body_def or_decryption_failed_def result_elims
        split: if_splits)
qed

interpretation container_codec: payload_codec codec_laws encode_for decode_with carries
proof unfold_locales
  fix env :: "('a, 'b) container_env" and p s w e w'
  assume "codec_laws env" "encode_for env p s w = (Inr e, w')"
  then show "carries env e p"
    by (auto simp: encode_for_def split: if_splits intro: encode_carries)
next
  fix env :: "('a, 'b) container_env" and e ps p
  assume "decode_with env e ps = Inr p"
  then show "carries env e p"
    by (auto simp: decode_with_def carries_def result_elims dest: decode_body_carries)
qed

section \<open>Opening\<close>

lemma try_principals_opens:
  "opens_with env key store \<Longrightarrow> try_principals env store ps =
     (if \<exists>q \<in> set ps. has_private_key env q \<and> public_key env q = ks_public_key store then Some key else None)"
  by (induction ps) (auto simp: opens_with_def split: sum.splits)

text \<open>The search over stores that one key opens finds it exactly for an account that holds the private
  key of one of them.\<close>

lemma unwrap_exact:
  "\<forall>s \<in> set stores. opens_with env key s \<Longrightarrow> unwrap_symmetric_key env stores ps =
     (if \<exists>q \<in> set ps. has_private_key env q \<and> public_key env q \<in> ks_public_key ` set stores
      then Inr key else Inl NoMatchingKey)"
proof (induction stores)
  case (Cons s stores)
  then have "unwrap_symmetric_key env (s # stores) ps =
      (if \<exists>q \<in> set ps. has_private_key env q \<and> public_key env q = ks_public_key s then Inr key
       else if \<exists>q \<in> set ps. has_private_key env q \<and> public_key env q \<in> ks_public_key ` set stores
       then Inr key else Inl NoMatchingKey)"
    using try_principals_opens [of env key s ps] by simp
  then show ?case by auto
qed simp

section \<open>Merging the provided accounts\<close>

lemma position_Some:
  "position q xs = Some i \<Longrightarrow> i < length xs \<and> q (xs ! i)"
  by (induction xs arbitrary: i) (auto split: if_splits)

lemma position_None: "position q xs = None \<longleftrightarrow> (\<forall>x \<in> set xs. \<not> q x)"
  by (induction xs) auto

lemma mset_swap_remove: "i < length xs \<Longrightarrow> mset (swap_remove i xs) = mset xs - {#xs ! i#}"
proof -
  assume i: "i < length xs"
  then obtain ys y where xs: "xs = ys @ [y]" by (cases xs rule: rev_cases) auto
  show ?thesis
  proof (cases "i = length ys")
    case False
    with i xs have "i < length ys" by simp
    with xs show ?thesis by (simp add: swap_remove_def mset_update nth_append)
  qed (simp add: xs swap_remove_def list_update_beyond)
qed

lemma swap_remove_other:
  "i < length xs \<Longrightarrow> x \<noteq> xs ! i \<Longrightarrow> x \<in> set (swap_remove i xs) \<longleftrightarrow> x \<in> set xs"
  by (metis mset_swap_remove set_mset_mset in_diff_count count_single diff_zero count_greater_zero_iff)

lemma swap_remove_subset: "i < length xs \<Longrightarrow> set (swap_remove i xs) \<subseteq> set xs"
  by (metis mset_swap_remove set_mset_mset in_diffD subsetI)

lemma merge_principals_ok:
  assumes "key_laws env"
  shows "\<forall>s \<in> set stores. \<exists>a. public_key env a = ks_public_key s
    \<Longrightarrow> \<exists>merged. merge_principals env stores provided = Inr merged"
proof (induction stores arbitrary: provided)
  case (Cons s stores)
  then obtain a where "public_key env a = ks_public_key s" by auto
  with assms obtain b where "account_from_public_key env (ks_public_key s) = Inr b"
    unfolding key_laws_def by metis
  moreover have "\<exists>merged. merge_principals env stores xs = Inr merged" for xs using Cons by simp
  then obtain f where "merge_principals env stores xs = Inr (f xs)" for xs by metis
  ultimately show ?case by (simp split: option.splits)
qed simp

text \<open>Every merged account carries the key of its store, and is one of those provided or a public-only one.\<close>

lemma merge_principals_sound:
  assumes "key_laws env" "merge_principals env stores provided = Inr merged"
  shows "map (public_key env) merged = map ks_public_key stores
    \<and> (\<forall>p \<in> set merged. has_private_key env p \<longrightarrow> p \<in> set provided)"
  using assms(2)
proof (induction stores arbitrary: provided merged)
  case (Cons s stores)
  show ?case
  proof (cases "position (\<lambda>p. public_key env p = ks_public_key s) provided")
    case None
    with Cons assms(1) show ?thesis by (fastforce simp: result_elims key_laws_def)
  next
    case (Some i)
    from position_Some [OF Some] swap_remove_subset Cons Some show ?thesis
      by (fastforce simp: result_elims)
  qed
qed simp

text \<open>An account that holds the private key of some store is kept, provided no public-only copy of it is
  in front.\<close>

lemma merge_principals_keeps:
  assumes "merge_principals env stores provided = Inr merged" "pk \<in> ks_public_key ` set stores"
    and "q \<in> set provided" "public_key env q = pk"
    and "\<forall>p \<in> set provided. public_key env p = pk \<longrightarrow> has_private_key env p"
  shows "\<exists>p \<in> set merged. has_private_key env p \<and> public_key env p = pk"
  using assms
proof (induction stores arbitrary: provided merged)
  case (Cons s stores)
  show ?case
  proof (cases "position (\<lambda>p. public_key env p = ks_public_key s) provided")
    case None
    with Cons.prems have "pk \<noteq> ks_public_key s" by (auto simp: position_None)
    with None Cons show ?thesis by (fastforce simp: result_elims)
  next
    case (Some i)
    note i = position_Some [OF Some]
    from Some Cons.prems(1) obtain rest where r: "merge_principals env stores (swap_remove i provided) = Inr rest"
        "merged = provided ! i # rest" by (auto simp: result_elims)
    show ?thesis
    proof (cases "ks_public_key s = pk")
      case True
      with i r Cons.prems(5) show ?thesis by auto
    next
      case False
      with i Cons.prems(4) have "q \<noteq> provided ! i" by auto
      with i Cons.prems(3) have "q \<in> set (swap_remove i provided)" by (simp add: swap_remove_other)
      moreover have "pk \<in> ks_public_key ` set stores" using False Cons.prems(2) by auto
      moreover have "\<forall>p \<in> set (swap_remove i provided). public_key env p = pk \<longrightarrow> has_private_key env p"
        using Cons.prems(5) i swap_remove_subset by blast
      ultimately show ?thesis using Cons.IH [OF r(1)] Cons.prems(4) r(2) by auto
    qed
  qed
qed simp

end
