(* ===== verification/ContainerProps.thy ===== *)
theory ContainerProps
  imports ContainerFacts
begin

text \<open>
  The properties of the container: who can open what it exports, what becomes of a signature, and the
  invariant of its two cached forms over every sequence of its operations.
\<close>

section \<open>Exporting\<close>

lemma random_material_ok: "random_material env w = (Inr m, w') \<Longrightarrow> material_ok m"
  by (auto simp: random_material_def material_ok_def aes_iv_len_def split: prod.splits sum.splits if_splits)

text \<open>The sealed form of a payload: what the exported bytes of a sealed container parse to.\<close>

definition sealed_form ::
    "('a, 'w) container_env \<Rightarrow> bytes \<Rightarrow> bytes list \<Rightarrow> bytes \<Rightarrow> signer_info option \<Rightarrow> bool" where
  "sealed_form env e keys p info \<longleftrightarrow> (\<exists>b key. parse env e = Inr \<lparr>bare_body = EncryptedBody b, bare_signer_info = info\<rparr>
     \<and> map ks_public_key (body_stores b) = keys \<and> (\<forall>s \<in> set (body_stores b). opens_with env key s)
     \<and> aes_decrypt env key (body_iv b @ body_ciphertext b) = Inr (compress env p))"

lemma get_encoded_fresh:
  assumes "cached_plaintext c = Some p" "cached_encoded c = None" "get_encoded env c w = (Inr e, c', w')"
  shows "c' = c\<lparr>cached_encoded := Some e\<rparr>
    \<and> (if sealed c then encode_encrypted env c w else encode_plaintext env c w) = (Inr e, w')"
proof -
  obtain r v where r: "(if sealed c then encode_encrypted env c w else encode_plaintext env c w) = (r, v)"
    by (metis surj_pair)
  then have "compute_encoded env c w = (case r of Inl e \<Rightarrow> (Inl e, c, v) | Inr x \<Rightarrow> (Inr (), c\<lparr>cached_encoded := Some x\<rparr>, v))"
    by (simp add: compute_encoded_def assms(2) split: sum.splits)
  with assms(3) r show ?thesis by (cases r) (simp_all add: get_encoded_def)
qed

lemma get_encoded_sealed:
  assumes "codec_laws env" "key_laws env" "sealed c" "cached_plaintext c = Some p" "cached_encoded c = None"
    and "get_encoded env c w = (Inr e, c', w')"
  shows "\<exists>info. sealed_form env e (map (public_key env) (principals c)) p info
    \<and> signer_part env (compress env p) (signer c) = Inr info \<and> principals c \<noteq> []"
proof -
  from get_encoded_fresh [OF assms(4-6)] assms(3,4) obtain m w1 where
    n: "principals c \<noteq> []" and m: "random_material env w = (Inr m, w1)"
    and e: "encode env p (Some (principals c, m)) (signer c) w1 = (Inr e, w')"
    by (auto simp: encode_encrypted_def split: prod.splits sum.splits if_splits)
  from encode_sealed_parse [OF assms(1) e random_material_ok [OF m]] obtain info stores ct w2 w3 where
    p: "parse env e = Inr \<lparr>bare_body = EncryptedBody \<lparr>body_stores = stores, body_iv = cm_iv m, body_ciphertext = ct\<rparr>,
        bare_signer_info = info\<rparr>" "signer_part env (compress env p) (signer c) = Inr info"
      "wrap_keys env (cm_key m) (principals c) w2 = (Inr stores, w3)"
      "aes_decrypt env (cm_key m) (cm_iv m @ ct) = Inr (compress env p)" by blast
  with wrap_keys_stores [OF assms(2) p(3)] n show ?thesis by (auto simp: sealed_form_def)
qed

lemma get_encoded_plain:
  assumes "codec_laws env" "\<not> sealed c" "cached_plaintext c = Some p" "cached_encoded c = None"
    and "get_encoded env c w = (Inr e, c', w')"
  shows "\<exists>info. parse env e = Inr \<lparr>bare_body = PlaintextBody (compress env p), bare_signer_info = info\<rparr>
    \<and> signer_part env (compress env p) (signer c) = Inr info"
proof -
  from get_encoded_fresh [OF assms(3-5)] assms(2,3) have "encode env p None (signer c) w = (Inr e, w')"
    by (simp add: encode_plaintext_def)
  then show ?thesis by (rule encode_plain_parse [OF assms(1)])
qed

section \<open>Opening an exported container\<close>

text \<open>Merging the accounts a merge has produced only permutes them.\<close>

lemma merge_principals_again:
  "mset (map (public_key env) ps) = mset (map ks_public_key stores)
    \<Longrightarrow> \<exists>merged. merge_principals env stores ps = Inr merged \<and> mset merged = mset ps"
proof (induction stores arbitrary: ps)
  case (Cons s stores)
  then have "ks_public_key s \<in> public_key env ` set ps"
    by (metis image_set list.set_intros(1) list.simps(9) set_mset_mset)
  then obtain i where i: "position (\<lambda>p. public_key env p = ks_public_key s) ps = Some i"
    using position_None [of "\<lambda>p. public_key env p = ks_public_key s" ps]
    by (cases "position (\<lambda>p. public_key env p = ks_public_key s) ps") auto
  note l = position_Some [OF i]
  have m: "mset ps = add_mset (ps ! i) (mset (swap_remove i ps))"
    using l by (simp add: mset_swap_remove)
  then have "mset (map (public_key env) (swap_remove i ps)) = mset (map ks_public_key stores)"
    using Cons.prems l by (simp add: image_mset_add_mset)
  from Cons.IH [OF this] i m show ?case by auto
qed simp

lemma compute_key_info_sealed:
  assumes "cached_encoded c = Some e" "parse env e = Inr \<lparr>bare_body = EncryptedBody b, bare_signer_info = info\<rparr>"
    and "sealed c" "merge_principals env (body_stores b) (principals c) = Inr merged"
  shows "compute_and_set_key_info env must c = (Inr \<lparr>bare_body = EncryptedBody b, bare_signer_info = info\<rparr>,
    c\<lparr>principals := merged, sealed := True,
      parsed_signer_info := (case info of None \<Rightarrow> parsed_signer_info c | Some i \<Rightarrow> Some i)\<rparr>)"
  by (cases info) (simp_all add: compute_and_set_key_info_def assms)

lemma from_encrypted_sealed:
  assumes "key_laws env" "sealed_form env e (map (public_key env) ps) p info" "accounts' = Some accounts"
  shows "\<exists>b merged. parse env e = Inr \<lparr>bare_body = EncryptedBody b, bare_signer_info = info\<rparr>
    \<and> merge_principals env (body_stores b) accounts = Inr merged
    \<and> (\<forall>must. compute_and_set_key_info env must (set_encoded e (container_new accounts' None))
        = (Inr \<lparr>bare_body = EncryptedBody b, bare_signer_info = info\<rparr>,
           \<lparr>sealed = True, principals = merged, may_access_plaintext = True, signer = None,
            parsed_signer_info = info, cached_plaintext = None, cached_encoded = Some e\<rparr>))"
proof -
  from assms(2) obtain b key where b: "parse env e = Inr \<lparr>bare_body = EncryptedBody b, bare_signer_info = info\<rparr>"
      "map ks_public_key (body_stores b) = map (public_key env) ps" by (auto simp: sealed_form_def)
  have "\<forall>s \<in> set (body_stores b). \<exists>a. public_key env a = ks_public_key s"
    using b(2) by (metis image_iff image_set)
  from merge_principals_ok [OF assms(1) this] obtain merged where
    m: "merge_principals env (body_stores b) accounts = Inr merged" by blast
  show ?thesis
    using compute_key_info_sealed [OF _ b(1), of "set_encoded e (container_new accounts' None)" merged] b(1) m assms(3)
    by (auto simp: set_encoded_def container_new_def split: option.splits)
qed

lemma decode_sealed:
  assumes "codec_laws env" "sealed_form env e keys p info" "keys \<noteq> []"
    and "parse env e = Inr \<lparr>bare_body = EncryptedBody b, bare_signer_info = info\<rparr>" "map (public_key env) ps = keys"
  shows "decode_body env (EncryptedBody b) ps =
    (if \<exists>q \<in> set ps. has_private_key env q
     then Inr \<lparr>dec_compressed = compress env p, dec_plaintext = p\<rparr> else Inl NoMatchingKey)"
proof -
  from assms(2,4) obtain key where k: "map ks_public_key (body_stores b) = keys"
      "\<forall>s \<in> set (body_stores b). opens_with env key s"
      "aes_decrypt env key (body_iv b @ body_ciphertext b) = Inr (compress env p)"
    by (auto simp: sealed_form_def)
  have "ks_public_key ` set (body_stores b) = public_key env ` set ps"
    using k(1) assms(5) by (metis image_set)
  then have "unwrap_symmetric_key env (body_stores b) ps
      = (if \<exists>q \<in> set ps. has_private_key env q then Inr key else Inl NoMatchingKey)"
    using unwrap_exact [OF k(2)] by auto
  moreover have "ps \<noteq> []" using assms(3,5) by auto
  ultimately show ?thesis
    using k(3) decompress_compress [OF assms(1)]
    by (simp add: decode_body_def decrypt_body_def or_decryption_failed_def decompress_def)
qed

text \<open>A container just read from a sealed form decodes to the payload exactly when one of its merged
  accounts holds a private key.\<close>

lemma decode_from_sealed:
  assumes "codec_laws env" "sealed_form env e keys p info" "keys \<noteq> []" and keys: "key_laws env"
    and "cached_encoded d = Some e" "sealed d" "map (public_key env) (principals d) = keys"
  shows "fst (decode_from_encoded env d) =
    (if \<exists>q \<in> set (principals d). has_private_key env q
     then Inr \<lparr>dec_compressed = compress env p, dec_plaintext = p\<rparr> else Inl NoMatchingKey)"
proof -
  from assms(2) obtain b where b: "parse env e = Inr \<lparr>bare_body = EncryptedBody b, bare_signer_info = info\<rparr>"
      "map ks_public_key (body_stores b) = keys" by (auto simp: sealed_form_def)
  from merge_principals_again [of env "principals d" "body_stores b"] assms(7) b(2) obtain merged where
    m: "merge_principals env (body_stores b) (principals d) = Inr merged" "mset merged = mset (principals d)" by auto
  from compute_key_info_sealed [OF assms(5) b(1) assms(6) m(1)]
  have "fst (decode_from_encoded env d) = decode_body env (EncryptedBody b) merged"
    using assms(5) by (simp add: decode_from_encoded_def)
  moreover have "map (public_key env) merged = keys"
    using merge_principals_sound [OF keys m(1)] b(2) by simp
  ultimately show ?thesis using decode_sealed [OF assms(1-3) b(1)] m(2)
    by (metis set_mset_mset)
qed

lemma get_plaintext_decodes:
  assumes "may_access_plaintext d" "cached_plaintext d = None"
  shows "fst (get_plaintext env d) = bindR (fst (decode_from_encoded env d)) (\<lambda>x. Inr (dec_plaintext x))"
proof -
  obtain r d' where r: "decode_from_encoded env d = (r, d')" by (metis surj_pair)
  show ?thesis by (cases r) (simp_all add: get_plaintext_def compute_plaintext_def assms r)
qed

text \<open>Whether a list of accounts opens what is sealed to recipients. It must name an account with the
  private key of one of them, and that is enough when every copy of that account in the list holds the
  private key. A list may name public-only copies as well: the merge keeps the first copy it finds, so
  for a single recipient the first copy in the list decides.\<close>

definition names_holder :: "('a, 'w) container_env \<Rightarrow> 'a list \<Rightarrow> bytes \<Rightarrow> bool" where
  "names_holder env accounts pk \<longleftrightarrow>
     (\<exists>q \<in> set accounts. public_key env q = pk) \<and> (\<forall>q \<in> set accounts. public_key env q = pk \<longrightarrow> has_private_key env q)"

definition decided_by :: "('a, 'w) container_env \<Rightarrow> 'a list \<Rightarrow> 'a list \<Rightarrow> bool \<Rightarrow> bool" where
  "decided_by env recipients accounts opens \<longleftrightarrow>
     (opens \<longrightarrow> (\<exists>q \<in> set accounts. has_private_key env q \<and> public_key env q \<in> public_key env ` set recipients))
     \<and> ((\<exists>r \<in> set recipients. names_holder env accounts (public_key env r)) \<longrightarrow> opens)
     \<and> (\<forall>r. recipients = [r] \<longrightarrow>
          opens = (case find (\<lambda>q. public_key env q = public_key env r) accounts of
                     Some q \<Rightarrow> has_private_key env q | None \<Rightarrow> False))"

lemma position_find: "find q xs = map_option ((!) xs) (position q xs)"
  by (induction xs) (auto simp: option.map_comp comp_def)

lemma merge_decides:
  assumes laws: "key_laws env" and m: "merge_principals env stores accounts = Inr merged"
    and keys: "map ks_public_key stores = map (public_key env) ps"
  shows "decided_by env ps accounts (\<exists>q \<in> set merged. has_private_key env q)"
proof -
  from merge_principals_sound [OF laws m] keys
  have merged: "map (public_key env) merged = map (public_key env) ps"
    and priv: "\<forall>q \<in> set merged. has_private_key env q \<longrightarrow> q \<in> set accounts" by simp_all
  have sets: "ks_public_key ` set stores = public_key env ` set ps" "public_key env ` set merged = public_key env ` set ps"
    using keys merged by (metis image_set)+
  have "\<exists>q \<in> set merged. has_private_key env q" if "r \<in> set ps" "names_holder env accounts (public_key env r)" for r
  proof -
    from that(2) obtain q where "q \<in> set accounts" "public_key env q = public_key env r" unfolding names_holder_def by blast
    with merge_principals_keeps [OF m _ this] that sets(1) show ?thesis unfolding names_holder_def by blast
  qed
  moreover have "(\<exists>q \<in> set merged. has_private_key env q) =
      (case find (\<lambda>q. public_key env q = public_key env r) accounts of Some q \<Rightarrow> has_private_key env q | None \<Rightarrow> False)"
    if "ps = [r]" for r
  proof -
    from keys that obtain st where "stores = [st]" "ks_public_key st = public_key env r" by auto
    moreover have "\<not> has_private_key env a" if "account_from_public_key env pk = Inr a" for pk a
      using laws that unfolding key_laws_def by blast
    ultimately show ?thesis using m
      by (cases "position (\<lambda>q. public_key env q = public_key env r) accounts") (auto simp: position_find result_elims)
  qed
  ultimately show ?thesis using priv sets(2) unfolding decided_by_def by blast
qed

lemma decided_by_none:
  "decided_by env recipients accounts opens
    \<Longrightarrow> \<not> (\<exists>q \<in> set accounts. has_private_key env q \<and> public_key env q \<in> public_key env ` set recipients) \<Longrightarrow> \<not> opens"
  unfolding decided_by_def by blast

lemma decided_by_single:
  "decided_by env recipients [q] opens \<Longrightarrow> has_private_key env q \<Longrightarrow> public_key env q \<in> public_key env ` set recipients \<Longrightarrow> opens"
  unfolding decided_by_def names_holder_def by auto

lemma open_sealed:
  assumes laws: "codec_laws env" "key_laws env"
    and form: "sealed_form env e (map (public_key env) ps) p info" "ps \<noteq> []"
  shows "\<exists>d. from_encrypted env e accounts = Inr d \<and> from_encoded env e (Some accounts) = Inr d
    \<and> map (public_key env) (principals d) = map (public_key env) ps
    \<and> fst (get_plaintext env d) = (if \<exists>q \<in> set (principals d). has_private_key env q then Inr p else Inl NoMatchingKey)
    \<and> decided_by env ps accounts (\<exists>q \<in> set (principals d). has_private_key env q)"
proof -
  from from_encrypted_sealed [OF laws(2) form(1) refl, of accounts] obtain b merged where
    b: "parse env e = Inr \<lparr>bare_body = EncryptedBody b, bare_signer_info = info\<rparr>"
    and m: "merge_principals env (body_stores b) accounts = Inr merged"
    and d: "\<And>must. compute_and_set_key_info env must (set_encoded e (container_new (Some accounts) None))
        = (Inr \<lparr>bare_body = EncryptedBody b, bare_signer_info = info\<rparr>,
           \<lparr>sealed = True, principals = merged, may_access_plaintext = True, signer = None,
            parsed_signer_info = info, cached_plaintext = None, cached_encoded = Some e\<rparr>)" by blast
  let ?d = "\<lparr>sealed = True, principals = merged, may_access_plaintext = True, signer = None,
            parsed_signer_info = info, cached_plaintext = None, cached_encoded = Some e\<rparr>"
  from form(1) b have k: "map ks_public_key (body_stores b) = map (public_key env) ps" by (auto simp: sealed_form_def)
  with merge_principals_sound [OF laws(2) m] have merged: "map (public_key env) merged = map (public_key env) ps" by simp
  have "fst (decode_from_encoded env ?d) =
    (if \<exists>q \<in> set merged. has_private_key env q
     then Inr \<lparr>dec_compressed = compress env p, dec_plaintext = p\<rparr> else Inl NoMatchingKey)"
    using decode_from_sealed [OF laws(1) form(1) _ laws(2), of ?d] form(2) merged by simp
  then have "fst (get_plaintext env ?d) = (if \<exists>q \<in> set merged. has_private_key env q then Inr p else Inl NoMatchingKey)"
    by (simp add: get_plaintext_decodes)
  moreover have "from_encrypted env e accounts = Inr ?d" "from_encoded env e (Some accounts) = Inr ?d"
    by (simp_all add: from_encrypted_def from_encoded_def d)
  ultimately show ?thesis using merged merge_decides [OF laws(2) m k] by (intro exI [of _ ?d]) simp
qed

text \<open>A holder of the private key who names a public-only copy of his account first does not open what is
  sealed to him alone.\<close>

lemma public_copy_locks_out:
  assumes "codec_laws env" "key_laws env" "sealed_form env e [public_key env r] p info"
    and "public_key env q = public_key env r" "\<not> has_private_key env q"
  shows "\<exists>d. from_encrypted env e (q # accounts) = Inr d \<and> fst (get_plaintext env d) = Inl NoMatchingKey"
proof -
  from open_sealed [OF assms(1,2), of e "[r]" p info "q # accounts"] assms(3) obtain d where
    d: "from_encrypted env e (q # accounts) = Inr d"
      "fst (get_plaintext env d) = (if \<exists>q \<in> set (principals d). has_private_key env q then Inr p else Inl NoMatchingKey)"
      "decided_by env [r] (q # accounts) (\<exists>q \<in> set (principals d). has_private_key env q)" by auto
  from d(3) assms(4,5) have "\<not> (\<exists>q \<in> set (principals d). has_private_key env q)" by (simp add: decided_by_def)
  with d(1,2) show ?thesis by auto
qed

section \<open>Access\<close>


lemma revoke_access_Inr:
  assumes "revoke_access env pk c = (Inr (), c1)"
  shows "sealed c1 \<and> cached_encoded c1 = None \<and> cached_plaintext c1 \<noteq> None
    \<and> (\<forall>q \<in> set (principals c1). public_key env q \<noteq> pk)"
proof -
  obtain r x where r: "compute_plaintext env c = (r, x)" by (metis surj_pair)
  with assms have rx: "r = Inr ()" "sealed x"
    by (auto simp: revoke_access_def assert_access_management_allowed_def split: sum.splits if_splits)
  have c1: "c1 = x\<lparr>cached_encoded := None, principals := filter (\<lambda>p. public_key env p \<noteq> pk) (principals x)\<rparr>"
    using assms by (simp add: revoke_access_def r rx assert_access_management_allowed_def)
  have "cached_plaintext x \<noteq> None"
    using r rx(1) by (auto simp: compute_plaintext_def split: if_splits prod.splits sum.splits)
  with rx(2) show ?thesis by (simp add: c1)
qed

text \<open>C7. Revocation holds for what is exported afterwards: once the key is revoked, no reader whose
  private keys are all that key reads the new bytes, while each remaining principal still reads the
  payload.\<close>

theorem revoked_key_is_locked_out:
  assumes "codec_laws env" "key_laws env" "revoke_access env pk c = (Inr (), c1)"
    and "get_encoded env c1 w = (Inr e, c', w')"
  shows "\<exists>p. cached_plaintext c1 = Some p
    \<and> (\<forall>accounts. (\<forall>q \<in> set accounts. has_private_key env q \<longrightarrow> public_key env q = pk)
         \<longrightarrow> (\<exists>d. from_encrypted env e accounts = Inr d \<and> fst (get_plaintext env d) = Inl NoMatchingKey))
    \<and> (\<forall>q \<in> set (principals c1). has_private_key env q
         \<longrightarrow> (\<exists>d. from_encrypted env e [q] = Inr d \<and> fst (get_plaintext env d) = Inr p))"
proof -
  from revoke_access_Inr [OF assms(3)] obtain p where c1: "sealed c1" "cached_encoded c1 = None" "cached_plaintext c1 = Some p"
    and none: "\<forall>q \<in> set (principals c1). public_key env q \<noteq> pk" by auto
  from get_encoded_sealed [OF assms(1,2) c1(1,3,2) assms(4)] obtain info where
    form: "sealed_form env e (map (public_key env) (principals c1)) p info" "principals c1 \<noteq> []" by blast
  note op = open_sealed [OF assms(1,2) form]
  have "\<exists>d. from_encrypted env e accounts = Inr d \<and> fst (get_plaintext env d) = Inl NoMatchingKey"
    if "\<forall>q \<in> set accounts. has_private_key env q \<longrightarrow> public_key env q = pk" for accounts
  proof -
    have nobody: "\<not> (\<exists>q \<in> set accounts. has_private_key env q \<and> public_key env q \<in> public_key env ` set (principals c1))"
      using that none by force
    from op [of accounts] obtain d where d: "from_encrypted env e accounts = Inr d"
      "fst (get_plaintext env d) = (if \<exists>q \<in> set (principals d). has_private_key env q then Inr p else Inl NoMatchingKey)"
      "decided_by env (principals c1) accounts (\<exists>q \<in> set (principals d). has_private_key env q)" by blast
    from decided_by_none [OF d(3) nobody] d(1,2) show ?thesis by auto
  qed
  moreover have "\<exists>d. from_encrypted env e [q] = Inr d \<and> fst (get_plaintext env d) = Inr p"
    if "q \<in> set (principals c1)" "has_private_key env q" for q
    using op [of "[q]"] decided_by_single [of env "principals c1" q] that by auto
  ultimately show ?thesis using c1(3) by blast
qed

section \<open>Signatures\<close>

lemma signer_part_verifies:
  assumes "key_laws env" "sign_laws env" "signer_part env zc (Some s) = Inr info"
  shows "\<exists>i. info = Some i \<and> verify_detached env i zc = Inr True"
proof -
  from assms(3) obtain sig algorithm where i: "info = Some \<lparr>si_version = uint signer_version, si_sid = public_key env s,
        si_digest_algorithm = oid_sha3_256 env, si_signature_algorithm = algorithm, si_signature = sig\<rparr>"
      "acc_sign env s (sha3_256 env zc) = Inr sig" "signature_algorithm_oid env s = Inr algorithm"
    by (auto simp: signer_part_def sign_compressed_def result_elims split: if_splits)
  from assms(1) obtain b where b: "account_from_public_key env (public_key env s) = Inr b" "public_key env b = public_key env s"
    unfolding key_laws_def by metis
  have "assert_signature_supported algorithm = Inr ()"
    using i(3) by (auto simp: signature_algorithm_oid_def assert_signature_supported_def require_def split: key_pair_type.splits)
  moreover have "acc_verify env b (sha3_256 env zc) sig" using assms(2) i(2) b(2) unfolding sign_laws_def by metis
  ultimately show ?thesis
    by (simp add: i(1) verify_detached_def assert_digest_supported_def require_def b(1))
qed

lemma verify_signature_parsed:
  assumes "parsed_signer_info d = Some i" "fst (decode_from_encoded env d) = Inr x"
  shows "fst (verify_signature env d v) = verify_detached env i (dec_compressed x)"
proof -
  from assms(2) obtain d' where "decode_from_encoded env d = (Inr x, d')" by (metis prod.collapse)
  then show ?thesis
    by (simp add: verify_signature_def ensure_signer_info_parsed_def compute_signed_compressed_def assms(1))
qed

lemma from_encoded_plain:
  assumes "parse env e = Inr \<lparr>bare_body = PlaintextBody zc, bare_signer_info = info\<rparr>"
  shows "from_encoded env e accounts = Inr \<lparr>sealed = False, principals = [], may_access_plaintext = True, signer = None,
      parsed_signer_info = info, cached_plaintext = None, cached_encoded = Some e\<rparr>"
  by (cases info)
    (simp_all add: from_encoded_def compute_and_set_key_info_def set_encoded_def container_new_def assms)

lemma decode_from_plain:
  assumes "parse env e = Inr \<lparr>bare_body = PlaintextBody zc, bare_signer_info = info\<rparr>"
    and "cached_encoded d = Some e" "\<not> sealed d"
  shows "fst (decode_from_encoded env d) = decode_body env (PlaintextBody zc) []"
  using assms(2,3) by (cases info) (simp_all add: decode_from_encoded_def compute_and_set_key_info_def assms(1))

text \<open>The facts of a signed export, for both kinds of container.\<close>

lemma signed_export:
  assumes "codec_laws env" "key_laws env" "cached_plaintext c = Some p" "cached_encoded c = None"
    and "get_encoded env c w = (Inr e, c', w')" "from_encoded env e accounts = Inr d" "fst (get_plaintext env d) = Inr q"
  shows "q = p \<and> (\<exists>x. fst (decode_from_encoded env d) = Inr x \<and> dec_compressed x = compress env p)
    \<and> signer_part env (compress env p) (signer c) = Inr (parsed_signer_info d)"
proof (cases "sealed c")
  case True
  from get_encoded_sealed [OF assms(1,2) True assms(3-5)] obtain info where
    f: "sealed_form env e (map (public_key env) (principals c)) p info" "principals c \<noteq> []"
      "signer_part env (compress env p) (signer c) = Inr info" by blast
  then obtain b where b: "parse env e = Inr \<lparr>bare_body = EncryptedBody b, bare_signer_info = info\<rparr>"
    by (auto simp: sealed_form_def)
  obtain ps where ps: "accounts = Some ps"
    using assms(6) b by (cases accounts) (auto simp: from_encoded_def compute_and_set_key_info_def set_encoded_def container_new_def)
  from from_encrypted_sealed [OF assms(2) f(1) ps] obtain b' merged where
    b': "parse env e = Inr \<lparr>bare_body = EncryptedBody b', bare_signer_info = info\<rparr>"
    and m: "merge_principals env (body_stores b') ps = Inr merged"
    and c: "compute_and_set_key_info env False (set_encoded e (container_new accounts None))
        = (Inr \<lparr>bare_body = EncryptedBody b', bare_signer_info = info\<rparr>,
           \<lparr>sealed = True, principals = merged, may_access_plaintext = True, signer = None,
            parsed_signer_info = info, cached_plaintext = None, cached_encoded = Some e\<rparr>)" by blast
  have d: "d = \<lparr>sealed = True, principals = merged, may_access_plaintext = True, signer = None,
            parsed_signer_info = info, cached_plaintext = None, cached_encoded = Some e\<rparr>"
    using assms(6) c by (simp add: from_encoded_def)
  have "map (public_key env) merged = map (public_key env) (principals c)"
    using merge_principals_sound [OF assms(2) m] f(1) b' by (auto simp: sealed_form_def)
  from decode_from_sealed [OF assms(1) f(1) _ assms(2), of d] f(2) this
  have "fst (decode_from_encoded env d) = (if \<exists>q \<in> set merged. has_private_key env q
     then Inr \<lparr>dec_compressed = compress env p, dec_plaintext = p\<rparr> else Inl NoMatchingKey)" by (simp add: d)
  moreover have "fst (get_plaintext env d) = bindR (fst (decode_from_encoded env d)) (\<lambda>x. Inr (dec_plaintext x))"
    by (rule get_plaintext_decodes) (simp_all add: d)
  ultimately show ?thesis using assms(7) f(3) by (auto simp: d split: if_splits)
next
  case False
  from get_encoded_plain [OF assms(1) False assms(3-5)] obtain info where
    f: "parse env e = Inr \<lparr>bare_body = PlaintextBody (compress env p), bare_signer_info = info\<rparr>"
      "signer_part env (compress env p) (signer c) = Inr info" by blast
  from from_encoded_plain [OF f(1)] assms(6) have
    d: "d = \<lparr>sealed = False, principals = [], may_access_plaintext = True, signer = None,
            parsed_signer_info = info, cached_plaintext = None, cached_encoded = Some e\<rparr>" by simp
  have "fst (decode_from_encoded env d) = Inr \<lparr>dec_compressed = compress env p, dec_plaintext = p\<rparr>"
    using decode_from_plain [OF f(1), of d] decompress_compress [OF assms(1)]
    by (simp add: d decode_body_def decompress_def)
  moreover have "fst (get_plaintext env d) = bindR (fst (decode_from_encoded env d)) (\<lambda>x. Inr (dec_plaintext x))"
    by (rule get_plaintext_decodes) (simp_all add: d)
  ultimately show ?thesis using assms(7) f(2) by (auto simp: d)
qed

text \<open>C18. What a container exports with a signer attached verifies wherever it can be read: whoever opens
  the bytes, plaintext or sealed, reads the payload and finds a valid signature.\<close>

theorem signed_export_verifies:
  assumes "codec_laws env" "key_laws env" "sign_laws env" "signer c = Some s"
    and "cached_plaintext c = Some p" "cached_encoded c = None" "get_encoded env c w = (Inr e, c', w')"
    and "from_encoded env e accounts = Inr d" "fst (get_plaintext env d) = Inr q"
  shows "q = p \<and> fst (verify_signature env d v) = Inr True"
proof -
  from signed_export [OF assms(1,2,5-9)] obtain x where x: "q = p" "fst (decode_from_encoded env d) = Inr x"
      "dec_compressed x = compress env p" "signer_part env (compress env p) (Some s) = Inr (parsed_signer_info d)"
    using assms(4) by auto
  from signer_part_verifies [OF assms(2,3) x(4)] obtain i where
    "parsed_signer_info d = Some i" "verify_detached env i (compress env p) = Inr True" by blast
  with verify_signature_parsed [OF this(1) x(2)] x(1,3) show ?thesis by simp
qed

lemma from_encoded_frame:
  assumes "from_encoded env e accounts = Inr d"
  shows "signer d = None \<and> cached_plaintext d = None"
  using assms
  by (auto simp: from_encoded_def compute_and_set_key_info_def set_encoded_def container_new_def
      split: sum.splits prod.splits container_body.splits option.splits if_splits)

section \<open>Frames of the operations\<close>

text \<open>What reading the encoded form leaves alone, on every path.\<close>

lemma key_info_frame:
  assumes "compute_and_set_key_info env must c = (r, c')"
  shows "cached_encoded c' = cached_encoded c \<and> cached_plaintext c' = cached_plaintext c
    \<and> may_access_plaintext c' = may_access_plaintext c \<and> signer c' = signer c
    \<and> (parsed_signer_info c \<noteq> None \<longrightarrow> parsed_signer_info c' \<noteq> None)"
  using assms by (auto simp: compute_and_set_key_info_def
      split: sum.splits prod.splits container_body.splits option.splits if_splits)

lemma decode_from_encoded_frame:
  assumes "decode_from_encoded env c = (r, c')"
  shows "cached_encoded c' = cached_encoded c \<and> cached_plaintext c' = cached_plaintext c
    \<and> may_access_plaintext c' = may_access_plaintext c \<and> signer c' = signer c
    \<and> (parsed_signer_info c \<noteq> None \<longrightarrow> parsed_signer_info c' \<noteq> None)"
  using assms key_info_frame [of env "sealed c" c]
  by (auto simp: decode_from_encoded_def split: sum.splits prod.splits if_splits)

lemma compute_plaintext_frame:
  assumes "compute_plaintext env c = (r, c')"
  shows "cached_encoded c' = cached_encoded c \<and> may_access_plaintext c' = may_access_plaintext c \<and> signer c' = signer c
    \<and> (parsed_signer_info c \<noteq> None \<longrightarrow> parsed_signer_info c' \<noteq> None) \<and> (r = Inr () \<longrightarrow> cached_plaintext c' \<noteq> None)"
proof -
  obtain r1 c1 where "decode_from_encoded env c = (r1, c1)" by (metis surj_pair)
  with decode_from_encoded_frame [OF this] assms show ?thesis
    by (auto simp: compute_plaintext_def split: sum.splits if_splits)
qed

lemma grant_access_Inr:
  assumes "grant_access env new c0 = (Inr (), c)"
  shows "sealed c \<and> signer c = signer c0 \<and> cached_encoded c = None \<and> cached_plaintext c \<noteq> None
    \<and> (parsed_signer_info c0 \<noteq> None \<longrightarrow> parsed_signer_info c \<noteq> None)"
proof -
  obtain r x where r: "compute_plaintext env c0 = (r, x)" by (metis surj_pair)
  with assms have rx: "r = Inr ()" "sealed x"
    by (auto simp: grant_access_def assert_access_management_allowed_def split: sum.splits if_splits)
  have "c = x\<lparr>cached_encoded := None, principals := principals x @ new\<rparr>"
    using assms by (simp add: grant_access_def r rx assert_access_management_allowed_def)
  with compute_plaintext_frame [OF r] rx show ?thesis by simp
qed

text \<open>C33. A signature does not survive re-encryption: a container read from signed bytes still reports
  that it is signed after an account was granted access, and the bytes exported from it then carry no
  signature.\<close>

theorem reencryption_drops_signature:
  assumes "codec_laws env" "key_laws env"
    and "from_encrypted env e0 accounts = Inr c0" "is_signed c0" "grant_access env new c0 = (Inr (), c)"
    and "get_encoded env c w = (Inr e, c', w')" "from_encrypted env e readers = Inr d"
  shows "is_signed c' \<and> \<not> is_signed d"
proof -
  have s0: "signer c0 = None"
    using assms(3) key_info_frame [of env True "set_encoded e0 (container_new (Some accounts) None)"]
    by (auto simp: from_encrypted_def set_encoded_def container_new_def split: sum.splits prod.splits)
  from grant_access_Inr [OF assms(5)] s0 assms(4) obtain p where c: "sealed c" "signer c = None" "cached_encoded c = None"
      "cached_plaintext c = Some p" "parsed_signer_info c \<noteq> None" by (auto simp: is_signed_def)
  from get_encoded_fresh [OF c(4,3) assms(6)] c(5) have "is_signed c'" by (simp add: is_signed_def)
  moreover from get_encoded_sealed [OF assms(1,2) c(1,4,3) assms(6)] c(2) have
    f: "sealed_form env e (map (public_key env) (principals c)) p None" by (auto simp: signer_part_def)
  from from_encrypted_sealed [OF assms(2) this refl, of readers] assms(7) have "\<not> is_signed d"
    by (auto simp: from_encrypted_def is_signed_def)
  ultimately show ?thesis by simp
qed

section \<open>The invariant of the container\<close>

text \<open>How a container comes about, and the steps a caller can make with it, whatever they return.\<close>

inductive container_made :: "('a, 'w) container_env \<Rightarrow> 'a container \<Rightarrow> bool" for env where
  made_plaintext: "container_made env (from_plaintext data accounts options)"
| made_encoded: "from_encoded env e accounts = Inr c \<Longrightarrow> container_made env c"
| made_encrypted: "from_encrypted env e ps = Inr c \<Longrightarrow> container_made env c"

inductive container_step :: "('a, 'w) container_env \<Rightarrow> 'a container \<Rightarrow> 'a container \<Rightarrow> bool" for env where
  step_set: "container_step env c (set_plaintext data c)"
| step_disable: "container_step env c (disable_plaintext c)"
| step_plaintext: "get_plaintext env c = (r, c') \<Longrightarrow> container_step env c c'"
| step_encoded: "get_encoded env c w = (r, c', w') \<Longrightarrow> container_step env c c'"
| step_grant: "grant_access env accounts c = (u, c') \<Longrightarrow> container_step env c c'"
| step_revoke: "revoke_access env pk c = (u, c') \<Longrightarrow> container_step env c c'"
| step_take: "take_signing_account env c = (t, c') \<Longrightarrow> container_step env c c'"
| step_verify: "verify_signature env c w = (b, c', w') \<Longrightarrow> container_step env c c'"

text \<open>A plaintext container has no principals, one of the two forms is always there, the encoded form
  parses to a body of the kind the container has, and when both forms are cached the encoded one carries
  the plaintext one.\<close>

definition container_inv :: "('a, 'w) container_env \<Rightarrow> 'a container \<Rightarrow> bool" where
  "container_inv env c \<longleftrightarrow>
     (\<not> sealed c \<longrightarrow> principals c = [])
   \<and> (cached_plaintext c \<noteq> None \<or> cached_encoded c \<noteq> None)
   \<and> (\<forall>e. cached_encoded c = Some e \<longrightarrow>
        (\<exists>bare. parse env e = Inr bare \<and> bare_is_encrypted bare = sealed c)
      \<and> (\<forall>p. cached_plaintext c = Some p \<longrightarrow> carries env e p))"

lemma container_invI:
  assumes "\<not> sealed c \<Longrightarrow> principals c = []" "cached_plaintext c \<noteq> None \<or> cached_encoded c \<noteq> None"
    and "\<And>e. cached_encoded c = Some e \<Longrightarrow> \<exists>bare. parse env e = Inr bare \<and> bare_is_encrypted bare = sealed c"
    and "\<And>e p. cached_encoded c = Some e \<Longrightarrow> cached_plaintext c = Some p \<Longrightarrow> carries env e p"
  shows "container_inv env c"
  using assms by (auto simp: container_inv_def)

lemma inv_unencoded:
  "container_inv env (c\<lparr>cached_encoded := None\<rparr>) \<longleftrightarrow>
     (\<not> sealed c \<longrightarrow> principals c = []) \<and> cached_plaintext c \<noteq> None"
  by (auto simp: container_inv_def)

text \<open>Reading the key information keeps the kind of a container whose bytes are of its kind.\<close>

lemma key_info_inv:
  assumes "compute_and_set_key_info env must c = (r, c')" "container_inv env c"
  shows "sealed c' = sealed c \<and> container_inv env c'"
proof -
  have "sealed c' = sealed c \<and> (\<not> sealed c \<longrightarrow> principals c' = [])"
  proof (cases "cached_encoded c")
    case None
    with assms show ?thesis by (auto simp: compute_and_set_key_info_def container_inv_def)
  next
    case (Some e)
    with assms(2) obtain bare where b: "parse env e = Inr bare" "bare_is_encrypted bare = sealed c"
      by (auto simp: container_inv_def)
    from assms(1) show ?thesis
      unfolding compute_and_set_key_info_def Some ok_or_simps bindR_simps b(1) sum.case
      using b(2) assms(2) by (cases "bare_body bare") (auto simp: container_inv_def split: sum.splits prod.splits option.splits if_splits)
  qed
  with key_info_frame [OF assms(1)] assms(2) show ?thesis by (simp add: container_inv_def)
qed

lemma key_info_parses:
  "compute_and_set_key_info env must c = (Inr bare, c') \<Longrightarrow> \<exists>e. cached_encoded c = Some e \<and> parse env e = Inr bare"
  by (auto simp: compute_and_set_key_info_def result_elims
      split: sum.splits prod.splits container_body.splits option.splits if_splits)

lemma decode_from_encoded_inv:
  assumes "decode_from_encoded env c = (r, c')" "container_inv env c"
  shows "sealed c' = sealed c \<and> container_inv env c'
    \<and> (\<forall>x. r = Inr x \<longrightarrow> (\<exists>e. cached_encoded c' = Some e \<and> carries env e (dec_plaintext x)))"
proof (cases "cached_encoded c")
  case None
  with assms show ?thesis by (auto simp: decode_from_encoded_def)
next
  case (Some e)
  obtain r1 c1 where k: "compute_and_set_key_info env (sealed c) c = (r1, c1)" by (metis surj_pair)
  then have c1: "c' = c1" "\<And>x. r = Inr x \<Longrightarrow> \<exists>bare ps. r1 = Inr bare \<and> decode_body env (bare_body bare) ps = Inr x"
    using assms(1) Some by (auto simp: decode_from_encoded_def split: sum.splits)
  have "carries env e (dec_plaintext x)" if r: "r = Inr x" for x
  proof -
    from c1(2) [OF r] obtain bare ps where b: "r1 = Inr bare" "decode_body env (bare_body bare) ps = Inr x" by blast
    with key_info_parses k Some have "parse env e = Inr bare" by fastforce
    with decode_body_carries [OF b(2)] show ?thesis by (auto simp: carries_def)
  qed
  with key_info_inv [OF k assms(2)] key_info_frame [OF k] c1(1) Some show ?thesis by auto
qed

lemma compute_plaintext_inv:
  assumes "compute_plaintext env c = (r, c')" "container_inv env c"
  shows "container_inv env c'"
proof -
  obtain r1 c1 where d: "decode_from_encoded env c = (r1, c1)" by (metis surj_pair)
  note i = decode_from_encoded_inv [OF d assms(2)] decode_from_encoded_frame [OF d]
  show ?thesis
  proof (cases "cached_plaintext c")
    case None
    show ?thesis
    proof (cases r1)
      case (Inr x)
      with assms(1) d None have c': "c' = c1\<lparr>cached_plaintext := Some (dec_plaintext x)\<rparr>"
        by (simp add: compute_plaintext_def)
      from i(1) Inr obtain e where e: "cached_encoded c1 = Some e" "carries env e (dec_plaintext x)" "container_inv env c1"
        by auto
      then show ?thesis by (auto simp: c' container_inv_def)
    qed (use assms(1) d None i in \<open>simp add: compute_plaintext_def\<close>)
  qed (use assms in \<open>simp add: compute_plaintext_def\<close>)
qed

lemma compute_encoded_inv:
  assumes "codec_laws env" "compute_encoded env c w = (r, c', w')" "container_inv env c"
  shows "container_inv env c' \<and> may_access_plaintext c' = may_access_plaintext c"
proof (cases "cached_encoded c")
  case None
  with assms(3) obtain p where p: "cached_plaintext c = Some p" by (auto simp: container_inv_def)
  obtain x v where x: "(if sealed c then encode_encrypted env c w else encode_plaintext env c w) = (x, v)"
    by (metis surj_pair)
  with None assms(2) have c': "c' = (case x of Inl _ \<Rightarrow> c | Inr e \<Rightarrow> c\<lparr>cached_encoded := Some e\<rparr>)"
    by (auto simp: compute_encoded_def split: sum.splits)
  show ?thesis
  proof (cases x)
    case (Inr e)
    have "(\<exists>bare. parse env e = Inr bare \<and> bare_is_encrypted bare = sealed c) \<and> carries env e p"
    proof (cases "sealed c")
      case True
      with x Inr p obtain m w1 where m: "random_material env w = (Inr m, w1)"
          "encode env p (Some (principals c, m)) (signer c) w1 = (Inr e, v)"
        by (auto simp: encode_encrypted_def split: prod.splits sum.splits if_splits)
      from encode_sealed_parse [OF assms(1) m(2) random_material_ok [OF m(1)]] True
      have "\<exists>bare. parse env e = Inr bare \<and> bare_is_encrypted bare = sealed c" by fastforce
      moreover have "carries env e p"
        by (rule encode_carries [OF assms(1) m(2)]) (use random_material_ok [OF m(1)] in simp)
      ultimately show ?thesis by simp
    next
      case False
      with x Inr p have m: "encode env p None (signer c) w = (Inr e, v)" by (simp add: encode_plaintext_def)
      from encode_plain_parse [OF assms(1) m] False
      have "\<exists>bare. parse env e = Inr bare \<and> bare_is_encrypted bare = sealed c" by fastforce
      moreover have "carries env e p" by (rule encode_carries [OF assms(1) m]) simp
      ultimately show ?thesis by simp
    qed
    with assms(3) p Inr c' show ?thesis by (auto simp: container_inv_def)
  qed (use c' assms(3) in simp)
qed (use assms in \<open>simp add: compute_encoded_def\<close>)

lemma ensure_signer_info_inv:
  assumes "codec_laws env" "ensure_signer_info_parsed env c w = (r, c', w')" "container_inv env c"
  shows "container_inv env c' \<and> may_access_plaintext c' = may_access_plaintext c"
proof -
  obtain x c1 w1 where x: "compute_encoded env c w = (x, c1, w1)" by (metis surj_pair)
  have "c' = c \<or> c' = c1 \<or> (\<exists>i. c' = c1\<lparr>parsed_signer_info := Some i\<rparr>)"
    using assms(2) x by (auto simp: ensure_signer_info_parsed_def split: sum.splits option.splits if_splits)
  with compute_encoded_inv [OF assms(1) x assms(3)] assms(3) show ?thesis by (auto simp: container_inv_def)
qed

section \<open>Every step keeps the invariant\<close>

lemma step_inv_access:
  assumes "container_inv env c" "compute_plaintext env c = (r, x)" "sealed x" "r = Inr ()"
  shows "container_inv env (x\<lparr>cached_encoded := None, principals := ps\<rparr>)
    \<and> may_access_plaintext x = may_access_plaintext c"
  using compute_plaintext_frame [OF assms(2)] assms(3,4) by (simp add: container_inv_def)

lemma grant_access_inv:
  assumes "grant_access env new c = (u, c')" "container_inv env c"
  shows "container_inv env c' \<and> may_access_plaintext c' = may_access_plaintext c"
proof -
  obtain r x where x: "compute_plaintext env c = (r, x)" by (metis surj_pair)
  have "c' = x \<or> (sealed x \<and> r = Inr () \<and> c' = x\<lparr>cached_encoded := None, principals := principals x @ new\<rparr>)"
    using assms(1) x by (auto simp: grant_access_def assert_access_management_allowed_def split: sum.splits if_splits)
  with compute_plaintext_inv [OF x assms(2)] compute_plaintext_frame [OF x] step_inv_access [OF assms(2) x]
  show ?thesis by auto
qed

lemma revoke_access_inv:
  assumes "revoke_access env pk c = (u, c')" "container_inv env c"
  shows "container_inv env c' \<and> may_access_plaintext c' = may_access_plaintext c"
proof -
  obtain r x where x: "compute_plaintext env c = (r, x)" by (metis surj_pair)
  have "c' = x \<or> (sealed x \<and> r = Inr () \<and>
      c' = x\<lparr>cached_encoded := None, principals := filter (\<lambda>p. public_key env p \<noteq> pk) (principals x)\<rparr>)"
    using assms(1) x by (auto simp: revoke_access_def assert_access_management_allowed_def split: sum.splits if_splits)
  with compute_plaintext_inv [OF x assms(2)] compute_plaintext_frame [OF x] step_inv_access [OF assms(2) x]
  show ?thesis by auto
qed

lemma get_plaintext_inv:
  assumes "get_plaintext env c = (u, c')" "container_inv env c"
  shows "container_inv env c' \<and> may_access_plaintext c' = may_access_plaintext c"
proof -
  obtain r x where x: "compute_plaintext env c = (r, x)" by (metis surj_pair)
  have "c' = c \<or> c' = x" using assms(1) x by (auto simp: get_plaintext_def split: sum.splits if_splits)
  with compute_plaintext_inv [OF x assms(2)] compute_plaintext_frame [OF x] assms(2) show ?thesis by auto
qed

lemma get_encoded_inv:
  assumes "codec_laws env" "get_encoded env c w = (u, c', w')" "container_inv env c"
  shows "container_inv env c' \<and> may_access_plaintext c' = may_access_plaintext c"
proof -
  obtain x c1 w1 where x: "compute_encoded env c w = (x, c1, w1)" by (metis surj_pair)
  have "c' = c1" using assms(2) x by (auto simp: get_encoded_def split: sum.splits)
  with compute_encoded_inv [OF assms(1) x assms(3)] show ?thesis by simp
qed

lemma take_signing_account_inv:
  assumes "take_signing_account env c = (t, c')" "container_inv env c"
  shows "container_inv env c' \<and> may_access_plaintext c' = may_access_plaintext c"
proof -
  have "\<exists>s. c' = c\<lparr>signer := s\<rparr> \<or> c' = c"
    using assms(1) by (auto simp: take_signing_account_def split: option.splits sum.splits)
  with assms(2) show ?thesis by (auto simp: container_inv_def)
qed

lemma verify_signature_inv:
  assumes "codec_laws env" "verify_signature env c w = (b, c', w')" "container_inv env c"
  shows "container_inv env c' \<and> may_access_plaintext c' = may_access_plaintext c"
proof -
  obtain r c1 w1 where e: "ensure_signer_info_parsed env c w = (r, c1, w1)" by (metis surj_pair)
  obtain x c2 where d: "decode_from_encoded env c1 = (x, c2)" by (metis surj_pair)
  have "c' = c1 \<or> c' = c2"
    using assms(2) e d
    by (auto simp: verify_signature_def compute_signed_compressed_def split: sum.splits option.splits)
  with ensure_signer_info_inv [OF assms(1) e assms(3)] decode_from_encoded_inv [OF d] decode_from_encoded_frame [OF d]
  show ?thesis by auto
qed

lemma container_step_inv:
  assumes "codec_laws env" "container_inv env c" "container_step env c c'"
  shows "container_inv env c' \<and> (may_access_plaintext c' \<longrightarrow> may_access_plaintext c)"
  using assms(3)
proof (cases rule: container_step.cases)
  case step_plaintext
  from get_plaintext_inv [OF this assms(2)] show ?thesis by simp
next
  case step_encoded
  from get_encoded_inv [OF assms(1) this assms(2)] show ?thesis by simp
next
  case step_grant
  from grant_access_inv [OF this assms(2)] show ?thesis by simp
next
  case step_revoke
  from revoke_access_inv [OF this assms(2)] show ?thesis by simp
next
  case step_take
  from take_signing_account_inv [OF this assms(2)] show ?thesis by simp
next
  case step_verify
  from verify_signature_inv [OF assms(1) this assms(2)] show ?thesis by simp
qed (use assms(2) in \<open>auto simp: set_plaintext_def disable_plaintext_def container_inv_def\<close>)

lemma key_info_opened:
  assumes "compute_and_set_key_info env must (set_encoded e (container_new accounts None)) = (Inr bare, c)"
  shows "container_inv env c"
proof -
  let ?c = "set_encoded e (container_new accounts None)"
  have e: "cached_encoded ?c = Some e" "cached_plaintext ?c = None" by (simp_all add: set_encoded_def)
  from key_info_parses [OF assms] e have b: "parse env e = Inr bare" by simp
  have "sealed c = bare_is_encrypted bare \<and> (\<not> sealed c \<longrightarrow> principals c = [])"
    using assms unfolding compute_and_set_key_info_def e(1) ok_or_simps bindR_simps b sum.case
    by (cases "bare_body bare") (auto split: sum.splits prod.splits option.splits if_splits)
  with key_info_frame [OF assms] e b show ?thesis by (simp add: container_inv_def)
qed

lemma container_made_inv:
  assumes "container_made env c"
  shows "container_inv env c"
  using assms
proof (cases rule: container_made.cases)
  case made_plaintext
  then show ?thesis
    by (auto simp: from_plaintext_def set_plaintext_def container_new_def disable_plaintext_def Let_def
        container_inv_def split: option.splits)
qed (auto simp: from_encoded_def from_encrypted_def intro: key_info_opened split: sum.splits prod.splits)

text \<open>C12. The two cached forms of a container never drift apart: over every sequence of operations,
  failing ones included, one of the forms is there, the encoded form is of the kind the container has,
  the payload of a cached plaintext is what the cached bytes carry, a plaintext container has no
  principals, and a container whose plaintext was disabled never discloses it again.\<close>

theorem container_caches_coherent:
  assumes "codec_laws env" "container_made env c0" "(container_step env)\<^sup>*\<^sup>* c0 c"
  shows "container_inv env c \<and> (\<not> may_access_plaintext c0 \<longrightarrow> get_plaintext env c = (Inl PlaintextDisabled, c))"
proof -
  have "container_inv env c \<and> (may_access_plaintext c \<longrightarrow> may_access_plaintext c0)"
    using assms(3)
  proof (induction rule: rtranclp_induct)
    case base
    then show ?case using container_made_inv [OF assms(2)] by simp
  next
    case (step y z)
    then show ?case using container_step_inv [OF assms(1) _ step.hyps(2)] by blast
  qed
  then show ?thesis by (auto simp: get_plaintext_def)
qed

section \<open>A concrete environment\<close>

text \<open>Accounts are a public key with a flag for the private one. The cipher puts the vector in front of
  its input, a wrapped key is the key itself, and the coder knows the four packages used below.\<close>

definition toy_keys :: "string list \<Rightarrow> key_store list" where
  "toy_keys ks = map (\<lambda>k. \<lparr>ks_public_key = k, ks_encrypted_key = replicate 32 (CHR ''k'')\<rparr>) ks"

definition toy_info :: signer_info where
  "toy_info = \<lparr>si_version = 3, si_sid = ''a'', si_digest_algorithm = [9], si_signature_algorithm = OID_ED25519,
     si_signature = ''ahi''\<rparr>"

definition toy_package :: "string list option \<Rightarrow> signer_info option \<Rightarrow> container_package" where
  "toy_package ks info = \<lparr>pkg_version = 1,
     pkg_container = (case ks of None \<Rightarrow> BoxPlaintext ''hi'' | Some ks \<Rightarrow>
        BoxEncrypted \<lparr>eb_keys = toy_keys ks, eb_algorithm = [7], eb_iv = replicate 16 (CHR ''k''), eb_value = ''hi''\<rparr>),
     pkg_signer_info = info\<rparr>"

definition toy_packages :: "(string \<times> container_package) list" where
  "toy_packages = [(''one'', toy_package (Some [''a'']) None), (''two'', toy_package (Some [''a'', ''b'']) None),
     (''signed'', toy_package None (Some toy_info)), (''both'', toy_package (Some [''a'']) (Some toy_info))]"

definition toy_container :: "(string \<times> bool, nat) container_env" where
  "toy_container = \<lparr>zlib_compress = (\<lambda>_ b. b), zlib_decompress = Some,
     aes_encrypt = (\<lambda>_ iv c. Inr (iv @ c)), aes_decrypt = (\<lambda>_ x. Inr (drop 16 x)),
     wrap_key = (\<lambda>_ k w. (Inr k, w)), unwrap_key = (\<lambda>a x. if snd a then Inr x else Inl ''public key only''),
     acc_sign = (\<lambda>a m. Inr (fst a @ m)), acc_verify = (\<lambda>a m s. s = fst a @ m),
     public_key = fst, from_hex = (\<lambda>h. Inr (h, False)), hex_encode = (\<lambda>b. b), has_private_key = snd,
     keypair_type = (\<lambda>_. ED25519), sha3_256 = (\<lambda>b. b),
     random_seed = (\<lambda>w. (Inr (replicate 32 (CHR ''k'')), Suc w)),
     encode_package = (\<lambda>pkg. case find (\<lambda>(b, q). q = pkg) toy_packages of None \<Rightarrow> Inl ''unknown'' | Some (b, _) \<Rightarrow> Inr b),
     decode_package = (\<lambda>b. ok_or ''unknown'' (map_of toy_packages b)),
     oid_aes_256_cbc = [7], oid_sha3_256 = [9]\<rparr>"

lemma toy_container_sels [simp]:
  "zlib_compress toy_container = (\<lambda>_ b. b)" "zlib_decompress toy_container = Some"
  "aes_encrypt toy_container = (\<lambda>_ iv c. Inr (iv @ c))" "aes_decrypt toy_container = (\<lambda>_ x. Inr (drop 16 x))"
  "wrap_key toy_container = (\<lambda>_ k w. (Inr k, w))"
  "unwrap_key toy_container = (\<lambda>a x. if snd a then Inr x else Inl ''public key only'')"
  "acc_sign toy_container = (\<lambda>a m. Inr (fst a @ m))" "acc_verify toy_container = (\<lambda>a m s. s = fst a @ m)"
  "public_key toy_container = fst" "from_hex toy_container = (\<lambda>h. Inr (h, False))" "hex_encode toy_container = (\<lambda>b. b)"
  "has_private_key toy_container = snd" "keypair_type toy_container = (\<lambda>_. ED25519)" "sha3_256 toy_container = (\<lambda>b. b)"
  "random_seed toy_container = (\<lambda>w. (Inr (replicate 32 (CHR ''k'')), Suc w))"
  "oid_aes_256_cbc toy_container = [7]" "oid_sha3_256 toy_container = [9]"
  by (simp_all add: toy_container_def)

lemma toy_coder:
  "encode_package toy_container (toy_package (Some [''a'']) None) = Inr ''one''"
  "encode_package toy_container (toy_package (Some [''a'', ''b'']) None) = Inr ''two''"
  "encode_package toy_container (toy_package None (Some toy_info)) = Inr ''signed''"
  "decode_package toy_container ''one'' = Inr (toy_package (Some [''a'']) None)"
  "decode_package toy_container ''two'' = Inr (toy_package (Some [''a'', ''b'']) None)"
  "decode_package toy_container ''signed'' = Inr (toy_package None (Some toy_info))"
  "decode_package toy_container ''both'' = Inr (toy_package (Some [''a'']) (Some toy_info))"
  by (simp_all add: toy_container_def toy_packages_def toy_package_def toy_keys_def)

lemma toy_codec_laws: "codec_laws toy_container"
proof -
  have "decode_package toy_container b = Inr pkg" if "encode_package toy_container pkg = Inr b" for pkg b
    using that by (auto simp: toy_container_def toy_packages_def split: option.splits if_splits)
  then show ?thesis by (simp add: codec_laws_def aes_iv_len_def)
qed

lemma toy_key_laws: "key_laws toy_container" "sign_laws toy_container"
  by (auto simp: key_laws_def opens_with_def account_from_public_key_def sign_laws_def)

lemmas toy_coder_flat = toy_coder [unfolded toy_package_def toy_keys_def toy_info_def OID_ED25519_def, simplified]

lemmas toy_eval = toy_coder_flat container_new_def get_encoded_def compute_encoded_def encode_encrypted_def
  encode_plaintext_def random_material_def aes_iv_len_def encode_def compress_def zlib_level_def seal_body_def
  container_version_def sign_compressed_def signer_version_def signature_algorithm_oid_def Let_def

abbreviation toy_alice :: "string \<times> bool" where "toy_alice \<equiv> (''a'', True)"
abbreviation toy_bob :: "string \<times> bool" where "toy_bob \<equiv> (''b'', True)"

definition toy_state :: "(string \<times> bool) list option \<Rightarrow> (string \<times> bool) option \<Rightarrow> (string \<times> bool) container" where
  "toy_state ps s = from_plaintext ''hi'' ps \<lparr>opt_locked = Some False, opt_signer = s\<rparr>"

lemma toy_state_eq:
  "toy_state ps s = \<lparr>sealed = (ps \<noteq> None), principals = (case ps of None \<Rightarrow> [] | Some qs \<Rightarrow> qs), may_access_plaintext = True,
     signer = s, parsed_signer_info = None, cached_plaintext = Some ''hi'', cached_encoded = None\<rparr>"
  by (simp add: toy_state_def from_plaintext_def set_plaintext_def container_new_def)

text \<open>The exports of a container sealed to one and to two accounts, and of one that is signed.\<close>

lemma toy_export:
  "\<exists>c' w'. get_encoded toy_container (toy_state (Some [toy_alice]) None) 0 = (Inr ''one'', c', w')"
  "\<exists>c' w'. get_encoded toy_container (toy_state (Some [toy_alice, toy_bob]) None) 0 = (Inr ''two'', c', w')"
  "\<exists>c' w'. get_encoded toy_container (toy_state None (Some toy_alice)) 0 = (Inr ''signed'', c', w')"
  by (simp_all add: toy_eval toy_state_eq OID_ED25519_def)


theorem revoked_key_is_locked_out_witness:
  "\<exists>d. from_encrypted toy_container ''one'' [toy_bob] = Inr d \<and> fst (get_plaintext toy_container d) = Inl NoMatchingKey"
proof -
  have r: "revoke_access toy_container ''b'' (toy_state (Some [toy_alice, toy_bob]) None)
      = (Inr (), toy_state (Some [toy_alice]) None)"
    by (simp add: revoke_access_def compute_plaintext_def assert_access_management_allowed_def toy_state_eq)
  obtain c' w' where g: "get_encoded toy_container (toy_state (Some [toy_alice]) None) 0 = (Inr ''one'', c', w')"
    using toy_export(1) by blast
  have k: "\<forall>q \<in> set [toy_bob]. has_private_key toy_container q \<longrightarrow> public_key toy_container q = ''b''"
    by simp
  from revoked_key_is_locked_out [OF toy_codec_laws toy_key_laws(1) r g] k show ?thesis by blast
qed

theorem signed_export_verifies_witness:
  "\<exists>d. from_encoded toy_container ''signed'' None = Inr d \<and> fst (verify_signature toy_container d 0) = Inr True"
proof -
  obtain c' w' where g: "get_encoded toy_container (toy_state None (Some toy_alice)) 0 = (Inr ''signed'', c', w')"
    using toy_export(3) by blast
  have p: "parse toy_container ''signed'' = Inr \<lparr>bare_body = PlaintextBody ''hi'', bare_signer_info = Some toy_info\<rparr>"
    by (simp add: parse_def toy_coder(6)) (simp add: toy_package_def version_u64_def container_version_def)
  note d = from_encoded_plain [OF p, of None]
  let ?d = "\<lparr>sealed = False, principals = [], may_access_plaintext = True, signer = None,
      parsed_signer_info = Some toy_info, cached_plaintext = None, cached_encoded = Some ''signed''\<rparr> :: (string \<times> bool) container"
  have "fst (get_plaintext toy_container ?d) = Inr ''hi''"
    using decode_from_plain [OF p, of ?d] by (simp add: get_plaintext_decodes decode_body_def decompress_def)
  with signed_export_verifies [OF toy_codec_laws toy_key_laws _ _ _ g d] have "fst (verify_signature toy_container ?d 0) = Inr True"
    by (simp add: toy_state_eq)
  with d show ?thesis by blast
qed

theorem reencryption_drops_signature_witness:
  "\<exists>c0 c c' w' d. from_encrypted toy_container ''both'' [toy_alice] = Inr c0 \<and> is_signed c0
    \<and> grant_access toy_container [toy_bob] c0 = (Inr (), c) \<and> get_encoded toy_container c 0 = (Inr ''two'', c', w')
    \<and> from_encrypted toy_container ''two'' [toy_alice] = Inr d \<and> is_signed c' \<and> \<not> is_signed d"
proof -
  let ?body = "\<lambda>ks. EncryptedBody \<lparr>body_stores = toy_keys ks, body_iv = replicate 16 (CHR ''k''), body_ciphertext = ''hi''\<rparr>"
  have p: "parse toy_container ''both'' = Inr \<lparr>bare_body = ?body [''a''], bare_signer_info = Some toy_info\<rparr>"
      "parse toy_container ''two'' = Inr \<lparr>bare_body = ?body [''a'', ''b''], bare_signer_info = None\<rparr>"
    by (simp_all add: parse_def toy_coder(5,7))
      (simp_all add: toy_package_def version_u64_def container_version_def assert_cipher_supported_def require_def)
  let ?start = "\<lparr>sealed = True, principals = [toy_alice], may_access_plaintext = True, signer = None,
      parsed_signer_info = Some toy_info, cached_plaintext = None, cached_encoded = Some ''both''\<rparr>"
  let ?c = "?start\<lparr>principals := [toy_alice, toy_bob], cached_plaintext := Some ''hi'', cached_encoded := None\<rparr>"
  have c0: "from_encrypted toy_container ''both'' [toy_alice] = Inr ?start" "is_signed ?start"
    by (simp_all add: from_encrypted_def compute_and_set_key_info_def set_encoded_def container_new_def p(1) toy_keys_def
        swap_remove_def is_signed_def)
  have c: "grant_access toy_container [toy_bob] ?start = (Inr (), ?c)"
    by (simp add: grant_access_def compute_plaintext_def decode_from_encoded_def compute_and_set_key_info_def p(1)
        toy_keys_def swap_remove_def decode_body_def decrypt_body_def or_decryption_failed_def decompress_def
        assert_access_management_allowed_def)
  have "\<exists>c' w'. get_encoded toy_container ?c 0 = (Inr ''two'', c', w')" by (simp add: toy_eval)
  then obtain c' w' where g: "get_encoded toy_container ?c 0 = (Inr ''two'', c', w')" by blast
  have "\<exists>d. from_encrypted toy_container ''two'' [toy_alice] = Inr d"
    by (simp add: from_encrypted_def compute_and_set_key_info_def set_encoded_def container_new_def p(2) toy_keys_def
        swap_remove_def account_from_public_key_def)
  then obtain d where d: "from_encrypted toy_container ''two'' [toy_alice] = Inr d" by blast
  from reencryption_drops_signature [OF toy_codec_laws toy_key_laws(1) c0 c g d] c0 c g d show ?thesis by blast
qed

theorem container_caches_coherent_witness:
  "get_plaintext toy_container (disable_plaintext (toy_state None None)) =
     (Inl PlaintextDisabled, disable_plaintext (toy_state None None))"
proof -
  let ?c = "from_plaintext ''hi'' None \<lparr>opt_locked = None, opt_signer = None\<rparr> :: (string \<times> bool) container"
  let ?d = "disable_plaintext (toy_state None None)"
  have s: "?c = toy_state None None" by (simp add: toy_state_eq from_plaintext_def set_plaintext_def container_new_def)
  have "container_made toy_container ?d"
    using made_plaintext [of toy_container "''hi''" None "\<lparr>opt_locked = Some True, opt_signer = None\<rparr>"]
    by (simp add: toy_state_eq from_plaintext_def set_plaintext_def container_new_def disable_plaintext_def)
  from container_caches_coherent [OF toy_codec_laws this, of "disable_plaintext ?d"] step_disable [of toy_container ?d]
  show ?thesis by (auto simp: disable_plaintext_def toy_state_eq)
qed

end
