(* ===== verification/Asset.thy ===== *)
theory Asset
  imports Metadata
begin

text \<open>
  \<open>keetanetwork-anchor-client/src/services/asset_movement/asset.rs\<close>: movable assets and their canonical
  form. The Keccak hash and the lower-case table of Unicode beyond ASCII are the parameters.
\<close>

section \<open>Definitions\<close>

record asset_env =
  keccak256 :: "bytes \<Rightarrow> bytes"
  unicode_lower :: "string \<Rightarrow> string"

definition EVM_PREFIX :: string where "EVM_PREFIX = ''evm:0x''"

datatype asset_or_pair = AssetSingle string | AssetPair string string

text \<open>Character \<open>position\<close> of the lower-cased body, cased by its nibble of the hash. Upper-casing a
  character in ASCII leaves one of several bytes alone.\<close>

definition checksum_char :: "bytes \<Rightarrow> nat \<times> string \<Rightarrow> string" where
  "checksum_char hash pc =
     (case pc of (pos, character) \<Rightarrow>
        let byte = (if pos div 2 < length hash then of_char (hash ! (pos div 2)) else 0 :: nat);
            nibble = (if pos mod 2 = 0 then byte div 16 else byte mod 16)
        in if 8 \<le> nibble then map ascii_upper character else character)"

definition eip55_checksum :: "asset_env \<Rightarrow> string \<Rightarrow> string" where
  "eip55_checksum env address =
     (let lower = to_lowercase (unicode_lower env) address;
          hash = keccak256 env lower
      in concat (map (checksum_char hash) (enumerate 0 (utf8_chars lower))))"

definition canonicalize_asset :: "asset_env \<Rightarrow> string \<Rightarrow> string" where
  "canonicalize_asset env input =
     (case strip_prefix EVM_PREFIX input of
        None \<Rightarrow> input
      | Some address \<Rightarrow>
          if CHR '':'' \<in> set address then input else EVM_PREFIX @ eip55_checksum env address)"

fun to_canonical_value :: "asset_env \<Rightarrow> asset_or_pair \<Rightarrow> json" where
  "to_canonical_value env (AssetSingle asset) = JString (canonicalize_asset env asset)"
| "to_canonical_value env (AssetPair source dest) = json_object
     [(''from'', JString (canonicalize_asset env source)), (''to'', JString (canonicalize_asset env dest))]"

fun to_pair_value :: "asset_env \<Rightarrow> asset_or_pair \<Rightarrow> json" where
  "to_pair_value env (AssetSingle asset) =
     (let canonical = canonicalize_asset env asset
      in json_object [(''from'', JString canonical), (''to'', JString canonical)])"
| "to_pair_value env (AssetPair source dest) = json_object
     [(''from'', JString (canonicalize_asset env source)), (''to'', JString (canonicalize_asset env dest))]"

definition decode_asset_or_pair :: "asset_or_pair decoder" where
  "decode_asset_or_pair doc =
     (case doc of
        JString s \<Rightarrow> Inr (AssetSingle s)
      | _ \<Rightarrow> bindR (doc_struct [''from'', ''to''] doc) (\<lambda>members.
             bindR (required_string members ''from'') (\<lambda>source.
             bindR (required_string members ''to'') (\<lambda>dest. Inr (AssetPair source dest)))))"

section \<open>Facts\<close>

lemma ascii_case_is_ascii: "is_ascii c \<Longrightarrow> is_ascii (ascii_upper c) \<and> is_ascii (ascii_lower c)"
  by (auto simp: is_ascii_def ascii_upper_def ascii_lower_def is_ascii_lower_def is_ascii_upper_def)

text \<open>Of an ASCII body only the case changes.\<close>

lemma checksum_ascii:
  assumes "list_all is_ascii s"
  shows "eip55_checksum env s =
    map (\<lambda>(pos, c). hd (checksum_char (keccak256 env (map ascii_lower s)) (pos, [c]))) (enumerate 0 (map ascii_lower s))"
proof -
  have l: "to_lowercase (unicode_lower env) s = map ascii_lower s" using assms by (rule to_lowercase_ascii)
  have a: "utf8_chars (map ascii_lower s) = map (\<lambda>c. [c]) (map ascii_lower s)"
    using assms by (intro utf8_chars_ascii) (auto simp: list_all_iff ascii_case_is_ascii)
  have c: "checksum_char h (p, [c]) = [hd (checksum_char h (p, [c]))]" for h p c
    by (simp add: checksum_char_def Let_def)
  have "concat (map (checksum_char h) (enumerate n (map (\<lambda>c. [c]) xs)))
      = map (\<lambda>(p, c). hd (checksum_char h (p, [c]))) (enumerate n xs)" for h n xs
  proof (induction xs arbitrary: n)
    case (Cons x xs)
    then show ?case using c [of h n x] by simp
  qed simp
  then show ?thesis unfolding eip55_checksum_def Let_def l a by (simp del: map_map)
qed

lemma checksum_lower: 
  assumes "list_all is_ascii s"
  shows "map ascii_lower (eip55_checksum env s) = map ascii_lower s"
proof -
  have "ascii_lower (hd (checksum_char h (p, [c]))) = ascii_lower c" for h p c
    by (simp add: checksum_char_def Let_def)
  then have "map ascii_lower (map (\<lambda>(p, c). hd (checksum_char h (p, [c]))) (enumerate n xs)) = map ascii_lower xs"
    for h n xs by (induction xs arbitrary: n) auto
  then show ?thesis by (simp add: checksum_ascii [OF assms] comp_def)
qed

lemma checksum_is_ascii:
  assumes "list_all is_ascii s"
  shows "list_all is_ascii (eip55_checksum env s)"
proof -
  have "is_ascii c \<Longrightarrow> is_ascii (hd (checksum_char h (p, [c])))" for h p c
    by (simp add: checksum_char_def Let_def ascii_case_is_ascii)
  then have k: "list_all is_ascii xs \<Longrightarrow> list_all is_ascii (map (\<lambda>(p, c). hd (checksum_char h (p, [c]))) (enumerate n xs))"
    for h n xs by (induction xs arbitrary: n) auto
  show ?thesis unfolding checksum_ascii [OF assms]
    by (rule k) (use assms in \<open>simp add: list_all_iff ascii_case_is_ascii\<close>)
qed

lemma checksum_case_insensitive:
  "list_all is_ascii s \<Longrightarrow> list_all is_ascii t \<Longrightarrow> map ascii_lower s = map ascii_lower t
    \<Longrightarrow> eip55_checksum env s = eip55_checksum env t"
  by (simp add: checksum_ascii)

lemma ascii_lower_colon: "ascii_lower c = CHR '':'' \<longleftrightarrow> c = CHR '':''"
proof
  assume l: "ascii_lower c = CHR '':''"
  show "c = CHR '':''"
  proof (rule ccontr)
    assume "c \<noteq> CHR '':''"
    with l have u: "is_ascii_upper c" "char_of ((of_char c :: nat) + 32) = CHR '':''"
      by (auto simp: ascii_lower_def split: if_splits)
    then have "(of_char (char_of ((of_char c :: nat) + 32)) :: nat) = 58" by simp
    with u(1) show False by (simp add: is_ascii_upper_def)
  qed
qed (simp add: ascii_lower_def is_ascii_upper_def)

lemma colon_in_lower: "CHR '':'' \<in> set (map ascii_lower s) \<longleftrightarrow> CHR '':'' \<in> set s"
proof
  assume "CHR '':'' \<in> set (map ascii_lower s)"
  then obtain c where "c \<in> set s" "ascii_lower c = CHR '':''" by fastforce
  then show "CHR '':'' \<in> set s" by (simp add: ascii_lower_colon)
next
  assume "CHR '':'' \<in> set s"
  then have "ascii_lower (CHR '':'') \<in> set (map ascii_lower s)" by (metis image_eqI set_map)
  moreover have "ascii_lower (CHR '':'') = CHR '':''" using ascii_lower_colon by blast
  ultimately show "CHR '':'' \<in> set (map ascii_lower s)" by metis
qed

lemma lower_colon: "map ascii_lower s = map ascii_lower t \<Longrightarrow> CHR '':'' \<in> set s \<longleftrightarrow> CHR '':'' \<in> set t"
  by (metis colon_in_lower)

section \<open>Properties\<close>

text \<open>The canonical form of an EVM asset decides equality up to case: two ASCII addresses have the
  same canonical asset exactly when they agree in lower case, the form differs from its input in the
  case of letters only, and it is a fixed point of canonicalization.\<close>

lemma asset_canonical_form:
  assumes "list_all is_ascii a" "list_all is_ascii b" "CHR '':'' \<notin> set a" "CHR '':'' \<notin> set b"
  shows "(canonicalize_asset env (EVM_PREFIX @ a) = canonicalize_asset env (EVM_PREFIX @ b)
      \<longleftrightarrow> map ascii_lower a = map ascii_lower b)
    \<and> map ascii_lower (canonicalize_asset env (EVM_PREFIX @ a)) = map ascii_lower (EVM_PREFIX @ a)
    \<and> canonicalize_asset env (canonicalize_asset env (EVM_PREFIX @ a)) = canonicalize_asset env (EVM_PREFIX @ a)"
proof (intro conjI iffI)
  have c: "canonicalize_asset env (EVM_PREFIX @ s) = EVM_PREFIX @ eip55_checksum env s" if "CHR '':'' \<notin> set s" for s
    using that by (simp add: canonicalize_asset_def)
  show "map ascii_lower a = map ascii_lower b"
    if "canonicalize_asset env (EVM_PREFIX @ a) = canonicalize_asset env (EVM_PREFIX @ b)"
    using that assms by (metis c same_append_eq checksum_lower)
  show "canonicalize_asset env (EVM_PREFIX @ a) = canonicalize_asset env (EVM_PREFIX @ b)"
    if "map ascii_lower a = map ascii_lower b"
    using checksum_case_insensitive [OF assms(1,2) that] assms(3,4) by (simp add: c)
  show "map ascii_lower (canonicalize_asset env (EVM_PREFIX @ a)) = map ascii_lower (EVM_PREFIX @ a)"
    using assms(1,3) by (simp add: c checksum_lower)
  have "CHR '':'' \<notin> set (eip55_checksum env a)" using lower_colon [OF checksum_lower [OF assms(1)]] assms(3) by blast
  moreover have "eip55_checksum env (eip55_checksum env a) = eip55_checksum env a"
    by (rule checksum_case_insensitive) (simp_all add: assms(1) checksum_is_ascii checksum_lower)
  ultimately show "canonicalize_asset env (canonicalize_asset env (EVM_PREFIX @ a)) = canonicalize_asset env (EVM_PREFIX @ a)"
    using assms(3) by (simp add: c)
qed

definition toy_asset_env :: asset_env where
  "toy_asset_env = \<lparr>keccak256 = (\<lambda>_. [CHR ''z'']), unicode_lower = (\<lambda>s. s)\<rparr>"

end
