(* ===== verification/AssetMetadata.thy ===== *)
theory AssetMetadata
  imports Asset
begin

text \<open>
  \<open>keetanetwork-anchor-client/src/services/asset_movement/metadata.rs\<close>: the operations a provider
  advertises with their authentication, the provider read from its entry, its published token and legal
  metadata, and the search for providers of a transfer.
\<close>

section \<open>Operations\<close>

datatype endpoint_auth = EaNone | EaOptional | EaRequired

definition signs :: "endpoint_auth \<Rightarrow> bool" where
  "signs a \<longleftrightarrow> a = EaOptional \<or> a = EaRequired"

record operation_endpoint =
  op_url :: string
  op_auth :: endpoint_auth

definition OPERATION_NAMES :: "string list" where
  "OPERATION_NAMES =
     [''initiateTransfer'', ''simulateTransfer'', ''executeTransfer'', ''getTransferStatus'', ''getAccountStatus'',
      ''initiatePersistentForwardingTemplate'', ''createPersistentForwardingTemplate'',
      ''listPersistentForwardingTemplate'', ''createPersistentForwarding'', ''listPersistentForwarding'',
      ''deactivatePersistentForwardingTemplate'', ''deactivatePersistentForwarding'', ''listTransactions'',
      ''shareKYC'']"

type_synonym asset_operations = "(string \<times> operation_endpoint) list"

text \<open>\<open>find_map\<close> over the entries: the first entry of the name.\<close>

definition operations_get :: "asset_operations \<Rightarrow> string \<Rightarrow> operation_endpoint option" where
  "operations_get entries operation = map_of entries operation"

definition operations_contains :: "asset_operations \<Rightarrow> string \<Rightarrow> bool" where
  "operations_contains entries operation \<longleftrightarrow> operations_get entries operation \<noteq> None"

definition operations_names :: "asset_operations \<Rightarrow> string list" where
  "operations_names entries = map fst entries"

definition parse_auth_type :: "string \<Rightarrow> endpoint_auth" where
  "parse_auth_type v = (if v = ''required'' then EaRequired else if v = ''optional'' then EaOptional else EaNone)"

definition auth_override :: "string \<Rightarrow> endpoint_auth \<Rightarrow> endpoint_auth" where
  "auth_override name a = (if name = ''getAccountStatus'' then EaRequired else a)"

definition parse_endpoint :: "string \<Rightarrow> json \<Rightarrow> operation_endpoint option" where
  "parse_endpoint name v =
     (case as_str v of
        Some url \<Rightarrow> Some \<lparr>op_url = url, op_auth = auth_override name EaNone\<rparr>
      | None \<Rightarrow>
          Option.bind (Option.bind (get_key ''url'' v) as_str) (\<lambda>url.
            let kind = Option.bind (Option.bind (Option.bind (get_key ''options'' v) (get_key ''authentication''))
                          (get_key ''type'')) as_str;
                a = (case kind of None \<Rightarrow> EaNone | Some k \<Rightarrow> parse_auth_type k)
            in Some \<lparr>op_url = url, op_auth = auth_override name a\<rparr>))"

definition operations_from_entry :: "json \<Rightarrow> asset_operations" where
  "operations_from_entry entry =
     (case Option.bind (get_key ''operations'' entry) as_object of
        None \<Rightarrow> []
      | Some m \<Rightarrow> filter_map (\<lambda>(name, endp). map_option (Pair name) (parse_endpoint name endp)) m)"

section \<open>Published content\<close>

datatype renderable_content = Markdown string | Plaintext string

definition content_variant :: "string \<Rightarrow> string \<Rightarrow> string + renderable_content" where
  "content_variant tag c =
     (if tag = ''markdown'' then Inr (Markdown c)
      else if tag = ''plaintext'' then Inr (Plaintext c)
      else Inl ''unknown variant'')"

text \<open>The internally tagged enum: a struct with its tag, or a sequence that the tag opens.\<close>

definition decode_content :: "renderable_content decoder" where
  "decode_content doc =
     (case doc of
        JArray xs \<Rightarrow>
          (case xs of [JString tag, JString c] \<Rightarrow> content_variant tag c | _ \<Rightarrow> Inl ''invalid type'')
      | _ \<Rightarrow>
          bindR (doc_struct [''type'', ''content''] doc) (\<lambda>members.
          bindR (required_string members ''type'') (\<lambda>tag.
          bindR (required_string members ''content'') (\<lambda>c. content_variant tag c))))"

datatype disclaimer_purpose = General

definition decode_purpose :: "disclaimer_purpose decoder" where
  "decode_purpose doc =
     (case doc of
        JString s \<Rightarrow> if s = ''general'' then Inr General else Inl ''unknown variant''
      | JObject [(k, v)] \<Rightarrow>
          if k = ''general'' then (if is_null v then Inr General else Inl ''invalid type: expected unit'')
          else Inl ''unknown variant''
      | _ \<Rightarrow> Inl ''invalid type'')"

record disclaimer =
  disc_purpose :: disclaimer_purpose
  disc_content :: renderable_content

definition decode_disclaimer :: "disclaimer decoder" where
  "decode_disclaimer doc =
     bindR (doc_struct [''purpose'', ''content''] doc) (\<lambda>members.
     bindR (required members ''purpose'' decode_purpose) (\<lambda>p.
     bindR (required members ''content'' decode_content) (\<lambda>c.
     Inr \<lparr>disc_purpose = p, disc_content = c\<rparr>)))"

record anchor_details =
  det_name :: "string option"
  det_description :: "renderable_content option"
  det_logo :: "string option"

record token_metadata =
  tok_decimal_places :: u32
  tok_logo_uri :: "string option"
  tok_display_name :: "string option"
  tok_ticker :: "string option"

definition decimal_places :: "u32 decoder" where
  "decimal_places doc =
     (case doc of
        JString t \<Rightarrow> (case parse_uint (2 ^ 32) (trim t) of None \<Rightarrow> Inl ''invalid digit'' | Some n \<Rightarrow> Inr (word_of_nat n))
      | _ \<Rightarrow> decode_u32 doc)"

definition decode_token_metadata :: "token_metadata decoder" where
  "decode_token_metadata doc =
     bindR (doc_struct [''decimalPlaces'', ''logoURI'', ''displayName'', ''ticker''] doc) (\<lambda>members.
     bindR (required members ''decimalPlaces'' decimal_places) (\<lambda>places.
     bindR (optional_value decode_string (members ''logoURI'')) (\<lambda>logo.
     bindR (optional_value decode_string (members ''displayName'')) (\<lambda>name.
     bindR (optional_value decode_string (members ''ticker'')) (\<lambda>ticker.
     Inr \<lparr>tok_decimal_places = places, tok_logo_uri = logo, tok_display_name = name, tok_ticker = ticker\<rparr>)))))"

section \<open>Providers\<close>

record asset_provider_info =
  ap_id :: string
  ap_operations :: asset_operations
  ap_supported_assets :: "json list"
  ap_location_metadata :: "json option"
  ap_legal :: "json option"
  ap_account :: "string option"

definition non_null :: "json option \<Rightarrow> json option" where
  "non_null v = Option.bind v (\<lambda>j. if is_null j then None else Some j)"

definition provider_from_entry :: "string \<Rightarrow> json \<Rightarrow> asset_provider_info" where
  "provider_from_entry ident entry =
     \<lparr>ap_id = ident, ap_operations = operations_from_entry entry,
      ap_supported_assets = (case Option.bind (get_key ''supportedAssets'' entry) as_array of None \<Rightarrow> [] | Some xs \<Rightarrow> xs),
      ap_location_metadata = non_null (get_key ''locationMetadata'' entry),
      ap_legal = non_null (get_key ''legal'' entry),
      ap_account = Option.bind (get_key ''account'' entry) as_str\<rparr>"

definition legal_anchor_details :: "asset_provider_info \<Rightarrow> anchor_details option" where
  "legal_anchor_details info =
     Option.bind (Option.bind (ap_legal info) (get_key ''anchorDetails'')) (\<lambda>details.
       Some \<lparr>det_name = Option.bind (get_key ''name'' details) as_str,
             det_description = Option.bind (get_key ''description'' details) (\<lambda>v. ok (decode_content v)),
             det_logo = Option.bind (get_key ''logo'' details) as_str\<rparr>)"

definition legal_disclaimers :: "asset_provider_info \<Rightarrow> disclaimer list option" where
  "legal_disclaimers info =
     Option.bind (Option.bind (Option.bind (ap_legal info) (get_key ''disclaimers'')) as_array) (\<lambda>xs.
       Some (filter_map (\<lambda>entry. ok (decode_disclaimer entry)) xs))"

definition asset_metadata_for_location :: "asset_provider_info \<Rightarrow> string \<Rightarrow> string \<Rightarrow> token_metadata option" where
  "asset_metadata_for_location info loc asset =
     Option.bind (Option.bind (ap_location_metadata info) (get_key loc)) (\<lambda>per_location.
     Option.bind (Option.bind (get_key ''assets'' per_location) (get_key asset)) (\<lambda>metadata.
     ok (decode_token_metadata metadata)))"

record provider_filter =
  pf_id :: "string option"
  pf_account :: "string option"

definition by_id :: "string \<Rightarrow> provider_filter" where
  "by_id ident = \<lparr>pf_id = Some ident, pf_account = None\<rparr>"

definition by_account :: "string \<Rightarrow> provider_filter" where
  "by_account account = \<lparr>pf_id = None, pf_account = Some account\<rparr>"

definition default_filter :: provider_filter where
  "default_filter = \<lparr>pf_id = None, pf_account = None\<rparr>"

definition filter_accepts :: "provider_filter \<Rightarrow> asset_provider_info \<Rightarrow> bool" where
  "filter_accepts f info \<longleftrightarrow>
     (case pf_id f of None \<Rightarrow> True | Some i \<Rightarrow> i = ap_id info)
   \<and> (case pf_account f of None \<Rightarrow> True | Some a \<Rightarrow> ap_account info = Some a)"

definition ASSET_SERVICE :: string where "ASSET_SERVICE = ''assetMovement''"

definition asset_query_parse :: "provider_filter \<Rightarrow> string \<Rightarrow> json \<Rightarrow> asset_provider_info option" where
  "asset_query_parse criteria ident entry =
     (let provider = provider_from_entry ident entry
      in if filter_accepts criteria provider then Some provider else None)"

section \<open>Search\<close>

record provider_search =
  ps_asset :: "asset_or_pair option"
  ps_from :: "string option"
  ps_to :: "string option"
  ps_inbound_rails :: "string list"
  ps_outbound_rails :: "string list"

definition for_asset :: "asset_or_pair \<Rightarrow> provider_search" where
  "for_asset a = \<lparr>ps_asset = Some a, ps_from = None, ps_to = None, ps_inbound_rails = [], ps_outbound_rails = []\<rparr>"

definition search_from :: "string \<Rightarrow> provider_search \<Rightarrow> provider_search" where
  "search_from loc s = s\<lparr>ps_from := Some loc\<rparr>"

definition search_to :: "string \<Rightarrow> provider_search \<Rightarrow> provider_search" where
  "search_to loc s = s\<lparr>ps_to := Some loc\<rparr>"

definition search_inbound :: "string \<Rightarrow> provider_search \<Rightarrow> provider_search" where
  "search_inbound rail s = s\<lparr>ps_inbound_rails := ps_inbound_rails s @ [rail]\<rparr>"

definition search_outbound :: "string \<Rightarrow> provider_search \<Rightarrow> provider_search" where
  "search_outbound rail s = s\<lparr>ps_outbound_rails := ps_outbound_rails s @ [rail]\<rparr>"

definition rail_name :: "json \<Rightarrow> string option" where
  "rail_name entry =
     (case as_str entry of Some name \<Rightarrow> Some name | None \<Rightarrow> Option.bind (get_key ''rail'' entry) as_str)"

definition rail_names :: "json option \<Rightarrow> string list" where
  "rail_names rails =
     (case Option.bind rails as_array of None \<Rightarrow> [] | Some entries \<Rightarrow> filter_map rail_name entries)"

datatype direction = Inbound | Outbound

definition endpoint_rails :: "json \<Rightarrow> direction \<Rightarrow> string list" where
  "endpoint_rails endp d =
     (case get_key ''rails'' endp of
        None \<Rightarrow> []
      | Some rails \<Rightarrow>
          rail_names (get_key (case d of Inbound \<Rightarrow> ''inbound'' | Outbound \<Rightarrow> ''outbound'') rails)
          @ rail_names (get_key ''common'' rails))"

definition rail_pool_matches :: "string list \<Rightarrow> string list \<Rightarrow> bool" where
  "rail_pool_matches wanted pool \<longleftrightarrow> wanted = [] \<or> list_ex (\<lambda>rail. List.member pool rail) wanted"

definition rails_orientation_matches :: "string list \<Rightarrow> string list \<Rightarrow> json \<Rightarrow> json \<Rightarrow> bool" where
  "rails_orientation_matches inb outb source dest =
     (let inbound_pool = endpoint_rails source Inbound; outbound_pool = endpoint_rails dest Outbound
      in if inbound_pool = [] \<and> outbound_pool = [] then False
         else rail_pool_matches inb inbound_pool \<and> rail_pool_matches outb outbound_pool)"

definition location_matches :: "string option \<Rightarrow> json \<Rightarrow> bool" where
  "location_matches wanted endp =
     (case wanted of None \<Rightarrow> True | Some w \<Rightarrow> Option.bind (get_key ''location'' endp) as_str = Some w)"

definition endpoint_asset_id :: "asset_env \<Rightarrow> json \<Rightarrow> string option" where
  "endpoint_asset_id env endp = map_option (canonicalize_asset env) (Option.bind (get_key ''id'' endp) as_str)"

definition asset_matches :: "asset_env \<Rightarrow> provider_search \<Rightarrow> json \<Rightarrow> json \<Rightarrow> bool" where
  "asset_matches env s source dest =
     (case ps_asset s of
        None \<Rightarrow> True
      | Some asset \<Rightarrow>
          let source_id = endpoint_asset_id env source; dest_id = endpoint_asset_id env dest in
          (case asset of
             AssetSingle name \<Rightarrow>
               let name = canonicalize_asset env name in source_id = Some name \<or> dest_id = Some name
           | AssetPair f t \<Rightarrow>
               source_id = Some (canonicalize_asset env f) \<and> dest_id = Some (canonicalize_asset env t)))"

definition orientation_matches :: "asset_env \<Rightarrow> provider_search \<Rightarrow> json \<Rightarrow> json \<Rightarrow> bool" where
  "orientation_matches env s source dest \<longleftrightarrow>
     asset_matches env s source dest
   \<and> location_matches (ps_from s) source
   \<and> location_matches (ps_to s) dest
   \<and> rails_orientation_matches (ps_inbound_rails s) (ps_outbound_rails s) source dest"

definition path_matches :: "asset_env \<Rightarrow> provider_search \<Rightarrow> json \<Rightarrow> bool" where
  "path_matches env s path =
     (case Option.bind (get_key ''pair'' path) as_array of
        Some [first, second] \<Rightarrow> orientation_matches env s first second \<or> orientation_matches env s second first
      | _ \<Rightarrow> False)"

definition entry_matches :: "asset_env \<Rightarrow> provider_search \<Rightarrow> json \<Rightarrow> bool" where
  "entry_matches env s entry =
     (case Option.bind (get_key ''paths'' entry) as_array of
        None \<Rightarrow> False
      | Some paths \<Rightarrow> list_ex (path_matches env s) paths)"

definition search_accepts :: "asset_env \<Rightarrow> provider_search \<Rightarrow> asset_provider_info \<Rightarrow> bool" where
  "search_accepts env s info = list_ex (entry_matches env s) (ap_supported_assets info)"

end
