(* ===== verification/AssetRequest.thy ===== *)
theory AssetRequest
  imports AssetMetadata ResolverProps
begin

text \<open>
  \<open>keetanetwork-anchor-client/src/services/asset_movement/request.rs\<close>: the inputs of the operations, and
  for each the fields sent in the body and the payload that is signed.
\<close>

section \<open>Helpers\<close>

type_synonym flds = "(string \<times> json) list"

definition insert_some :: "string \<Rightarrow> json option \<Rightarrow> flds \<Rightarrow> flds" where
  "insert_some key v m = (case v of None \<Rightarrow> m | Some j \<Rightarrow> map_insert key j m)"

definition insert_u32 :: "string \<Rightarrow> u32 option \<Rightarrow> flds \<Rightarrow> flds" where
  "insert_u32 key v m = (case v of None \<Rightarrow> m | Some n \<Rightarrow> map_insert key (JNumber (PosInt (ucast n))) m)"

definition insert_string :: "string \<Rightarrow> string option \<Rightarrow> flds \<Rightarrow> flds" where
  "insert_string key v m = insert_some key (map_option JString v) m"

definition string_array :: "string list \<Rightarrow> json" where
  "string_array xs = JArray (map JString xs)"

definition id_literal :: "string \<Rightarrow> string \<Rightarrow> signable list" where
  "id_literal literal_tag ident = [Text literal_tag, Text ident]"

definition literal :: "string list \<Rightarrow> signable list" where
  "literal parts = map Text parts"

section \<open>Pagination and transfers\<close>

record pagination =
  pg_limit :: "u32 option"
  pg_offset :: "u32 option"

definition pagination_to_value :: "pagination \<Rightarrow> json option" where
  "pagination_to_value p =
     (let m = insert_u32 ''offset'' (pg_offset p) (insert_u32 ''limit'' (pg_limit p) [])
      in if m = [] then None else Some (JObject m))"

record transfer_source =
  src_location :: string
  src_source :: "json option"

record transfer_destination =
  dst_location :: string
  dst_recipient :: "json option"
  dst_deposit_message :: "string option"

record transfer_request =
  tr_asset :: asset_or_pair
  tr_from :: transfer_source
  tr_to :: transfer_destination
  tr_value :: string
  tr_allowed_rails :: "string list"

definition destination_fields :: "transfer_destination \<Rightarrow> flds" where
  "destination_fields d =
     insert_string ''depositMessage'' (dst_deposit_message d)
       (insert_some ''recipient'' (dst_recipient d)
         (map_insert ''location'' (JString (dst_location d)) []))"

definition transfer_fields :: "asset_env \<Rightarrow> transfer_request \<Rightarrow> flds" where
  "transfer_fields env r =
     (let source = insert_some ''source'' (src_source (tr_from r))
                     (map_insert ''location'' (JString (src_location (tr_from r))) []);
          m = (if tr_allowed_rails r \<noteq> [] then map_insert ''allowedRails'' (string_array (tr_allowed_rails r)) [] else []);
          m = map_insert ''value'' (JString (tr_value r)) m;
          m = map_insert ''from'' (JObject source) m;
          m = map_insert ''to'' (JObject (destination_fields (tr_to r))) m
      in map_insert ''asset'' (to_canonical_value env (tr_asset r)) m)"

definition transfer_signed_value :: "asset_env \<Rightarrow> transfer_request \<Rightarrow> json" where
  "transfer_signed_value env r = json_object
     [(''asset'', to_canonical_value env (tr_asset r)),
      (''from'', json_object [(''location'', JString (src_location (tr_from r)))]),
      (''to'', JObject (destination_fields (tr_to r))),
      (''value'', JString (tr_value r))]"

definition transfer_signable :: "asset_env \<Rightarrow> transfer_request \<Rightarrow> signing_error + signable list" where
  "transfer_signable env r = object_to_signable (transfer_signed_value env r)"

record execute_request =
  ex_id :: string
  ex_instruction :: json

definition execute_fields :: "execute_request \<Rightarrow> flds" where
  "execute_fields r = map_insert ''instruction'' (ex_instruction r) []"

definition execute_signable :: "execute_request \<Rightarrow> signing_error + signable list" where
  "execute_signable r = object_to_signable (json_object [(''id'', JString (ex_id r)), (''instruction'', ex_instruction r)])"

section \<open>Forwarding templates and addresses\<close>

record initiate_template_request =
  it_asset :: asset_or_pair
  it_location :: string

definition initiate_template_fields :: "asset_env \<Rightarrow> initiate_template_request \<Rightarrow> flds" where
  "initiate_template_fields env r =
     map_insert ''asset'' (to_canonical_value env (it_asset r))
       (map_insert ''location'' (JString (it_location r)) [])"

definition initiate_template_signable :: "asset_env \<Rightarrow> initiate_template_request \<Rightarrow> signing_error + signable list" where
  "initiate_template_signable env r = object_to_signable
     (json_object [(''asset'', to_pair_value env (it_asset r)), (''location'', JString (it_location r))])"

datatype create_template_request =
    Direct asset_or_pair string json
  | Completion "string option" json

fun create_template_fields :: "asset_env \<Rightarrow> create_template_request \<Rightarrow> flds" where
  "create_template_fields env (Direct asset loc address) =
     map_insert ''address'' address
       (map_insert ''asset'' (to_canonical_value env asset) (map_insert ''location'' (JString loc) []))"
| "create_template_fields env (Completion ident data) = map_insert ''data'' data (insert_string ''id'' ident [])"

fun create_template_signable :: "asset_env \<Rightarrow> create_template_request \<Rightarrow> signing_error + signable list" where
  "create_template_signable env (Direct asset loc address) = object_to_signable
     (json_object [(''asset'', to_pair_value env asset), (''location'', JString loc), (''address'', address)])"
| "create_template_signable env (Completion ident data) =
     object_to_signable (JObject (map_insert ''data'' data (insert_string ''id'' ident [])))"

datatype forwarding_destination = Address string json | Template string

record create_address_request =
  ca_source_location :: string
  ca_asset :: asset_or_pair
  ca_outgoing_rail :: "string option"
  ca_incoming_rail :: "string option"
  ca_destination :: forwarding_destination

definition create_address_base :: "asset_env \<Rightarrow> create_address_request \<Rightarrow> flds" where
  "create_address_base env r =
     insert_string ''outgoingRail'' (ca_outgoing_rail r)
       (insert_string ''incomingRail'' (ca_incoming_rail r)
         (map_insert ''asset'' (to_canonical_value env (ca_asset r))
           (map_insert ''sourceLocation'' (JString (ca_source_location r)) [])))"

definition create_address_fields :: "asset_env \<Rightarrow> create_address_request \<Rightarrow> flds" where
  "create_address_fields env r =
     (let m = create_address_base env r in
      case ca_destination r of
        Address loc address \<Rightarrow>
          map_insert ''destinationLocation'' (JString loc) (map_insert ''destinationAddress'' address m)
      | Template ident \<Rightarrow> map_insert ''persistentAddressTemplateId'' (JString ident) m)"

definition create_address_signable :: "asset_env \<Rightarrow> create_address_request \<Rightarrow> signing_error + signable list" where
  "create_address_signable env r =
     (let m = map_insert ''asset'' (to_canonical_value env (ca_asset r))
                (map_insert ''sourceLocation'' (JString (ca_source_location r)) []);
          m = insert_string ''incomingRail'' (ca_incoming_rail r) (insert_string ''outgoingRail'' (ca_outgoing_rail r) m);
          m = (case ca_destination r of
                 Address loc address \<Rightarrow>
                   map_insert ''destinationAddress'' address (map_insert ''destinationLocation'' (JString loc) m)
               | Template ident \<Rightarrow> map_insert ''persistentAddressTemplateId'' (JString ident) m)
      in object_to_signable (JObject m))"

section \<open>Lists\<close>

record list_templates_request =
  lt_asset :: "string list option"
  lt_location :: "string list option"

definition list_templates_fields :: "list_templates_request \<Rightarrow> flds" where
  "list_templates_fields r =
     insert_some ''location'' (map_option string_array (lt_location r))
       (insert_some ''asset'' (map_option string_array (lt_asset r)) [])"

definition list_templates_signable :: "signable list" where
  "list_templates_signable = literal [''list-templates'']"

record address_filter =
  af_source_location :: "string option"
  af_destination_location :: "string option"
  af_asset :: "asset_or_pair option"
  af_destination_address :: "string option"
  af_template_id :: "string option"

definition address_filter_to_value :: "asset_env \<Rightarrow> address_filter \<Rightarrow> json" where
  "address_filter_to_value env f = JObject
     (insert_string ''persistentAddressTemplateId'' (af_template_id f)
       (insert_string ''destinationAddress'' (af_destination_address f)
         (insert_some ''asset'' (map_option (to_canonical_value env) (af_asset f))
           (insert_string ''destinationLocation'' (af_destination_location f)
             (insert_string ''sourceLocation'' (af_source_location f) [])))))"

record list_addresses_request =
  la_search :: "address_filter list option"
  la_pagination :: pagination

definition list_addresses_fields :: "asset_env \<Rightarrow> list_addresses_request \<Rightarrow> flds" where
  "list_addresses_fields env r =
     insert_some ''pagination'' (pagination_to_value (la_pagination r))
       (insert_some ''search'' (map_option (\<lambda>fs. JArray (map (address_filter_to_value env) fs)) (la_search r)) [])"

definition list_addresses_signable :: "signable list" where
  "list_addresses_signable = literal [''list-persistent-forwarding-addresses'']"

record persistent_filter =
  pa_location :: string
  pa_address :: "string option"
  pa_template :: "string option"

definition persistent_filter_to_value :: "persistent_filter \<Rightarrow> json" where
  "persistent_filter_to_value f = JObject
     (insert_string ''persistentAddressTemplate'' (pa_template f)
       (insert_string ''persistentAddress'' (pa_address f) (map_insert ''location'' (JString (pa_location f)) [])))"

record transaction_endpoint_filter =
  te_location :: string
  te_user_address :: "string option"
  te_asset :: "string option"

definition transaction_endpoint_to_value :: "transaction_endpoint_filter \<Rightarrow> json" where
  "transaction_endpoint_to_value f = JObject
     (insert_string ''asset'' (te_asset f)
       (insert_string ''userAddress'' (te_user_address f) (map_insert ''location'' (JString (te_location f)) [])))"

record transaction_ref_filter =
  tf_location :: string
  tf_transaction :: json

definition transaction_ref_to_value :: "transaction_ref_filter \<Rightarrow> json" where
  "transaction_ref_to_value f =
     json_object [(''location'', JString (tf_location f)), (''transaction'', tf_transaction f)]"

record list_transactions_request =
  lx_addresses :: "persistent_filter list option"
  lx_from :: "transaction_endpoint_filter option"
  lx_to :: "transaction_endpoint_filter option"
  lx_transactions :: "transaction_ref_filter list option"
  lx_pagination :: pagination

definition list_transactions_fields :: "list_transactions_request \<Rightarrow> flds" where
  "list_transactions_fields r =
     (let m = insert_some ''pagination'' (pagination_to_value (lx_pagination r)) [];
          m = insert_some ''persistentAddresses''
                (map_option (\<lambda>fs. JArray (map persistent_filter_to_value fs)) (lx_addresses r)) m;
          m = insert_some ''from'' (map_option transaction_endpoint_to_value (lx_from r)) m;
          m = insert_some ''to'' (map_option transaction_endpoint_to_value (lx_to r)) m
      in insert_some ''transactions'' (map_option (\<lambda>fs. JArray (map transaction_ref_to_value fs)) (lx_transactions r)) m)"

definition list_transactions_signable :: "signable list" where
  "list_transactions_signable = literal [''list-transactions'']"

record share_kyc_request =
  sk_attributes :: string
  sk_tos_agreement :: "json option"

definition share_kyc_fields :: "share_kyc_request \<Rightarrow> flds" where
  "share_kyc_fields r =
     insert_some ''tosAgreement'' (sk_tos_agreement r) (map_insert ''attributes'' (JString (sk_attributes r)) [])"

definition share_kyc_signable :: "signable list" where
  "share_kyc_signable = literal [''share-kyc'']"

section \<open>Facts\<close>

lemma map_of_insert_some [simp]:
  "map_of (insert_some k v m) l = (if l = k \<and> v \<noteq> None then v else map_of m l)"
  by (auto simp: insert_some_def map_of_insert split: option.splits)

lemma map_of_insert_string [simp]:
  "map_of (insert_string k v m) l = (if l = k \<and> v \<noteq> None then map_option JString v else map_of m l)"
  by (simp add: insert_string_def)

lemma valid_insert_some:
  "json_valid (JObject m) \<Longrightarrow> (\<And>j. v = Some j \<Longrightarrow> json_valid j) \<Longrightarrow> json_valid (JObject (insert_some k v m))"
  by (cases v) (simp_all add: insert_some_def json_valid_insert del: json_valid.simps)

lemma valid_insert_string: "json_valid (JObject m) \<Longrightarrow> json_valid (JObject (insert_string k v m))"
  unfolding insert_string_def by (rule valid_insert_some) auto

lemma valid_empty [simp]: "json_valid (JObject [])"
  by simp

lemma valid_json_object: "list_all (\<lambda>(k, v). json_valid v) kvs \<Longrightarrow> json_valid (json_object kvs)"
  using set_map_from [of kvs] by (auto simp: json_object_def list_all_iff)

lemmas valid_intros = valid_insert_some valid_insert_string json_valid_insert valid_json_object

lemma valid_asset: "json_valid (to_canonical_value env a)" "json_valid (to_pair_value env a)"
  by (cases a; auto intro: valid_json_object simp: Let_def)+

text \<open>Every member of a signed transfer but the rails and the details of the source is bound by the
  payload.\<close>

lemma valid_destination:
  "(\<And>j. dst_recipient d = Some j \<Longrightarrow> json_valid j) \<Longrightarrow> json_valid (JObject (destination_fields d))"
  unfolding destination_fields_def by (intro valid_intros) auto

lemma valid_transfer:
  "(\<And>j. dst_recipient (tr_to r) = Some j \<Longrightarrow> json_valid j) \<Longrightarrow> json_valid (transfer_signed_value env r)"
  unfolding transfer_signed_value_def
  by (rule valid_json_object)
    (simp add: valid_asset valid_json_object valid_destination del: json_valid.simps(3))

lemma destination_fields_inj:
  assumes "destination_fields d = destination_fields d'"
  shows "dst_location d = dst_location d' \<and> dst_recipient d = dst_recipient d'
    \<and> dst_deposit_message d = dst_deposit_message d'"
proof -
  have m: "map_of (destination_fields d) k = map_of (destination_fields d') k" for k using assms by simp
  show ?thesis
    using m [of "''location''"] m [of "''recipient''"] m [of "''depositMessage''"]
    by (cases "dst_deposit_message d"; cases "dst_deposit_message d'"; cases "dst_recipient d"; cases "dst_recipient d'")
      (auto simp: destination_fields_def map_of_insert split: if_splits)
qed

section \<open>Properties\<close>


definition toy_transfer :: "string list \<Rightarrow> transfer_request" where
  "toy_transfer rails = \<lparr>tr_asset = AssetSingle ''USD'', tr_from = \<lparr>src_location = ''x'', src_source = None\<rparr>,
     tr_to = \<lparr>dst_location = ''y'', dst_recipient = None, dst_deposit_message = None\<rparr>, tr_value = ''1'',
     tr_allowed_rails = rails\<rparr>"


end
