(* ===== verification/AssetResponse.thy ===== *)
theory AssetResponse
  imports AssetMetadata
begin

text \<open>
  \<open>keetanetwork-anchor-client/src/services/asset_movement/response.rs\<close>: the typed responses and their
  derived deserializers. A field of type \<open>Value\<close> is read with \<open>decode_value\<close>; a struct with flattened
  extra members is read from an object only, and keeps the members it does not name.
\<close>

section \<open>Structs with flattened extras\<close>

definition flat_struct :: "string list \<Rightarrow> json \<Rightarrow> string + (string \<Rightarrow> json option) \<times> (string \<times> json) list" where
  "flat_struct names doc =
     (case doc of
        JObject members \<Rightarrow>
          bindR (doc_struct names doc) (\<lambda>known.
          Inr (known, map_from (map (\<lambda>(k, v). (k, to_value v))
             (filter (\<lambda>(k, _). \<not> List.member names k) members))))
      | _ \<Rightarrow> Inl ''invalid type'')"

section \<open>Fees\<close>

datatype located_asset = IdAsset string | AtLocation string string

definition decode_located_asset :: "located_asset decoder" where
  "decode_located_asset doc =
     (case doc of
        JString s \<Rightarrow> Inr (IdAsset s)
      | _ \<Rightarrow> bindR (doc_struct [''id'', ''location''] doc) (\<lambda>members.
             bindR (required_string members ''id'') (\<lambda>i.
             bindR (required_string members ''location'') (\<lambda>l. Inr (AtLocation i l)))))"

definition decode_number :: "number decoder" where
  "decode_number doc = (case doc of JNumber n \<Rightarrow> Inr n | _ \<Rightarrow> Inl ''invalid type'')"

record fee_line_item =
  fee_purpose :: string
  fee_value :: "string option"
  fee_basis_points :: "number option"
  fee_asset :: "located_asset option"
  fee_details :: "renderable_content option"
  fee_extra :: "(string \<times> json) list"

definition decode_fee_line_item :: "fee_line_item decoder" where
  "decode_fee_line_item doc =
     bindR (flat_struct [''purpose'', ''value'', ''basisPoints'', ''asset'', ''details''] doc) (\<lambda>(members, extra).
     bindR (required_string members ''purpose'') (\<lambda>purpose.
     bindR (optional_value decode_string (members ''value'')) (\<lambda>v.
     bindR (optional_value decode_number (members ''basisPoints'')) (\<lambda>points.
     bindR (optional_value decode_located_asset (members ''asset'')) (\<lambda>asset.
     bindR (optional_value decode_content (members ''details'')) (\<lambda>details.
     Inr \<lparr>fee_purpose = purpose, fee_value = v, fee_basis_points = points, fee_asset = asset,
          fee_details = details, fee_extra = extra\<rparr>))))))"

record fee_breakdown =
  fb_line_items :: "fee_line_item list"
  fb_total :: "string option"
  fb_total_priced_in :: "located_asset option"
  fb_extra :: "(string \<times> json) list"

definition decode_fee_breakdown :: "fee_breakdown decoder" where
  "decode_fee_breakdown doc =
     bindR (flat_struct [''lineItems'', ''total'', ''totalPricedIn''] doc) (\<lambda>(members, extra).
     bindR (defaulted members ''lineItems'' [] (decode_list decode_fee_line_item)) (\<lambda>items.
     bindR (optional_value decode_string (members ''total'')) (\<lambda>total.
     bindR (optional_value decode_located_asset (members ''totalPricedIn'')) (\<lambda>priced.
     Inr \<lparr>fb_line_items = items, fb_total = total, fb_total_priced_in = priced, fb_extra = extra\<rparr>))))"

record minimum_transfer_value =
  mt_asset :: string
  mt_value :: string

definition decode_minimum :: "minimum_transfer_value decoder" where
  "decode_minimum doc =
     bindR (doc_struct [''asset'', ''value''] doc) (\<lambda>members.
     bindR (required_string members ''asset'') (\<lambda>a.
     bindR (required_string members ''value'') (\<lambda>v. Inr \<lparr>mt_asset = a, mt_value = v\<rparr>)))"

section \<open>Forwarding addresses\<close>

record forwarding_address =
  fa_id :: "string option"
  fa_address :: json
  fa_deposit_message :: "json option"
  fa_asset :: "asset_or_pair option"
  fa_source_location :: "json option"
  fa_destination_location :: "json option"
  fa_destination_address :: "json option"
  fa_outgoing_rail :: "string option"
  fa_incoming_rail :: "string list option"
  fa_minimum :: "minimum_transfer_value option"
  fa_fees :: "fee_breakdown option"
  fa_extra :: "(string \<times> json) list"

definition decode_forwarding_address :: "forwarding_address decoder" where
  "decode_forwarding_address doc =
     bindR (flat_struct [''id'', ''address'', ''depositMessage'', ''asset'', ''sourceLocation'', ''destinationLocation'',
         ''destinationAddress'', ''outgoingRail'', ''incomingRail'', ''minimumTransferValue'', ''fees''] doc)
       (\<lambda>(members, extra).
     bindR (optional_value decode_string (members ''id'')) (\<lambda>i.
     bindR (required members ''address'' decode_value) (\<lambda>address.
     bindR (optional_value decode_value (members ''depositMessage'')) (\<lambda>deposit.
     bindR (optional_value decode_asset_or_pair (members ''asset'')) (\<lambda>asset.
     bindR (optional_value decode_value (members ''sourceLocation'')) (\<lambda>source.
     bindR (optional_value decode_value (members ''destinationLocation'')) (\<lambda>dest.
     bindR (optional_value decode_value (members ''destinationAddress'')) (\<lambda>dest_address.
     bindR (optional_value decode_string (members ''outgoingRail'')) (\<lambda>outgoing.
     bindR (optional_value decode_strings (members ''incomingRail'')) (\<lambda>incoming.
     bindR (optional_value decode_minimum (members ''minimumTransferValue'')) (\<lambda>minimum.
     bindR (optional_value decode_fee_breakdown (members ''fees'')) (\<lambda>fees.
     Inr \<lparr>fa_id = i, fa_address = address, fa_deposit_message = deposit, fa_asset = asset,
          fa_source_location = source, fa_destination_location = dest, fa_destination_address = dest_address,
          fa_outgoing_rail = outgoing, fa_incoming_rail = incoming, fa_minimum = minimum, fa_fees = fees,
          fa_extra = extra\<rparr>))))))))))))"

section \<open>Transfers\<close>

record transfer =
  xf_id :: string
  xf_instruction_choices :: "json list"

definition decode_transfer :: "transfer decoder" where
  "decode_transfer doc =
     bindR (doc_struct [''id'', ''instructionChoices''] doc) (\<lambda>members.
     bindR (required_string members ''id'') (\<lambda>i.
     bindR (defaulted members ''instructionChoices'' [] (decode_list decode_value)) (\<lambda>choices.
     Inr \<lparr>xf_id = i, xf_instruction_choices = choices\<rparr>)))"

record simulated_transfer =
  sim_instruction_choices :: "json list"

definition decode_simulated_transfer :: "simulated_transfer decoder" where
  "decode_simulated_transfer doc =
     bindR (doc_struct [''instructionChoices''] doc) (\<lambda>members.
     bindR (defaulted members ''instructionChoices'' [] (decode_list decode_value)) (\<lambda>choices.
     Inr \<lparr>sim_instruction_choices = choices\<rparr>))"

record transfer_status =
  ts_transaction :: json

definition decode_transfer_status :: "transfer_status decoder" where
  "decode_transfer_status doc =
     bindR (doc_struct [''transaction''] doc) (\<lambda>members.
     bindR (required members ''transaction'' decode_value) (\<lambda>t. Inr \<lparr>ts_transaction = t\<rparr>))"

section \<open>Templates and pages\<close>

record template_session =
  tsn_id :: string
  tsn_expires_at :: string
  tsn_data :: json

definition decode_template_session :: "template_session decoder" where
  "decode_template_session doc =
     bindR (doc_struct [''id'', ''expiresAt'', ''data''] doc) (\<lambda>members.
     bindR (required_string members ''id'') (\<lambda>i.
     bindR (required_string members ''expiresAt'') (\<lambda>e.
     bindR (required members ''data'' decode_value) (\<lambda>d.
     Inr \<lparr>tsn_id = i, tsn_expires_at = e, tsn_data = d\<rparr>))))"

record forwarding_template =
  ft_id :: string
  ft_location :: json
  ft_asset :: json
  ft_address :: json

definition decode_forwarding_template :: "forwarding_template decoder" where
  "decode_forwarding_template doc =
     bindR (doc_struct [''id'', ''location'', ''asset'', ''address''] doc) (\<lambda>members.
     bindR (required_string members ''id'') (\<lambda>i.
     bindR (required members ''location'' decode_value) (\<lambda>l.
     bindR (required members ''asset'' decode_value) (\<lambda>a.
     bindR (required members ''address'' decode_value) (\<lambda>d.
     Inr \<lparr>ft_id = i, ft_location = l, ft_asset = a, ft_address = d\<rparr>)))))"

text \<open>The three pages: their items and the total, both defaulted.\<close>

record 'a page =
  page_items :: "'a list"
  page_total :: string

definition decode_page :: "string \<Rightarrow> 'a decoder \<Rightarrow> 'a page decoder" where
  "decode_page name dec doc =
     bindR (doc_struct [name, ''total''] doc) (\<lambda>members.
     bindR (defaulted members name [] (decode_list dec)) (\<lambda>items.
     bindR (defaulted members ''total'' [] decode_string) (\<lambda>total.
     Inr \<lparr>page_items = items, page_total = total\<rparr>)))"

type_synonym template_page = "json page"
type_synonym address_page = "forwarding_address page"
type_synonym transaction_page = "json page"

definition decode_template_page :: "template_page decoder" where
  "decode_template_page = decode_page ''templates'' decode_value"

definition decode_address_page :: "address_page decoder" where
  "decode_address_page = decode_page ''addresses'' decode_forwarding_address"

definition decode_transaction_page :: "transaction_page decoder" where
  "decode_transaction_page = decode_page ''transactions'' decode_value"

record share_kyc_outcome =
  so_is_pending :: bool
  so_promise_url :: "string option"

definition decode_share_kyc_outcome :: "share_kyc_outcome decoder" where
  "decode_share_kyc_outcome doc =
     bindR (doc_struct [''isPending'', ''promiseURL''] doc) (\<lambda>members.
     bindR (defaulted members ''isPending'' False decode_bool) (\<lambda>pending.
     bindR (optional_value decode_string (members ''promiseURL'')) (\<lambda>url.
     Inr \<lparr>so_is_pending = pending, so_promise_url = url\<rparr>)))"

definition parse_total :: "string \<Rightarrow> u64 option" where
  "parse_total t = map_option word_of_nat (parse_uint (2 ^ 64) t)"

end
