(* ===== verification/AssetClient.thy ===== *)
theory AssetClient
  imports AssetRequest AssetResponse Kyc
begin

text \<open>
  \<open>keetanetwork-anchor-client/src/services/asset_movement/client.rs\<close>: discovery of asset-movement
  providers and every operation of one over the shared caller, with the polling of a KYC share. Joining
  a URL onto another belongs to the \<open>url\<close> crate; sleeping is an operation on the world.
\<close>

section \<open>The client\<close>

record await_options =
  interval_ms :: u32
  timeout_ms :: u32

definition default_await_options :: await_options where
  "default_await_options = \<lparr>interval_ms = 2000, timeout_ms = 300000\<rparr>"

record ('a, 't, 'w, 'u) asset_client =
  am_context :: "('a, 't, 'w, 'u) anchor_context"
  am_asset_env :: asset_env
  am_url_join :: "'u \<Rightarrow> string \<Rightarrow> string + 'u"

definition am_caller :: "('a, 't, 'w, 'u) asset_client \<Rightarrow> ('a, 't, 'w, 'u) caller" where
  "am_caller c = ctx_caller (am_context c)"

definition am_account :: "('a, 't, 'w, 'u) asset_client \<Rightarrow> string" where
  "am_account c = caller_account (am_caller c)"

definition asset_lookup ::
    "('a, 't, 'w, 'u) asset_client \<Rightarrow> provider_filter \<Rightarrow> 'w
     \<Rightarrow> ((client_error + asset_provider_info list) \<times> 'w) option" where
  "asset_lookup c f w =
     map_option (\<lambda>(r, w). (map_err CeResolver r, w))
       (lookup (ctx_source (am_context c)) (ctx_roots (am_context c)) ASSET_SERVICE (asset_query_parse f) w)"

definition asset_providers ::
    "('a, 't, 'w, 'u) asset_client \<Rightarrow> 'w \<Rightarrow> ((client_error + asset_provider_info list) \<times> 'w) option" where
  "asset_providers c w = asset_lookup c default_filter w"

definition providers_for_transfer ::
    "('a, 't, 'w, 'u) asset_client \<Rightarrow> provider_search \<Rightarrow> 'w
     \<Rightarrow> ((client_error + asset_provider_info list) \<times> 'w) option" where
  "providers_for_transfer c s w =
     map_option (\<lambda>(r, w). (bindR r (\<lambda>ps. Inr (filter (search_accepts (am_asset_env c) s) ps)), w))
       (asset_lookup c default_filter w)"

definition first_provider ::
    "((client_error + asset_provider_info list) \<times> 'w) option
     \<Rightarrow> ((client_error + asset_provider_info option) \<times> 'w) option" where
  "first_provider m =
     map_option (\<lambda>(r, w). (bindR r (\<lambda>ps. Inr (case ps of [] \<Rightarrow> None | p # _ \<Rightarrow> Some p)), w)) m"

definition provider_by_id ::
    "('a, 't, 'w, 'u) asset_client \<Rightarrow> string \<Rightarrow> 'w \<Rightarrow> ((client_error + asset_provider_info option) \<times> 'w) option" where
  "provider_by_id c ident w = first_provider (asset_lookup c (by_id ident) w)"

definition provider_by_account ::
    "('a, 't, 'w, 'u) asset_client \<Rightarrow> string \<Rightarrow> 'w \<Rightarrow> ((client_error + asset_provider_info option) \<times> 'w) option" where
  "provider_by_account c account w = first_provider (asset_lookup c (by_account account) w)"

definition provider_legal_disclaimers_by_id ::
    "('a, 't, 'w, 'u) asset_client \<Rightarrow> string \<Rightarrow> 'w \<Rightarrow> ((client_error + disclaimer list option) \<times> 'w) option" where
  "provider_legal_disclaimers_by_id c ident w =
     map_option (\<lambda>(r, w). (bindR r (\<lambda>p. Inr (Option.bind p legal_disclaimers)), w)) (provider_by_id c ident w)"

section \<open>Requests\<close>

definition post_auth :: "endpoint_auth \<Rightarrow> auth" where
  "post_auth a = (if signs a then SignedBody else AuthNone)"

definition expect_ready :: "'r anchor_outcome \<Rightarrow> client_error + 'r" where
  "expect_ready outcome = ok_or (CeBody ''anchor asked to retry a non-pollable operation'') (outcome_ready outcome)"

definition asset_post ::
    "('a, 't, 'w, 'u) asset_client \<Rightarrow> 'r decoder \<Rightarrow> endpoint \<times> endpoint_auth \<Rightarrow> (string \<times> string) list \<Rightarrow> flds
     \<Rightarrow> signable list \<Rightarrow> 'w \<Rightarrow> (client_error + 'r) \<times> 'w" where
  "asset_post c dec op params m sig w =
     (let m = map_insert ''account'' (JString (am_account c)) m;
          cl = \<lparr>call_endpoint = fst op, call_params = params, call_method = Post, call_auth = post_auth (snd op),
                call_signed = sig, call_envelope = Flat, call_body = Some (JObject m)\<rparr>
      in case invoke (am_caller c) dec cl w of (r, w) \<Rightarrow> (bindR r expect_ready, w))"

definition asset_get ::
    "('a, 't, 'w, 'u) asset_client \<Rightarrow> 'r decoder \<Rightarrow> endpoint \<times> endpoint_auth \<Rightarrow> (string \<times> string) list
     \<Rightarrow> signable list \<Rightarrow> 'w \<Rightarrow> (client_error + 'r) \<times> 'w" where
  "asset_get c dec op params sig w =
     (let cl = \<lparr>call_endpoint = fst op, call_params = params, call_method = Get,
                call_auth = (if signs (snd op) then SignedUrl else AuthNone), call_signed = sig,
                call_envelope = Flat, call_body = None\<rparr>
      in case invoke (am_caller c) dec cl w of (r, w) \<Rightarrow> (bindR r expect_ready, w))"

section \<open>Polling\<close>

definition poll_call :: "string \<Rightarrow> call" where
  "poll_call url = \<lparr>call_endpoint = url, call_params = [], call_method = Get, call_auth = AuthNone, call_signed = [],
     call_envelope = Flat, call_body = None\<rparr>"

text \<open>One turn of the loop, on the elapsed milliseconds and the world.\<close>

definition poll_turn ::
    "('a, 't, 'w, 'u) asset_client \<Rightarrow> string \<Rightarrow> await_options \<Rightarrow> (u32 \<Rightarrow> 'w \<Rightarrow> 'w) \<Rightarrow> u32 \<times> 'w
     \<Rightarrow> (client_error + share_kyc_outcome) \<times> 'w + u32 \<times> 'w" where
  "poll_turn c url options sleep st =
     (case st of (elapsed_ms, w) \<Rightarrow>
        (case send (am_caller c) (poll_call url) w of
             (Inl e, w) \<Rightarrow> Inl (Inl e, w)
           | (Inr response, w) \<Rightarrow>
              (case pending_delay (caller_text (am_caller c)) response of
                 None \<Rightarrow>
                   if \<not> is_success response then Inl (Inl (CeService (resp_status response)), w)
                   else Inl (Inr \<lparr>so_is_pending = False, so_promise_url = None\<rparr>, w)
               | Some after_ms \<Rightarrow>
                   let wait = max (max after_ms (interval_ms options)) 1 in
                   if saturating_add elapsed_ms wait > timeout_ms options
                   then Inl (Inl (CeTimeout ''shareKYC'' (timeout_ms options)), w)
                   else Inr (saturating_add elapsed_ms wait, sleep wait w))))"

definition poll_promise ::
    "('a, 't, 'w, 'u) asset_client \<Rightarrow> string \<Rightarrow> await_options \<Rightarrow> (u32 \<Rightarrow> 'w \<Rightarrow> 'w) \<Rightarrow> 'w
     \<Rightarrow> ((client_error + share_kyc_outcome) \<times> 'w) option" where
  "poll_promise c url options sleep w = loop (poll_turn c url options sleep) (0, w)"

section \<open>Operations of a provider\<close>

definition is_operation_supported :: "asset_provider_info \<Rightarrow> string \<Rightarrow> bool" where
  "is_operation_supported info operation = operations_contains (ap_operations info) operation"

definition provider_operation :: "asset_provider_info \<Rightarrow> string \<Rightarrow> client_error + endpoint \<times> endpoint_auth" where
  "provider_operation info name =
     bindR (ok_or (CeUnsupportedOperation name) (operations_get (ap_operations info) name)) (\<lambda>endp.
     Inr (op_url endp, op_auth endp))"

text \<open>The common shape: the operation, then the payload, then the request.\<close>

definition post_operation ::
    "('a, 't, 'w, 'u) asset_client \<Rightarrow> asset_provider_info \<Rightarrow> string \<Rightarrow> 'r decoder \<Rightarrow> (string \<times> string) list \<Rightarrow> flds
     \<Rightarrow> signing_error + signable list \<Rightarrow> 'w \<Rightarrow> (client_error + 'r) \<times> 'w" where
  "post_operation c info name dec params m sig w =
     (case bindR (provider_operation info name) (\<lambda>op. bindR (map_err CeSigning sig) (\<lambda>s. Inr (op, s))) of
        Inl e \<Rightarrow> (Inl e, w)
      | Inr (op, s) \<Rightarrow> asset_post c dec op params m s w)"

definition simulate_transfer ::
    "('a, 't, 'w, 'u) asset_client \<Rightarrow> asset_provider_info \<Rightarrow> transfer_request \<Rightarrow> 'w
     \<Rightarrow> (client_error + simulated_transfer) \<times> 'w" where
  "simulate_transfer c info r w =
     post_operation c info ''simulateTransfer'' decode_simulated_transfer []
       (transfer_fields (am_asset_env c) r) (transfer_signable (am_asset_env c) r) w"

definition initiate_transfer ::
    "('a, 't, 'w, 'u) asset_client \<Rightarrow> asset_provider_info \<Rightarrow> transfer_request \<Rightarrow> 'w
     \<Rightarrow> (client_error + transfer) \<times> 'w" where
  "initiate_transfer c info r w =
     (if dst_recipient (tr_to r) = None then (Inl (CeBody ''initiateTransfer requires a recipient''), w)
      else post_operation c info ''initiateTransfer'' decode_transfer []
             (transfer_fields (am_asset_env c) r) (transfer_signable (am_asset_env c) r) w)"

definition execute_transfer ::
    "('a, 't, 'w, 'u) asset_client \<Rightarrow> asset_provider_info \<Rightarrow> execute_request \<Rightarrow> 'w
     \<Rightarrow> (client_error + transfer_status) \<times> 'w" where
  "execute_transfer c info r w =
     post_operation c info ''executeTransfer'' decode_transfer_status [(''id'', ex_id r)]
       (execute_fields r) (execute_signable r) w"

definition fetch_transfer_status ::
    "('a, 't, 'w, 'u) asset_client \<Rightarrow> asset_provider_info \<Rightarrow> string \<Rightarrow> 'w
     \<Rightarrow> (client_error + transfer_status) \<times> 'w" where
  "fetch_transfer_status c info ident w =
     (case provider_operation info ''getTransferStatus'' of
        Inl e \<Rightarrow> (Inl e, w)
      | Inr op \<Rightarrow> asset_get c decode_transfer_status op [(''id'', ident)] (id_literal ''get-transaction'' ident) w)"

definition resolve_account_status :: "json \<Rightarrow> u16 \<Rightarrow> client_error + account_status" where
  "resolve_account_status body status =
     (if Option.bind (get_key ''ok'' body) as_bool = Some False then
        let b = from_transport body in
        (case b of
           OtherBlocker _ _ _ \<Rightarrow> Inl (CeService status)
         | recognized \<Rightarrow> Inr (ActionRequired [recognized]))
      else if Option.bind (get_key ''actionRequired'' body) as_bool \<noteq> Some True then Inr AccountReady
      else Inr (ActionRequired
        (case Option.bind (get_key ''errors'' body) as_array of
           None \<Rightarrow> [] | Some errors \<Rightarrow> map from_transport errors)))"

definition fetch_account_status ::
    "('a, 't, 'w, 'u) asset_client \<Rightarrow> asset_provider_info \<Rightarrow> 'w \<Rightarrow> (client_error + account_status) \<times> 'w" where
  "fetch_account_status c info w =
     (case provider_operation info ''getAccountStatus'' of
        Inl e \<Rightarrow> (Inl e, w)
      | Inr op \<Rightarrow>
          let cl = \<lparr>call_endpoint = fst op, call_params = [], call_method = Post, call_auth = post_auth (snd op),
                    call_signed = literal [''get-account-status''], call_envelope = Flat,
                    call_body = Some (JObject (map_insert ''account'' (JString (am_account c)) []))\<rparr>
          in case send (am_caller c) cl w of
               (Inl e, w) \<Rightarrow> (Inl e, w)
             | (Inr response, w) \<Rightarrow>
                 (bindR (map_err CeBody (from_slice (caller_text (am_caller c)) decode_value (resp_body response)))
                    (\<lambda>body. resolve_account_status body (resp_status response)), w))"

definition deactivate ::
    "('a, 't, 'w, 'u) asset_client \<Rightarrow> asset_provider_info \<Rightarrow> string \<Rightarrow> string \<Rightarrow> string \<Rightarrow> 'w
     \<Rightarrow> (client_error + unit) \<times> 'w" where
  "deactivate c info operation_name signed_name ident w =
     (case provider_operation info operation_name of
        Inl e \<Rightarrow> (Inl e, w)
      | Inr op \<Rightarrow>
         (case asset_post c decode_value op [(''id'', ident)] [] (id_literal signed_name ident) w of
            (r, w) \<Rightarrow> (bindR r (\<lambda>_. Inr ()), w)))"

definition deactivate_template ::
    "('a, 't, 'w, 'u) asset_client \<Rightarrow> asset_provider_info \<Rightarrow> string \<Rightarrow> 'w \<Rightarrow> (client_error + unit) \<times> 'w" where
  "deactivate_template c info ident w =
     deactivate c info ''deactivatePersistentForwardingTemplate'' ''deactivate-persistent-forwarding-template'' ident w"

definition deactivate_address ::
    "('a, 't, 'w, 'u) asset_client \<Rightarrow> asset_provider_info \<Rightarrow> string \<Rightarrow> 'w \<Rightarrow> (client_error + unit) \<times> 'w" where
  "deactivate_address c info ident w =
     deactivate c info ''deactivatePersistentForwarding'' ''deactivate-persistent-forwarding-address'' ident w"

definition initiate_template ::
    "('a, 't, 'w, 'u) asset_client \<Rightarrow> asset_provider_info \<Rightarrow> initiate_template_request \<Rightarrow> 'w
     \<Rightarrow> (client_error + template_session) \<times> 'w" where
  "initiate_template c info r w =
     post_operation c info ''initiatePersistentForwardingTemplate'' decode_template_session []
       (initiate_template_fields (am_asset_env c) r) (initiate_template_signable (am_asset_env c) r) w"

definition create_template ::
    "('a, 't, 'w, 'u) asset_client \<Rightarrow> asset_provider_info \<Rightarrow> create_template_request \<Rightarrow> 'w
     \<Rightarrow> (client_error + forwarding_template) \<times> 'w" where
  "create_template c info r w =
     post_operation c info ''createPersistentForwardingTemplate'' decode_forwarding_template []
       (create_template_fields (am_asset_env c) r) (create_template_signable (am_asset_env c) r) w"

definition list_templates ::
    "('a, 't, 'w, 'u) asset_client \<Rightarrow> asset_provider_info \<Rightarrow> list_templates_request \<Rightarrow> 'w
     \<Rightarrow> (client_error + template_page) \<times> 'w" where
  "list_templates c info r w =
     post_operation c info ''listPersistentForwardingTemplate'' decode_template_page []
       (list_templates_fields r) (Inr list_templates_signable) w"

definition create_address ::
    "('a, 't, 'w, 'u) asset_client \<Rightarrow> asset_provider_info \<Rightarrow> create_address_request \<Rightarrow> 'w
     \<Rightarrow> (client_error + forwarding_address) \<times> 'w" where
  "create_address c info r w =
     post_operation c info ''createPersistentForwarding'' decode_forwarding_address []
       (create_address_fields (am_asset_env c) r) (create_address_signable (am_asset_env c) r) w"

definition list_addresses ::
    "('a, 't, 'w, 'u) asset_client \<Rightarrow> asset_provider_info \<Rightarrow> list_addresses_request \<Rightarrow> 'w
     \<Rightarrow> (client_error + address_page) \<times> 'w" where
  "list_addresses c info r w =
     post_operation c info ''listPersistentForwarding'' decode_address_page []
       (list_addresses_fields (am_asset_env c) r) (Inr list_addresses_signable) w"

definition list_transactions ::
    "('a, 't, 'w, 'u) asset_client \<Rightarrow> asset_provider_info \<Rightarrow> list_transactions_request \<Rightarrow> 'w
     \<Rightarrow> (client_error + transaction_page) \<times> 'w" where
  "list_transactions c info r w =
     post_operation c info ''listTransactions'' decode_transaction_page []
       (list_transactions_fields r) (Inr list_transactions_signable) w"

definition share_kyc_attributes ::
    "('a, 't, 'w, 'u) asset_client \<Rightarrow> asset_provider_info \<Rightarrow> share_kyc_request \<Rightarrow> 'w
     \<Rightarrow> (client_error + share_kyc_outcome) \<times> 'w" where
  "share_kyc_attributes c info r w =
     post_operation c info ''shareKYC'' decode_share_kyc_outcome [] (share_kyc_fields r) (Inr share_kyc_signable) w"

definition join_promise_url :: "('a, 't, 'w, 'u) asset_client \<Rightarrow> string \<Rightarrow> string \<Rightarrow> client_error + string" where
  "join_promise_url c base promise =
     (let urls = caller_urls (am_caller c) in
      bindR (map_err CeUrl (url_parse urls base)) (\<lambda>base.
      bindR (map_err CeUrl (am_url_join c base promise)) (\<lambda>joined. Inr (url_as_str urls joined))))"

definition resolve_promise_url ::
    "('a, 't, 'w, 'u) asset_client \<Rightarrow> asset_provider_info \<Rightarrow> string \<Rightarrow> client_error + string" where
  "resolve_promise_url c info promise =
     (let urls = caller_urls (am_caller c) in
      bindR (provider_operation info ''shareKYC'') (\<lambda>op.
      bindR (endpoint_url (url_parse urls) (fst op) []) (\<lambda>base.
      join_promise_url c (url_as_str urls base) promise)))"

definition share_kyc_attributes_and_wait ::
    "('a, 't, 'w, 'u) asset_client \<Rightarrow> asset_provider_info \<Rightarrow> share_kyc_request \<Rightarrow> await_options
     \<Rightarrow> (u32 \<Rightarrow> 'w \<Rightarrow> 'w) \<Rightarrow> 'w \<Rightarrow> ((client_error + share_kyc_outcome) \<times> 'w) option" where
  "share_kyc_attributes_and_wait c info r options sleep w =
     (case share_kyc_attributes c info r w of
        (Inl e, w) \<Rightarrow> Some (Inl e, w)
      | (Inr outcome, w) \<Rightarrow>
         (case (if so_is_pending outcome then so_promise_url outcome else None) of
            None \<Rightarrow> Some (Inr outcome, w)
          | Some promise_url \<Rightarrow>
             (case resolve_promise_url c info promise_url of
                Inl e \<Rightarrow> Some (Inl e, w)
              | Inr url \<Rightarrow> poll_promise c url options sleep w)))"

section \<open>Facts\<close>

text \<open>The account status is always asked for with a signature, whatever the metadata says.\<close>

lemma account_status_signed:
  assumes "provider_operation (provider_from_entry ident entry) ''getAccountStatus'' = Inr (endp, a)"
  shows "post_auth a = SignedBody"
proof -
  from assms obtain e where e: "map_of (operations_from_entry entry) ''getAccountStatus'' = Some e" "a = op_auth e"
    by (auto simp: provider_operation_def operations_get_def provider_from_entry_def result_elims)
  then obtain m v where "parse_endpoint ''getAccountStatus'' v = Some e" "(''getAccountStatus'', v) \<in> set m"
    by (auto simp: operations_from_entry_def set_filter_map split: option.splits dest!: map_of_SomeD)
  then have "op_auth e = EaRequired"
    by (auto simp: parse_endpoint_def auth_override_def Let_def bind_eq_Some_conv split: option.splits)
  with e(2) show ?thesis by (simp add: post_auth_def signs_def)
qed

text \<open>A turn that goes on has slept for a positive time that fits the timeout.\<close>

lemma poll_turn_next:
  assumes "poll_turn c url options sleep (elapsed, w) = Inr (elapsed', w')"
  shows "\<exists>r v wait. send (am_caller c) (poll_call url) w = (Inr r, v) \<and> w' = sleep wait v \<and> 1 \<le> wait
    \<and> interval_ms options \<le> wait \<and> elapsed' = saturating_add elapsed wait \<and> elapsed' \<le> timeout_ms options"
proof -
  have "1 \<le> max x (1 :: u32)" "y \<le> max (max z y) (1 :: u32)" for x y z by (simp_all add: max.coboundedI1)
  with assms show ?thesis
    by (fastforce simp: poll_turn_def Let_def split: sum.splits prod.splits option.splits if_splits)
qed

lemma saturating_add_exact:
  "saturating_add a b \<le> t \<Longrightarrow> t < - 1 \<Longrightarrow> unat (saturating_add a b) = unat a + unat b" for a b t :: "'a::len word"
  by (auto simp: saturating_add_def unat_word_ariths split: if_splits)

section \<open>Properties\<close>

lemma poll_forever:
  assumes "timeout_ms options = u32_max"
    and "\<And>w. \<exists>response w'. send (am_caller c) (poll_call url) w = (Inr response, w')
      \<and> pending_delay (caller_text (am_caller c)) response \<noteq> None"
  shows "loop (poll_turn c url options sleep) start = None"
proof -
  have "\<exists>st'. poll_turn c url options sleep st = Inr st'" for st
  proof -
    obtain e v where st: "st = (e, v)" by (cases st)
    from assms(2) obtain r v' d where s: "send (am_caller c) (poll_call url) v = (Inr r, v')"
        "pending_delay (caller_text (am_caller c)) r = Some d" by blast
    have "\<not> x > timeout_ms options" for x :: u32 unfolding assms(1) by (simp add: not_less)
    with s show ?thesis by (simp add: st poll_turn_def Let_def)
  qed
  then show ?thesis by (intro loop_diverges [where I = "\<lambda>_. True"]) auto
qed

text \<open>The largest timeout is none: with \<open>timeout_ms\<close> at \<open>u32::MAX\<close> the elapsed time saturates
  without ever exceeding it, so against an anchor that stays pending the polling never returns.\<close>

lemma poll_promise_unbounded:
  assumes "timeout_ms options = u32_max"
    and "\<And>w. \<exists>response w'. send (am_caller c) (poll_call url) w = (Inr response, w')
      \<and> pending_delay (caller_text (am_caller c)) response \<noteq> None"
  shows "poll_promise c url options sleep w = None"
  using poll_forever [OF assms] by (simp add: poll_promise_def)

section \<open>A concrete anchor\<close>

text \<open>The world counts the milliseconds slept; the anchor answers every request with a status.\<close>

definition counting_env :: "(string, int, nat) signing_env" where
  "counting_env =
     \<lparr>key_with_type = key_with_type toy_env, raw_sign = raw_sign toy_env, raw_verify = raw_verify toy_env,
      account_from_str = account_from_str toy_env, account_to_string = account_to_string toy_env, der = der toy_env,
      base64_encode = base64_encode toy_env, base64_decode = base64_decode toy_env, parse_rfc3339 = parse_rfc3339 toy_env,
      format_iso8601 = format_iso8601 toy_env, timestamp_millis = timestamp_millis toy_env, unix_epoch = unix_epoch toy_env,
      uuid_v4 = (\<lambda>w. (''n'', w)), utc_now = (\<lambda>w. (5, w))\<rparr>"

definition status_transport :: "u16 \<Rightarrow> nat transport" where
  "status_transport status = \<lparr>t_get = (\<lambda>_ w. (Inr (http_response_new status []), w)),
     t_post = (\<lambda>_ _ w. (Inr (http_response_new status []), w))\<rparr>"

definition toy_asset_client :: "u16 \<Rightarrow> (string, int, nat, string \<times> (string \<times> string) list) asset_client" where
  "toy_asset_client status =
     \<lparr>am_context = \<lparr>ctx_source = \<lparr>ms_env = counting_env, ms_inflate = (\<lambda>_. None), ms_text = (\<lambda>_. Inl []),
         ms_state = (\<lambda>_ w. (Inr None, w)), ms_transport = status_transport status\<rparr>, ctx_roots = [],
       ctx_caller = caller_new counting_env toy_url (\<lambda>_. Inl []) (\<lambda>_. Inl []) (status_transport status) ''k''\<rparr>,
      am_asset_env = toy_asset_env, am_url_join = (\<lambda>u s. Inr (s, snd u))\<rparr>"

lemma toy_poll:
  "send (am_caller (toy_asset_client status)) (poll_call url) w = (Inr (http_response_new status []), w)"
  by (simp add: send_def endpoint_url_def toy_asset_client_def am_caller_def caller_new_def toy_url_def poll_call_def
      dispatch_def send_get_def authenticated_url_def status_transport_def)

end
