(* ===== verification/KycSchema.thy ===== *)
theory KycSchema
  imports Oids Metadata
begin

text \<open>
  \<open>keetanetwork-anchor/src/kyc_schema/mod.rs\<close>, \<open>builder.rs\<close> and \<open>serde.rs\<close>, with the transport types of
  \<open>generated/kyc_attributes.rs\<close>: the attributes of a certificate, their builders and their JSON. The DER
  coder of the attribute list and the message of a base64 error are third-party.
\<close>

section \<open>Attributes\<close>

datatype attribute_value = PlainValue bytes | SensitiveValue bytes

record attribute =
  at_name :: oid
  at_value :: attribute_value

type_synonym kyc_attributes = "attribute list"

definition is_sensitive :: "attribute \<Rightarrow> bool" where
  "is_sensitive a = (case at_value a of SensitiveValue _ \<Rightarrow> True | PlainValue _ \<Rightarrow> False)"

definition attribute_bytes :: "attribute \<Rightarrow> bytes" where
  "attribute_bytes a = (case at_value a of PlainValue octets \<Rightarrow> octets | SensitiveValue octets \<Rightarrow> octets)"

definition add_attribute :: "attribute \<Rightarrow> kyc_attributes \<Rightarrow> kyc_attributes" where
  "add_attribute a attrs = attrs @ [a]"

definition find_by_oid :: "oid_env \<Rightarrow> string \<Rightarrow> kyc_attributes \<Rightarrow> attribute option" where
  "find_by_oid env i attrs = find (\<lambda>a. oid_to_string env (at_name a) = i) attrs"

definition attributes_count :: "kyc_attributes \<Rightarrow> nat" where "attributes_count attrs = length attrs"
definition attributes_empty :: "kyc_attributes \<Rightarrow> bool" where "attributes_empty attrs \<longleftrightarrow> attrs = []"

definition sensitive_of :: "kyc_attributes \<Rightarrow> attribute list" where "sensitive_of attrs = filter is_sensitive attrs"
definition plain_of :: "kyc_attributes \<Rightarrow> attribute list" where "plain_of attrs = filter (\<lambda>a. \<not> is_sensitive a) attrs"

record attribute_coder =
  encode_attributes :: "kyc_attributes \<Rightarrow> string + bytes"
  decode_attributes :: "bytes \<Rightarrow> string + kyc_attributes"

definition attributes_to_der :: "attribute_coder \<Rightarrow> kyc_attributes \<Rightarrow> kyc_schema_error + bytes" where
  "attributes_to_der coder attrs = map_err (KsAsn1Error \<circ> rasn_encode_error) (encode_attributes coder attrs)"

definition attributes_from_der :: "attribute_coder \<Rightarrow> bytes \<Rightarrow> kyc_schema_error + kyc_attributes" where
  "attributes_from_der coder bs = map_err (KsAsn1Error \<circ> rasn_decode_error) (decode_attributes coder bs)"

section \<open>Builders\<close>

record attribute_builder =
  ab_name_oid :: "string option"
  ab_value :: "bytes option"
  ab_sensitive :: bool

definition default_attribute_builder :: attribute_builder where
  "default_attribute_builder = \<lparr>ab_name_oid = None, ab_value = None, ab_sensitive = False\<rparr>"

definition with_oid :: "string \<Rightarrow> attribute_builder \<Rightarrow> attribute_builder" where
  "with_oid i b = b\<lparr>ab_name_oid := Some i\<rparr>"

definition with_value :: "bytes \<Rightarrow> attribute_builder \<Rightarrow> attribute_builder" where
  "with_value v b = b\<lparr>ab_value := Some v\<rparr>"

definition as_sensitive :: "attribute_builder \<Rightarrow> attribute_builder" where
  "as_sensitive b = b\<lparr>ab_sensitive := True\<rparr>"

definition as_plain :: "attribute_builder \<Rightarrow> attribute_builder" where
  "as_plain b = b\<lparr>ab_sensitive := False\<rparr>"

definition build_attribute :: "oid_env \<Rightarrow> attribute_builder \<Rightarrow> kyc_schema_error + attribute" where
  "build_attribute env b =
     bindR (ok_or KsMissingOid (ab_name_oid b)) (\<lambda>oid_str.
     bindR (ok_or KsMissingValue (ab_value b)) (\<lambda>value_bytes.
     bindR (map_err KsAsn1Error (parse_oid_string env oid_str)) (\<lambda>name.
     Inr \<lparr>at_name = name,
          at_value = (if ab_sensitive b then SensitiveValue value_bytes else PlainValue value_bytes)\<rparr>)))"

record attributes_builder =
  asb_attributes :: "attribute list"
  asb_errors :: "kyc_schema_error list"

definition default_attributes_builder :: attributes_builder where
  "default_attributes_builder = \<lparr>asb_attributes = [], asb_errors = []\<rparr>"

definition with_attribute :: "attribute \<Rightarrow> attributes_builder \<Rightarrow> attributes_builder" where
  "with_attribute a b = b\<lparr>asb_attributes := asb_attributes b @ [a]\<rparr>"

definition collect_built :: "kyc_schema_error + attribute \<Rightarrow> attributes_builder \<Rightarrow> attributes_builder" where
  "collect_built result b =
     (case result of
        Inr a \<Rightarrow> b\<lparr>asb_attributes := asb_attributes b @ [a]\<rparr>
      | Inl e \<Rightarrow> b\<lparr>asb_errors := asb_errors b @ [e]\<rparr>)"

definition with_plain :: "oid_env \<Rightarrow> string \<Rightarrow> bytes \<Rightarrow> attributes_builder \<Rightarrow> attributes_builder" where
  "with_plain env i v b =
     collect_built (build_attribute env (as_plain (with_value v (with_oid i default_attribute_builder)))) b"

definition with_sensitive :: "oid_env \<Rightarrow> string \<Rightarrow> bytes \<Rightarrow> attributes_builder \<Rightarrow> attributes_builder" where
  "with_sensitive env i v b =
     collect_built (build_attribute env (as_sensitive (with_value v (with_oid i default_attribute_builder)))) b"

definition build_attributes :: "attributes_builder \<Rightarrow> kyc_schema_error + kyc_attributes" where
  "build_attributes b = (case asb_errors b of e # _ \<Rightarrow> Inl e | [] \<Rightarrow> Inr (asb_attributes b))"

section \<open>JSON\<close>

definition attribute_to_json :: "oid_env \<Rightarrow> attribute \<Rightarrow> json" where
  "attribute_to_json env a =
     JObject [(''name'', JString (oid_to_string env (at_name a))),
              (''value'', JString (b64_encode env (attribute_bytes a))),
              (''sensitive'', JBool (is_sensitive a))]"

definition attributes_to_json :: "oid_env \<Rightarrow> kyc_attributes \<Rightarrow> json" where
  "attributes_to_json env attrs = JArray (map (attribute_to_json env) attrs)"

definition decode_flag :: "bool decoder" where
  "decode_flag v = ok_or ''invalid type'' (as_bool v)"

definition attribute_from_json :: "oid_env \<Rightarrow> (string \<Rightarrow> string) \<Rightarrow> attribute decoder" where
  "attribute_from_json env base64_error doc =
     bindR (doc_struct [''name'', ''value'', ''sensitive''] doc) (\<lambda>members.
     bindR (required members ''name'' decode_string) (\<lambda>name.
     bindR (required members ''value'' decode_string) (\<lambda>encoded.
     bindR (required members ''sensitive'' decode_flag) (\<lambda>sensitive.
     bindR (map_err asn1_message (parse_oid_string env name)) (\<lambda>i.
     bindR (ok_or (base64_error encoded) (b64_decode env encoded)) (\<lambda>decoded.
     Inr \<lparr>at_name = i, at_value = (if sensitive then SensitiveValue decoded else PlainValue decoded)\<rparr>))))))"

definition attributes_from_json :: "oid_env \<Rightarrow> (string \<Rightarrow> string) \<Rightarrow> kyc_attributes decoder" where
  "attributes_from_json env base64_error = decode_list (attribute_from_json env base64_error)"

section \<open>Facts\<close>

lemma attribute_cases:
  "a = \<lparr>at_name = at_name a, at_value = (if is_sensitive a then SensitiveValue (attribute_bytes a) else PlainValue (attribute_bytes a))\<rparr>"
  by (cases a) (simp add: is_sensitive_def attribute_bytes_def split: attribute_value.splits)

text \<open>An identifier whose text reads back, as the texts of valid identifiers do.\<close>

definition oid_reads_back :: "oid_env \<Rightarrow> oid \<Rightarrow> bool" where
  "oid_reads_back env i \<longleftrightarrow> parse_oid_string env (oid_to_string env i) = Inr i"

lemma oid_reads_backI:
  assumes "i \<noteq> []" "list_all (\<lambda>n. n < 2 ^ 32) i" "oid_to_string env i = join_dots i" "oid_new env i = Some i"
  shows "oid_reads_back env i"
  using assms by (simp add: oid_reads_back_def parse_oid_join)

lemma attribute_json_roundtrip:
  assumes "oid_reads_back env (at_name a)" "\<And>b. b64_decode env (b64_encode env b) = Some b"
  shows "attribute_from_json env base64_error (attribute_to_json env a) = Inr a"
proof -
  have "doc_struct [''name'', ''value'', ''sensitive''] (attribute_to_json env a) = Inr (map_of
      [(''name'', JString (oid_to_string env (at_name a))), (''value'', JString (b64_encode env (attribute_bytes a))),
       (''sensitive'', JBool (is_sensitive a))])"
    by (simp add: doc_struct_def attribute_to_json_def occurrences_def)
  with assms show ?thesis
    by (simp add: attribute_from_json_def required_def decode_string_def decode_flag_def oid_reads_back_def attribute_cases [symmetric])
qed

text \<open>A list of attributes survives its JSON form: identifiers, sensitivity, bytes and order.\<close>

lemma attributes_json_roundtrip:
  assumes "\<forall>a \<in> set attrs. oid_reads_back env (at_name a)" "\<forall>b. b64_decode env (b64_encode env b) = Some b"
  shows "attributes_from_json env base64_error (attributes_to_json env attrs) = Inr attrs"
proof -
  have "mapM_result (attribute_from_json env base64_error) (map (attribute_to_json env) attrs) = Inr attrs"
    using assms by (induction attrs) (simp_all add: attribute_json_roundtrip)
  then show ?thesis by (simp add: attributes_from_json_def attributes_to_json_def decode_list_def)
qed

text \<open>What a builder of a collection returns: the first failure, or everything that was added in order.\<close>

lemma build_attributes_collects:
  "build_attributes (foldl (\<lambda>b r. collect_built r b) default_attributes_builder results) = mapM_result (\<lambda>r. r) results"
proof -
  have step: "collect_built (Inr a) \<lparr>asb_attributes = as, asb_errors = es\<rparr> = \<lparr>asb_attributes = as @ [a], asb_errors = es\<rparr>"
    "collect_built (Inl e) \<lparr>asb_attributes = as, asb_errors = es\<rparr> = \<lparr>asb_attributes = as, asb_errors = es @ [e]\<rparr>"
    for a e as es by (simp_all add: collect_built_def)
  have "build_attributes (foldl (\<lambda>b r. collect_built r b) \<lparr>asb_attributes = as, asb_errors = es\<rparr> results) =
      (case es of e # _ \<Rightarrow> Inl e | [] \<Rightarrow> bindR (mapM_result (\<lambda>r. r) results) (\<lambda>bs. Inr (as @ bs)))" for as es
  proof (induction results arbitrary: as es)
    case (Cons r results)
    show ?case
      by (cases r; cases es; cases "mapM_result (\<lambda>r. r) results") (simp_all add: step Cons)
  qed (simp add: build_attributes_def split: list.splits)
  from this [of "[]" "[]"] show ?thesis
    by (cases "mapM_result (\<lambda>r. r) results") (simp_all add: default_attributes_builder_def)
qed

definition postal_attribute :: attribute where
  "postal_attribute = \<lparr>at_name = [2, 5, 5, 17], at_value = PlainValue ''12345''\<rparr>"

lemma toy_oid_reads_back:
  "i \<noteq> [] \<Longrightarrow> list_all (\<lambda>n. n < 2 ^ 32) i \<Longrightarrow> oid_reads_back toy_oid_env i"
  by (rule oid_reads_backI) (simp_all add: toy_oid_env_def)

end
