(* ===== verification/Sensitive.thy ===== *)
theory Sensitive
  imports KycSchema
begin

text \<open>
  \<open>keetanetwork-anchor/src/sensitive_attributes/mod.rs\<close>, \<open>builder.rs\<close>, \<open>utils.rs\<close> and \<open>serde.rs\<close>, with the
  transport types of \<open>generated/sensitive_attributes.rs\<close>: encrypted attributes, the proofs of their values
  and their JSON. Key pairs \<open>'k\<close>, AES-GCM, the random source and the DER coder are third-party: the record
  \<open>sensitive_env\<close>. A nonce is made from a slice, which panics at a wrong length; a computation that can
  panic is an option, \<open>None\<close> the panic.
\<close>

section \<open>Types\<close>

record sensitive_cipher =
  sc_algorithm :: oid
  sc_iv_or_nonce :: bytes
  sc_key :: bytes

record sensitive_hashed_value =
  hv_encrypted_salt :: bytes
  hv_algorithm :: oid
  hv_value :: bytes

record sensitive_attribute =
  sa_version :: int
  sa_cipher :: sensitive_cipher
  sa_hashed_value :: sensitive_hashed_value
  sa_encrypted_value :: bytes

datatype kyc_attribute_entry = EntryPlain bytes | EntrySensitive bytes

record proof_hash =
  ph_salt :: string

record attribute_proof =
  pr_value :: string
  pr_hash :: proof_hash

record ('k, 'w) sensitive_env =
  se_oids :: oid_env
  supports_encryption :: "'k \<Rightarrow> bool"
  key_encrypt :: "'k \<Rightarrow> bytes \<Rightarrow> 'w \<Rightarrow> (string + bytes) \<times> 'w"
  key_decrypt :: "'k \<Rightarrow> bytes \<Rightarrow> string + bytes"
  key_public :: "'k \<Rightarrow> bytes"
  gcm_key_error :: "bytes \<Rightarrow> string option"
  gcm_encrypt :: "bytes \<Rightarrow> bytes \<Rightarrow> bytes \<Rightarrow> string + bytes"
  gcm_decrypt :: "bytes \<Rightarrow> bytes \<Rightarrow> bytes \<Rightarrow> string + bytes"
  nonce_length :: nat
  generate_nonce :: "'w \<Rightarrow> bytes \<times> 'w"
  generate_seed :: "'w \<Rightarrow> (string + bytes) \<times> 'w"
  encode_sensitive :: "sensitive_attribute \<Rightarrow> string + bytes"
  decode_sensitive :: "bytes \<Rightarrow> string + sensitive_attribute"

text \<open>The \<open>?\<close> operator in a computation that can panic.\<close>

definition bindP :: "('e + 'a) option \<Rightarrow> ('a \<Rightarrow> ('e + 'b) option) \<Rightarrow> ('e + 'b) option" where
  "bindP m f = (case m of None \<Rightarrow> None | Some (Inl e) \<Rightarrow> Some (Inl e) | Some (Inr x) \<Rightarrow> f x)"

lemma bindP_simps [simp]:
  "bindP None f = None" "bindP (Some (Inl e)) f = Some (Inl e)" "bindP (Some (Inr x)) f = f x"
  by (simp_all add: bindP_def)

lemma bindP_eq_Inr [result_elims]:
  "bindP m f = Some (Inr y) \<longleftrightarrow> (\<exists>x. m = Some (Inr x) \<and> f x = Some (Inr y))"
  by (simp add: bindP_def split: option.splits sum.splits)

lemma bindP_eq_None: "bindP m f = None \<longleftrightarrow> m = None \<or> (\<exists>x. m = Some (Inr x) \<and> f x = None)"
  by (auto simp: bindP_def split: option.splits sum.splits)

section \<open>Helpers\<close>

definition gcm_new :: "('k, 'w) sensitive_env \<Rightarrow> bytes \<Rightarrow> sensitive_attribute_error + bytes" where
  "gcm_new env key = (case gcm_key_error env key of None \<Rightarrow> Inr key | Some e \<Rightarrow> Inl (SaCryptoError e))"

definition nonce_from_slice :: "('k, 'w) sensitive_env \<Rightarrow> bytes \<Rightarrow> bytes option" where
  "nonce_from_slice env bs = (if length bs = nonce_length env then Some bs else None)"

definition setup_cipher_for_decryption ::
    "('k, 'w) sensitive_env \<Rightarrow> 'k \<Rightarrow> sensitive_cipher \<Rightarrow> (sensitive_attribute_error + bytes \<times> bytes) option" where
  "setup_cipher_for_decryption env keypair info =
     (case key_decrypt env keypair (sc_key info) of
        Inl e \<Rightarrow> Some (Inl (SaAccountError e))
      | Inr symmetric_key \<Rightarrow>
          (case nonce_from_slice env (sc_iv_or_nonce info) of
             None \<Rightarrow> None
           | Some iv \<Rightarrow> Some (bindR (gcm_new env symmetric_key) (\<lambda>cipher. Inr (cipher, iv)))))"

definition create_hash_input :: "bytes \<Rightarrow> bytes \<Rightarrow> bytes \<Rightarrow> bytes \<Rightarrow> bytes" where
  "create_hash_input salt public encrypted plain = salt @ public @ encrypted @ plain"

definition assert_valid_version :: "int \<Rightarrow> sensitive_attribute_error + u64" where
  "assert_valid_version version =
     (if version < 0 \<or> 2 ^ 64 \<le> version then Inl SaInvalidVersion
      else let v = word_of_int version :: u64
           in if v \<noteq> 0 then Inl (SaUnsupportedVersion v) else Inr v)"

definition validate_attribute_sensitivity :: "attribute \<Rightarrow> string \<Rightarrow> bool \<Rightarrow> sensitive_attribute_error + unit" where
  "validate_attribute_sensitivity a name expected_sensitive =
     (if is_sensitive a \<noteq> expected_sensitive then
        (if expected_sensitive then Inl (SaInvalidAttributeIsPlain name) else Inl (SaInvalidAttributeIsSensitive name))
      else Inr ())"

definition assert_attribute_is_sensitive :: "attribute \<Rightarrow> string \<Rightarrow> sensitive_attribute_error + unit" where
  "assert_attribute_is_sensitive a name = validate_attribute_sensitivity a name True"

definition assert_attribute_is_plain :: "attribute \<Rightarrow> string \<Rightarrow> sensitive_attribute_error + unit" where
  "assert_attribute_is_plain a name = validate_attribute_sensitivity a name False"

definition entry_to_oid :: "oid_env \<Rightarrow> string \<Rightarrow> kyc_attribute_entry \<Rightarrow> sensitive_attribute_error + oid" where
  "entry_to_oid env name entry =
     (case entry of
        EntryPlain _ \<Rightarrow> map_err SaAsn1Error (get_plain_attribute_oid env name)
      | EntrySensitive _ \<Rightarrow> map_err SaAsn1Error (get_sensitive_attribute_oid env name))"

section \<open>Building\<close>

record sensitive_builder =
  sb_value :: "bytes option"

definition sensitive_builder_new :: sensitive_builder where "sensitive_builder_new = \<lparr>sb_value = None\<rparr>"

definition sensitive_with_value :: "bytes \<Rightarrow> sensitive_builder \<Rightarrow> sensitive_builder" where
  "sensitive_with_value v b = b\<lparr>sb_value := Some v\<rparr>"

definition builder_from_entry :: "kyc_attribute_entry \<Rightarrow> sensitive_builder" where
  "builder_from_entry entry =
     (case entry of
        EntryPlain v \<Rightarrow> sensitive_with_value v sensitive_builder_new
      | EntrySensitive v \<Rightarrow> sensitive_with_value v sensitive_builder_new)"

text \<open>Sealing the value under drawn material: everything after the random draws of \<open>build\<close>.\<close>

definition seal_value ::
    "('k, 'w) sensitive_env \<Rightarrow> 'k \<Rightarrow> bytes \<Rightarrow> bytes \<Rightarrow> bytes \<Rightarrow> bytes \<Rightarrow> bytes \<Rightarrow> sensitive_attribute_error + sensitive_attribute" where
  "seal_value env keypair v salt symmetric_key iv encrypted_key =
     bindR (gcm_new env symmetric_key) (\<lambda>cipher.
     bindR (map_err SaCryptoError (gcm_encrypt env cipher iv v)) (\<lambda>encrypted_value.
     bindR (map_err SaCryptoError (gcm_encrypt env cipher iv salt)) (\<lambda>encrypted_salt.
     let hash_input = create_hash_input salt (key_public env keypair) encrypted_value v in
     Inr \<lparr>sa_version = 0,
          sa_cipher = \<lparr>sc_algorithm = oid_aes_gcm (se_oids env), sc_iv_or_nonce = iv, sc_key = encrypted_key\<rparr>,
          sa_hashed_value = \<lparr>hv_encrypted_salt = encrypted_salt, hv_algorithm = oid_sha3 (se_oids env),
            hv_value = hash_bytes (se_oids env) Sha3_256 hash_input\<rparr>,
          sa_encrypted_value = encrypted_value\<rparr>)))"

definition build_sensitive ::
    "('k, 'w) sensitive_env \<Rightarrow> sensitive_builder \<Rightarrow> 'k \<Rightarrow> 'w \<Rightarrow> (sensitive_attribute_error + sensitive_attribute) \<times> 'w" where
  "build_sensitive env b keypair w =
     (case sb_value b of
        None \<Rightarrow> (Inl SaMissingValue, w)
      | Some v \<Rightarrow>
          if \<not> supports_encryption env keypair then (Inl SaUnsupportedKeyType, w)
          else
            (case generate_seed env w of
               (Inl e, w) \<Rightarrow> (Inl (SaCryptoError e), w)
             | (Inr salt, w) \<Rightarrow>
                 (case generate_seed env w of
                    (Inl e, w) \<Rightarrow> (Inl (SaCryptoError e), w)
                  | (Inr symmetric_key, w) \<Rightarrow>
                      (case generate_nonce env w of
                         (iv, w) \<Rightarrow>
                           (case key_encrypt env keypair symmetric_key w of
                              (Inl e, w) \<Rightarrow> (Inl (SaAccountError e), w)
                            | (Inr encrypted_key, w) \<Rightarrow>
                                (seal_value env keypair v salt symmetric_key iv encrypted_key, w))))))"

section \<open>Opening and proving\<close>

definition decrypt_sensitive ::
    "('k, 'w) sensitive_env \<Rightarrow> sensitive_attribute \<Rightarrow> 'k \<Rightarrow> (sensitive_attribute_error + bytes) option" where
  "decrypt_sensitive env a keypair =
     bindP (Some (assert_valid_version (sa_version a))) (\<lambda>_.
     if \<not> supports_encryption env keypair then Some (Inl SaUnsupportedKeyType)
     else
       bindP (setup_cipher_for_decryption env keypair (sa_cipher a)) (\<lambda>(cipher, iv).
       Some (map_err SaCryptoError (gcm_decrypt env cipher iv (sa_encrypted_value a)))))"

definition decrypt_as_string ::
    "('k, 'w) sensitive_env \<Rightarrow> sensitive_attribute \<Rightarrow> 'k \<Rightarrow> (sensitive_attribute_error + string) option" where
  "decrypt_as_string env a keypair =
     bindP (decrypt_sensitive env a keypair) (\<lambda>v. Some (if is_utf8 v then Inr v else Inl SaInvalidUtf8))"

definition to_proof ::
    "('k, 'w) sensitive_env \<Rightarrow> sensitive_attribute \<Rightarrow> 'k \<Rightarrow> (sensitive_attribute_error + attribute_proof) option" where
  "to_proof env a keypair =
     bindP (decrypt_sensitive env a keypair) (\<lambda>v.
     bindP (setup_cipher_for_decryption env keypair (sa_cipher a)) (\<lambda>(cipher, iv).
     Some (bindR (map_err SaCryptoError (gcm_decrypt env cipher iv (hv_encrypted_salt (sa_hashed_value a)))) (\<lambda>salt.
     Inr \<lparr>pr_value = b64_encode (se_oids env) v, pr_hash = \<lparr>ph_salt = b64_encode (se_oids env) salt\<rparr>\<rparr>))))"

definition validate_proof ::
    "('k, 'w) sensitive_env \<Rightarrow> sensitive_attribute \<Rightarrow> 'k \<Rightarrow> attribute_proof \<Rightarrow> sensitive_attribute_error + bool" where
  "validate_proof env a keypair p =
     bindR (ok_or SaInvalidProof (b64_decode (se_oids env) (pr_value p))) (\<lambda>plaintext_value.
     bindR (ok_or SaInvalidProof (b64_decode (se_oids env) (ph_salt (pr_hash p)))) (\<lambda>proof_salt.
     let hash_input = create_hash_input proof_salt (key_public env keypair) (sa_encrypted_value a) plaintext_value;
         computed_hash = hash_bytes (se_oids env) Sha3_256 hash_input
     in Inr (computed_hash = hv_value (sa_hashed_value a))))"

definition sensitive_to_der :: "('k, 'w) sensitive_env \<Rightarrow> sensitive_attribute \<Rightarrow> sensitive_attribute_error + bytes" where
  "sensitive_to_der env a = map_err (SaAsn1Error \<circ> rasn_encode_error) (encode_sensitive env a)"

definition sensitive_from_der :: "('k, 'w) sensitive_env \<Rightarrow> bytes \<Rightarrow> sensitive_attribute_error + sensitive_attribute" where
  "sensitive_from_der env bs = map_err (SaAsn1Error \<circ> rasn_decode_error) (decode_sensitive env bs)"

section \<open>JSON\<close>

definition proof_to_json :: "attribute_proof \<Rightarrow> json" where
  "proof_to_json p =
     JObject [(''value'', JString (pr_value p)), (''hash'', JObject [(''salt'', JString (ph_salt (pr_hash p)))])]"

definition decode_proof_hash :: "proof_hash decoder" where
  "decode_proof_hash doc =
     bindR (doc_struct [''salt''] doc) (\<lambda>members.
     bindR (required members ''salt'' decode_string) (\<lambda>salt. Inr \<lparr>ph_salt = salt\<rparr>))"

definition proof_from_json :: "attribute_proof decoder" where
  "proof_from_json doc =
     bindR (doc_struct [''value'', ''hash''] doc) (\<lambda>members.
     bindR (required members ''value'' decode_string) (\<lambda>v.
     bindR (required members ''hash'' decode_proof_hash) (\<lambda>h. Inr \<lparr>pr_value = v, pr_hash = h\<rparr>)))"

definition algorithm_display :: "oid_env \<Rightarrow> oid \<Rightarrow> string" where
  "algorithm_display env i =
     (case get_algorithm_by_oid env i of Inr name \<Rightarrow> name | Inl _ \<Rightarrow> oid_to_string env i)"

definition sensitive_to_json :: "oid_env \<Rightarrow> sensitive_attribute \<Rightarrow> string + json" where
  "sensitive_to_json env a =
     (if sa_version a < 0 \<or> 2 ^ 64 \<le> sa_version a then Inl ''Invalid version''
      else Inr (JObject
        [(''version'', JNumber (PosInt (word_of_int (sa_version a)))),
         (''cipher'', string_object
            [(''algorithm'', algorithm_display env (sc_algorithm (sa_cipher a))),
             (''iv'', b64_encode env (sc_iv_or_nonce (sa_cipher a))),
             (''key'', b64_encode env (sc_key (sa_cipher a)))]),
         (''hashedValue'', string_object
            [(''encryptedSalt'', b64_encode env (hv_encrypted_salt (sa_hashed_value a))),
             (''algorithm'', algorithm_display env (hv_algorithm (sa_hashed_value a))),
             (''value'', b64_encode env (hv_value (sa_hashed_value a)))]),
         (''encryptedValue'', JString (b64_encode env (sa_encrypted_value a)))]))"

definition sensitive_from_json :: "oid_env \<Rightarrow> sensitive_attribute decoder" where
  "sensitive_from_json env doc =
     bindR (decode_value doc) (\<lambda>v.
     bindR (ok_or ''Expected object'' (as_object v)) (\<lambda>obj.
     bindR (ok_or ''Missing or invalid version'' (Option.bind (map_of obj ''version'') as_u64)) (\<lambda>version.
     bindR (extract_object obj ''cipher'') (\<lambda>cipher.
     bindR (extract_string cipher ''algorithm'') (\<lambda>cipher_name.
     bindR (algorithm_to_oid env cipher_name) (\<lambda>cipher_algorithm.
     bindR (extract_base64 env cipher ''iv'') (\<lambda>iv_bytes.
     bindR (extract_base64 env cipher ''key'') (\<lambda>key_bytes.
     bindR (extract_object obj ''hashedValue'') (\<lambda>hashed.
     bindR (extract_string hashed ''algorithm'') (\<lambda>hash_name.
     bindR (algorithm_to_oid env hash_name) (\<lambda>algorithm.
     bindR (extract_base64 env hashed ''encryptedSalt'') (\<lambda>salt_bytes.
     bindR (extract_base64 env hashed ''value'') (\<lambda>hash_value.
     bindR (extract_base64 env obj ''encryptedValue'') (\<lambda>value_bytes.
     Inr \<lparr>sa_version = int (unat version),
          sa_cipher = \<lparr>sc_algorithm = cipher_algorithm, sc_iv_or_nonce = iv_bytes, sc_key = key_bytes\<rparr>,
          sa_hashed_value = \<lparr>hv_encrypted_salt = salt_bytes, hv_algorithm = algorithm, hv_value = hash_value\<rparr>,
          sa_encrypted_value = value_bytes\<rparr>))))))))))))))"

section \<open>What sealing promises\<close>

text \<open>The laws of the third-party operations: a ciphertext decrypts under its key and nonce, a drawn nonce
  has the length of nonces, base64 reads back.\<close>

definition sensitive_laws :: "('k, 'w) sensitive_env \<Rightarrow> bool" where
  "sensitive_laws env \<longleftrightarrow>
     (\<forall>key iv v c. gcm_encrypt env key iv v = Inr c \<longrightarrow> gcm_decrypt env key iv c = Inr v)
     \<and> (\<forall>w. length (fst (generate_nonce env w)) = nonce_length env)
     \<and> (\<forall>b. b64_decode (se_oids env) (b64_encode (se_oids env) b) = Some b)"

text \<open>A key pair that holds the private key of another (of itself, when it is not public-only): it
  unwraps what was wrapped for it, and encrypts like it. A public-only key pair unwraps nothing.\<close>

definition holds_key :: "('k, 'w) sensitive_env \<Rightarrow> 'k \<Rightarrow> 'k \<Rightarrow> bool" where
  "holds_key env reader keypair \<longleftrightarrow>
     (\<forall>m c w w'. key_encrypt env keypair m w = (Inr c, w') \<longrightarrow> key_decrypt env reader c = Inr m)
     \<and> (supports_encryption env keypair \<longrightarrow> supports_encryption env reader)"

definition public_only :: "('k, 'w) sensitive_env \<Rightarrow> 'k \<Rightarrow> bool" where
  "public_only env reader \<longleftrightarrow> (\<forall>c. \<exists>e. key_decrypt env reader c = Inl e)"

lemma build_sensitive_Inr:
  assumes "build_sensitive env b keypair w = (Inr a, w')"
  obtains v salt key iv wrapped u u' where
    "sb_value b = Some v" "supports_encryption env keypair" "iv = fst (generate_nonce env u)"
    "key_encrypt env keypair key u' = (Inr wrapped, w')" "seal_value env keypair v salt key iv wrapped = Inr a"
proof -
  from assms obtain v where v: "sb_value b = Some v" "supports_encryption env keypair"
    by (auto simp: build_sensitive_def split: option.splits if_splits)
  with assms obtain salt w1 where w1: "generate_seed env w = (Inr salt, w1)"
    by (auto simp: build_sensitive_def split: prod.splits sum.splits)
  with v assms obtain key w2 where w2: "generate_seed env w1 = (Inr key, w2)"
    by (auto simp: build_sensitive_def split: prod.splits sum.splits)
  obtain iv w3 where w3: "generate_nonce env w2 = (iv, w3)" by (cases "generate_nonce env w2")
  with v w1 w2 assms obtain wrapped where "key_encrypt env keypair key w3 = (Inr wrapped, w')"
      "seal_value env keypair v salt key iv wrapped = Inr a"
    by (auto simp: build_sensitive_def split: prod.splits sum.splits)
  with v w3 that [of v iv w2 key w3 wrapped salt] show ?thesis by simp
qed

lemma seal_value_opens:
  assumes laws: "sensitive_laws env" and "supports_encryption env reader" "length iv = nonce_length env"
    and wrapped: "key_decrypt env reader wrapped = Inr key"
    and seal: "seal_value env keypair v salt key iv wrapped = Inr a"
  shows "decrypt_sensitive env a reader = Some (Inr v)"
    and "to_proof env a reader = Some (Inr \<lparr>pr_value = b64_encode (se_oids env) v,
      pr_hash = \<lparr>ph_salt = b64_encode (se_oids env) salt\<rparr>\<rparr>)"
    and "hv_value (sa_hashed_value a) = hash_bytes (se_oids env) Sha3_256
      (create_hash_input salt (key_public env keypair) (sa_encrypted_value a) v)"
proof -
  from seal obtain c s where gnew: "gcm_new env key = Inr key" and enc: "gcm_encrypt env key iv v = Inr c" "gcm_encrypt env key iv salt = Inr s"
    and a: "a = \<lparr>sa_version = 0,
          sa_cipher = \<lparr>sc_algorithm = oid_aes_gcm (se_oids env), sc_iv_or_nonce = iv, sc_key = wrapped\<rparr>,
          sa_hashed_value = \<lparr>hv_encrypted_salt = s, hv_algorithm = oid_sha3 (se_oids env),
            hv_value = hash_bytes (se_oids env) Sha3_256 (create_hash_input salt (key_public env keypair) c v)\<rparr>,
          sa_encrypted_value = c\<rparr>"
    by (auto simp: seal_value_def Let_def result_elims gcm_new_def split: option.splits)
  from laws enc have dec: "gcm_decrypt env key iv c = Inr v" "gcm_decrypt env key iv s = Inr salt"
    unfolding sensitive_laws_def by blast+
  have ciph: "setup_cipher_for_decryption env reader (sa_cipher a) = Some (Inr (key, iv))"
    using assms(3) wrapped gnew a by (simp add: setup_cipher_for_decryption_def nonce_from_slice_def)
  show opened: "decrypt_sensitive env a reader = Some (Inr v)"
    using ciph assms(2) dec(1) a by (simp add: decrypt_sensitive_def assert_valid_version_def)
  show "to_proof env a reader = Some (Inr \<lparr>pr_value = b64_encode (se_oids env) v,
      pr_hash = \<lparr>ph_salt = b64_encode (se_oids env) salt\<rparr>\<rparr>)"
    unfolding to_proof_def using opened ciph dec(2) a by simp
  show "hv_value (sa_hashed_value a) = hash_bytes (se_oids env) Sha3_256
      (create_hash_input salt (key_public env keypair) (sa_encrypted_value a) v)"
    using a by simp
qed

lemma sealed_roundtrip:
  assumes laws: "sensitive_laws env" and "build_sensitive env (sensitive_with_value v sensitive_builder_new) keypair w = (Inr a, w')"
    and holds: "holds_key env reader keypair"
  shows "decrypt_sensitive env a reader = Some (Inr v)
    \<and> (\<exists>p. to_proof env a reader = Some (Inr p) \<and> b64_decode (se_oids env) (pr_value p) = Some v
        \<and> (\<forall>verifier. key_public env verifier = key_public env keypair \<longrightarrow> validate_proof env a verifier p = Inr True))"
proof -
  from assms(2) obtain salt key iv wrapped u u' where b: "supports_encryption env keypair" "iv = fst (generate_nonce env u)"
      "key_encrypt env keypair key u' = (Inr wrapped, w')" "seal_value env keypair v salt key iv wrapped = Inr a"
    by (rule build_sensitive_Inr) (simp add: sensitive_with_value_def)
  have len: "length iv = nonce_length env" using laws b(2) unfolding sensitive_laws_def by blast
  have sup: "supports_encryption env reader" and key: "key_decrypt env reader wrapped = Inr key"
    using holds b(1,3) unfolding holds_key_def by blast+
  note opens = seal_value_opens [OF laws sup len key b(4)]
  have b64: "b64_decode (se_oids env) (b64_encode (se_oids env) x) = Some x" for x
    using laws unfolding sensitive_laws_def by blast
  show ?thesis using opens b64 by (auto simp: validate_proof_def Let_def)
qed

text \<open>A public-only key pair reads nothing and proves nothing.\<close>

lemma public_only_fails:
  assumes "public_only env reader"
  shows "\<exists>e. decrypt_sensitive env a reader = Some (Inl e)" "\<exists>e. to_proof env a reader = Some (Inl e)"
proof -
  obtain e where e: "key_decrypt env reader (sc_key (sa_cipher a)) = Inl e" using assms unfolding public_only_def by blast
  show "\<exists>e. decrypt_sensitive env a reader = Some (Inl e)"
    using e by (cases "assert_valid_version (sa_version a)") (auto simp: decrypt_sensitive_def setup_cipher_for_decryption_def)
  then show "\<exists>e. to_proof env a reader = Some (Inl e)" by (auto simp: to_proof_def)
qed


text \<open>C25. Decrypting an attribute panics exactly when its version is supported, the key pair unwraps its
  key and its nonce, which the certificate carries, has not the length of a nonce.\<close>

theorem decrypt_panics_on_nonce:
  "decrypt_sensitive env a keypair = None \<longleftrightarrow>
     sa_version a = 0 \<and> supports_encryption env keypair
     \<and> (\<exists>key. key_decrypt env keypair (sc_key (sa_cipher a)) = Inr key)
     \<and> length (sc_iv_or_nonce (sa_cipher a)) \<noteq> nonce_length env"
proof -
  have "(\<exists>u. assert_valid_version v = Inr u) \<longleftrightarrow> v = 0" for v
  proof
    assume "\<exists>u. assert_valid_version v = Inr u"
    then have "0 \<le> v" "v < 2 ^ 64" "(word_of_int v :: u64) = 0"
      by (auto simp: assert_valid_version_def Let_def split: if_splits)
    moreover have "uint (word_of_int v :: u64) = v mod 2 ^ 64" by (simp add: uint_word_of_int)
    ultimately show "v = 0" by simp
  qed (simp add: assert_valid_version_def)
  then show ?thesis
    by (auto simp: decrypt_sensitive_def bindP_eq_None setup_cipher_for_decryption_def nonce_from_slice_def
        split: sum.splits option.splits if_splits)
qed

lemma to_value_string_object [simp]: "to_value (string_object kvs) = string_object kvs"
proof (rule to_value_id)
  have "set (map_from (map (\<lambda>(k, v). (k, JString v)) kvs)) \<subseteq> set (map (\<lambda>(k, v). (k, JString v)) kvs)"
    by (rule set_map_from)
  then show "json_ok (string_object kvs)" by (auto simp: string_object_def json_object_def list_all_iff)
qed

lemma string_object_members:
  "\<exists>m. string_object kvs = JObject m \<and> (\<forall>k. map_of m k = map_option JString (map_of (rev kvs) k))"
proof -
  have "map_of (map (\<lambda>(k, v). (k, JString v)) xs) k = map_option JString (map_of xs k)" for xs :: "(string \<times> string) list" and k
    by (induction xs) auto
  then show ?thesis by (simp add: string_object_def json_object_def map_of_map_from rev_map)
qed

text \<open>An attribute survives its JSON form, when its version is a \<open>u64\<close> and the names of its two
  algorithms are those the reader knows.\<close>

lemma sensitive_json_roundtrip:
  assumes "0 \<le> sa_version a" "sa_version a < 2 ^ 64" "\<forall>b. b64_decode env (b64_encode env b) = Some b"
    and "algorithm_to_oid env (algorithm_display env (sc_algorithm (sa_cipher a))) = Inr (sc_algorithm (sa_cipher a))"
    and "algorithm_to_oid env (algorithm_display env (hv_algorithm (sa_hashed_value a))) = Inr (hv_algorithm (sa_hashed_value a))"
  shows "\<exists>doc. sensitive_to_json env a = Inr doc \<and> sensitive_from_json env doc = Inr a"
proof -
  have v: "uint (word_of_int (sa_version a) :: u64) = sa_version a"
    using assms(1,2) by (simp add: uint_word_of_int)
  obtain m1 where c: "string_object
            [(''algorithm'', algorithm_display env (sc_algorithm (sa_cipher a))),
             (''iv'', b64_encode env (sc_iv_or_nonce (sa_cipher a))),
             (''key'', b64_encode env (sc_key (sa_cipher a)))] = JObject m1"
      "map_of m1 ''algorithm'' = Some (JString (algorithm_display env (sc_algorithm (sa_cipher a))))"
      "map_of m1 ''iv'' = Some (JString (b64_encode env (sc_iv_or_nonce (sa_cipher a))))"
      "map_of m1 ''key'' = Some (JString (b64_encode env (sc_key (sa_cipher a))))"
    using string_object_members [of "[(''algorithm'', algorithm_display env (sc_algorithm (sa_cipher a))),
             (''iv'', b64_encode env (sc_iv_or_nonce (sa_cipher a))),
             (''key'', b64_encode env (sc_key (sa_cipher a)))]"] by auto
  obtain m2 where h: "string_object
            [(''encryptedSalt'', b64_encode env (hv_encrypted_salt (sa_hashed_value a))),
             (''algorithm'', algorithm_display env (hv_algorithm (sa_hashed_value a))),
             (''value'', b64_encode env (hv_value (sa_hashed_value a)))] = JObject m2"
      "map_of m2 ''encryptedSalt'' = Some (JString (b64_encode env (hv_encrypted_salt (sa_hashed_value a))))"
      "map_of m2 ''algorithm'' = Some (JString (algorithm_display env (hv_algorithm (sa_hashed_value a))))"
      "map_of m2 ''value'' = Some (JString (b64_encode env (hv_value (sa_hashed_value a))))"
    using string_object_members [of "[(''encryptedSalt'', b64_encode env (hv_encrypted_salt (sa_hashed_value a))),
             (''algorithm'', algorithm_display env (hv_algorithm (sa_hashed_value a))),
             (''value'', b64_encode env (hv_value (sa_hashed_value a)))]"] by auto
  have keep: "to_value (JObject m1) = JObject m1" "to_value (JObject m2) = JObject m2"
    using to_value_string_object unfolding c(1) [symmetric] h(1) [symmetric] by simp_all
  define doc where "doc = JObject
        [(''version'', JNumber (PosInt (word_of_int (sa_version a)))), (''cipher'', JObject m1), (''hashedValue'', JObject m2),
         (''encryptedValue'', JString (b64_encode env (sa_encrypted_value a)))]"
  define m where "m = map_from
        [(''version'', JNumber (PosInt (word_of_int (sa_version a)))), (''cipher'', JObject m1), (''hashedValue'', JObject m2),
         (''encryptedValue'', JString (b64_encode env (sa_encrypted_value a)))]"
  have m: "to_value doc = JObject m" "map_of m ''version'' = Some (JNumber (PosInt (word_of_int (sa_version a))))"
      "map_of m ''cipher'' = Some (JObject m1)" "map_of m ''hashedValue'' = Some (JObject m2)"
      "map_of m ''encryptedValue'' = Some (JString (b64_encode env (sa_encrypted_value a)))"
    using keep by (simp_all add: doc_def m_def map_of_map_from)
  have "sensitive_to_json env a = Inr doc"
    using assms(1,2) by (simp only: sensitive_to_json_def doc_def c(1) h(1)) simp
  moreover have "sensitive_from_json env doc = Inr a"
    by (simp add: sensitive_from_json_def decode_value_def m c h assms v extract_object_def extract_string_def extract_base64_def)
  ultimately show ?thesis by blast
qed

section \<open>A concrete cipher\<close>

text \<open>Over key pairs with any public keys, some of them public-only: the cipher is the identity, the random
  source counts, and one sealed attribute has a DER form, the text \<open>a\<close> sealed for the public key \<open>s\<close>.\<close>

definition toy_sealed_text :: sensitive_attribute where
  "toy_sealed_text =
     \<lparr>sa_version = 0, sa_cipher = \<lparr>sc_algorithm = [1, 2, 1], sc_iv_or_nonce = ''iv'', sc_key = ''1''\<rparr>,
      sa_hashed_value = \<lparr>hv_encrypted_salt = ''0'', hv_algorithm = [1, 2, 2],
        hv_value = ''0s'' @ (CHR 0x0C # ''a'') @ (CHR 0x0C # ''a'')\<rparr>,
      sa_encrypted_value = CHR 0x0C # ''a''\<rparr>"

definition sensitive_env_on :: "('k \<Rightarrow> bytes) \<Rightarrow> ('k \<Rightarrow> bool) \<Rightarrow> ('k, nat) sensitive_env" where
  "sensitive_env_on pub priv =
     \<lparr>se_oids = toy_oid_env, supports_encryption = (\<lambda>_. True), key_encrypt = (\<lambda>_ m w. (Inr m, w)),
      key_decrypt = (\<lambda>k c. if priv k then Inr c else Inl ''public key only''), key_public = pub, gcm_key_error = (\<lambda>_. None),
      gcm_encrypt = (\<lambda>_ _ v. Inr v), gcm_decrypt = (\<lambda>_ _ c. Inr c), nonce_length = 2,
      generate_nonce = (\<lambda>w. (''iv'', Suc w)), generate_seed = (\<lambda>w. (Inr (if w = 0 then ''0'' else ''1''), Suc w)),
      encode_sensitive = (\<lambda>a. if a = toy_sealed_text then Inr ''2'' else Inl []),
      decode_sensitive = (\<lambda>d. if d = ''2'' then Inr toy_sealed_text else Inl [])\<rparr>"

abbreviation toy_sensitive_env :: "(bytes, nat) sensitive_env" where
  "toy_sensitive_env \<equiv> sensitive_env_on (\<lambda>k. k) (\<lambda>_. True)"

lemma toy_sensitive_laws: "sensitive_laws (sensitive_env_on pub priv)"
  by (simp add: sensitive_laws_def sensitive_env_on_def toy_oid_env_def)

lemma toy_holds_key: "priv k \<Longrightarrow> holds_key (sensitive_env_on pub priv) k k'"
  by (simp add: holds_key_def sensitive_env_on_def)

lemma toy_public_only: "\<not> priv k \<Longrightarrow> public_only (sensitive_env_on pub priv) k"
  by (simp add: public_only_def sensitive_env_on_def)

lemma toy_seals_text:
  assumes "pub k = ''s''"
  shows "build_sensitive (sensitive_env_on pub priv) (sensitive_with_value (CHR 0x0C # ''a'') sensitive_builder_new) k 0
    = (Inr toy_sealed_text, 3)"
  using assms
  by (simp add: build_sensitive_def sensitive_with_value_def sensitive_env_on_def toy_sealed_text_def toy_oid_env_def
      seal_value_def gcm_new_def create_hash_input_def)

definition toy_sensitive :: sensitive_attribute where
  "toy_sensitive =
     \<lparr>sa_version = 0, sa_cipher = \<lparr>sc_algorithm = [1, 2, 1], sc_iv_or_nonce = ''iv'', sc_key = ''1''\<rparr>,
      sa_hashed_value = \<lparr>hv_encrypted_salt = ''0'', hv_algorithm = [1, 2, 2], hv_value = ''0kvv''\<rparr>,
      sa_encrypted_value = ''v''\<rparr>"

lemma toy_validate:
  "validate_proof toy_sensitive_env toy_sensitive ''k'' \<lparr>pr_value = ''v'', pr_hash = \<lparr>ph_salt = ''0''\<rparr>\<rparr> = Inr True"
  by (simp add: validate_proof_def sensitive_env_on_def toy_sensitive_def toy_oid_env_def create_hash_input_def)

text \<open>The second case does occur: an attribute whose ciphertext repeats the public key has an accepted proof
  of the value \<open>kv\<close> and one of the value \<open>v\<close>, over one hash input.\<close>

lemma shifted_proof_accepted:
  assumes "a = toy_sensitive\<lparr>sa_encrypted_value := ''k'',
    sa_hashed_value := \<lparr>hv_encrypted_salt = ''0'', hv_algorithm = [1, 2, 2], hv_value = ''0kkkv''\<rparr>\<rparr>"
  shows "validate_proof toy_sensitive_env a ''k'' \<lparr>pr_value = ''kv'', pr_hash = \<lparr>ph_salt = ''0''\<rparr>\<rparr> = Inr True"
    and "validate_proof toy_sensitive_env a ''k'' \<lparr>pr_value = ''v'', pr_hash = \<lparr>ph_salt = ''0k''\<rparr>\<rparr> = Inr True"
  using assms
  by (simp_all add: validate_proof_def sensitive_env_on_def toy_sensitive_def toy_oid_env_def create_hash_input_def)


end
