(* ===== verification/SchemaEngine.thy ===== *)
theory SchemaEngine
  imports Envelope
begin

text \<open>
  \<open>keetanetwork-anchor/src/kyc_schema/iso20022_engine.rs\<close> and the schema table it reads
  (\<open>generated/iso20022_schema.rs\<close>): structured attribute values between JSON and the ASN.1
  intermediate form, driven by a schema. The schema and intermediate types, the DER coder, the
  positional matcher and the context-stripping of \<open>keetanetwork_asn1::schema_codec\<close>, the text form of
  JSON and \<open>chrono\<close> are third-party: the record \<open>schema_env\<close>, over instants \<open>'d\<close>.
\<close>

section \<open>Third-party types and operations\<close>

datatype schema =
    SOptional schema
  | SContext nat schema
  | SChoice "schema list"
  | SSequenceOf schema
  | SStruct "(string \<times> schema) list"
  | SUtf8
  | SOid
  | SOctetString
  | SDate

datatype 'd asn1 =
    AContext nat "'d asn1"
  | ASeq "'d asn1 list"
  | AStr string
  | AOid string
  | AOctets bytes
  | ADate 'd
  | AOther bytes

text \<open>The parsers and the printer of \<open>chrono\<close> take the format as their second argument.\<close>

record 'd schema_env =
  der_encode :: "'d asn1 \<Rightarrow> string + bytes"
  der_decode :: "bytes \<Rightarrow> string + 'd asn1"
  schema_optional :: "schema \<Rightarrow> bool"
  match_tuple :: "'d asn1 list \<Rightarrow> schema list \<Rightarrow> string + 'd asn1 option list"
  unwrap_context_tags :: "schema \<Rightarrow> schema"
  parse_text :: json_text
  write_text :: "json \<Rightarrow> string + bytes"
  dt_rfc3339 :: "string \<Rightarrow> 'd option"
  dt_naive :: "string \<Rightarrow> string \<Rightarrow> 'd option"
  dt_midnight :: "string \<Rightarrow> string \<Rightarrow> 'd option"
  dt_format :: "string \<Rightarrow> 'd \<Rightarrow> string"

section \<open>Schemas\<close>

definition address_type_schema :: schema where
  "address_type_schema =
     SChoice [SContext 0 SUtf8, SContext 1 SUtf8]"

definition address_schema :: schema where
  "address_schema =
     SStruct
     [(''addressLines'', SOptional (SContext 0 (SSequenceOf SUtf8))),
      (''addressType'', SOptional address_type_schema),
      (''buildingNumber'', SOptional (SContext 2 SUtf8)),
      (''country'', SOptional (SContext 3 SUtf8)),
      (''countrySubDivision'', SOptional (SContext 4 SUtf8)),
      (''department'', SOptional (SContext 5 SUtf8)),
      (''postalCode'', SOptional (SContext 6 SUtf8)),
      (''streetName'', SOptional (SContext 7 SUtf8)),
      (''subDepartment'', SOptional (SContext 8 SUtf8)),
      (''townName'', SOptional (SContext 9 SUtf8))]"

definition other_contact_schema :: schema where
  "other_contact_schema =
     SStruct
     [(''channelType'', SContext 0 SUtf8),
      (''id'', SOptional (SContext 1 SUtf8))]"

definition contact_details_schema :: schema where
  "contact_details_schema =
     SStruct
     [(''department'', SOptional (SContext 0 SUtf8)),
      (''emailAddress'', SOptional (SContext 1 SUtf8)),
      (''emailPurpose'', SOptional (SContext 2 SUtf8)),
      (''faxNumber'', SOptional (SContext 3 SUtf8)),
      (''fullName'', SOptional (SContext 4 SUtf8)),
      (''jobResponsibility'', SOptional (SContext 5 SUtf8)),
      (''jobTitle'', SOptional (SContext 6 SUtf8)),
      (''mobileNumber'', SOptional (SContext 7 SUtf8)),
      (''namePrefix'', SOptional (SContext 8 SUtf8)),
      (''other'', SOptional (SContext 9 (SSequenceOf other_contact_schema))),
      (''phoneNumber'', SOptional (SContext 10 SUtf8)),
      (''preferredMethod'', SOptional (SContext 11 SUtf8))]"

definition date_and_place_of_birth_schema :: schema where
  "date_and_place_of_birth_schema =
     SStruct
     [(''birthDate'', SContext 0 SDate),
      (''cityOfBirth'', SContext 1 SUtf8),
      (''countryOfBirth'', SContext 2 SUtf8),
      (''provinceOfBirth'', SOptional (SContext 3 SUtf8))]"

definition digest_info_schema :: schema where
  "digest_info_schema =
     SStruct
     [(''digestAlgorithm'', SOid),
      (''digest'', SOctetString)]"

definition external_reference_schema :: schema where
  "external_reference_schema =
     SStruct
     [(''url'', SUtf8),
      (''contentType'', SUtf8)]"

definition reference_schema :: schema where
  "reference_schema =
     SStruct
     [(''external'', external_reference_schema),
      (''digest'', digest_info_schema),
      (''encryptionAlgorithm'', SOid)]"

definition document_schema :: schema where
  "document_schema =
     SStruct
     [(''documentNumber'', SContext 0 SUtf8),
      (''front'', SOptional (SContext 1 reference_schema)),
      (''back'', SOptional (SContext 2 reference_schema)),
      (''selfie'', SOptional (SContext 3 reference_schema)),
      (''fullName'', SOptional (SContext 4 SUtf8)),
      (''firstName'', SOptional (SContext 5 SUtf8)),
      (''lastName'', SOptional (SContext 6 SUtf8)),
      (''dob'', SOptional (SContext 7 SDate)),
      (''gender'', SOptional (SContext 8 SUtf8)),
      (''address'', SOptional (SContext 9 address_schema)),
      (''expiresAt'', SOptional (SContext 10 SDate)),
      (''issuedAt'', SOptional (SContext 11 SDate)),
      (''issuingState'', SOptional (SContext 12 SUtf8)),
      (''issuingCountry'', SOptional (SContext 13 SUtf8)),
      (''refNumber'', SOptional (SContext 14 SUtf8)),
      (''nationality'', SOptional (SContext 15 SUtf8)),
      (''curp'', SOptional (SContext 16 SUtf8)),
      (''claveDeElector'', SOptional (SContext 17 SUtf8)),
      (''classifiedDocumentType'', SOptional (SContext 18 SUtf8)),
      (''curpValidationResponse'', SOptional (SContext 19 SUtf8)),
      (''sambaActivityHistoryResponse'', SOptional (SContext 20 SUtf8))]"

definition organization_identification_scheme_name_choice_schema :: schema where
  "organization_identification_scheme_name_choice_schema =
     SChoice [SContext 0 SUtf8, SContext 1 SUtf8]"

definition generic_organization_identification_schema :: schema where
  "generic_organization_identification_schema =
     SStruct
     [(''id'', SContext 0 SUtf8),
      (''issuer'', SOptional (SContext 1 SUtf8)),
      (''schemeName'', SOptional organization_identification_scheme_name_choice_schema)]"

definition person_identification_scheme_name_choice_schema :: schema where
  "person_identification_scheme_name_choice_schema =
     SChoice [SContext 0 SUtf8, SContext 1 SUtf8]"

definition generic_person_identification_schema :: schema where
  "generic_person_identification_schema =
     SStruct
     [(''id'', SContext 0 SUtf8),
      (''issuer'', SOptional (SContext 1 SUtf8)),
      (''schemeName'', SOptional person_identification_scheme_name_choice_schema)]"

definition entity_type_schema :: schema where
  "entity_type_schema =
     SStruct
     [(''organization'', SOptional (SContext 0 (SSequenceOf generic_organization_identification_schema))),
      (''person'', SOptional (SContext 1 (SSequenceOf generic_person_identification_schema)))]"

definition attribute_schema :: "string \<Rightarrow> schema option" where
  "attribute_schema token = map_of
     [(''Address'', address_schema),
      (''ContactDetails'', contact_details_schema),
      (''DateAndPlaceOfBirth'', date_and_place_of_birth_schema),
      (''Document'', document_schema),
      (''DocumentDriversLicense'', document_schema),
      (''DocumentIdCard'', document_schema),
      (''DocumentPassport'', document_schema),
      (''DocumentPassportCard'', document_schema),
      (''DocumentPermit'', document_schema),
      (''DocumentResidenceDocument'', document_schema),
      (''DocumentVisa'', document_schema),
      (''EntityType'', entity_type_schema)] token"

section \<open>Identifiers, buffers and dates\<close>

definition encode_error :: "string \<Rightarrow> asn1_error + 'x" where
  "encode_error reason = Inl (Asn1EncodeError reason)"

definition decode_error :: "string \<Rightarrow> asn1_error + 'x" where
  "decode_error reason = Inl (Asn1DecodeError reason)"

definition OID_NAME_TABLE :: "(string \<times> string) list" where
  "OID_NAME_TABLE =
     [(''sha256'', ''2.16.840.1.101.3.4.2.1''), (''sha3-256'', ''2.16.840.1.101.3.4.2.8''),
      (''sha3-256WithEcDSA'', ''2.16.840.1.101.3.4.3.10''), (''sha256WithEcDSA'', ''1.2.840.10045.4.3.2''),
      (''ecdsa'', ''1.2.840.10045.2.1''), (''ed25519'', ''1.3.101.112''), (''secp256k1'', ''1.3.132.0.10''),
      (''secp256r1'', ''1.2.840.10045.3.1.7''), (''account'', ''2.23.42.2.7.11''), (''serialNumber'', ''2.5.4.5''),
      (''member'', ''2.5.4.31''), (''commonName'', ''2.5.4.3''), (''hash'', ''1.3.6.1.4.1.8301.3.2.2.1.1''),
      (''hashData'', ''2.16.840.1.101.3.3.1.3'')]"

definition oid_to_name :: "string \<Rightarrow> string" where
  "oid_to_name dotted =
     (case map_of (map (\<lambda>(name, mapped). (mapped, name)) OID_NAME_TABLE) dotted of
        Some name \<Rightarrow> name | None \<Rightarrow> dotted)"

definition oid_from_name :: "string \<Rightarrow> string" where
  "oid_from_name name = (case map_of OID_NAME_TABLE name of Some mapped \<Rightarrow> mapped | None \<Rightarrow> name)"

definition buffer_json :: "bytes \<Rightarrow> json" where
  "buffer_json bs =
     json_object [(''type'', JString ''Buffer''),
                  (''data'', JArray (map (\<lambda>b. JNumber (PosInt (of_char b))) bs))]"

definition byte_of_json :: "json \<Rightarrow> char option" where
  "byte_of_json entry =
     Option.bind (as_u64 entry) (\<lambda>n. if n \<le> 255 then Some (char_of (unat n)) else None)"

definition bytes_from_buffer_json :: "json \<Rightarrow> asn1_error + bytes" where
  "bytes_from_buffer_json v =
     (case Option.bind (Option.bind (as_object v) (\<lambda>m. map_of m ''data'')) as_array of
        None \<Rightarrow> encode_error ''buffer json missing data array''
      | Some data \<Rightarrow>
          mapM_result (\<lambda>entry. ok_or (Asn1EncodeError ''buffer json data entry out of range'') (byte_of_json entry)) data)"

definition MILLIS_FORMAT :: string where "MILLIS_FORMAT = ''%Y-%m-%dT%H:%M:%S%.3fZ''"
definition FRACTION_FORMAT :: string where "FRACTION_FORMAT = ''%Y-%m-%dT%H:%M:%S%.fZ''"
definition DAY_FORMAT :: string where "DAY_FORMAT = ''%Y-%m-%d''"

definition parse_instant :: "'d schema_env \<Rightarrow> string \<Rightarrow> 'd option" where
  "parse_instant env stamp =
     (case dt_rfc3339 env stamp of
        Some d \<Rightarrow> Some d
      | None \<Rightarrow>
          (case dt_naive env stamp FRACTION_FORMAT of Some d \<Rightarrow> Some d | None \<Rightarrow> dt_midnight env stamp DAY_FORMAT))"

definition encode_date :: "'d schema_env \<Rightarrow> string \<Rightarrow> asn1_error + 'd asn1" where
  "encode_date env stamp =
     (case parse_instant env stamp of
        Some d \<Rightarrow> Inr (ADate d) | None \<Rightarrow> encode_error (''invalid date/time: '' @ stamp))"

definition decode_date :: "'d schema_env \<Rightarrow> 'd \<Rightarrow> asn1_error + json" where
  "decode_date env d = Inr (JString (dt_format env MILLIS_FORMAT d))"

section \<open>Encoding\<close>

definition str_value :: "json \<Rightarrow> asn1_error + string" where
  "str_value v = ok_or (Asn1EncodeError ''expected a JSON string'') (as_str v)"

definition encode_sequence_of :: "(json \<Rightarrow> asn1_error + 'd asn1) \<Rightarrow> json \<Rightarrow> asn1_error + 'd asn1" where
  "encode_sequence_of encode_item v =
     (case as_array v of
        None \<Rightarrow> encode_error ''expected an array for SEQUENCE OF''
      | Some xs \<Rightarrow> bindR (mapM_result encode_item xs) (\<lambda>items. Inr (ASeq items)))"

definition present_member :: "(string \<times> json) list \<Rightarrow> string \<Rightarrow> json option" where
  "present_member m name = Option.bind (map_of m name) (\<lambda>v. if is_null v then None else Some v)"

fun encode_schema :: "'d schema_env \<Rightarrow> schema \<Rightarrow> json \<Rightarrow> asn1_error + 'd asn1"
and encode_choice :: "'d schema_env \<Rightarrow> schema list \<Rightarrow> json \<Rightarrow> asn1_error + 'd asn1"
and encode_fields :: "'d schema_env \<Rightarrow> (string \<times> schema) list \<Rightarrow> (string \<times> json) list \<Rightarrow> asn1_error + 'd asn1 list"
  where
  "encode_schema env (SOptional inner) v = encode_schema env inner v"
| "encode_schema env (SContext tag inner) v = bindR (encode_schema env inner v) (\<lambda>contains. Inr (AContext tag contains))"
| "encode_schema env (SChoice alternatives) v = encode_choice env alternatives v"
| "encode_schema env (SSequenceOf inner) v = encode_sequence_of (encode_schema env inner) v"
| "encode_schema env (SStruct flds) v =
     (case as_object v of
        None \<Rightarrow> encode_error ''expected an object for SEQUENCE''
      | Some m \<Rightarrow> bindR (encode_fields env flds m) (\<lambda>components. Inr (ASeq components)))"
| "encode_schema env SUtf8 v = bindR (str_value v) (\<lambda>s. Inr (AStr s))"
| "encode_schema env SOid v = bindR (str_value v) (\<lambda>name. Inr (AOid (oid_from_name name)))"
| "encode_schema env SOctetString v = bindR (bytes_from_buffer_json v) (\<lambda>bs. Inr (AOctets bs))"
| "encode_schema env SDate v = bindR (str_value v) (encode_date env)"
| "encode_choice env [] v = encode_error ''no matching choice alternative''"
| "encode_choice env (alternative # alternatives) v =
     (case encode_schema env alternative v of Inr a \<Rightarrow> Inr a | Inl _ \<Rightarrow> encode_choice env alternatives v)"
| "encode_fields env [] m = Inr []"
| "encode_fields env ((name, s) # flds) m =
     (case present_member m name of
        Some v \<Rightarrow> bindR (encode_schema env s v) (\<lambda>c. bindR (encode_fields env flds m) (\<lambda>cs. Inr (c # cs)))
      | None \<Rightarrow>
          if schema_optional env s then encode_fields env flds m
          else encode_error (''missing required field '' @ name))"

section \<open>Decoding\<close>

definition decode_sequence_of :: "('d asn1 \<Rightarrow> asn1_error + json) \<Rightarrow> 'd asn1 \<Rightarrow> asn1_error + json" where
  "decode_sequence_of decode_item a =
     (case a of
        ASeq items \<Rightarrow> bindR (mapM_result decode_item items) (\<lambda>out. Inr (JArray out))
      | _ \<Rightarrow> decode_error ''expected a SEQUENCE OF'')"

fun decode_schema :: "'d schema_env \<Rightarrow> schema \<Rightarrow> 'd asn1 \<Rightarrow> asn1_error + json"
and decode_choice :: "'d schema_env \<Rightarrow> schema list \<Rightarrow> 'd asn1 \<Rightarrow> asn1_error + json"
and decode_fields :: "'d schema_env \<Rightarrow> (string \<times> schema) list \<Rightarrow> 'd asn1 option list \<Rightarrow> asn1_error + (string \<times> json) list"
  where
  "decode_schema env (SOptional inner) a = decode_schema env inner a"
| "decode_schema env (SContext tag inner) a =
     (case a of
        AContext actual contains \<Rightarrow>
          if actual = tag then decode_schema env inner contains else decode_error ''context tag mismatch''
      | _ \<Rightarrow> decode_error ''context tag mismatch'')"
| "decode_schema env (SChoice alternatives) a = decode_choice env alternatives a"
| "decode_schema env (SSequenceOf inner) a = decode_sequence_of (decode_schema env inner) a"
| "decode_schema env (SStruct flds) a =
     (case a of
        ASeq components \<Rightarrow>
          bindR (map_err Asn1DecodeError (match_tuple env components (map snd flds))) (\<lambda>matched.
          bindR (decode_fields env flds matched) (\<lambda>members. Inr (JObject (map_from members))))
      | _ \<Rightarrow> decode_error ''expected a SEQUENCE'')"
| "decode_schema env SUtf8 a = (case a of AStr s \<Rightarrow> Inr (JString s) | _ \<Rightarrow> decode_error ''expected a string'')"
| "decode_schema env SOid a = (case a of AOid i \<Rightarrow> Inr (JString (oid_to_name i)) | _ \<Rightarrow> decode_error ''expected an OID'')"
| "decode_schema env SOctetString a =
     (case a of AOctets bs \<Rightarrow> Inr (buffer_json bs) | _ \<Rightarrow> decode_error ''expected an OCTET STRING'')"
| "decode_schema env SDate a = (case a of ADate d \<Rightarrow> decode_date env d | _ \<Rightarrow> decode_error ''expected a date'')"
| "decode_choice env [] a = decode_error ''no matching choice alternative''"
| "decode_choice env (alternative # alternatives) a =
     (case decode_schema env alternative a of Inr v \<Rightarrow> Inr v | Inl _ \<Rightarrow> decode_choice env alternatives a)"
| "decode_fields env ((name, s) # flds) (c # matched) =
     (case c of
        Some component \<Rightarrow>
          bindR (decode_schema env s component) (\<lambda>v.
          bindR (decode_fields env flds matched) (\<lambda>members. Inr ((name, v) # members)))
      | None \<Rightarrow> decode_fields env flds matched)"
| "decode_fields env _ _ = Inr []"

section \<open>Structured values\<close>

definition encode_structured :: "'d schema_env \<Rightarrow> string \<Rightarrow> bytes \<Rightarrow> asn1_error + bytes" where
  "encode_structured env token raw =
     bindR (ok_or (Asn1EncodeError ''unmapped structured attribute'') (attribute_schema token)) (\<lambda>s.
     bindR (map_err Asn1EncodeError (from_slice (parse_text env) decode_value raw)) (\<lambda>v.
     bindR (encode_schema env s v) (\<lambda>a. map_err Asn1EncodeError (der_encode env a))))"

definition decode_structured :: "'d schema_env \<Rightarrow> string \<Rightarrow> bytes \<Rightarrow> asn1_error + bytes" where
  "decode_structured env token der =
     bindR (ok_or (Asn1DecodeError ''unmapped structured attribute'') (attribute_schema token)) (\<lambda>s.
     bindR (map_err Asn1DecodeError (der_decode env der)) (\<lambda>a.
     bindR (case decode_schema env s a of
              Inr v \<Rightarrow> Inr v | Inl _ \<Rightarrow> decode_schema env (unwrap_context_tags env s) a) (\<lambda>v.
     map_err Asn1EncodeError (write_text env v))))"

section \<open>Values that fit a schema\<close>

text \<open>The form a value of a schema has: a struct is an object with exactly fields of the schema for members,
  none of them null, that leaves out optional ones only, a choice fits one of its alternatives, a text and
  an identifier are strings, octets have the form of a buffer, and a date is a string that reads as an instant.\<close>

definition is_buffer :: "json \<Rightarrow> bool" where
  "is_buffer v = (case bytes_from_buffer_json v of Inr bs \<Rightarrow> v = buffer_json bs | Inl _ \<Rightarrow> False)"

fun fits_schema :: "'d schema_env \<Rightarrow> schema \<Rightarrow> json \<Rightarrow> bool"
and fits_choice :: "'d schema_env \<Rightarrow> schema list \<Rightarrow> json \<Rightarrow> bool"
and fits_fields :: "'d schema_env \<Rightarrow> (string \<times> schema) list \<Rightarrow> (string \<times> json) list \<Rightarrow> bool"
  where
  "fits_schema env (SOptional inner) v = fits_schema env inner v"
| "fits_schema env (SContext _ inner) v = fits_schema env inner v"
| "fits_schema env (SChoice alternatives) v = fits_choice env alternatives v"
| "fits_schema env (SSequenceOf inner) v = (case v of JArray xs \<Rightarrow> list_all (fits_schema env inner) xs | _ \<Rightarrow> False)"
| "fits_schema env (SStruct flds) v =
     (case v of
        JObject m \<Rightarrow> distinct (map fst m) \<and> list_all (\<lambda>(name, _). name \<in> fst ` set flds) m \<and> fits_fields env flds m
      | _ \<Rightarrow> False)"
| "fits_schema env SUtf8 v = (case v of JString _ \<Rightarrow> True | _ \<Rightarrow> False)"
| "fits_schema env SOid v = (case v of JString _ \<Rightarrow> True | _ \<Rightarrow> False)"
| "fits_schema env SOctetString v = is_buffer v"
| "fits_schema env SDate v = (case v of JString stamp \<Rightarrow> parse_instant env stamp \<noteq> None | _ \<Rightarrow> False)"
| "fits_choice env [] v = False"
| "fits_choice env (alternative # alternatives) v = (fits_schema env alternative v \<or> fits_choice env alternatives v)"
| "fits_fields env [] m = True"
| "fits_fields env ((name, s) # flds) m =
     ((case map_of m name of
         Some v \<Rightarrow> \<not> is_null v \<and> fits_schema env s v
       | None \<Rightarrow> schema_optional env s) \<and> fits_fields env flds m)"

section \<open>What is decoded fits and can be encoded\<close>

text \<open>What the matcher and the clock library promise: a tuple is matched by binding every schema to one of
  the components, or leaving an optional one out, and a formatted instant reads back when its year has four
  digits, that is when its text has twenty-four characters.\<close>

definition schema_laws :: "'d schema_env \<Rightarrow> bool" where
  "schema_laws env \<longleftrightarrow>
     (\<forall>cs ss ms. match_tuple env cs ss = Inr ms \<longrightarrow>
        list_all2 (\<lambda>c s. c = None \<longrightarrow> schema_optional env s) ms ss \<and> (\<forall>c. Some c \<in> set ms \<longrightarrow> c \<in> set cs))
     \<and> (\<forall>d. length (dt_format env MILLIS_FORMAT d) = 24 \<longrightarrow> dt_rfc3339 env (dt_format env MILLIS_FORMAT d) \<noteq> None)"

definition four_digit_dates :: "'d schema_env \<Rightarrow> 'd asn1 \<Rightarrow> bool" where
  "four_digit_dates env a \<longleftrightarrow> (\<forall>d \<in> set_asn1 a. length (dt_format env MILLIS_FORMAT d) = 24)"

lemma four_digit_dates_simps [simp]:
  "four_digit_dates env (AContext t a) = four_digit_dates env a"
  "four_digit_dates env (ASeq items) = (\<forall>a \<in> set items. four_digit_dates env a)"
  "four_digit_dates env (ADate d) \<longleftrightarrow> length (dt_format env MILLIS_FORMAT d) = 24"
  by (auto simp: four_digit_dates_def)

text \<open>The members of every struct have different names.\<close>

fun schema_ok :: "schema \<Rightarrow> bool" where
  "schema_ok (SOptional s) = schema_ok s"
| "schema_ok (SContext _ s) = schema_ok s"
| "schema_ok (SChoice ss) = list_all schema_ok ss"
| "schema_ok (SSequenceOf s) = schema_ok s"
| "schema_ok (SStruct flds) = (distinct (map fst flds) \<and> list_all (\<lambda>(_, s). schema_ok s) flds)"
| "schema_ok _ = True"

lemmas schema_tables =
  address_type_schema_def address_schema_def contact_details_schema_def other_contact_schema_def
  date_and_place_of_birth_schema_def document_schema_def entity_type_schema_def reference_schema_def
  external_reference_schema_def digest_info_schema_def
  generic_organization_identification_schema_def generic_person_identification_schema_def
  organization_identification_scheme_name_choice_schema_def person_identification_scheme_name_choice_schema_def

lemma attribute_schema_ok: "attribute_schema token = Some s \<Longrightarrow> schema_ok s"
  by (auto simp: attribute_schema_def schema_tables split: if_splits)

lemma buffer_json_bytes: "bytes_from_buffer_json (buffer_json bs) = Inr bs"
proof -
  have "byte_of_json (JNumber (PosInt (of_char b))) = Some b" for b
  proof -
    have lt: "(of_char b :: nat) < 256" by (rule of_char_less_256)
    have "unat (of_nat (of_char b) :: u64) = of_char b" 
      by (rule of_nat_inverse [OF refl]) (rule less_trans [OF lt], simp)
    then have "unat (of_char b :: u64) = of_char b" by (simp only: of_nat_of_char)
    moreover have "(of_char b :: nat) \<le> 255" using lt by linarith
    ultimately show ?thesis by (simp add: byte_of_json_def word_le_nat_alt)
  qed
  then have "mapM_result (\<lambda>entry. ok_or (Asn1EncodeError ''buffer json data entry out of range'') (byte_of_json entry))
      (map (\<lambda>b. JNumber (PosInt (of_char b))) bs) = Inr bs"
    by (induction bs) simp_all
  then show ?thesis by (simp add: bytes_from_buffer_json_def buffer_json_def json_object_def map_of_map_from)
qed

lemma decode_fields_names:
  "decode_fields env flds ms = Inr members \<Longrightarrow> fst ` set members \<subseteq> fst ` set flds"
proof (induction flds arbitrary: ms members)
  case (Cons f flds)
  note IH = Cons.IH and prem = Cons.prems
  obtain n s where f: "f = (n, s)" by (cases f)
  show ?case
  proof (cases ms)
    case Nil
    with prem f show ?thesis by simp
  next
    case (Cons c ms')
    show ?thesis
    proof (cases c)
      case None
      with Cons prem f have "decode_fields env flds ms' = Inr members" by simp
      from IH [OF this] f show ?thesis by auto
    next
      case (Some d)
      from prem obtain v rest where "decode_fields env flds ms' = Inr rest" "members = (n, v) # rest"
        unfolding f Cons Some decode_fields.simps option.case bindR_eq_Inr by blast
      with IH [OF this(1)] f show ?thesis by auto
    qed
  qed
qed simp

lemma decoded_not_null:
  "decode_schema env s a = Inr v \<Longrightarrow> \<not> is_null v"
  "decode_choice env ss a = Inr v \<Longrightarrow> \<not> is_null v"
  "decode_fields env flds ms = Inr members \<Longrightarrow> True"
  by (induction env s a and env ss a and env flds ms arbitrary: v and v and members
      rule: decode_schema_decode_choice_decode_fields.induct)
    (auto simp: result_elims decode_sequence_of_def buffer_json_def json_object_def decode_date_def decode_error_def
      split: asn1.splits if_splits sum.splits)

lemma mapM_result_is_ok: "(\<forall>x \<in> set xs. is_ok (f x)) \<Longrightarrow> \<exists>ys. mapM_result f xs = Inr ys"
  by (induction xs) (auto simp: is_ok_iff)

lemma map_of_members:
  "distinct (map fst kvs) \<Longrightarrow> map_of (map_from kvs) k = map_of kvs k"
  by (simp add: map_of_map_from map_of_rev_distinct)

lemma decode_fields_distinct:
  "decode_fields env flds ms = Inr members \<Longrightarrow> distinct (map fst flds) \<Longrightarrow> distinct (map fst members)"
proof (induction flds arbitrary: ms members)
  case (Cons f flds)
  note IH = Cons.IH and prem = Cons.prems
  obtain n s where f: "f = (n, s)" by (cases f)
  show ?case
  proof (cases ms)
    case Nil
    with prem f show ?thesis by simp
  next
    case (Cons c ms')
    show ?thesis
    proof (cases c)
      case None
      with Cons prem f IH show ?thesis by simp
    next
      case (Some d)
      from prem(1) obtain v rest where r: "decode_fields env flds ms' = Inr rest" "members = (n, v) # rest"
        unfolding f Cons Some decode_fields.simps option.case bindR_eq_Inr by blast
      from decode_fields_names [OF r(1)] prem(2) f have "n \<notin> fst ` set rest" by auto
      with IH [OF r(1)] r(2) prem(2) f show ?thesis by simp
    qed
  qed
qed simp

text \<open>A value that fits its schema is encoded.\<close>

lemma fits_encodes:
  shows "fits_schema env s v \<Longrightarrow> is_ok (encode_schema env s v)"
    and "fits_choice env ss v \<Longrightarrow> is_ok (encode_choice env ss v)"
    and "fits_fields env flds m \<Longrightarrow> is_ok (encode_fields env flds m)"
proof (induction env s v and env ss v and env flds m rule: fits_schema_fits_choice_fits_fields.induct)
  case (4 env inner v)
  then obtain xs where xs: "v = JArray xs" "\<forall>x \<in> set xs. is_ok (encode_schema env inner x)"
    by (auto simp: list_all_iff split: json.splits)
  with mapM_result_is_ok [of xs] obtain ys where "mapM_result (encode_schema env inner) xs = Inr ys" by blast
  with xs(1) show ?case by (simp add: encode_sequence_of_def)
qed (auto simp: is_ok_iff str_value_def encode_date_def is_buffer_def present_member_def
    split: json.splits sum.splits option.splits)

text \<open>Decoding gives a value that fits. Of the members of a struct, \<open>m\<close> is an object that agrees with the
  decoded ones on the names of the fields.\<close>

lemma decode_fits:
  shows "schema_laws env \<Longrightarrow> schema_ok s \<Longrightarrow> four_digit_dates env a \<Longrightarrow> decode_schema env s a = Inr v \<Longrightarrow> fits_schema env s v"
    and "schema_laws env \<Longrightarrow> list_all schema_ok ss \<Longrightarrow> four_digit_dates env a \<Longrightarrow> decode_choice env ss a = Inr v
      \<Longrightarrow> fits_choice env ss v"
    and "schema_laws env \<Longrightarrow> distinct (map fst flds) \<Longrightarrow> list_all (\<lambda>(_, s). schema_ok s) flds
      \<Longrightarrow> list_all2 (\<lambda>c s. c = None \<longrightarrow> schema_optional env s) ms (map snd flds)
      \<Longrightarrow> (\<And>c. Some c \<in> set ms \<Longrightarrow> four_digit_dates env c)
      \<Longrightarrow> decode_fields env flds ms = Inr members
      \<Longrightarrow> (\<And>n. n \<in> fst ` set flds \<Longrightarrow> map_of m n = map_of members n)
      \<Longrightarrow> fits_fields env flds m"
proof (induction env s a and env ss a and env flds ms arbitrary: v and v and members m
      rule: decode_schema_decode_choice_decode_fields.induct)
  case (4 env inner a)
  then obtain items out where "a = ASeq items" "mapM_result (decode_schema env inner) items = Inr out" "v = JArray out"
    by (auto simp: decode_sequence_of_def decode_error_def result_elims split: asn1.splits)
  with 4 have "\<forall>x \<in> set out. fits_schema env inner x"
    by (auto simp: mapM_result_Inr list_all2_conv_all_nth in_set_conv_nth) (metis nth_mem)
  with \<open>v = JArray out\<close> show ?case by (simp add: list_all_iff)
next
  case (5 env flds a)
  then obtain cs ms members where a: "a = ASeq cs" and d: "match_tuple env cs (map snd flds) = Inr ms"
      "decode_fields env flds ms = Inr members" "v = JObject (map_from members)"
    by (auto simp: decode_error_def result_elims split: asn1.splits)
  have names: "distinct (map fst flds)" "list_all (\<lambda>(_, s). schema_ok s) flds" using 5(3) by simp_all
  from 5(2) d(1) have m: "list_all2 (\<lambda>c s. c = None \<longrightarrow> schema_optional env s) ms (map snd flds)"
      "\<And>c. Some c \<in> set ms \<Longrightarrow> c \<in> set cs"
    unfolding schema_laws_def by blast+
  then have dates: "four_digit_dates env c" if "Some c \<in> set ms" for c using 5(4) a that by simp
  have of: "map_of (map_from members) n = map_of members n" for n
    using decode_fields_distinct [OF d(2)] names(1) by (simp add: map_of_members)
  have "fits_fields env flds (map_from members)" by (rule 5(1) [OF a 5(2) names m(1) dates d(2) of])
  moreover have "list_all (\<lambda>(name, _). name \<in> fst ` set flds) (map_from members)"
  proof -
    have "fst ` set (map_from members) \<subseteq> fst ` set flds"
      using image_mono [OF set_map_from [of members], of fst] decode_fields_names [OF d(2)] by (rule subset_trans)
    then show ?thesis unfolding list_all_iff by (metis (mono_tags) case_prod_beta imageI subsetD)
  qed
  moreover have "distinct (map fst (map_from members))" using map_ok_distinct [OF map_ok_from] .
  ultimately show ?case using d(3) by simp
next
  case (9 env a)
  then obtain d where "v = JString (dt_format env MILLIS_FORMAT d)" "length (dt_format env MILLIS_FORMAT d) = 24"
    by (auto simp: decode_date_def decode_error_def split: asn1.splits)
  moreover from this(2) obtain d' where "dt_rfc3339 env (dt_format env MILLIS_FORMAT d) = Some d'"
    using 9(1) unfolding schema_laws_def by blast
  ultimately show ?case by (simp add: parse_instant_def)
next
  case (12 env name s flds c matched)
  from 12(5) have new: "name \<notin> fst ` set flds" by auto
  have at: "map_of m name = map_of members name" using 12(10) by simp
  show ?case
  proof (cases c)
    case None
    then have d: "decode_fields env flds matched = Inr members" using 12(9) by simp
    have "map_of members name = None"
      using decode_fields_names [OF d] new by (auto simp: map_of_eq_None_iff)
    moreover have "fits_fields env flds m"
      by (rule 12(1) [OF None 12(4) _ _ _ _ d]) (use 12 in auto)
    moreover have "schema_optional env s" using 12(7) None by simp
    ultimately show ?thesis using at by simp
  next
    case (Some component)
    from 12(9) obtain v rest where d: "decode_schema env s component = Inr v" "decode_fields env flds matched = Inr rest"
        "members = (name, v) # rest"
      unfolding Some decode_fields.simps option.case bindR_eq_Inr by blast
    have "fits_schema env s v" using 12(2) [OF Some 12(4) _ _ d(1)] 12(6) 12(8) [of component] Some by simp
    moreover have "map_of m n = map_of rest n" if "n \<in> fst ` set flds" for n
      using 12(10) [of n] that new d(3) by auto
    then have "fits_fields env flds m"
      using 12(3) [OF Some 12(4) _ _ _ _ d(2)] 12 by auto
    ultimately show ?thesis using at d(3) decoded_not_null(1) [OF d(1)] by simp
  qed
qed (auto simp: is_buffer_def buffer_json_bytes result_elims decode_error_def split: asn1.splits if_splits sum.splits)

text \<open>C22. A structured value that was decoded by the schema of its attribute is well formed for it, and
  can be encoded by it again, when its dates have years of four digits: a document read from a certificate
  has only members of its schema, every required one and no null, and is not out of reach of the encoder.\<close>

theorem decoded_value_reencodes:
  assumes "schema_laws env" "attribute_schema token = Some s" "four_digit_dates env a" "decode_schema env s a = Inr v"
  shows "fits_schema env s v \<and> (\<exists>a'. encode_schema env s v = Inr a')"
proof -
  have "fits_schema env s v" by (rule decode_fits(1) [OF assms(1) attribute_schema_ok [OF assms(2)] assms(3,4)])
  with fits_encodes(1) show ?thesis by (fastforce simp: is_ok_iff)
qed

section \<open>A concrete matcher\<close>

fun toy_optional :: "schema \<Rightarrow> bool" where
  "toy_optional (SOptional _) = True"
| "toy_optional _ = False"

fun toy_fits :: "'d asn1 \<Rightarrow> schema \<Rightarrow> bool" where
  "toy_fits (AContext t _) (SOptional (SContext u _)) = (t = u)"
| "toy_fits a (SOptional _) = False"
| "toy_fits a _ = True"

fun toy_match :: "'d asn1 list \<Rightarrow> schema list \<Rightarrow> string + 'd asn1 option list" where
  "toy_match [] [] = Inr []"
| "toy_match (c # cs) [] = Inl ''unmatched component''"
| "toy_match [] (s # ss) =
     (if toy_optional s then bindR (toy_match [] ss) (\<lambda>ms. Inr (None # ms)) else Inl ''missing component'')"
| "toy_match (c # cs) (s # ss) =
     (if toy_fits c s then bindR (toy_match cs ss) (\<lambda>ms. Inr (Some c # ms))
      else if toy_optional s then bindR (toy_match (c # cs) ss) (\<lambda>ms. Inr (None # ms))
      else Inl ''missing component'')"

definition toy_schema_env :: "string schema_env" where
  "toy_schema_env =
     \<lparr>der_encode = (\<lambda>_. Inl []), der_decode = (\<lambda>_. Inl []), schema_optional = toy_optional,
      match_tuple = toy_match, unwrap_context_tags = (\<lambda>s. s), parse_text = (\<lambda>_. Inl []),
      write_text = (\<lambda>_. Inl []), dt_rfc3339 = Some, dt_naive = (\<lambda>_ _. None), dt_midnight = (\<lambda>_ _. None),
      dt_format = (\<lambda>_ d. d)\<rparr>"

lemma toy_schema_laws: "schema_laws toy_schema_env"
proof -
  have "list_all2 (\<lambda>c s. c = None \<longrightarrow> toy_optional s) ms ss \<and> (\<forall>c. Some c \<in> set ms \<longrightarrow> c \<in> set cs)"
    if "toy_match cs ss = Inr ms" for cs ss and ms :: "string asn1 option list"
    using that by (induction cs ss arbitrary: ms rule: toy_match.induct) (auto simp: result_elims split: if_splits)
  then show ?thesis by (simp add: schema_laws_def toy_schema_env_def)
qed

text \<open>A birth, with a date and a member left out.\<close>

theorem decoded_value_reencodes_witness:
  "fits_schema toy_schema_env date_and_place_of_birth_schema
     (JObject [(''birthDate'', JString ''2000-01-01T00:00:00.000Z''), (''cityOfBirth'', JString ''x''), (''countryOfBirth'', JString ''y'')])
   \<and> (\<exists>a'. encode_schema toy_schema_env date_and_place_of_birth_schema
     (JObject [(''birthDate'', JString ''2000-01-01T00:00:00.000Z''), (''cityOfBirth'', JString ''x''), (''countryOfBirth'', JString ''y'')])
     = Inr a')"
proof (rule decoded_value_reencodes [OF toy_schema_laws, where token = "''DateAndPlaceOfBirth''"])
  let ?a = "ASeq [AContext 0 (ADate ''2000-01-01T00:00:00.000Z''), AContext 1 (AStr ''x''), AContext 2 (AStr ''y'')]"
  show "attribute_schema ''DateAndPlaceOfBirth'' = Some date_and_place_of_birth_schema" by (simp add: attribute_schema_def)
  show "four_digit_dates toy_schema_env ?a" by (simp add: toy_schema_env_def) (simp add: four_digit_dates_def)
  show "decode_schema toy_schema_env date_and_place_of_birth_schema ?a = Inr (JObject
      [(''birthDate'', JString ''2000-01-01T00:00:00.000Z''), (''cityOfBirth'', JString ''x''), (''countryOfBirth'', JString ''y'')])"
    by (simp add: toy_schema_env_def date_and_place_of_birth_schema_def map_from_def decode_date_def)
qed

end
