(* ===== verification/Codec.thy ===== *)
theory Codec
  imports SchemaEngine Der
begin

text \<open>
  \<open>keetanetwork-anchor/src/kyc_schema/codec.rs\<close> and the registry of value types it reads
  (\<open>generated/attribute_types.rs\<close>), as built with the features \<open>serde\<close> and \<open>chrono\<close>: attribute values
  between their semantic form and their ASN.1 DER. The DER coder of a \<open>UTF8String\<close> and the message of
  a UTF-8 error are third-party. The bytes of a \<open>usize\<close>, eight on the 64-bit targets and four in the
  wasm32 builds, are an argument. A naive and a UTC instant are the same value.
\<close>

section \<open>Value types\<close>

datatype attribute_value_type = VUtf8String | VGeneralizedTime | VStructured string

definition attribute_value_type_of :: "string \<Rightarrow> attribute_value_type option" where
  "attribute_value_type_of i = map_of
     [(''1.3.6.1.4.1.62675.1.0'', VUtf8String),
      (''1.3.6.1.4.1.62675.1.0.1'', VUtf8String),
      (''1.3.6.1.4.1.62675.1.0.2'', VUtf8String),
      (''1.3.6.1.4.1.62675.1.0.3'', VUtf8String),
      (''1.3.6.1.4.1.62675.1.1'', VGeneralizedTime),
      (''1.3.6.1.4.1.62675.1.10'', VUtf8String),
      (''1.3.6.1.4.1.62675.1.11'', VStructured ''Document''),
      (''1.3.6.1.4.1.62675.1.11.0'', VStructured ''DocumentDriversLicense''),
      (''1.3.6.1.4.1.62675.1.11.1'', VStructured ''DocumentIdCard''),
      (''1.3.6.1.4.1.62675.1.11.2'', VStructured ''DocumentPassport''),
      (''1.3.6.1.4.1.62675.1.11.3'', VStructured ''DocumentPassportCard''),
      (''1.3.6.1.4.1.62675.1.11.4'', VStructured ''DocumentPermit''),
      (''1.3.6.1.4.1.62675.1.11.5'', VStructured ''DocumentVisa''),
      (''1.3.6.1.4.1.62675.1.11.6'', VStructured ''DocumentResidenceDocument''),
      (''1.3.6.1.4.1.62675.1.2'', VStructured ''Address''),
      (''1.3.6.1.4.1.62675.1.3'', VUtf8String),
      (''1.3.6.1.4.1.62675.1.4'', VUtf8String),
      (''1.3.6.1.4.1.62675.1.5'', VStructured ''DateAndPlaceOfBirth''),
      (''1.3.6.1.4.1.62675.1.6'', VUtf8String),
      (''1.3.6.1.4.1.62675.1.6.1'', VUtf8String),
      (''1.3.6.1.4.1.62675.1.7'', VUtf8String),
      (''1.3.6.1.4.1.62675.1.7.1'', VUtf8String),
      (''1.3.6.1.4.1.62675.1.8'', VStructured ''EntityType''),
      (''1.3.6.1.4.1.62675.1.9'', VStructured ''ContactDetails''),
      (''2.5.5.17'', VUtf8String)] i"

record 'd codec_env =
  ce_schema :: "'d schema_env"
  usize_bytes :: nat
  utf8string_encode :: "string \<Rightarrow> string + bytes"
  utf8string_decode :: "bytes \<Rightarrow> string + string"
  utf8_error :: "bytes \<Rightarrow> string"

section \<open>Reading a tag, length and value\<close>

definition truncated :: asn1_error where
  "truncated = Asn1DecodeError ''truncated time value''"

text \<open>Checked arithmetic at a \<open>usize\<close> of \<open>width\<close> bytes.\<close>

definition usize_checked :: "nat \<Rightarrow> nat \<Rightarrow> nat option" where
  "usize_checked width n = (if n < 256 ^ width then Some n else None)"

fun length_fold :: "nat \<Rightarrow> nat \<Rightarrow> bytes \<Rightarrow> nat option" where
  "length_fold width acc [] = Some acc"
| "length_fold width acc (b # bs) =
     Option.bind (usize_checked width (acc * 256)) (\<lambda>a.
     Option.bind (usize_checked width (a + of_char b)) (\<lambda>a. length_fold width a bs))"

text \<open>\<open>slice::get\<close> with a range.\<close>

definition get_range :: "nat \<Rightarrow> nat \<Rightarrow> bytes \<Rightarrow> bytes option" where
  "get_range i j bs = (if i \<le> j \<and> j \<le> length bs then Some (take (j - i) (drop i bs)) else None)"

definition read_length :: "nat \<Rightarrow> bytes \<Rightarrow> nat \<Rightarrow> asn1_error + nat \<times> nat" where
  "read_length width der first_len =
     (if first_len < 0x80 then Inr (first_len, 2)
      else let count = first_len - 0x80
           in if count = 0 \<or> count > width then Inl truncated
              else bindR (ok_or truncated (get_range 2 (2 + count) der)) (\<lambda>bs.
                   bindR (ok_or truncated (length_fold width 0 bs)) (\<lambda>len. Inr (len, 2 + count))))"

fun read_tlv :: "nat \<Rightarrow> bytes \<Rightarrow> asn1_error + char \<times> bytes" where
  "read_tlv width (tag # first_len # rest) =
     (let der = tag # first_len # rest in
      bindR (read_length width der (of_char first_len)) (\<lambda>(len, header).
      bindR (ok_or truncated (usize_checked width (header + len))) (\<lambda>end_at.
      bindR (ok_or truncated (get_range header end_at der)) (\<lambda>v. Inr (tag, v)))))"
| "read_tlv _ _ = Inl truncated"

section \<open>Times\<close>

definition as_utf8 :: "'d codec_env \<Rightarrow> bytes \<Rightarrow> asn1_error + string" where
  "as_utf8 env bs = (if is_utf8 bs then Inr bs else Inl (Asn1EncodeError (utf8_error env bs)))"

definition GENERALIZED_FORMAT :: string where "GENERALIZED_FORMAT = ''%Y%m%d%H%M%SZ''"
definition SECONDS_FORMAT :: string where "SECONDS_FORMAT = ''%Y%m%d%H%M%S''"
definition SECONDS_FRACTION_FORMAT :: string where "SECONDS_FRACTION_FORMAT = ''%Y%m%d%H%M%S%.f''"

text \<open>\<open>parse_datetime\<close> tries the same forms as the date leaf of the schema engine.\<close>

definition parse_datetime :: "'d codec_env \<Rightarrow> string \<Rightarrow> 'd option" where
  "parse_datetime env s = parse_instant (ce_schema env) s"

definition encode_time :: "'d codec_env \<Rightarrow> bytes \<Rightarrow> asn1_error + bytes" where
  "encode_time env semantic =
     bindR (as_utf8 env semantic) (\<lambda>s.
     bindR (ok_or (Asn1EncodeError (''invalid date/time: '' @ s)) (parse_datetime env s)) (\<lambda>d.
     let body = dt_format (ce_schema env) GENERALIZED_FORMAT d
     in Inr ([CHR 0x18, char_of (length body)] @ body)))"

definition char_boundary :: "nat \<Rightarrow> string \<Rightarrow> bool" where
  "char_boundary i s \<longleftrightarrow> i = length s \<or> (i < length s \<and> \<not> utf8_cont (of_char (s ! i)))"

text \<open>\<open>str::parse\<close> at \<open>i32\<close>: an optional sign, then digits.\<close>

definition parse_i32 :: "string \<Rightarrow> int option" where
  "parse_i32 s =
     (case s of
        CHR ''-'' # ds \<Rightarrow>
          if ds \<noteq> [] \<and> list_all is_ascii_digit ds \<and> digits_val ds \<le> 2 ^ 31 then Some (- int (digits_val ds)) else None
      | _ \<Rightarrow> map_option int (parse_uint (2 ^ 31) s))"

definition parse_utc_time :: "'d codec_env \<Rightarrow> string \<Rightarrow> 'd option" where
  "parse_utc_time env body =
     (if char_boundary 2 body
      then Option.bind (parse_i32 (take 2 body)) (\<lambda>two_digit_year.
           let century = (if two_digit_year < 50 then 2000 else 1900)
           in dt_naive (ce_schema env) (show_nat (nat (century + two_digit_year)) @ drop 2 body) SECONDS_FORMAT)
      else None)"

definition parse_generalized_time :: "'d codec_env \<Rightarrow> string \<Rightarrow> 'd option" where
  "parse_generalized_time env body =
     (case dt_naive (ce_schema env) body SECONDS_FRACTION_FORMAT of
        Some d \<Rightarrow> Some d | None \<Rightarrow> dt_naive (ce_schema env) body SECONDS_FORMAT)"

definition trim_end_z :: "string \<Rightarrow> string" where
  "trim_end_z s = rev (dropWhile (\<lambda>c. c = CHR ''Z'') (rev s))"

definition decode_time :: "'d codec_env \<Rightarrow> bytes \<Rightarrow> asn1_error + bytes" where
  "decode_time env der =
     bindR (read_tlv (usize_bytes env) der) (\<lambda>(tag, v).
     bindR (as_utf8 env v) (\<lambda>s.
     let s = trim_end_z s in
     bindR (ok_or (Asn1DecodeError (''invalid time value: '' @ s))
              (if tag = CHR 0x17 then parse_utc_time env s
               else if tag = CHR 0x18 then parse_generalized_time env s
               else None)) (\<lambda>d.
     Inr (dt_format (ce_schema env) MILLIS_FORMAT d))))"

section \<open>Values\<close>

definition decode_utf8 :: "'d codec_env \<Rightarrow> bytes \<Rightarrow> asn1_error + bytes" where
  "decode_utf8 env der = map_err rasn_decode_error (utf8string_decode env der)"

definition encode_value :: "'d codec_env \<Rightarrow> string \<Rightarrow> bytes \<Rightarrow> asn1_error + bytes" where
  "encode_value env i semantic =
     (case attribute_value_type_of i of
        Some VUtf8String \<Rightarrow> bindR (as_utf8 env semantic) (\<lambda>s. map_err rasn_encode_error (utf8string_encode env s))
      | Some VGeneralizedTime \<Rightarrow> encode_time env semantic
      | Some (VStructured token) \<Rightarrow>
          (case encode_structured (ce_schema env) token semantic of Inr d \<Rightarrow> Inr d | Inl _ \<Rightarrow> Inr semantic)
      | None \<Rightarrow> Inr semantic)"

definition decode_attempt :: "'d codec_env \<Rightarrow> attribute_value_type \<Rightarrow> bytes \<Rightarrow> asn1_error + bytes" where
  "decode_attempt env ty der =
     (case ty of
        VUtf8String \<Rightarrow> decode_utf8 env der
      | VGeneralizedTime \<Rightarrow> decode_time env der
      | VStructured token \<Rightarrow> decode_structured (ce_schema env) token der)"

definition attribute_value_decode :: "'d codec_env \<Rightarrow> string \<Rightarrow> bytes \<Rightarrow> asn1_error + bytes" where
  "attribute_value_decode env i der =
     (case attribute_value_type_of i of
        None \<Rightarrow> Inr der
      | Some ty \<Rightarrow> (case decode_attempt env ty der of Inr d \<Rightarrow> Inr d | Inl _ \<Rightarrow> Inr der))"

section \<open>Reading what the length writer wrote\<close>

lemma length_fold_value:
  "acc * 256 ^ length bs + be_value bs < 256 ^ width
    \<Longrightarrow> length_fold width acc bs = Some (acc * 256 ^ length bs + be_value bs)"
proof (induction bs arbitrary: acc)
  case (Cons b bs)
  let ?a = "acc * 256 + of_char b"
  have eq: "?a * 256 ^ length bs + be_value bs = acc * 256 ^ length (b # bs) + be_value (b # bs)"
    by (simp add: be_value_Cons algebra_simps)
  have "?a * 1 \<le> ?a * 256 ^ length bs" by (intro mult_le_mono) simp_all
  then have "?a \<le> acc * 256 ^ length (b # bs) + be_value (b # bs)"
    unfolding eq [symmetric] by (intro trans_le_add1) simp
  with Cons.prems have "?a < 256 ^ width" "acc * 256 < 256 ^ width" by simp_all
  moreover have "length_fold width ?a bs = Some (acc * 256 ^ length (b # bs) + be_value (b # bs))"
    using Cons.IH [of ?a] Cons.prems eq by simp
  ultimately show ?case by (simp add: usize_checked_def)
qed (simp add: be_value_def)

lemma get_range_append: "get_range (length xs) (length xs + length ys) (xs @ ys @ zs) = Some ys"
  by (simp add: get_range_def)

lemma fits_usize_width: "n < 256 ^ width \<Longrightarrow> width \<le> 8 \<Longrightarrow> fits_usize n"
  using power_increasing [of width 8 "256 :: nat"] by (simp add: fits_usize_def)

text \<open>A length that fits in a \<open>usize\<close> has no more significant bytes than it.\<close>

lemma significant_bytes:
  assumes "0x80 \<le> n" "n < 256 ^ width" "width \<le> 8"
  shows "length (dropWhile (\<lambda>c. c = CHR 0x00) (to_be_bytes n)) \<le> width"
proof -
  have fits: "fits_usize n" by (rule fits_usize_width [OF assms(2,3)])
  from significant_nonzero [OF assms(1) fits] obtain c cs where
    c: "dropWhile (\<lambda>c. c = CHR 0x00) (to_be_bytes n) = c # cs" "c \<noteq> CHR 0x00" by blast
  have "c = CHR 0x00" if "(of_char c :: nat) = 0"
    using of_char_eq_iff [of c "CHR 0x00", where ?'a = nat] that by simp
  with c(2) have "1 \<le> (of_char c :: nat)" by (metis One_nat_def Suc_leI neq0_conv)
  then have "256 ^ length cs * 1 \<le> of_char c * 256 ^ length cs + be_value cs"
    by (intro trans_le_add1) simp
  also have "\<dots> = be_value (c # cs)" by (simp add: be_value_Cons)
  also have "\<dots> = n" using c(1) be_value_dropWhile [of "to_be_bytes n"] be_value_to_be_bytes [OF fits] by simp
  finally have "256 ^ length cs < (256 :: nat) ^ width" using assms(2) by (metis mult.right_neutral le_less_trans)
  from power_less_imp_less_exp [OF _ this] have "length cs < width" by simp
  with c(1) show ?thesis by simp
qed

lemma read_length_encoded:
  assumes "n < 256 ^ width" "width \<le> 8" "encode_length n [] = first_len # tail"
  shows "read_length width (tag # first_len # tail @ s) (of_char first_len) = Inr (n, 2 + length tail)"
proof (cases "n < 0x80")
  case True
  with assms(3) show ?thesis by (auto simp: encode_length_def read_length_def)
next
  case False
  let ?sig = "dropWhile (\<lambda>c. c = CHR 0x00) (to_be_bytes n)"
  have fits: "fits_usize n" by (rule fits_usize_width [OF assms(1,2)])
  from False assms(3) have m: "tail = ?sig" "first_len = char_of (0x80 + length ?sig)"
    by (auto simp: encode_length_def Let_def long_form_flag_def)
  have "length ?sig \<le> 8" by (rule length_significant)
  then have f: "of_char first_len = 0x80 + length tail" using m by simp
  have v: "be_value tail = n" using be_value_dropWhile be_value_to_be_bytes [OF fits] m(1) by simp
  from significant_nonzero [OF _ fits] False m(1) obtain c cs where "tail = c # cs" by auto
  then have "0 < length tail" by simp
  moreover have "get_range 2 (2 + length tail) (tag # first_len # tail @ s) = Some tail"
    using get_range_append [of "[tag, first_len]" tail s] by (simp add: eval_nat_numeral)
  moreover have "length_fold width 0 tail = Some n" using length_fold_value [of 0 tail width] v assms(1) by simp
  moreover have "length tail \<le> width" using significant_bytes [OF _ assms(1,2)] False m(1) by simp
  ultimately show ?thesis using f by (simp add: read_length_def Let_def)
qed

lemma read_tlv_encoded:
  assumes "length v + 10 < 256 ^ width" "width \<le> 8"
  shows "read_tlv width (tag # encode_length (length v) [] @ v @ rest) = Inr (tag, v)"
proof -
  have "encode_length (length v) [] \<noteq> []" by (simp add: encode_length_def Let_def)
  then obtain f tail where e: "encode_length (length v) [] = f # tail" by (cases "encode_length (length v) []") auto
  have "length tail \<le> 8" using length_encode_length [of "length v" "[]"] e by simp
  with assms have "usize_checked width (2 + length tail + length v) = Some (2 + length tail + length v)"
    by (simp add: usize_checked_def)
  moreover have "get_range (2 + length tail) (2 + length tail + length v) (tag # f # tail @ v @ rest) = Some v"
    using get_range_append [of "tag # f # tail" v rest] by simp
  moreover have "length v < 256 ^ width" using assms(1) by simp
  note read_length_encoded [OF this assms(2) e, of tag "v @ rest"]
  ultimately show ?thesis using e by (simp add: Let_def)
qed

lemma get_range_Some: "get_range i j bs = Some v \<longleftrightarrow> i \<le> j \<and> j \<le> length bs \<and> v = take (j - i) (drop i bs)"
  by (auto simp: get_range_def)

lemma read_length_header:
  "read_length width der n = Inr (len, header) \<Longrightarrow> 2 \<le> header \<and> header \<le> 2 + width"
  by (auto simp: read_length_def Let_def result_elims split: if_splits)

text \<open>C23. The reader of a tag, length and value reads back what the length writer of the signing payloads
  wrote, whatever follows it; and what it reads lies inside its input, after a header of at most one
  length byte more than a \<open>usize\<close> has: no length a hostile encoding claims takes it out of bounds or
  wraps around. This holds for a \<open>usize\<close> of any width up to eight bytes.\<close>

theorem read_tlv_exact:
  "(length v + 10 < 256 ^ width \<and> width \<le> 8 \<longrightarrow>
        read_tlv width (tag # encode_length (length v) [] @ v @ rest) = Inr (tag, v))
   \<and> (read_tlv width der = Inr (t, value) \<longrightarrow>
        (\<exists>header rest. der = t # header @ value @ rest \<and> 1 \<le> length header \<and> length header \<le> 1 + width))"
proof (intro conjI impI)
  show "read_tlv width (tag # encode_length (length v) [] @ v @ rest) = Inr (tag, v)"
    if "length v + 10 < 256 ^ width \<and> width \<le> 8"
    using that by (intro read_tlv_encoded) simp_all
next
  assume read: "read_tlv width der = Inr (t, value)"
  then obtain f tail where der: "der = t # f # tail"
    by (cases "(width, der)" rule: read_tlv.cases) (auto simp: result_elims Let_def)
  with read obtain len h where h: "read_length width der (of_char f) = Inr (len, h)" "h + len \<le> length der"
      "value = take len (drop h der)"
    by (auto simp: result_elims Let_def usize_checked_def get_range_Some split: if_splits)
  have b: "2 \<le> h" "h \<le> 2 + width" using read_length_header [OF h(1)] by simp_all
  have "der = take h der @ value @ drop len (drop h der)" unfolding h(3) by (simp only: append_take_drop_id)
  moreover obtain header where "take h der = t # header" using b der by (cases h) auto
  ultimately have "der = t # header @ value @ drop len (drop h der)" "length header = h - 1"
    using h(2) by (simp_all, metis One_nat_def add_leE diff_Suc_1 length_Cons length_take min.absorb2)
  with b show "\<exists>header rest. der = t # header @ value @ rest \<and> 1 \<le> length header \<and> length header \<le> 1 + width"
    by (intro exI [of _ header] exI [of _ "drop len (drop h der)"]) auto
qed

theorem read_tlv_exact_witness:
  "\<exists>header rest. [CHR 0x18, char_of (1 :: nat), CHR ''x'', CHR ''y''] = CHR 0x18 # header @ ''x'' @ rest
     \<and> 1 \<le> length header \<and> length header \<le> 1 + 4"
proof -
  have "read_tlv 4 (CHR 0x18 # encode_length (length ''x'') [] @ ''x'' @ ''y'') = Inr (CHR 0x18, ''x'')"
    using read_tlv_exact [of "''x''" 4 "CHR 0x18" "''y''"] by simp
  then have "read_tlv 4 [CHR 0x18, char_of (1 :: nat), CHR ''x'', CHR ''y''] = Inr (CHR 0x18, ''x'')"
    by (simp add: encode_length_def)
  then show ?thesis using read_tlv_exact [of "''x''" 4 "CHR 0x18" "''y''"] by blast
qed

section \<open>Round trips\<close>

text \<open>What the DER coder and the clock library promise: a text decodes from its encoding, and the printed
  \<open>GeneralizedTime\<close> of an instant is short, and reads back as the instant cut to whole seconds when its
  year has the four digits of a \<open>GeneralizedTime\<close>, that is when it has fifteen bytes. The library prints
  later years with a sign and more digits, which do not read back.\<close>

definition four_digit_year :: "'d codec_env \<Rightarrow> 'd \<Rightarrow> bool" where
  "four_digit_year env t \<longleftrightarrow> length (dt_format (ce_schema env) GENERALIZED_FORMAT t) = 15"

definition codec_laws :: "'d codec_env \<Rightarrow> ('d \<Rightarrow> 'd) \<Rightarrow> bool" where
  "codec_laws env whole_seconds \<longleftrightarrow>
     (usize_bytes env = 4 \<or> usize_bytes env = 8)
     \<and> (\<forall>s d. utf8string_encode env s = Inr d \<longrightarrow> utf8string_decode env d = Inr s)
     \<and> (\<forall>t. let body = dt_format (ce_schema env) GENERALIZED_FORMAT t in
          length body < 128 \<and> is_utf8 body
          \<and> (four_digit_year env t \<longrightarrow> parse_generalized_time env (trim_end_z body) = Some (whole_seconds t)))"

text \<open>What an encoded date decodes to: what its body reads as, or the encoding itself when the body is no
  time the library reads.\<close>

definition reread_time :: "'d codec_env \<Rightarrow> 'd \<Rightarrow> bytes \<Rightarrow> bytes" where
  "reread_time env t der =
     (case parse_generalized_time env (trim_end_z (dt_format (ce_schema env) GENERALIZED_FORMAT t)) of
        Some u \<Rightarrow> dt_format (ce_schema env) MILLIS_FORMAT u | None \<Rightarrow> der)"

lemma decode_encode_time:
  assumes laws: "codec_laws env whole_seconds" and enc: "encode_time env semantic = Inr der"
    and ty: "attribute_value_type_of i = Some VGeneralizedTime"
  shows "\<exists>t. parse_datetime env semantic = Some t \<and> attribute_value_decode env i der = Inr (reread_time env t der)
    \<and> (four_digit_year env t \<longrightarrow> reread_time env t der = dt_format (ce_schema env) MILLIS_FORMAT (whole_seconds t))"
proof -
  from enc obtain t where t: "parse_datetime env semantic = Some t"
      "der = [CHR 0x18, char_of (length (dt_format (ce_schema env) GENERALIZED_FORMAT t))]
        @ dt_format (ce_schema env) GENERALIZED_FORMAT t"
    by (auto simp: encode_time_def as_utf8_def result_elims Let_def split: if_splits)
  let ?body = "dt_format (ce_schema env) GENERALIZED_FORMAT t"
  from laws have b: "length ?body < 128" "is_utf8 ?body"
      "four_digit_year env t \<longrightarrow> parse_generalized_time env (trim_end_z ?body) = Some (whole_seconds t)"
    unfolding codec_laws_def Let_def by blast+
  have w: "usize_bytes env = 4 \<or> usize_bytes env = 8" using laws unfolding codec_laws_def by blast
  have "length ?body + 10 < 256 ^ usize_bytes env" "usize_bytes env \<le> 8" using b(1) w by auto
  from read_tlv_encoded [OF this, of "CHR 0x18" "[]"] b(1) t(2)
  have "read_tlv (usize_bytes env) der = Inr (CHR 0x18, ?body)" by (simp add: encode_length_def)
  with b(2) have "decode_time env der =
      (case parse_generalized_time env (trim_end_z ?body) of
         Some u \<Rightarrow> Inr (dt_format (ce_schema env) MILLIS_FORMAT u)
       | None \<Rightarrow> Inl (Asn1DecodeError (''invalid time value: '' @ trim_end_z ?body)))"
    by (simp add: decode_time_def as_utf8_def split: option.split)
  with ty have "attribute_value_decode env i der = Inr (reread_time env t der)"
    by (simp add: attribute_value_decode_def decode_attempt_def reread_time_def split: option.split)
  moreover have "reread_time env t der = dt_format (ce_schema env) MILLIS_FORMAT (whole_seconds t)" if "four_digit_year env t"
    using b(3) that by (simp add: reread_time_def)
  ultimately show ?thesis using t(1) by blast
qed


text \<open>A year after 9999, whose body the clock library does not read back, is handed on as its encoding.\<close>

lemma long_year_handed_on:
  assumes "codec_laws env whole_seconds" "encode_time env semantic = Inr der" "parse_datetime env semantic = Some t"
    and "attribute_value_type_of i = Some VGeneralizedTime"
    and "parse_generalized_time env (trim_end_z (dt_format (ce_schema env) GENERALIZED_FORMAT t)) = None"
  shows "attribute_value_decode env i der = Inr der"
  using decode_encode_time [OF assms(1,2,4)] assms(3,5) by (auto simp: reread_time_def)

text \<open>A clock of two instants for the examples: \<open>True\<close> is the first of January 2000, \<open>False\<close> that of 12345.\<close>

definition toy_codec_env :: "bool codec_env" where
  "toy_codec_env =
     \<lparr>ce_schema = \<lparr>der_encode = (\<lambda>_. Inl []), der_decode = (\<lambda>_. Inl []), schema_optional = toy_optional,
        match_tuple = toy_match, unwrap_context_tags = (\<lambda>s. s), parse_text = (\<lambda>_. Inl []),
        write_text = (\<lambda>_. Inl []), dt_rfc3339 = (\<lambda>_. None),
        dt_naive = (\<lambda>s _. if starts_with ''2'' s then Some True else None), dt_midnight = (\<lambda>s _. Some (starts_with ''2'' s)),
        dt_format = (\<lambda>f early. if f = GENERALIZED_FORMAT then if early then ''20000101000000Z'' else ''+123450101000000Z''
          else if early then ''2000-01-01T00:00:00.000Z'' else ''+12345-01-01T00:00:00.000Z'')\<rparr>,
      usize_bytes = 4, utf8string_encode = (\<lambda>s. Inr (CHR 0x0C # s)),
      utf8string_decode = (\<lambda>d. case d of [] \<Rightarrow> Inl [] | _ # s \<Rightarrow> Inr s), utf8_error = (\<lambda>_. [])\<rparr>"

lemma toy_codec_env_laws: "codec_laws toy_codec_env (\<lambda>t. t)"
  by (simp add: codec_laws_def toy_codec_env_def four_digit_year_def parse_generalized_time_def is_utf8_def starts_with_def
      trim_end_z_def)

lemma toy_date:
  "attribute_value_type_of ''1.3.6.1.4.1.62675.1.1'' = Some VGeneralizedTime"
  "parse_datetime toy_codec_env ''2000-01-01'' = Some True" "parse_datetime toy_codec_env ''+12345-01-01'' = Some False"
  "encode_value toy_codec_env ''1.3.6.1.4.1.62675.1.1'' ''2000-01-01'' = Inr (CHR 0x18 # CHR 0x0F # ''20000101000000Z'')"
  "encode_value toy_codec_env ''1.3.6.1.4.1.62675.1.1'' ''+12345-01-01'' = Inr (CHR 0x18 # CHR 0x11 # ''+123450101000000Z'')"
proof -
  show ty: "attribute_value_type_of ''1.3.6.1.4.1.62675.1.1'' = Some VGeneralizedTime" by (simp add: attribute_value_type_of_def)
  show dates: "parse_datetime toy_codec_env ''2000-01-01'' = Some True" "parse_datetime toy_codec_env ''+12345-01-01'' = Some False"
    by (simp_all add: parse_datetime_def parse_instant_def toy_codec_env_def starts_with_def)
  have utf8: "as_utf8 toy_codec_env ''2000-01-01'' = Inr ''2000-01-01''" "as_utf8 toy_codec_env ''+12345-01-01'' = Inr ''+12345-01-01''"
    by (simp_all add: as_utf8_def is_utf8_def)
  have body: "dt_format (ce_schema toy_codec_env) GENERALIZED_FORMAT True = ''20000101000000Z''"
      "dt_format (ce_schema toy_codec_env) GENERALIZED_FORMAT False = ''+123450101000000Z''" by (simp_all add: toy_codec_env_def)
  have len: "length ''20000101000000Z'' = 15" "length ''+123450101000000Z'' = 17" by simp_all
  have chars: "char_of (15 :: nat) = CHR 0x0F" "char_of (17 :: nat) = CHR 0x11" by (simp_all add: char_of_eq_iff)
  show "encode_value toy_codec_env ''1.3.6.1.4.1.62675.1.1'' ''2000-01-01'' = Inr (CHR 0x18 # CHR 0x0F # ''20000101000000Z'')"
    by (simp only: encode_value_def ty encode_time_def utf8 dates body len chars Let_def bindR_simps ok_or_simps
        option.case attribute_value_type.case append.simps)
  show "encode_value toy_codec_env ''1.3.6.1.4.1.62675.1.1'' ''+12345-01-01'' = Inr (CHR 0x18 # CHR 0x11 # ''+123450101000000Z'')"
    by (simp only: encode_value_def ty encode_time_def utf8 dates body len chars Let_def bindR_simps ok_or_simps
        option.case attribute_value_type.case append.simps)
qed


end
