(* ===== verification/References.thy ===== *)
theory References
  imports SchemaEngine Oids
begin

text \<open>
  \<open>keetanetwork-anchor/src/kyc_schema/references.rs\<close>: the references to external documents a decoded
  attribute value carries. The stack of the traversal is a list with its top in front.
\<close>

section \<open>Definitions\<close>

definition KEETA_CONTAINER_OID :: string where "KEETA_CONTAINER_OID = ''1.3.6.1.4.1.62675.2''"

definition digest_algorithm_from_identifier :: "oid_env \<Rightarrow> string \<Rightarrow> kyc_schema_error + hash_algorithm" where
  "digest_algorithm_from_identifier env v =
     (let unsupported = KsUnsupportedDigestAlgorithm v in
      bindR (case map_of (algorithm_attributes env) v of
               Some known \<Rightarrow> Inr known
             | None \<Rightarrow> ok_or unsupported (oid_from_str env (oid_from_name v))) (\<lambda>i.
      if i = oid_sha3 env then Inr Sha3_256
      else if i = oid_sha2 env then Inr Sha2_256
      else Inl unsupported))"

datatype reference_encryption = KeetaEncryptedContainerV1

definition encryption_str :: "reference_encryption \<Rightarrow> string" where
  "encryption_str e = (case e of KeetaEncryptedContainerV1 \<Rightarrow> ''KeetaEncryptedContainerV1'')"

definition encryption_from_str :: "string \<Rightarrow> kyc_schema_error + reference_encryption" where
  "encryption_from_str v =
     (if v = ''KeetaEncryptedContainerV1'' \<or> v = KEETA_CONTAINER_OID then Inr KeetaEncryptedContainerV1
      else Inl (KsUnsupportedEncryptionAlgorithm v))"

record external_reference =
  ext_url :: string
  ext_content_type :: string

record digest_info =
  di_algorithm :: hash_algorithm
  di_digest :: bytes

record attribute_reference =
  ref_external :: external_reference
  ref_digest :: digest_info
  ref_encryption :: reference_encryption

definition digest_matches :: "oid_env \<Rightarrow> digest_info \<Rightarrow> bytes \<Rightarrow> bool" where
  "digest_matches env d data \<longleftrightarrow> hash_bytes env (di_algorithm d) data = di_digest d"

definition algorithm_name :: "oid_env \<Rightarrow> digest_info \<Rightarrow> string" where
  "algorithm_name env d =
     (case di_algorithm d of
        Sha3_256 \<Rightarrow> oid_to_name (oid_to_string env (oid_sha3 env))
      | Sha2_256 \<Rightarrow> oid_to_name (oid_to_string env (oid_sha2 env))
      | OtherHash name \<Rightarrow> name)"

definition reference_id :: "oid_env \<Rightarrow> attribute_reference \<Rightarrow> string" where
  "reference_id env r = hex_upper env (di_digest (ref_digest r))"

section \<open>Parsing a node\<close>

definition object_member :: "(string \<times> json) list \<Rightarrow> string \<Rightarrow> (string \<times> json) list option" where
  "object_member m name = Option.bind (map_of m name) as_object"

definition string_member :: "(string \<times> json) list \<Rightarrow> string \<Rightarrow> string option" where
  "string_member m name = Option.bind (map_of m name) as_str"

definition is_reference_shape :: "(string \<times> json) list \<Rightarrow> bool" where
  "is_reference_shape m \<longleftrightarrow> object_member m ''external'' \<noteq> None \<and> object_member m ''digest'' \<noteq> None"

definition parse_external :: "(string \<times> json) list \<Rightarrow> external_reference option" where
  "parse_external m =
     Option.bind (object_member m ''external'') (\<lambda>external.
     Option.bind (string_member external ''url'') (\<lambda>url.
     Option.bind (string_member external ''contentType'') (\<lambda>content_type.
     Some \<lparr>ext_url = url, ext_content_type = content_type\<rparr>)))"

definition bytes_from_buffer_value :: "json \<Rightarrow> bytes option" where
  "bytes_from_buffer_value v =
     Option.bind (Option.bind (Option.bind (as_object v) (\<lambda>m. map_of m ''data'')) as_array) (mapM_option byte_of_json)"

definition parse_digest_parts :: "(string \<times> json) list \<Rightarrow> (string \<times> bytes) option" where
  "parse_digest_parts m =
     Option.bind (object_member m ''digest'') (\<lambda>info.
     Option.bind (string_member info ''digestAlgorithm'') (\<lambda>algorithm.
     Option.bind (map_of info ''digest'') (\<lambda>buffer.
     Option.bind (bytes_from_buffer_value buffer) (\<lambda>digest. Some (algorithm, digest)))))"

definition parse_reference :: "oid_env \<Rightarrow> (string \<times> json) list \<Rightarrow> kyc_schema_error + attribute_reference option" where
  "parse_reference env m =
     (case (parse_external m, parse_digest_parts m, string_member m ''encryptionAlgorithm'') of
        (Some external, Some (name, digest), Some encryption_name) \<Rightarrow>
          bindR (digest_algorithm_from_identifier env name) (\<lambda>algorithm.
          bindR (encryption_from_str encryption_name) (\<lambda>encryption.
          Inr (Some \<lparr>ref_external = external, ref_digest = \<lparr>di_algorithm = algorithm, di_digest = digest\<rparr>,
                 ref_encryption = encryption\<rparr>)))
      | _ \<Rightarrow> Inr None)"

section \<open>The traversal\<close>

fun node_count :: "json \<Rightarrow> nat" where
  "node_count (JObject m) = Suc (sum_list (map (\<lambda>(_, v). node_count v) m))"
| "node_count (JArray xs) = Suc (sum_list (map node_count xs))"
| "node_count _ = 1"

function collect_loop ::
    "oid_env \<Rightarrow> attribute_reference list \<Rightarrow> json list \<Rightarrow> kyc_schema_error + attribute_reference list" where
  "collect_loop env refs [] = Inr refs"
| "collect_loop env refs (JObject m # pending) =
     (if is_reference_shape m then
        bindR (parse_reference env m) (\<lambda>r.
          collect_loop env (case r of Some x \<Rightarrow> refs @ [x] | None \<Rightarrow> refs) pending)
      else collect_loop env refs (rev (map snd m) @ pending))"
| "collect_loop env refs (JArray xs # pending) = collect_loop env refs (rev xs @ pending)"
| "collect_loop env refs (JNull # pending) = collect_loop env refs pending"
| "collect_loop env refs (JBool _ # pending) = collect_loop env refs pending"
| "collect_loop env refs (JNumber _ # pending) = collect_loop env refs pending"
| "collect_loop env refs (JString _ # pending) = collect_loop env refs pending"
  by pat_completeness auto
termination
  by (relation "measure (\<lambda>(_, _, pending). sum_list (map node_count pending))")
    (auto simp: rev_map [symmetric] sum_list_rev comp_def case_prod_unfold)

definition collect_references :: "oid_env \<Rightarrow> json \<Rightarrow> kyc_schema_error + attribute_reference list" where
  "collect_references env v = collect_loop env [] [v]"

section \<open>What the traversal finds\<close>

text \<open>The specification: the outermost reference-shaped objects of a value, last child first.\<close>

fun reference_nodes :: "json \<Rightarrow> (string \<times> json) list list" where
  "reference_nodes (JObject m) =
     (if is_reference_shape m then [m] else concat (rev (map (\<lambda>(_, v). reference_nodes v) m)))"
| "reference_nodes (JArray xs) = concat (rev (map reference_nodes xs))"
| "reference_nodes _ = []"

definition collect_spec :: "oid_env \<Rightarrow> (string \<times> json) list list \<Rightarrow> kyc_schema_error + attribute_reference list" where
  "collect_spec env ms = bindR (mapM_result (parse_reference env) ms) (\<lambda>rs. Inr (filter_map (\<lambda>r. r) rs))"

lemma collect_spec_append:
  "collect_spec env (m # ms) =
     bindR (parse_reference env m) (\<lambda>r. bindR (collect_spec env ms) (\<lambda>rs.
       Inr (case r of Some x \<Rightarrow> x # rs | None \<Rightarrow> rs)))"
  by (cases "parse_reference env m"; cases "mapM_result (parse_reference env) ms")
    (simp_all add: collect_spec_def split: option.splits)

lemma nodes_of_members: "concat (rev (map (\<lambda>(_, v). reference_nodes v) m)) = concat (map reference_nodes (rev (map snd m)))"
  by (simp add: rev_map comp_def case_prod_unfold)

lemma collect_loop_spec:
  "collect_loop env refs pending =
     bindR (collect_spec env (concat (map reference_nodes pending))) (\<lambda>rs. Inr (refs @ rs))"
proof (induction env refs pending rule: collect_loop.induct)
  case (2 env refs m pending)
  show ?case
  proof (cases "is_reference_shape m")
    case True
    with 2(1) [OF True] show ?thesis
      by (cases "parse_reference env m"; cases "collect_spec env (concat (map reference_nodes pending))")
        (auto simp: collect_spec_append split: option.splits)
  next
    case False
    with 2(2) [OF False] show ?thesis by (simp add: nodes_of_members)
  qed
next
  case (3 env refs xs pending)
  then show ?case by (simp add: rev_map)
qed (simp_all add: collect_spec_def)

text \<open>C21. Collecting the references of a value always returns: it parses the outermost reference-shaped
  objects, last child first, skips those that are malformed, and fails with the error of the first
  unknown algorithm.\<close>

theorem collect_references_exact:
  "collect_references env v =
     bindR (mapM_result (parse_reference env) (reference_nodes v)) (\<lambda>rs. Inr (filter_map (\<lambda>r. r) rs))"
  by (cases "mapM_result (parse_reference env) (reference_nodes v)")
    (simp_all add: collect_references_def collect_loop_spec collect_spec_def)

end
