(* ===== verification/Certificate.thy ===== *)
theory Certificate
  imports Sensitive Codec References ContainerCodec
begin

text \<open>
  \<open>keetanetwork-anchor/src/certificates/mod.rs\<close> and \<open>builder.rs\<close>: KYC certificates and their builder. The
  X.509 certificate \<open>'c\<close> and its builder \<open>'b\<close> are third-party: the record \<open>cert_env\<close>, where a setting
  of the X.509 builder is one value of the type \<open>x509_setting\<close> and names and keys are their encodings.
  An account and its key pair are one value \<open>'k\<close>; the code dispatches on its kind.
\<close>

section \<open>Third-party operations\<close>

record x509_extension =
  xe_oid :: string
  xe_critical :: bool
  xe_value :: bytes

datatype 't x509_setting =
    SubjectDn bytes
  | IssuerDn bytes
  | Serial bytes
  | ValidityDays u64
  | Validity 't 't
  | SubjectPublicKey bytes
  | IsCa bool
  | AddExtension x509_extension
  | BasicConstraints bool "u8 option"
  | KeyUsage u16

record ('c, 'b, 'k, 'd, 'w) cert_env =
  kc_sensitive :: "('k, 'w) sensitive_env"
  kc_codec :: "'d codec_env"
  kc_coder :: attribute_coder
  account_kind :: "'k \<Rightarrow> key_pair_type"
  extension_value :: "'c \<Rightarrow> string \<Rightarrow> bytes option"
  certificate_to_pem :: "'c \<Rightarrow> string + string"
  certificate_from_pem :: "string \<Rightarrow> string + 'c"
  xb_default :: 'b
  xb_end_entity :: 'b
  xb_ca :: 'b
  xb_apply :: "'d x509_setting \<Rightarrow> 'b \<Rightarrow> 'b"
  xb_extension :: "string \<Rightarrow> bytes \<Rightarrow> bool \<Rightarrow> string + x509_extension"
  xb_build :: "'b \<Rightarrow> 'k \<Rightarrow> 'w \<Rightarrow> (string + 'c) \<times> 'w"

abbreviation kc_oids :: "('c, 'b, 'k, 'd, 'w) cert_env \<Rightarrow> oid_env" where
  "kc_oids env \<equiv> se_oids (kc_sensitive env)"

section \<open>Certificates\<close>

record 'c kyc_certificate =
  kc_inner :: 'c
  kc_attributes :: kyc_attributes

definition parse_kyc_attributes :: "('c, 'b, 'k, 'd, 'w) cert_env \<Rightarrow> 'c \<Rightarrow> kyc_attributes" where
  "parse_kyc_attributes env x509 =
     (case extension_value env x509 (oid_to_string (kc_oids env) (oid_kyc_extension (kc_oids env))) of
        Some v \<Rightarrow> (case decode_attributes (kc_coder env) v of Inr attrs \<Rightarrow> attrs | Inl _ \<Rightarrow> [])
      | None \<Rightarrow> [])"

definition kyc_certificate_new :: "('c, 'b, 'k, 'd, 'w) cert_env \<Rightarrow> 'c \<Rightarrow> 'c kyc_certificate" where
  "kyc_certificate_new env x509 = \<lparr>kc_inner = x509, kc_attributes = parse_kyc_attributes env x509\<rparr>"

definition get_attribute :: "('c, 'b, 'k, 'd, 'w) cert_env \<Rightarrow> 'c kyc_certificate \<Rightarrow> string \<Rightarrow> attribute option" where
  "get_attribute env cert name =
     (let by_oid = (\<lambda>found. case found of
            Inr i \<Rightarrow> find_by_oid (kc_oids env) (oid_to_string (kc_oids env) i) (kc_attributes cert)
          | Inl _ \<Rightarrow> None)
      in case by_oid (get_sensitive_attribute_oid (kc_oids env) name) of
           Some a \<Rightarrow> Some a
         | None \<Rightarrow> by_oid (get_plain_attribute_oid (kc_oids env) name))"

definition find_attribute ::
    "('c, 'b, 'k, 'd, 'w) cert_env \<Rightarrow> 'c kyc_certificate \<Rightarrow> string \<Rightarrow> kyc_certificate_error + attribute" where
  "find_attribute env cert name = ok_or (KcAttributeNotFound name) (get_attribute env cert name)"

text \<open>The attribute of that name, which must be sensitive, decoded from its DER.\<close>

definition sensitive_attribute_of ::
    "('c, 'b, 'k, 'd, 'w) cert_env \<Rightarrow> 'c kyc_certificate \<Rightarrow> string \<Rightarrow> kyc_certificate_error + attribute \<times> sensitive_attribute" where
  "sensitive_attribute_of env cert name =
     bindR (find_attribute env cert name) (\<lambda>a.
     bindR (map_err KcSensitiveAttributeError (assert_attribute_is_sensitive a name)) (\<lambda>_.
     bindR (map_err (KcAsn1Error \<circ> rasn_decode_error) (decode_sensitive (kc_sensitive env) (attribute_bytes a))) (\<lambda>sa.
     Inr (a, sa))))"

definition map_errP :: "('e \<Rightarrow> 'f) \<Rightarrow> ('e + 'a) option \<Rightarrow> ('f + 'a) option" where
  "map_errP f m = map_option (map_err f) m"

lemma map_errP_eq_Inr [result_elims]: "map_errP f m = Some (Inr x) \<longleftrightarrow> m = Some (Inr x)"
  by (cases m) (auto simp: map_errP_def result_elims)

definition decode_attribute_bytes ::
    "('c, 'b, 'k, 'd, 'w) cert_env \<Rightarrow> attribute \<Rightarrow> bytes \<Rightarrow> kyc_certificate_error + bytes" where
  "decode_attribute_bytes env a bs =
     map_err KcAsn1Error (attribute_value_decode (kc_codec env) (oid_to_string (kc_oids env) (at_name a)) bs)"

definition decrypt_attribute ::
    "('c, 'b, 'k, 'd, 'w) cert_env \<Rightarrow> 'c kyc_certificate \<Rightarrow> string \<Rightarrow> 'k \<Rightarrow> (kyc_certificate_error + bytes) option" where
  "decrypt_attribute env cert name keypair =
     bindP (Some (sensitive_attribute_of env cert name)) (\<lambda>(a, sa).
     bindP (map_errP KcSensitiveAttributeError (decrypt_sensitive (kc_sensitive env) sa keypair)) (\<lambda>decrypted.
     Some (decode_attribute_bytes env a decrypted)))"

definition prove_attribute ::
    "('c, 'b, 'k, 'd, 'w) cert_env \<Rightarrow> 'c kyc_certificate \<Rightarrow> string \<Rightarrow> 'k \<Rightarrow> (kyc_certificate_error + attribute_proof) option" where
  "prove_attribute env cert name keypair =
     bindP (Some (sensitive_attribute_of env cert name)) (\<lambda>(_, sa).
     map_errP KcSensitiveAttributeError (to_proof (kc_sensitive env) sa keypair))"

definition validate_attribute_proof ::
    "('c, 'b, 'k, 'd, 'w) cert_env \<Rightarrow> 'c kyc_certificate \<Rightarrow> string \<Rightarrow> 'k \<Rightarrow> attribute_proof \<Rightarrow> kyc_certificate_error + bool" where
  "validate_attribute_proof env cert name keypair p =
     bindR (sensitive_attribute_of env cert name) (\<lambda>(_, sa).
     map_err KcSensitiveAttributeError (validate_proof (kc_sensitive env) sa keypair p))"

definition get_plain_attribute ::
    "('c, 'b, 'k, 'd, 'w) cert_env \<Rightarrow> 'c kyc_certificate \<Rightarrow> string \<Rightarrow> kyc_certificate_error + bytes" where
  "get_plain_attribute env cert name =
     bindR (find_attribute env cert name) (\<lambda>a.
     bindR (map_err KcSensitiveAttributeError (assert_attribute_is_plain a name)) (\<lambda>_.
     decode_attribute_bytes env a (attribute_bytes a)))"

definition has_attributes :: "'c kyc_certificate \<Rightarrow> bool" where
  "has_attributes cert \<longleftrightarrow> \<not> attributes_empty (kc_attributes cert)"

definition attribute_count :: "'c kyc_certificate \<Rightarrow> nat" where
  "attribute_count cert = attributes_count (kc_attributes cert)"

text \<open>The signing kinds of accounts, the only ones the code takes a key pair from.\<close>

fun signing_kind :: "key_pair_type \<Rightarrow> bool" where
  "signing_kind OtherKeyType = False"
| "signing_kind _ = True"

definition decoded_attribute_value ::
    "('c, 'b, 'k, 'd, 'w) cert_env \<Rightarrow> 'c kyc_certificate \<Rightarrow> string \<Rightarrow> 'k \<Rightarrow> (kyc_certificate_error + bytes option) option" where
  "decoded_attribute_value env cert name subject =
     (case get_attribute env cert name of
        None \<Rightarrow> Some (Inr None)
      | Some a \<Rightarrow>
          bindP (if is_sensitive a then
                   (if signing_kind (account_kind env subject) then decrypt_attribute env cert name subject
                    else Some (Inl KcUnsupportedSubjectKey))
                 else Some (decode_attribute_bytes env a (attribute_bytes a))) (\<lambda>decoded.
          Some (Inr (Some decoded))))"

fun external_references ::
    "('c, 'b, 'k, 'd, 'w) cert_env \<Rightarrow> 'c kyc_certificate \<Rightarrow> 'k \<Rightarrow> (string \<times> attribute_reference list) list \<Rightarrow> string list
     \<Rightarrow> (kyc_certificate_error + (string \<times> attribute_reference list) list) option" where
  "external_references env cert subject references [] = Some (Inr references)"
| "external_references env cert subject references (name # names) =
     bindP (decoded_attribute_value env cert name subject) (\<lambda>decoded.
     case Option.bind decoded (\<lambda>bs. ok (from_slice (parse_text (ce_schema (kc_codec env))) decode_value bs)) of
       None \<Rightarrow> external_references env cert subject references names
     | Some v \<Rightarrow>
         bindP (Some (map_err KcKycSchemaError (collect_references (kc_oids env) v))) (\<lambda>found.
         external_references env cert subject
           (if found = [] then references else map_insert name found references) names))"

section \<open>The builder\<close>

record 'b certificate_builder =
  cb_inner :: 'b
  cb_attributes :: "(string \<times> kyc_attribute_entry) list"
  cb_errors :: "kyc_certificate_error list"

definition builder_of :: "'b \<Rightarrow> 'b certificate_builder" where
  "builder_of inner = \<lparr>cb_inner = inner, cb_attributes = [], cb_errors = []\<rparr>"

definition certificate_builder_new :: "('c, 'b, 'k, 'd, 'w) cert_env \<Rightarrow> 'b certificate_builder" where
  "certificate_builder_new env = builder_of (xb_default env)"

definition for_end_entity :: "('c, 'b, 'k, 'd, 'w) cert_env \<Rightarrow> 'b certificate_builder" where
  "for_end_entity env = builder_of (xb_end_entity env)"

definition for_ca :: "('c, 'b, 'k, 'd, 'w) cert_env \<Rightarrow> 'b certificate_builder" where
  "for_ca env = builder_of (xb_ca env)"

definition with_entry ::
    "('c, 'b, 'k, 'd, 'w) cert_env \<Rightarrow> string \<Rightarrow> kyc_attribute_entry \<Rightarrow> 'b certificate_builder \<Rightarrow> 'b certificate_builder" where
  "with_entry env name entry b =
     (case entry_to_oid (kc_oids env) name entry of
        Inr _ \<Rightarrow> b\<lparr>cb_attributes := map_insert name entry (cb_attributes b)\<rparr>
      | Inl e \<Rightarrow> b\<lparr>cb_errors := cb_errors b @ [KcSensitiveAttributeError e]\<rparr>)"

definition with_plain_attribute where
  "with_plain_attribute env name v b = with_entry env name (EntryPlain v) b"

definition with_sensitive_attribute where
  "with_sensitive_attribute env name v b = with_entry env name (EntrySensitive v) b"

definition with_setting :: "('c, 'b, 'k, 'd, 'w) cert_env \<Rightarrow> 'd x509_setting \<Rightarrow> 'b certificate_builder \<Rightarrow> 'b certificate_builder" where
  "with_setting env setting b = b\<lparr>cb_inner := xb_apply env setting (cb_inner b)\<rparr>"

definition with_subject_dn where "with_subject_dn env dn b = with_setting env (SubjectDn dn) b"
definition with_issuer_dn where "with_issuer_dn env dn b = with_setting env (IssuerDn dn) b"
definition with_serial_number where "with_serial_number env serial b = with_setting env (Serial serial) b"
definition with_validity_days where "with_validity_days env days b = with_setting env (ValidityDays days) b"
definition with_validity where "with_validity env not_before not_after b = with_setting env (Validity not_before not_after) b"
definition with_subject_public_key where "with_subject_public_key env key b = with_setting env (SubjectPublicKey key) b"
definition with_is_ca where "with_is_ca env is_ca b = with_setting env (IsCa is_ca) b"
definition with_extension where "with_extension env extension b = with_setting env (AddExtension extension) b"
definition with_basic_constraints where
  "with_basic_constraints env is_ca path_length b = with_setting env (BasicConstraints is_ca path_length) b"
definition with_key_usage where "with_key_usage env bits b = with_setting env (KeyUsage bits) b"

definition build_entry ::
    "('c, 'b, 'k, 'd, 'w) cert_env \<Rightarrow> 'k \<Rightarrow> string \<Rightarrow> kyc_attribute_entry \<Rightarrow> 'w \<Rightarrow> (kyc_certificate_error + attribute) \<times> 'w" where
  "build_entry env keypair name entry w =
     (case map_err KcSensitiveAttributeError (entry_to_oid (kc_oids env) name entry) of
        Inl e \<Rightarrow> (Inl e, w)
      | Inr i \<Rightarrow>
          let oid_string = oid_to_string (kc_oids env) i;
              attribute_builder = with_oid oid_string default_attribute_builder;
              finish = (\<lambda>b. map_err KcKycSchemaError (build_attribute (kc_oids env) b))
          in case entry of
               EntryPlain v \<Rightarrow>
                 (bindR (map_err KcAsn1Error (encode_value (kc_codec env) oid_string v)) (\<lambda>encoded.
                  finish (as_plain (with_value encoded attribute_builder))), w)
             | EntrySensitive v \<Rightarrow>
                 (case map_err KcAsn1Error (encode_value (kc_codec env) oid_string v) of
                    Inl e \<Rightarrow> (Inl e, w)
                  | Inr encoded \<Rightarrow>
                      (case build_sensitive (kc_sensitive env) (sensitive_with_value encoded sensitive_builder_new) keypair w of
                         (result, w) \<Rightarrow>
                           (bindR (map_err KcSensitiveAttributeError result) (\<lambda>sensitive_value.
                            bindR (map_err KcSensitiveAttributeError (sensitive_to_der (kc_sensitive env) sensitive_value)) (\<lambda>der.
                            finish (as_sensitive (with_value der attribute_builder)))), w))))"

fun build_entries ::
    "('c, 'b, 'k, 'd, 'w) cert_env \<Rightarrow> 'k \<Rightarrow> kyc_attributes \<Rightarrow> (string \<times> kyc_attribute_entry) list \<Rightarrow> 'w
     \<Rightarrow> (kyc_certificate_error + kyc_attributes) \<times> 'w" where
  "build_entries env keypair attrs [] w = (Inr attrs, w)"
| "build_entries env keypair attrs ((name, entry) # entries) w =
     (case build_entry env keypair name entry w of
        (Inl e, w) \<Rightarrow> (Inl e, w)
      | (Inr a, w) \<Rightarrow> build_entries env keypair (add_attribute a attrs) entries w)"

definition build_kyc_extension ::
    "('c, 'b, 'k, 'd, 'w) cert_env \<Rightarrow> 'b certificate_builder \<Rightarrow> 'k \<Rightarrow> 'w \<Rightarrow> (kyc_certificate_error + x509_extension) \<times> 'w" where
  "build_kyc_extension env b keypair w =
     (case build_entries env keypair [] (cb_attributes b) w of
        (result, w) \<Rightarrow>
          (bindR result (\<lambda>attrs.
           bindR (map_err (KcAsn1Error \<circ> rasn_encode_error) (encode_attributes (kc_coder env) attrs)) (\<lambda>encoded.
           map_err KcX509Error
             (xb_extension env (oid_to_string (kc_oids env) (oid_kyc_extension (kc_oids env))) encoded False))), w))"

definition build_certificate ::
    "('c, 'b, 'k, 'd, 'w) cert_env \<Rightarrow> 'b certificate_builder \<Rightarrow> 'k \<Rightarrow> 'k \<Rightarrow> 'w
     \<Rightarrow> (kyc_certificate_error + 'c kyc_certificate) \<times> 'w" where
  "build_certificate env b subject_keypair signing_keypair w =
     (case cb_errors b of
        e # _ \<Rightarrow> (Inl e, w)
      | [] \<Rightarrow>
          (case (if cb_attributes b \<noteq> [] then
                   (case build_kyc_extension env b subject_keypair w of
                      (Inl e, w) \<Rightarrow> (Inl e, w)
                    | (Inr extension, w) \<Rightarrow> (Inr (xb_apply env (AddExtension extension) (cb_inner b)), w))
                 else (Inr (cb_inner b), w)) of
             (Inl e, w) \<Rightarrow> (Inl e, w)
           | (Inr inner, w) \<Rightarrow>
               (case xb_build env inner signing_keypair w of
                  (result, w) \<Rightarrow> (bindR (map_err KcX509Error result) (\<lambda>c. Inr (kyc_certificate_new env c)), w))))"

end
