(* ===== verification/CertificateProps.thy ===== *)
theory CertificateProps
  imports Certificate
begin

text \<open>
  What a KYC certificate gives back of what its builder was given: the attributes by name, through the
  encoding, the sealing, the X.509 extension and the lookup.
\<close>

section \<open>Laws\<close>

definition table_oid :: "oid_env \<Rightarrow> string \<Rightarrow> oid \<Rightarrow> bool" where
  "table_oid env name i \<longleftrightarrow> map_of (sensitive_attributes env) name = Some i \<or> map_of (plain_attributes env) name = Some i"

text \<open>The tables give different names different identifiers, which read back from their text; the DER
  coders read what they wrote.\<close>

definition oid_tables_ok :: "oid_env \<Rightarrow> bool" where
  "oid_tables_ok env \<longleftrightarrow>
     (\<forall>n m i j. table_oid env n i \<longrightarrow> table_oid env m j \<longrightarrow> oid_to_string env i = oid_to_string env j \<longrightarrow> n = m)
     \<and> (\<forall>n i. table_oid env n i \<longrightarrow> oid_reads_back env i)"

definition certificate_laws :: "('c, 'b, 'k, 'd, 'w) cert_env \<Rightarrow> bool" where
  "certificate_laws env \<longleftrightarrow>
     sensitive_laws (kc_sensitive env) \<and> oid_tables_ok (kc_oids env)
     \<and> (\<forall>a d. encode_sensitive (kc_sensitive env) a = Inr d \<longrightarrow> decode_sensitive (kc_sensitive env) d = Inr a)
     \<and> (\<forall>as d. encode_attributes (kc_coder env) as = Inr d \<longrightarrow> decode_attributes (kc_coder env) d = Inr as)"

text \<open>A builder that has no KYC extension of its own yet: what is built after adding one shows it.\<close>

definition shows_extension :: "('c, 'b, 'k, 'd, 'w) cert_env \<Rightarrow> 'b \<Rightarrow> bool" where
  "shows_extension env inner \<longleftrightarrow>
     (\<forall>i v e k w c w'. xb_extension env i v False = Inr e \<longrightarrow>
        xb_build env (xb_apply env (AddExtension e) inner) k w = (Inr c, w') \<longrightarrow> extension_value env c i = Some v)"

section \<open>What the builder puts into the extension\<close>

fun entry_bytes :: "kyc_attribute_entry \<Rightarrow> bytes" where
  "entry_bytes (EntryPlain v) = v"
| "entry_bytes (EntrySensitive v) = v"

definition built :: "('c, 'b, 'k, 'd, 'w) cert_env \<Rightarrow> 'k \<Rightarrow> string \<times> kyc_attribute_entry \<Rightarrow> attribute \<Rightarrow> bool" where
  "built env keypair ne a \<longleftrightarrow>
     (\<exists>encoded. entry_to_oid (kc_oids env) (fst ne) (snd ne) = Inr (at_name a)
        \<and> encode_value (kc_codec env) (oid_to_string (kc_oids env) (at_name a)) (entry_bytes (snd ne)) = Inr encoded
        \<and> (case snd ne of
             EntryPlain _ \<Rightarrow> at_value a = PlainValue encoded
           | EntrySensitive _ \<Rightarrow> (\<exists>sa der w w'.
               build_sensitive (kc_sensitive env) (sensitive_with_value encoded sensitive_builder_new) keypair w = (Inr sa, w')
               \<and> encode_sensitive (kc_sensitive env) sa = Inr der \<and> at_value a = SensitiveValue der)))"

lemma entry_to_oid_table: "entry_to_oid env name entry = Inr i \<Longrightarrow> table_oid env name i"
  by (auto simp: entry_to_oid_def get_plain_attribute_oid_def get_sensitive_attribute_oid_def table_oid_def result_elims
      split: kyc_attribute_entry.splits)

lemma build_entry_built:
  assumes laws: "certificate_laws env" and "build_entry env keypair name entry w = (Inr a, w')"
  shows "built env keypair (name, entry) a"
proof -
  from assms(2) obtain i where i: "entry_to_oid (kc_oids env) name entry = Inr i"
    by (cases "entry_to_oid (kc_oids env) name entry") (auto simp: build_entry_def)
  have reads: "parse_oid_string (kc_oids env) (oid_to_string (kc_oids env) i) = Inr i"
    using laws entry_to_oid_table [OF i] unfolding certificate_laws_def oid_tables_ok_def oid_reads_back_def by blast
  note defs = build_attribute_def with_oid_def with_value_def default_attribute_builder_def as_plain_def as_sensitive_def
  show ?thesis
  proof (cases entry)
    case (EntryPlain v)
    with assms(2) i reads show ?thesis
      by (auto simp: build_entry_def built_def defs Let_def result_elims)
  next
    case (EntrySensitive v)
    with assms(2) i obtain encoded where e: "encode_value (kc_codec env) (oid_to_string (kc_oids env) i) v = Inr encoded"
      by (cases "encode_value (kc_codec env) (oid_to_string (kc_oids env) i) v") (auto simp: build_entry_def Let_def)
    obtain result w1 where b: "build_sensitive (kc_sensitive env) (sensitive_with_value encoded sensitive_builder_new) keypair w = (result, w1)"
      by (cases "build_sensitive (kc_sensitive env) (sensitive_with_value encoded sensitive_builder_new) keypair w")
    with EntrySensitive assms(2) i e reads obtain sa der where "result = Inr sa" "encode_sensitive (kc_sensitive env) sa = Inr der"
        "a = \<lparr>at_name = i, at_value = SensitiveValue der\<rparr>"
      by (auto simp: build_entry_def defs Let_def result_elims sensitive_to_der_def)
    with EntrySensitive i e b show ?thesis by (auto simp: built_def)
  qed
qed

lemma build_entries_built:
  assumes laws: "certificate_laws env"
  shows "build_entries env keypair attrs entries w = (Inr attrs', w') \<Longrightarrow>
    \<exists>as. attrs' = attrs @ as \<and> list_all2 (built env keypair) entries as"
proof (induction entries arbitrary: attrs w)
  case (Cons ne entries)
  obtain name entry where ne: "ne = (name, entry)" by (cases ne)
  with Cons.prems obtain a w1 where a: "build_entry env keypair name entry w = (Inr a, w1)"
      "build_entries env keypair (attrs @ [a]) entries w1 = (Inr attrs', w')"
    by (auto simp: add_attribute_def split: prod.splits sum.splits)
  from Cons.IH [OF a(2)] obtain as where "attrs' = (attrs @ [a]) @ as" "list_all2 (built env keypair) entries as" by blast
  with build_entry_built [OF laws a(1)] ne show ?case by (intro exI [of _ "a # as"]) simp
qed simp

section \<open>Looking an attribute up\<close>

lemma built_oid: "built env keypair ne a \<Longrightarrow> table_oid (kc_oids env) (fst ne) (at_name a)"
  unfolding built_def by (blast intro: entry_to_oid_table)

lemma find_built:
  assumes laws: "oid_tables_ok (kc_oids env)" and la: "list_all2 (built env keypair) entries as"
    and "distinct (map fst entries)" "i < length entries" "table_oid (kc_oids env) (fst (entries ! i)) j"
  shows "find_by_oid (kc_oids env) (oid_to_string (kc_oids env) j) as =
    (if oid_to_string (kc_oids env) (at_name (as ! i)) = oid_to_string (kc_oids env) j then Some (as ! i) else None)"
proof -
  let ?str = "oid_to_string (kc_oids env)"
  have len: "length as = length entries" using la by (simp add: list_all2_lengthD)
  have only: "k = i" if "k < length as" "?str (at_name (as ! k)) = ?str j" for k
  proof -
    have "table_oid (kc_oids env) (fst (entries ! k)) (at_name (as ! k))"
      using la that(1) len by (intro built_oid [of env keypair]) (simp add: list_all2_conv_all_nth)
    with laws assms(5) that(2) have "fst (entries ! k) = fst (entries ! i)" unfolding oid_tables_ok_def by blast
    with assms(3,4) that(1) len show ?thesis by (metis distinct_conv_nth length_map nth_map)
  qed
  show ?thesis
  proof (cases "?str (at_name (as ! i)) = ?str j")
    case True
    have "find (\<lambda>a. ?str (at_name a) = ?str j) as = Some (as ! i)"
      unfolding find_Some_iff
    proof (intro exI [of _ i] conjI allI impI)
      fix k assume "k < i"
      then show "?str (at_name (as ! k)) \<noteq> ?str j" using only [of k] assms(4) len by fastforce
    qed (use True assms(4) len in simp_all)
    with True show ?thesis by (simp add: find_by_oid_def)
  next
    case False
    with only have "\<forall>a \<in> set as. ?str (at_name a) \<noteq> ?str j" by (metis in_set_conv_nth)
    with False show ?thesis by (simp add: find_by_oid_def find_None_iff)
  qed
qed

lemma get_built:
  assumes laws: "certificate_laws env" and la: "list_all2 (built env keypair) entries (kc_attributes cert)"
    and "distinct (map fst entries)" "(name, entry) \<in> set entries"
  shows "\<exists>a. get_attribute env cert name = Some a \<and> built env keypair (name, entry) a"
proof -
  from assms(4) obtain i where i: "i < length entries" "entries ! i = (name, entry)" by (auto simp: in_set_conv_nth)
  let ?a = "kc_attributes cert ! i"
  have b: "built env keypair (name, entry) ?a"
    using la i by (auto simp: list_all2_conv_all_nth)
  have ok: "oid_tables_ok (kc_oids env)" using laws by (simp add: certificate_laws_def)
  note found = find_built [OF ok la assms(3) i(1), unfolded i(2) fst_conv]
  from b have e: "entry_to_oid (kc_oids env) name entry = Inr (at_name ?a)" by (auto simp: built_def)
  have "get_attribute env cert name = Some ?a"
  proof (cases entry)
    case (EntrySensitive v)
    with e have "get_sensitive_attribute_oid (kc_oids env) name = Inr (at_name ?a)" by (simp add: entry_to_oid_def result_elims)
    with found [OF entry_to_oid_table [OF e]] show ?thesis by (simp add: get_attribute_def)
  next
    case (EntryPlain v)
    with e have p: "get_plain_attribute_oid (kc_oids env) name = Inr (at_name ?a)" by (simp add: entry_to_oid_def result_elims)
    show ?thesis
    proof (cases "get_sensitive_attribute_oid (kc_oids env) name")
      case (Inl x)
      with p found [OF entry_to_oid_table [OF e]] show ?thesis by (simp add: get_attribute_def)
    next
      case (Inr j)
      then have "table_oid (kc_oids env) name j" by (simp add: get_sensitive_attribute_oid_def table_oid_def result_elims)
      from found [OF this] Inr p found [OF entry_to_oid_table [OF e]] show ?thesis by (simp add: get_attribute_def)
    qed
  qed
  with b show ?thesis by blast
qed

lemma build_certificate_built:
  assumes laws: "certificate_laws env" and "shows_extension env (cb_inner b)" "cb_attributes b \<noteq> []"
    and "build_certificate env b subject issuer w = (Inr cert, w')"
  shows "list_all2 (built env subject) (cb_attributes b) (kc_attributes cert)"
proof -
  from assms(3,4) obtain e w1 where e: "build_kyc_extension env b subject w = (Inr e, w1)"
    by (auto simp: build_certificate_def split: list.splits prod.splits sum.splits)
  with assms(3,4) obtain c where c: "xb_build env (xb_apply env (AddExtension e) (cb_inner b)) issuer w1 = (Inr c, w')"
      "cert = kyc_certificate_new env c"
    by (auto simp: build_certificate_def result_elims split: list.splits prod.splits sum.splits)
  obtain result w2 where r: "build_entries env subject [] (cb_attributes b) w = (result, w2)"
    by (cases "build_entries env subject [] (cb_attributes b) w")
  with e obtain attrs encoded where a: "result = Inr attrs" "encode_attributes (kc_coder env) attrs = Inr encoded"
      "xb_extension env (oid_to_string (kc_oids env) (oid_kyc_extension (kc_oids env))) encoded False = Inr e"
    by (auto simp: build_kyc_extension_def result_elims)
  from assms(2) a(3) c(1) have "extension_value env c (oid_to_string (kc_oids env) (oid_kyc_extension (kc_oids env))) = Some encoded"
    unfolding shows_extension_def by blast
  moreover have "decode_attributes (kc_coder env) encoded = Inr attrs" using laws a(2) unfolding certificate_laws_def by blast
  ultimately have "kc_attributes cert = attrs" using c(2) by (simp add: kyc_certificate_new_def parse_kyc_attributes_def)
  with build_entries_built [OF laws] r a(1) show ?thesis by fastforce
qed

section \<open>Properties\<close>

lemma decode_encode_text:
  assumes "codec_laws env whole_seconds" "encode_value env i v = Inr encoded"
    and "attribute_value_type_of i = None \<or> attribute_value_type_of i = Some VUtf8String"
  shows "attribute_value_decode env i encoded = Inr v"
  using assms(3)
proof
  assume "attribute_value_type_of i = None"
  with assms(2) show ?thesis by (simp add: encode_value_def attribute_value_decode_def)
next
  assume ty: "attribute_value_type_of i = Some VUtf8String"
  with assms(2) have "utf8string_encode env v = Inr encoded"
    by (auto simp: encode_value_def as_utf8_def result_elims split: if_splits)
  with assms(1) have "utf8string_decode env encoded = Inr v" unfolding codec_laws_def by blast
  with ty show ?thesis by (simp add: attribute_value_decode_def decode_attempt_def decode_utf8_def)
qed

lemma decode_total: "\<exists>d. attribute_value_decode env i bs = Inr d"
  by (simp add: attribute_value_decode_def split: option.splits sum.splits)

text \<open>What reading an attribute of a certificate gives: the decoded value under the kind it was given with
  and an error under the other kind. A sensitive one is decrypted and proved by whoever holds the
  subject's private key, and every verifier accepts the proof; with a public key only it does neither.\<close>

definition reads_as ::
    "('c, 'b, 'k, 'd, 'w) cert_env \<Rightarrow> 'c kyc_certificate \<Rightarrow> 'k \<Rightarrow> 'k \<Rightarrow> string \<Rightarrow> kyc_attribute_entry \<Rightarrow> bytes \<Rightarrow> bytes \<Rightarrow> bool" where
  "reads_as env cert subject reader name entry encoded d \<longleftrightarrow>
     (case entry of
        EntryPlain _ \<Rightarrow> get_plain_attribute env cert name = Inr d
          \<and> decrypt_attribute env cert name reader = Some (Inl (KcSensitiveAttributeError (SaInvalidAttributeIsPlain name)))
      | EntrySensitive _ \<Rightarrow>
          get_plain_attribute env cert name = Inl (KcSensitiveAttributeError (SaInvalidAttributeIsSensitive name))
          \<and> (holds_key (kc_sensitive env) reader subject \<longrightarrow> decrypt_attribute env cert name reader = Some (Inr d)
               \<and> (\<exists>p. prove_attribute env cert name reader = Some (Inr p)
                    \<and> b64_decode (kc_oids env) (pr_value p) = Some encoded
                    \<and> (\<forall>verifier. key_public (kc_sensitive env) verifier = key_public (kc_sensitive env) subject
                         \<longrightarrow> validate_attribute_proof env cert name verifier p = Inr True)))
          \<and> (public_only (kc_sensitive env) reader \<longrightarrow> (\<exists>e. decrypt_attribute env cert name reader = Some (Inl e))
               \<and> (\<exists>e. prove_attribute env cert name reader = Some (Inl e))))"

lemma built_reads:
  assumes laws: "certificate_laws env" and b: "built env subject (name, entry) a"
    and got: "get_attribute env cert name = Some a"
  shows "\<exists>encoded d. encode_value (kc_codec env) (oid_to_string (kc_oids env) (at_name a)) (entry_bytes entry) = Inr encoded
    \<and> attribute_value_decode (kc_codec env) (oid_to_string (kc_oids env) (at_name a)) encoded = Inr d
    \<and> reads_as env cert subject reader name entry encoded d"
proof -
  from b obtain encoded where e: "encode_value (kc_codec env) (oid_to_string (kc_oids env) (at_name a)) (entry_bytes entry) = Inr encoded"
    by (auto simp: built_def)
  obtain d where d: "attribute_value_decode (kc_codec env) (oid_to_string (kc_oids env) (at_name a)) encoded = Inr d"
    using decode_total by blast
  have found: "find_attribute env cert name = Inr a" using got by (simp add: find_attribute_def)
  note kind = assert_attribute_is_sensitive_def assert_attribute_is_plain_def validate_attribute_sensitivity_def is_sensitive_def
  have "reads_as env cert subject reader name entry encoded d"
  proof (cases entry)
    case (EntryPlain v)
    with b e have "at_value a = PlainValue encoded" by (auto simp: built_def)
    with EntryPlain found d show ?thesis
      by (simp add: reads_as_def get_plain_attribute_def decrypt_attribute_def sensitive_attribute_of_def kind
          decode_attribute_bytes_def attribute_bytes_def)
  next
    case (EntrySensitive v)
    with b e obtain sa der w w' where s:
        "build_sensitive (kc_sensitive env) (sensitive_with_value encoded sensitive_builder_new) subject w = (Inr sa, w')"
        "encode_sensitive (kc_sensitive env) sa = Inr der" "at_value a = SensitiveValue der"
      by (auto simp: built_def)
    have "decode_sensitive (kc_sensitive env) der = Inr sa" using laws s(2) unfolding certificate_laws_def by blast
    with found s(3) have of: "sensitive_attribute_of env cert name = Inr (a, sa)"
      by (simp add: sensitive_attribute_of_def kind attribute_bytes_def)
    have sl: "sensitive_laws (kc_sensitive env)" using laws unfolding certificate_laws_def by blast
    have "get_plain_attribute env cert name = Inl (KcSensitiveAttributeError (SaInvalidAttributeIsSensitive name))"
      using found s(3) by (simp add: get_plain_attribute_def kind)
    moreover have "decrypt_attribute env cert name reader = Some (Inr d)
        \<and> (\<exists>p. prove_attribute env cert name reader = Some (Inr p) \<and> b64_decode (kc_oids env) (pr_value p) = Some encoded
            \<and> (\<forall>verifier. key_public (kc_sensitive env) verifier = key_public (kc_sensitive env) subject
                 \<longrightarrow> validate_attribute_proof env cert name verifier p = Inr True))"
      if "holds_key (kc_sensitive env) reader subject"
      using sealed_roundtrip [OF sl s(1) that] of d
      by (auto simp: decrypt_attribute_def prove_attribute_def validate_attribute_proof_def map_errP_def decode_attribute_bytes_def)
    moreover have "(\<exists>e. decrypt_attribute env cert name reader = Some (Inl e)) \<and> (\<exists>e. prove_attribute env cert name reader = Some (Inl e))"
      if "public_only (kc_sensitive env) reader"
      using public_only_fails [OF that, of sa] of by (auto simp: decrypt_attribute_def prove_attribute_def map_errP_def)
    ultimately show ?thesis using EntrySensitive by (simp add: reads_as_def)
  qed
  with e d show ?thesis by blast
qed

text \<open>C10. A certificate gives back what its builder was given: every attribute is found by its name and
  reads as the value its schema decodes, a text exactly as it was, in the kind it was given with and in
  no other. A sensitive one is decrypted and proved by every key pair that holds the subject's private
  key, and the proof is accepted by everyone who knows the subject's public key; a public-only key pair
  gets an error from both.\<close>

theorem certificate_returns_attributes:
  assumes "certificate_laws env" "codec_laws (kc_codec env) whole_seconds" "shows_extension env (cb_inner b)"
    and "map_ok (cb_attributes b)" "build_certificate env b subject issuer w = (Inr cert, w')"
    and "(name, entry) \<in> set (cb_attributes b)"
  shows "\<exists>i encoded d. entry_to_oid (kc_oids env) name entry = Inr i
    \<and> (\<forall>reader. reads_as env cert subject reader name entry encoded d)
    \<and> encode_value (kc_codec env) (oid_to_string (kc_oids env) i) (entry_bytes entry) = Inr encoded
    \<and> attribute_value_decode (kc_codec env) (oid_to_string (kc_oids env) i) encoded = Inr d
    \<and> (attribute_value_type_of (oid_to_string (kc_oids env) i) \<in> {None, Some VUtf8String} \<longrightarrow> d = entry_bytes entry)"
proof -
  have ne: "cb_attributes b \<noteq> []" using assms(6) by auto
  have "list_all2 (built env subject) (cb_attributes b) (kc_attributes cert)"
    by (rule build_certificate_built [OF assms(1,3) ne assms(5)])
  with get_built [OF assms(1) _ map_ok_distinct [OF assms(4)] assms(6)] obtain a where
    a: "get_attribute env cert name = Some a" "built env subject (name, entry) a" by blast
  from built_reads [OF assms(1) a(2,1)] obtain encoded d where
    r: "encode_value (kc_codec env) (oid_to_string (kc_oids env) (at_name a)) (entry_bytes entry) = Inr encoded"
      "attribute_value_decode (kc_codec env) (oid_to_string (kc_oids env) (at_name a)) encoded = Inr d" by blast
  have "reads_as env cert subject reader name entry encoded d" for reader
    using built_reads [OF assms(1) a(2,1), of reader] r by auto
  moreover have "entry_to_oid (kc_oids env) name entry = Inr (at_name a)" using a(2) by (auto simp: built_def)
  moreover have "d = entry_bytes entry" if "attribute_value_type_of (oid_to_string (kc_oids env) (at_name a)) \<in> {None, Some VUtf8String}"
    using decode_encode_text [OF assms(2) r(1)] r(2) that by auto
  ultimately show ?thesis using r by blast
qed

section \<open>A concrete certificate\<close>

text \<open>The certificate of the examples holds a sensitive email and a plain postal code. Key pairs are named
  and hold their private key or not.\<close>

definition postal_entry :: attribute where
  "postal_entry = \<lparr>at_name = [2, 5, 5, 17], at_value = PlainValue (CHR 0x0C # ''12345'')\<rparr>"

definition email_entry :: attribute where
  "email_entry = \<lparr>at_name = [1, 3, 6, 1, 4, 1, 62675, 1, 3], at_value = SensitiveValue ''2''\<rparr>"

text \<open>The text of a value of a schema is not used by the attributes of the example: its reader and writer
  are left open.\<close>

definition codec_env_on :: "json_text \<Rightarrow> (json \<Rightarrow> string + bytes) \<Rightarrow> bool codec_env" where
  "codec_env_on reader writer =
     toy_codec_env\<lparr>ce_schema := (ce_schema toy_codec_env)\<lparr>parse_text := reader, write_text := writer\<rparr>\<rparr>"

lemma codec_env_on_laws: "codec_laws (codec_env_on reader writer) (\<lambda>t. t)"
proof -
  have "parse_generalized_time (codec_env_on reader writer) body = parse_generalized_time toy_codec_env body" for body
    by (simp add: parse_generalized_time_def codec_env_on_def split: option.split)
  then show ?thesis
    using toy_codec_env_laws by (simp add: codec_laws_def four_digit_year_def) (simp add: codec_env_on_def)
qed

definition cert_env_on ::
    "('k \<Rightarrow> bytes) \<Rightarrow> ('k \<Rightarrow> bool) \<Rightarrow> json_text \<Rightarrow> (json \<Rightarrow> string + bytes) \<Rightarrow> (bytes, bytes, 'k, bool, nat) cert_env" where
  "cert_env_on pub priv reader writer =
     \<lparr>kc_sensitive = sensitive_env_on pub priv,
      kc_codec = codec_env_on reader writer,
      kc_coder = \<lparr>encode_attributes = (\<lambda>as. if as = [email_entry, postal_entry] then Inr ''1'' else Inl []),
        decode_attributes = (\<lambda>d. if d = ''1'' then Inr [email_entry, postal_entry] else Inl [])\<rparr>,
      account_kind = (\<lambda>_. ED25519), extension_value = (\<lambda>c _. Some c), certificate_to_pem = Inr,
      certificate_from_pem = Inr, xb_default = [], xb_end_entity = [], xb_ca = [],
      xb_apply = (\<lambda>s b. case s of AddExtension e \<Rightarrow> xe_value e | _ \<Rightarrow> b),
      xb_extension = (\<lambda>i v crit. Inr \<lparr>xe_oid = i, xe_critical = crit, xe_value = v\<rparr>),
      xb_build = (\<lambda>b _ w. (Inr b, w))\<rparr>"

lemma toy_table_oid:
  "table_oid toy_oid_env n i \<longleftrightarrow> n = ''email'' \<and> i = [1, 3, 6, 1, 4, 1, 62675, 1, 3] \<or> n = ''postalCode'' \<and> i = [2, 5, 5, 17]"
  by (auto simp: table_oid_def toy_oid_env_def split: if_splits)

lemma toy_certificate_laws: "certificate_laws (cert_env_on pub priv reader writer)"
proof -
  have "oid_to_string toy_oid_env [1, 3, 6, 1, 4, 1, 62675, 1, 3] \<noteq> oid_to_string toy_oid_env [2, 5, 5, 17]"
    by (simp add: toy_oid_env_def show_nat.simps)
  moreover have "oid_reads_back toy_oid_env [1, 3, 6, 1, 4, 1, 62675, 1, 3]" "oid_reads_back toy_oid_env [2, 5, 5, 17]"
    by (simp_all add: toy_oid_reads_back)
  ultimately have "oid_tables_ok toy_oid_env"
    unfolding oid_tables_ok_def toy_table_oid by (metis (no_types))
  moreover have "kc_oids (cert_env_on pub priv reader writer) = toy_oid_env" by (simp add: cert_env_on_def sensitive_env_on_def)
  ultimately show ?thesis
    by (simp add: certificate_laws_def cert_env_on_def toy_sensitive_laws)
      (simp add: sensitive_env_on_def)
qed

abbreviation example_env :: "(bytes, bytes, string \<times> bool, bool, nat) cert_env" where
  "example_env \<equiv> cert_env_on fst snd (\<lambda>_. Inl []) (\<lambda>_. Inl [])"

definition example_builder :: "bytes certificate_builder" where
  "example_builder = with_sensitive_attribute example_env ''email'' ''a''
     (with_plain_attribute example_env ''postalCode'' ''12345'' (certificate_builder_new example_env))"

lemma example_oids:
  "entry_to_oid toy_oid_env ''postalCode'' (EntryPlain v) = Inr [2, 5, 5, 17]"
  "entry_to_oid toy_oid_env ''email'' (EntrySensitive v) = Inr [1, 3, 6, 1, 4, 1, 62675, 1, 3]"
  by (simp_all add: entry_to_oid_def get_plain_attribute_oid_def get_sensitive_attribute_oid_def toy_oid_env_def)

lemma example_builder: "example_builder = \<lparr>cb_inner = [],
    cb_attributes = [(''email'', EntrySensitive ''a''), (''postalCode'', EntryPlain ''12345'')], cb_errors = []\<rparr>"
proof -
  have "kc_oids example_env = toy_oid_env" "xb_default example_env = []" by (simp_all add: cert_env_on_def sensitive_env_on_def)
  then show ?thesis
    by (simp add: example_builder_def with_plain_attribute_def with_sensitive_attribute_def with_entry_def
        certificate_builder_new_def builder_of_def example_oids)
qed

lemma example_encode:
  "encode_value (codec_env_on reader writer) (oid_to_string toy_oid_env [2, 5, 5, 17]) ''12345'' = Inr (CHR 0x0C # ''12345'')"
  "encode_value (codec_env_on reader writer) (oid_to_string toy_oid_env [1, 3, 6, 1, 4, 1, 62675, 1, 3]) ''a'' = Inr (CHR 0x0C # ''a'')"
  by (simp_all add: encode_value_def codec_env_on_def toy_codec_env_def toy_oid_env_def attribute_value_type_of_def as_utf8_def
      is_utf8_def show_nat.simps digit_char_def Let_def char_of_eq_iff)

lemma example_decode:
  "attribute_value_decode (codec_env_on reader writer) (oid_to_string toy_oid_env [2, 5, 5, 17]) (CHR 0x0C # v) = Inr v"
  "attribute_value_decode (codec_env_on reader writer) (oid_to_string toy_oid_env [1, 3, 6, 1, 4, 1, 62675, 1, 3]) (CHR 0x0C # v)
    = Inr v"
  by (simp_all add: attribute_value_decode_def attribute_value_type_of_def toy_oid_env_def show_nat.simps digit_char_def Let_def
      char_of_eq_iff decode_attempt_def decode_utf8_def codec_env_on_def toy_codec_env_def)

lemma example_build:
  assumes "pub s = ''s''"
  shows "build_certificate (cert_env_on pub priv reader writer) example_builder s i 0
    = (Inr (kyc_certificate_new (cert_env_on pub priv reader writer) ''1''), 3)"
proof -
  let ?env = "cert_env_on pub priv reader writer"
  have parses: "parse_oid_string toy_oid_env (oid_to_string toy_oid_env [2, 5, 5, 17]) = Inr [2, 5, 5, 17]"
      "parse_oid_string toy_oid_env (oid_to_string toy_oid_env [1, 3, 6, 1, 4, 1, 62675, 1, 3]) = Inr [1, 3, 6, 1, 4, 1, 62675, 1, 3]"
    using toy_oid_reads_back [of "[2, 5, 5, 17]"] toy_oid_reads_back [of "[1, 3, 6, 1, 4, 1, 62675, 1, 3]"]
    by (simp_all add: oid_reads_back_def)
  have env: "se_oids (sensitive_env_on pub priv) = toy_oid_env" "kc_codec ?env = codec_env_on reader writer" "kc_sensitive ?env = sensitive_env_on pub priv"
    by (simp_all add: cert_env_on_def sensitive_env_on_def)
  note builds = build_entry_def env example_oids example_encode Let_def build_attribute_def
        with_oid_def with_value_def default_attribute_builder_def parses
  have "build_entry ?env s ''postalCode'' (EntryPlain ''12345'') w = (Inr postal_entry, w)" for w
    by (simp add: builds as_plain_def postal_entry_def)
  moreover have "build_entry ?env s ''email'' (EntrySensitive ''a'') 0 = (Inr email_entry, 3)"
  proof -
    have seals: "build_sensitive (sensitive_env_on pub priv) (sensitive_with_value (CHR 0x0C # ''a'') sensitive_builder_new) s 0
        = (Inr toy_sealed_text, 3)" by (rule toy_seals_text) (rule assms)
    have "sensitive_to_der (sensitive_env_on pub priv) toy_sealed_text = Inr ''2''"
      by (simp add: sensitive_to_der_def) (simp add: sensitive_env_on_def)
    then show ?thesis
      unfolding build_entry_def env example_oids map_err_simps sum.case Let_def example_encode kyc_attribute_entry.case seals prod.case
      by (simp add: builds as_sensitive_def email_entry_def del: One_nat_def)
  qed
  ultimately show ?thesis
    by (simp add: build_certificate_def example_builder build_kyc_extension_def add_attribute_def)
      (simp add: cert_env_on_def)
qed

text \<open>The subject reads and proves its email, the postal code is open, and who has the public key only gets
  an error.\<close>

theorem certificate_returns_attributes_witness:
  "(let cert = kyc_certificate_new example_env ''1'' in
     get_plain_attribute example_env cert ''postalCode'' = Inr ''12345''
     \<and> decrypt_attribute example_env cert ''email'' (''s'', True) = Some (Inr ''a'')
     \<and> (\<exists>p. prove_attribute example_env cert ''email'' (''s'', True) = Some (Inr p)
          \<and> validate_attribute_proof example_env cert ''email'' (''s'', False) p = Inr True)
     \<and> (\<exists>e. decrypt_attribute example_env cert ''email'' (''s'', False) = Some (Inl e)))"
proof -
  let ?cert = "kyc_certificate_new example_env ''1''"
  have laws: "codec_laws (kc_codec example_env) (\<lambda>t. t)" using codec_env_on_laws by (simp add: cert_env_on_def)
  have ext: "shows_extension example_env (cb_inner example_builder)" by (simp add: shows_extension_def cert_env_on_def)
  have ok: "map_ok (cb_attributes example_builder)" by (simp add: example_builder map_ok_def)
  note returned = certificate_returns_attributes [OF toy_certificate_laws laws ext ok example_build, of "(''s'', True)"]
  have env: "se_oids (sensitive_env_on fst snd) = toy_oid_env" "kc_codec example_env = codec_env_on (\<lambda>_. Inl []) (\<lambda>_. Inl [])"
      "kc_sensitive example_env = sensitive_env_on fst snd"
    by (simp_all add: cert_env_on_def sensitive_env_on_def)
  have types: "attribute_value_type_of (oid_to_string toy_oid_env [2, 5, 5, 17]) \<in> {None, Some VUtf8String}"
      "attribute_value_type_of (oid_to_string toy_oid_env [1, 3, 6, 1, 4, 1, 62675, 1, 3]) \<in> {None, Some VUtf8String}"
    by (simp_all add: attribute_value_type_of_def toy_oid_env_def show_nat.simps digit_char_def Let_def char_of_eq_iff)
  from returned [of "''postalCode''" "EntryPlain ''12345''"] have "get_plain_attribute example_env ?cert ''postalCode'' = Inr ''12345''"
    using types by (auto simp: example_builder env example_oids reads_as_def)
  moreover from returned [of "''email''" "EntrySensitive ''a''"] obtain encoded where
    email: "\<And>reader. reads_as example_env ?cert (''s'', True) reader ''email'' (EntrySensitive ''a'') encoded ''a''"
    using types by (auto simp: example_builder env example_oids)
  have "holds_key (kc_sensitive example_env) (''s'', True) (''s'', True)" "public_only (kc_sensitive example_env) (''s'', False)"
    using toy_holds_key [of snd "(''s'', True)"] toy_public_only [of snd "(''s'', False)"] by (simp_all add: env)
  with email [of "(''s'', True)"] email [of "(''s'', False)"] have
    "decrypt_attribute example_env ?cert ''email'' (''s'', True) = Some (Inr ''a'')"
    "\<exists>p. prove_attribute example_env ?cert ''email'' (''s'', True) = Some (Inr p)
          \<and> validate_attribute_proof example_env ?cert ''email'' (''s'', False) p = Inr True"
    "\<exists>e. decrypt_attribute example_env ?cert ''email'' (''s'', False) = Some (Inl e)"
    by (auto simp: reads_as_def env sensitive_env_on_def)
  ultimately show ?thesis by (simp add: Let_def)
qed

end
