(* ===== verification/Sharable.thy ===== *)
theory Sharable
  imports Certificate Container
begin

text \<open>
  \<open>keetanetwork-anchor/src/sharable_attributes/mod.rs\<close> and \<open>contents.rs\<close>: a certificate with a chosen
  part of its attributes, sealed in an encrypted container. Accounts \<open>'k\<close> are those of the container and
  of the certificate at once. A computation that proves a sensitive attribute can panic, as decrypting
  one can: then it is \<open>None\<close>. A method on \<open>&mut self\<close> returns the bundle after it, on its error paths too.
\<close>

section \<open>Third-party operations\<close>

record public_key_info =
  pk_algorithm :: oid
  pk_parameters :: "bytes option"
  pk_raw :: bytes

record ('c, 'b, 'k, 'd, 'w) sharable_env =
  sh_cert :: "('c, 'b, 'k, 'd, 'w) cert_env"
  sh_box :: "('k, 'w) container_env"
  subject_public_key :: "'c \<Rightarrow> string + public_key_info"
  decode_oid :: "bytes \<Rightarrow> string + oid"
  public_account :: "bytes \<Rightarrow> key_pair_type \<Rightarrow> string + 'k"
  generate_random_seed :: "'w \<Rightarrow> (string + bytes) \<times> 'w"
  account_from_seed :: "bytes \<Rightarrow> string + 'k"
  oid_ed25519 :: oid
  oid_ec_public_key :: oid
  oid_secp256k1 :: oid
  oid_secp256r1 :: oid

abbreviation sh_oids :: "('c, 'b, 'k, 'd, 'w) sharable_env \<Rightarrow> oid_env" where
  "sh_oids env \<equiv> kc_oids (sh_cert env)"

abbreviation sh_parse :: "('c, 'b, 'k, 'd, 'w) sharable_env \<Rightarrow> json_text" where
  "sh_parse env \<equiv> parse_text (ce_schema (kc_codec (sh_cert env)))"

abbreviation sh_write :: "('c, 'b, 'k, 'd, 'w) sharable_env \<Rightarrow> json \<Rightarrow> string + bytes" where
  "sh_write env \<equiv> write_text (ce_schema (kc_codec (sh_cert env)))"

definition base64_bytes :: "('c, 'b, 'k, 'd, 'w) sharable_env \<Rightarrow> string \<Rightarrow> sharable_error + bytes" where
  "base64_bytes env s = ok_or InvalidBase64 (b64_decode (sh_oids env) s)"

section \<open>Contents\<close>

record proof_hash_json =
  phj_salt :: string

record proof_json =
  pj_value :: string
  pj_hash :: proof_hash_json

datatype attribute_value_json = ProofValue proof_json | PlainText string

record attribute_entry =
  ae_sensitive :: bool
  ae_value :: attribute_value_json
  ae_references :: "(string \<times> string) list"

record contents_json =
  cj_certificate :: string
  cj_intermediates :: "string list option"
  cj_attributes :: "(string \<times> attribute_entry) list"

definition proof_json_to_json :: "proof_json \<Rightarrow> json" where
  "proof_json_to_json p =
     JObject [(''value'', JString (pj_value p)), (''hash'', JObject [(''salt'', JString (phj_salt (pj_hash p)))])]"

fun value_json_to_json :: "attribute_value_json \<Rightarrow> json" where
  "value_json_to_json (ProofValue p) = proof_json_to_json p"
| "value_json_to_json (PlainText s) = JString s"

definition entry_to_json :: "attribute_entry \<Rightarrow> json" where
  "entry_to_json e =
     JObject [(''sensitive'', JBool (ae_sensitive e)), (''value'', value_json_to_json (ae_value e)),
              (''references'', json_map JString (ae_references e))]"

definition contents_to_json :: "contents_json \<Rightarrow> json" where
  "contents_to_json c =
     JObject ([(''certificate'', JString (cj_certificate c))]
       @ (case cj_intermediates c of None \<Rightarrow> [] | Some pems \<Rightarrow> [(''intermediates'', JArray (map JString pems))])
       @ [(''attributes'', json_map entry_to_json (cj_attributes c))])"

definition decode_proof_hash_json :: "proof_hash_json decoder" where
  "decode_proof_hash_json doc =
     bindR (doc_struct [''salt''] doc) (\<lambda>members.
     bindR (required members ''salt'' decode_string) (\<lambda>salt. Inr \<lparr>phj_salt = salt\<rparr>))"

definition decode_proof_json :: "proof_json decoder" where
  "decode_proof_json doc =
     bindR (doc_struct [''value'', ''hash''] doc) (\<lambda>members.
     bindR (required members ''value'' decode_string) (\<lambda>v.
     bindR (required members ''hash'' decode_proof_hash_json) (\<lambda>h. Inr \<lparr>pj_value = v, pj_hash = h\<rparr>)))"

text \<open>Untagged: the first variant that reads the value.\<close>

definition decode_value_json :: "attribute_value_json decoder" where
  "decode_value_json doc =
     (case decode_proof_json doc of
        Inr p \<Rightarrow> Inr (ProofValue p)
      | Inl _ \<Rightarrow>
          (case decode_string doc of
             Inr s \<Rightarrow> Inr (PlainText s)
           | Inl _ \<Rightarrow> Inl ''data did not match any variant of untagged enum AttributeValueJson''))"

definition decode_entry :: "attribute_entry decoder" where
  "decode_entry doc =
     bindR (doc_struct [''sensitive'', ''value'', ''references''] doc) (\<lambda>members.
     bindR (required members ''sensitive'' decode_flag) (\<lambda>sensitive.
     bindR (required members ''value'' decode_value_json) (\<lambda>v.
     bindR (defaulted members ''references'' [] (decode_map decode_string)) (\<lambda>refs.
     Inr \<lparr>ae_sensitive = sensitive, ae_value = v, ae_references = refs\<rparr>))))"

definition decode_contents :: "contents_json decoder" where
  "decode_contents doc =
     bindR (doc_struct [''certificate'', ''intermediates'', ''attributes''] doc) (\<lambda>members.
     bindR (required members ''certificate'' decode_string) (\<lambda>certificate.
     bindR (optional_value (decode_list decode_string) (members ''intermediates'')) (\<lambda>intermediates.
     bindR (required members ''attributes'' (decode_map decode_entry)) (\<lambda>attributes.
     Inr \<lparr>cj_certificate = certificate, cj_intermediates = intermediates, cj_attributes = attributes\<rparr>))))"

section \<open>The PEM envelope\<close>

definition PEM_BEGIN :: string where "PEM_BEGIN = ''-----BEGIN KYC CERTIFICATE PROOF-----''"
definition PEM_END :: string where "PEM_END = ''-----END KYC CERTIFICATE PROOF-----''"
definition PEM_LINE_LENGTH :: nat where "PEM_LINE_LENGTH = 64"

text \<open>\<open>slice::chunks\<close> and \<open>str::lines\<close>.\<close>

fun chunks :: "nat \<Rightarrow> 'x list \<Rightarrow> 'x list list" where
  "chunks n [] = []"
| "chunks n (x # xs) = (x # take (n - 1) xs) # chunks n (drop (n - 1) xs)"

definition strip_cr :: "string \<Rightarrow> string" where
  "strip_cr line = (if line \<noteq> [] \<and> last line = CHR 0x0D then butlast line else line)"

definition str_lines :: "string \<Rightarrow> string list" where
  "str_lines s =
     (let parts = split_char (CHR 0x0A) s
      in map strip_cr (butlast parts) @ (if last parts = [] then [] else [last parts]))"

definition encode_pem :: "oid_env \<Rightarrow> bytes \<Rightarrow> string" where
  "encode_pem env encoded =
     (let body = b64_encode env encoded;
          pem = foldl (\<lambda>pem chunk. pem @ CHR 0x0A # (if is_utf8 chunk then chunk else [])) PEM_BEGIN (chunks PEM_LINE_LENGTH body)
      in pem @ CHR 0x0A # PEM_END)"

definition pem_body :: "string \<Rightarrow> string" where
  "pem_body pem =
     foldl (\<lambda>body line. let trimmed = trim line
              in if trimmed = [] \<or> starts_with ''-----'' trimmed then body else body @ trimmed)
       [] (str_lines pem)"

definition decode_pem :: "oid_env \<Rightarrow> string \<Rightarrow> sharable_error + bytes" where
  "decode_pem env pem =
     (let body = pem_body pem
      in if body = [] then Inl InvalidPem else ok_or InvalidBase64 (b64_decode env body))"

definition ZLIB_MAGIC :: char where "ZLIB_MAGIC = CHR 0x78"

definition maybe_inflate :: "('k, 'w) container_env \<Rightarrow> bytes \<Rightarrow> bytes" where
  "maybe_inflate env data =
     (case data of
        c # _ \<Rightarrow> if c \<noteq> ZLIB_MAGIC then data
                  else (case zlib_decompress env data of Some inflated \<Rightarrow> inflated | None \<Rightarrow> data)
      | [] \<Rightarrow> data)"

section \<open>State\<close>

record disclosed_attribute =
  da_sensitive :: bool
  da_value :: bytes
  da_references :: "(string \<times> string) list"

type_synonym external_blobs = "(string \<times> bytes) list"

definition blobs_insert :: "string \<Rightarrow> bytes \<Rightarrow> external_blobs \<Rightarrow> external_blobs" where
  "blobs_insert i bs blobs = map_insert i bs blobs"

definition blobs_get :: "string \<Rightarrow> external_blobs \<Rightarrow> bytes option" where
  "blobs_get i blobs = map_of blobs i"

definition blobs_empty :: "external_blobs \<Rightarrow> bool" where
  "blobs_empty blobs \<longleftrightarrow> blobs = []"

definition blobs_from :: "(string \<times> bytes) list \<Rightarrow> external_blobs" where
  "blobs_from kvs = map_from kvs"

record 'c from_certificate_options =
  fo_intermediates :: "'c list"
  fo_blobs :: external_blobs

record 'c populated =
  po_certificate :: "'c kyc_certificate"
  po_intermediates :: "'c list"
  po_attributes :: "(string \<times> disclosed_attribute) list"

record ('c, 'k) sharable =
  sca_container :: "'k container"
  sca_populated :: "'c populated option"

section \<open>The subject of a certificate\<close>

definition subject_key_type ::
    "('c, 'b, 'k, 'd, 'w) sharable_env \<Rightarrow> public_key_info \<Rightarrow> sharable_error + key_pair_type" where
  "subject_key_type env spki =
     (if pk_algorithm spki = oid_ed25519 env then Inr ED25519
      else if pk_algorithm spki = oid_ec_public_key env then
        bindR (ok_or ShUnsupportedSubjectKey (pk_parameters spki)) (\<lambda>bs.
        bindR (map_err (ShAsn1 \<circ> rasn_decode_error) (decode_oid env bs)) (\<lambda>curve.
        if curve = oid_secp256k1 env then Inr ECDSASECP256K1
        else if curve = oid_secp256r1 env then Inr ECDSASECP256R1
        else Inl ShUnsupportedSubjectKey))
      else Inl ShUnsupportedSubjectKey)"

definition subject_account ::
    "('c, 'b, 'k, 'd, 'w) sharable_env \<Rightarrow> 'c kyc_certificate \<Rightarrow> sharable_error + 'k" where
  "subject_account env certificate =
     bindR (map_err ShX509 (subject_public_key env (kc_inner certificate))) (\<lambda>spki.
     bindR (subject_key_type env spki) (\<lambda>kt.
     case kt of
       OtherKeyType \<Rightarrow> Inl ShUnsupportedSubjectKey
     | _ \<Rightarrow> map_err ShAccount (public_account env (pk_raw spki) kt)))"

definition prove_subject_attribute ::
    "('c, 'b, 'k, 'd, 'w) sharable_env \<Rightarrow> 'c kyc_certificate \<Rightarrow> string \<Rightarrow> 'k \<Rightarrow> (sharable_error + attribute_proof) option" where
  "prove_subject_attribute env certificate name subject =
     (if signing_kind (account_kind (sh_cert env) subject)
      then map_errP ShCertificate (prove_attribute (sh_cert env) certificate name subject)
      else Some (Inl ShUnsupportedSubjectKey))"

definition validate_subject_proof ::
    "('c, 'b, 'k, 'd, 'w) sharable_env \<Rightarrow> 'c kyc_certificate \<Rightarrow> string \<Rightarrow> 'k \<Rightarrow> attribute_proof \<Rightarrow> sharable_error + bool" where
  "validate_subject_proof env certificate name subject p =
     (if signing_kind (account_kind (sh_cert env) subject)
      then map_err ShCertificate (validate_attribute_proof (sh_cert env) certificate name subject p)
      else Inl ShUnsupportedSubjectKey)"

section \<open>Building a bundle\<close>

definition open_reference_blob ::
    "('c, 'b, 'k, 'd, 'w) sharable_env \<Rightarrow> 'k \<Rightarrow> string \<Rightarrow> string \<Rightarrow> attribute_reference \<Rightarrow> bytes \<Rightarrow> sharable_error + bytes" where
  "open_reference_blob env subject name i reference raw =
     (case ref_encryption reference of
        KeetaEncryptedContainerV1 \<Rightarrow>
          map_err (ReferenceDecrypt name i)
            (bindR (from_encrypted (sh_box env) raw [subject]) (\<lambda>container. fst (get_plaintext (sh_box env) container))))"

fun inline_references ::
    "('c, 'b, 'k, 'd, 'w) sharable_env \<Rightarrow> 'k \<Rightarrow> string \<Rightarrow> external_blobs \<Rightarrow> (string \<times> string) list
     \<Rightarrow> attribute_reference list \<Rightarrow> sharable_error + (string \<times> string) list" where
  "inline_references env subject name blobs inlined [] = Inr inlined"
| "inline_references env subject name blobs inlined (reference # rest) =
     (let i = reference_id (sh_oids env) reference
      in case blobs_get i blobs of
           None \<Rightarrow> inline_references env subject name blobs inlined rest
         | Some raw \<Rightarrow>
             bindR (open_reference_blob env subject name i reference raw) (\<lambda>plaintext.
             if \<not> digest_matches (sh_oids env) (ref_digest reference) plaintext
             then Inl (ReferenceDigestMismatch name i)
             else inline_references env subject name blobs
                    (map_insert i (b64_encode (sh_oids env) plaintext) inlined) rest))"

definition ingest_references ::
    "('c, 'b, 'k, 'd, 'w) sharable_env \<Rightarrow> 'c kyc_certificate \<Rightarrow> 'k \<Rightarrow> string \<Rightarrow> external_blobs
     \<Rightarrow> (sharable_error + (string \<times> string) list) option" where
  "ingest_references env certificate subject name blobs =
     (if blobs_empty blobs then Some (Inr [])
      else bindP (map_errP ShCertificate (external_references (sh_cert env) certificate subject [] [name])) (\<lambda>discovered.
           Some (inline_references env subject name blobs []
             (case map_of discovered name of Some refs \<Rightarrow> refs | None \<Rightarrow> []))))"

definition entry_of ::
    "('c, 'b, 'k, 'd, 'w) sharable_env \<Rightarrow> 'c kyc_certificate \<Rightarrow> 'k \<Rightarrow> string \<Rightarrow> attribute \<Rightarrow> (string \<times> string) list
     \<Rightarrow> (sharable_error + attribute_entry) option" where
  "entry_of env certificate subject name cert_attribute refs =
     (if is_sensitive cert_attribute then
        bindP (prove_subject_attribute env certificate name subject) (\<lambda>p.
        Some (Inr \<lparr>ae_sensitive = True,
                    ae_value = ProofValue \<lparr>pj_value = pr_value p, pj_hash = \<lparr>phj_salt = ph_salt (pr_hash p)\<rparr>\<rparr>,
                    ae_references = refs\<rparr>))
      else Some (Inr \<lparr>ae_sensitive = False,
                        ae_value = PlainText (b64_encode (sh_oids env) (attribute_bytes cert_attribute)),
                        ae_references = refs\<rparr>))"

fun collect_attributes ::
    "('c, 'b, 'k, 'd, 'w) sharable_env \<Rightarrow> 'c kyc_certificate \<Rightarrow> 'k \<Rightarrow> external_blobs \<Rightarrow> (string \<times> attribute_entry) list
     \<Rightarrow> string list \<Rightarrow> (sharable_error + (string \<times> attribute_entry) list) option" where
  "collect_attributes env certificate subject blobs attributes [] = Some (Inr attributes)"
| "collect_attributes env certificate subject blobs attributes (name # names) =
     (case get_attribute (sh_cert env) certificate name of
        None \<Rightarrow> collect_attributes env certificate subject blobs attributes names
      | Some cert_attribute \<Rightarrow>
          bindP (ingest_references env certificate subject name blobs) (\<lambda>refs.
          bindP (entry_of env certificate subject name cert_attribute refs) (\<lambda>entry.
          collect_attributes env certificate subject blobs (map_insert name entry attributes) names)))"

definition encode_intermediates ::
    "('c, 'b, 'k, 'd, 'w) sharable_env \<Rightarrow> 'c list \<Rightarrow> sharable_error + string list option" where
  "encode_intermediates env intermediates =
     (if intermediates = [] then Inr None
      else bindR (mapM_result (\<lambda>c. map_err ShX509 (certificate_to_pem (sh_cert env) c)) intermediates) (\<lambda>pems.
           Inr (Some pems)))"

definition generate_transient_account ::
    "('c, 'b, 'k, 'd, 'w) sharable_env \<Rightarrow> 'w \<Rightarrow> (sharable_error + 'k) \<times> 'w" where
  "generate_transient_account env w =
     (case generate_random_seed env w of
        (Inl e, w) \<Rightarrow> (Inl (ShAccount e), w)
      | (Inr seed, w) \<Rightarrow> (map_err ShAccount (account_from_seed env seed), w))"

definition seal_with_transient_principal ::
    "('c, 'b, 'k, 'd, 'w) sharable_env \<Rightarrow> bytes \<Rightarrow> 'w \<Rightarrow> (sharable_error + 'k container) \<times> 'w" where
  "seal_with_transient_principal env data w =
     (case generate_transient_account env w of
        (Inl e, w) \<Rightarrow> (Inl e, w)
      | (Inr temporary, w) \<Rightarrow>
          (case get_encoded (sh_box env) (from_plaintext data (Some [temporary]) \<lparr>opt_locked = Some True, opt_signer = None\<rparr>) w of
             (Inl e, _, w) \<Rightarrow> (Inl (ShContainer e), w)
           | (Inr encoded, _, w) \<Rightarrow>
               (bindR (map_err ShContainer (from_encrypted (sh_box env) encoded [temporary])) (\<lambda>container.
                case revoke_access (sh_box env) (public_key (sh_box env) temporary) container of
                  (Inl e, _) \<Rightarrow> Inl (ShContainer e)
                | (Inr (), container) \<Rightarrow> Inr container), w)))"

definition from_certificate ::
    "('c, 'b, 'k, 'd, 'w) sharable_env \<Rightarrow> 'c kyc_certificate \<Rightarrow> 'k \<Rightarrow> string list \<Rightarrow> 'c from_certificate_options \<Rightarrow> 'w
     \<Rightarrow> ((sharable_error + ('c, 'k) sharable) \<times> 'w) option" where
  "from_certificate env certificate subject names options w =
     (case collect_attributes env certificate subject (fo_blobs options) [] names of
        None \<Rightarrow> None
      | Some collected \<Rightarrow>
          (case bindR collected (\<lambda>attributes.
                bindR (encode_intermediates env (fo_intermediates options)) (\<lambda>intermediates.
                bindR (map_err ShX509 (certificate_to_pem (sh_cert env) (kc_inner certificate))) (\<lambda>pem.
                map_err (\<lambda>_. InvalidJson) (sh_write env (contents_to_json
                  \<lparr>cj_certificate = pem, cj_intermediates = intermediates, cj_attributes = attributes\<rparr>))))) of
             Inl e \<Rightarrow> Some (Inl e, w)
           | Inr json \<Rightarrow>
               (case seal_with_transient_principal env json w of
                  (result, w) \<Rightarrow>
                    Some (bindR result (\<lambda>container. Inr \<lparr>sca_container = container, sca_populated = None\<rparr>), w))))"

definition sharable_from_encoded ::
    "('c, 'b, 'k, 'd, 'w) sharable_env \<Rightarrow> bytes \<Rightarrow> 'k list \<Rightarrow> sharable_error + ('c, 'k) sharable" where
  "sharable_from_encoded env data accounts =
     bindR (map_err ShContainer (from_encoded (sh_box env) data (Some accounts))) (\<lambda>container.
     Inr \<lparr>sca_container = container, sca_populated = None\<rparr>)"

definition from_pem ::
    "('c, 'b, 'k, 'd, 'w) sharable_env \<Rightarrow> string \<Rightarrow> 'k list \<Rightarrow> sharable_error + ('c, 'k) sharable" where
  "from_pem env pem accounts =
     bindR (decode_pem (sh_oids env) pem) (\<lambda>encoded. sharable_from_encoded env encoded accounts)"

section \<open>Access and export\<close>

definition sharable_grant_access ::
    "('c, 'b, 'k, 'd, 'w) sharable_env \<Rightarrow> 'k list \<Rightarrow> ('c, 'k) sharable \<Rightarrow> (sharable_error + unit) \<times> ('c, 'k) sharable" where
  "sharable_grant_access env accounts s =
     (case grant_access (sh_box env) accounts (sca_container s) of
        (result, container) \<Rightarrow> (map_err ShContainer result, s\<lparr>sca_container := container\<rparr>))"

definition sharable_revoke_access ::
    "('c, 'b, 'k, 'd, 'w) sharable_env \<Rightarrow> bytes \<Rightarrow> ('c, 'k) sharable \<Rightarrow> (sharable_error + unit) \<times> ('c, 'k) sharable" where
  "sharable_revoke_access env target s =
     (case revoke_access (sh_box env) target (sca_container s) of
        (result, container) \<Rightarrow> (map_err ShContainer result, s\<lparr>sca_container := container\<rparr>))"

definition sharable_principals :: "('c, 'k) sharable \<Rightarrow> sharable_error + 'k list" where
  "sharable_principals s = map_err ShContainer (get_principals (sca_container s))"

definition export ::
    "('c, 'b, 'k, 'd, 'w) sharable_env \<Rightarrow> ('c, 'k) sharable \<Rightarrow> 'w \<Rightarrow> (sharable_error + bytes) \<times> ('c, 'k) sharable \<times> 'w" where
  "export env s w =
     (let principal_count = (case get_principals (sca_container s) of Inr ps \<Rightarrow> length ps | Inl _ \<Rightarrow> 0)
      in if principal_count = 0 then (Inl NoPrincipals, s, w)
         else (case get_encoded (sh_box env) (sca_container s) w of
                 (result, container, w) \<Rightarrow> (map_err ShContainer result, s\<lparr>sca_container := container\<rparr>, w)))"

definition to_pem ::
    "('c, 'b, 'k, 'd, 'w) sharable_env \<Rightarrow> ('c, 'k) sharable \<Rightarrow> 'w \<Rightarrow> (sharable_error + string) \<times> ('c, 'k) sharable \<times> 'w" where
  "to_pem env s w =
     (case export env s w of
        (result, s, w) \<Rightarrow> (bindR result (\<lambda>encoded. Inr (encode_pem (sh_oids env) encoded)), s, w))"

section \<open>Opening a bundle\<close>

definition disclose_attribute ::
    "('c, 'b, 'k, 'd, 'w) sharable_env \<Rightarrow> 'c kyc_certificate \<Rightarrow> 'k \<Rightarrow> string \<Rightarrow> attribute_entry
     \<Rightarrow> sharable_error + disclosed_attribute" where
  "disclose_attribute env certificate subject name entry =
     bindR (ok_or (ShAttributeNotFound name) (get_attribute (sh_cert env) certificate name)) (\<lambda>cert_attribute.
     if is_sensitive cert_attribute \<noteq> ae_sensitive entry then Inl (SensitivityMismatch name)
     else
       bindR (case ae_value entry of
                PlainText encoded \<Rightarrow>
                  bindR (base64_bytes env encoded) (\<lambda>decoded.
                  if decoded \<noteq> attribute_bytes cert_attribute then Inl (ValueMismatch name) else Inr decoded)
              | ProofValue p \<Rightarrow>
                  bindR (base64_bytes env (pj_value p)) (\<lambda>plaintext_value.
                  bindR (validate_subject_proof env certificate name subject
                          \<lparr>pr_value = pj_value p, pr_hash = \<lparr>ph_salt = phj_salt (pj_hash p)\<rparr>\<rparr>) (\<lambda>valid.
                  if \<not> valid then Inl (ProofValidationFailed name) else Inr plaintext_value))) (\<lambda>v.
       Inr \<lparr>da_sensitive = ae_sensitive entry, da_value = v, da_references = ae_references entry\<rparr>))"

fun disclose_all ::
    "('c, 'b, 'k, 'd, 'w) sharable_env \<Rightarrow> 'c kyc_certificate \<Rightarrow> 'k \<Rightarrow> (string \<times> disclosed_attribute) list
     \<Rightarrow> (string \<times> attribute_entry) list \<Rightarrow> sharable_error + (string \<times> disclosed_attribute) list" where
  "disclose_all env certificate subject attributes [] = Inr attributes"
| "disclose_all env certificate subject attributes ((name, entry) # entries) =
     bindR (disclose_attribute env certificate subject name entry) (\<lambda>v.
     disclose_all env certificate subject (map_insert name v attributes) entries)"

definition populated_of ::
    "('c, 'b, 'k, 'd, 'w) sharable_env \<Rightarrow> bytes \<Rightarrow> sharable_error + 'c populated" where
  "populated_of env plaintext =
     (let json = maybe_inflate (sh_box env) plaintext in
      bindR (map_err (\<lambda>_. InvalidJson) (from_slice (sh_parse env) decode_contents json)) (\<lambda>payload.
      bindR (map_err ShX509 (certificate_from_pem (sh_cert env) (cj_certificate payload))) (\<lambda>x509.
      let certificate = kyc_certificate_new (sh_cert env) x509 in
      bindR (mapM_result (\<lambda>pem. map_err ShX509 (certificate_from_pem (sh_cert env) pem))
              (case cj_intermediates payload of Some pems \<Rightarrow> pems | None \<Rightarrow> [])) (\<lambda>intermediates.
      bindR (subject_account env certificate) (\<lambda>subject.
      bindR (disclose_all env certificate subject [] (cj_attributes payload)) (\<lambda>attributes.
      Inr \<lparr>po_certificate = certificate, po_intermediates = intermediates, po_attributes = attributes\<rparr>))))))"

definition compute_populated ::
    "('c, 'b, 'k, 'd, 'w) sharable_env \<Rightarrow> 'k container \<Rightarrow> (sharable_error + 'c populated) \<times> 'k container" where
  "compute_populated env container =
     (case get_plaintext (sh_box env) container of
        (result, container) \<Rightarrow> (bindR (map_err ShContainer result) (populated_of env), container))"

definition get_populated ::
    "('c, 'b, 'k, 'd, 'w) sharable_env \<Rightarrow> ('c, 'k) sharable \<Rightarrow> (sharable_error + 'c populated) \<times> ('c, 'k) sharable" where
  "get_populated env s =
     (case sca_populated s of
        Some p \<Rightarrow> (Inr p, s)
      | None \<Rightarrow>
          (case compute_populated env (sca_container s) of
             (Inl e, container) \<Rightarrow> (Inl e, s\<lparr>sca_container := container\<rparr>)
           | (Inr p, container) \<Rightarrow> (Inr p, \<lparr>sca_container = container, sca_populated = Some p\<rparr>)))"

section \<open>Reading a bundle\<close>

definition reading ::
    "('c, 'b, 'k, 'd, 'w) sharable_env \<Rightarrow> ('c populated \<Rightarrow> sharable_error + 'r) \<Rightarrow> ('c, 'k) sharable
     \<Rightarrow> (sharable_error + 'r) \<times> ('c, 'k) sharable" where
  "reading env f s = (case get_populated env s of (result, s) \<Rightarrow> (bindR result f, s))"

definition sharable_certificate where
  "sharable_certificate env s = reading env (\<lambda>p. Inr (po_certificate p)) s"

definition sharable_intermediates where
  "sharable_intermediates env s = reading env (\<lambda>p. Inr (po_intermediates p)) s"

definition attribute_names where
  "attribute_names env s = reading env (\<lambda>p. Inr (map fst (po_attributes p))) s"

definition attribute_buffer where
  "attribute_buffer env name s = reading env (\<lambda>p. Inr (map_option da_value (map_of (po_attributes p) name))) s"

definition sharable_attribute where
  "sharable_attribute env name s = reading env (\<lambda>p. Inr (map_of (po_attributes p) name)) s"

definition value_in ::
    "('c, 'b, 'k, 'd, 'w) sharable_env \<Rightarrow> string \<Rightarrow> 'c populated \<Rightarrow> sharable_error + bytes option" where
  "value_in env name p =
     (case (map_of (po_attributes p) name, get_attribute (sh_cert env) (po_certificate p) name) of
        (Some disclosed, Some cert_attribute) \<Rightarrow>
          bindR (map_err ShAsn1 (attribute_value_decode (kc_codec (sh_cert env))
                   (oid_to_string (sh_oids env) (at_name cert_attribute)) (da_value disclosed))) (\<lambda>decoded.
          Inr (Some decoded))
      | _ \<Rightarrow> Inr None)"

definition sharable_attribute_value where
  "sharable_attribute_value env name s = reading env (value_in env name) s"

definition blob_in ::
    "('c, 'b, 'k, 'd, 'w) sharable_env \<Rightarrow> string \<Rightarrow> string \<Rightarrow> 'c populated \<Rightarrow> sharable_error + bytes option" where
  "blob_in env name i p =
     bindR (value_in env name p) (\<lambda>decoded.
     case decoded of
       None \<Rightarrow> Inr None
     | Some decoded_value \<Rightarrow>
         (case Option.bind (map_of (po_attributes p) name) (\<lambda>d. map_of (da_references d) i) of
            None \<Rightarrow> Inr None
          | Some encoded \<Rightarrow>
              bindR (base64_bytes env encoded) (\<lambda>payload.
              case from_slice (sh_parse env) decode_value decoded_value of
                Inl _ \<Rightarrow> Inr None
              | Inr v \<Rightarrow>
                  bindR (map_err sharable_of_schema (collect_references (sh_oids env) v)) (\<lambda>refs.
                  case find (\<lambda>r. reference_id (sh_oids env) r = i) refs of
                    None \<Rightarrow> Inr None
                  | Some reference \<Rightarrow>
                      if \<not> digest_matches (sh_oids env) (ref_digest reference) payload
                      then Inl (ReferenceDigestMismatch name i) else Inr (Some payload)))))"

definition reference_blob where
  "reference_blob env name i s = reading env (blob_in env name i) s"

end
