(* ===== verification/SharableProps.thy ===== *)
theory SharableProps
  imports Sharable CertificateProps ContainerProps
begin

text \<open>
  What a sharable bundle promises: its PEM envelope reads back, what it discloses is what its
  certificate commits to, and a recipient gets what the subject chose to share and nothing else.
\<close>

section \<open>The PEM envelope\<close>

definition base64_char :: "char \<Rightarrow> bool" where
  "base64_char c \<longleftrightarrow> (let b = of_char c :: nat in
     (48 \<le> b \<and> b \<le> 57) \<or> (65 \<le> b \<and> b \<le> 90) \<or> (97 \<le> b \<and> b \<le> 122) \<or> b = 43 \<or> b = 47 \<or> b = 61)"

text \<open>What base64 promises: its texts are made of its alphabet, empty for the empty input only, and
  decode to what was encoded.\<close>

definition base64_laws :: "oid_env \<Rightarrow> bool" where
  "base64_laws env \<longleftrightarrow>
     (\<forall>bs. list_all base64_char (b64_encode env bs) \<and> (b64_encode env bs = [] \<longleftrightarrow> bs = [])
       \<and> b64_decode env (b64_encode env bs) = Some bs)"

lemma chunks_facts:
  "concat (chunks n xs) = xs \<and> (\<forall>c \<in> set (chunks n xs). c \<noteq> [] \<and> set c \<subseteq> set xs)"
proof (induction n xs rule: chunks.induct)
  case (2 n x xs)
  then show ?case using set_drop_subset [of "n - 1" xs] set_take_subset [of "n - 1" xs] by fastforce
qed simp

lemma foldl_lines: "foldl (\<lambda>pem chunk. pem @ CHR 0x0A # f chunk) s cs = s @ concat (map (\<lambda>c. CHR 0x0A # f c) cs)"
  by (induction cs arbitrary: s) simp_all

lemma foldl_append_concat: "foldl (\<lambda>body line. body @ line) s cs = s @ concat cs"
  by (induction cs arbitrary: s) simp_all

lemma split_char_lines:
  "sep \<notin> set v \<Longrightarrow> \<forall>w \<in> set ws. sep \<notin> set w \<Longrightarrow> split_char sep (v @ concat (map (\<lambda>w. sep # w) ws)) = v # ws"
  by (induction ws arbitrary: v) (simp_all add: split_char_word split_char_append)

definition plain_char :: "char \<Rightarrow> bool" where
  "plain_char c \<longleftrightarrow> 32 < (of_char c :: nat) \<and> (of_char c :: nat) < 127"

lemma plain_charI: "base64_char c \<Longrightarrow> plain_char c"
  by (auto simp: base64_char_def plain_char_def Let_def)

lemma plain_not_space: "plain_char c \<Longrightarrow> \<not> whitespace_char [c]"
  by (auto simp: plain_char_def whitespace_char_def is_whitespace_def scalar_value_def utf8_tail_def Let_def)

lemma dropWhile_none: "\<forall>x \<in> set xs. \<not> P x \<Longrightarrow> dropWhile P xs = xs"
  by (cases xs) auto

lemma plain_ascii: "list_all plain_char s \<Longrightarrow> list_all is_ascii s"
  by (auto simp: list_all_iff plain_char_def is_ascii_def)

lemma trim_plain: "list_all plain_char s \<Longrightarrow> trim s = s"
proof -
  assume p: "list_all plain_char s"
  have "utf8_chars s = map (\<lambda>c. [c]) s" by (rule utf8_chars_ascii) (rule plain_ascii [OF p])
  moreover have "dropWhile whitespace_char (map (\<lambda>c. [c]) s) = map (\<lambda>c. [c]) s"
    "dropWhile whitespace_char (rev (map (\<lambda>c. [c]) s)) = rev (map (\<lambda>c. [c]) s)"
    using p plain_not_space by (auto simp: list_all_iff intro!: dropWhile_none)
  ultimately show ?thesis by (simp add: trim_def trim_chars_def)
qed

lemma str_lines_simple:
  assumes "\<forall>w \<in> set (v # ws). w \<noteq> [] \<and> list_all plain_char w \<or> w = PEM_BEGIN \<or> w = PEM_END"
  shows "str_lines (v @ concat (map (\<lambda>w. CHR 0x0A # w) ws)) = v # ws"
proof -
  have w: "CHR 0x0A \<notin> set w \<and> w \<noteq> [] \<and> strip_cr w = w" if "w \<in> set (v # ws)" for w
  proof -
    from assms that have "(w \<noteq> [] \<and> list_all plain_char w) \<or> w = PEM_BEGIN \<or> w = PEM_END" by blast
    moreover have "last w \<noteq> CHR 0x0D" if "w \<noteq> []" "list_all plain_char w"
    proof -
      have "plain_char (last w)" using that by (simp add: list_all_iff)
      then show ?thesis by (auto simp: plain_char_def)
    qed
    ultimately show ?thesis
      by (auto simp: strip_cr_def PEM_BEGIN_def PEM_END_def) (auto simp: list_all_iff plain_char_def)
  qed
  have "split_char (CHR 0x0A) (v @ concat (map (\<lambda>w. CHR 0x0A # w) ws)) = v # ws"
    by (rule split_char_lines) (use w in auto)
  moreover have "map strip_cr (butlast (v # ws)) = butlast (v # ws)"
    using w by (intro map_idI) (meson in_set_butlastD)
  moreover have "last (v # ws) \<noteq> []" using w [OF last_in_set] by simp
  ultimately show ?thesis unfolding str_lines_def Let_def by (simp only: append_butlast_last_id) simp
qed

lemma pem_body_encode:
  assumes "base64_laws env"
  shows "pem_body (encode_pem env bs) = b64_encode env bs"
proof -
  let ?body = "b64_encode env bs" and ?cs = "chunks PEM_LINE_LENGTH (b64_encode env bs)"
  have plain: "c \<noteq> [] \<and> list_all plain_char c \<and> CHR ''-'' \<notin> set c" if "c \<in> set ?cs" for c
  proof -
    have "list_all base64_char ?body" using assms unfolding base64_laws_def by blast
    with chunks_facts [of PEM_LINE_LENGTH ?body] that have "c \<noteq> []" "\<forall>x \<in> set c. base64_char x"
      by (auto simp: list_all_iff)
    then show ?thesis by (auto simp: list_all_iff intro!: plain_charI) (auto simp: base64_char_def)
  qed
  have utf8: "is_utf8 c" if "c \<in> set ?cs" for c
    using plain_ascii plain [OF that] by (intro is_utf8_ascii) simp
  have "encode_pem env bs = PEM_BEGIN @ concat (map (\<lambda>c. CHR 0x0A # c) (?cs @ [PEM_END]))"
    using utf8 by (simp add: encode_pem_def Let_def foldl_lines cong: map_cong)
  moreover have "str_lines (PEM_BEGIN @ concat (map (\<lambda>c. CHR 0x0A # c) (?cs @ [PEM_END]))) = PEM_BEGIN # ?cs @ [PEM_END]"
    by (rule str_lines_simple) (use plain in auto)
  moreover have skip: "starts_with ''-----'' (trim w)" if "w = PEM_BEGIN \<or> w = PEM_END" for w
  proof -
    have "list_all is_ascii w" using that by (auto simp: PEM_BEGIN_def PEM_END_def is_ascii_def)
    with that show ?thesis
      by (auto simp: trim_def utf8_chars_ascii trim_chars_def PEM_BEGIN_def PEM_END_def whitespace_char_def
          is_whitespace_def scalar_value_def utf8_tail_def Let_def starts_with_def)
  qed
  moreover have keep: "trim c = c \<and> c \<noteq> [] \<and> \<not> starts_with ''-----'' c" if "c \<in> set ?cs" for c
    using plain [OF that] trim_plain by (auto simp: starts_with_iff)
  ultimately have "pem_body (encode_pem env bs) = foldl (\<lambda>body line. body @ line) [] ?cs"
    by (simp add: pem_body_def Let_def cong: foldl_cong)
  also have "\<dots> = concat ?cs" using foldl_append_concat [of "[]" ?cs] by simp
  also have "\<dots> = ?body" using chunks_facts by blast
  finally show ?thesis .
qed

text \<open>The PEM envelope of any bytes reads back as these bytes, and that of no bytes is refused as
  malformed.\<close>

lemma pem_roundtrip:
  assumes "base64_laws env"
  shows "decode_pem env (encode_pem env bs) = (if bs = [] then Inl InvalidPem else Inr bs)"
proof -
  have "(b64_encode env bs = [] \<longleftrightarrow> bs = []) \<and> b64_decode env (b64_encode env bs) = Some bs"
    using assms unfolding base64_laws_def by blast
  then show ?thesis by (simp add: decode_pem_def pem_body_encode [OF assms])
qed


section \<open>Sealing and sharing\<close>

text \<open>A container read from a sealed form keeps it while its plaintext is computed: the merged accounts
  keep their keys.\<close>

lemma compute_plaintext_sealed:
  assumes laws: "ContainerFacts.codec_laws env" "key_laws env"
    and form: "sealed_form env e keys p info" "keys \<noteq> []"
    and d: "cached_plaintext d = None" "cached_encoded d = Some e" "sealed d" "map (public_key env) (principals d) = keys"
    and run: "compute_plaintext env d = (Inr (), x)"
  shows "cached_plaintext x = Some p \<and> sealed x \<and> map (public_key env) (principals x) = keys"
proof -
  from form(1) obtain b where b: "parse env e = Inr \<lparr>bare_body = EncryptedBody b, bare_signer_info = info\<rparr>"
      "map ks_public_key (body_stores b) = keys" by (auto simp: sealed_form_def)
  from merge_principals_again [of env "principals d" "body_stores b"] d(4) b(2) obtain merged where
    m: "merge_principals env (body_stores b) (principals d) = Inr merged" by auto
  from compute_key_info_sealed [OF d(2) b(1) d(3) m] d(2,3) have
    dec: "snd (decode_from_encoded env d) = d\<lparr>principals := merged, sealed := True,
      parsed_signer_info := (case info of None \<Rightarrow> parsed_signer_info d | Some i \<Rightarrow> Some i)\<rparr>"
    by (simp add: decode_from_encoded_def)
  obtain r y where y: "decode_from_encoded env d = (r, y)" by (metis surj_pair)
  with run d(1) obtain v where v: "r = Inr v" "x = y\<lparr>cached_plaintext := Some (dec_plaintext v)\<rparr>"
    by (auto simp: compute_plaintext_def split: sum.splits)
  have "dec_plaintext v = p"
    using decode_from_sealed [OF laws(1) form laws(2) d(2-4)] y v(1) by (auto split: if_splits)
  with v(2) dec y merge_principals_sound [OF laws(2) m] b(2) show ?thesis by simp
qed

lemma seal_with_transient:
  assumes laws: "ContainerFacts.codec_laws (sh_box env)" "key_laws (sh_box env)"
    and run: "seal_with_transient_principal env data w = (Inr c, w')"
  shows "sealed c \<and> principals c = [] \<and> cached_plaintext c = Some data \<and> cached_encoded c = None"
proof -
  let ?box = "sh_box env"
  from run obtain t w1 where t: "generate_transient_account env w = (Inr t, w1)"
    by (auto simp: seal_with_transient_principal_def split: prod.splits sum.splits)
  define c0 where "c0 = from_plaintext data (Some [t]) \<lparr>opt_locked = Some True, opt_signer = None\<rparr>"
  have c0: "sealed c0" "cached_plaintext c0 = Some data" "cached_encoded c0 = None" "principals c0 = [t]"
    by (simp_all add: c0_def from_plaintext_def container_new_def disable_plaintext_def set_plaintext_def)
  from run t obtain e c1 where e: "get_encoded ?box c0 w1 = (Inr e, c1, w')"
      "bindR (map_err ShContainer (from_encrypted ?box e [t])) (\<lambda>container.
         case revoke_access ?box (public_key ?box t) container of
           (Inl x, _) \<Rightarrow> Inl (ShContainer x) | (Inr (), container) \<Rightarrow> Inr container) = Inr c"
    unfolding c0_def by (auto simp: seal_with_transient_principal_def split: prod.splits sum.splits)
  then obtain d where f: "from_encrypted ?box e [t] = Inr d" by (auto simp: result_elims)
  obtain rr cc where "revoke_access ?box (public_key ?box t) d = (rr, cc)" by (metis surj_pair)
  with e(2) f have d: "from_encrypted ?box e [t] = Inr d" "revoke_access ?box (public_key ?box t) d = (Inr (), c)"
    by (auto split: sum.splits)
  from get_encoded_sealed [OF laws c0(1-3) e(1)] c0(4) obtain info where
    form: "sealed_form ?box e (map (public_key ?box) [t]) data info" by auto
  from from_encrypted_sealed [OF laws(2) form refl] obtain b merged where
    m: "parse ?box e = Inr \<lparr>bare_body = EncryptedBody b, bare_signer_info = info\<rparr>"
      "merge_principals ?box (body_stores b) [t] = Inr merged"
      "\<And>must. compute_and_set_key_info ?box must (set_encoded e (container_new (Some [t]) None))
        = (Inr \<lparr>bare_body = EncryptedBody b, bare_signer_info = info\<rparr>,
           \<lparr>sealed = True, principals = merged, may_access_plaintext = True, signer = None,
            parsed_signer_info = info, cached_plaintext = None, cached_encoded = Some e\<rparr>)" by blast
  have "map ks_public_key (body_stores b) = [public_key ?box t]" using form m(1) by (auto simp: sealed_form_def)
  with merge_principals_sound [OF laws(2) m(2)] have mk: "map (public_key ?box) merged = [public_key ?box t]" by simp
  from m(3) d(1) have dv: "d = \<lparr>sealed = True, principals = merged, may_access_plaintext = True, signer = None,
            parsed_signer_info = info, cached_plaintext = None, cached_encoded = Some e\<rparr>"
    by (simp add: from_encrypted_def)
  from d(2) obtain x where x: "compute_plaintext ?box d = (Inr (), x)" "sealed x"
      "c = x\<lparr>cached_encoded := None, principals := filter (\<lambda>p. public_key ?box p \<noteq> public_key ?box t) (principals x)\<rparr>"
    by (auto simp: revoke_access_def assert_access_management_allowed_def split: prod.splits sum.splits if_splits)
  have "cached_plaintext x = Some data \<and> sealed x \<and> map (public_key ?box) (principals x) = map (public_key ?box) [t]"
    by (rule compute_plaintext_sealed [OF laws form _ _ _ _ _ x(1)]) (simp_all add: dv mk)
  moreover have "filter (\<lambda>p. public_key ?box p \<noteq> public_key ?box t) ps = []"
    if "map (public_key ?box) ps = [public_key ?box t]" for ps
    using that by (auto simp: filter_empty_conv)
  ultimately show ?thesis using x(3) by simp
qed

text \<open>What the holder of a bundle does before handing it out.\<close>

lemma grant_cached:
  assumes "sealed c" "cached_plaintext c = Some p"
  shows "grant_access env rs c = (Inr (), c\<lparr>cached_encoded := None, principals := principals c @ rs\<rparr>)"
  using assms by (simp add: grant_access_def compute_plaintext_def assert_access_management_allowed_def)

lemma shared_opens:
  assumes laws: "ContainerFacts.codec_laws (sh_box env)" "key_laws (sh_box env)"
    and sealing: "seal_with_transient_principal env data w = (Inr c, w')"
    and grant: "sharable_grant_access env rs \<lparr>sca_container = c, sca_populated = None\<rparr> = (Inr (), s)"
    and exp: "export env s w1 = (Inr e, s', w2)"
    and reader: "has_private_key (sh_box env) r" "public_key (sh_box env) r \<in> public_key (sh_box env) ` set rs"
  shows "\<exists>d. sharable_from_encoded env e [r] = Inr \<lparr>sca_container = d, sca_populated = None\<rparr>
    \<and> fst (get_plaintext (sh_box env) d) = Inr data"
proof -
  let ?box = "sh_box env"
  have c: "sealed c" "principals c = []" "cached_plaintext c = Some data" using seal_with_transient [OF laws sealing] by simp_all
  from grant grant_cached [OF c(1,3), of ?box rs] have
    s: "sca_container s = c\<lparr>cached_encoded := None, principals := rs\<rparr>" by (auto simp: sharable_grant_access_def c(2))
  from exp s c obtain c' where g: "get_encoded ?box (c\<lparr>cached_encoded := None, principals := rs\<rparr>) w1 = (Inr e, c', w2)"
    by (auto simp: export_def Let_def result_elims split: prod.splits if_splits)
  from get_encoded_sealed [OF laws _ _ _ g, of data] c obtain info where
    form: "sealed_form ?box e (map (public_key ?box) rs) data info" and rs: "rs \<noteq> []" by auto
  from open_sealed [OF laws form rs, of "[r]"] obtain d where d: "from_encoded ?box e (Some [r]) = Inr d"
      "fst (get_plaintext ?box d) = (if \<exists>q \<in> set (principals d). has_private_key ?box q then Inr data else Inl NoMatchingKey)"
      "decided_by ?box rs [r] (\<exists>q \<in> set (principals d). has_private_key ?box q)" by blast
  from decided_by_single [OF d(3) reader] d(1,2) have
    "from_encoded ?box e (Some [r]) = Inr d" "fst (get_plaintext ?box d) = Inr data" by simp_all
  then show ?thesis by (auto simp: sharable_from_encoded_def)
qed


section \<open>The contents and their text\<close>

definition contents_ok :: "contents_json \<Rightarrow> bool" where
  "contents_ok c \<longleftrightarrow> map_ok (cj_attributes c) \<and> (\<forall>(k, e) \<in> set (cj_attributes c). map_ok (ae_references e))"

lemma decode_entry_to_json: "map_ok (ae_references e) \<Longrightarrow> decode_entry (entry_to_json e) = Inr e"
proof -
  assume ok: "map_ok (ae_references e)"
  have "decode_map decode_string (json_map JString (ae_references e)) = Inr (ae_references e)"
    using ok by (rule decode_map_json_map) (auto simp: decode_string_def)
  moreover have "decode_value_json (value_json_to_json v) = Inr v" for v
    by (cases v) (simp_all add: decode_value_json_def proof_json_to_json_def decode_proof_json_def doc_struct_def
        occurrences_def required_def decode_string_def decode_proof_hash_json_def struct_members_def)
  ultimately show ?thesis
    by (simp add: decode_entry_def entry_to_json_def doc_struct_def occurrences_def required_def defaulted_def decode_flag_def)
qed

lemma decode_contents_to_json:
  assumes "contents_ok c"
  shows "decode_contents (contents_to_json c) = Inr c"
proof -
  have a: "decode_map decode_entry (json_map entry_to_json (cj_attributes c)) = Inr (cj_attributes c)"
    by (rule decode_map_json_map) (use assms in \<open>auto simp: contents_ok_def decode_entry_to_json\<close>)
  have l: "decode_list decode_string (JArray (map JString pems)) = Inr pems" for pems
    by (induction pems) (simp_all add: decode_list_def decode_string_def)
  show ?thesis
    by (cases "cj_intermediates c")
      (simp_all add: decode_contents_def contents_to_json_def doc_struct_def occurrences_def required_def
        optional_value_def decode_string_def a l)
qed

section \<open>What a bundle was given\<close>

lemma inline_references_ok:
  "map_ok inlined \<Longrightarrow> inline_references env subject name blobs inlined refs = Inr out \<Longrightarrow> map_ok out"
proof (induction refs arbitrary: inlined)
  case (Cons r refs)
  from Cons.prems obtain inlined' where "map_ok inlined'" "inline_references env subject name blobs inlined' refs = Inr out"
    by (auto simp: Let_def result_elims split: option.splits if_splits) (blast intro: map_ok_insert)
  then show ?case by (rule Cons.IH)
qed simp

lemma ingest_references_ok: "ingest_references env cert subject name blobs = Some (Inr refs) \<Longrightarrow> map_ok refs"
  unfolding ingest_references_def
  by (auto simp: result_elims simp del: external_references.simps split: if_splits intro: inline_references_ok [OF map_ok_Nil])

text \<open>The entries of a bundle: exactly the named attributes the certificate has, each as \<open>entry_of\<close> makes it.\<close>

definition collected :: "('c, 'b, 'k, 'd, 'w) sharable_env \<Rightarrow> 'c kyc_certificate \<Rightarrow> 'k \<Rightarrow> string \<Rightarrow> attribute_entry \<Rightarrow> bool" where
  "collected env cert subject name e \<longleftrightarrow> map_ok (ae_references e)
     \<and> (\<exists>a. get_attribute (sh_cert env) cert name = Some a
          \<and> entry_of env cert subject name a (ae_references e) = Some (Inr e))"

lemma entry_of_references: "entry_of env cert subject name a refs = Some (Inr e) \<Longrightarrow> ae_references e = refs"
  by (auto simp: entry_of_def result_elims split: if_splits)

lemma collect_attributes_Inr:
  assumes "map_ok acc" "collect_attributes env cert subject blobs acc names = Some (Inr attrs)"
  shows "map_ok attrs
    \<and> (\<forall>name. if name \<in> set names \<and> get_attribute (sh_cert env) cert name \<noteq> None
         then \<exists>e. map_of attrs name = Some e \<and> collected env cert subject name e
         else map_of attrs name = map_of acc name)"
  using assms
proof (induction names arbitrary: acc)
  case (Cons n names)
  show ?case
  proof (cases "get_attribute (sh_cert env) cert n")
    case None
    with Cons show ?thesis by auto
  next
    case (Some a)
    with Cons.prems obtain refs e where r: "ingest_references env cert subject n blobs = Some (Inr refs)"
        "entry_of env cert subject n a refs = Some (Inr e)"
        "collect_attributes env cert subject blobs (map_insert n e acc) names = Some (Inr attrs)"
      by (auto simp: result_elims)
    have e: "collected env cert subject n e"
      using Some r(2) ingest_references_ok [OF r(1)] entry_of_references [OF r(2)] by (auto simp: collected_def)
    from Cons.IH [OF map_ok_insert [OF Cons.prems(1)] r(3)] e Some show ?thesis
      by (auto simp: map_of_insert split: if_splits)
  qed
qed simp


section \<open>From the issuer to the recipient\<close>

definition sharable_laws :: "('c, 'b, 'k, 'd, 'w) sharable_env \<Rightarrow> bool" where
  "sharable_laws env \<longleftrightarrow>
     certificate_laws (sh_cert env) \<and> ContainerFacts.codec_laws (sh_box env) \<and> key_laws (sh_box env)
     \<and> (\<forall>c pem. certificate_to_pem (sh_cert env) c = Inr pem \<longrightarrow> certificate_from_pem (sh_cert env) pem = Inr c)
     \<and> (\<forall>c bs. sh_write env (contents_to_json c) = Inr bs \<longrightarrow>
          sh_parse env bs = Inr (contents_to_json c) \<and> (\<exists>r. bs = CHR ''{'' # r))"

text \<open>The public key in the certificate is the subject's.\<close>

definition subject_matches :: "('c, 'b, 'k, 'd, 'w) sharable_env \<Rightarrow> 'c kyc_certificate \<Rightarrow> 'k \<Rightarrow> bool" where
  "subject_matches env cert subject \<longleftrightarrow>
     (\<exists>v. subject_account env cert = Inr v \<and> signing_kind (account_kind (sh_cert env) v)
        \<and> key_public (kc_sensitive (sh_cert env)) v = key_public (kc_sensitive (sh_cert env)) subject)"

text \<open>What was put into the certificate under a name, as its schema decodes it.\<close>

definition issued_value :: "('c, 'b, 'k, 'd, 'w) cert_env \<Rightarrow> string \<Rightarrow> kyc_attribute_entry \<Rightarrow> bytes option" where
  "issued_value env name entry =
     Option.bind (ok (entry_to_oid (kc_oids env) name entry)) (\<lambda>i.
     Option.bind (ok (encode_value (kc_codec env) (oid_to_string (kc_oids env) i) (entry_bytes entry))) (\<lambda>encoded.
     ok (attribute_value_decode (kc_codec env) (oid_to_string (kc_oids env) i) encoded)))"

lemma get_only_built:
  assumes laws: "oid_tables_ok (kc_oids env)" and la: "list_all2 (built env keypair) entries (kc_attributes cert)"
    and got: "get_attribute env cert n = Some a"
  shows "\<exists>entry. (n, entry) \<in> set entries \<and> built env keypair (n, entry) a"
proof -
  let ?str = "oid_to_string (kc_oids env)"
  from got obtain j where j: "table_oid (kc_oids env) n j" "find_by_oid (kc_oids env) (?str j) (kc_attributes cert) = Some a"
    by (auto simp: get_attribute_def Let_def table_oid_def get_sensitive_attribute_oid_def get_plain_attribute_oid_def result_elims
        split: option.splits sum.splits)
  then obtain i where i: "i < length (kc_attributes cert)" "kc_attributes cert ! i = a" "?str (at_name a) = ?str j"
    by (auto simp: find_by_oid_def find_Some_iff)
  with la have b: "built env keypair (entries ! i) a" "i < length entries"
    by (auto simp: list_all2_conv_all_nth)
  from built_oid [OF b(1)] laws j(1) i(3) have "fst (entries ! i) = n" unfolding oid_tables_ok_def by blast
  with b show ?thesis by (metis nth_mem prod.collapse)
qed

lemma proof_eta: "\<lparr>pr_value = pr_value p, pr_hash = \<lparr>ph_salt = ph_salt (pr_hash p)\<rparr>\<rparr> = p"
  by (cases p; cases "pr_hash p") simp

lemma disclose_collected:
  assumes laws: "certificate_laws (sh_cert env)" and b: "built (sh_cert env) subject (name, entry) a"
    and got: "get_attribute (sh_cert env) cert name = Some a" and e: "collected env cert holder name e"
    and holds: "holds_key (kc_sensitive (sh_cert env)) holder subject"
    and v: "signing_kind (account_kind (sh_cert env) v)"
      "key_public (kc_sensitive (sh_cert env)) v = key_public (kc_sensitive (sh_cert env)) subject"
  shows "\<exists>d. disclose_attribute env cert v name e = Inr d
    \<and> Inr (da_value d) = encode_value (kc_codec (sh_cert env)) (oid_to_string (sh_oids env) (at_name a)) (entry_bytes entry)"
proof -
  from built_reads [OF laws b got] obtain encoded d where
    r: "encode_value (kc_codec (sh_cert env)) (oid_to_string (sh_oids env) (at_name a)) (entry_bytes entry) = Inr encoded"
      "reads_as (sh_cert env) cert subject holder name entry encoded d" by blast
  from e got have made: "entry_of env cert holder name a (ae_references e) = Some (Inr e)" by (auto simp: collected_def)
  have b64: "b64_decode (sh_oids env) (b64_encode (sh_oids env) x) = Some x" for x
    using laws unfolding certificate_laws_def sensitive_laws_def by blast
  show ?thesis
  proof (cases entry)
    case (EntryPlain x)
    with b r(1) have a: "at_value a = PlainValue encoded" by (auto simp: built_def)
    with made have "e = \<lparr>ae_sensitive = False, ae_value = PlainText (b64_encode (sh_oids env) encoded),
        ae_references = ae_references e\<rparr>"
      by (auto simp: entry_of_def is_sensitive_def attribute_bytes_def)
    then have "ae_sensitive e = False" "ae_value e = PlainText (b64_encode (sh_oids env) encoded)"
      by (metis attribute_entry.select_convs(1), metis attribute_entry.select_convs(2))
    with a got r(1) show ?thesis
      by (simp add: disclose_attribute_def is_sensitive_def attribute_bytes_def base64_bytes_def b64)
  next
    case (EntrySensitive x)
    with b have a: "is_sensitive a" by (auto simp: built_def is_sensitive_def)
    with made obtain p where p: "prove_subject_attribute env cert name holder = Some (Inr p)"
        "e = \<lparr>ae_sensitive = True, ae_value = ProofValue \<lparr>pj_value = pr_value p, pj_hash = \<lparr>phj_salt = ph_salt (pr_hash p)\<rparr>\<rparr>,
              ae_references = ae_references e\<rparr>"
      by (auto simp: entry_of_def result_elims)
    have es: "ae_sensitive e" "ae_value e = ProofValue \<lparr>pj_value = pr_value p, pj_hash = \<lparr>phj_salt = ph_salt (pr_hash p)\<rparr>\<rparr>"
      by (subst p(2), simp)+
    from p(1) have "prove_attribute (sh_cert env) cert name holder = Some (Inr p)"
      by (auto simp: prove_subject_attribute_def result_elims split: if_splits)
    with r(2) EntrySensitive v(2) holds have "b64_decode (sh_oids env) (pr_value p) = Some encoded"
        "validate_attribute_proof (sh_cert env) cert name v p = Inr True"
      by (auto simp: reads_as_def)
    then have "b64_decode (sh_oids env) (pr_value p) = Some encoded"
        "validate_attribute_proof (sh_cert env) cert name v \<lparr>pr_value = pr_value p, pr_hash = \<lparr>ph_salt = ph_salt (pr_hash p)\<rparr>\<rparr>
          = Inr True" by (simp_all add: proof_eta)
    then show ?thesis
      using a got r(1) v(1) es by (simp add: disclose_attribute_def base64_bytes_def validate_subject_proof_def)
  qed
qed

lemma disclose_all_Inr:
  assumes "\<forall>(n, e) \<in> set entries. \<exists>d. disclose_attribute env cert v n e = Inr d" "distinct (map fst entries)"
  shows "\<exists>out. disclose_all env cert v acc entries = Inr out
    \<and> (\<forall>n. map_of out n = (case map_of entries n of Some e \<Rightarrow> ok (disclose_attribute env cert v n e) | None \<Rightarrow> map_of acc n))"
  using assms
proof (induction entries arbitrary: acc)
  case (Cons ne entries)
  obtain n e where ne: "ne = (n, e)" by (cases ne)
  with Cons.prems obtain d where d: "disclose_attribute env cert v n e = Inr d" by auto
  from Cons.IH [of "map_insert n d acc"] Cons.prems obtain out where
    out: "disclose_all env cert v (map_insert n d acc) entries = Inr out"
      "\<forall>m. map_of out m = (case map_of entries m of Some e \<Rightarrow> ok (disclose_attribute env cert v m e)
          | None \<Rightarrow> map_of (map_insert n d acc) m)" by auto
  have "map_of entries n = None" using Cons.prems(2) ne by (auto simp: map_of_eq_None_iff)
  with ne d out show ?case by (auto simp: map_of_insert split: option.splits)
qed simp


text \<open>What the contents of a bundle, built over an issued certificate, open to.\<close>

lemma populated_of_contents:
  assumes laws: "sharable_laws env" and subject: "subject_matches env cert subject"
    and built: "list_all2 (built (sh_cert env) subject) entries (kc_attributes cert)"
    and whole: "kyc_certificate_new (sh_cert env) (kc_inner cert) = cert"
    and holds: "holds_key (kc_sensitive (sh_cert env)) holder subject"
    and collect: "collect_attributes env cert holder blobs [] names = Some (Inr attrs)"
    and chain: "encode_intermediates env intermediates = Inr pems"
    and pem: "certificate_to_pem (sh_cert env) (kc_inner cert) = Inr pem"
    and written: "sh_write env (contents_to_json
      \<lparr>cj_certificate = pem, cj_intermediates = pems, cj_attributes = attrs\<rparr>) = Inr data"
  shows "\<exists>p. populated_of env data = Inr p \<and> po_certificate p = cert \<and> po_intermediates p = intermediates
    \<and> (\<forall>name. case map_of (po_attributes p) name of
         None \<Rightarrow> name \<notin> set names \<or> get_attribute (sh_cert env) cert name = None
       | Some d \<Rightarrow> name \<in> set names \<and> (\<exists>a entry. (name, entry) \<in> set entries
           \<and> get_attribute (sh_cert env) cert name = Some a \<and> built (sh_cert env) subject (name, entry) a
           \<and> Inr (da_value d) = encode_value (kc_codec (sh_cert env)) (oid_to_string (sh_oids env) (at_name a)) (entry_bytes entry)))"
proof -
  let ?c = "\<lparr>cj_certificate = pem, cj_intermediates = pems, cj_attributes = attrs\<rparr>"
  note l = laws [unfolded sharable_laws_def]
  have cl: "certificate_laws (sh_cert env)" and tables: "oid_tables_ok (sh_oids env)"
    using l unfolding certificate_laws_def by blast+
  from collect_attributes_Inr [OF map_ok_Nil collect] have attrs: "map_ok attrs"
    "\<And>name. if name \<in> set names \<and> get_attribute (sh_cert env) cert name \<noteq> None
       then \<exists>e. map_of attrs name = Some e \<and> collected env cert holder name e else map_of attrs name = None" by simp_all
  have member: "name \<in> set names \<and> collected env cert holder name e" if "map_of attrs name = Some e" for name e
    using attrs(2) [of name] that by (auto split: if_splits)
  have entry: "map_of attrs name = Some e" if "(name, e) \<in> set attrs" for name e
    using that map_ok_distinct [OF attrs(1)] by simp
  have "contents_ok ?c"
    using attrs(1) member [OF entry] by (auto simp: contents_ok_def collected_def)
  moreover from l written obtain r where data: "sh_parse env data = Inr (contents_to_json ?c)" "data = CHR ''{'' # r" by blast
  ultimately have payload: "from_slice (sh_parse env) decode_contents data = Inr ?c"
    by (simp add: from_slice_def decode_contents_to_json)
  have inflate: "maybe_inflate (sh_box env) data = data" by (simp add: maybe_inflate_def data(2) ZLIB_MAGIC_def)
  have leaf: "certificate_from_pem (sh_cert env) pem = Inr (kc_inner cert)" using l pem by blast
  have ints: "mapM_result (\<lambda>pem. map_err ShX509 (certificate_from_pem (sh_cert env) pem))
      (case pems of Some ps \<Rightarrow> ps | None \<Rightarrow> []) = Inr intermediates"
  proof -
    have "mapM_result (\<lambda>pem. map_err ShX509 (certificate_from_pem (sh_cert env) pem)) ps = Inr cs"
      if "mapM_result (\<lambda>c. map_err ShX509 (certificate_to_pem (sh_cert env) c)) cs = Inr ps" for cs ps
      using that l by (induction cs arbitrary: ps) (auto simp: result_elims)
    with chain show ?thesis by (auto simp: encode_intermediates_def result_elims split: if_splits)
  qed
  from subject obtain v where v: "subject_account env cert = Inr v" "signing_kind (account_kind (sh_cert env) v)"
      "key_public (kc_sensitive (sh_cert env)) v = key_public (kc_sensitive (sh_cert env)) subject"
    unfolding subject_matches_def by blast
  have good: "\<exists>a entry d. (name, entry) \<in> set entries \<and> get_attribute (sh_cert env) cert name = Some a
      \<and> built (sh_cert env) subject (name, entry) a \<and> disclose_attribute env cert v name e = Inr d
      \<and> Inr (da_value d) = encode_value (kc_codec (sh_cert env)) (oid_to_string (sh_oids env) (at_name a)) (entry_bytes entry)"
    if "map_of attrs name = Some e" for name e
  proof -
    from member [OF that] have c: "collected env cert holder name e" by simp
    then obtain a where a: "get_attribute (sh_cert env) cert name = Some a" by (auto simp: collected_def)
    from get_only_built [OF tables built a] obtain entry where
      en: "(name, entry) \<in> set entries" "built (sh_cert env) subject (name, entry) a" by blast
    from disclose_collected [OF cl en(2) a c holds v(2,3)] a en show ?thesis by blast
  qed
  have "\<forall>(n, e) \<in> set attrs. \<exists>d. disclose_attribute env cert v n e = Inr d" using good [OF entry] by blast
  from disclose_all_Inr [OF this map_ok_distinct [OF attrs(1)], of "[]"] obtain out where
    out: "disclose_all env cert v [] attrs = Inr out"
      "\<And>n. map_of out n = (case map_of attrs n of Some e \<Rightarrow> ok (disclose_attribute env cert v n e) | None \<Rightarrow> None)"
    by (auto cong: option.case_cong)
  have "populated_of env data = Inr \<lparr>po_certificate = cert, po_intermediates = intermediates, po_attributes = out\<rparr>"
    using payload inflate leaf ints v(1) out(1) whole by (simp add: populated_of_def Let_def)
  moreover have "case map_of out name of
         None \<Rightarrow> name \<notin> set names \<or> get_attribute (sh_cert env) cert name = None
       | Some d \<Rightarrow> name \<in> set names \<and> (\<exists>a entry. (name, entry) \<in> set entries
           \<and> get_attribute (sh_cert env) cert name = Some a \<and> built (sh_cert env) subject (name, entry) a
           \<and> Inr (da_value d) = encode_value (kc_codec (sh_cert env)) (oid_to_string (sh_oids env) (at_name a)) (entry_bytes entry))" for name
  proof (cases "map_of attrs name")
    case None
    with attrs(2) [of name] out(2) [of name] show ?thesis by (auto split: if_splits)
  next
    case (Some e)
    from good [OF Some] obtain a entry d where g: "(name, entry) \<in> set entries" "get_attribute (sh_cert env) cert name = Some a"
      "built (sh_cert env) subject (name, entry) a" "disclose_attribute env cert v name e = Inr d"
      "Inr (da_value d) = encode_value (kc_codec (sh_cert env)) (oid_to_string (sh_oids env) (at_name a)) (entry_bytes entry)" by blast
    with Some out(2) [of name] have "map_of out name = Some d" by (simp add: ok_def)
    with g member [OF Some] show ?thesis by auto
  qed
  ultimately show ?thesis by (intro exI [of _ "\<lparr>po_certificate = cert, po_intermediates = intermediates, po_attributes = out\<rparr>"]) simp
qed


lemma get_plaintext_populated:
  assumes "fst (get_plaintext (sh_box env) d) = Inr data" "populated_of env data = Inr p"
  shows "fst (reading env f \<lparr>sca_container = d, sca_populated = None\<rparr>) = f p"
  using assms by (cases "get_plaintext (sh_box env) d")
    (simp add: reading_def get_populated_def compute_populated_def)

lemma value_in_populated:
  assumes laws: "certificate_laws (sh_cert env)"
    and la: "list_all2 (built (sh_cert env) subject) entries (kc_attributes cert)"
    and once: "distinct (map fst entries)" and whole: "po_certificate p = cert"
    and listed: "case map_of (po_attributes p) name of
         None \<Rightarrow> name \<notin> set names \<or> get_attribute (sh_cert env) cert name = None
       | Some d \<Rightarrow> name \<in> set names \<and> (\<exists>a entry. (name, entry) \<in> set entries
           \<and> get_attribute (sh_cert env) cert name = Some a \<and> built (sh_cert env) subject (name, entry) a
           \<and> Inr (da_value d) = encode_value (kc_codec (sh_cert env)) (oid_to_string (sh_oids env) (at_name a)) (entry_bytes entry))"
  shows "value_in env name p = Inr (if name \<in> set names
      then Option.bind (map_of entries name) (issued_value (sh_cert env) name) else None)"
proof (cases "map_of (po_attributes p) name")
  case None
  have "map_of entries name = None" if "name \<in> set names"
  proof (rule ccontr)
    assume "map_of entries name \<noteq> None"
    then obtain entry where "(name, entry) \<in> set entries" by (auto dest: map_of_SomeD)
    from get_built [OF laws la once this] listed None that show False by auto
  qed
  with None show ?thesis by (simp add: value_in_def)
next
  case (Some disclosed)
  with listed obtain a entry where g: "name \<in> set names" "(name, entry) \<in> set entries"
      "get_attribute (sh_cert env) cert name = Some a" "built (sh_cert env) subject (name, entry) a"
      "encode_value (kc_codec (sh_cert env)) (oid_to_string (sh_oids env) (at_name a)) (entry_bytes entry) = Inr (da_value disclosed)"
    by (auto dest: sym)
  have "map_of entries name = Some entry" using g(2) once by simp
  moreover have "entry_to_oid (sh_oids env) name entry = Inr (at_name a)" using g(4) by (auto simp: built_def)
  moreover obtain v where "attribute_value_decode (kc_codec (sh_cert env)) (oid_to_string (sh_oids env) (at_name a))
      (da_value disclosed) = Inr v" using decode_total by blast
  ultimately show ?thesis using Some g whole by (simp add: value_in_def issued_value_def ok_def)
qed

text \<open>C8. From the issuer to the recipient: of a bundle that a holder of the subject's private key built over
  an issued certificate, granted to recipients and exported, a recipient reads the certificate itself and
  under every name the holder chose the value the issuer put in, sensitive or plain, as its schema decodes
  it, and under every other name nothing. The issuer needs the subject's public key only.\<close>

theorem shared_values_reach_recipient:
  assumes laws: "sharable_laws env" and "shows_extension (sh_cert env) (cb_inner b)" "map_ok (cb_attributes b)"
    and issue: "cb_attributes b \<noteq> []" "build_certificate (sh_cert env) b subject issuer w0 = (Inr cert, w1)"
    and matches: "subject_matches env cert subject"
    and holds: "holds_key (kc_sensitive (sh_cert env)) holder subject"
    and share: "from_certificate env cert holder names options w2 = Some (Inr s, w3)"
    and grant: "sharable_grant_access env recipients s = (Inr (), s')"
    and exported: "export env s' w4 = (Inr bs, s'', w5)"
    and reader: "has_private_key (sh_box env) r" "public_key (sh_box env) r \<in> public_key (sh_box env) ` set recipients"
  shows "\<exists>t. sharable_from_encoded env bs [r] = Inr t \<and> fst (sharable_certificate env t) = Inr cert
    \<and> (\<forall>name. fst (sharable_attribute_value env name t) =
         Inr (if name \<in> set names then Option.bind (map_of (cb_attributes b) name) (issued_value (sh_cert env) name) else None))"
proof -
  note l = laws [unfolded sharable_laws_def]
  have cl: "certificate_laws (sh_cert env)" and boxl: "ContainerFacts.codec_laws (sh_box env)" "key_laws (sh_box env)"
    using l by blast+
  note bt = build_certificate_built [OF cl assms(2) issue]
  from issue obtain c where "cert = kyc_certificate_new (sh_cert env) c"
    by (auto simp: build_certificate_def result_elims split: list.splits prod.splits sum.splits)
  then have whole: "kyc_certificate_new (sh_cert env) (kc_inner cert) = cert" by (simp add: kyc_certificate_new_def)
  from share obtain got where got: "collect_attributes env cert holder (fo_blobs options) [] names = Some got"
    by (auto simp: from_certificate_def split: option.splits)
  with share obtain attrs pems pem data where made: "got = Inr attrs"
      "encode_intermediates env (fo_intermediates options) = Inr pems"
      "certificate_to_pem (sh_cert env) (kc_inner cert) = Inr pem"
      "sh_write env (contents_to_json \<lparr>cj_certificate = pem, cj_intermediates = pems, cj_attributes = attrs\<rparr>) = Inr data"
      "(case seal_with_transient_principal env data w2 of (result, w) \<Rightarrow>
         (bindR result (\<lambda>container. Inr \<lparr>sca_container = container, sca_populated = None\<rparr>), w)) = (Inr s, w3)"
    by (auto simp: from_certificate_def result_elims split: sum.splits prod.splits)
  then obtain con where con: "seal_with_transient_principal env data w2 = (Inr con, w3)"
      "s = \<lparr>sca_container = con, sca_populated = None\<rparr>"
    by (auto simp: result_elims split: prod.splits)
  from populated_of_contents [OF laws matches bt whole holds got [unfolded made(1)] made(2-4)] obtain p where
    p: "populated_of env data = Inr p" "po_certificate p = cert"
      "\<And>name. case map_of (po_attributes p) name of
         None \<Rightarrow> name \<notin> set names \<or> get_attribute (sh_cert env) cert name = None
       | Some d \<Rightarrow> name \<in> set names \<and> (\<exists>a entry. (name, entry) \<in> set (cb_attributes b)
           \<and> get_attribute (sh_cert env) cert name = Some a \<and> built (sh_cert env) subject (name, entry) a
           \<and> Inr (da_value d) = encode_value (kc_codec (sh_cert env)) (oid_to_string (sh_oids env) (at_name a)) (entry_bytes entry))"
    by blast
  from shared_opens [OF boxl con(1) grant [unfolded con(2)] exported reader] obtain d where
    d: "sharable_from_encoded env bs [r] = Inr \<lparr>sca_container = d, sca_populated = None\<rparr>"
      "fst (get_plaintext (sh_box env) d) = Inr data" by blast
  note reads = get_plaintext_populated [OF d(2) p(1)]
  have "value_in env name p = Inr (if name \<in> set names
      then Option.bind (map_of (cb_attributes b) name) (issued_value (sh_cert env) name) else None)" for name
    by (rule value_in_populated [OF cl bt map_ok_distinct [OF assms(3)] p(2) p(3)])
  with d(1) p(2) show ?thesis
    by (intro exI [of _ "\<lparr>sca_container = d, sca_populated = None\<rparr>"])
      (simp add: sharable_certificate_def sharable_attribute_value_def reads)
qed


section \<open>What a bundle discloses\<close>

text \<open>C9. Whatever a bundle contains, its reader only gets what its certificate commits to: a disclosed
  attribute is one of the certificate, with its sensitivity; a plain one is the certificate's value, a
  sensitive one comes with a proof that validates against the public key in the certificate, or it is
  the ciphertext of the certificate itself.\<close>

theorem disclosed_is_certified:
  assumes "sca_populated s = None" "get_populated env s = (Inr p, s')" "map_of (po_attributes p) name = Some d"
  shows "\<exists>a v. get_attribute (sh_cert env) (po_certificate p) name = Some a \<and> da_sensitive d = is_sensitive a
    \<and> subject_account env (po_certificate p) = Inr v
    \<and> (da_value d = attribute_bytes a
       \<or> (is_sensitive a \<and> (\<exists>pr. b64_decode (sh_oids env) (pr_value pr) = Some (da_value d)
            \<and> validate_attribute_proof (sh_cert env) (po_certificate p) name v pr = Inr True)))"
proof -
  from assms(1,2) obtain data where "populated_of env data = Inr p"
    by (auto simp: get_populated_def compute_populated_def result_elims split: prod.splits sum.splits)
  then obtain entries v where v: "subject_account env (po_certificate p) = Inr v"
      "disclose_all env (po_certificate p) v [] entries = Inr (po_attributes p)"
    by (auto simp: populated_of_def Let_def result_elims)
  have all: "\<forall>n d. map_of out n = Some d \<longrightarrow> map_of acc n = Some d \<or> (\<exists>e. disclose_attribute env cert v n e = Inr d)"
    if "disclose_all env cert v acc entries = Inr out" for cert acc entries out
    using that
  proof (induction entries arbitrary: acc)
    case (Cons ne entries)
    obtain n e where ne: "ne = (n, e)" by (cases ne)
    with Cons.prems obtain x where x: "disclose_attribute env cert v n e = Inr x"
        "disclose_all env cert v (map_insert n x acc) entries = Inr out" by (auto simp: result_elims)
    from Cons.IH [OF x(2)] x(1) show ?case by (auto simp: map_of_insert split: if_splits)
  qed simp
  from all [OF v(2)] assms(3) obtain e where e: "disclose_attribute env (po_certificate p) v name e = Inr d" by auto
  then obtain a where a: "get_attribute (sh_cert env) (po_certificate p) name = Some a" "is_sensitive a = ae_sensitive e"
    by (auto simp: disclose_attribute_def result_elims split: if_splits)
  have proved: "is_sensitive a" if "validate_attribute_proof (sh_cert env) (po_certificate p) name v pr = Inr True" for pr
    using that a(1) by (auto simp: validate_attribute_proof_def sensitive_attribute_of_def find_attribute_def
        assert_attribute_is_sensitive_def validate_attribute_sensitivity_def result_elims split: if_splits)
  show ?thesis
  proof (cases "ae_value e")
    case (PlainText encoded)
    with e a have "da_value d = attribute_bytes a" "da_sensitive d = ae_sensitive e"
      by (auto simp: disclose_attribute_def result_elims split: if_splits)
    with a v(1) show ?thesis by auto
  next
    case (ProofValue j)
    let ?pr = "\<lparr>pr_value = pj_value j, pr_hash = \<lparr>ph_salt = phj_salt (pj_hash j)\<rparr>\<rparr>"
    from ProofValue e a have "da_sensitive d = ae_sensitive e" "b64_decode (sh_oids env) (pr_value ?pr) = Some (da_value d)"
        "validate_attribute_proof (sh_cert env) (po_certificate p) name v ?pr = Inr True"
      by (auto simp: disclose_attribute_def base64_bytes_def validate_subject_proof_def result_elims split: if_splits)
    with a v(1) proved show ?thesis by blast
  qed
qed

text \<open>The last case does occur: a bundle whose builder puts the ciphertext of a sensitive attribute where
  the proof belongs is accepted, and its reader gets the ciphertext for the plaintext.\<close>

lemma ciphertext_accepted:
  assumes "get_attribute (sh_cert env) cert name = Some a" "is_sensitive a"
    and "b64_decode (sh_oids env) text' = Some (attribute_bytes a)"
  shows "disclose_attribute env cert v name \<lparr>ae_sensitive = True, ae_value = PlainText text', ae_references = refs\<rparr>
    = Inr \<lparr>da_sensitive = True, da_value = attribute_bytes a, da_references = refs\<rparr>"
  using assms by (simp add: disclose_attribute_def base64_bytes_def)

section \<open>A concrete bundle\<close>

abbreviation toy_contents :: contents_json where
  "toy_contents \<equiv> \<lparr>cj_certificate = ''1'', cj_intermediates = None,
     cj_attributes =
       [(''email'', \<lparr>ae_sensitive = True,
          ae_value = ProofValue \<lparr>pj_value = CHR 0x0C # ''a'', pj_hash = \<lparr>phj_salt = ''0''\<rparr>\<rparr>, ae_references = []\<rparr>),
        (''postalCode'', \<lparr>ae_sensitive = False, ae_value = PlainText (CHR 0x0C # ''12345''), ae_references = []\<rparr>)]\<rparr>"

definition toy_box_package :: container_package where
  "toy_box_package = \<lparr>pkg_version = 1,
     pkg_container = BoxEncrypted \<lparr>eb_keys = toy_keys [''a''], eb_algorithm = [7], eb_iv = replicate 16 (CHR ''k''), eb_value = ''{''\<rparr>,
     pkg_signer_info = None\<rparr>"

definition toy_box :: "(string \<times> bool, nat) container_env" where
  "toy_box = toy_container\<lparr>encode_package := (\<lambda>pkg. if pkg = toy_box_package then Inr ''box'' else Inl []),
     decode_package := (\<lambda>b. if b = ''box'' then Inr toy_box_package else Inl [])\<rparr>"

definition toy_sharable_env :: "(bytes, bytes, string \<times> bool, bool, nat) sharable_env" where
  "toy_sharable_env =
     \<lparr>sh_cert = cert_env_on fst snd (\<lambda>t. if t = ''{'' then Inr (contents_to_json toy_contents) else Inl [])
        (\<lambda>v. if v = contents_to_json toy_contents then Inr ''{'' else Inl []),
      sh_box = toy_box,
      subject_public_key = (\<lambda>_. Inr \<lparr>pk_algorithm = [1, 3, 101, 112], pk_parameters = None, pk_raw = ''s''\<rparr>),
      decode_oid = (\<lambda>_. Inl []), public_account = (\<lambda>raw _. Inr (raw, False)),
      generate_random_seed = (\<lambda>w. (Inr [], w)), account_from_seed = (\<lambda>_. Inr toy_alice),
      oid_ed25519 = [1, 3, 101, 112], oid_ec_public_key = [1, 2], oid_secp256k1 = [1, 3], oid_secp256r1 = [1, 4]\<rparr>"

lemma toy_box_laws: "ContainerFacts.codec_laws toy_box" "key_laws toy_box"
  by (auto simp: toy_box_def ContainerFacts.codec_laws_def aes_iv_len_def key_laws_def opens_with_def
      account_from_public_key_def split: if_splits)

lemma toy_sharable_laws: "sharable_laws toy_sharable_env"
  unfolding sharable_laws_def toy_sharable_env_def sharable_env.select_convs
  by (intro conjI toy_certificate_laws toy_box_laws) (auto simp: cert_env_on_def codec_env_on_def split: if_splits)


lemma toy_box_sels [simp]:
  "zlib_compress toy_box = (\<lambda>_ b. b)" "zlib_decompress toy_box = Some"
  "aes_encrypt toy_box = (\<lambda>_ iv c. Inr (iv @ c))" "aes_decrypt toy_box = (\<lambda>_ x. Inr (drop 16 x))"
  "wrap_key toy_box = (\<lambda>_ k w. (Inr k, w))" "public_key toy_box = fst" "has_private_key toy_box = snd"
  "unwrap_key toy_box = (\<lambda>a x. if snd a then Inr x else Inl ''public key only'')"
  "random_seed toy_box = (\<lambda>w. (Inr (replicate 32 (CHR ''k'')), Suc w))"
  "oid_aes_256_cbc toy_box = [7]" "oid_sha3_256 toy_box = [9]"
  "encode_package toy_box pkg = (if pkg = toy_box_package then Inr ''box'' else Inl [])"
  "decode_package toy_box b = (if b = ''box'' then Inr toy_box_package else Inl [])"
  by (simp_all add: toy_box_def)

lemmas toy_box_eval = container_new_def get_encoded_def compute_encoded_def encode_encrypted_def random_material_def
  aes_iv_len_def encode_def compress_def zlib_level_def seal_body_def container_version_def toy_box_package_def toy_keys_def Let_def

lemma toy_box_encoded:
  assumes "sealed c" "principals c = [toy_alice]" "signer c = None" "cached_plaintext c = Some ''{''" "cached_encoded c = None"
  shows "\<exists>c'. get_encoded toy_box c w = (Inr ''box'', c', Suc (Suc w))"
  using assms by (simp add: toy_box_eval)


lemma toy_sharable_sels [simp]:
  "sh_box toy_sharable_env = toy_box" "generate_random_seed toy_sharable_env = (\<lambda>w. (Inr [], w))"
  "account_from_seed toy_sharable_env = (\<lambda>_. Inr toy_alice)" "sh_oids toy_sharable_env = toy_oid_env"
  "sh_write toy_sharable_env v = (if v = contents_to_json toy_contents then Inr ''{'' else Inl [])"
  "certificate_to_pem (sh_cert toy_sharable_env) = Inr"
  by (simp_all add: toy_sharable_env_def cert_env_on_def sensitive_env_on_def codec_env_on_def)

abbreviation toy_cert :: "bytes kyc_certificate" where
  "toy_cert \<equiv> kyc_certificate_new (sh_cert toy_sharable_env) ''1''"

lemma toy_cert: "kc_inner toy_cert = ''1''" "kc_attributes toy_cert = [email_entry, postal_entry]"
  by (simp_all add: kyc_certificate_new_def parse_kyc_attributes_def) (simp add: toy_sharable_env_def cert_env_on_def)

lemma toy_cert_attribute:
  "get_attribute (sh_cert toy_sharable_env) toy_cert ''postalCode'' = Some postal_entry"
  "get_attribute (sh_cert toy_sharable_env) toy_cert ''email'' = Some email_entry"
proof -
  have p: "get_sensitive_attribute_oid toy_oid_env ''postalCode'' = Inl (InvalidOid (''Unknown sensitive attribute: '' @ ''postalCode''))"
    "get_plain_attribute_oid toy_oid_env ''postalCode'' = Inr [2, 5, 5, 17]"
    "get_sensitive_attribute_oid toy_oid_env ''email'' = Inr [1, 3, 6, 1, 4, 1, 62675, 1, 3]"
    by (simp_all add: get_sensitive_attribute_oid_def get_plain_attribute_oid_def toy_oid_env_def)
  have n: "oid_to_string toy_oid_env [1, 3, 6, 1, 4, 1, 62675, 1, 3] \<noteq> oid_to_string toy_oid_env [2, 5, 5, 17]"
    by (simp add: toy_oid_env_def show_nat.simps)
  show "get_attribute (sh_cert toy_sharable_env) toy_cert ''postalCode'' = Some postal_entry"
    using n by (simp add: get_attribute_def toy_cert(2) find_by_oid_def p) (simp add: postal_entry_def email_entry_def)
  show "get_attribute (sh_cert toy_sharable_env) toy_cert ''email'' = Some email_entry"
    by (simp add: get_attribute_def toy_cert(2) find_by_oid_def p) (simp add: email_entry_def)
qed

lemma toy_kinds: "is_sensitive email_entry" "\<not> is_sensitive postal_entry"
  "attribute_bytes postal_entry = CHR 0x0C # ''12345''" "attribute_bytes email_entry = ''2''"
  by (simp_all add: email_entry_def postal_entry_def is_sensitive_def attribute_bytes_def)

text \<open>The proof of the email: the subject makes it with its private key, and it validates under its public key.\<close>

lemma toy_proof:
  "prove_subject_attribute toy_sharable_env toy_cert ''email'' (''s'', True)
    = Some (Inr \<lparr>pr_value = CHR 0x0C # ''a'', pr_hash = \<lparr>ph_salt = ''0''\<rparr>\<rparr>)"
  "validate_subject_proof toy_sharable_env toy_cert ''email'' (''s'', False)
      \<lparr>pr_value = CHR 0x0C # ''a'', pr_hash = \<lparr>ph_salt = ''0''\<rparr>\<rparr> = Inr True"
proof -
  have env: "kc_sensitive (sh_cert toy_sharable_env) = sensitive_env_on fst snd" "account_kind (sh_cert toy_sharable_env) = (\<lambda>_. ED25519)"
    by (simp_all add: toy_sharable_env_def cert_env_on_def)
  have of: "sensitive_attribute_of (sh_cert toy_sharable_env) toy_cert ''email'' = Inr (email_entry, toy_sealed_text)"
    by (simp add: sensitive_attribute_of_def find_attribute_def toy_cert_attribute assert_attribute_is_sensitive_def
        validate_attribute_sensitivity_def toy_kinds env) (simp add: sensitive_env_on_def)
  show "prove_subject_attribute toy_sharable_env toy_cert ''email'' (''s'', True)
    = Some (Inr \<lparr>pr_value = CHR 0x0C # ''a'', pr_hash = \<lparr>ph_salt = ''0''\<rparr>\<rparr>)"
    by (simp add: prove_subject_attribute_def env prove_attribute_def of map_errP_def)
      (simp add: to_proof_def decrypt_sensitive_def assert_valid_version_def setup_cipher_for_decryption_def
        sensitive_env_on_def toy_sealed_text_def gcm_new_def nonce_from_slice_def toy_oid_env_def)
  show "validate_subject_proof toy_sharable_env toy_cert ''email'' (''s'', False)
      \<lparr>pr_value = CHR 0x0C # ''a'', pr_hash = \<lparr>ph_salt = ''0''\<rparr>\<rparr> = Inr True"
    by (simp add: validate_subject_proof_def env validate_attribute_proof_def of)
      (simp add: validate_proof_def sensitive_env_on_def toy_sealed_text_def toy_oid_env_def create_hash_input_def)
qed

lemma toy_box_parse: "parse toy_box ''box'' = Inr \<lparr>bare_body = EncryptedBody
    \<lparr>body_stores = toy_keys [''a''], body_iv = replicate 16 (CHR ''k''), body_ciphertext = ''{''\<rparr>, bare_signer_info = None\<rparr>"
  by (simp add: parse_def)
    (simp add: toy_box_package_def version_u64_def container_version_def assert_cipher_supported_def require_def)

lemma toy_box_read:
  "from_encrypted toy_box ''box'' [toy_alice] = Inr \<lparr>sealed = True, principals = [toy_alice], may_access_plaintext = True,
     signer = None, parsed_signer_info = None, cached_plaintext = None, cached_encoded = Some ''box''\<rparr>"
  by (simp add: from_encrypted_def compute_and_set_key_info_def set_encoded_def container_new_def toy_box_parse toy_keys_def
      swap_remove_def)

abbreviation toy_con :: "(string \<times> bool) list \<Rightarrow> (string \<times> bool) container" where
  "toy_con ps \<equiv> \<lparr>sealed = True, principals = ps, may_access_plaintext = True, signer = None, parsed_signer_info = None,
     cached_plaintext = Some ''{'', cached_encoded = None\<rparr>"

lemma toy_sealed: "seal_with_transient_principal toy_sharable_env ''{'' 0 = (Inr (toy_con []), 2)"
proof -
  obtain c where "get_encoded toy_box (from_plaintext ''{'' (Some [toy_alice]) \<lparr>opt_locked = Some True, opt_signer = None\<rparr>) 0
      = (Inr ''box'', c, Suc (Suc 0))"
    using toy_box_encoded [of "from_plaintext ''{'' (Some [toy_alice]) \<lparr>opt_locked = Some True, opt_signer = None\<rparr>" 0]
    by (auto simp: from_plaintext_def container_new_def disable_plaintext_def set_plaintext_def)
  moreover have "revoke_access toy_box ''a'' \<lparr>sealed = True, principals = [toy_alice], may_access_plaintext = True,
     signer = None, parsed_signer_info = None, cached_plaintext = None, cached_encoded = Some ''box''\<rparr> = (Inr (), toy_con [])"
    by (simp add: revoke_access_def compute_plaintext_def decode_from_encoded_def compute_and_set_key_info_def toy_box_parse
        toy_keys_def swap_remove_def decode_body_def decrypt_body_def or_decryption_failed_def decompress_def
        assert_access_management_allowed_def)
  ultimately show ?thesis
    by (auto simp: seal_with_transient_principal_def generate_transient_account_def toy_box_read)
qed

lemma toy_shared:
  "from_certificate toy_sharable_env toy_cert (''s'', True) [''email'', ''postalCode''] \<lparr>fo_intermediates = [], fo_blobs = []\<rparr> 0
    = Some (Inr \<lparr>sca_container = toy_con [], sca_populated = None\<rparr>, 2)"
proof -
  have "collect_attributes toy_sharable_env toy_cert (''s'', True) [] [] [''email'', ''postalCode'']
      = Some (Inr (cj_attributes toy_contents))"
    by (simp add: toy_cert_attribute ingest_references_def blobs_empty_def entry_of_def toy_kinds toy_proof)
      (simp add: toy_oid_env_def)
  then show ?thesis
    by (simp add: from_certificate_def encode_intermediates_def toy_cert(1) toy_sealed del: collect_attributes.simps)
qed

text \<open>The recipient reads the sensitive email and the postal code of a certificate that was issued to the
  subject's public key.\<close>

theorem shared_values_reach_recipient_witness:
  "\<exists>t. sharable_from_encoded toy_sharable_env ''box'' [toy_alice] = Inr t \<and> fst (sharable_certificate toy_sharable_env t) = Inr toy_cert
    \<and> fst (sharable_attribute_value toy_sharable_env ''email'' t) = Inr (Some ''a'')
    \<and> fst (sharable_attribute_value toy_sharable_env ''postalCode'' t) = Inr (Some ''12345'')
    \<and> fst (sharable_attribute_value toy_sharable_env ''phone'' t) = Inr None"
proof -
  have b: "shows_extension (sh_cert toy_sharable_env) (cb_inner example_builder)" "map_ok (cb_attributes example_builder)"
      "cb_attributes example_builder \<noteq> []"
    by (simp_all add: shows_extension_def example_builder map_ok_def) (simp add: toy_sharable_env_def cert_env_on_def)
  have i: "build_certificate (sh_cert toy_sharable_env) example_builder (''s'', False) (''i'', True) 0 = (Inr toy_cert, 3)"
    by (simp add: toy_sharable_env_def example_build)
  have m: "subject_matches toy_sharable_env toy_cert (''s'', False)"
    by (simp add: subject_matches_def subject_account_def subject_key_type_def toy_sharable_env_def cert_env_on_def sensitive_env_on_def)
  have k: "holds_key (kc_sensitive (sh_cert toy_sharable_env)) (''s'', True) (''s'', False)"
    by (simp add: toy_sharable_env_def cert_env_on_def toy_holds_key)
  have g: "sharable_grant_access toy_sharable_env [toy_alice] \<lparr>sca_container = toy_con [], sca_populated = None\<rparr>
      = (Inr (), \<lparr>sca_container = toy_con [toy_alice], sca_populated = None\<rparr>)"
    by (simp add: sharable_grant_access_def grant_cached)
  obtain c where "get_encoded toy_box (toy_con [toy_alice]) 0 = (Inr ''box'', c, Suc (Suc 0))"
    using toy_box_encoded [of "toy_con [toy_alice]" 0] by auto
  then have e: "export toy_sharable_env \<lparr>sca_container = toy_con [toy_alice], sca_populated = None\<rparr> 0
      = (Inr ''box'', \<lparr>sca_container = c, sca_populated = None\<rparr>, Suc (Suc 0))"
    by (simp add: export_def get_principals_def)
  have r: "has_private_key (sh_box toy_sharable_env) toy_alice"
      "public_key (sh_box toy_sharable_env) toy_alice \<in> public_key (sh_box toy_sharable_env) ` set [toy_alice]" by simp_all
  have env: "kc_codec (sh_cert toy_sharable_env) = codec_env_on (\<lambda>t. if t = ''{'' then Inr (contents_to_json toy_contents) else Inl [])
        (\<lambda>v. if v = contents_to_json toy_contents then Inr ''{'' else Inl [])"
    by (simp add: toy_sharable_env_def cert_env_on_def)
  have values': "issued_value (sh_cert toy_sharable_env) ''email'' (EntrySensitive ''a'') = Some ''a''"
      "issued_value (sh_cert toy_sharable_env) ''postalCode'' (EntryPlain ''12345'') = Some ''12345''"
    by (simp_all add: issued_value_def example_oids example_encode example_decode env ok_def del: One_nat_def)
  from shared_values_reach_recipient [OF toy_sharable_laws b i m k toy_shared g e r] obtain t where
    "sharable_from_encoded toy_sharable_env ''box'' [toy_alice] = Inr t" "fst (sharable_certificate toy_sharable_env t) = Inr toy_cert"
    and reads: "\<And>name. fst (sharable_attribute_value toy_sharable_env name t) =
         Inr (if name \<in> set [''email'', ''postalCode'']
              then Option.bind (map_of (cb_attributes example_builder) name) (issued_value (sh_cert toy_sharable_env) name) else None)"
    by blast
  with reads [of "''email''"] reads [of "''postalCode''"] reads [of "''phone''"] show ?thesis
    by (intro exI [of _ t]) (simp add: example_builder values')
qed


abbreviation toy_disclosed :: "(string \<times> disclosed_attribute) list" where
  "toy_disclosed \<equiv>
     [(''email'', \<lparr>da_sensitive = True, da_value = CHR 0x0C # ''a'', da_references = []\<rparr>),
      (''postalCode'', \<lparr>da_sensitive = False, da_value = CHR 0x0C # ''12345'', da_references = []\<rparr>)]"

lemma toy_populated:
  "get_populated toy_sharable_env \<lparr>sca_container = toy_con [toy_alice], sca_populated = None\<rparr>
    = (Inr \<lparr>po_certificate = toy_cert, po_intermediates = [], po_attributes = toy_disclosed\<rparr>,
       \<lparr>sca_container = toy_con [toy_alice],
        sca_populated = Some \<lparr>po_certificate = toy_cert, po_intermediates = [], po_attributes = toy_disclosed\<rparr>\<rparr>)"
proof -
  have "from_slice (sh_parse toy_sharable_env) decode_contents ''{'' = Inr toy_contents"
    using decode_contents_to_json [of toy_contents]
    by (simp add: from_slice_def contents_ok_def map_ok_def) (simp add: toy_sharable_env_def cert_env_on_def codec_env_on_def)
  moreover have "certificate_from_pem (sh_cert toy_sharable_env) = Inr" by (simp add: toy_sharable_env_def cert_env_on_def)
  moreover have "subject_account toy_sharable_env toy_cert = Inr (''s'', False)"
    by (simp add: subject_account_def subject_key_type_def toy_sharable_env_def)
  moreover have "disclose_attribute toy_sharable_env toy_cert v ''postalCode''
      \<lparr>ae_sensitive = False, ae_value = PlainText (CHR 0x0C # ''12345''), ae_references = []\<rparr>
      = Inr \<lparr>da_sensitive = False, da_value = CHR 0x0C # ''12345'', da_references = []\<rparr>" for v
    by (simp add: disclose_attribute_def toy_cert_attribute base64_bytes_def toy_kinds) (simp add: toy_oid_env_def)
  moreover have "disclose_attribute toy_sharable_env toy_cert (''s'', False) ''email''
      \<lparr>ae_sensitive = True, ae_value = ProofValue \<lparr>pj_value = CHR 0x0C # ''a'', pj_hash = \<lparr>phj_salt = ''0''\<rparr>\<rparr>, ae_references = []\<rparr>
      = Inr \<lparr>da_sensitive = True, da_value = CHR 0x0C # ''a'', da_references = []\<rparr>"
    by (simp add: disclose_attribute_def toy_cert_attribute base64_bytes_def toy_kinds toy_proof) (simp add: toy_oid_env_def)
  ultimately show ?thesis
    by (simp add: get_populated_def compute_populated_def get_plaintext_def compute_plaintext_def populated_of_def
        maybe_inflate_def ZLIB_MAGIC_def)
qed

theorem disclosed_is_certified_witness:
  "\<exists>a v. get_attribute (sh_cert toy_sharable_env) toy_cert ''email'' = Some a \<and> True = is_sensitive a
    \<and> subject_account toy_sharable_env toy_cert = Inr v
    \<and> (CHR 0x0C # ''a'' = attribute_bytes a
       \<or> (is_sensitive a \<and> (\<exists>pr. b64_decode (sh_oids toy_sharable_env) (pr_value pr) = Some (CHR 0x0C # ''a'')
            \<and> validate_attribute_proof (sh_cert toy_sharable_env) toy_cert ''email'' v pr = Inr True)))"
  using disclosed_is_certified [OF _ toy_populated, of "''email''"
      "\<lparr>da_sensitive = True, da_value = CHR 0x0C # ''a'', da_references = []\<rparr>"] by simp

text \<open>A base64 for the example: two letters a byte.\<close>

definition toy_letter :: "nat \<Rightarrow> char" where
  "toy_letter n = char_of (65 + n)"

fun toy_letters :: "string \<Rightarrow> bytes option" where
  "toy_letters [] = Some []"
| "toy_letters (a # b # s) = map_option ((#) (char_of (((of_char a :: nat) - 65) * 16 + (of_char b - 65)))) (toy_letters s)"
| "toy_letters _ = None"

definition toy_base64 :: oid_env where
  "toy_base64 = toy_oid_env\<lparr>b64_encode := (\<lambda>bs. concat (map (\<lambda>c. [toy_letter (of_char c div 16), toy_letter (of_char c mod 16)]) bs)),
     b64_decode := toy_letters\<rparr>"

lemma toy_base64_laws: "base64_laws toy_base64"
proof -
  have n: "(of_char c :: nat) < 256" for c by (rule of_char_less_256)
  have l: "(of_char (toy_letter k) :: nat) = 65 + k" if "k < 16" for k
    using that by (simp add: toy_letter_def)
  have d: "(of_char c :: nat) div 16 < 16" for c
    using n [of c] by (intro less_mult_imp_div_less) simp
  have c: "base64_char (toy_letter k)" if "k < 16" for k
    using l [OF that] that by (simp add: base64_char_def Let_def)
  show ?thesis unfolding base64_laws_def
  proof (intro allI)
    fix bs
    have "list_all base64_char (b64_encode toy_base64 bs)" by (induction bs) (simp_all add: toy_base64_def c d)
    moreover have "b64_decode toy_base64 (b64_encode toy_base64 bs) = Some bs"
      by (induction bs) (simp_all add: toy_base64_def l d)
    ultimately show "list_all base64_char (b64_encode toy_base64 bs) \<and> (b64_encode toy_base64 bs = [] \<longleftrightarrow> bs = [])
        \<and> b64_decode toy_base64 (b64_encode toy_base64 bs) = Some bs"
      by (cases bs) (simp_all add: toy_base64_def)
  qed
qed

end
