(* ===== verification/SharableClient.thy ===== *)
theory SharableClient
  imports Sharable ClientError
begin

text \<open>
  \<open>keetanetwork-anchor-client/src/sharable.rs\<close>: fetching the documents a certificate refers to, and
  building a bundle with them. The transport threads the world \<open>'w\<close>; a failure ends the fetching.
\<close>

section \<open>Fetching\<close>

definition fetch_failed :: "string \<Rightarrow> u16 \<Rightarrow> client_error" where
  "fetch_failed url st = CeReferenceFetch url st"

definition decode_data_url :: "oid_env \<Rightarrow> string \<Rightarrow> string \<Rightarrow> client_error + bytes" where
  "decode_data_url env url rest =
     bindR (ok_or (fetch_failed url 0) (split_once (CHR '','') rest)) (\<lambda>(header, data).
     if \<not> ends_with '';base64'' header then Inr data
     else ok_or (fetch_failed url 0) (b64_decode env data))"

definition unwrap_container_payload ::
    "oid_env \<Rightarrow> json_text \<Rightarrow> string \<Rightarrow> bytes \<Rightarrow> client_error + bytes" where
  "unwrap_container_payload env jt url body =
     (case from_slice jt decode_value body of
        Inl _ \<Rightarrow> Inr body
      | Inr parsed \<Rightarrow>
          (case as_object parsed of
             None \<Rightarrow> Inr body
           | Some flds \<Rightarrow>
               if length flds \<noteq> 2 then Inr body
               else (case (Option.bind (map_of flds ''data'') as_str, Option.bind (map_of flds ''mimeType'') as_str) of
                       (Some data, Some _) \<Rightarrow> ok_or (fetch_failed url 0) (b64_decode env data)
                     | _ \<Rightarrow> Inr body)))"

definition fetch_reference ::
    "oid_env \<Rightarrow> json_text \<Rightarrow> 'w transport \<Rightarrow> attribute_reference \<Rightarrow> 'w \<Rightarrow> (client_error + bytes) \<times> 'w" where
  "fetch_reference env jt tr reference w =
     (let url = ext_url (ref_external reference) in
      case strip_prefix ''data:'' url of
        Some rest \<Rightarrow> (decode_data_url env url rest, w)
      | None \<Rightarrow>
          (case t_get tr url w of
             (Inl e, w) \<Rightarrow> (Inl (CeTransport e), w)
           | (Inr response, w) \<Rightarrow>
               if resp_status response \<noteq> 200 then (Inl (fetch_failed url (resp_status response)), w)
               else (unwrap_container_payload env jt url (resp_body response), w)))"

fun fetch_into ::
    "oid_env \<Rightarrow> json_text \<Rightarrow> 'w transport \<Rightarrow> external_blobs \<Rightarrow> attribute_reference list \<Rightarrow> 'w
     \<Rightarrow> (client_error + external_blobs) \<times> 'w" where
  "fetch_into env jt tr blobs [] w = (Inr blobs, w)"
| "fetch_into env jt tr blobs (reference # rest) w =
     (case fetch_reference env jt tr reference w of
        (Inl e, w) \<Rightarrow> (Inl e, w)
      | (Inr bs, w) \<Rightarrow> fetch_into env jt tr (blobs_insert (reference_id env reference) bs blobs) rest w)"

definition fetch_external_blobs ::
    "oid_env \<Rightarrow> json_text \<Rightarrow> 'w transport \<Rightarrow> attribute_reference list \<Rightarrow> 'w \<Rightarrow> (client_error + external_blobs) \<times> 'w" where
  "fetch_external_blobs env jt tr refs w = fetch_into env jt tr [] refs w"

section \<open>Building with references\<close>

definition sharable_with_references ::
    "('c, 'b, 'k, 'd, 'w) sharable_env \<Rightarrow> 'w transport \<Rightarrow> 'c kyc_certificate \<Rightarrow> 'k \<Rightarrow> string list
     \<Rightarrow> 'c from_certificate_options \<Rightarrow> 'w \<Rightarrow> ((client_error + ('c, 'k) sharable) \<times> 'w) option" where
  "sharable_with_references env tr certificate subject names options w =
     (case external_references (sh_cert env) certificate subject [] names of
        None \<Rightarrow> None
      | Some (Inl e) \<Rightarrow> Some (Inl (CeSharable (ShCertificate e)), w)
      | Some (Inr discovered) \<Rightarrow>
          (case fetch_into (sh_oids env) (sh_parse env) tr (fo_blobs options) (concat (map snd discovered)) w of
             (Inl e, w) \<Rightarrow> Some (Inl e, w)
           | (Inr blobs, w) \<Rightarrow>
               map_option (\<lambda>(result, w). (map_err CeSharable result, w))
                 (from_certificate env certificate subject names (options\<lparr>fo_blobs := blobs\<rparr>) w)))"

section \<open>Facts\<close>

text \<open>What fetching keeps: the blobs given before, except those of the references fetched, whose place the
  fetched bytes take. An identifier already present is fetched and replaced all the same.\<close>

lemma fetch_into_keeps:
  "fetch_into env jt tr blobs refs w = (Inr blobs', w') \<Longrightarrow>
     (\<forall>i. i \<notin> reference_id env ` set refs \<longrightarrow> blobs_get i blobs' = blobs_get i blobs)
   \<and> (\<forall>r \<in> set refs. blobs_get (reference_id env r) blobs' \<noteq> None)"
proof (induction refs arbitrary: blobs w)
  case (Cons r refs)
  obtain res w1 where f: "fetch_reference env jt tr r w = (res, w1)" by (metis surj_pair)
  with Cons.prems obtain bs where bs: "res = Inr bs"
      "fetch_into env jt tr (blobs_insert (reference_id env r) bs blobs) refs w1 = (Inr blobs', w')"
    by (auto split: sum.splits)
  note IH = Cons.IH [OF bs(2)]
  have "blobs_get (reference_id env r) blobs' \<noteq> None"
    using IH by (cases "reference_id env r \<in> reference_id env ` set refs") (auto simp: blobs_get_def blobs_insert_def map_of_insert)
  with IH show ?case by (auto simp: blobs_get_def blobs_insert_def map_of_insert)
qed simp

lemma fetch_replaces:
  assumes "fetch_reference env jt tr r w = (Inr bs, w')"
  shows "\<exists>blobs'. fetch_into env jt tr blobs [r] w = (Inr blobs', w') \<and> blobs_get (reference_id env r) blobs' = Some bs"
  using assms by (simp add: blobs_get_def blobs_insert_def map_of_insert)

text \<open>A \<open>data:\<close> URL never touches the network.\<close>

lemma fetch_data_url: "ext_url (ref_external r) = ''data:'' @ rest \<Longrightarrow> snd (fetch_reference env jt tr r w) = w"
  by (simp add: fetch_reference_def Let_def)

text \<open>A fetched document that is not the two-member wrapper is handed on as it is.\<close>

lemma unwrap_plain: "jt body = Inl e \<Longrightarrow> unwrap_container_payload env jt url body = Inr body"
  by (simp add: unwrap_container_payload_def from_slice_def)

section \<open>Inlined references\<close>

text \<open>Whatever the blobs are, a reference is inlined into a bundle only with a text that encodes bytes of
  its digest.\<close>

lemma inline_references_verified:
  assumes "inline_references env subject name blobs inlined refs = Inr out"
  shows "\<forall>i t. map_of out i = Some t \<longrightarrow> map_of inlined i = Some t
    \<or> (\<exists>r bs. r \<in> set refs \<and> reference_id (sh_oids env) r = i \<and> t = b64_encode (sh_oids env) bs
         \<and> digest_matches (sh_oids env) (ref_digest r) bs)"
  using assms
proof (induction refs arbitrary: inlined)
  case (Cons r refs)
  show ?case
  proof (cases "blobs_get (reference_id (sh_oids env) r) blobs")
    case None
    with Cons.prems Cons.IH [of inlined] show ?thesis by auto
  next
    case (Some raw)
    with Cons.prems obtain bs where bs: "digest_matches (sh_oids env) (ref_digest r) bs"
        "inline_references env subject name blobs
           (map_insert (reference_id (sh_oids env) r) (b64_encode (sh_oids env) bs) inlined) refs = Inr out"
      by (auto simp: Let_def result_elims split: if_splits)
    from Cons.IH [OF bs(2)] bs(1) show ?thesis by (auto simp: map_of_insert split: if_splits) metis+
  qed
qed simp

end
