(* ===== verification/TypedAttributes.thy ===== *)
theory TypedAttributes
  imports KycSchema
begin

text \<open>
  \<open>keetanetwork-anchor/src/generated/builder_ext.rs\<close> and \<open>generated/from_impls.rs\<close>: the builder of every
  named attribute, and the conversion of the structured values. The identifiers are constants of the
  shared ASN.1 crate, here looked up by their names (\<open>oids\<close>); the encoder of a structured value is \<open>rasn\<close>'s.
  A builder that fails panics: then the result is \<open>None\<close>.
\<close>

section \<open>Builders of named attributes\<close>

definition typed_attribute ::
    "oid_env \<Rightarrow> (string \<Rightarrow> oid) \<Rightarrow> (attribute_builder \<Rightarrow> attribute_builder) \<Rightarrow> string \<Rightarrow> bytes \<Rightarrow> attribute option" where
  "typed_attribute env oids kind constant v =
     ok (build_attribute env (kind (with_value v (with_oid (oid_to_string env (oids constant)) default_attribute_builder))))"

definition for_date_of_birth where "for_date_of_birth env oids v = typed_attribute env oids as_sensitive ''DATE_OF_BIRTH'' v"
definition for_document_drivers_license where "for_document_drivers_license env oids v = typed_attribute env oids as_sensitive ''DOCUMENT_DRIVERS_LICENSE'' v"
definition for_document_id_card where "for_document_id_card env oids v = typed_attribute env oids as_sensitive ''DOCUMENT_ID_CARD'' v"
definition for_document_passport where "for_document_passport env oids v = typed_attribute env oids as_sensitive ''DOCUMENT_PASSPORT'' v"
definition for_document_passport_card where "for_document_passport_card env oids v = typed_attribute env oids as_sensitive ''DOCUMENT_PASSPORT_CARD'' v"
definition for_document_permit where "for_document_permit env oids v = typed_attribute env oids as_sensitive ''DOCUMENT_PERMIT'' v"
definition for_document_residence_document where "for_document_residence_document env oids v = typed_attribute env oids as_sensitive ''DOCUMENT_RESIDENCE_DOCUMENT'' v"
definition for_document_visa where "for_document_visa env oids v = typed_attribute env oids as_sensitive ''DOCUMENT_VISA'' v"
definition for_email where "for_email env oids v = typed_attribute env oids as_sensitive ''EMAIL'' v"
definition for_first_name where "for_first_name env oids v = typed_attribute env oids as_sensitive ''FIRST_NAME'' v"
definition for_full_name where "for_full_name env oids v = typed_attribute env oids as_sensitive ''FULL_NAME'' v"
definition for_id where "for_id env oids v = typed_attribute env oids as_sensitive ''ID'' v"
definition for_issuer where "for_issuer env oids v = typed_attribute env oids as_sensitive ''ISSUER'' v"
definition for_job_responsibility where "for_job_responsibility env oids v = typed_attribute env oids as_sensitive ''JOB_RESPONSIBILITY'' v"
definition for_job_title where "for_job_title env oids v = typed_attribute env oids as_sensitive ''JOB_TITLE'' v"
definition for_last_name where "for_last_name env oids v = typed_attribute env oids as_sensitive ''LAST_NAME'' v"
definition for_middle_name where "for_middle_name env oids v = typed_attribute env oids as_sensitive ''MIDDLE_NAME'' v"
definition for_nationality where "for_nationality env oids v = typed_attribute env oids as_sensitive ''NATIONALITY'' v"
definition for_phone_number where "for_phone_number env oids v = typed_attribute env oids as_sensitive ''PHONE_NUMBER'' v"
definition for_postal_code where "for_postal_code env oids v = typed_attribute env oids as_plain ''ADDRESS_POSTAL_CODE'' v"

section \<open>Structured values\<close>

definition structured_attribute :: "(string \<Rightarrow> oid) \<Rightarrow> ('x \<Rightarrow> string + bytes) \<Rightarrow> string \<Rightarrow> 'x \<Rightarrow> asn1_error + attribute" where
  "structured_attribute oids der_encode_value constant v =
     bindR (map_err rasn_encode_error (der_encode_value v)) (\<lambda>encoded.
     Inr \<lparr>at_name = oids constant, at_value = SensitiveValue encoded\<rparr>)"

definition attribute_from_address where "attribute_from_address oids enc v = structured_attribute oids enc ''ADDRESS'' v"
definition attribute_from_contact_details where "attribute_from_contact_details oids enc v = structured_attribute oids enc ''CONTACT_DETAILS'' v"
definition attribute_from_date_and_place_of_birth where "attribute_from_date_and_place_of_birth oids enc v = structured_attribute oids enc ''DATE_AND_PLACE_OF_BIRTH'' v"
definition attribute_from_document where "attribute_from_document oids enc v = structured_attribute oids enc ''DOCUMENT'' v"
definition attribute_from_entity_type where "attribute_from_entity_type oids enc v = structured_attribute oids enc ''ENTITY_TYPE'' v"

section \<open>Facts\<close>

lemma typed_attribute_builds:
  assumes "oid_reads_back env (oids constant)"
  shows "typed_attribute env oids as_sensitive constant v = Some \<lparr>at_name = oids constant, at_value = SensitiveValue v\<rparr>"
    and "typed_attribute env oids as_plain constant v = Some \<lparr>at_name = oids constant, at_value = PlainValue v\<rparr>"
  using assms
  by (simp_all add: typed_attribute_def build_attribute_def with_value_def with_oid_def default_attribute_builder_def
      as_sensitive_def as_plain_def oid_reads_back_def ok_def)

text \<open>A builder panics exactly when the text of its identifier does not read.\<close>

lemma typed_attribute_panics:
  "typed_attribute env oids as_sensitive constant v = None
     \<longleftrightarrow> (\<exists>e. parse_oid_string env (oid_to_string env (oids constant)) = Inl e)"
  by (cases "parse_oid_string env (oid_to_string env (oids constant))")
    (simp_all add: typed_attribute_def build_attribute_def with_value_def with_oid_def default_attribute_builder_def
      as_sensitive_def ok_def)

end
