(* ===== verification/Registry.thy ===== *)
theory Registry
  imports Errors Json Loop
begin

text \<open>
  \<open>keetanetwork-anchor-bindings/src/registry.rs\<close> and \<open>parse.rs\<close>: the table of opaque handles behind every
  flat binding, and the checks of its text arguments. Handles are \<open>i32\<close>, kept as integers with the
  wrap-around of \<open>wrapping_add\<close> written out. The loop that looks for a free handle may not end; then the
  result is \<open>None\<close>.
\<close>

section \<open>Coded errors\<close>

record coded_error =
  code :: string
  message :: string

definition coded_error_new :: "string \<Rightarrow> string \<Rightarrow> coded_error" where
  "coded_error_new c m = \<lparr>code = c, message = m\<rparr>"

definition INVALID_HANDLE :: string where "INVALID_HANDLE = ''INVALID_HANDLE''"

section \<open>The table\<close>

record 'v registry =
  rg_resource :: string
  rg_next :: int
  rg_entries :: "(int \<times> 'v) list"

definition registry_new :: "string \<Rightarrow> 'v registry" where
  "registry_new resource = \<lparr>rg_resource = resource, rg_next = 0, rg_entries = []\<rparr>"

definition wrapping_i32 :: "int \<Rightarrow> int" where
  "wrapping_i32 n = (n + 2 ^ 31) mod 2 ^ 32 - 2 ^ 31"

definition store_turn :: "(int \<times> 'v) list \<Rightarrow> int \<Rightarrow> int + int" where
  "store_turn entries n =
     (let n = max (wrapping_i32 (n + 1)) 1 in if map_of entries n = None then Inl n else Inr n)"

definition store :: "'v \<Rightarrow> 'v registry \<Rightarrow> (int \<times> 'v registry) option" where
  "store v r =
     map_option (\<lambda>n. (n, r\<lparr>rg_next := n, rg_entries := map_insert n v (rg_entries r)\<rparr>))
       (loop (store_turn (rg_entries r)) (rg_next r))"

definition unknown :: "'v registry \<Rightarrow> coded_error" where
  "unknown r = coded_error_new INVALID_HANDLE (''unknown '' @ rg_resource r @ '' handle'')"

definition with_handle :: "int \<Rightarrow> ('v \<Rightarrow> 'r) \<Rightarrow> 'v registry \<Rightarrow> coded_error + 'r" where
  "with_handle h body r = ok_or (unknown r) (map_option body (map_of (rg_entries r) h))"

definition with_mut :: "int \<Rightarrow> ('v \<Rightarrow> 'r \<times> 'v) \<Rightarrow> 'v registry \<Rightarrow> (coded_error + 'r) \<times> 'v registry" where
  "with_mut h body r =
     (case map_of (rg_entries r) h of
        None \<Rightarrow> (Inl (unknown r), r)
      | Some v \<Rightarrow> (case body v of (result, v) \<Rightarrow> (Inr result, r\<lparr>rg_entries := map_insert h v (rg_entries r)\<rparr>)))"

definition remove :: "int \<Rightarrow> 'v registry \<Rightarrow> 'v registry" where
  "remove h r = r\<lparr>rg_entries := filter (\<lambda>(k, _). k \<noteq> h) (rg_entries r)\<rparr>"

section \<open>Text arguments\<close>

definition EMPTY_VALUE :: string where "EMPTY_VALUE = ''EMPTY_VALUE''"
definition INVALID_COUNTRY_CODE :: string where "INVALID_COUNTRY_CODE = ''INVALID_COUNTRY_CODE''"
definition INVALID_PROVIDER_ID :: string where "INVALID_PROVIDER_ID = ''INVALID_PROVIDER_ID''"

definition non_empty_value :: "string \<Rightarrow> string \<Rightarrow> coded_error + string" where
  "non_empty_value v c =
     (let trimmed = trim v in if trimmed = [] then Inl (coded_error_new c ''value must not be empty'') else Inr trimmed)"

definition parse_country_code :: "string \<Rightarrow> coded_error + string" where
  "parse_country_code v =
     (let trimmed = trim v;
          is_alpha2 = (length trimmed = 2 \<and> list_all (\<lambda>b. is_ascii_upper b \<or> is_ascii_lower b) trimmed)
      in if \<not> is_alpha2 then Inl (coded_error_new INVALID_COUNTRY_CODE (''invalid country code: '' @ trimmed))
         else if list_all is_ascii_upper trimmed then Inr trimmed
         else Inr (map ascii_upper trimmed))"

definition provider_id :: "string \<Rightarrow> coded_error + string" where
  "provider_id v = non_empty_value v INVALID_PROVIDER_ID"

section \<open>Accounts\<close>

text \<open>The table of accepted algorithms (name and code) is the shared crate's, and so is the derivation of an
  account from a seed of 32 bytes in hexadecimal: \<open>derive\<close> gives the account, or \<open>None\<close> for a malformed
  seed.\<close>

definition INVALID_ALGORITHM :: string where "INVALID_ALGORITHM = ''INVALID_ALGORITHM''"
definition INVALID_SEED :: string where "INVALID_SEED = ''INVALID_SEED''"

fun join_with :: "string \<Rightarrow> string list \<Rightarrow> string" where
  "join_with sep [] = []"
| "join_with sep [x] = x"
| "join_with sep (x # y # ys) = x @ sep @ join_with sep (y # ys)"

definition invalid_algorithm :: "(string \<times> 'c) list \<Rightarrow> coded_error" where
  "invalid_algorithm algorithms =
     coded_error_new INVALID_ALGORITHM (''algorithm must be one of: '' @ join_with '', '' (map fst algorithms))"

definition account_from_seed ::
    "(string \<Rightarrow> 32 word \<Rightarrow> 'account option) \<Rightarrow> string \<Rightarrow> 32 word \<Rightarrow> coded_error + 'account" where
  "account_from_seed derive seed index =
     ok_or (coded_error_new INVALID_SEED ''seed must be 32-byte hex'') (derive seed index)"

section \<open>Errors with an optional code\<close>

text \<open>\<open>coded_from!\<close>: an error with a code of its own keeps it; any other takes the shared crate's code
  \<open>UNKNOWN_CODE\<close>.\<close>

definition coded_from :: "string \<Rightarrow> ('e \<Rightarrow> string option) \<Rightarrow> ('e \<Rightarrow> string) \<Rightarrow> 'e \<Rightarrow> coded_error" where
  "coded_from unknown_code error_code to_string e =
     coded_error_new (case error_code e of Some c \<Rightarrow> c | None \<Rightarrow> unknown_code) (to_string e)"

section \<open>Looking for a free handle\<close>

definition max_handle :: int where "max_handle = 2 ^ 31 - 1"

definition registry_ok :: "'v registry \<Rightarrow> bool" where
  "registry_ok r \<longleftrightarrow> 0 \<le> rg_next r \<and> rg_next r \<le> max_handle \<and> map_ok (rg_entries r)
     \<and> (\<forall>h \<in> fst ` set (rg_entries r). 1 \<le> h \<and> h \<le> max_handle)"

lemma next_handle:
  assumes "0 \<le> n" "n \<le> max_handle"
  shows "max (wrapping_i32 (n + 1)) 1 = (if n = max_handle then 1 else n + 1)"
  using assms by (auto simp: wrapping_i32_def max_handle_def)

text \<open>What the loop still has to walk to a handle.\<close>

definition handle_distance :: "int \<Rightarrow> int \<Rightarrow> nat" where
  "handle_distance h n = nat (if n < h then h - n else max_handle - n + h)"

lemma handle_distance_step:
  assumes "0 \<le> n" "n \<le> max_handle" "1 \<le> h" "h \<le> max_handle" and "n' = (if n = max_handle then 1 else n + 1)" "n' \<noteq> h"
  shows "handle_distance h n' < handle_distance h n"
  using assms by (auto simp: handle_distance_def split: if_splits)

lemma store_loop_returns:
  assumes "0 \<le> n" "n \<le> max_handle" "1 \<le> h" "h \<le> max_handle" "map_of entries h = None"
  shows "\<exists>k. loop (store_turn entries) n = Some k \<and> 1 \<le> k \<and> k \<le> max_handle \<and> map_of entries k = None"
proof (rule loop_total [where I = "\<lambda>n. 0 \<le> n \<and> n \<le> max_handle" and m = "handle_distance h"])
  show "0 \<le> n \<and> n \<le> max_handle" using assms(1,2) by simp
next
  fix n assume n: "0 \<le> n \<and> n \<le> max_handle"
  define n' where "n' = (if n = max_handle then 1 else n + 1)"
  have b: "1 \<le> n'" "n' \<le> max_handle" using n by (auto simp: n'_def max_handle_def)
  have turn: "store_turn entries n = (if map_of entries n' = None then Inl n' else Inr n')"
    using n by (simp add: store_turn_def Let_def next_handle n'_def)
  show "case store_turn entries n of Inl k \<Rightarrow> 1 \<le> k \<and> k \<le> max_handle \<and> map_of entries k = None
    | Inr n' \<Rightarrow> (0 \<le> n' \<and> n' \<le> max_handle) \<and> handle_distance h n' < handle_distance h n"
  proof (cases "map_of entries n' = None")
    case True
    with turn b show ?thesis by simp
  next
    case False
    with assms(5) have "n' \<noteq> h" by auto
    with handle_distance_step [of n h n'] n assms(3,4) have "handle_distance h n' < handle_distance h n" by (simp add: n'_def)
    with False turn b show ?thesis by simp
  qed
qed

lemma store_loop_diverges:
  assumes "0 \<le> n" "n \<le> max_handle" "\<forall>h. 1 \<le> h \<and> h \<le> max_handle \<longrightarrow> map_of entries h \<noteq> None"
  shows "loop (store_turn entries) n = None"
proof (rule loop_diverges [where I = "\<lambda>n. 0 \<le> n \<and> n \<le> max_handle"])
  fix n assume n: "0 \<le> n \<and> n \<le> max_handle"
  define n' where "n' = (if n = max_handle then 1 else n + 1)"
  have "1 \<le> n'" "n' \<le> max_handle" using n by (auto simp: n'_def max_handle_def)
  with assms(3) n show "\<exists>s'. store_turn entries n = Inr s' \<and> 0 \<le> s' \<and> s' \<le> max_handle"
    by (auto simp: store_turn_def Let_def next_handle n'_def)
qed (use assms in simp)

lemma store_loop_result:
  assumes "0 \<le> n" "n \<le> max_handle" "loop (store_turn entries) n = Some k"
  shows "1 \<le> k \<and> k \<le> max_handle \<and> map_of entries k = None"
proof -
  have "loop (store_turn entries) n \<noteq> None" using assms(3) by simp
  with store_loop_diverges [OF assms(1,2), of entries] obtain h where
    "1 \<le> h" "h \<le> max_handle" "map_of entries h = None" by blast
  from store_loop_returns [OF assms(1,2) this] assms(3) show ?thesis by auto
qed

section \<open>The contract of a handle table\<close>

text \<open>What the bindings rely on, for any table: a handle handed out is fresh and shows its value, and
  removing a handle touches no other.\<close>

datatype 'v table_call = Store 'v | Update int "'v \<Rightarrow> 'v" | Remove int

fun table_step ::
    "('v \<Rightarrow> 't \<Rightarrow> (int \<times> 't) option) \<Rightarrow> (int \<Rightarrow> ('v \<Rightarrow> 'v) \<Rightarrow> 't \<Rightarrow> 't) \<Rightarrow> (int \<Rightarrow> 't \<Rightarrow> 't) \<Rightarrow> 'v table_call \<Rightarrow> 't \<Rightarrow> 't option" where
  "table_step put upd del (Store v) t = map_option snd (put v t)"
| "table_step put upd del (Update h f) t = Some (upd h f t)"
| "table_step put upd del (Remove h) t = Some (del h t)"

fun table_run :: "('v table_call \<Rightarrow> 't \<Rightarrow> 't option) \<Rightarrow> 'v table_call list \<Rightarrow> 't \<Rightarrow> 't option" where
  "table_run step [] t = Some t"
| "table_run step (c # cs) t = Option.bind (step c t) (table_run step cs)"

fun touches :: "int \<Rightarrow> 'v table_call \<Rightarrow> bool" where
  "touches h (Store v) = False"
| "touches h (Update h' f) = (h' = h)"
| "touches h (Remove h') = (h' = h)"

locale handle_table =
  fixes look :: "'t \<Rightarrow> int \<Rightarrow> 'v option"
    and put :: "'v \<Rightarrow> 't \<Rightarrow> (int \<times> 't) option"
    and upd :: "int \<Rightarrow> ('v \<Rightarrow> 'v) \<Rightarrow> 't \<Rightarrow> 't"
    and del :: "int \<Rightarrow> 't \<Rightarrow> 't"
    and inv :: "'t \<Rightarrow> bool"
  assumes put_fresh: "inv t \<Longrightarrow> put v t = Some (h, t') \<Longrightarrow> inv t' \<and> 0 < h \<and> look t h = None \<and> look t' = (look t)(h \<mapsto> v)"
    and upd_look: "inv t \<Longrightarrow> inv (upd h f t) \<and> look (upd h f t) = (look t)(h := map_option f (look t h))"
    and del_look: "inv t \<Longrightarrow> inv (del h t) \<and> look (del h t) = (look t)(h := None)"
begin

lemma table_step_keeps:
  assumes "inv t" "table_step put upd del c t = Some t'" "\<not> touches h c" "look t h = Some v"
  shows "inv t' \<and> look t' h = Some v"
proof (cases c)
  case (Store w)
  with assms(2) obtain k where "put w t = Some (k, t')" by auto
  with put_fresh [OF assms(1) this] assms(4) show ?thesis by auto
qed (use assms upd_look del_look in auto)

lemma table_run_keeps:
  "inv t \<Longrightarrow> table_run (table_step put upd del) cs t = Some t' \<Longrightarrow> (\<forall>c \<in> set cs. \<not> touches h c) \<Longrightarrow> look t h = Some v \<Longrightarrow> inv t' \<and> look t' h = Some v"
proof (induction cs arbitrary: t)
  case (Cons c cs)
  then obtain t1 where "table_step put upd del c t = Some t1" "table_run (table_step put upd del) cs t1 = Some t'" by (auto simp: bind_eq_Some_conv)
  with Cons table_step_keeps [of t c t1 h v] show ?case by auto
qed simp

end

definition update_at :: "int \<Rightarrow> ('v \<Rightarrow> 'v) \<Rightarrow> 'v registry \<Rightarrow> 'v registry" where
  "update_at h f r = snd (with_mut h (\<lambda>v. ((), f v)) r)"

lemma map_ok_filter: "map_ok m \<Longrightarrow> map_ok (filter P m)"
  by (simp add: map_ok_def sorted_wrt_map sorted_wrt_filter)

interpretation reg: handle_table "\<lambda>r. map_of (rg_entries r)" store update_at remove registry_ok
proof unfold_locales
  fix r :: "'v registry" and v h r'
  assume ok: "registry_ok r" and s: "store v r = Some (h, r')"
  from s have l: "loop (store_turn (rg_entries r)) (rg_next r) = Some h"
      "r' = r\<lparr>rg_next := h, rg_entries := map_insert h v (rg_entries r)\<rparr>" by (auto simp: store_def)
  have "1 \<le> h \<and> h \<le> max_handle \<and> map_of (rg_entries r) h = None"
    using ok l(1) by (intro store_loop_result [of "rg_next r"]) (simp_all add: registry_ok_def)
  with ok l(2) show "registry_ok r' \<and> 0 < h \<and> map_of (rg_entries r) h = None \<and> map_of (rg_entries r') = (map_of (rg_entries r))(h \<mapsto> v)"
    by (auto simp: registry_ok_def map_ok_insert keys_map_insert map_of_map_insert)
next
  fix r :: "'v registry" and h f
  assume ok: "registry_ok r"
  show "registry_ok (update_at h f r) \<and> map_of (rg_entries (update_at h f r)) = (map_of (rg_entries r))(h := map_option f (map_of (rg_entries r) h))"
  proof (cases "map_of (rg_entries r) h")
    case None
    with ok show ?thesis by (auto simp: update_at_def with_mut_def)
  next
    case (Some v)
    then have "h \<in> fst ` set (rg_entries r)" by (metis map_of_SomeD fst_conv image_eqI)
    with ok Some show ?thesis
      by (auto simp: update_at_def with_mut_def registry_ok_def map_ok_insert keys_map_insert map_of_map_insert)
  qed
next
  fix r :: "'v registry" and h
  assume ok: "registry_ok r"
  have "map_of (filter (\<lambda>(k, _). k \<noteq> h) m) = (map_of m)(h := None)" for m :: "(int \<times> 'v) list"
    by (induction m) auto
  with ok show "registry_ok (remove h r) \<and> map_of (rg_entries (remove h r)) = (map_of (rg_entries r))(h := None)"
    by (auto simp: remove_def registry_ok_def map_ok_filter)
qed

section \<open>Properties\<close>

text \<open>C27. Storing returns exactly when some positive handle is free; with every handle in use it loops for
  ever.\<close>

theorem store_returns_iff_free:
  assumes "registry_ok r"
  shows "store v r \<noteq> None \<longleftrightarrow> (\<exists>h. 1 \<le> h \<and> h \<le> max_handle \<and> map_of (rg_entries r) h = None)"
proof
  assume "store v r \<noteq> None"
  then obtain k where "loop (store_turn (rg_entries r)) (rg_next r) = Some k" by (auto simp: store_def)
  from store_loop_result [OF _ _ this] assms
  show "\<exists>h. 1 \<le> h \<and> h \<le> max_handle \<and> map_of (rg_entries r) h = None" unfolding registry_ok_def by blast
next
  assume "\<exists>h. 1 \<le> h \<and> h \<le> max_handle \<and> map_of (rg_entries r) h = None"
  then obtain h where "1 \<le> h" "h \<le> max_handle" "map_of (rg_entries r) h = None" by blast
  with assms store_loop_returns [of "rg_next r" h "rg_entries r"] obtain k where
    "loop (store_turn (rg_entries r)) (rg_next r) = Some k" unfolding registry_ok_def by blast
  then show "store v r \<noteq> None" by (simp add: store_def)
qed

text \<open>C26. A handle is never handed out twice while it is live: the value stored under a fresh handle is
  found under it after any calls that do not name the handle, and no other value was found under it.\<close>

theorem handle_keeps_value:
  assumes "registry_ok r" "store v r = Some (h, r')" "table_run (table_step store update_at remove) calls r' = Some r''" "\<forall>c \<in> set calls. \<not> touches h c"
  shows "0 < h \<and> with_handle h id r = Inl (unknown r) \<and> with_handle h id r'' = Inr v"
proof -
  from reg.put_fresh [OF assms(1,2)] have p: "registry_ok r'" "0 < h" "map_of (rg_entries r) h = None" "map_of (rg_entries r') h = Some v"
    by simp_all
  with reg.table_run_keeps [OF p(1) assms(3,4)] show ?thesis by (simp add: with_handle_def)
qed

lemma small_registry: "registry_ok (registry_new resource)"
  by (simp add: registry_ok_def registry_new_def max_handle_def)

text \<open>A counter at its end wraps around and skips the handle that is live.\<close>

definition full_registry :: "string registry" where
  "full_registry = \<lparr>rg_resource = ''thing'', rg_next = max_handle, rg_entries = [(1, ''a'')]\<rparr>"

lemma full_registry_ok: "registry_ok full_registry"
  by (simp add: full_registry_def registry_ok_def max_handle_def map_ok_def)

lemma full_registry_store:
  "store ''b'' full_registry = Some (2, \<lparr>rg_resource = ''thing'', rg_next = 2, rg_entries = [(1, ''a''), (2, ''b'')]\<rparr>)"
  by (simp add: store_def full_registry_def loop.simps store_turn_def wrapping_i32_def max_handle_def Let_def)

theorem store_returns_iff_free_witness:
  "store ''b'' full_registry \<noteq> None \<longleftrightarrow> (\<exists>h. 1 \<le> h \<and> h \<le> max_handle \<and> map_of (rg_entries full_registry) h = None)"
  by (rule store_returns_iff_free [OF full_registry_ok])

theorem handle_keeps_value_witness:
  "\<exists>r. table_run (table_step store update_at remove) [Remove 1, Update 1 id]
      \<lparr>rg_resource = ''thing'', rg_next = 2, rg_entries = [(1, ''a''), (2, ''b'')]\<rparr> = Some r
    \<and> (0 < (2 :: int) \<and> with_handle 2 id full_registry = Inl (unknown full_registry) \<and> with_handle 2 id r = Inr ''b'')"
proof -
  let ?r = "\<lparr>rg_resource = ''thing'', rg_next = 2, rg_entries = [(1, ''a''), (2, ''b'')]\<rparr>"
  obtain r where r: "table_run (table_step store update_at remove) [Remove 1, Update 1 id] ?r = Some r" by simp
  have "0 < (2 :: int) \<and> with_handle 2 id full_registry = Inl (unknown full_registry) \<and> with_handle 2 id r = Inr ''b''"
    by (rule handle_keeps_value [OF full_registry_ok full_registry_store r]) simp
  with r show ?thesis by blast
qed

section \<open>The checked arguments\<close>

lemma parse_country_code_exact:
  "parse_country_code v = Inr c \<Longrightarrow> length c = 2 \<and> list_all is_ascii_upper c"
  by (auto simp: parse_country_code_def Let_def list_all_iff ascii_upper_def is_ascii_lower_def is_ascii_upper_def split: if_splits)

lemma non_empty_value_exact: "non_empty_value v c = Inr t \<longleftrightarrow> t = trim v \<and> trim v \<noteq> []"
  by (auto simp: non_empty_value_def Let_def)

end
