(* ===== verification/AssetJson.thy ===== *)
theory AssetJson
  imports AssetRequest Registry
begin

text \<open>
  \<open>keetanetwork-anchor-client-wasi/src/asset_json.rs\<close>: the JSON contract of the asset-movement bindings.
  Providers leave as JSON and come back as arguments, requests are read from JSON. The writer of
  \<open>serde_json\<close> (\<open>to_vec\<close>), its reader (\<open>jt\<close>) and its text of a float (\<open>float_text\<close>) are parameters. A struct
  is written in the order of its fields.
\<close>

section \<open>Errors and encoding\<close>

definition INVALID_INPUT :: string where "INVALID_INPUT = ''INVALID_INPUT''"

definition invalid_input :: "string \<Rightarrow> coded_error" where
  "invalid_input e = coded_error_new INVALID_INPUT e"

definition invalid :: "string \<Rightarrow> coded_error" where
  "invalid reason = coded_error_new INVALID_INPUT reason"

type_synonym json_writer = "json \<Rightarrow> string + bytes"

definition encode_payload :: "json_writer \<Rightarrow> json \<Rightarrow> coded_error + bytes" where
  "encode_payload to_vec v = map_err (coded_error_new ''ENCODE'') (to_vec v)"

definition encode_ack :: "json_writer \<Rightarrow> coded_error + bytes" where
  "encode_ack to_vec = encode_payload to_vec (JObject [])"

section \<open>Providers\<close>

fun auth_to_json :: "endpoint_auth \<Rightarrow> json" where
  "auth_to_json EaNone = JString ''none''"
| "auth_to_json EaOptional = JString ''optional''"
| "auth_to_json EaRequired = JString ''required''"

definition auth_variant :: "string \<Rightarrow> string + endpoint_auth" where
  "auth_variant s =
     (if s = ''none'' then Inr EaNone
      else if s = ''optional'' then Inr EaOptional
      else if s = ''required'' then Inr EaRequired
      else Inl ''unknown variant'')"

definition decode_auth :: "endpoint_auth decoder" where
  "decode_auth doc =
     (case doc of
        JString s \<Rightarrow> auth_variant s
      | JObject [(k, v)] \<Rightarrow>
          bindR (auth_variant k) (\<lambda>a. if is_null v then Inr a else Inl ''invalid type: expected unit'')
      | _ \<Rightarrow> Inl ''invalid type'')"

definition endpoint_to_json :: "operation_endpoint \<Rightarrow> json" where
  "endpoint_to_json e = JObject [(''url'', JString (op_url e)), (''auth'', auth_to_json (op_auth e))]"

definition decode_endpoint_dto :: "operation_endpoint decoder" where
  "decode_endpoint_dto doc =
     bindR (doc_struct [''url'', ''auth''] doc) (\<lambda>members.
     bindR (required members ''url'' decode_string) (\<lambda>url.
     bindR (required members ''auth'' decode_auth) (\<lambda>a. Inr \<lparr>op_url = url, op_auth = a\<rparr>)))"

definition member_some :: "string \<Rightarrow> json option \<Rightarrow> (string \<times> json) list" where
  "member_some name v = (case v of None \<Rightarrow> [] | Some j \<Rightarrow> [(name, j)])"

text \<open>\<open>ProviderDto\<close> holds its operations in an ordered map; every other field is the provider's.\<close>

definition provider_to_json :: "asset_provider_info \<Rightarrow> json" where
  "provider_to_json p = JObject
     ([(''id'', JString (ap_id p)),
       (''operations'', json_map endpoint_to_json (map_from (ap_operations p))),
       (''supportedAssets'', JArray (ap_supported_assets p))]
      @ member_some ''locationMetadata'' (ap_location_metadata p)
      @ member_some ''legal'' (ap_legal p)
      @ member_some ''account'' (map_option JString (ap_account p)))"

definition decode_provider :: "asset_provider_info decoder" where
  "decode_provider doc =
     bindR (doc_struct [''id'', ''operations'', ''supportedAssets'', ''locationMetadata'', ''legal'', ''account''] doc) (\<lambda>members.
     bindR (required members ''id'' decode_string) (\<lambda>ident.
     bindR (required members ''operations'' (decode_map decode_endpoint_dto)) (\<lambda>operations.
     bindR (defaulted members ''supportedAssets'' [] (decode_list decode_value)) (\<lambda>assets.
     bindR (optional_value decode_value (members ''locationMetadata'')) (\<lambda>locations.
     bindR (optional_value decode_value (members ''legal'')) (\<lambda>legal.
     bindR (optional_value decode_string (members ''account'')) (\<lambda>account.
     Inr \<lparr>ap_id = ident, ap_operations = operations, ap_supported_assets = assets,
          ap_location_metadata = locations, ap_legal = legal, ap_account = account\<rparr>)))))))"

definition encode_providers :: "json_writer \<Rightarrow> asset_provider_info list \<Rightarrow> coded_error + bytes" where
  "encode_providers to_vec ps = encode_payload to_vec (JArray (map provider_to_json ps))"

definition encode_provider :: "json_writer \<Rightarrow> asset_provider_info option \<Rightarrow> coded_error + bytes" where
  "encode_provider to_vec p = (case p of Some p \<Rightarrow> encode_payload to_vec (provider_to_json p) | None \<Rightarrow> encode_payload to_vec JNull)"

definition parse_provider :: "json_text \<Rightarrow> string \<Rightarrow> coded_error + asset_provider_info" where
  "parse_provider jt j = map_err invalid_input (from_slice jt decode_provider j)"

definition accepts :: "provider_filter \<Rightarrow> asset_provider_info \<Rightarrow> bool" where
  "accepts f p \<longleftrightarrow>
     (case pf_id f of None \<Rightarrow> True | Some i \<Rightarrow> i = ap_id p)
   \<and> (case pf_account f of None \<Rightarrow> True | Some a \<Rightarrow> ap_account p = Some a)"

definition filter_providers :: "asset_provider_info list \<Rightarrow> provider_filter \<Rightarrow> asset_provider_info list" where
  "filter_providers ps f = filter (accepts f) ps"

section \<open>Account status\<close>

fun account_status_json :: "account_status \<Rightarrow> json" where
  "account_status_json AccountReady = json_object [(''actionRequired'', JBool False)]"
| "account_status_json (ActionRequired blockers) = json_object
     [(''actionRequired'', JBool True), (''blockers'', JArray (map blocker_to_json blockers))]"

definition encode_account_status :: "json_writer \<Rightarrow> account_status \<Rightarrow> coded_error + bytes" where
  "encode_account_status to_vec status = encode_payload to_vec (account_status_json status)"

section \<open>Reading requests\<close>

definition parse_request :: "json_text \<Rightarrow> 'a decoder \<Rightarrow> string \<Rightarrow> coded_error + 'a" where
  "parse_request jt dec j = map_err invalid_input (from_slice jt dec j)"

definition str_field :: "(string \<times> json) list \<Rightarrow> string \<Rightarrow> coded_error + string" where
  "str_field m key = ok_or (invalid ''missing required string field'') (Option.bind (map_of m key) as_str)"

definition json_asset_or_pair :: "json \<Rightarrow> coded_error + asset_or_pair" where
  "json_asset_or_pair v =
     (case v of
        JString asset \<Rightarrow> Inr (AssetSingle asset)
      | JObject m \<Rightarrow>
          bindR (str_field m ''from'') (\<lambda>source.
          bindR (str_field m ''to'') (\<lambda>dest. Inr (AssetPair source dest)))
      | _ \<Rightarrow> Inl (invalid ''asset must be a string or a { from, to } pair''))"

fun number_to_string :: "(u64 \<Rightarrow> string) \<Rightarrow> number \<Rightarrow> string" where
  "number_to_string float_text (PosInt n) = show_nat (unat n)"
| "number_to_string float_text (NegInt n) = show_int (sint n)"
| "number_to_string float_text (Float bits) = float_text bits"

definition value_string :: "(u64 \<Rightarrow> string) \<Rightarrow> json \<Rightarrow> coded_error + string" where
  "value_string float_text v =
     (case v of
        JString s \<Rightarrow> Inr s
      | JNumber n \<Rightarrow> Inr (number_to_string float_text n)
      | _ \<Rightarrow> Inl (invalid ''value must be a string or a number''))"

text \<open>\<open>Option::map(..).transpose()\<close>.\<close>

definition transpose_map :: "('a \<Rightarrow> 'e + 'b) \<Rightarrow> 'a option \<Rightarrow> 'e + 'b option" where
  "transpose_map f v = (case v of None \<Rightarrow> Inr None | Some x \<Rightarrow> bindR (f x) (\<lambda>y. Inr (Some y)))"

subsection \<open>Provider search\<close>

record provider_search_dto =
  psd_asset :: "json option"
  psd_from :: "string option"
  psd_to :: "string option"
  psd_inbound_rails :: "string list"
  psd_outbound_rails :: "string list"

definition decode_provider_search :: "provider_search_dto decoder" where
  "decode_provider_search doc =
     bindR (doc_struct [''asset'', ''from'', ''to'', ''inboundRails'', ''outboundRails''] doc) (\<lambda>members.
     bindR (optional_value decode_value (members ''asset'')) (\<lambda>asset.
     bindR (optional_value decode_string (members ''from'')) (\<lambda>source.
     bindR (optional_value decode_string (members ''to'')) (\<lambda>dest.
     bindR (defaulted members ''inboundRails'' [] decode_strings) (\<lambda>inbound.
     bindR (defaulted members ''outboundRails'' [] decode_strings) (\<lambda>outbound.
     Inr \<lparr>psd_asset = asset, psd_from = source, psd_to = dest, psd_inbound_rails = inbound,
          psd_outbound_rails = outbound\<rparr>))))))"

definition provider_search_into_core :: "provider_search_dto \<Rightarrow> coded_error + provider_search" where
  "provider_search_into_core d =
     bindR (transpose_map json_asset_or_pair (psd_asset d)) (\<lambda>asset.
     Inr \<lparr>ps_asset = asset, ps_from = psd_from d, ps_to = psd_to d, ps_inbound_rails = psd_inbound_rails d,
          ps_outbound_rails = psd_outbound_rails d\<rparr>)"

definition parse_provider_search :: "json_text \<Rightarrow> string \<Rightarrow> coded_error + provider_search" where
  "parse_provider_search jt j = bindR (parse_request jt decode_provider_search j) provider_search_into_core"

subsection \<open>Transfers\<close>

record transfer_dto =
  trd_asset :: json
  trd_from :: transfer_source
  trd_to :: transfer_destination
  trd_value :: json
  trd_allowed_rails :: "string list"

definition decode_source :: "transfer_source decoder" where
  "decode_source doc =
     bindR (doc_struct [''location'', ''source''] doc) (\<lambda>members.
     bindR (required members ''location'' decode_string) (\<lambda>loc.
     bindR (optional_value decode_value (members ''source'')) (\<lambda>source.
     Inr \<lparr>src_location = loc, src_source = source\<rparr>)))"

definition decode_destination :: "transfer_destination decoder" where
  "decode_destination doc =
     bindR (doc_struct [''location'', ''recipient'', ''depositMessage''] doc) (\<lambda>members.
     bindR (required members ''location'' decode_string) (\<lambda>loc.
     bindR (optional_value decode_value (members ''recipient'')) (\<lambda>recipient.
     bindR (optional_value decode_string (members ''depositMessage'')) (\<lambda>message.
     Inr \<lparr>dst_location = loc, dst_recipient = recipient, dst_deposit_message = message\<rparr>))))"

definition decode_transfer_dto :: "transfer_dto decoder" where
  "decode_transfer_dto doc =
     bindR (doc_struct [''asset'', ''from'', ''to'', ''value'', ''allowedRails''] doc) (\<lambda>members.
     bindR (required members ''asset'' decode_value) (\<lambda>asset.
     bindR (required members ''from'' decode_source) (\<lambda>source.
     bindR (required members ''to'' decode_destination) (\<lambda>dest.
     bindR (required members ''value'' decode_value) (\<lambda>v.
     bindR (defaulted members ''allowedRails'' [] decode_strings) (\<lambda>rails.
     Inr \<lparr>trd_asset = asset, trd_from = source, trd_to = dest, trd_value = v, trd_allowed_rails = rails\<rparr>))))))"

definition transfer_into_core :: "(u64 \<Rightarrow> string) \<Rightarrow> transfer_dto \<Rightarrow> coded_error + transfer_request" where
  "transfer_into_core float_text d =
     bindR (json_asset_or_pair (trd_asset d)) (\<lambda>asset.
     bindR (value_string float_text (trd_value d)) (\<lambda>v.
     Inr \<lparr>tr_asset = asset, tr_from = trd_from d, tr_to = trd_to d, tr_value = v,
          tr_allowed_rails = trd_allowed_rails d\<rparr>))"

definition transfer_request_of :: "json_text \<Rightarrow> (u64 \<Rightarrow> string) \<Rightarrow> string \<Rightarrow> coded_error + transfer_request" where
  "transfer_request_of jt float_text j = bindR (parse_request jt decode_transfer_dto j) (transfer_into_core float_text)"

definition decode_execute :: "execute_request decoder" where
  "decode_execute doc =
     bindR (doc_struct [''id'', ''instruction''] doc) (\<lambda>members.
     bindR (required members ''id'' decode_string) (\<lambda>ident.
     bindR (required members ''instruction'' decode_value) (\<lambda>instruction.
     Inr \<lparr>ex_id = ident, ex_instruction = instruction\<rparr>)))"

definition execute_request_of :: "json_text \<Rightarrow> string \<Rightarrow> coded_error + execute_request" where
  "execute_request_of jt j = parse_request jt decode_execute j"

subsection \<open>Forwarding templates\<close>

definition decode_initiate_template :: "(json \<times> string) decoder" where
  "decode_initiate_template doc =
     bindR (doc_struct [''asset'', ''location''] doc) (\<lambda>members.
     bindR (required members ''asset'' decode_value) (\<lambda>asset.
     bindR (required members ''location'' decode_string) (\<lambda>loc. Inr (asset, loc))))"

definition initiate_template_into_core :: "json \<times> string \<Rightarrow> coded_error + initiate_template_request" where
  "initiate_template_into_core d =
     bindR (json_asset_or_pair (fst d)) (\<lambda>asset. Inr \<lparr>it_asset = asset, it_location = snd d\<rparr>)"

definition initiate_template_request_of :: "json_text \<Rightarrow> string \<Rightarrow> coded_error + initiate_template_request" where
  "initiate_template_request_of jt j = bindR (parse_request jt decode_initiate_template j) initiate_template_into_core"

record create_template_dto =
  ctd_asset :: "json option"
  ctd_location :: "string option"
  ctd_address :: "json option"
  ctd_id :: "string option"
  ctd_data :: "json option"

definition decode_create_template :: "create_template_dto decoder" where
  "decode_create_template doc =
     bindR (doc_struct [''asset'', ''location'', ''address'', ''id'', ''data''] doc) (\<lambda>members.
     bindR (optional_value decode_value (members ''asset'')) (\<lambda>asset.
     bindR (optional_value decode_string (members ''location'')) (\<lambda>loc.
     bindR (optional_value decode_value (members ''address'')) (\<lambda>address.
     bindR (optional_value decode_string (members ''id'')) (\<lambda>ident.
     bindR (optional_value decode_value (members ''data'')) (\<lambda>data.
     Inr \<lparr>ctd_asset = asset, ctd_location = loc, ctd_address = address, ctd_id = ident, ctd_data = data\<rparr>))))))"

definition create_template_into_core :: "create_template_dto \<Rightarrow> coded_error + create_template_request" where
  "create_template_into_core d =
     (case ctd_data d of
        Some data \<Rightarrow> Inr (Completion (ctd_id d) data)
      | None \<Rightarrow>
          (case (ctd_asset d, ctd_location d, ctd_address d) of
             (Some asset, Some loc, Some address) \<Rightarrow>
               bindR (json_asset_or_pair asset) (\<lambda>a. Inr (Direct a loc address))
           | _ \<Rightarrow> Inl (invalid ''a direct template requires asset, location, and address'')))"

definition create_template_request_of :: "json_text \<Rightarrow> string \<Rightarrow> coded_error + create_template_request" where
  "create_template_request_of jt j = bindR (parse_request jt decode_create_template j) create_template_into_core"

definition decode_list_templates :: "list_templates_request decoder" where
  "decode_list_templates doc =
     bindR (doc_struct [''asset'', ''location''] doc) (\<lambda>members.
     bindR (optional_value decode_strings (members ''asset'')) (\<lambda>asset.
     bindR (optional_value decode_strings (members ''location'')) (\<lambda>loc.
     Inr \<lparr>lt_asset = asset, lt_location = loc\<rparr>)))"

definition list_templates_request_of :: "json_text \<Rightarrow> string \<Rightarrow> coded_error + list_templates_request" where
  "list_templates_request_of jt j = parse_request jt decode_list_templates j"

subsection \<open>Forwarding addresses\<close>

record create_address_dto =
  cad_source_location :: string
  cad_asset :: json
  cad_outgoing_rail :: "string option"
  cad_incoming_rail :: "string option"
  cad_destination_location :: "string option"
  cad_destination_address :: "json option"
  cad_template_id :: "string option"

definition decode_create_address :: "create_address_dto decoder" where
  "decode_create_address doc =
     bindR (doc_struct [''sourceLocation'', ''asset'', ''outgoingRail'', ''incomingRail'', ''destinationLocation'',
        ''destinationAddress'', ''persistentAddressTemplateId''] doc) (\<lambda>members.
     bindR (required members ''sourceLocation'' decode_string) (\<lambda>source.
     bindR (required members ''asset'' decode_value) (\<lambda>asset.
     bindR (optional_value decode_string (members ''outgoingRail'')) (\<lambda>outgoing.
     bindR (optional_value decode_string (members ''incomingRail'')) (\<lambda>incoming.
     bindR (optional_value decode_string (members ''destinationLocation'')) (\<lambda>loc.
     bindR (optional_value decode_value (members ''destinationAddress'')) (\<lambda>address.
     bindR (optional_value decode_string (members ''persistentAddressTemplateId'')) (\<lambda>template.
     Inr \<lparr>cad_source_location = source, cad_asset = asset, cad_outgoing_rail = outgoing, cad_incoming_rail = incoming,
          cad_destination_location = loc, cad_destination_address = address, cad_template_id = template\<rparr>))))))))"

definition create_address_into_core :: "create_address_dto \<Rightarrow> coded_error + create_address_request" where
  "create_address_into_core d =
     bindR (case (cad_destination_location d, cad_destination_address d, cad_template_id d) of
              (Some loc, Some address, _) \<Rightarrow> Inr (Address loc address)
            | (_, _, Some template) \<Rightarrow> Inr (Template template)
            | _ \<Rightarrow> Inl (invalid ''a forwarding address requires either a destination address or a template id'')) (\<lambda>dest.
     bindR (json_asset_or_pair (cad_asset d)) (\<lambda>asset.
     Inr \<lparr>ca_source_location = cad_source_location d, ca_asset = asset, ca_outgoing_rail = cad_outgoing_rail d,
          ca_incoming_rail = cad_incoming_rail d, ca_destination = dest\<rparr>))"

definition create_address_request_of :: "json_text \<Rightarrow> string \<Rightarrow> coded_error + create_address_request" where
  "create_address_request_of jt j = bindR (parse_request jt decode_create_address j) create_address_into_core"

subsection \<open>Lists\<close>

definition default_pagination :: pagination where
  "default_pagination = \<lparr>pg_limit = None, pg_offset = None\<rparr>"

definition decode_pagination :: "pagination decoder" where
  "decode_pagination doc =
     bindR (doc_struct [''limit'', ''offset''] doc) (\<lambda>members.
     bindR (optional_value decode_u32 (members ''limit'')) (\<lambda>limit.
     bindR (optional_value decode_u32 (members ''offset'')) (\<lambda>offset. Inr \<lparr>pg_limit = limit, pg_offset = offset\<rparr>)))"

record address_filter_dto =
  afd_source_location :: "string option"
  afd_destination_location :: "string option"
  afd_asset :: "json option"
  afd_destination_address :: "string option"
  afd_template_id :: "string option"

definition decode_address_filter :: "address_filter_dto decoder" where
  "decode_address_filter doc =
     bindR (doc_struct [''sourceLocation'', ''destinationLocation'', ''asset'', ''destinationAddress'',
        ''persistentAddressTemplateId''] doc) (\<lambda>members.
     bindR (optional_value decode_string (members ''sourceLocation'')) (\<lambda>source.
     bindR (optional_value decode_string (members ''destinationLocation'')) (\<lambda>dest.
     bindR (optional_value decode_value (members ''asset'')) (\<lambda>asset.
     bindR (optional_value decode_string (members ''destinationAddress'')) (\<lambda>address.
     bindR (optional_value decode_string (members ''persistentAddressTemplateId'')) (\<lambda>template.
     Inr \<lparr>afd_source_location = source, afd_destination_location = dest, afd_asset = asset,
          afd_destination_address = address, afd_template_id = template\<rparr>))))))"

definition address_filter_of :: "address_filter_dto \<Rightarrow> coded_error + address_filter" where
  "address_filter_of d =
     bindR (transpose_map json_asset_or_pair (afd_asset d)) (\<lambda>asset.
     Inr \<lparr>af_source_location = afd_source_location d, af_destination_location = afd_destination_location d,
          af_asset = asset, af_destination_address = afd_destination_address d, af_template_id = afd_template_id d\<rparr>)"

definition decode_list_addresses :: "(address_filter_dto list option \<times> pagination) decoder" where
  "decode_list_addresses doc =
     bindR (doc_struct [''search'', ''pagination''] doc) (\<lambda>members.
     bindR (optional_value (decode_list decode_address_filter) (members ''search'')) (\<lambda>search.
     bindR (defaulted members ''pagination'' default_pagination decode_pagination) (\<lambda>page. Inr (search, page))))"

definition list_addresses_into_core ::
    "address_filter_dto list option \<times> pagination \<Rightarrow> coded_error + list_addresses_request" where
  "list_addresses_into_core d =
     bindR (transpose_map (mapM_result address_filter_of) (fst d)) (\<lambda>search.
     Inr \<lparr>la_search = search, la_pagination = snd d\<rparr>)"

definition list_addresses_request_of :: "json_text \<Rightarrow> string \<Rightarrow> coded_error + list_addresses_request" where
  "list_addresses_request_of jt j = bindR (parse_request jt decode_list_addresses j) list_addresses_into_core"

definition decode_persistent_filter :: "persistent_filter decoder" where
  "decode_persistent_filter doc =
     bindR (doc_struct [''location'', ''persistentAddress'', ''persistentAddressTemplate''] doc) (\<lambda>members.
     bindR (required members ''location'' decode_string) (\<lambda>loc.
     bindR (optional_value decode_string (members ''persistentAddress'')) (\<lambda>address.
     bindR (optional_value decode_string (members ''persistentAddressTemplate'')) (\<lambda>template.
     Inr \<lparr>pa_location = loc, pa_address = address, pa_template = template\<rparr>))))"

definition decode_endpoint_filter :: "transaction_endpoint_filter decoder" where
  "decode_endpoint_filter doc =
     bindR (doc_struct [''location'', ''userAddress'', ''asset''] doc) (\<lambda>members.
     bindR (required members ''location'' decode_string) (\<lambda>loc.
     bindR (optional_value decode_string (members ''userAddress'')) (\<lambda>user.
     bindR (optional_value decode_string (members ''asset'')) (\<lambda>asset.
     Inr \<lparr>te_location = loc, te_user_address = user, te_asset = asset\<rparr>))))"

definition decode_transaction_ref :: "transaction_ref_filter decoder" where
  "decode_transaction_ref doc =
     bindR (doc_struct [''location'', ''transaction''] doc) (\<lambda>members.
     bindR (required members ''location'' decode_string) (\<lambda>loc.
     bindR (required members ''transaction'' decode_value) (\<lambda>t. Inr \<lparr>tf_location = loc, tf_transaction = t\<rparr>)))"

definition decode_list_transactions :: "list_transactions_request decoder" where
  "decode_list_transactions doc =
     bindR (doc_struct [''persistentAddresses'', ''from'', ''to'', ''transactions'', ''pagination''] doc) (\<lambda>members.
     bindR (optional_value (decode_list decode_persistent_filter) (members ''persistentAddresses'')) (\<lambda>addresses.
     bindR (optional_value decode_endpoint_filter (members ''from'')) (\<lambda>source.
     bindR (optional_value decode_endpoint_filter (members ''to'')) (\<lambda>dest.
     bindR (optional_value (decode_list decode_transaction_ref) (members ''transactions'')) (\<lambda>transactions.
     bindR (defaulted members ''pagination'' default_pagination decode_pagination) (\<lambda>page.
     Inr \<lparr>lx_addresses = addresses, lx_from = source, lx_to = dest, lx_transactions = transactions,
          lx_pagination = page\<rparr>))))))"

definition list_transactions_request_of :: "json_text \<Rightarrow> string \<Rightarrow> coded_error + list_transactions_request" where
  "list_transactions_request_of jt j = parse_request jt decode_list_transactions j"

definition decode_share_kyc :: "share_kyc_request decoder" where
  "decode_share_kyc doc =
     bindR (doc_struct [''attributes'', ''tosAgreement''] doc) (\<lambda>members.
     bindR (required members ''attributes'' decode_string) (\<lambda>attributes.
     bindR (optional_value decode_value (members ''tosAgreement'')) (\<lambda>tos.
     Inr \<lparr>sk_attributes = attributes, sk_tos_agreement = tos\<rparr>)))"

definition share_kyc_request_of :: "json_text \<Rightarrow> string \<Rightarrow> coded_error + share_kyc_request" where
  "share_kyc_request_of jt j = parse_request jt decode_share_kyc j"

end
