(* ===== verification/AssetJsonProps.thy ===== *)
theory AssetJsonProps
  imports AssetJson AssetClient
begin

text \<open>
  What the JSON contract of the asset-movement bindings keeps: a provider that leaves as JSON comes back
  unchanged, and the body the client sends for a request is itself a request of the contract.
\<close>

section \<open>Structs read from maps\<close>

lemma occurrences_distinct: "distinct (map fst m) \<Longrightarrow> length (occurrences n m) \<le> 1"
proof (induction m)
  case (Cons kv m)
  have "n \<notin> fst ` set m \<Longrightarrow> occurrences n m = []" by (force simp: occurrences_def filter_empty_conv)
  with Cons show ?case by (cases kv) (auto simp: occurrences_def)
qed (simp add: occurrences_def)

lemma doc_struct_distinct: "distinct (map fst m) \<Longrightarrow> doc_struct names (JObject m) = Inr (map_of m)"
proof -
  assume "distinct (map fst m)"
  then have "find (\<lambda>n. 1 < length (occurrences n m)) names = None"
    using occurrences_distinct [of m] by (auto simp: find_None_iff not_less)
  then show ?thesis by (simp add: doc_struct_def)
qed

lemma doc_struct_map: "map_ok m \<Longrightarrow> doc_struct names (JObject m) = Inr (map_of m)"
  by (rule doc_struct_distinct) (rule map_ok_distinct)

lemma map_ok_insert_some [simp]: "map_ok m \<Longrightarrow> map_ok (insert_some k v m)"
  by (simp add: insert_some_def map_ok_insert split: option.splits)

lemma map_ok_insert_string [simp]: "map_ok m \<Longrightarrow> map_ok (insert_string k v m)"
  by (simp add: insert_string_def)

lemma map_ok_insert_u32 [simp]: "map_ok m \<Longrightarrow> map_ok (insert_u32 k v m)"
  by (simp add: insert_u32_def map_ok_insert split: option.splits)

lemma map_of_insert_u32 [simp]:
  "map_of (insert_u32 k v m) l = (if l = k \<and> v \<noteq> None then map_option (\<lambda>n. JNumber (PosInt (ucast n))) v else map_of m l)"
  by (auto simp: insert_u32_def map_of_insert split: option.splits)

declare map_ok_insert [simp] map_insert.simps [simp del]

section \<open>Optional members\<close>

lemma optional_string [simp]: "optional_value decode_string (map_option JString v) = Inr v"
  by (cases v) (simp_all add: optional_value_def decode_string_def)

lemma optional_string_Some [simp]: "optional_value decode_string (Some (JString s)) = Inr (Some s)"
  by (simp add: optional_value_def decode_string_def)

lemma optional_none [simp]: "optional_value dec None = Inr None"
  by (simp add: optional_value_def)

text \<open>An optional value that is kept as it is: not null, and with ordered maps only.\<close>

definition kept_value :: "json option \<Rightarrow> bool" where
  "kept_value v \<longleftrightarrow> (\<forall>j. v = Some j \<longrightarrow> json_ok j \<and> j \<noteq> JNull)"

lemma optional_kept: "kept_value v \<Longrightarrow> optional_value decode_value v = Inr v"
  by (cases v) (auto simp: optional_value_def decode_value_def kept_value_def to_value_id is_null_iff)

lemma decode_kept: "json_ok v \<Longrightarrow> decode_value v = Inr v"
  by (simp add: decode_value_def to_value_id)

lemma decode_string_JString [simp]: "decode_string (JString s) = Inr s"
  by (simp add: decode_string_def)

lemma decode_strings_array [simp]: "decode_strings (string_array xs) = Inr xs"
proof -
  have "mapM_result (\<lambda>x. ok_or ''invalid type'' (as_str x)) (map JString xs) = Inr xs" by (induction xs) auto
  then show ?thesis by (simp add: decode_strings_def string_array_def)
qed

lemma mapM_result_inverse: "\<forall>x \<in> set xs. f (g x) = Inr x \<Longrightarrow> mapM_result f (map g xs) = Inr xs"
  by (induction xs) auto

lemma decode_list_inverse: "\<forall>x \<in> set xs. dec (f x) = Inr x \<Longrightarrow> decode_list dec (JArray (map f xs)) = Inr xs"
  by (simp add: decode_list_def mapM_result_inverse)

lemma string_array_not_null [simp]: "\<not> is_null (string_array xs)"
  by (simp add: string_array_def)

lemma optional_strings [simp]: "optional_value decode_strings (map_option string_array v) = Inr v"
  by (cases v) (simp_all add: optional_value_def)

section \<open>Providers\<close>

definition provider_ok :: "asset_provider_info \<Rightarrow> bool" where
  "provider_ok p \<longleftrightarrow> map_ok (ap_operations p) \<and> list_all json_ok (ap_supported_assets p)
     \<and> kept_value (ap_location_metadata p) \<and> kept_value (ap_legal p)"

lemma decode_endpoint_to_json: "decode_endpoint_dto (endpoint_to_json e) = Inr e"
proof -
  have "decode_auth (auth_to_json a) = Inr a" for a by (cases a) (simp_all add: decode_auth_def auth_variant_def)
  then show ?thesis
    by (simp add: decode_endpoint_dto_def endpoint_to_json_def doc_struct_distinct required_def)
qed

lemma decode_provider_to_json:
  assumes "provider_ok p"
  shows "decode_provider (provider_to_json p) = Inr p"
proof -
  have ops: "decode_map decode_endpoint_dto (json_map endpoint_to_json (ap_operations p)) = Inr (ap_operations p)"
    using assms by (intro decode_map_json_map) (auto simp: provider_ok_def decode_endpoint_to_json)
  have assets: "decode_list decode_value (JArray (ap_supported_assets p)) = Inr (ap_supported_assets p)"
    using decode_list_inverse [of "ap_supported_assets p" decode_value id] assms
    by (simp add: provider_ok_def list_all_iff decode_kept)
  have kept: "optional_value decode_value (ap_location_metadata p) = Inr (ap_location_metadata p)"
      "optional_value decode_value (ap_legal p) = Inr (ap_legal p)"
    using assms by (simp_all add: provider_ok_def optional_kept)
  have eta: "\<lparr>ap_id = ap_id p, ap_operations = ap_operations p, ap_supported_assets = ap_supported_assets p,
      ap_location_metadata = ap_location_metadata p, ap_legal = ap_legal p, ap_account = ap_account p\<rparr> = p" by (cases p) simp
  show ?thesis
    using assms kept eta
    by (cases "ap_location_metadata p"; cases "ap_legal p"; cases "ap_account p")
      (simp_all add: decode_provider_def provider_to_json_def member_some_def doc_struct_distinct required_def
        defaulted_def ops assets map_from_id provider_ok_def)
qed

lemma map_of_filter_map_endpoint:
  "fst ` set (filter_map (\<lambda>(name, endp). map_option (Pair name) (f name endp)) m) \<subseteq> fst ` set m"
  by (induction m) (auto split: option.splits)

lemma map_ok_filter_map: "map_ok m \<Longrightarrow> map_ok (filter_map (\<lambda>(name, endp). map_option (Pair name) (f name endp)) m)"
proof (induction m)
  case (Cons kv m)
  obtain k v where kv: "kv = (k, v)" by (cases kv)
  from Cons.prems have "\<forall>k' \<in> fst ` set m. k < k'" "map_ok m"
    unfolding kv map_ok_Cons by blast+
  moreover from this map_of_filter_map_endpoint [of f m]
  have "\<forall>k' \<in> fst ` set (filter_map (\<lambda>(name, endp). map_option (Pair name) (f name endp)) m). k < k'" by blast
  ultimately show ?case using Cons.IH by (cases "f k v") (simp_all only: kv filter_map.simps map_ok_Cons option.map option.case prod.case)
qed simp

lemma json_ok_get: "json_ok v \<Longrightarrow> get_key k v = Some j \<Longrightarrow> json_ok j"
  by (cases v) (auto simp: list_all_iff dest: map_of_SomeD)

lemma json_ok_array: "json_ok v \<Longrightarrow> as_array v = Some xs \<Longrightarrow> list_all json_ok xs"
  by (cases v) auto

text \<open>Every provider read from an entry of the metadata can be sent.\<close>

lemma provider_from_entry_ok:
  assumes "json_ok entry"
  shows "provider_ok (provider_from_entry ident entry)"
proof -
  have ops: "map_ok (operations_from_entry entry)"
    using json_ok_get [OF assms, of "''operations''"]
    by (auto simp: operations_from_entry_def bind_eq_Some_conv map_ok_filter_map split: option.splits elim!: as_object.elims)
  have kept: "kept_value (non_null (get_key k entry))" for k
    using json_ok_get [OF assms, of k] by (auto simp: kept_value_def non_null_def bind_eq_Some_conv is_null_iff split: if_splits)
  have assets: "list_all json_ok (case Option.bind (get_key ''supportedAssets'' entry) as_array of None \<Rightarrow> [] | Some xs \<Rightarrow> xs)"
    using json_ok_get [OF assms] json_ok_array by (auto simp: bind_eq_Some_conv split: option.splits)
  show ?thesis by (simp add: provider_ok_def provider_from_entry_def ops kept assets)
qed

section \<open>The bodies the client sends\<close>

fun canonical_pair :: "asset_env \<Rightarrow> asset_or_pair \<Rightarrow> asset_or_pair" where
  "canonical_pair env (AssetSingle a) = AssetSingle (canonicalize_asset env a)"
| "canonical_pair env (AssetPair a b) = AssetPair (canonicalize_asset env a) (canonicalize_asset env b)"

lemma asset_of_canonical [simp]: "json_asset_or_pair (to_canonical_value env a) = Inr (canonical_pair env a)"
  by (cases a) (simp_all add: json_asset_or_pair_def json_object_def map_of_map_from str_field_def)

lemma json_ok_object: "list_all (\<lambda>(k, v). json_ok v) kvs \<Longrightarrow> json_ok (json_object kvs)"
  using set_map_from [of kvs] by (auto simp: json_object_def list_all_iff)

lemma json_ok_canonical [simp]: "json_ok (to_canonical_value env a)"
  by (cases a) (simp_all add: json_ok_object)

lemma canonical_not_null [simp]: "\<not> is_null (to_canonical_value env a)" "to_canonical_value env a \<noteq> JNull"
  by (cases a; simp add: json_object_def)+

lemma decode_canonical [simp]: "decode_value (to_canonical_value env a) = Inr (to_canonical_value env a)"
  by (simp add: decode_kept)

lemma optional_canonical [simp]:
  "optional_value decode_value (map_option (to_canonical_value env) v) = Inr (map_option (to_canonical_value env) v)"
  by (rule optional_kept) (auto simp: kept_value_def)

lemma transpose_canonical [simp]:
  "transpose_map json_asset_or_pair (map_option (to_canonical_value env) v) = Inr (map_option (canonical_pair env) v)"
  by (cases v) (simp_all add: transpose_map_def)

lemma decode_source_body: "kept_value (src_source s) \<Longrightarrow>
  decode_source (JObject (insert_some ''source'' (src_source s) (map_insert ''location'' (JString (src_location s)) []))) = Inr s"
  by (cases s, cases "src_source s")
    (simp_all add: decode_source_def doc_struct_map required_def map_of_insert optional_kept)

lemma decode_destination_body: "kept_value (dst_recipient d) \<Longrightarrow> decode_destination (JObject (destination_fields d)) = Inr d"
  by (cases d, cases "dst_recipient d"; cases "dst_deposit_message d")
    (simp_all add: decode_destination_def destination_fields_def doc_struct_map required_def map_of_insert optional_kept)

lemma transfer_body:
  assumes "kept_value (src_source (tr_from r))" "kept_value (dst_recipient (tr_to r))"
  shows "bindR (map_err invalid_input (decode_transfer_dto (JObject (transfer_fields env r)))) (transfer_into_core float_text)
    = Inr (r\<lparr>tr_asset := canonical_pair env (tr_asset r)\<rparr>)"
  using decode_source_body [OF assms(1)] decode_destination_body [OF assms(2)]
  by (cases r, cases "tr_allowed_rails r")
    (simp_all add: decode_transfer_dto_def transfer_fields_def doc_struct_map required_def defaulted_def map_of_insert
      transfer_into_core_def value_string_def decode_kept Let_def)

lemma initiate_template_body:
  "bindR (map_err invalid_input (decode_initiate_template (JObject (initiate_template_fields env r)))) initiate_template_into_core
    = Inr (r\<lparr>it_asset := canonical_pair env (it_asset r)\<rparr>)"
  by (cases r) (simp add: decode_initiate_template_def initiate_template_fields_def doc_struct_map required_def map_of_insert
      initiate_template_into_core_def)

fun canonical_template :: "asset_env \<Rightarrow> create_template_request \<Rightarrow> create_template_request" where
  "canonical_template env (Direct a loc address) = Direct (canonical_pair env a) loc address"
| "canonical_template env r = r"

fun template_kept :: "create_template_request \<Rightarrow> bool" where
  "template_kept (Direct a loc address) = kept_value (Some address)"
| "template_kept (Completion ident data) = kept_value (Some data)"

lemma optional_canonical_Some [simp]:
  "optional_value decode_value (Some (to_canonical_value env a)) = Inr (Some (to_canonical_value env a))"
  using optional_canonical [of env "Some a"] by simp

lemma create_template_body:
  "template_kept r \<Longrightarrow>
    bindR (map_err invalid_input (decode_create_template (JObject (create_template_fields env r)))) create_template_into_core
      = Inr (canonical_template env r)"
  by (cases r) (simp_all add: decode_create_template_def doc_struct_map map_of_insert create_template_into_core_def optional_kept)

lemma list_templates_body: "decode_list_templates (JObject (list_templates_fields r)) = Inr r"
  by (cases r, cases "lt_asset r"; cases "lt_location r")
    (simp_all add: decode_list_templates_def list_templates_fields_def doc_struct_map optional_value_def)

lemma create_address_body:
  assumes "\<forall>loc address. ca_destination r = Address loc address \<longrightarrow> kept_value (Some address)"
  shows "bindR (map_err invalid_input (decode_create_address (JObject (create_address_fields env r)))) create_address_into_core
    = Inr (r\<lparr>ca_asset := canonical_pair env (ca_asset r)\<rparr>)"
  using assms
  by (cases r, cases "ca_destination r"; cases "ca_outgoing_rail r"; cases "ca_incoming_rail r")
    (simp_all add: decode_create_address_def create_address_fields_def create_address_base_def doc_struct_map required_def
      map_of_insert create_address_into_core_def optional_kept Let_def)

lemma decode_u32_text [simp]: "decode_u32 (JNumber (PosInt (ucast n))) = Inr n"
proof -
  have "unat (ucast n :: u64) = unat n" by (simp add: unsigned_ucast_eq take_bit_nat_eq_self_iff) (rule order.strict_trans [OF unat_less_pow], simp)
  moreover have "unat n < 2 ^ LENGTH(32)" by (rule unat_less_pow)
  ultimately show ?thesis by (simp add: decode_u32_def try_narrow_def)
qed

lemma optional_u32 [simp]: "optional_value decode_u32 (Some (JNumber (PosInt (ucast n)))) = Inr (Some n)"
  by (simp add: optional_value_def)

lemma map_insert_not_Nil [simp]: "map_insert k v m \<noteq> []"
  by (cases m) (auto simp: map_insert.simps split: if_splits)

lemma decode_pagination_members:
  "decode_pagination (JObject (insert_u32 ''offset'' offset (insert_u32 ''limit'' limit []))) = Inr \<lparr>pg_limit = limit, pg_offset = offset\<rparr>"
  by (cases limit; cases offset) (simp_all add: decode_pagination_def doc_struct_map)

lemma insert_u32_Nil: "insert_u32 k v m = [] \<longleftrightarrow> v = None \<and> m = []"
  by (simp add: insert_u32_def split: option.splits)

lemma pagination_body:
  assumes "members ''pagination'' = pagination_to_value p"
  shows "defaulted members ''pagination'' default_pagination decode_pagination = Inr p"
  using assms
  by (cases p) (auto simp: defaulted_def pagination_to_value_def default_pagination_def Let_def insert_u32_Nil decode_pagination_members)

definition filter_dto :: "asset_env \<Rightarrow> address_filter \<Rightarrow> address_filter_dto" where
  "filter_dto env f = \<lparr>afd_source_location = af_source_location f, afd_destination_location = af_destination_location f,
     afd_asset = map_option (to_canonical_value env) (af_asset f), afd_destination_address = af_destination_address f,
     afd_template_id = af_template_id f\<rparr>"

definition canonical_filter :: "asset_env \<Rightarrow> address_filter \<Rightarrow> address_filter" where
  "canonical_filter env f = f\<lparr>af_asset := map_option (canonical_pair env) (af_asset f)\<rparr>"

lemma decode_address_filter_value: "decode_address_filter (address_filter_to_value env f) = Inr (filter_dto env f)"
  by (cases f, cases "af_asset f"; cases "af_source_location f"; cases "af_destination_location f";
      cases "af_destination_address f"; cases "af_template_id f")
    (simp_all add: decode_address_filter_def address_filter_to_value_def doc_struct_map filter_dto_def)

lemma address_filter_of_dto: "address_filter_of (filter_dto env f) = Inr (canonical_filter env f)"
  by (cases f) (simp add: address_filter_of_def filter_dto_def canonical_filter_def)

lemma mapM_result_map: "(\<And>x. f (g x) = Inr (h x)) \<Longrightarrow> mapM_result f (map g xs) = Inr (map h xs)"
  by (induction xs) auto

lemma optional_list:
  assumes "\<And>x. dec (f x) = Inr (g x)"
  shows "optional_value (decode_list dec) (map_option (\<lambda>xs. JArray (map f xs)) v) = Inr (map_option (map g) v)"
  by (cases v) (simp_all add: optional_value_def decode_list_def mapM_result_map [of dec f g] assms)

lemma list_addresses_body:
  "bindR (map_err invalid_input (decode_list_addresses (JObject (list_addresses_fields env r)))) list_addresses_into_core
    = Inr (r\<lparr>la_search := map_option (map (canonical_filter env)) (la_search r)\<rparr>)"
proof -
  let ?m = "list_addresses_fields env r"
  have t: "transpose_map (mapM_result address_filter_of) (map_option (map (filter_dto env)) v)
      = Inr (map_option (map (canonical_filter env)) v)" for v
    by (cases v) (simp_all add: transpose_map_def mapM_result_map [of address_filter_of "filter_dto env" "canonical_filter env"]
        address_filter_of_dto)
  have page: "defaulted (map_of ?m) ''pagination'' default_pagination decode_pagination = Inr (la_pagination r)"
    by (rule pagination_body) (cases "pagination_to_value (la_pagination r)"; simp add: list_addresses_fields_def)
  have search: "map_of ?m ''search'' = map_option (\<lambda>fs. JArray (map (address_filter_to_value env) fs)) (la_search r)"
    by (cases "la_search r") (simp_all add: list_addresses_fields_def)
  have d: "doc_struct names (JObject ?m) = Inr (map_of ?m)" for names
    by (rule doc_struct_map) (simp add: list_addresses_fields_def)
  have "\<lparr>la_search = map_option (map (canonical_filter env)) (la_search r), la_pagination = la_pagination r\<rparr>
      = r\<lparr>la_search := map_option (map (canonical_filter env)) (la_search r)\<rparr>" by (cases r) simp
  then show ?thesis
    by (simp add: decode_list_addresses_def d page search t list_addresses_into_core_def
        optional_list [of decode_address_filter "address_filter_to_value env" "filter_dto env", OF decode_address_filter_value])
qed

text \<open>The hypothesis is the same for a list whose elements must be of a kind.\<close>

lemma optional_list_kept:
  assumes "\<forall>xs. v = Some xs \<longrightarrow> (\<forall>x \<in> set xs. dec (f x) = Inr x)"
  shows "optional_value (decode_list dec) (map_option (\<lambda>xs. JArray (map f xs)) v) = Inr v"
  using assms by (cases v) (simp_all add: optional_value_def decode_list_inverse)

lemma decode_persistent_filter_value: "decode_persistent_filter (persistent_filter_to_value f) = Inr f"
  by (cases f, cases "pa_address f"; cases "pa_template f")
    (simp_all add: decode_persistent_filter_def persistent_filter_to_value_def doc_struct_map required_def map_of_insert)

lemma decode_endpoint_filter_value: "decode_endpoint_filter (transaction_endpoint_to_value f) = Inr f"
  by (cases f, cases "te_user_address f"; cases "te_asset f")
    (simp_all add: decode_endpoint_filter_def transaction_endpoint_to_value_def doc_struct_map required_def map_of_insert)

lemma decode_transaction_ref_value:
  "json_ok (tf_transaction f) \<Longrightarrow> decode_transaction_ref (transaction_ref_to_value f) = Inr f"
  by (cases f) (simp add: decode_transaction_ref_def transaction_ref_to_value_def json_object_def doc_struct_map required_def
      map_of_map_from decode_kept)


lemma optional_object:
  assumes "\<And>x. dec (f x) = Inr x" "\<And>x. f x \<noteq> JNull"
  shows "optional_value dec (map_option f v) = Inr v"
  using assms by (cases v) (simp_all add: optional_value_def is_null_iff)

lemma list_transactions_body:
  assumes "\<forall>ts. lx_transactions r = Some ts \<longrightarrow> (\<forall>t \<in> set ts. json_ok (tf_transaction t))"
  shows "decode_list_transactions (JObject (list_transactions_fields r)) = Inr r"
proof -
  let ?m = "list_transactions_fields r"
  note f = list_transactions_fields_def Let_def
  have page: "defaulted (map_of ?m) ''pagination'' default_pagination decode_pagination = Inr (lx_pagination r)"
    by (rule pagination_body) (cases "pagination_to_value (lx_pagination r)"; simp add: f)
  have at: "map_of ?m ''persistentAddresses'' = map_option (\<lambda>fs. JArray (map persistent_filter_to_value fs)) (lx_addresses r)"
      "map_of ?m ''from'' = map_option transaction_endpoint_to_value (lx_from r)"
      "map_of ?m ''to'' = map_option transaction_endpoint_to_value (lx_to r)"
      "map_of ?m ''transactions'' = map_option (\<lambda>fs. JArray (map transaction_ref_to_value fs)) (lx_transactions r)"
    by (cases "lx_addresses r"; cases "lx_from r"; cases "lx_to r"; cases "lx_transactions r"; simp add: f)+
  have d: "doc_struct names (JObject ?m) = Inr (map_of ?m)" for names
    by (rule doc_struct_map) (simp add: f)
  have e: "optional_value decode_endpoint_filter (map_option transaction_endpoint_to_value v) = Inr v" for v
    by (rule optional_object [OF decode_endpoint_filter_value]) (simp add: transaction_endpoint_to_value_def)
  have p: "optional_value (decode_list decode_persistent_filter) (map_option (\<lambda>fs. JArray (map persistent_filter_to_value fs)) v) = Inr v" for v
    by (rule optional_list_kept) (simp add: decode_persistent_filter_value)
  have t: "optional_value (decode_list decode_transaction_ref) (map_option (\<lambda>fs. JArray (map transaction_ref_to_value fs)) (lx_transactions r))
      = Inr (lx_transactions r)"
    by (rule optional_list_kept) (use assms in \<open>simp add: decode_transaction_ref_value\<close>)
  have "\<lparr>lx_addresses = lx_addresses r, lx_from = lx_from r, lx_to = lx_to r, lx_transactions = lx_transactions r,
      lx_pagination = lx_pagination r\<rparr> = r" by (cases r) simp
  then show ?thesis by (simp add: decode_list_transactions_def d at page e p t)
qed

lemma share_kyc_body: "kept_value (sk_tos_agreement r) \<Longrightarrow> decode_share_kyc (JObject (share_kyc_fields r)) = Inr r"
  by (cases r, cases "sk_tos_agreement r")
    (simp_all add: decode_share_kyc_def share_kyc_fields_def doc_struct_map required_def map_of_insert optional_kept)


text \<open>The bindings narrow providers the way the query of the client does.\<close>

lemma filter_is_client_filter: "filter_providers ps f = filter (filter_accepts f) ps"
  unfolding filter_providers_def by (rule filter_cong) (simp_all add: accepts_def filter_accepts_def)

section \<open>Properties\<close>

text \<open>C28. A discovered provider survives the boundary: the JSON it leaves as, read back as the argument of
  an operation, is the same provider, whatever the metadata entry it was read from.\<close>

theorem provider_crosses_boundary:
  assumes "json_ok entry" "p = provider_from_entry ident entry"
    and "encode_provider to_vec (Some p) = Inr b" "jt b = Inr (provider_to_json p)"
  shows "parse_provider jt b = Inr p"
  using assms(4) decode_provider_to_json [OF provider_from_entry_ok [OF assms(1)], of ident]
  by (simp add: parse_provider_def from_slice_def assms(2))

definition toy_entry :: json where
  "toy_entry = JObject
     [(''account'', JString ''keeta_a''), (''legal'', JNull),
      (''operations'', JObject [(''getAccountStatus'', JString ''u''), (''shareKYC'', JObject [(''url'', JString ''v'')])]),
      (''supportedAssets'', JArray [JString ''USD''])]"

theorem provider_crosses_boundary_witness:
  "parse_provider (\<lambda>b. Inr (provider_to_json (provider_from_entry ''p'' toy_entry))) ''{}''
    = Inr \<lparr>ap_id = ''p'', ap_operations = [(''getAccountStatus'', \<lparr>op_url = ''u'', op_auth = EaRequired\<rparr>),
             (''shareKYC'', \<lparr>op_url = ''v'', op_auth = EaNone\<rparr>)],
        ap_supported_assets = [JString ''USD''], ap_location_metadata = None, ap_legal = None, ap_account = Some ''keeta_a''\<rparr>"
proof -
  have ok: "json_ok toy_entry" by code_simp
  have p: "provider_from_entry ''p'' toy_entry
    = \<lparr>ap_id = ''p'', ap_operations = [(''getAccountStatus'', \<lparr>op_url = ''u'', op_auth = EaRequired\<rparr>),
             (''shareKYC'', \<lparr>op_url = ''v'', op_auth = EaNone\<rparr>)],
        ap_supported_assets = [JString ''USD''], ap_location_metadata = None, ap_legal = None, ap_account = Some ''keeta_a''\<rparr>"
    by (simp add: provider_from_entry_def toy_entry_def operations_from_entry_def parse_endpoint_def auth_override_def non_null_def)
  show ?thesis
    using provider_crosses_boundary [OF ok refl, of "\<lambda>v. Inr ''{}''" "''p''" "''{}''"
        "\<lambda>b. Inr (provider_to_json (provider_from_entry ''p'' toy_entry))"]
    by (simp add: encode_provider_def encode_payload_def p)
qed

text \<open>The body of a post: the client adds its account to the members of the request, and the caller the signed
  envelope when the operation authenticates.\<close>

definition posted_body :: "('a, 't, 'w, 'u) asset_client \<Rightarrow> signed_envelope option \<Rightarrow> flds \<Rightarrow> json" where
  "posted_body c sig m = shape_body (am_account c) Flat sig (map_insert ''account'' (JString (am_account c)) m)"

text \<open>The bytes of that body, which \<open>asset_post\<close> hands to the transport.\<close>

definition posted_bytes ::
    "('a, 't, 'w, 'u) asset_client \<Rightarrow> endpoint_auth \<Rightarrow> signable list \<Rightarrow> flds \<Rightarrow> 'w \<Rightarrow> (client_error + bytes) \<times> 'w" where
  "posted_bytes c mode sig m w =
     request_body (am_caller c) (post_auth mode) Flat sig (Some (JObject (map_insert ''account'' (JString (am_account c)) m))) w"

lemma asset_post_sends:
  "asset_post c dec op params m sig w =
     (case endpoint_url (url_parse (caller_urls (am_caller c))) (fst op) params of
        Inl e \<Rightarrow> (Inl e, w)
      | Inr url \<Rightarrow>
          (case posted_bytes c (snd op) sig m w of
             (Inl e, w) \<Rightarrow> (Inl e, w)
           | (Inr payload, w) \<Rightarrow>
               (case t_post (caller_transport (am_caller c)) (url_as_str (caller_urls (am_caller c)) url) payload w of
                  (r, w) \<Rightarrow> (bindR (bindR (map_err CeTransport r) (classify (caller_text (am_caller c)) dec)) expect_ready, w))))"
  by (simp add: asset_post_def invoke_def dispatch_def send_post_def posted_bytes_def Let_def split: sum.split prod.split)

lemma posted_bytes_Inr:
  assumes "posted_bytes c mode sig m w = (Inr b, w')"
  obtains s where "caller_to_vec (am_caller c) (posted_body c s m) = Inr b"
  using assms
  by (auto simp: posted_bytes_def request_body_def body_fields_def Let_def result_elims posted_body_def am_account_def split: prod.splits)

lemma posted_members:
  assumes "map_ok m"
  obtains m' where "posted_body c s m = JObject m'" "map_ok m'" "\<And>k. k \<noteq> ''account'' \<Longrightarrow> k \<noteq> ''signed'' \<Longrightarrow> map_of m' k = map_of m k"
  using assms by (cases s) (simp_all add: posted_body_def shape_body_def map_of_insert)

text \<open>No reader of the contract looks at the two members that were added.\<close>

lemma posted_decoders:
  assumes "map_ok m"
  shows "decode_transfer_dto (posted_body c s m) = decode_transfer_dto (JObject m)"
    and "decode_execute (posted_body c s m) = decode_execute (JObject m)"
    and "decode_initiate_template (posted_body c s m) = decode_initiate_template (JObject m)"
    and "decode_create_template (posted_body c s m) = decode_create_template (JObject m)"
    and "decode_list_templates (posted_body c s m) = decode_list_templates (JObject m)"
    and "decode_create_address (posted_body c s m) = decode_create_address (JObject m)"
    and "decode_list_addresses (posted_body c s m) = decode_list_addresses (JObject m)"
    and "decode_list_transactions (posted_body c s m) = decode_list_transactions (JObject m)"
    and "decode_share_kyc (posted_body c s m) = decode_share_kyc (JObject m)"
proof -
  obtain m' where m': "posted_body c s m = JObject m'" "map_ok m'"
    "\<And>k. k \<noteq> ''account'' \<Longrightarrow> k \<noteq> ''signed'' \<Longrightarrow> map_of m' k = map_of m k" using posted_members [OF assms] by blast
  note same = m'(1) doc_struct_map [OF m'(2)] doc_struct_map [OF assms] m'(3) required_def defaulted_def
  show "decode_transfer_dto (posted_body c s m) = decode_transfer_dto (JObject m)" by (simp add: same decode_transfer_dto_def)
  show "decode_execute (posted_body c s m) = decode_execute (JObject m)" by (simp add: same decode_execute_def)
  show "decode_initiate_template (posted_body c s m) = decode_initiate_template (JObject m)"
    by (simp add: same decode_initiate_template_def)
  show "decode_create_template (posted_body c s m) = decode_create_template (JObject m)"
    by (simp add: same decode_create_template_def)
  show "decode_list_templates (posted_body c s m) = decode_list_templates (JObject m)"
    by (simp add: same decode_list_templates_def)
  show "decode_create_address (posted_body c s m) = decode_create_address (JObject m)"
    by (simp add: same decode_create_address_def)
  show "decode_list_addresses (posted_body c s m) = decode_list_addresses (JObject m)"
    by (simp add: same decode_list_addresses_def)
  show "decode_list_transactions (posted_body c s m) = decode_list_transactions (JObject m)"
    by (simp add: same decode_list_transactions_def)
  show "decode_share_kyc (posted_body c s m) = decode_share_kyc (JObject m)" by (simp add: same decode_share_kyc_def)
qed

lemma request_members_ok:
  "map_ok (transfer_fields env tr)" "map_ok (execute_fields ex)" "map_ok (initiate_template_fields env it)"
  "map_ok (create_template_fields env ct)" "map_ok (list_templates_fields lt)" "map_ok (create_address_fields env ca)"
  "map_ok (list_addresses_fields env la)" "map_ok (list_transactions_fields lx)" "map_ok (share_kyc_fields sk)"
proof -
  show "map_ok (create_template_fields env ct)" by (cases ct) simp_all
  show "map_ok (create_address_fields env ca)"
    by (cases "ca_destination ca") (simp_all add: create_address_fields_def create_address_base_def Let_def)
qed (simp_all add: transfer_fields_def execute_fields_def initiate_template_fields_def list_templates_fields_def
    list_addresses_fields_def list_transactions_fields_def share_kyc_fields_def Let_def)


text \<open>A client that signs and writes one transfer.\<close>

definition signed_transfer :: json where
  "signed_transfer = shape_body ''k'' Flat (Some toy_signed)
     (map_insert ''account'' (JString ''k'') (transfer_fields toy_asset_env (toy_transfer [''ACH''])))"

definition one_body_client :: "(string, int, nat, string \<times> (string \<times> string) list) asset_client" where
  "one_body_client = (toy_asset_client 200)\<lparr>am_context := (am_context (toy_asset_client 200))\<lparr>ctx_caller :=
     caller_new counting_env toy_url (\<lambda>v. if v = signed_transfer then Inr ''{}'' else Inl []) (\<lambda>_. Inl []) (status_transport 200) ''k''\<rparr>\<rparr>"

lemma one_body_posted:
  "posted_bytes one_body_client EaRequired [Text ''x''] (transfer_fields toy_asset_env (toy_transfer [''ACH''])) 0 = (Inr ''{}'', 0)"
proof -
  have "sign_with counting_env ''k'' [Text ''x''] \<lparr>sp_nonce = ''n'', sp_timestamp = ''t''\<rparr> = Inr toy_signed"
    using toy_sign by (simp add: sign_with_def verification_data_def ensure_canonical_timestamp_def counting_env_def)
  moreover have "uuid_v4 counting_env 0 = (''n'', 0)" "utc_now counting_env 0 = (5, 0)" "format_iso8601 counting_env 5 = ''t''"
      "account_to_string counting_env ''k'' = ''k''" by (simp_all add: counting_env_def toy_env_def)
  ultimately show ?thesis
    by (simp add: posted_bytes_def request_body_def one_body_client_def am_caller_def am_account_def caller_new_def
        post_auth_def signs_def caller_sign_def generate_def body_fields_def signed_transfer_def)
qed


end
