(* ===== verification/Host.thy ===== *)
theory Host
  imports Registry Metadata
begin

text \<open>
  The flat boundary of the WASI preview 1 module: \<open>keetanetwork-anchor-client-wasi/src/p1/mod.rs\<close> and what its
  surfaces share. Every argument and result is an integer: a handle, or a place in the memory of the guest.
  The readers of that memory, the error slot and the tables of accounts, base certificates and byte results
  belong to the shared node module, and so do the JSON writer and reader to \<open>serde_json\<close>: the record \<open>abi\<close>, over
  the world \<open>'w\<close>. A call that does not return (a panic, or a table with no free handle) is \<open>None\<close>.
\<close>

section \<open>Third-party operations\<close>

record ('a, 'c, 'w) abi =
  abi_account :: "int \<Rightarrow> 'w \<Rightarrow> 'a option \<times> 'w"
  abi_certificate :: "int \<Rightarrow> 'w \<Rightarrow> 'c option \<times> 'w"
  abi_store_certificate :: "'c \<Rightarrow> 'w \<Rightarrow> int \<times> 'w"
  abi_bytes_in :: "int \<Rightarrow> int \<Rightarrow> 'w \<Rightarrow> bytes"
  abi_string_in :: "int \<Rightarrow> int \<Rightarrow> 'w \<Rightarrow> string option \<times> 'w"
  abi_fail :: "coded_error \<Rightarrow> 'w \<Rightarrow> int \<times> 'w"
  abi_bytes_result :: "coded_error + bytes \<Rightarrow> 'w \<Rightarrow> int \<times> 'w"
  abi_account_from_str :: "string \<Rightarrow> string + 'a"
  abi_to_vec :: "json \<Rightarrow> string + bytes"
  abi_from_text :: json_text

section \<open>Shared helpers\<close>

definition failing :: "('a, 'c, 'w) abi \<Rightarrow> coded_error \<Rightarrow> 'w \<Rightarrow> 'w" where
  "failing abi e w = snd (abi_fail abi e w)"

definition ok_or_fail :: "('a, 'c, 'w) abi \<Rightarrow> coded_error + 'r \<Rightarrow> 'w \<Rightarrow> 'r option \<times> 'w" where
  "ok_or_fail abi result w = (case result of Inr v \<Rightarrow> (Some v, w) | Inl e \<Rightarrow> (None, failing abi e w))"

definition parse_account :: "('a, 'c, 'w) abi \<Rightarrow> string \<Rightarrow> 'w \<Rightarrow> 'a option \<times> 'w" where
  "parse_account abi address w =
     (case abi_account_from_str abi address of
        Inr a \<Rightarrow> (Some a, w)
      | Inl e \<Rightarrow> (None, failing abi (coded_error_new ''INVALID_ACCOUNT'' e) w))"

text \<open>The question mark on an option, and a call over the world.\<close>

definition bind_some :: "'x option \<times> 'w \<Rightarrow> ('x \<Rightarrow> 'w \<Rightarrow> 'y option \<times> 'w) \<Rightarrow> 'y option \<times> 'w" where
  "bind_some m f = (case m of (None, w) \<Rightarrow> (None, w) | (Some x, w) \<Rightarrow> f x w)"

lemma bind_some_simps [simp]: "bind_some (None, w) f = (None, w)" "bind_some (Some x, w) f = f x w"
  by (simp_all add: bind_some_def)

definition with_account_args ::
    "('a, 'c, 'w) abi \<Rightarrow> int \<Rightarrow> int \<Rightarrow> int \<Rightarrow> int \<Rightarrow> int \<Rightarrow> 'w \<Rightarrow> (string \<times> 'a \<times> 'a) option \<times> 'w" where
  "with_account_args abi node_url_ptr node_url_len root_ptr root_len account_handle w =
     bind_some (abi_string_in abi node_url_ptr node_url_len w) (\<lambda>node_url w.
     bind_some (abi_string_in abi root_ptr root_len w) (\<lambda>root w.
     bind_some (parse_account abi root w) (\<lambda>root w.
     bind_some (abi_account abi account_handle w) (\<lambda>account w.
     (Some (node_url, root, account), w)))))"

definition encode_json :: "('a, 'c, 'w) abi \<Rightarrow> json \<Rightarrow> coded_error + bytes" where
  "encode_json abi v = map_err (coded_error_new ''ENCODE'') (abi_to_vec abi v)"

section \<open>Tables of handles\<close>

text \<open>An operation on the object of a table that changes it and may change the world.\<close>

definition with_object ::
    "('a, 'c, 'w) abi \<Rightarrow> int \<Rightarrow> ('v \<Rightarrow> 'r) \<Rightarrow> 'v registry \<Rightarrow> 'w \<Rightarrow> 'r option \<times> 'w" where
  "with_object abi h body table w = ok_or_fail abi (with_handle h body table) w"

definition with_object_mut ::
    "('a, 'c, 'w) abi \<Rightarrow> int \<Rightarrow> ('v \<Rightarrow> 'w \<Rightarrow> 'r \<times> 'v \<times> 'w) \<Rightarrow> 'v registry \<Rightarrow> 'w \<Rightarrow> 'r option \<times> 'v registry \<times> 'w" where
  "with_object_mut abi h body table w =
     (case with_mut h (\<lambda>v. case body v w of (r, v, w) \<Rightarrow> ((r, w), v)) table of
        (Inl e, table) \<Rightarrow> (None, table, failing abi e w)
      | (Inr (r, w), table) \<Rightarrow> (Some r, table, w))"

text \<open>The three shapes of a result: a bytes handle, a flag, and an acknowledgement.\<close>

definition bytes_or_zero :: "('a, 'c, 'w) abi \<Rightarrow> (coded_error + bytes) option \<Rightarrow> 'w \<Rightarrow> int \<times> 'w" where
  "bytes_or_zero abi outcome w = (case outcome of Some result \<Rightarrow> abi_bytes_result abi result w | None \<Rightarrow> (0, w))"

definition flag_or_error :: "('a, 'c, 'w) abi \<Rightarrow> (coded_error + bool) option \<Rightarrow> 'w \<Rightarrow> int \<times> 'w" where
  "flag_or_error abi outcome w =
     (case outcome of
        Some (Inr True) \<Rightarrow> (1, w)
      | Some (Inr False) \<Rightarrow> (0, w)
      | Some (Inl e) \<Rightarrow> (- 1, failing abi e w)
      | None \<Rightarrow> (- 1, w))"

definition ack_or_error :: "('a, 'c, 'w) abi \<Rightarrow> (coded_error + unit) option \<Rightarrow> 'w \<Rightarrow> int \<times> 'w" where
  "ack_or_error abi outcome w =
     (case outcome of
        Some (Inr ()) \<Rightarrow> (1, w)
      | Some (Inl e) \<Rightarrow> (- 1, failing abi e w)
      | None \<Rightarrow> (- 1, w))"

section \<open>Lists of handles\<close>

text \<open>A list of handles is their little-endian \<open>i32\<close>s one after the other.\<close>

definition i32_from_le :: "char \<Rightarrow> char \<Rightarrow> char \<Rightarrow> char \<Rightarrow> int" where
  "i32_from_le a b c d = wrapping_i32 (of_char a + 2 ^ 8 * of_char b + 2 ^ 16 * of_char c + 2 ^ 24 * of_char d)"

fun resolve_chunks :: "(int \<Rightarrow> 'w \<Rightarrow> 'x option \<times> 'w) \<Rightarrow> bytes \<Rightarrow> 'w \<Rightarrow> 'x list option \<times> 'w" where
  "resolve_chunks look (a # b # c # d # rest) w =
     bind_some (look (i32_from_le a b c d) w) (\<lambda>x w.
     bind_some (resolve_chunks look rest w) (\<lambda>xs w. (Some (x # xs), w)))"
| "resolve_chunks look _ w = (Some [], w)"

definition resolve_handles ::
    "('a, 'c, 'w) abi \<Rightarrow> (int \<Rightarrow> 'w \<Rightarrow> 'x option \<times> 'w) \<Rightarrow> int \<Rightarrow> int \<Rightarrow> 'w \<Rightarrow> 'x list option \<times> 'w" where
  "resolve_handles abi look ptr len w =
     (let bs = abi_bytes_in abi ptr len w in
      if length bs mod 4 \<noteq> 0
      then (None, failing abi (coded_error_new ''INVALID_HANDLE_LIST'' ''handle list must be 4-byte aligned'') w)
      else resolve_chunks look bs w)"

definition resolve_accounts :: "('a, 'c, 'w) abi \<Rightarrow> int \<Rightarrow> int \<Rightarrow> 'w \<Rightarrow> 'a list option \<times> 'w" where
  "resolve_accounts abi ptr len w = resolve_handles abi (abi_account abi) ptr len w"

definition resolve_certificates :: "('a, 'c, 'w) abi \<Rightarrow> int \<Rightarrow> int \<Rightarrow> 'w \<Rightarrow> 'c list option \<times> 'w" where
  "resolve_certificates abi ptr len w = resolve_handles abi (abi_certificate abi) ptr len w"

section \<open>Shapes the exports share\<close>

text \<open>An argument that could not be read ends the call with a fixed answer; a failure ends it with the answer of
  the error slot. A call over a table answers with the table and the world after it.\<close>

definition or_return ::
    "int \<Rightarrow> 't \<Rightarrow> 'x option \<times> 'w \<Rightarrow> ('x \<Rightarrow> 'w \<Rightarrow> (int \<times> 't \<times> 'w) option) \<Rightarrow> (int \<times> 't \<times> 'w) option" where
  "or_return default_answer table m f =
     (case m of (None, w) \<Rightarrow> Some (default_answer, table, w) | (Some x, w) \<Rightarrow> f x w)"

definition answer :: "'t \<Rightarrow> int \<times> 'w \<Rightarrow> (int \<times> 't \<times> 'w) option" where
  "answer table rw = Some (fst rw, table, snd rw)"

definition store_in :: "'v registry \<Rightarrow> 'v \<Rightarrow> 'w \<Rightarrow> (int \<times> 'v registry \<times> 'w) option" where
  "store_in table v w = map_option (\<lambda>(h, table). (h, table, w)) (store v table)"

text \<open>A value turned into a bytes handle, or the answer of the failure.\<close>

definition encoded_or_fail ::
    "('a, 'c, 'w) abi \<Rightarrow> ('r \<Rightarrow> coded_error + bytes) \<Rightarrow> (coded_error + 'r) option \<Rightarrow> 'w \<Rightarrow> int \<times> 'w" where
  "encoded_or_fail abi enc outcome w =
     (case outcome of
        Some (Inr v) \<Rightarrow> abi_bytes_result abi (enc v) w
      | Some (Inl e) \<Rightarrow> abi_fail abi e w
      | None \<Rightarrow> (0, w))"

section \<open>Reading JSON arguments\<close>

definition decode_u64 :: "u64 decoder" where
  "decode_u64 j = ok_or ''invalid value'' (as_u64 j)"

definition decode_u8 :: "char decoder" where
  "decode_u8 j =
     bindR (decode_u64 j) (\<lambda>n. if unat n < 256 then Inr (char_of (unat n)) else Inl ''invalid value'')"

definition decode_i64 :: "int decoder" where
  "decode_i64 j =
     (case j of
        JNumber (PosInt n) \<Rightarrow> if unat n < 2 ^ 63 then Inr (uint n) else Inl ''invalid value''
      | JNumber (NegInt n) \<Rightarrow> Inr (sint n)
      | _ \<Rightarrow> Inl ''invalid type'')"

definition decode_byte_list :: "bytes decoder" where
  "decode_byte_list j = decode_list decode_u8 j"

definition read_json :: "('a, 'c, 'w) abi \<Rightarrow> 'x decoder \<Rightarrow> int \<Rightarrow> int \<Rightarrow> 'w \<Rightarrow> 'x option \<times> 'w" where
  "read_json abi dec ptr len w =
     ok_or_fail abi (map_err (coded_error_new ''DECODE'') (from_slice (abi_from_text abi) dec (abi_bytes_in abi ptr len w))) w"

text \<open>The JSON of byte strings and of strings.\<close>

definition json_bytes :: "bytes \<Rightarrow> json" where
  "json_bytes bs = JArray (map (\<lambda>b. JNumber (PosInt (of_char b))) bs)"

definition json_strings :: "string list \<Rightarrow> json" where
  "json_strings xs = JArray (map JString xs)"

end
