(* ===== verification/ErrorText.thy ===== *)
theory ErrorText
  imports ClientError Canonical
begin

text \<open>
  The messages the error types of the two crates display (the \<open>display\<close> attributes of the \<open>error.rs\<close> files).
  The error of a third-party crate is kept as its own message.
\<close>

section \<open>Core crate\<close>

fun sensitive_message :: "sensitive_attribute_error \<Rightarrow> string" where
  "sensitive_message SaMissingValue = ''Value not set''"
| "sensitive_message (SaInvalidOid m) = ''Invalid OID: '' @ m"
| "sensitive_message (SaSigningError m) = ''Signing error: '' @ m"
| "sensitive_message SaMissingPublicKey = ''Missing public key''"
| "sensitive_message SaUnsupportedKeyType = ''Unsupported key type for encryption''"
| "sensitive_message SaInvalidVersion = ''Invalid version format''"
| "sensitive_message (SaUnsupportedVersion v) = ''Unsupported version: '' @ show_nat (unat v)"
| "sensitive_message SaInvalidProof = ''Invalid proof format or content''"
| "sensitive_message SaInvalidUtf8 = ''Invalid UTF-8 data in decrypted value''"
| "sensitive_message (SaInvalidAttributeIsSensitive name) = ''Invalid attribute: '' @ name"
| "sensitive_message (SaInvalidAttributeIsPlain name) = ''Invalid attribute: '' @ name"
| "sensitive_message (SaAccountError e) = ''Account error: '' @ e"
| "sensitive_message (SaCryptoError e) = ''Cryptographic error: '' @ e"
| "sensitive_message (SaAsn1Error e) = ''ASN.1 error: '' @ asn1_message e"

fun kyc_schema_message :: "kyc_schema_error \<Rightarrow> string" where
  "kyc_schema_message (KsAsn1Error e) = ''ASN.1 error: '' @ asn1_message e"
| "kyc_schema_message (KsSerialization m) = ''Serialization error: '' @ m"
| "kyc_schema_message KsMissingOid = ''Missing OID''"
| "kyc_schema_message KsMissingValue = ''Missing Value''"
| "kyc_schema_message (KsUnsupportedDigestAlgorithm i) = ''Unsupported digest algorithm: '' @ i"
| "kyc_schema_message (KsUnsupportedEncryptionAlgorithm i) = ''Unsupported encryption algorithm: '' @ i"

fun kyc_certificate_message :: "kyc_certificate_error \<Rightarrow> string" where
  "kyc_certificate_message (KcSensitiveAttributeError e) = ''Sensitive attribute error: '' @ sensitive_message e"
| "kyc_certificate_message (KcX509Error e) = ''X.509 certificate error: '' @ e"
| "kyc_certificate_message (KcAsn1Error e) = ''ASN.1 error: '' @ asn1_message e"
| "kyc_certificate_message (KcKycSchemaError e) = ''KYC schema error: '' @ kyc_schema_message e"
| "kyc_certificate_message (KcAttributeNotFound name) = ''Attribute not found: '' @ name"
| "kyc_certificate_message (KcInvalidAttributeValue name reason) =
     ''Invalid attribute value for '' @ name @ '': '' @ reason"
| "kyc_certificate_message (KcMissingRequiredField f) = ''Missing required field: '' @ f"
| "kyc_certificate_message KcUnsupportedSubjectKey = ''Unsupported subject key type''"

fun container_message :: "container_error \<Rightarrow> string" where
  "container_message (UnsupportedVersion v) = ''Unsupported container version: '' @ show_nat (unat v)"
| "container_message UnsupportedCipherAlgorithm = ''Unsupported cipher algorithm''"
| "container_message UnsupportedDigestAlgorithm = ''Unsupported digest algorithm''"
| "container_message UnsupportedSignatureAlgorithm = ''Unsupported signature algorithm''"
| "container_message UnsupportedKeyType = ''Unsupported key type''"
| "container_message NoKeysProvided = ''No keys were provided to decrypt an encrypted container''"
| "container_message NoMatchingKey = ''No supplied key can decrypt the container''"
| "container_message DecryptionFailed = ''Decryption failed''"
| "container_message DecompressionFailed = ''Decompression failed''"
| "container_message SignerRequiresPrivateKey = ''Signer account must hold a private key''"
| "container_message NotSigned = ''Container is not signed''"
| "container_message NoPlaintextAvailable = ''No plaintext is available''"
| "container_message NoEncodedDataAvailable = ''No encoded data is available''"
| "container_message PlaintextDisabled = ''Plaintext access is disabled for this container''"
| "container_message EncryptionRequired = ''Encryption requires a non-empty set of principals''"
| "container_message InvalidPrincipals = ''Invalid principal set for the requested operation''"
| "container_message AccessManagementNotAllowed = ''Access management is not allowed on a plaintext container''"
| "container_message (CeAccountError e) = ''Account error: '' @ e"
| "container_message (CeCryptoError e) = ''Cryptographic error: '' @ e"
| "container_message (CeAsn1Error e) = ''ASN.1 error: '' @ asn1_message e"

fun sharable_message :: "sharable_error \<Rightarrow> string" where
  "sharable_message (ShContainer e) = ''Encrypted container error: '' @ container_message e"
| "sharable_message (ShCertificate e) = ''Certificate error: '' @ kyc_certificate_message e"
| "sharable_message (ShX509 e) = ''X.509 certificate error: '' @ e"
| "sharable_message (ShAccount e) = ''Account error: '' @ e"
| "sharable_message (ShAsn1 e) = ''ASN.1 error: '' @ asn1_message e"
| "sharable_message (ShAttributeNotFound name) = ''Attribute not found: '' @ name"
| "sharable_message (SensitivityMismatch name) = ''Attribute sensitivity mismatch with certificate: '' @ name"
| "sharable_message (ValueMismatch name) = ''Attribute value mismatch with certificate: '' @ name"
| "sharable_message (ProofValidationFailed name) = ''Attribute proof validation failed: '' @ name"
| "sharable_message ShUnsupportedSubjectKey = ''Unsupported subject public key type''"
| "sharable_message NoPrincipals = ''Container has no authorized principals to export to''"
| "sharable_message InvalidPem = ''Malformed PEM envelope''"
| "sharable_message InvalidJson = ''Malformed JSON contents''"
| "sharable_message InvalidBase64 = ''Malformed base64 value''"
| "sharable_message (ReferenceDigestMismatch name i) = ''Reference digest mismatch for '' @ name @ ''/'' @ i"
| "sharable_message (ReferenceDecrypt name i e) =
     ''Reference decrypt failed for '' @ name @ ''/'' @ i @ '': '' @ container_message e"

fun anchor_message :: "anchor_error \<Rightarrow> string" where
  "anchor_message (AnAsn1Error e) = ''ASN.1 error: '' @ asn1_message e"
| "anchor_message (AnKycCertificateError e) = ''Certificate error: '' @ kyc_certificate_message e"
| "anchor_message (AnSensitiveAttributeError e) = ''Sensitive attribute error: '' @ sensitive_message e"
| "anchor_message (AnEncryptedContainerError e) = ''Encrypted container error: '' @ container_message e"

section \<open>Signing\<close>

fun signing_message :: "signing_error \<Rightarrow> string" where
  "signing_message NonFiniteNumber = ''non-finite number in canonical JSON''"
| "signing_message IntegerOutOfRange = ''integer outside the safe range in canonical JSON''"
| "signing_message NonIntegerNumber = ''non-integer number in canonical JSON''"
| "signing_message OutputTooLarge = ''canonical output exceeds the size or complexity limit''"
| "signing_message NonCanonicalTimestamp =
     ''signing timestamp is not a strict ISO 8601 instant with millisecond precision and a Z zone''"
| "signing_message (SeEncode e) = ''ASN.1 encoding error: '' @ e"
| "signing_message (SeAccount e) = ''account error: '' @ e"

fun verify_message :: "verify_error \<Rightarrow> string" where
  "verify_message SignatureMismatch = ''signature does not match the signed data''"
| "verify_message (ClockSkew skew max_ms) =
     ''timestamp skew '' @ show_int skew @ ''ms exceeds the maximum '' @ show_int max_ms @ ''ms''"
| "verify_message MalformedTimestamp =
     ''timestamp is not a strict ISO 8601 instant with millisecond precision and a Z zone''"
| "verify_message (MalformedSignature e) = ''signature is not valid base64: '' @ e"
| "verify_message (VeEncoding e) = ''could not encode verification data: '' @ signing_message e"

fun request_message :: "request_error \<Rightarrow> string" where
  "request_message (DuplicateParameter name) = ''URL already has signed field parameter: '' @ name"
| "request_message IncompleteSignature = ''incomplete signature fields in request''"
| "request_message MissingAuthentication = ''authentication required: missing account and signature''"
| "request_message (MalformedAccount e) = ''account is malformed: '' @ e"
| "request_message (ReVerify e) = ''request signature rejected: '' @ verify_message e"

section \<open>Client\<close>

fun transport_message :: "transport_error \<Rightarrow> string"
and resilience_message :: "resilience_error \<Rightarrow> string" where
  "transport_message (TRequest e) = ''transport request failed: '' @ e"
| "transport_message (TInvalidUrl e) = ''invalid request URL: '' @ e"
| "transport_message (TResilience e) = resilience_message e"
| "resilience_message (RateLimited after_ms) = ''rate limited; retry after '' @ show_nat (unat after_ms) @ ''ms''"
| "resilience_message (RetryExhausted attempts elapsed e) =
     ''retry budget exhausted after '' @ show_nat (unat attempts) @ '' attempt(s) in '' @ show_nat (unat elapsed)
       @ ''ms: '' @ transport_message e"

fun resolver_message :: "resolver_error \<Rightarrow> string" where
  "resolver_message (RBase64 e) = ''metadata base64 is invalid: '' @ e"
| "resolver_message RUtf8 = ''metadata is not valid UTF-8''"
| "resolver_message (RJson e) = ''metadata JSON is invalid: '' @ e"
| "resolver_message (RField f) = ''metadata field `'' @ f @ ''` is missing or malformed''"
| "resolver_message (RUnsupportedScheme scheme) = ''unsupported metadata reference scheme: '' @ scheme"
| "resolver_message (RNotFound loc) = ''metadata location not found: '' @ loc"
| "resolver_message RNoRootMetadata = ''no valid root metadata found''"
| "resolver_message (RAccount e) = ''invalid account reference: '' @ e"
| "resolver_message (RTransport e) = ''metadata fetch failed: '' @ transport_message e"
| "resolver_message (RNode e) = ''node read failed: '' @ e"

fun client_message :: "client_error \<Rightarrow> string" where
  "client_message (CeTransport e) = transport_message e"
| "client_message (CeResolver e) = resolver_message e"
| "client_message (CeUrl e) = ''invalid operation URL: '' @ e"
| "client_message (CeSigning e) = ''request signing failed: '' @ signing_message e"
| "client_message (CeRequest e) = ''request URL signing failed: '' @ request_message e"
| "client_message (CeBody e) = ''anchor response body is invalid: '' @ e"
| "client_message (CeService status) = ''anchor request failed (status '' @ show_nat (unat status) @ '')''"
| "client_message (CeBlocker b) = ''the anchor reported an asset-movement blocker''"
| "client_message (CeUnsupportedOperation operation) = ''provider does not advertise the `'' @ operation @ ''` operation''"
| "client_message (CeTimeout operation timeout) =
     ''operation `'' @ operation @ ''` did not complete within '' @ show_nat (unat timeout) @ '' ms''"
| "client_message (CeReferenceFetch url status) =
     ''reference fetch failed for `'' @ url @ ''` (status '' @ show_nat (unat status) @ '')''"
| "client_message (CeSharable e) = sharable_message e"

end
