(* ===== verification/ContainerBinding.thy ===== *)
theory ContainerBinding
  imports Container ErrorText Registry
begin

text \<open>
  \<open>keetanetwork-anchor-bindings/src/encrypted_container.rs\<close>: the operations of a container for the bindings.
  Accounts leave as their type-prefixed public keys, and every error leaves as a stable code with the message
  of the core error.
\<close>

section \<open>Codes\<close>

definition UNSUPPORTED_VERSION :: string where "UNSUPPORTED_VERSION = ''UNSUPPORTED_VERSION''"
definition UNSUPPORTED_CIPHER :: string where "UNSUPPORTED_CIPHER = ''UNSUPPORTED_CIPHER''"
definition UNSUPPORTED_DIGEST :: string where "UNSUPPORTED_DIGEST = ''UNSUPPORTED_DIGEST''"
definition UNSUPPORTED_SIGNATURE :: string where "UNSUPPORTED_SIGNATURE = ''UNSUPPORTED_SIGNATURE''"
definition UNSUPPORTED_KEY_TYPE :: string where "UNSUPPORTED_KEY_TYPE = ''UNSUPPORTED_KEY_TYPE''"
definition NO_KEYS_PROVIDED :: string where "NO_KEYS_PROVIDED = ''NO_KEYS_PROVIDED''"
definition NO_MATCHING_KEY :: string where "NO_MATCHING_KEY = ''NO_MATCHING_KEY''"
definition DECRYPTION_FAILED :: string where "DECRYPTION_FAILED = ''DECRYPTION_FAILED''"
definition DECOMPRESSION_FAILED :: string where "DECOMPRESSION_FAILED = ''DECOMPRESSION_FAILED''"
definition SIGNER_REQUIRES_PRIVATE_KEY :: string where "SIGNER_REQUIRES_PRIVATE_KEY = ''SIGNER_REQUIRES_PRIVATE_KEY''"
definition NOT_SIGNED :: string where "NOT_SIGNED = ''NOT_SIGNED''"
definition NO_PLAINTEXT :: string where "NO_PLAINTEXT = ''NO_PLAINTEXT''"
definition NO_ENCODED_DATA :: string where "NO_ENCODED_DATA = ''NO_ENCODED_DATA''"
definition PLAINTEXT_DISABLED :: string where "PLAINTEXT_DISABLED = ''PLAINTEXT_DISABLED''"
definition ENCRYPTION_REQUIRED :: string where "ENCRYPTION_REQUIRED = ''ENCRYPTION_REQUIRED''"
definition INVALID_PRINCIPALS :: string where "INVALID_PRINCIPALS = ''INVALID_PRINCIPALS''"
definition ACCESS_MANAGEMENT_NOT_ALLOWED :: string where
  "ACCESS_MANAGEMENT_NOT_ALLOWED = ''ACCESS_MANAGEMENT_NOT_ALLOWED''"
definition ACCOUNT_ERROR :: string where "ACCOUNT_ERROR = ''ACCOUNT_ERROR''"
definition CRYPTO_ERROR :: string where "CRYPTO_ERROR = ''CRYPTO_ERROR''"
definition ASN1_ERROR :: string where "ASN1_ERROR = ''ASN1_ERROR''"

fun ec_code :: "container_error \<Rightarrow> string" where
  "ec_code (UnsupportedVersion _) = UNSUPPORTED_VERSION"
| "ec_code UnsupportedCipherAlgorithm = UNSUPPORTED_CIPHER"
| "ec_code UnsupportedDigestAlgorithm = UNSUPPORTED_DIGEST"
| "ec_code UnsupportedSignatureAlgorithm = UNSUPPORTED_SIGNATURE"
| "ec_code UnsupportedKeyType = UNSUPPORTED_KEY_TYPE"
| "ec_code NoKeysProvided = NO_KEYS_PROVIDED"
| "ec_code NoMatchingKey = NO_MATCHING_KEY"
| "ec_code DecryptionFailed = DECRYPTION_FAILED"
| "ec_code DecompressionFailed = DECOMPRESSION_FAILED"
| "ec_code SignerRequiresPrivateKey = SIGNER_REQUIRES_PRIVATE_KEY"
| "ec_code NotSigned = NOT_SIGNED"
| "ec_code NoPlaintextAvailable = NO_PLAINTEXT"
| "ec_code NoEncodedDataAvailable = NO_ENCODED_DATA"
| "ec_code PlaintextDisabled = PLAINTEXT_DISABLED"
| "ec_code EncryptionRequired = ENCRYPTION_REQUIRED"
| "ec_code InvalidPrincipals = INVALID_PRINCIPALS"
| "ec_code AccessManagementNotAllowed = ACCESS_MANAGEMENT_NOT_ALLOWED"
| "ec_code (CeAccountError _) = ACCOUNT_ERROR"
| "ec_code (CeCryptoError _) = CRYPTO_ERROR"
| "ec_code (CeAsn1Error _) = ASN1_ERROR"

definition ec_coded :: "container_error \<Rightarrow> coded_error" where
  "ec_coded e = coded_error_new (ec_code e) (container_message e)"

lemmas ec_codes = UNSUPPORTED_VERSION_def UNSUPPORTED_CIPHER_def UNSUPPORTED_DIGEST_def UNSUPPORTED_SIGNATURE_def
  UNSUPPORTED_KEY_TYPE_def NO_KEYS_PROVIDED_def NO_MATCHING_KEY_def DECRYPTION_FAILED_def DECOMPRESSION_FAILED_def
  SIGNER_REQUIRES_PRIVATE_KEY_def NOT_SIGNED_def NO_PLAINTEXT_def NO_ENCODED_DATA_def PLAINTEXT_DISABLED_def
  ENCRYPTION_REQUIRED_def INVALID_PRINCIPALS_def ACCESS_MANAGEMENT_NOT_ALLOWED_def ACCOUNT_ERROR_def CRYPTO_ERROR_def
  ASN1_ERROR_def

section \<open>Operations\<close>

definition ec_from_plaintext :: "bytes \<Rightarrow> 'a list option \<Rightarrow> bool option \<Rightarrow> 'a option \<Rightarrow> 'a container" where
  "ec_from_plaintext data accounts locked account =
     from_plaintext data accounts \<lparr>opt_locked = locked, opt_signer = account\<rparr>"

definition ec_from_encoded :: "('a, 'w) container_env \<Rightarrow> bytes \<Rightarrow> 'a list option \<Rightarrow> coded_error + 'a container" where
  "ec_from_encoded env data accounts = map_err ec_coded (from_encoded env data accounts)"

definition ec_from_encrypted :: "('a, 'w) container_env \<Rightarrow> bytes \<Rightarrow> 'a list \<Rightarrow> coded_error + 'a container" where
  "ec_from_encrypted env data accounts = map_err ec_coded (from_encrypted env data accounts)"

definition ec_get_plaintext :: "('a, 'w) container_env \<Rightarrow> 'a container \<Rightarrow> (coded_error + bytes) \<times> 'a container" where
  "ec_get_plaintext env c = apfst (map_err ec_coded) (get_plaintext env c)"

definition ec_get_encoded :: "('a, 'w) container_env \<Rightarrow> 'a container \<Rightarrow> 'w \<Rightarrow> (coded_error + bytes) \<times> 'a container \<times> 'w" where
  "ec_get_encoded env c w = apfst (map_err ec_coded) (get_encoded env c w)"

definition ec_is_encrypted :: "'a container \<Rightarrow> bool" where
  "ec_is_encrypted c = is_encrypted c"

definition ec_is_signed :: "'a container \<Rightarrow> bool" where
  "ec_is_signed c = is_signed c"

definition ec_principals :: "('a, 'w) container_env \<Rightarrow> 'a container \<Rightarrow> coded_error + bytes list" where
  "ec_principals env c = bindR (map_err ec_coded (get_principals c)) (\<lambda>ps. Inr (map (public_key env) ps))"

definition ec_grant_access :: "('a, 'w) container_env \<Rightarrow> 'a list \<Rightarrow> 'a container \<Rightarrow> (coded_error + unit) \<times> 'a container" where
  "ec_grant_access env accounts c = apfst (map_err ec_coded) (grant_access env accounts c)"

definition ec_revoke_access :: "('a, 'w) container_env \<Rightarrow> bytes \<Rightarrow> 'a container \<Rightarrow> (coded_error + unit) \<times> 'a container" where
  "ec_revoke_access env key c = apfst (map_err ec_coded) (revoke_access env key c)"

definition ec_verify_signature ::
    "('a, 'w) container_env \<Rightarrow> 'a container \<Rightarrow> 'w \<Rightarrow> (coded_error + bool) \<times> 'a container \<times> 'w" where
  "ec_verify_signature env c w = apfst (map_err ec_coded) (verify_signature env c w)"

definition ec_signing_account :: "('a, 'w) container_env \<Rightarrow> 'a container \<Rightarrow> coded_error + bytes option" where
  "ec_signing_account env c =
     bindR (map_err ec_coded (signing_account env c)) (\<lambda>a. Inr (map_option (public_key env) a))"

end
