(* ===== verification/HostContainer.thy ===== *)
theory HostContainer
  imports Host ContainerBinding
begin

text \<open>
  \<open>keetanetwork-anchor-client-wasi/src/p1/encrypted_container.rs\<close>: the encrypted-container exports of the flat
  boundary, over the table of containers. Sealing draws random material from the same world \<open>'w\<close> the boundary
  lives in.
\<close>

type_synonym ('a, 'w) container_call = "'a container registry \<Rightarrow> 'w \<Rightarrow> (int \<times> 'a container registry \<times> 'w) option"

section \<open>The table\<close>

definition containers_new :: "'a container registry" where
  "containers_new = registry_new ''encrypted-container''"

definition store_container :: "'a container \<Rightarrow> ('a, 'w) container_call" where
  "store_container c table w = map_option (\<lambda>(h, table). (h, table, w)) (store c table)"

definition with_container ::
    "('a, 'c, 'w) abi \<Rightarrow> int \<Rightarrow> ('a container \<Rightarrow> 'r) \<Rightarrow> 'a container registry \<Rightarrow> 'w \<Rightarrow> 'r option \<times> 'w" where
  "with_container abi h body table w = with_object abi h body table w"

definition with_container_mut ::
    "('a, 'c, 'w) abi \<Rightarrow> int \<Rightarrow> ('a container \<Rightarrow> 'w \<Rightarrow> 'r \<times> 'a container \<times> 'w) \<Rightarrow> 'a container registry \<Rightarrow> 'w
     \<Rightarrow> 'r option \<times> 'a container registry \<times> 'w" where
  "with_container_mut abi h body table w = with_object_mut abi h body table w"

text \<open>A change that does not touch the world.\<close>

definition pure_op :: "('v \<Rightarrow> 'r \<times> 'v) \<Rightarrow> 'v \<Rightarrow> 'w \<Rightarrow> 'r \<times> 'v \<times> 'w" where
  "pure_op f v w = (case f v of (r, v) \<Rightarrow> (r, v, w))"

definition decode_locked :: "int \<Rightarrow> bool option" where
  "decode_locked locked = (if locked < 0 then None else if locked = 0 then Some False else Some True)"

definition resolve_optional_accounts :: "('a, 'c, 'w) abi \<Rightarrow> int \<Rightarrow> int \<Rightarrow> 'w \<Rightarrow> 'a list option option \<times> 'w" where
  "resolve_optional_accounts abi ptr len w =
     (if len \<le> 0 then (Some None, w) else bind_some (resolve_accounts abi ptr len w) (\<lambda>xs w. (Some (Some xs), w)))"

definition encode_principals :: "('a, 'c, 'w) abi \<Rightarrow> bytes list \<Rightarrow> coded_error + bytes" where
  "encode_principals abi keys = encode_json abi (JArray (map json_bytes keys))"

section \<open>Making containers\<close>

definition keeta_encrypted_container_from_plaintext ::
    "('a, 'c, 'w) abi \<Rightarrow> int \<Rightarrow> int \<Rightarrow> int \<Rightarrow> int \<Rightarrow> int \<Rightarrow> int \<Rightarrow> ('a, 'w) container_call" where
  "keeta_encrypted_container_from_plaintext abi data_ptr data_len principals_ptr principals_len locked signer_handle table w =
     (let data = abi_bytes_in abi data_ptr data_len w in
      case resolve_optional_accounts abi principals_ptr principals_len w of
        (None, w) \<Rightarrow> Some (0, table, w)
      | (Some accounts, w) \<Rightarrow>
          (case (if signer_handle = 0 then (Some None, w)
                 else bind_some (abi_account abi signer_handle w) (\<lambda>a w. (Some (Some a), w))) of
             (None, w) \<Rightarrow> Some (0, table, w)
           | (Some account, w) \<Rightarrow>
               store_container (ec_from_plaintext data accounts (decode_locked locked) account) table w))"

definition store_or_fail :: "('a, 'c, 'w) abi \<Rightarrow> coded_error + 'a container \<Rightarrow> ('a, 'w) container_call" where
  "store_or_fail abi result table w =
     (case result of
        Inr c \<Rightarrow> store_container c table w
      | Inl e \<Rightarrow> (case abi_fail abi e w of (r, w) \<Rightarrow> Some (r, table, w)))"

definition keeta_encrypted_container_from_encoded ::
    "('a, 'c, 'w) abi \<Rightarrow> ('a, 'w) container_env \<Rightarrow> int \<Rightarrow> int \<Rightarrow> int \<Rightarrow> int \<Rightarrow> ('a, 'w) container_call" where
  "keeta_encrypted_container_from_encoded abi env data_ptr data_len principals_ptr principals_len table w =
     (let data = abi_bytes_in abi data_ptr data_len w in
      case resolve_optional_accounts abi principals_ptr principals_len w of
        (None, w) \<Rightarrow> Some (0, table, w)
      | (Some accounts, w) \<Rightarrow> store_or_fail abi (ec_from_encoded env data accounts) table w)"

definition keeta_encrypted_container_from_encrypted ::
    "('a, 'c, 'w) abi \<Rightarrow> ('a, 'w) container_env \<Rightarrow> int \<Rightarrow> int \<Rightarrow> int \<Rightarrow> int \<Rightarrow> ('a, 'w) container_call" where
  "keeta_encrypted_container_from_encrypted abi env data_ptr data_len principals_ptr principals_len table w =
     (let data = abi_bytes_in abi data_ptr data_len w in
      case resolve_accounts abi principals_ptr principals_len w of
        (None, w) \<Rightarrow> Some (0, table, w)
      | (Some accounts, w) \<Rightarrow> store_or_fail abi (ec_from_encrypted env data accounts) table w)"

section \<open>Using containers\<close>

definition keeta_encrypted_container_get_plaintext ::
    "('a, 'c, 'w) abi \<Rightarrow> ('a, 'w) container_env \<Rightarrow> int \<Rightarrow> ('a, 'w) container_call" where
  "keeta_encrypted_container_get_plaintext abi env h table w =
     (case with_container_mut abi h (pure_op (ec_get_plaintext env)) table w of
        (outcome, table, w) \<Rightarrow> (case bytes_or_zero abi outcome w of (r, w) \<Rightarrow> Some (r, table, w)))"

definition keeta_encrypted_container_get_encoded ::
    "('a, 'c, 'w) abi \<Rightarrow> ('a, 'w) container_env \<Rightarrow> int \<Rightarrow> ('a, 'w) container_call" where
  "keeta_encrypted_container_get_encoded abi env h table w =
     (case with_container_mut abi h (ec_get_encoded env) table w of
        (outcome, table, w) \<Rightarrow> (case bytes_or_zero abi outcome w of (r, w) \<Rightarrow> Some (r, table, w)))"

definition bool_or_unknown :: "bool option \<Rightarrow> int" where
  "bool_or_unknown outcome = (case outcome of Some True \<Rightarrow> 1 | Some False \<Rightarrow> 0 | None \<Rightarrow> - 1)"

definition keeta_encrypted_container_is_encrypted :: "('a, 'c, 'w) abi \<Rightarrow> int \<Rightarrow> ('a, 'w) container_call" where
  "keeta_encrypted_container_is_encrypted abi h table w =
     (case with_container abi h ec_is_encrypted table w of (outcome, w) \<Rightarrow> Some (bool_or_unknown outcome, table, w))"

definition keeta_encrypted_container_is_signed :: "('a, 'c, 'w) abi \<Rightarrow> int \<Rightarrow> ('a, 'w) container_call" where
  "keeta_encrypted_container_is_signed abi h table w =
     (case with_container abi h ec_is_signed table w of (outcome, w) \<Rightarrow> Some (bool_or_unknown outcome, table, w))"

definition keeta_encrypted_container_verify_signature ::
    "('a, 'c, 'w) abi \<Rightarrow> ('a, 'w) container_env \<Rightarrow> int \<Rightarrow> ('a, 'w) container_call" where
  "keeta_encrypted_container_verify_signature abi env h table w =
     (case with_container_mut abi h (ec_verify_signature env) table w of
        (outcome, table, w) \<Rightarrow> (case flag_or_error abi outcome w of (r, w) \<Rightarrow> Some (r, table, w)))"

definition keeta_encrypted_container_signing_account ::
    "('a, 'c, 'w) abi \<Rightarrow> ('a, 'w) container_env \<Rightarrow> int \<Rightarrow> ('a, 'w) container_call" where
  "keeta_encrypted_container_signing_account abi env h table w =
     (case with_container abi h (ec_signing_account env) table w of (outcome, w) \<Rightarrow>
        (case (case outcome of
                 Some (Inr (Some key)) \<Rightarrow> abi_bytes_result abi (Inr key) w
               | Some (Inr None) \<Rightarrow> abi_bytes_result abi (Inr []) w
               | Some (Inl e) \<Rightarrow> abi_fail abi e w
               | None \<Rightarrow> (0, w)) of (r, w) \<Rightarrow> Some (r, table, w)))"

definition keeta_encrypted_container_principals ::
    "('a, 'c, 'w) abi \<Rightarrow> ('a, 'w) container_env \<Rightarrow> int \<Rightarrow> ('a, 'w) container_call" where
  "keeta_encrypted_container_principals abi env h table w =
     (case with_container abi h (ec_principals env) table w of (outcome, w) \<Rightarrow>
        (case (case outcome of
                 Some (Inr keys) \<Rightarrow> abi_bytes_result abi (encode_principals abi keys) w
               | Some (Inl e) \<Rightarrow> abi_fail abi e w
               | None \<Rightarrow> (0, w)) of (r, w) \<Rightarrow> Some (r, table, w)))"

definition keeta_encrypted_container_grant_access ::
    "('a, 'c, 'w) abi \<Rightarrow> ('a, 'w) container_env \<Rightarrow> int \<Rightarrow> int \<Rightarrow> int \<Rightarrow> ('a, 'w) container_call" where
  "keeta_encrypted_container_grant_access abi env h principals_ptr principals_len table w =
     (case resolve_accounts abi principals_ptr principals_len w of
        (None, w) \<Rightarrow> Some (- 1, table, w)
      | (Some accounts, w) \<Rightarrow>
          (case with_container_mut abi h (pure_op (ec_grant_access env accounts)) table w of
             (outcome, table, w) \<Rightarrow> (case ack_or_error abi outcome w of (r, w) \<Rightarrow> Some (r, table, w))))"

definition keeta_encrypted_container_revoke_access ::
    "('a, 'c, 'w) abi \<Rightarrow> ('a, 'w) container_env \<Rightarrow> int \<Rightarrow> int \<Rightarrow> int \<Rightarrow> ('a, 'w) container_call" where
  "keeta_encrypted_container_revoke_access abi env h key_ptr key_len table w =
     (let key = abi_bytes_in abi key_ptr key_len w in
      case with_container_mut abi h (pure_op (ec_revoke_access env key)) table w of
        (outcome, table, w) \<Rightarrow> (case ack_or_error abi outcome w of (r, w) \<Rightarrow> Some (r, table, w)))"

definition keeta_encrypted_container_free :: "int \<Rightarrow> 'a container registry \<Rightarrow> 'a container registry" where
  "keeta_encrypted_container_free h table = remove h table"

end
