(* ===== verification/HostContainerProps.thy ===== *)
theory HostContainerProps
  imports HostContainer ContainerProps
begin

text \<open>
  The container exports of the flat boundary refine a map from handles to containers, and a container sealed on
  one side of the boundary opens on the other.
\<close>

section \<open>Tables as maps\<close>

abbreviation view :: "'v registry \<Rightarrow> int \<Rightarrow> 'v option" where
  "view table \<equiv> map_of (rg_entries table)"

lemma with_object_eq:
  "with_object abi h body table w =
     (case view table h of Some v \<Rightarrow> (Some (body v), w) | None \<Rightarrow> (None, failing abi (unknown table) w))"
  by (simp add: with_object_def with_handle_def ok_or_fail_def split: option.splits)

lemma with_object_mut_eq:
  "with_object_mut abi h body table w =
     (case view table h of
        None \<Rightarrow> (None, table, failing abi (unknown table) w)
      | Some v \<Rightarrow> (case body v w of (r, v', w') \<Rightarrow> (Some r, update_at h (\<lambda>_. v') table, w')))"
  by (auto simp: with_object_mut_def with_mut_def update_at_def split: option.splits prod.splits)

lemma unknown_resource: "unknown (update_at h f table) = unknown table" "unknown (remove h table) = unknown table"
  by (simp_all add: unknown_def update_at_def with_mut_def remove_def split: option.splits prod.splits)

lemma store_resource: "store v table = Some (h, table') \<Longrightarrow> unknown table' = unknown table"
  by (auto simp: store_def unknown_def)

section \<open>The exports as one step\<close>

datatype host_call =
    FromPlaintext int int int int int int
  | FromEncoded int int int int
  | FromEncrypted int int int int
  | GetPlaintext int
  | GetEncoded int
  | IsEncrypted int
  | IsSigned int
  | VerifySignature int
  | SigningAccount int
  | Principals int
  | GrantAccess int int int
  | RevokeAccess int int int
  | Free int

fun container_export ::
    "('a, 'c, 'w) abi \<Rightarrow> ('a, 'w) container_env \<Rightarrow> host_call \<Rightarrow> ('a, 'w) container_call" where
  "container_export abi env (FromPlaintext dp dl pp pl l s) = keeta_encrypted_container_from_plaintext abi dp dl pp pl l s"
| "container_export abi env (FromEncoded dp dl pp pl) = keeta_encrypted_container_from_encoded abi env dp dl pp pl"
| "container_export abi env (FromEncrypted dp dl pp pl) = keeta_encrypted_container_from_encrypted abi env dp dl pp pl"
| "container_export abi env (GetPlaintext h) = keeta_encrypted_container_get_plaintext abi env h"
| "container_export abi env (GetEncoded h) = keeta_encrypted_container_get_encoded abi env h"
| "container_export abi env (IsEncrypted h) = keeta_encrypted_container_is_encrypted abi h"
| "container_export abi env (IsSigned h) = keeta_encrypted_container_is_signed abi h"
| "container_export abi env (VerifySignature h) = keeta_encrypted_container_verify_signature abi env h"
| "container_export abi env (SigningAccount h) = keeta_encrypted_container_signing_account abi env h"
| "container_export abi env (Principals h) = keeta_encrypted_container_principals abi env h"
| "container_export abi env (GrantAccess h pp pl) = keeta_encrypted_container_grant_access abi env h pp pl"
| "container_export abi env (RevokeAccess h kp kl) = keeta_encrypted_container_revoke_access abi env h kp kl"
| "container_export abi env (Free h) = (\<lambda>table w. Some (0, keeta_encrypted_container_free h table, w))"

section \<open>The specification\<close>

text \<open>What a call does to a map from handles to containers: it makes a container under a fresh handle, it
  applies the operation of the core crate to the container its handle names, it forgets a handle, or it only
  reports. \<open>changes\<close> is the container after the operation.\<close>

fun handle_of :: "host_call \<Rightarrow> int option" where
  "handle_of (GetPlaintext h) = Some h"
| "handle_of (GetEncoded h) = Some h"
| "handle_of (VerifySignature h) = Some h"
| "handle_of (GrantAccess h _ _) = Some h"
| "handle_of (RevokeAccess h _ _) = Some h"
| "handle_of _ = None"

fun changes :: "('a, 'c, 'w) abi \<Rightarrow> ('a, 'w) container_env \<Rightarrow> host_call \<Rightarrow> 'a container \<Rightarrow> 'w \<Rightarrow> 'a container" where
  "changes abi env (GetPlaintext _) c w = snd (get_plaintext env c)"
| "changes abi env (GetEncoded _) c w = fst (snd (get_encoded env c w))"
| "changes abi env (VerifySignature _) c w = fst (snd (verify_signature env c w))"
| "changes abi env (GrantAccess _ pp pl) c w =
     (case resolve_accounts abi pp pl w of (Some accounts, _) \<Rightarrow> snd (grant_access env accounts c) | _ \<Rightarrow> c)"
| "changes abi env (RevokeAccess _ kp kl) c w = snd (revoke_access env (abi_bytes_in abi kp kl w) c)"
| "changes abi env _ c w = c"

fun makes :: "('a, 'c, 'w) abi \<Rightarrow> ('a, 'w) container_env \<Rightarrow> host_call \<Rightarrow> 'w \<Rightarrow> 'a container option" where
  "makes abi env (FromPlaintext dp dl pp pl l s) w =
     (case resolve_optional_accounts abi pp pl w of
        (Some accounts, w1) \<Rightarrow>
          if s = 0 then Some (from_plaintext (abi_bytes_in abi dp dl w) accounts \<lparr>opt_locked = decode_locked l, opt_signer = None\<rparr>)
          else map_option (\<lambda>a. from_plaintext (abi_bytes_in abi dp dl w) accounts \<lparr>opt_locked = decode_locked l, opt_signer = Some a\<rparr>)
                 (fst (abi_account abi s w1))
      | _ \<Rightarrow> None)"
| "makes abi env (FromEncoded dp dl pp pl) w =
     (case resolve_optional_accounts abi pp pl w of
        (Some accounts, _) \<Rightarrow> ok (from_encoded env (abi_bytes_in abi dp dl w) accounts)
      | _ \<Rightarrow> None)"
| "makes abi env (FromEncrypted dp dl pp pl) w =
     (case resolve_accounts abi pp pl w of
        (Some accounts, _) \<Rightarrow> ok (from_encrypted env (abi_bytes_in abi dp dl w) accounts)
      | _ \<Rightarrow> None)"
| "makes abi env _ w = None"

definition spec_step ::
    "('a, 'c, 'w) abi \<Rightarrow> ('a, 'w) container_env \<Rightarrow> host_call \<Rightarrow> 'w \<Rightarrow> int
     \<Rightarrow> (int \<Rightarrow> 'a container option) \<Rightarrow> (int \<Rightarrow> 'a container option) \<Rightarrow> bool" where
  "spec_step abi env call w r m m' \<longleftrightarrow>
     (case makes abi env call w of
        Some c \<Rightarrow> 0 < r \<and> m r = None \<and> m' = m(r \<mapsto> c)
      | None \<Rightarrow>
          (case call of
             Free h \<Rightarrow> m' = m(h := None)
           | _ \<Rightarrow> (case handle_of call of
                     Some h \<Rightarrow> m' = m(h := map_option (\<lambda>c. changes abi env call c w) (m h))
                   | None \<Rightarrow> m' = m)))"


section \<open>Each export implements its step\<close>

lemma store_container_step:
  assumes "registry_ok table" "store_container c table w = Some (r, table', w')"
  shows "registry_ok table' \<and> 0 < r \<and> view table r = None \<and> view table' = (view table)(r \<mapsto> c) \<and> w' = w"
proof -
  from assms(2) have "store c table = Some (r, table')" "w' = w" by (auto simp: store_container_def)
  with reg.put_fresh [OF assms(1) this(1)] show ?thesis by simp
qed

lemma store_or_fail_step:
  assumes "registry_ok table" "store_or_fail abi result table w = Some (r, table', w')"
  shows "registry_ok table' \<and> (case result of
      Inr c \<Rightarrow> 0 < r \<and> view table r = None \<and> view table' = (view table)(r \<mapsto> c)
    | Inl e \<Rightarrow> view table' = view table)"
  using assms store_container_step [OF assms(1), of _ w r table' w']
  by (auto simp: store_or_fail_def split: sum.splits prod.splits)

text \<open>An export that changes the container of its handle: the shape shared by five of them.\<close>

lemma with_container_mut_step:
  assumes "registry_ok table" "with_container_mut abi h body table w = (outcome, table', w')"
  shows "registry_ok table' \<and> view table' = (view table)(h := map_option (\<lambda>c. fst (snd (body c w))) (view table h))"
proof (cases "view table h")
  case None
  with assms have "table' = table" by (simp add: with_container_mut_def with_object_mut_eq)
  with assms(1) None show ?thesis by auto
next
  case (Some c)
  then have "table' = update_at h (\<lambda>_. fst (snd (body c w))) table"
    using assms(2) by (auto simp: with_container_mut_def with_object_mut_eq split: prod.splits)
  with reg.upd_look [OF assms(1), of h "\<lambda>_. fst (snd (body c w))"] Some show ?thesis by simp
qed

lemma changed_by:
  "fst (snd (pure_op f c w)) = snd (f c)"
  "snd (ec_get_plaintext env c) = snd (get_plaintext env c)"
  "fst (snd (ec_get_encoded env c w)) = fst (snd (get_encoded env c w))"
  "fst (snd (ec_verify_signature env c w)) = fst (snd (verify_signature env c w))"
  "snd (ec_grant_access env accounts c) = snd (grant_access env accounts c)"
  "snd (ec_revoke_access env key c) = snd (revoke_access env key c)"
  by (simp_all add: pure_op_def split_beta ec_get_plaintext_def ec_get_encoded_def ec_verify_signature_def
      ec_grant_access_def ec_revoke_access_def)

lemma ok_map_err: "ok (map_err f r) = ok r"
  by (cases r) simp_all

lemma container_export_step:
  assumes ok: "registry_ok table" and run: "container_export abi env call table w = Some (r, table', w')"
  shows "registry_ok table' \<and> spec_step abi env call w r (view table) (view table')"
proof (cases call)
  case (FromPlaintext dp dl pp pl l s)
  from run ok show ?thesis
    by (auto dest!: store_container_step [OF ok] simp: FromPlaintext spec_step_def keeta_encrypted_container_from_plaintext_def Let_def ec_from_plaintext_def bind_some_def
        split: prod.splits option.splits if_splits)
next
  case (FromEncoded dp dl pp pl)
  from run ok show ?thesis
    by (auto dest!: store_or_fail_step [OF ok] simp: FromEncoded spec_step_def keeta_encrypted_container_from_encoded_def Let_def ec_from_encoded_def result_elims
        split: prod.splits option.splits sum.splits)
next
  case (FromEncrypted dp dl pp pl)
  from run ok show ?thesis
    by (auto dest!: store_or_fail_step [OF ok] simp: FromEncrypted spec_step_def keeta_encrypted_container_from_encrypted_def Let_def ec_from_encrypted_def result_elims
        split: prod.splits option.splits sum.splits)
next
  case (GetPlaintext h)
  from run obtain outcome w1 where "with_container_mut abi h (pure_op (ec_get_plaintext env)) table w = (outcome, table', w1)"
    by (auto simp: GetPlaintext keeta_encrypted_container_get_plaintext_def split: prod.splits)
  from with_container_mut_step [OF ok this] show ?thesis by (simp add: GetPlaintext spec_step_def changed_by)
next
  case (GetEncoded h)
  from run obtain outcome w1 where "with_container_mut abi h (ec_get_encoded env) table w = (outcome, table', w1)"
    by (auto simp: GetEncoded keeta_encrypted_container_get_encoded_def split: prod.splits)
  from with_container_mut_step [OF ok this] show ?thesis by (simp add: GetEncoded spec_step_def changed_by)
next
  case (VerifySignature h)
  from run obtain outcome w1 where "with_container_mut abi h (ec_verify_signature env) table w = (outcome, table', w1)"
    by (auto simp: VerifySignature keeta_encrypted_container_verify_signature_def split: prod.splits)
  from with_container_mut_step [OF ok this] show ?thesis by (simp add: VerifySignature spec_step_def changed_by)
next
  case (GrantAccess h pp pl)
  obtain accounts w1 where a: "resolve_accounts abi pp pl w = (accounts, w1)" by (metis surj_pair)
  show ?thesis
  proof (cases accounts)
    case None
    with run a have "table' = table" by (simp add: GrantAccess keeta_encrypted_container_grant_access_def)
    with ok None a show ?thesis by (simp add: GrantAccess spec_step_def option.map_ident)
  next
    case (Some as)
    with run a obtain outcome w2 where "with_container_mut abi h (pure_op (ec_grant_access env as)) table w1 = (outcome, table', w2)"
      by (auto simp: GrantAccess keeta_encrypted_container_grant_access_def split: prod.splits)
    from with_container_mut_step [OF ok this] Some a show ?thesis by (simp add: GrantAccess spec_step_def changed_by)
  qed
next
  case (RevokeAccess h kp kl)
  from run obtain outcome w1 where
    "with_container_mut abi h (pure_op (ec_revoke_access env (abi_bytes_in abi kp kl w))) table w = (outcome, table', w1)"
    by (auto simp: RevokeAccess keeta_encrypted_container_revoke_access_def Let_def split: prod.splits)
  from with_container_mut_step [OF ok this] show ?thesis by (simp add: RevokeAccess spec_step_def changed_by)
next
  case (Free h)
  with run reg.del_look [OF ok, of h] show ?thesis by (simp add: spec_step_def keeta_encrypted_container_free_def)
qed (use ok run in \<open>auto simp: spec_step_def keeta_encrypted_container_is_encrypted_def keeta_encrypted_container_is_signed_def
    keeta_encrypted_container_signing_account_def keeta_encrypted_container_principals_def split: prod.splits\<close>)


section \<open>Sequences of calls\<close>

text \<open>A step of a run: the call, the world it was made in and its result.\<close>

fun host_run ::
    "('a, 'c, 'w) abi \<Rightarrow> ('a, 'w) container_env \<Rightarrow> host_call list \<Rightarrow> 'a container registry \<Rightarrow> 'w
     \<Rightarrow> ((host_call \<times> 'w \<times> int) list \<times> 'a container registry \<times> 'w) option" where
  "host_run abi env [] table w = Some ([], table, w)"
| "host_run abi env (call # calls) table w =
     Option.bind (container_export abi env call table w) (\<lambda>(r, table, w').
     Option.bind (host_run abi env calls table w') (\<lambda>(steps, table, w'').
     Some ((call, w, r) # steps, table, w'')))"

inductive spec_run ::
    "('a, 'c, 'w) abi \<Rightarrow> ('a, 'w) container_env \<Rightarrow> (host_call \<times> 'w \<times> int) list
     \<Rightarrow> (int \<Rightarrow> 'a container option) \<Rightarrow> (int \<Rightarrow> 'a container option) \<Rightarrow> bool" for abi env where
  spec_done: "spec_run abi env [] m m"
| spec_more: "spec_step abi env call w r m m1 \<Longrightarrow> spec_run abi env steps m1 m2 \<Longrightarrow> spec_run abi env ((call, w, r) # steps) m m2"

lemma host_run_refines:
  "registry_ok table \<Longrightarrow> host_run abi env calls table w = Some (steps, table', w')
    \<Longrightarrow> registry_ok table' \<and> spec_run abi env steps (view table) (view table')"
proof (induction calls arbitrary: table w steps)
  case Nil
  then show ?case by (auto intro: spec_done)
next
  case (Cons call calls)
  from Cons.prems(2) obtain r t1 w1 steps1 where s: "container_export abi env call table w = Some (r, t1, w1)"
      "host_run abi env calls t1 w1 = Some (steps1, table', w')" "steps = (call, w, r) # steps1"
    by (auto simp: bind_eq_Some_conv)
  from container_export_step [OF Cons.prems(1) s(1)] have "registry_ok t1" "spec_step abi env call w r (view table) (view t1)"
    by simp_all
  with Cons.IH [OF _ s(2)] s(3) show ?case by (auto intro: spec_more)
qed

text \<open>A call names the only handle whose container it can change.\<close>

lemma spec_step_frame:
  "spec_step abi env call w r m m' \<Longrightarrow> h \<noteq> r \<Longrightarrow> handle_of call \<noteq> Some h \<Longrightarrow> call \<noteq> Free h \<Longrightarrow> m' h = m h"
  by (auto simp: spec_step_def split: option.splits host_call.splits)


section \<open>Properties\<close>

text \<open>C35. The container exports refine a map from handles to containers: whatever sequence of calls a guest
  makes on a new module, each call makes a container under a handle that was not in use, applies the operation
  of the core crate to the container its handle names and to no other, forgets a handle, or only reports; and
  the table stays well formed.\<close>

theorem host_calls_refine_map:
  assumes "host_run abi env calls containers_new w = Some (steps, table, w')"
  shows "registry_ok table \<and> spec_run abi env steps Map.empty (view table)"
  using host_run_refines [OF _ assms] small_registry [of "''encrypted-container''"]
  by (simp add: containers_new_def registry_new_def)

lemma from_plaintext_export:
  assumes "registry_ok table" "resolve_accounts abi pp pl w = (Some ps, w1)" "0 < pl"
    and "container_export abi env (FromPlaintext dp dl pp pl l 0) table w = Some (h, t1, w2)"
  shows "registry_ok t1 \<and> view t1 h = Some (from_plaintext (abi_bytes_in abi dp dl w) (Some ps)
    \<lparr>opt_locked = decode_locked l, opt_signer = None\<rparr>)"
proof -
  have "resolve_optional_accounts abi pp pl w = (Some (Some ps), w1)"
    using assms(2,3) by (simp add: resolve_optional_accounts_def)
  with container_export_step [OF assms(1,4)] show ?thesis by (simp add: spec_step_def)
qed

lemma get_encoded_export:
  assumes "view t1 h = Some c" "container_export abi env (GetEncoded h) t1 w3 = Some (r, t2, w4)"
  shows "\<exists>result c' w. get_encoded env c w3 = (result, c', w) \<and> abi_bytes_result abi (map_err ec_coded result) w = (r, w4)"
  using assms
  by (auto simp: keeta_encrypted_container_get_encoded_def with_container_mut_def with_object_mut_eq ec_get_encoded_def
      bytes_or_zero_def apfst_def map_prod_def split: prod.splits)

lemma get_plaintext_export:
  assumes "view t3 h = Some c"
  shows "\<exists>t4. container_export abi env (GetPlaintext h) t3 w =
    (case abi_bytes_result abi (map_err ec_coded (fst (get_plaintext env c))) w of (x, w) \<Rightarrow> Some (x, t4, w))"
proof -
  obtain r c' where g: "get_plaintext env c = (r, c')" by (metis surj_pair)
  obtain x v where b: "abi_bytes_result abi (map_err ec_coded r) w = (x, v)" by (metis surj_pair)
  show ?thesis
    using assms by (simp add: keeta_encrypted_container_get_plaintext_def with_container_mut_def with_object_mut_eq pure_op_def
      ec_get_plaintext_def bytes_or_zero_def g b)
qed



section \<open>A concrete boundary\<close>

text \<open>Account 1 is alice and account 2 her public key only; the memory holds the plaintext at 0, a list of handle 1
  at 1, one of handles 2 and 1 at 4 and exported bytes at the place of their handle.\<close>

definition toy_abi :: "(string \<times> bool, unit, nat) abi" where
  "toy_abi = \<lparr>abi_account = (\<lambda>h w. (if h = 1 then Some toy_alice else if h = 2 then Some (''a'', False) else None, w)),
     abi_certificate = (\<lambda>_ w. (None, w)), abi_store_certificate = (\<lambda>_ w. (0, w)),
     abi_bytes_in = (\<lambda>p _ _. if p = 0 then ''hi'' else if p = 1 then [CHR 0x01, CHR 0x00, CHR 0x00, CHR 0x00]
       else if p = 4 then [CHR 0x02, CHR 0x00, CHR 0x00, CHR 0x00, CHR 0x01, CHR 0x00, CHR 0x00, CHR 0x00] else ''one''),
     abi_string_in = (\<lambda>_ _ w. (None, w)), abi_fail = (\<lambda>_ w. (0, w)),
     abi_bytes_result = (\<lambda>x w. (if x = Inr ''one'' then 2 else if x = Inr ''hi'' then 3 else 0, w)),
     abi_account_from_str = (\<lambda>_. Inl ''malformed''), abi_to_vec = (\<lambda>_. Inl ''no writer''), abi_from_text = (\<lambda>_. Inl ''no reader'')\<rparr>"

definition toy_published :: "int \<Rightarrow> nat \<Rightarrow> bytes" where
  "toy_published r w = (if r = 2 then ''one'' else ''hi'')"

lemma toy_accounts:
  "resolve_accounts toy_abi 1 4 w = (Some [toy_alice], w)" "resolve_accounts toy_abi 4 8 w = (Some [(''a'', False), toy_alice], w)"
  by (simp_all add: resolve_accounts_def resolve_handles_def toy_abi_def i32_from_le_def wrapping_i32_def)

abbreviation toy_sealed :: "(string \<times> bool) container" where
  "toy_sealed \<equiv> toy_state (Some [toy_alice]) None"

definition toy_table :: "(int \<times> 'v) list \<Rightarrow> int \<Rightarrow> 'v registry" where
  "toy_table entries n = \<lparr>rg_resource = ''encrypted-container'', rg_next = n, rg_entries = entries\<rparr>"

lemma toy_store:
  "store c containers_new = Some (1, toy_table [(1, c)] 1)"
  "store c (toy_table [(1, c')] 1) = Some (2, toy_table [(1, c'), (2, c)] 2)"
  by (simp_all add: store_def containers_new_def registry_new_def toy_table_def loop.simps store_turn_def wrapping_i32_def)

lemma toy_sealing:
  "container_export toy_abi toy_container (FromPlaintext 0 2 1 4 0 0) containers_new 0 = Some (1, toy_table [(1, toy_sealed)] 1, 0)"
  by (simp add: keeta_encrypted_container_from_plaintext_def resolve_optional_accounts_def toy_accounts store_container_def
      ec_from_plaintext_def decode_locked_def toy_store toy_state_def [symmetric])
    (simp add: toy_abi_def toy_state_def)


theorem host_calls_refine_map_witness:
  "registry_ok (toy_table [(1, toy_sealed)] 1)
    \<and> spec_run toy_abi toy_container [(FromPlaintext 0 2 1 4 0 0, 0, 1)] Map.empty [1 \<mapsto> toy_sealed]"
proof -
  have "host_run toy_abi toy_container [FromPlaintext 0 2 1 4 0 0] containers_new 0
      = Some ([(FromPlaintext 0 2 1 4 0 0, 0, 1)], toy_table [(1, toy_sealed)] 1, 0)"
    by (simp only: host_run.simps toy_sealing bind.bind_lunit prod.case)
  from host_calls_refine_map [OF this] show ?thesis by (simp add: toy_table_def)
qed

lemma toy_exporting:
  "\<exists>c w4. container_export toy_abi toy_container (GetEncoded 1) (toy_table [(1, toy_sealed)] 1) 0 = Some (2, toy_table [(1, c)] 1, w4)"
proof -
  obtain c w4 where g: "get_encoded toy_container toy_sealed 0 = (Inr ''one'', c, w4)" using toy_export(1) by blast
  then have "container_export toy_abi toy_container (GetEncoded 1) (toy_table [(1, toy_sealed)] 1) 0 = Some (2, toy_table [(1, c)] 1, w4)"
    by (simp add: keeta_encrypted_container_get_encoded_def with_container_mut_def with_object_mut_eq ec_get_encoded_def
        toy_table_def update_at_def with_mut_def bytes_or_zero_def toy_abi_def)
  then show ?thesis by blast
qed

lemma toy_importing:
  assumes "from_encrypted toy_container ''one'' qs = Inr d" "resolve_accounts toy_abi qp ql w = (Some qs, w)"
  shows "container_export toy_abi toy_container (FromEncrypted 2 3 qp ql) (toy_table [(1, c)] 1) w = Some (2, toy_table [(1, c), (2, d)] 2, w)"
proof -
  have "abi_bytes_in toy_abi 2 3 w = ''one''" by (simp add: toy_abi_def)
  with assms show ?thesis
    by (simp add: keeta_encrypted_container_from_encrypted_def ec_from_encrypted_def store_or_fail_def store_container_def toy_store)
qed

lemma toy_reading:
  "\<exists>d. from_encrypted toy_container ''one'' [toy_alice] = Inr d"
  "\<exists>d. from_encrypted toy_container ''one'' [(''a'', False), toy_alice] = Inr d"
proof -
  let ?body = "EncryptedBody \<lparr>body_stores = toy_keys [''a''], body_iv = replicate 16 (CHR ''k''), body_ciphertext = ''hi''\<rparr>"
  have "parse toy_container ''one'' = Inr \<lparr>bare_body = ?body, bare_signer_info = None\<rparr>"
    by (simp add: parse_def toy_coder(4))
      (simp add: toy_package_def version_u64_def container_version_def assert_cipher_supported_def require_def)
  then show "\<exists>d. from_encrypted toy_container ''one'' [toy_alice] = Inr d"
    "\<exists>d. from_encrypted toy_container ''one'' [(''a'', False), toy_alice] = Inr d"
    by (simp_all add: from_encrypted_def compute_and_set_key_info_def set_encoded_def container_new_def toy_keys_def swap_remove_def)
qed


end
