(* ===== verification/CertificateBinding.thy ===== *)
theory CertificateBinding
  imports Certificate Trust ContainerBinding
begin

text \<open>
  \<open>keetanetwork-anchor-bindings/src/certificate.rs\<close>: the operations of a KYC certificate for the bindings.
  The base-certificate helpers of the shared bindings crate, the names and serial numbers of the X.509 crate
  and the instants of \<open>chrono\<close> are third-party: the record \<open>cert_binding\<close>. Decrypting and proving can panic
  as in the core crate; then the result is \<open>None\<close>.
\<close>

section \<open>Third-party operations\<close>

record ('c, 'b, 'k, 'd, 'w) cert_binding =
  be_cert :: "('c, 'b, 'k, 'd, 'w) cert_env"
  be_x509 :: "('c, 'd) x509_ops"
  be_from_pem :: "string \<Rightarrow> coded_error + 'c"
  be_from_der :: "bytes \<Rightarrow> coded_error + 'c"
  be_pem :: "'c \<Rightarrow> coded_error + string"
  be_der :: "'c \<Rightarrow> coded_error + bytes"
  be_valid_at :: "'c \<Rightarrow> int \<Rightarrow> coded_error + bool"
  be_subject_key :: "'k \<Rightarrow> coded_error + bytes"
  be_common_name :: "string \<Rightarrow> string + bytes"
  be_serial :: "u64 \<Rightarrow> bytes"
  be_x509_coded :: "string \<Rightarrow> coded_error"
  be_timestamp :: "int \<Rightarrow> 'd option"
  be_timestamp_millis :: "int \<Rightarrow> 'd option"

section \<open>Codes\<close>

definition SENSITIVE_ATTRIBUTE :: string where "SENSITIVE_ATTRIBUTE = ''SENSITIVE_ATTRIBUTE''"
definition KYC_SCHEMA :: string where "KYC_SCHEMA = ''KYC_SCHEMA''"
definition ATTRIBUTE_NOT_FOUND :: string where "ATTRIBUTE_NOT_FOUND = ''ATTRIBUTE_NOT_FOUND''"
definition INVALID_ATTRIBUTE_VALUE :: string where "INVALID_ATTRIBUTE_VALUE = ''INVALID_ATTRIBUTE_VALUE''"
definition MISSING_REQUIRED_FIELD :: string where "MISSING_REQUIRED_FIELD = ''MISSING_REQUIRED_FIELD''"
definition INVALID_DATE :: string where "INVALID_DATE = ''INVALID_DATE''"

lemmas cert_codes = SENSITIVE_ATTRIBUTE_def KYC_SCHEMA_def ATTRIBUTE_NOT_FOUND_def INVALID_ATTRIBUTE_VALUE_def
  MISSING_REQUIRED_FIELD_def INVALID_DATE_def

definition cert_coded :: "('c, 'b, 'k, 'd, 'w) cert_binding \<Rightarrow> kyc_certificate_error \<Rightarrow> coded_error" where
  "cert_coded env e =
     (let shown = kyc_certificate_message e in
      case e of
        KcX509Error source \<Rightarrow> be_x509_coded env source
      | KcSensitiveAttributeError _ \<Rightarrow> coded_error_new SENSITIVE_ATTRIBUTE shown
      | KcAsn1Error _ \<Rightarrow> coded_error_new ASN1_ERROR shown
      | KcKycSchemaError _ \<Rightarrow> coded_error_new KYC_SCHEMA shown
      | KcAttributeNotFound _ \<Rightarrow> coded_error_new ATTRIBUTE_NOT_FOUND shown
      | KcInvalidAttributeValue _ _ \<Rightarrow> coded_error_new INVALID_ATTRIBUTE_VALUE shown
      | KcMissingRequiredField _ \<Rightarrow> coded_error_new MISSING_REQUIRED_FIELD shown
      | KcUnsupportedSubjectKey \<Rightarrow> coded_error_new UNSUPPORTED_KEY_TYPE shown)"

section \<open>Reading a certificate\<close>

definition cert_from_pem :: "('c, 'b, 'k, 'd, 'w) cert_binding \<Rightarrow> string \<Rightarrow> coded_error + 'c kyc_certificate" where
  "cert_from_pem env pem = bindR (be_from_pem env pem) (\<lambda>c. Inr (kyc_certificate_new (be_cert env) c))"

definition cert_from_der :: "('c, 'b, 'k, 'd, 'w) cert_binding \<Rightarrow> bytes \<Rightarrow> coded_error + 'c kyc_certificate" where
  "cert_from_der env data = bindR (be_from_der env data) (\<lambda>c. Inr (kyc_certificate_new (be_cert env) c))"

definition cert_pem :: "('c, 'b, 'k, 'd, 'w) cert_binding \<Rightarrow> 'c kyc_certificate \<Rightarrow> coded_error + string" where
  "cert_pem env cert = be_pem env (kc_inner cert)"

definition cert_der :: "('c, 'b, 'k, 'd, 'w) cert_binding \<Rightarrow> 'c kyc_certificate \<Rightarrow> coded_error + bytes" where
  "cert_der env cert = be_der env (kc_inner cert)"

definition cert_valid_at :: "('c, 'b, 'k, 'd, 'w) cert_binding \<Rightarrow> 'c kyc_certificate \<Rightarrow> int \<Rightarrow> coded_error + bool" where
  "cert_valid_at env cert unix_millis = be_valid_at env (kc_inner cert) unix_millis"

definition cert_has_attributes :: "'c kyc_certificate \<Rightarrow> bool" where
  "cert_has_attributes cert = has_attributes cert"

definition cert_attribute_count :: "'c kyc_certificate \<Rightarrow> nat" where
  "cert_attribute_count cert = attribute_count cert"

definition cert_attributes :: "('c, 'b, 'k, 'd, 'w) cert_binding \<Rightarrow> 'c kyc_certificate \<Rightarrow> (string \<times> bool) list" where
  "cert_attributes env cert =
     map (\<lambda>a. (oid_to_string (kc_oids (be_cert env)) (at_name a), is_sensitive a)) (kc_attributes cert)"

definition cert_plain_attribute ::
    "('c, 'b, 'k, 'd, 'w) cert_binding \<Rightarrow> 'c kyc_certificate \<Rightarrow> string \<Rightarrow> coded_error + bytes" where
  "cert_plain_attribute env cert name = map_err (cert_coded env) (get_plain_attribute (be_cert env) cert name)"

definition cert_verify ::
    "('c::linorder, 'b, 'k, 'd, 'w) cert_binding \<Rightarrow> 'c kyc_certificate \<Rightarrow> 'c list \<Rightarrow> 'c list \<Rightarrow> int \<Rightarrow> coded_error + bool" where
  "cert_verify env cert trusted_roots chain unix_millis =
     bindR (ok_or (coded_error_new INVALID_DATE ''unix milliseconds out of range'') (be_timestamp_millis env unix_millis))
       (\<lambda>moment.
     Inr (evaluate_certificate_chain (be_x509 env) [\<lparr>leaf = kc_inner cert, intermediates = chain\<rparr>] trusted_roots moment
       = Trusted))"

section \<open>Sensitive attributes\<close>

definition cert_decrypt_attribute ::
    "('c, 'b, 'k, 'd, 'w) cert_binding \<Rightarrow> 'c kyc_certificate \<Rightarrow> string \<Rightarrow> 'k \<Rightarrow> (coded_error + bytes) option" where
  "cert_decrypt_attribute env cert name keypair =
     map_errP (cert_coded env) (decrypt_attribute (be_cert env) cert name keypair)"

record external_reference_record =
  er_attribute :: string
  er_id :: string
  er_url :: string
  er_content_type :: string
  er_digest_algorithm :: string
  er_encryption_algorithm :: string

definition reference_record :: "oid_env \<Rightarrow> string \<Rightarrow> attribute_reference \<Rightarrow> external_reference_record" where
  "reference_record oids attribute_name r =
     \<lparr>er_attribute = attribute_name, er_id = reference_id oids r, er_url = ext_url (ref_external r),
      er_content_type = ext_content_type (ref_external r), er_digest_algorithm = algorithm_name oids (ref_digest r),
      er_encryption_algorithm = encryption_str (ref_encryption r)\<rparr>"

definition cert_external_references ::
    "('c, 'b, 'k, 'd, 'w) cert_binding \<Rightarrow> 'c kyc_certificate \<Rightarrow> 'k \<Rightarrow> string list
     \<Rightarrow> (coded_error + external_reference_record list) option" where
  "cert_external_references env cert subject names =
     bindP (map_errP (cert_coded env) (external_references (be_cert env) cert subject [] names)) (\<lambda>discovered.
     Some (Inr (concat (map (\<lambda>(name, references).
       map (reference_record (kc_oids (be_cert env)) name) references) discovered))))"

definition unsupported_account :: "string \<Rightarrow> coded_error" where
  "unsupported_account reason = coded_error_new UNSUPPORTED_KEY_TYPE reason"

definition cert_decrypt_with_account ::
    "('c, 'b, 'k, 'd, 'w) cert_binding \<Rightarrow> 'c kyc_certificate \<Rightarrow> string \<Rightarrow> 'k \<Rightarrow> (coded_error + bytes) option" where
  "cert_decrypt_with_account env cert name account =
     (if signing_kind (account_kind (be_cert env) account) then cert_decrypt_attribute env cert name account
      else Some (Inl (unsupported_account ''attribute decryption requires a signing account'')))"

record binding_proof =
  bp_value :: string
  bp_salt :: string

definition binding_proof_of :: "attribute_proof \<Rightarrow> binding_proof" where
  "binding_proof_of p = \<lparr>bp_value = pr_value p, bp_salt = ph_salt (pr_hash p)\<rparr>"

definition proof_of_binding :: "binding_proof \<Rightarrow> attribute_proof" where
  "proof_of_binding p = \<lparr>pr_value = bp_value p, pr_hash = \<lparr>ph_salt = bp_salt p\<rparr>\<rparr>"

definition cert_prove_attribute ::
    "('c, 'b, 'k, 'd, 'w) cert_binding \<Rightarrow> 'c kyc_certificate \<Rightarrow> string \<Rightarrow> 'k \<Rightarrow> (coded_error + binding_proof) option" where
  "cert_prove_attribute env cert name keypair =
     map_errP (cert_coded env) (bindP (prove_attribute (be_cert env) cert name keypair) (\<lambda>p. Some (Inr (binding_proof_of p))))"

definition cert_prove_with_account ::
    "('c, 'b, 'k, 'd, 'w) cert_binding \<Rightarrow> 'c kyc_certificate \<Rightarrow> string \<Rightarrow> 'k \<Rightarrow> (coded_error + binding_proof) option" where
  "cert_prove_with_account env cert name account =
     (if signing_kind (account_kind (be_cert env) account) then cert_prove_attribute env cert name account
      else Some (Inl (unsupported_account ''attribute proof requires a signing account'')))"

definition cert_validate_proof ::
    "('c, 'b, 'k, 'd, 'w) cert_binding \<Rightarrow> 'c kyc_certificate \<Rightarrow> string \<Rightarrow> 'k \<Rightarrow> binding_proof \<Rightarrow> coded_error + bool" where
  "cert_validate_proof env cert name keypair p =
     map_err (cert_coded env) (validate_attribute_proof (be_cert env) cert name keypair (proof_of_binding p))"

definition cert_validate_with_account ::
    "('c, 'b, 'k, 'd, 'w) cert_binding \<Rightarrow> 'c kyc_certificate \<Rightarrow> string \<Rightarrow> 'k \<Rightarrow> binding_proof \<Rightarrow> coded_error + bool" where
  "cert_validate_with_account env cert name account p =
     (if signing_kind (account_kind (be_cert env) account) then cert_validate_proof env cert name account p
      else Inl (unsupported_account ''attribute proof requires a signing account''))"

section \<open>Issuing\<close>

record issue_attribute =
  ia_name :: string
  ia_sensitive :: bool
  ia_value :: bytes

definition issue_timestamp :: "('c, 'b, 'k, 'd, 'w) cert_binding \<Rightarrow> int \<Rightarrow> coded_error + 'd" where
  "issue_timestamp env seconds =
     ok_or (coded_error_new INVALID_DATE ''unix seconds out of range'') (be_timestamp env seconds)"

definition embed_attribute ::
    "('c, 'b, 'k, 'd, 'w) cert_binding \<Rightarrow> 'b certificate_builder \<Rightarrow> issue_attribute \<Rightarrow> 'b certificate_builder" where
  "embed_attribute env builder a =
     (if ia_sensitive a then with_sensitive_attribute (be_cert env) (ia_name a) (ia_value a) builder
      else with_plain_attribute (be_cert env) (ia_name a) (ia_value a) builder)"

definition configure ::
    "('c, 'b, 'k, 'd, 'w) cert_binding \<Rightarrow> 'k \<Rightarrow> string \<Rightarrow> string \<Rightarrow> u64 \<Rightarrow> 'd \<Rightarrow> 'd \<Rightarrow> bool \<Rightarrow> issue_attribute list
     \<Rightarrow> coded_error + 'b certificate_builder" where
  "configure env subject subject_dn issuer_dn serial not_before not_after is_ca attrs =
     bindR (be_subject_key env subject) (\<lambda>key.
     bindR (map_err (be_x509_coded env) (be_common_name env subject_dn)) (\<lambda>subject_name.
     bindR (map_err (be_x509_coded env) (be_common_name env issuer_dn)) (\<lambda>issuer_name.
     let base = (if is_ca then for_ca (be_cert env) else for_end_entity (be_cert env));
         builder = with_subject_public_key (be_cert env) key
           (with_validity (be_cert env) not_before not_after
             (with_serial_number (be_cert env) (be_serial env serial)
               (with_issuer_dn (be_cert env) issuer_name
                 (with_subject_dn (be_cert env) subject_name base))))
     in Inr (foldl (embed_attribute env) builder attrs))))"

definition dispatch_build ::
    "('c, 'b, 'k, 'd, 'w) cert_binding \<Rightarrow> 'b certificate_builder \<Rightarrow> 'k \<Rightarrow> 'k \<Rightarrow> 'w
     \<Rightarrow> (coded_error + 'c kyc_certificate) \<times> 'w" where
  "dispatch_build env builder subject issuer w =
     (if signing_kind (account_kind (be_cert env) subject) \<and> signing_kind (account_kind (be_cert env) issuer)
      then apfst (map_err (cert_coded env)) (build_certificate (be_cert env) builder subject issuer w)
      else (Inl (unsupported_account ''issuance requires signing accounts for subject and issuer''), w))"

definition cert_issue ::
    "('c, 'b, 'k, 'd, 'w) cert_binding \<Rightarrow> 'k \<Rightarrow> 'k \<Rightarrow> string \<Rightarrow> string \<Rightarrow> u64 \<Rightarrow> int \<Rightarrow> int \<Rightarrow> bool
     \<Rightarrow> issue_attribute list \<Rightarrow> 'w \<Rightarrow> (coded_error + 'c kyc_certificate) \<times> 'w" where
  "cert_issue env subject issuer subject_dn issuer_dn serial not_before_secs not_after_secs is_ca attrs w =
     (case bindR (issue_timestamp env not_before_secs) (\<lambda>not_before.
           bindR (issue_timestamp env not_after_secs) (\<lambda>not_after.
           configure env subject subject_dn issuer_dn serial not_before not_after is_ca attrs)) of
        Inl e \<Rightarrow> (Inl e, w)
      | Inr builder \<Rightarrow> dispatch_build env builder subject issuer w)"

end
