(* ===== verification/HostCertificate.thy ===== *)
theory HostCertificate
  imports Host CertificateBinding
begin

text \<open>
  \<open>keetanetwork-anchor-client-wasi/src/p1/kyc_certificate.rs\<close>: the KYC certificate exports of the flat boundary,
  over the table of leaves. Decrypting and proving can panic as in the core crate, and storing does not return
  when the table is full: then a call is \<open>None\<close>.
\<close>

type_synonym ('c, 'w) leaf_call = "'c kyc_certificate registry \<Rightarrow> 'w \<Rightarrow> (int \<times> 'c kyc_certificate registry \<times> 'w) option"

section \<open>The table\<close>

definition leaves_new :: "'c kyc_certificate registry" where
  "leaves_new = registry_new ''kyc-certificate''"

definition store_leaf :: "'c kyc_certificate \<Rightarrow> ('c, 'w) leaf_call" where
  "store_leaf cert leaves w = store_in leaves cert w"

definition with_leaf ::
    "('a, 'c, 'w) abi \<Rightarrow> int \<Rightarrow> ('c kyc_certificate \<Rightarrow> 'r) \<Rightarrow> 'c kyc_certificate registry \<Rightarrow> 'w \<Rightarrow> 'r option \<times> 'w" where
  "with_leaf abi h body leaves w = with_object abi h body leaves w"

text \<open>A body that can panic.\<close>

definition with_leaf_panicking ::
    "('a, 'c, 'w) abi \<Rightarrow> int \<Rightarrow> ('c kyc_certificate \<Rightarrow> 'r option) \<Rightarrow> 'c kyc_certificate registry \<Rightarrow> 'w
     \<Rightarrow> ('r option \<times> 'w) option" where
  "with_leaf_panicking abi h body leaves w =
     (case with_leaf abi h body leaves w of
        (None, w) \<Rightarrow> Some (None, w)
      | (Some outcome, w) \<Rightarrow> map_option (\<lambda>r. (Some r, w)) outcome)"

section \<open>The JSON of the boundary\<close>

definition attribute_dto_to_json :: "string \<times> bool \<Rightarrow> json" where
  "attribute_dto_to_json a = JObject [(''name'', JString (fst a)), (''sensitive'', JBool (snd a))]"

record issue_params =
  ip_subject_dn :: string
  ip_issuer_dn :: string
  ip_serial :: u64
  ip_not_before :: int
  ip_not_after :: int
  ip_is_ca :: bool
  ip_attributes :: "issue_attribute list"

definition decode_issue_attribute :: "issue_attribute decoder" where
  "decode_issue_attribute doc =
     bindR (doc_struct [''name'', ''sensitive'', ''value''] doc) (\<lambda>members.
     bindR (required members ''name'' decode_string) (\<lambda>name.
     bindR (required members ''sensitive'' decode_bool) (\<lambda>sensitive.
     bindR (required members ''value'' decode_byte_list) (\<lambda>v.
     Inr \<lparr>ia_name = name, ia_sensitive = sensitive, ia_value = v\<rparr>))))"

definition decode_issue_params :: "issue_params decoder" where
  "decode_issue_params doc =
     bindR (doc_struct [''subjectDn'', ''issuerDn'', ''serial'', ''notBefore'', ''notAfter'', ''isCa'', ''attributes''] doc)
       (\<lambda>members.
     bindR (required members ''subjectDn'' decode_string) (\<lambda>subject_dn.
     bindR (required members ''issuerDn'' decode_string) (\<lambda>issuer_dn.
     bindR (required members ''serial'' decode_u64) (\<lambda>serial.
     bindR (required members ''notBefore'' decode_i64) (\<lambda>not_before.
     bindR (required members ''notAfter'' decode_i64) (\<lambda>not_after.
     bindR (required members ''isCa'' decode_bool) (\<lambda>is_ca.
     bindR (required members ''attributes'' (decode_list decode_issue_attribute)) (\<lambda>attrs.
     Inr \<lparr>ip_subject_dn = subject_dn, ip_issuer_dn = issuer_dn, ip_serial = serial, ip_not_before = not_before,
          ip_not_after = not_after, ip_is_ca = is_ca, ip_attributes = attrs\<rparr>))))))))"

definition proof_dto_to_json :: "binding_proof \<Rightarrow> json" where
  "proof_dto_to_json p = JObject [(''value'', JString (bp_value p)), (''salt'', JString (bp_salt p))]"

definition decode_proof_dto :: "binding_proof decoder" where
  "decode_proof_dto doc =
     bindR (doc_struct [''value'', ''salt''] doc) (\<lambda>members.
     bindR (required members ''value'' decode_string) (\<lambda>v.
     bindR (required members ''salt'' decode_string) (\<lambda>salt.
     Inr \<lparr>bp_value = v, bp_salt = salt\<rparr>)))"

definition reference_dto_to_json :: "external_reference_record \<Rightarrow> json" where
  "reference_dto_to_json r = JObject
     [(''attribute'', JString (er_attribute r)), (''id'', JString (er_id r)), (''url'', JString (er_url r)),
      (''contentType'', JString (er_content_type r)), (''digestAlgorithm'', JString (er_digest_algorithm r)),
      (''encryptionAlgorithm'', JString (er_encryption_algorithm r))]"

section \<open>Making leaves\<close>

definition keeta_kyc_certificate_parse ::
    "('k, 'c, 'w) abi \<Rightarrow> ('c, 'b, 'k, 'd, 'w) cert_binding \<Rightarrow> int \<Rightarrow> int \<Rightarrow> ('c, 'w) leaf_call" where
  "keeta_kyc_certificate_parse abi env ptr len leaves w =
     or_return 0 leaves (abi_string_in abi ptr len w) (\<lambda>pem w.
       case cert_from_pem env pem of
         Inr cert \<Rightarrow> store_leaf cert leaves w
       | Inl e \<Rightarrow> answer leaves (abi_fail abi e w))"

definition keeta_kyc_certificate_issue ::
    "('k, 'c, 'w) abi \<Rightarrow> ('c, 'b, 'k, 'd, 'w) cert_binding \<Rightarrow> int \<Rightarrow> int \<Rightarrow> int \<Rightarrow> int \<Rightarrow> ('c, 'w) leaf_call" where
  "keeta_kyc_certificate_issue abi env subject_handle issuer_handle params_ptr params_len leaves w =
     or_return 0 leaves (abi_account abi subject_handle w) (\<lambda>subject w.
     or_return 0 leaves (abi_account abi issuer_handle w) (\<lambda>issuer w.
       case from_slice (abi_from_text abi) decode_issue_params (abi_bytes_in abi params_ptr params_len w) of
         Inl e \<Rightarrow> answer leaves (abi_fail abi (coded_error_new ''DECODE'' e) w)
       | Inr params \<Rightarrow>
           (case cert_issue env subject issuer (ip_subject_dn params) (ip_issuer_dn params) (ip_serial params)
                   (ip_not_before params) (ip_not_after params) (ip_is_ca params) (ip_attributes params) w of
              (Inr cert, w) \<Rightarrow> store_leaf cert leaves w
            | (Inl e, w) \<Rightarrow> answer leaves (abi_fail abi e w))))"

section \<open>Reading leaves\<close>

definition keeta_kyc_certificate_base :: "('k, 'c, 'w) abi \<Rightarrow> int \<Rightarrow> ('c, 'w) leaf_call" where
  "keeta_kyc_certificate_base abi h leaves w =
     answer leaves (case with_leaf abi h kc_inner leaves w of
        (Some c, w) \<Rightarrow> abi_store_certificate abi c w
      | (None, w) \<Rightarrow> (0, w))"

definition keeta_kyc_certificate_valid_at ::
    "('k, 'c, 'w) abi \<Rightarrow> ('c, 'b, 'k, 'd, 'w) cert_binding \<Rightarrow> int \<Rightarrow> int \<Rightarrow> ('c, 'w) leaf_call" where
  "keeta_kyc_certificate_valid_at abi env h unix_millis leaves w =
     (case with_leaf abi h (\<lambda>cert. cert_valid_at env cert unix_millis) leaves w of (outcome, w) \<Rightarrow>
        answer leaves (flag_or_error abi outcome w))"

definition keeta_kyc_certificate_verify ::
    "('k, 'c::linorder, 'w) abi \<Rightarrow> ('c, 'b, 'k, 'd, 'w) cert_binding \<Rightarrow> int \<Rightarrow> int \<Rightarrow> int \<Rightarrow> int \<Rightarrow> int \<Rightarrow> int \<Rightarrow> ('c, 'w) leaf_call" where
  "keeta_kyc_certificate_verify abi env h roots_ptr roots_len intermediates_ptr intermediates_len unix_millis leaves w =
     or_return (- 1) leaves (resolve_certificates abi roots_ptr roots_len w) (\<lambda>roots w.
     or_return (- 1) leaves (resolve_certificates abi intermediates_ptr intermediates_len w) (\<lambda>chain w.
       case with_leaf abi h (\<lambda>cert. cert_verify env cert roots chain unix_millis) leaves w of (outcome, w) \<Rightarrow>
         answer leaves (flag_or_error abi outcome w)))"

definition keeta_kyc_certificate_attributes ::
    "('k, 'c, 'w) abi \<Rightarrow> ('c, 'b, 'k, 'd, 'w) cert_binding \<Rightarrow> int \<Rightarrow> ('c, 'w) leaf_call" where
  "keeta_kyc_certificate_attributes abi env h leaves w =
     or_return 0 leaves (with_leaf abi h (cert_attributes env) leaves w) (\<lambda>attrs w.
       answer leaves (abi_bytes_result abi (encode_json abi (JArray (map attribute_dto_to_json attrs))) w))"

definition keeta_kyc_certificate_plain_attribute ::
    "('k, 'c, 'w) abi \<Rightarrow> ('c, 'b, 'k, 'd, 'w) cert_binding \<Rightarrow> int \<Rightarrow> int \<Rightarrow> int \<Rightarrow> ('c, 'w) leaf_call" where
  "keeta_kyc_certificate_plain_attribute abi env h name_ptr name_len leaves w =
     or_return 0 leaves (abi_string_in abi name_ptr name_len w) (\<lambda>name w.
       case with_leaf abi h (\<lambda>cert. cert_plain_attribute env cert name) leaves w of (outcome, w) \<Rightarrow>
         answer leaves (bytes_or_zero abi outcome w))"

definition keeta_kyc_certificate_decrypt_attribute ::
    "('k, 'c, 'w) abi \<Rightarrow> ('c, 'b, 'k, 'd, 'w) cert_binding \<Rightarrow> int \<Rightarrow> int \<Rightarrow> int \<Rightarrow> int \<Rightarrow> ('c, 'w) leaf_call" where
  "keeta_kyc_certificate_decrypt_attribute abi env h name_ptr name_len account_handle leaves w =
     or_return 0 leaves (abi_string_in abi name_ptr name_len w) (\<lambda>name w.
     or_return 0 leaves (abi_account abi account_handle w) (\<lambda>account w.
     Option.bind (with_leaf_panicking abi h (\<lambda>cert. cert_decrypt_with_account env cert name account) leaves w)
       (\<lambda>(outcome, w). answer leaves (bytes_or_zero abi outcome w))))"

definition keeta_kyc_certificate_prove ::
    "('k, 'c, 'w) abi \<Rightarrow> ('c, 'b, 'k, 'd, 'w) cert_binding \<Rightarrow> int \<Rightarrow> int \<Rightarrow> int \<Rightarrow> int \<Rightarrow> ('c, 'w) leaf_call" where
  "keeta_kyc_certificate_prove abi env h name_ptr name_len account_handle leaves w =
     or_return 0 leaves (abi_string_in abi name_ptr name_len w) (\<lambda>name w.
     or_return 0 leaves (abi_account abi account_handle w) (\<lambda>account w.
     Option.bind (with_leaf_panicking abi h (\<lambda>cert. cert_prove_with_account env cert name account) leaves w)
       (\<lambda>(outcome, w). answer leaves (encoded_or_fail abi (\<lambda>p. encode_json abi (proof_dto_to_json p)) outcome w))))"

definition keeta_kyc_certificate_validate_proof ::
    "('k, 'c, 'w) abi \<Rightarrow> ('c, 'b, 'k, 'd, 'w) cert_binding \<Rightarrow> int \<Rightarrow> int \<Rightarrow> int \<Rightarrow> int \<Rightarrow> int \<Rightarrow> int \<Rightarrow> ('c, 'w) leaf_call" where
  "keeta_kyc_certificate_validate_proof abi env h name_ptr name_len account_handle proof_ptr proof_len leaves w =
     or_return (- 1) leaves (abi_string_in abi name_ptr name_len w) (\<lambda>name w.
     or_return (- 1) leaves (abi_account abi account_handle w) (\<lambda>account w.
     or_return (- 1) leaves (read_json abi decode_proof_dto proof_ptr proof_len w) (\<lambda>p w.
       case with_leaf abi h (\<lambda>cert. cert_validate_with_account env cert name account p) leaves w of (outcome, w) \<Rightarrow>
         answer leaves (flag_or_error abi outcome w))))"

definition keeta_kyc_certificate_external_references ::
    "('k, 'c, 'w) abi \<Rightarrow> ('c, 'b, 'k, 'd, 'w) cert_binding \<Rightarrow> int \<Rightarrow> int \<Rightarrow> int \<Rightarrow> int \<Rightarrow> ('c, 'w) leaf_call" where
  "keeta_kyc_certificate_external_references abi env h subject_handle names_ptr names_len leaves w =
     or_return 0 leaves (abi_account abi subject_handle w) (\<lambda>subject w.
       case from_slice (abi_from_text abi) decode_strings (abi_bytes_in abi names_ptr names_len w) of
         Inl e \<Rightarrow> answer leaves (abi_fail abi (coded_error_new ''DECODE'' e) w)
       | Inr names \<Rightarrow>
           Option.bind (with_leaf_panicking abi h (\<lambda>cert. cert_external_references env cert subject names) leaves w)
             (\<lambda>(outcome, w). answer leaves (encoded_or_fail abi
               (\<lambda>records. encode_json abi (JArray (map reference_dto_to_json records))) outcome w)))"

definition keeta_kyc_certificate_pem ::
    "('k, 'c, 'w) abi \<Rightarrow> ('c, 'b, 'k, 'd, 'w) cert_binding \<Rightarrow> int \<Rightarrow> ('c, 'w) leaf_call" where
  "keeta_kyc_certificate_pem abi env h leaves w =
     (case with_leaf abi h (cert_pem env) leaves w of (outcome, w) \<Rightarrow> answer leaves (bytes_or_zero abi outcome w))"

definition keeta_kyc_certificate_free :: "int \<Rightarrow> 'c kyc_certificate registry \<Rightarrow> 'c kyc_certificate registry" where
  "keeta_kyc_certificate_free h leaves = remove h leaves"

end
