(* ===== verification/SharableBinding.thy ===== *)
theory SharableBinding
  imports Sharable CertificateBinding
begin

text \<open>
  \<open>keetanetwork-anchor-bindings/src/sharable_attributes.rs\<close>: the operations of a sharable bundle for the
  bindings. An error of the container or of the certificate inside it keeps the code it has there.
\<close>

section \<open>Codes\<close>

definition X509_ERROR :: string where "X509_ERROR = ''X509_ERROR''"
definition SENSITIVITY_MISMATCH :: string where "SENSITIVITY_MISMATCH = ''SENSITIVITY_MISMATCH''"
definition VALUE_MISMATCH :: string where "VALUE_MISMATCH = ''VALUE_MISMATCH''"
definition PROOF_VALIDATION_FAILED :: string where "PROOF_VALIDATION_FAILED = ''PROOF_VALIDATION_FAILED''"
definition UNSUPPORTED_SUBJECT_KEY :: string where "UNSUPPORTED_SUBJECT_KEY = ''UNSUPPORTED_SUBJECT_KEY''"
definition NO_PRINCIPALS :: string where "NO_PRINCIPALS = ''NO_PRINCIPALS''"
definition INVALID_PEM :: string where "INVALID_PEM = ''INVALID_PEM''"
definition INVALID_JSON :: string where "INVALID_JSON = ''INVALID_JSON''"
definition INVALID_BASE64 :: string where "INVALID_BASE64 = ''INVALID_BASE64''"
definition REFERENCE_DIGEST_MISMATCH :: string where "REFERENCE_DIGEST_MISMATCH = ''REFERENCE_DIGEST_MISMATCH''"
definition REFERENCE_DECRYPT :: string where "REFERENCE_DECRYPT = ''REFERENCE_DECRYPT''"

lemmas sharable_codes = X509_ERROR_def SENSITIVITY_MISMATCH_def VALUE_MISMATCH_def PROOF_VALIDATION_FAILED_def
  UNSUPPORTED_SUBJECT_KEY_def NO_PRINCIPALS_def INVALID_PEM_def INVALID_JSON_def INVALID_BASE64_def
  REFERENCE_DIGEST_MISMATCH_def REFERENCE_DECRYPT_def

record ('c, 'b, 'k, 'd, 'w) sharable_binding =
  sb_env :: "('c, 'b, 'k, 'd, 'w) sharable_env"
  sb_cert :: "('c, 'b, 'k, 'd, 'w) cert_binding"

definition sharable_coded :: "('c, 'b, 'k, 'd, 'w) sharable_binding \<Rightarrow> sharable_error \<Rightarrow> coded_error" where
  "sharable_coded env e =
     (let shown = sharable_message e in
      case e of
        ShContainer source \<Rightarrow> ec_coded source
      | ShCertificate source \<Rightarrow> cert_coded (sb_cert env) source
      | ShX509 _ \<Rightarrow> coded_error_new X509_ERROR shown
      | ShAccount _ \<Rightarrow> coded_error_new ACCOUNT_ERROR shown
      | ShAsn1 _ \<Rightarrow> coded_error_new ASN1_ERROR shown
      | ShAttributeNotFound _ \<Rightarrow> coded_error_new ATTRIBUTE_NOT_FOUND shown
      | SensitivityMismatch _ \<Rightarrow> coded_error_new SENSITIVITY_MISMATCH shown
      | ValueMismatch _ \<Rightarrow> coded_error_new VALUE_MISMATCH shown
      | ProofValidationFailed _ \<Rightarrow> coded_error_new PROOF_VALIDATION_FAILED shown
      | ShUnsupportedSubjectKey \<Rightarrow> coded_error_new UNSUPPORTED_SUBJECT_KEY shown
      | NoPrincipals \<Rightarrow> coded_error_new NO_PRINCIPALS shown
      | InvalidPem \<Rightarrow> coded_error_new INVALID_PEM shown
      | InvalidJson \<Rightarrow> coded_error_new INVALID_JSON shown
      | InvalidBase64 \<Rightarrow> coded_error_new INVALID_BASE64 shown
      | ReferenceDigestMismatch _ _ \<Rightarrow> coded_error_new REFERENCE_DIGEST_MISMATCH shown
      | ReferenceDecrypt _ _ _ \<Rightarrow> coded_error_new REFERENCE_DECRYPT shown)"

section \<open>Operations\<close>

definition sb_from_certificate_with_references ::
    "('c, 'b, 'k, 'd, 'w) sharable_binding \<Rightarrow> 'c kyc_certificate \<Rightarrow> 'k \<Rightarrow> 'c list \<Rightarrow> string list \<Rightarrow> external_blobs \<Rightarrow> 'w
     \<Rightarrow> ((coded_error + ('c, 'k) sharable) \<times> 'w) option" where
  "sb_from_certificate_with_references env cert subject chain names blobs w =
     map_option (apfst (map_err (sharable_coded env)))
       (from_certificate (sb_env env) cert subject names \<lparr>fo_intermediates = chain, fo_blobs = blobs\<rparr> w)"

definition sb_from_certificate ::
    "('c, 'b, 'k, 'd, 'w) sharable_binding \<Rightarrow> 'c kyc_certificate \<Rightarrow> 'k \<Rightarrow> 'c list \<Rightarrow> string list \<Rightarrow> 'w
     \<Rightarrow> ((coded_error + ('c, 'k) sharable) \<times> 'w) option" where
  "sb_from_certificate env cert subject chain names w =
     map_option (apfst (map_err (sharable_coded env)))
       (from_certificate (sb_env env) cert subject names \<lparr>fo_intermediates = chain, fo_blobs = []\<rparr> w)"

definition sb_from_encoded ::
    "('c, 'b, 'k, 'd, 'w) sharable_binding \<Rightarrow> bytes \<Rightarrow> 'k list \<Rightarrow> coded_error + ('c, 'k) sharable" where
  "sb_from_encoded env data accounts = map_err (sharable_coded env) (sharable_from_encoded (sb_env env) data accounts)"

definition sb_from_pem ::
    "('c, 'b, 'k, 'd, 'w) sharable_binding \<Rightarrow> string \<Rightarrow> 'k list \<Rightarrow> coded_error + ('c, 'k) sharable" where
  "sb_from_pem env pem accounts = map_err (sharable_coded env) (from_pem (sb_env env) pem accounts)"

text \<open>The operations on \<open>&mut\<close> return the bundle after them.\<close>

type_synonym ('c, 'k, 'r) bundle_op = "('c, 'k) sharable \<Rightarrow> (coded_error + 'r) \<times> ('c, 'k) sharable"

definition sb_reference_blob ::
    "('c, 'b, 'k, 'd, 'w) sharable_binding \<Rightarrow> string \<Rightarrow> string \<Rightarrow> ('c, 'k, bytes option) bundle_op" where
  "sb_reference_blob env name i s = apfst (map_err (sharable_coded env)) (reference_blob (sb_env env) name i s)"

definition sb_grant_access :: "('c, 'b, 'k, 'd, 'w) sharable_binding \<Rightarrow> 'k list \<Rightarrow> ('c, 'k, unit) bundle_op" where
  "sb_grant_access env accounts s = apfst (map_err (sharable_coded env)) (sharable_grant_access (sb_env env) accounts s)"

definition sb_revoke_access :: "('c, 'b, 'k, 'd, 'w) sharable_binding \<Rightarrow> bytes \<Rightarrow> ('c, 'k, unit) bundle_op" where
  "sb_revoke_access env key s = apfst (map_err (sharable_coded env)) (sharable_revoke_access (sb_env env) key s)"

definition sb_principals :: "('c, 'b, 'k, 'd, 'w) sharable_binding \<Rightarrow> ('c, 'k) sharable \<Rightarrow> coded_error + bytes list" where
  "sb_principals env s =
     bindR (map_err (sharable_coded env) (sharable_principals s)) (\<lambda>ps. Inr (map (public_key (sh_box (sb_env env))) ps))"

definition sb_export ::
    "('c, 'b, 'k, 'd, 'w) sharable_binding \<Rightarrow> ('c, 'k) sharable \<Rightarrow> 'w \<Rightarrow> (coded_error + bytes) \<times> ('c, 'k) sharable \<times> 'w" where
  "sb_export env s w = apfst (map_err (sharable_coded env)) (export (sb_env env) s w)"

definition sb_to_pem ::
    "('c, 'b, 'k, 'd, 'w) sharable_binding \<Rightarrow> ('c, 'k) sharable \<Rightarrow> 'w \<Rightarrow> (coded_error + string) \<times> ('c, 'k) sharable \<times> 'w" where
  "sb_to_pem env s w = apfst (map_err (sharable_coded env)) (to_pem (sb_env env) s w)"

definition sb_certificate :: "('c, 'b, 'k, 'd, 'w) sharable_binding \<Rightarrow> ('c, 'k, 'c kyc_certificate) bundle_op" where
  "sb_certificate env s = apfst (map_err (sharable_coded env)) (sharable_certificate (sb_env env) s)"

definition sb_intermediates :: "('c, 'b, 'k, 'd, 'w) sharable_binding \<Rightarrow> ('c, 'k, 'c list) bundle_op" where
  "sb_intermediates env s = apfst (map_err (sharable_coded env)) (sharable_intermediates (sb_env env) s)"

definition sb_attribute_names :: "('c, 'b, 'k, 'd, 'w) sharable_binding \<Rightarrow> ('c, 'k, string list) bundle_op" where
  "sb_attribute_names env s = apfst (map_err (sharable_coded env)) (attribute_names (sb_env env) s)"

definition sb_attribute_buffer :: "('c, 'b, 'k, 'd, 'w) sharable_binding \<Rightarrow> string \<Rightarrow> ('c, 'k, bytes option) bundle_op" where
  "sb_attribute_buffer env name s = apfst (map_err (sharable_coded env)) (attribute_buffer (sb_env env) name s)"

definition sb_attribute_value :: "('c, 'b, 'k, 'd, 'w) sharable_binding \<Rightarrow> string \<Rightarrow> ('c, 'k, bytes option) bundle_op" where
  "sb_attribute_value env name s = apfst (map_err (sharable_coded env)) (sharable_attribute_value (sb_env env) name s)"

end
