(* ===== verification/HostSharable.thy ===== *)
theory HostSharable
  imports HostCertificate SharableBinding
begin

text \<open>
  \<open>keetanetwork-anchor-client-wasi/src/p1/sharable.rs\<close>: the sharable-bundle exports of the flat boundary, over
  the table of bundles. They read leaves from the table of the certificate surface, and hand out a leaf through
  it. The decoder of \<open>base64\<close> is the parameter \<open>standard_decode\<close>.
\<close>

type_synonym ('c, 'k, 'w) bundle_call =
  "('c, 'k) sharable registry \<Rightarrow> 'w \<Rightarrow> (int \<times> ('c, 'k) sharable registry \<times> 'w) option"

section \<open>The table\<close>

definition bundles_new :: "('c, 'k) sharable registry" where
  "bundles_new = registry_new ''sharable-attributes''"

definition store_bundle :: "('c, 'k) sharable \<Rightarrow> ('c, 'k, 'w) bundle_call" where
  "store_bundle bundle bundles w = store_in bundles bundle w"

definition with_bundle ::
    "('k, 'c, 'w) abi \<Rightarrow> int \<Rightarrow> (('c, 'k) sharable \<Rightarrow> 'r) \<Rightarrow> ('c, 'k) sharable registry \<Rightarrow> 'w \<Rightarrow> 'r option \<times> 'w" where
  "with_bundle abi h body bundles w = with_object abi h body bundles w"

definition with_bundle_mut ::
    "('k, 'c, 'w) abi \<Rightarrow> int \<Rightarrow> (('c, 'k) sharable \<Rightarrow> 'w \<Rightarrow> 'r \<times> ('c, 'k) sharable \<times> 'w) \<Rightarrow> ('c, 'k) sharable registry
     \<Rightarrow> 'w \<Rightarrow> 'r option \<times> ('c, 'k) sharable registry \<times> 'w" where
  "with_bundle_mut abi h body bundles w = with_object_mut abi h body bundles w"

text \<open>An operation on bundles that leaves the world alone.\<close>

definition bundle_op_in :: "(('c, 'k, 'r) bundle_op) \<Rightarrow> ('c, 'k) sharable \<Rightarrow> 'w \<Rightarrow> (coded_error + 'r) \<times> ('c, 'k) sharable \<times> 'w" where
  "bundle_op_in f s w = (case f s of (r, s) \<Rightarrow> (r, s, w))"

section \<open>Arguments and results\<close>

definition decode_names :: "('k, 'c, 'w) abi \<Rightarrow> int \<Rightarrow> int \<Rightarrow> 'w \<Rightarrow> string list option \<times> 'w" where
  "decode_names abi ptr len w = read_json abi decode_strings ptr len w"

fun insert_blobs ::
    "(string \<Rightarrow> string + bytes) \<Rightarrow> (string \<times> string) list \<Rightarrow> external_blobs \<Rightarrow> string + external_blobs" where
  "insert_blobs standard_decode [] blobs = Inr blobs"
| "insert_blobs standard_decode ((i, v) # rest) blobs =
     bindR (standard_decode v) (\<lambda>raw. insert_blobs standard_decode rest (blobs_insert i raw blobs))"

definition decode_blobs ::
    "('k, 'c, 'w) abi \<Rightarrow> (string \<Rightarrow> string + bytes) \<Rightarrow> int \<Rightarrow> int \<Rightarrow> 'w \<Rightarrow> external_blobs option \<times> 'w" where
  "decode_blobs abi standard_decode ptr len w =
     bind_some (read_json abi (decode_map decode_string) ptr len w) (\<lambda>encoded w.
       ok_or_fail abi (map_err (coded_error_new ''DECODE'') (insert_blobs standard_decode encoded (blobs_from []))) w)"

definition encode_pem_chain ::
    "('k, 'c, 'w) abi \<Rightarrow> ('c, 'b, 'k, 'd, 'w) cert_binding \<Rightarrow> 'c list \<Rightarrow> coded_error + bytes" where
  "encode_pem_chain abi env chain =
     bindR (mapM_result (be_pem env) chain) (\<lambda>pems. encode_json abi (json_strings pems))"

definition unwrap_or_default :: "bytes option \<Rightarrow> bytes" where
  "unwrap_or_default v = (case v of None \<Rightarrow> [] | Some bs \<Rightarrow> bs)"

definition or_default :: "coded_error + bytes option \<Rightarrow> coded_error + bytes" where
  "or_default r = bindR r (\<lambda>v. Inr (unwrap_or_default v))"

section \<open>Making bundles\<close>

text \<open>The end both constructors share: store the bundle, or answer with the failure.\<close>

definition store_outcome ::
    "('k, 'c, 'w) abi \<Rightarrow> (coded_error + ('c, 'k) sharable) option \<Rightarrow> ('c, 'k, 'w) bundle_call" where
  "store_outcome abi outcome bundles w =
     (case outcome of
        Some (Inr bundle) \<Rightarrow> store_bundle bundle bundles w
      | Some (Inl e) \<Rightarrow> answer bundles (abi_fail abi e w)
      | None \<Rightarrow> Some (0, bundles, w))"

text \<open>A body on a leaf that draws from the world and can panic.\<close>

definition with_leaf_drawing ::
    "('k, 'c, 'w) abi \<Rightarrow> int \<Rightarrow> ('c kyc_certificate \<Rightarrow> 'w \<Rightarrow> ('r \<times> 'w) option) \<Rightarrow> 'c kyc_certificate registry \<Rightarrow> 'w
     \<Rightarrow> ('r option \<times> 'w) option" where
  "with_leaf_drawing abi h body leaves w =
     (case with_leaf abi h (\<lambda>cert. body cert w) leaves w of
        (None, w) \<Rightarrow> Some (None, w)
      | (Some outcome, _) \<Rightarrow> map_option (\<lambda>(r, w). (Some r, w)) outcome)"

definition keeta_sharable_from_certificate ::
    "('k, 'c, 'w) abi \<Rightarrow> ('c, 'b, 'k, 'd, 'w) sharable_binding \<Rightarrow> 'c kyc_certificate registry
     \<Rightarrow> int \<Rightarrow> int \<Rightarrow> int \<Rightarrow> int \<Rightarrow> int \<Rightarrow> int \<Rightarrow> ('c, 'k, 'w) bundle_call" where
  "keeta_sharable_from_certificate abi env leaves certificate_handle subject_handle intermediates_ptr intermediates_len
       names_ptr names_len bundles w =
     or_return 0 bundles (abi_account abi subject_handle w) (\<lambda>subject w.
     or_return 0 bundles (resolve_certificates abi intermediates_ptr intermediates_len w) (\<lambda>chain w.
     or_return 0 bundles (decode_names abi names_ptr names_len w) (\<lambda>names w.
     Option.bind (with_leaf_drawing abi certificate_handle (\<lambda>cert. sb_from_certificate env cert subject chain names) leaves w)
       (\<lambda>(outcome, w). store_outcome abi outcome bundles w))))"

definition keeta_sharable_from_certificate_with_references ::
    "('k, 'c, 'w) abi \<Rightarrow> ('c, 'b, 'k, 'd, 'w) sharable_binding \<Rightarrow> (string \<Rightarrow> string + bytes) \<Rightarrow> 'c kyc_certificate registry
     \<Rightarrow> int \<Rightarrow> int \<Rightarrow> int \<Rightarrow> int \<Rightarrow> int \<Rightarrow> int \<Rightarrow> int \<Rightarrow> int \<Rightarrow> ('c, 'k, 'w) bundle_call" where
  "keeta_sharable_from_certificate_with_references abi env standard_decode leaves certificate_handle subject_handle
       intermediates_ptr intermediates_len names_ptr names_len blobs_ptr blobs_len bundles w =
     or_return 0 bundles (abi_account abi subject_handle w) (\<lambda>subject w.
     or_return 0 bundles (resolve_certificates abi intermediates_ptr intermediates_len w) (\<lambda>chain w.
     or_return 0 bundles (decode_names abi names_ptr names_len w) (\<lambda>names w.
     or_return 0 bundles (decode_blobs abi standard_decode blobs_ptr blobs_len w) (\<lambda>blobs w.
     Option.bind (with_leaf_drawing abi certificate_handle
         (\<lambda>cert. sb_from_certificate_with_references env cert subject chain names blobs) leaves w)
       (\<lambda>(outcome, w). store_outcome abi outcome bundles w)))))"

definition keeta_sharable_from_encoded ::
    "('k, 'c, 'w) abi \<Rightarrow> ('c, 'b, 'k, 'd, 'w) sharable_binding \<Rightarrow> int \<Rightarrow> int \<Rightarrow> int \<Rightarrow> int \<Rightarrow> ('c, 'k, 'w) bundle_call" where
  "keeta_sharable_from_encoded abi env data_ptr data_len principals_ptr principals_len bundles w =
     (let data = abi_bytes_in abi data_ptr data_len w in
      or_return 0 bundles (resolve_accounts abi principals_ptr principals_len w) (\<lambda>accounts w.
        store_outcome abi (Some (sb_from_encoded env data accounts)) bundles w))"

definition keeta_sharable_from_pem ::
    "('k, 'c, 'w) abi \<Rightarrow> ('c, 'b, 'k, 'd, 'w) sharable_binding \<Rightarrow> int \<Rightarrow> int \<Rightarrow> int \<Rightarrow> int \<Rightarrow> ('c, 'k, 'w) bundle_call" where
  "keeta_sharable_from_pem abi env pem_ptr pem_len principals_ptr principals_len bundles w =
     or_return 0 bundles (abi_string_in abi pem_ptr pem_len w) (\<lambda>pem w.
     or_return 0 bundles (resolve_accounts abi principals_ptr principals_len w) (\<lambda>accounts w.
       store_outcome abi (Some (sb_from_pem env pem accounts)) bundles w))"

section \<open>Using bundles\<close>

definition keeta_sharable_grant_access ::
    "('k, 'c, 'w) abi \<Rightarrow> ('c, 'b, 'k, 'd, 'w) sharable_binding \<Rightarrow> int \<Rightarrow> int \<Rightarrow> int \<Rightarrow> ('c, 'k, 'w) bundle_call" where
  "keeta_sharable_grant_access abi env h principals_ptr principals_len bundles w =
     or_return (- 1) bundles (resolve_accounts abi principals_ptr principals_len w) (\<lambda>accounts w.
       case with_bundle_mut abi h (bundle_op_in (sb_grant_access env accounts)) bundles w of
         (outcome, bundles, w) \<Rightarrow> answer bundles (ack_or_error abi outcome w))"

definition keeta_sharable_revoke_access ::
    "('k, 'c, 'w) abi \<Rightarrow> ('c, 'b, 'k, 'd, 'w) sharable_binding \<Rightarrow> int \<Rightarrow> int \<Rightarrow> int \<Rightarrow> ('c, 'k, 'w) bundle_call" where
  "keeta_sharable_revoke_access abi env h key_ptr key_len bundles w =
     (let key = abi_bytes_in abi key_ptr key_len w in
      case with_bundle_mut abi h (bundle_op_in (sb_revoke_access env key)) bundles w of
        (outcome, bundles, w) \<Rightarrow> answer bundles (ack_or_error abi outcome w))"

definition keeta_sharable_principals ::
    "('k, 'c, 'w) abi \<Rightarrow> ('c, 'b, 'k, 'd, 'w) sharable_binding \<Rightarrow> int \<Rightarrow> ('c, 'k, 'w) bundle_call" where
  "keeta_sharable_principals abi env h bundles w =
     (case with_bundle abi h (sb_principals env) bundles w of (outcome, w) \<Rightarrow>
        answer bundles (encoded_or_fail abi (\<lambda>keys. encode_json abi (JArray (map json_bytes keys))) outcome w))"

definition keeta_sharable_export ::
    "('k, 'c, 'w) abi \<Rightarrow> ('c, 'b, 'k, 'd, 'w) sharable_binding \<Rightarrow> int \<Rightarrow> ('c, 'k, 'w) bundle_call" where
  "keeta_sharable_export abi env h bundles w =
     (case with_bundle_mut abi h (sb_export env) bundles w of
        (outcome, bundles, w) \<Rightarrow> answer bundles (bytes_or_zero abi outcome w))"

definition keeta_sharable_to_pem ::
    "('k, 'c, 'w) abi \<Rightarrow> ('c, 'b, 'k, 'd, 'w) sharable_binding \<Rightarrow> int \<Rightarrow> ('c, 'k, 'w) bundle_call" where
  "keeta_sharable_to_pem abi env h bundles w =
     (case with_bundle_mut abi h (sb_to_pem env) bundles w of
        (outcome, bundles, w) \<Rightarrow> answer bundles (bytes_or_zero abi outcome w))"

text \<open>A leaf goes to the table of leaves, so this call answers with both tables.\<close>

definition keeta_sharable_certificate ::
    "('k, 'c, 'w) abi \<Rightarrow> ('c, 'b, 'k, 'd, 'w) sharable_binding \<Rightarrow> int \<Rightarrow> 'c kyc_certificate registry
     \<Rightarrow> ('c, 'k) sharable registry \<Rightarrow> 'w \<Rightarrow> (int \<times> ('c kyc_certificate registry \<times> ('c, 'k) sharable registry) \<times> 'w) option" where
  "keeta_sharable_certificate abi env h leaves bundles w =
     (case with_bundle_mut abi h (bundle_op_in (sb_certificate env)) bundles w of
        (Some (Inr cert), bundles, w) \<Rightarrow>
          map_option (\<lambda>(r, leaves, w). (r, (leaves, bundles), w)) (store_leaf cert leaves w)
      | (Some (Inl e), bundles, w) \<Rightarrow> answer (leaves, bundles) (abi_fail abi e w)
      | (None, bundles, w) \<Rightarrow> Some (0, (leaves, bundles), w))"

definition keeta_sharable_intermediates ::
    "('k, 'c, 'w) abi \<Rightarrow> ('c, 'b, 'k, 'd, 'w) sharable_binding \<Rightarrow> int \<Rightarrow> ('c, 'k, 'w) bundle_call" where
  "keeta_sharable_intermediates abi env h bundles w =
     (case with_bundle_mut abi h (bundle_op_in (sb_intermediates env)) bundles w of
        (outcome, bundles, w) \<Rightarrow> answer bundles (encoded_or_fail abi (encode_pem_chain abi (sb_cert env)) outcome w))"

definition keeta_sharable_attribute_names ::
    "('k, 'c, 'w) abi \<Rightarrow> ('c, 'b, 'k, 'd, 'w) sharable_binding \<Rightarrow> int \<Rightarrow> ('c, 'k, 'w) bundle_call" where
  "keeta_sharable_attribute_names abi env h bundles w =
     (case with_bundle_mut abi h (bundle_op_in (sb_attribute_names env)) bundles w of
        (outcome, bundles, w) \<Rightarrow>
          answer bundles (encoded_or_fail abi (\<lambda>names. encode_json abi (json_strings names)) outcome w))"

definition keeta_sharable_attribute_buffer ::
    "('k, 'c, 'w) abi \<Rightarrow> ('c, 'b, 'k, 'd, 'w) sharable_binding \<Rightarrow> int \<Rightarrow> int \<Rightarrow> int \<Rightarrow> ('c, 'k, 'w) bundle_call" where
  "keeta_sharable_attribute_buffer abi env h name_ptr name_len bundles w =
     or_return 0 bundles (abi_string_in abi name_ptr name_len w) (\<lambda>name w.
       case with_bundle_mut abi h (bundle_op_in (sb_attribute_buffer env name)) bundles w of
         (outcome, bundles, w) \<Rightarrow> answer bundles (bytes_or_zero abi (map_option or_default outcome) w))"

definition keeta_sharable_attribute_value ::
    "('k, 'c, 'w) abi \<Rightarrow> ('c, 'b, 'k, 'd, 'w) sharable_binding \<Rightarrow> int \<Rightarrow> int \<Rightarrow> int \<Rightarrow> ('c, 'k, 'w) bundle_call" where
  "keeta_sharable_attribute_value abi env h name_ptr name_len bundles w =
     or_return 0 bundles (abi_string_in abi name_ptr name_len w) (\<lambda>name w.
       case with_bundle_mut abi h (bundle_op_in (sb_attribute_value env name)) bundles w of
         (outcome, bundles, w) \<Rightarrow> answer bundles (bytes_or_zero abi (map_option or_default outcome) w))"

definition keeta_sharable_reference_blob ::
    "('k, 'c, 'w) abi \<Rightarrow> ('c, 'b, 'k, 'd, 'w) sharable_binding \<Rightarrow> int \<Rightarrow> int \<Rightarrow> int \<Rightarrow> int \<Rightarrow> int \<Rightarrow> ('c, 'k, 'w) bundle_call" where
  "keeta_sharable_reference_blob abi env h name_ptr name_len id_ptr id_len bundles w =
     or_return 0 bundles (abi_string_in abi name_ptr name_len w) (\<lambda>name w.
     or_return 0 bundles (abi_string_in abi id_ptr id_len w) (\<lambda>i w.
       case with_bundle_mut abi h (bundle_op_in (sb_reference_blob env name i)) bundles w of
         (outcome, bundles, w) \<Rightarrow> answer bundles (bytes_or_zero abi (map_option or_default outcome) w)))"

definition keeta_sharable_free :: "int \<Rightarrow> ('c, 'k) sharable registry \<Rightarrow> ('c, 'k) sharable registry" where
  "keeta_sharable_free h bundles = remove h bundles"

end
