(* ===== verification/Pacing.thy ===== *)
theory Pacing
  imports RetryFacts
begin

text \<open>
  How long the retry loop sleeps, over a clock of millisecond readings that may be read at any moment: the
  loop always returns, and one run of it never sleeps longer than the time budget of its policy, whatever the
  operation answers. The readings are exact until the clock leaves the range of a \<open>u64\<close>.
\<close>

section \<open>Time and sleep\<close>

text \<open>From one world to a later one, \<open>n\<close> milliseconds were slept at most, as long as the clock has not left its
  range.\<close>

definition within :: "('w \<Rightarrow> nat) \<Rightarrow> ('w \<Rightarrow> nat) \<Rightarrow> nat \<Rightarrow> 'w \<Rightarrow> 'w \<Rightarrow> bool" where
  "within time slept n w w' \<longleftrightarrow> time w \<le> time w' \<and> (time w' < 2 ^ 64 \<longrightarrow> slept w' \<le> slept w + n)"

lemma within_refl [intro, simp]: "within time slept n w w"
  by (simp add: within_def)

lemma within_trans:
  "within time slept m w v \<Longrightarrow> within time slept n v u \<Longrightarrow> m + n \<le> k \<Longrightarrow> within time slept k w u"
  by (auto simp: within_def)

lemma within_mono: "within time slept m w v \<Longrightarrow> m \<le> n \<Longrightarrow> within time slept n w v"
  by (auto simp: within_def)

text \<open>A runtime whose clock tells the time and whose sleeps take at least as long as they are asked for.\<close>

definition paced_runtime :: "('w \<Rightarrow> nat) \<Rightarrow> ('w \<Rightarrow> nat) \<Rightarrow> 'w runtime \<Rightarrow> bool" where
  "paced_runtime time slept rt \<longleftrightarrow>
     (\<forall>w. fst (now_millis rt w) = of_nat (time w) \<and> within time slept 0 w (snd (now_millis rt w)))
     \<and> (\<forall>d w. time w + unat d \<le> time (sleep_ms rt d w) \<and> slept (sleep_ms rt d w) = slept w + unat d)"

lemma sleep_within: "paced_runtime time slept rt \<Longrightarrow> within time slept (unat d) w (sleep_ms rt d w)"
  by (auto simp: paced_runtime_def within_def intro: add_leD1)

section \<open>One run\<close>

text \<open>A run returns under every policy: its attempts are counted in a \<open>u32\<close>, whose overflow is a panic.\<close>

lemma run_returns: "\<exists>r. run p rt operation w = Some r"
proof -
  obtain start w1 where n: "now_millis rt w = (start, w1)" by (metis surj_pair)
  have "\<exists>r. loop (run_turn p rt operation start) ((start XOR seed_salt) OR 1, 0, w1) = Some r \<and> True"
  proof (rule loop_total [where I = "\<lambda>_. True" and m = "\<lambda>(seed, attempt, w). 2 ^ 32 - unat attempt"])
    fix st :: "'a retry_state"
    obtain seed attempt v where st: "st = (seed, attempt, v)" by (cases st)
    show "case run_turn p rt operation start st of Inl r \<Rightarrow> True
       | Inr s' \<Rightarrow> True \<and> (case s' of (seed, attempt, w) \<Rightarrow> 2 ^ 32 - unat attempt)
           < (case st of (seed, attempt, w) \<Rightarrow> 2 ^ 32 - unat attempt)"
    proof (cases "run_turn p rt operation start st")
      case (Inr s')
      obtain seed' attempt' v' where s': "s' = (seed', attempt', v')" by (cases s')
      from run_turn_next [of p rt operation start seed attempt v seed' attempt' v'] Inr st s'
      have "unat attempt' = unat attempt + 1" by auto
      moreover have "unat attempt' < 2 ^ 32" using unsigned_less [of attempt', where ?'a = nat] by simp
      ultimately show ?thesis using Inr st s' by simp
    qed simp
  qed simp
  then show ?thesis by (simp add: run_def n)
qed

lemma unat_clock: "n < 2 ^ 64 \<Longrightarrow> unat (of_nat n :: u64) = n"
  by (simp add: unat_of_nat)

text \<open>The worlds of a run that started at \<open>w\<close>: what was slept so far fits the time that passed, and the
  budget.\<close>

definition on_budget :: "('w \<Rightarrow> nat) \<Rightarrow> ('w \<Rightarrow> nat) \<Rightarrow> nat \<Rightarrow> 'w \<Rightarrow> 'w \<Rightarrow> bool" where
  "on_budget time slept budget w v \<longleftrightarrow> time w \<le> time v
     \<and> (time v < 2 ^ 64 \<longrightarrow> slept v \<le> slept w + budget \<and> slept v \<le> slept w + (time v - time w))"

lemma on_budget_step: "on_budget time slept budget w v \<Longrightarrow> within time slept 0 v u \<Longrightarrow> on_budget time slept budget w u"
  by (auto simp: on_budget_def within_def)

lemma on_budget_sleep:
  assumes rt: "paced_runtime time slept rt" and v: "on_budget time slept (unat (max_total_ms p)) w v"
    and now: "now_millis rt v = (now, u)" "d \<le> remaining_budget p (of_nat (time w)) now" "remaining_budget p (of_nat (time w)) now \<noteq> 0"
  shows "on_budget time slept (unat (max_total_ms p)) w (sleep_ms rt d u)"
proof -
  let ?u = "sleep_ms rt d u"
  have u: "now = of_nat (time v)" "within time slept 0 v u" using rt now(1) unfolding paced_runtime_def by (metis fst_conv, metis snd_conv)
  have s: "time u + unat d \<le> time ?u" "slept ?u = slept u + unat d" using rt unfolding paced_runtime_def by blast+
  have le: "time w \<le> time v" "time v \<le> time u" using v u(2) by (simp_all add: on_budget_def within_def)
  have "slept ?u \<le> slept w + unat (max_total_ms p) \<and> slept ?u \<le> slept w + (time ?u - time w)" if "time ?u < 2 ^ 64"
  proof -
    have small: "time v < 2 ^ 64" "time w < 2 ^ 64" "time u < 2 ^ 64" using that s(1) le by linarith+
    then have r: "unat now = time v" "unat (of_nat (time w) :: u64) = time w" using unat_clock u(1) by simp_all
    have "unat d \<le> unat (max_total_ms p) - (time v - time w)"
      using now(2) r by (simp add: word_le_nat_alt unat_remaining_budget)
    moreover have "0 < unat (max_total_ms p) - (time v - time w)"
      using now(3) r unat_remaining_budget [of p "of_nat (time w)" now] by (simp add: unat_gt_0 [symmetric])
    moreover have "slept u \<le> slept v" using u(2) small by (simp add: within_def)
    moreover have "slept v \<le> slept w + (time v - time w)" using v small unfolding on_budget_def by blast
    ultimately show ?thesis using s le by linarith
  qed
  with s(1) le show ?thesis by (simp add: on_budget_def)
qed

lemma sleep_or_world:
  assumes "sleep_or rt (next_delay p attempt hint rem seed) attempt give_up v = Inl (r, v')"
  shows "v' = v \<or> (\<exists>d. d \<le> rem \<and> rem \<noteq> 0 \<and> v' = sleep_ms rt d v)"
  using assms next_delay_Some [of p attempt hint rem seed]
  by (fastforce simp: sleep_or_def Let_def split: prod.splits outcome.splits option.splits)

text \<open>The sleeps of a whole run stay within the budget, whatever the operation does between them and however the
  run ends.\<close>

lemma run_within:
  assumes rt: "paced_runtime time slept rt" and op: "\<And>w. within time slept 0 w (snd (operation w))"
    and ret: "run p rt operation w = Some (r, w')"
  shows "within time slept (unat (max_total_ms p)) w w'"
proof -
  let ?start = "of_nat (time w) :: u64" and ?ok = "on_budget time slept (unat (max_total_ms p)) w"
  obtain w1 where n: "now_millis rt w = (?start, w1)" using rt unfolding paced_runtime_def by (metis prod.collapse)
  have op': "within time slept 0 v u" if "operation v = (x, u)" for v x u using op [of v] that by simp
  have now': "within time slept 0 v u" if "now_millis rt v = (x, u)" for v x u
    using rt that unfolding paced_runtime_def by (metis snd_conv)
  have "(\<lambda>(r, v). ?ok v) (r, w')"
  proof (rule loop_partial [where I = "\<lambda>(seed, attempt, v). ?ok v" and step = "run_turn p rt operation ?start"])
    show "loop (run_turn p rt operation ?start) ((?start XOR seed_salt) OR 1, 0, w1) = Some (r, w')"
      using ret by (simp add: run_def n)
    have "?ok w" by (simp add: on_budget_def)
    then show "case ((?start XOR seed_salt) OR 1, 0, w1) of (seed, attempt, v) \<Rightarrow> ?ok v"
      using on_budget_step now' [OF n] by simp
  next
    fix st s' :: "'a retry_state"
    assume I: "case st of (seed, attempt, v) \<Rightarrow> ?ok v" and step: "run_turn p rt operation ?start st = Inr s'"
    obtain seed attempt v where st: "st = (seed, attempt, v)" by (cases st)
    obtain seed' attempt' v' where s': "s' = (seed', attempt', v')" by (cases s')
    from run_turn_next [of p rt operation ?start seed attempt v seed' attempt' v'] step st s' obtain x w2 t w3 d hint where
      o: "operation v = (x, w2)" and t: "now_millis rt w2 = (t, w3)"
      and d: "next_delay p attempt hint (remaining_budget p ?start t) seed = (Done (Some d), seed')"
      and v': "v' = sleep_ms rt d w3" by blast
    have "?ok w2" using on_budget_step op' [OF o] I st by auto
    with on_budget_sleep [OF rt this t] next_delay_Some [OF d] s' v' show "case s' of (seed, attempt, v) \<Rightarrow> ?ok v" by simp
  next
    fix st :: "'a retry_state" and q
    assume I: "case st of (seed, attempt, v) \<Rightarrow> ?ok v" and step: "run_turn p rt operation ?start st = Inl q"
    obtain seed attempt v where st: "st = (seed, attempt, v)" by (cases st)
    obtain x v' where q: "q = (x, v')" by (cases q)
    obtain y w2 where o: "operation v = (y, w2)" by (metis surj_pair)
    obtain t w3 where t: "now_millis rt w2 = (t, w3)" by (metis surj_pair)
    have w2: "?ok w2" using on_budget_step op' [OF o] I st by auto
    have w3: "?ok w3" by (rule on_budget_step [OF w2 now' [OF t]])
    note turn = run_turn_exact [where operation = operation and v = v and rt = rt, OF o t]
    show "case q of (r, v) \<Rightarrow> ?ok v"
    proof (cases "may_retry y")
      case False
      with step st q w2 show ?thesis by (simp add: turn)
    next
      case True
      with step st q sleep_or_world have "v' = w3 \<or> (\<exists>d. d \<le> remaining_budget p ?start t
          \<and> remaining_budget p ?start t \<noteq> 0 \<and> v' = sleep_ms rt d w3)" by (fastforce simp: turn)
      with w3 on_budget_sleep [OF rt w2 t] q show ?thesis by auto
    qed
  qed
  then show ?thesis by (auto simp: on_budget_def within_def)
qed

end
