(* ===== verification/HostTransport.thy ===== *)
theory HostTransport
  imports Pacing Host AssetJsonProps
begin

text \<open>
  \<open>keetanetwork-anchor-client-wasi/src/p1/transport.rs\<close>: the transport and the timer of the networked surfaces,
  over what the embedding imports. The record \<open>host_io\<close> holds these imports (a request is handed over and the
  length of the buffered answer comes back, the answer is copied into a buffer of the guest, a sleep) with the
  clock and the base64 and JSON coders. Every import is synchronous, so a future driven to completion is ready on
  its first poll: \<open>block_on\<close> is the call itself.
\<close>

section \<open>Imports\<close>

record 'w host_io =
  host_fetch :: "bytes \<Rightarrow> 'w \<Rightarrow> nat \<times> 'w"
  host_take :: "bytes \<Rightarrow> 'w \<Rightarrow> bytes \<times> 'w"
  host_sleep :: "u64 \<Rightarrow> 'w \<Rightarrow> 'w"
  host_clock :: "'w \<Rightarrow> u64 \<times> 'w"
  host_b64_encode :: "bytes \<Rightarrow> string"
  host_b64_decode :: "string \<Rightarrow> string + bytes"
  host_to_vec :: "json \<Rightarrow> string + bytes"
  host_text :: json_text

section \<open>The two messages\<close>

definition host_request_to_json :: "string \<Rightarrow> string \<Rightarrow> string option \<Rightarrow> json" where
  "host_request_to_json meth url body =
     JObject ([(''method'', JString meth), (''url'', JString url)] @ member_some ''body'' (map_option JString body))"

record host_response =
  hr_status :: u16
  hr_body :: string
  hr_retry_after :: "string option"
  hr_error :: "string option"

definition decode_u16 :: "u16 decoder" where
  "decode_u16 j = ok_or ''invalid value'' (Option.bind (as_u64 j) try_narrow)"

definition decode_host_response :: "host_response decoder" where
  "decode_host_response doc =
     bindR (doc_struct [''status'', ''body'', ''retryAfter'', ''error''] doc) (\<lambda>members.
     bindR (defaulted members ''status'' 0 decode_u16) (\<lambda>status.
     bindR (defaulted members ''body'' [] decode_string) (\<lambda>body.
     bindR (optional_value decode_string (members ''retryAfter'')) (\<lambda>retry_after.
     bindR (optional_value decode_string (members ''error'')) (\<lambda>err.
     Inr \<lparr>hr_status = status, hr_body = body, hr_retry_after = retry_after, hr_error = err\<rparr>)))))"

section \<open>One exchange\<close>

definition exchange :: "'w host_io \<Rightarrow> bytes \<Rightarrow> 'w \<Rightarrow> bytes \<times> 'w" where
  "exchange host request w =
     (case host_fetch host request w of (n, w) \<Rightarrow>
        let response = replicate n (CHR 0x00)
        in if 0 < n then host_take host response w else (response, w))"

definition host_request_error :: "string \<Rightarrow> transport_error" where
  "host_request_error e = TRequest e"

definition decode_host_body :: "'w host_io \<Rightarrow> string \<Rightarrow> transport_error + bytes" where
  "decode_host_body host encoded = (if encoded = [] then Inr [] else map_err TRequest (host_b64_decode host encoded))"

definition read_host_response :: "'w host_io \<Rightarrow> bytes \<Rightarrow> transport_error + http_response" where
  "read_host_response host bs =
     bindR (map_err host_request_error (from_slice (host_text host) decode_host_response bs)) (\<lambda>r.
       case hr_error r of
         Some reason \<Rightarrow> Inl (TRequest reason)
       | None \<Rightarrow>
           bindR (decode_host_body host (hr_body r)) (\<lambda>body.
           Inr (with_retry_after (http_response_new (hr_status r) body) (parse_retry_after (hr_retry_after r)))))"

definition fetch :: "'w host_io \<Rightarrow> string \<Rightarrow> string \<Rightarrow> bytes option \<Rightarrow> 'w operation" where
  "fetch host meth url body w =
     (case host_to_vec host (host_request_to_json meth url (map_option (host_b64_encode host) body)) of
        Inl e \<Rightarrow> (Inl (host_request_error e), w)
      | Inr request \<Rightarrow> (case exchange host request w of (bs, w) \<Rightarrow> (read_host_response host bs, w)))"

section \<open>The transport and the runtime\<close>

definition bare_host_transport :: "'w host_io \<Rightarrow> 'w transport" where
  "bare_host_transport host =
     \<lparr>t_get = (\<lambda>url. fetch host ''GET'' url None), t_post = (\<lambda>url body. fetch host ''POST'' url (Some body))\<rparr>"

definition host_runtime :: "'w host_io \<Rightarrow> 'w runtime" where
  "host_runtime host = \<lparr>now_millis = host_clock host, sleep_ms = host_sleep host\<rparr>"

definition host_sleep_ms :: "'w host_io \<Rightarrow> u64 \<Rightarrow> 'w \<Rightarrow> 'w" where
  "host_sleep_ms host millis w = host_sleep host millis w"

definition host_transport :: "'w host_io \<Rightarrow> 'w resilient_transport" where
  "host_transport host = resilient_new (bare_host_transport host) (host_runtime host)"

section \<open>The resilient transport behind the interface of a client\<close>

text \<open>A client sees the two requests of the decorator only. A decorator without a limiter keeps no state between
  them, and always returns (see \<open>resilient_settles\<close>), so the last case is not reached. An overflow of the
  counter of attempts, after \<open>2 ^ 32\<close> of them within the budget, aborts the program: it stands as an error.\<close>

definition settled ::
    "((transport_error + http_response) outcome \<times> 'w resilient_transport \<times> 'w) option \<Rightarrow> 'w
     \<Rightarrow> (transport_error + http_response) \<times> 'w" where
  "settled m w =
     (case m of
        Some (Done r, _, w) \<Rightarrow> (r, w)
      | Some (Panic, _, w) \<Rightarrow> (Inl (TRequest ''attempt to add with overflow''), w)
      | None \<Rightarrow> (Inl (TRequest ''no answer''), w))"

definition as_transport :: "'w resilient_transport \<Rightarrow> 'w transport" where
  "as_transport t =
     \<lparr>t_get = (\<lambda>url w. settled (resilient_get t url w) w), t_post = (\<lambda>url body w. settled (resilient_post t url body w) w)\<rparr>"

section \<open>Facts\<close>

lemma resilient_settles:
  "\<exists>r w'. send_resilient (resilient_new base rt) operation w = Some (r, resilient_new base rt, w')
    \<and> run default_retry_policy rt operation w = Some (r, w')"
  using run_returns [of default_retry_policy rt operation w] by (auto simp: send_resilient_def acquire_def resilient_new_def)

lemma settled_run:
  "run default_retry_policy rt operation w = Some (r, w') \<Longrightarrow>
    snd (settled (send_resilient (resilient_new base rt) operation w) w) = w'"
  using resilient_settles [of base rt operation w] by (auto simp: settled_def split: outcome.splits)

text \<open>An answer that may not be retried is handed on at once, after a reading of the clock.\<close>

lemma settled_at_once:
  assumes "now_millis rt w = (start, v)" "operation v = (x, u)" "\<not> may_retry x"
  shows "settled (send_resilient (resilient_new base rt) operation w) w = (x, u)"
proof -
  obtain now v2 where n: "now_millis rt u = (now, v2)" by (metis surj_pair)
  have "run default_retry_policy rt operation w = Some (Done x, u)"
    using run_turn_exact [where operation = operation and v = v and rt = rt, OF assms(2) n] assms(1,3)
    by (simp add: run_def loop_halt)
  then show ?thesis using resilient_settles [of base rt operation w] by (auto simp: settled_def)
qed

text \<open>A request of a client sleeps no longer than the budget of the default policy, thirty seconds.\<close>

lemma send_resilient_within:
  assumes "paced_runtime time slept rt" "\<And>w. within time slept 0 w (snd (operation w))"
  shows "within time slept 30000 w (snd (settled (send_resilient (resilient_new base rt) operation w) w))"
proof -
  from run_returns obtain r w' where r: "run default_retry_policy rt operation w = Some (r, w')" by (metis surj_pair)
  have "unat (max_total_ms default_retry_policy) = 30000" by (simp add: default_retry_policy_def)
  with run_within [OF assms r] settled_run [OF r] show ?thesis by simp
qed

text \<open>An answer of the host, as it is handed over: what a host that serves a response writes.\<close>

definition host_answer :: "'w host_io \<Rightarrow> u16 \<Rightarrow> bytes \<Rightarrow> string option \<Rightarrow> json" where
  "host_answer host status body retry_after = JObject
     ([(''status'', JNumber (PosInt (ucast status))), (''body'', JString (host_b64_encode host body))]
      @ member_some ''retryAfter'' (map_option JString retry_after))"

definition host_laws :: "'w host_io \<Rightarrow> bool" where
  "host_laws host \<longleftrightarrow>
     (\<forall>bs. host_b64_decode host (host_b64_encode host bs) = Inr bs)
   \<and> (\<forall>bs. host_b64_encode host bs = [] \<longleftrightarrow> bs = [])"

lemma narrow_widen: "try_narrow (ucast s :: u64) = Some s" for s :: u16
proof -
  have "unat (ucast s :: u64) = unat s" by (simp add: unsigned_ucast_eq take_bit_nat_eq_self_iff)
      (rule less_le_trans [OF unsigned_less], simp)
  moreover have "unat s < 2 ^ 16" using unsigned_less [of s, where ?'a = nat] by simp
  ultimately show ?thesis by (simp add: try_narrow_def)
qed

lemma decode_u16_written [simp]: "decode_u16 (JNumber (PosInt (ucast s))) = Inr s"
  by (simp add: decode_u16_def narrow_widen)

text \<open>The client reads what the host served.\<close>

lemma fetch_serves:
  assumes laws: "host_laws host"
    and sent: "host_to_vec host (host_request_to_json meth url (map_option (host_b64_encode host) body)) = Inr request"
    and served: "exchange host request w = (reply, w')" "host_text host reply = Inr (host_answer host status content retry_after)"
  shows "fetch host meth url body w = (Inr (into_response status retry_after content), w')"
proof -
  have "decode_host_response (host_answer host status content retry_after) =
      Inr \<lparr>hr_status = status, hr_body = host_b64_encode host content, hr_retry_after = retry_after, hr_error = None\<rparr>"
    by (cases retry_after) (simp_all add: decode_host_response_def host_answer_def member_some_def doc_struct_distinct defaulted_def)
  with laws sent served show ?thesis
    by (auto simp: fetch_def read_host_response_def from_slice_def decode_host_body_def into_response_def host_laws_def)
qed

end
