(* ===== verification/HostNode.thy ===== *)
theory HostNode
  imports HostTransport
begin

text \<open>
  \<open>keetanetwork-anchor-client-wasi/src/p1/node.rs\<close>: the node transport over the imports of the host. Two reads of
  the ledger are implemented, every other operation of the node interface reports that it is not supported. The
  node client itself, its amounts, block hashes and accounts are third-party: the record \<open>node_parsers\<close>. The
  source an error boxes is one of five.
\<close>

record ('a, 'm, 'h) node_parsers =
  np_account :: "string \<Rightarrow> string + 'a"
  np_amount :: "string \<Rightarrow> string + 'm"
  np_zero :: 'm
  np_hash :: "string \<Rightarrow> string + 'h"

datatype host_node_error =
    NodeStatus u16
  | NodeUnsupported string
  | NodeExchange transport_error
  | NodeJson string
  | NodeValue string

section \<open>The responses of the node\<close>

record account_info_response =
  ai_name :: "string option"
  ai_description :: "string option"
  ai_metadata :: "string option"
  ai_supply :: "string option"

record balance_entry_response =
  be_token :: "string option"
  be_balance :: "string option"

record account_state_response =
  as_representative :: "string option"
  as_head :: "string option"
  as_height :: "string option"
  as_info :: "account_info_response option"
  as_balances :: "balance_entry_response list"

definition decode_account_info :: "account_info_response decoder" where
  "decode_account_info doc =
     bindR (doc_struct [''name'', ''description'', ''metadata'', ''supply''] doc) (\<lambda>members.
     bindR (optional_value decode_string (members ''name'')) (\<lambda>name.
     bindR (optional_value decode_string (members ''description'')) (\<lambda>description.
     bindR (optional_value decode_string (members ''metadata'')) (\<lambda>metadata.
     bindR (optional_value decode_string (members ''supply'')) (\<lambda>supply.
     Inr \<lparr>ai_name = name, ai_description = description, ai_metadata = metadata, ai_supply = supply\<rparr>)))))"

definition decode_balance_entry :: "balance_entry_response decoder" where
  "decode_balance_entry doc =
     bindR (doc_struct [''token'', ''balance''] doc) (\<lambda>members.
     bindR (optional_value decode_string (members ''token'')) (\<lambda>token.
     bindR (optional_value decode_string (members ''balance'')) (\<lambda>balance.
     Inr \<lparr>be_token = token, be_balance = balance\<rparr>)))"

definition decode_state_response :: "account_state_response decoder" where
  "decode_state_response doc =
     bindR (doc_struct [''representative'', ''currentHeadBlock'', ''currentHeadBlockHeight'', ''info'', ''balances''] doc)
       (\<lambda>members.
     bindR (optional_value decode_string (members ''representative'')) (\<lambda>rep.
     bindR (optional_value decode_string (members ''currentHeadBlock'')) (\<lambda>head_block.
     bindR (optional_value decode_string (members ''currentHeadBlockHeight'')) (\<lambda>height.
     bindR (optional_value decode_account_info (members ''info'')) (\<lambda>info.
     bindR (defaulted members ''balances'' [] (decode_list decode_balance_entry)) (\<lambda>balances.
     Inr \<lparr>as_representative = rep, as_head = head_block, as_height = height, as_info = info, as_balances = balances\<rparr>))))))"

record certificate_record_response =
  cr_certificate :: "string option"
  cr_intermediates :: "string list option"

definition decode_certificate_record :: "certificate_record_response decoder" where
  "decode_certificate_record doc =
     bindR (doc_struct [''certificate'', ''intermediates''] doc) (\<lambda>members.
     bindR (optional_value decode_string (members ''certificate'')) (\<lambda>cert.
     bindR (optional_value decode_strings (members ''intermediates'')) (\<lambda>chain.
     Inr \<lparr>cr_certificate = cert, cr_intermediates = chain\<rparr>)))"

definition decode_certificates_response :: "certificate_record_response list decoder" where
  "decode_certificates_response doc =
     bindR (doc_struct [''certificates''] doc) (\<lambda>members.
     defaulted members ''certificates'' [] (decode_list decode_certificate_record))"

section \<open>Reading the node\<close>

definition node_base :: "string \<Rightarrow> string" where
  "node_base url = rev (dropWhile (\<lambda>c. c = CHR ''/'') (rev url))"

definition get_json ::
    "'w host_io \<Rightarrow> string \<Rightarrow> 'r decoder \<Rightarrow> string \<Rightarrow> 'w \<Rightarrow> (host_node_error + 'r) \<times> 'w" where
  "get_json host base dec path w =
     (case fetch host ''GET'' (base @ path) None w of (r, w) \<Rightarrow>
        (bindR (map_err NodeExchange r) (\<lambda>response.
           if \<not> is_success response then Inl (NodeStatus (resp_status response))
           else map_err NodeJson (from_slice (host_text host) dec (resp_body response))), w))"

definition decode_amount :: "('a, 'm, 'h) node_parsers \<Rightarrow> string option \<Rightarrow> host_node_error + 'm" where
  "decode_amount np v = (case v of None \<Rightarrow> Inr (np_zero np) | Some s \<Rightarrow> map_err NodeValue (np_amount np s))"

definition decode_account :: "('a, 'm, 'h) node_parsers \<Rightarrow> string \<Rightarrow> host_node_error + 'a" where
  "decode_account np address = map_err NodeValue (np_account np address)"

definition decode_hash :: "('a, 'm, 'h) node_parsers \<Rightarrow> string option \<Rightarrow> host_node_error + 'h option" where
  "decode_hash np h = transpose_map (\<lambda>v. map_err NodeValue (np_hash np v)) h"

record ('a, 'm, 'h) account_state =
  st_representative :: "'a option"
  st_head :: "'h option"
  st_height :: "'m option"
  st_info :: "(string option \<times> string option \<times> string option) option"
  st_supply :: "'m option"
  st_balances :: "('a \<times> 'm) list"

text \<open>A balance without a token is skipped, one that does not parse fails the read.\<close>

definition decode_balance ::
    "('a, 'm, 'h) node_parsers \<Rightarrow> balance_entry_response \<Rightarrow> (host_node_error + 'a \<times> 'm) option" where
  "decode_balance np entry =
     Option.bind (be_token entry) (\<lambda>token.
       Some (bindR (decode_account np token) (\<lambda>a. bindR (decode_amount np (be_balance entry)) (\<lambda>m. Inr (a, m)))))"

definition decode_account_state ::
    "('a, 'm, 'h) node_parsers \<Rightarrow> account_state_response \<Rightarrow> host_node_error + ('a, 'm, 'h) account_state" where
  "decode_account_state np st =
     bindR (transpose_map (\<lambda>s. decode_amount np (Some s)) (Option.bind (as_info st) ai_supply)) (\<lambda>supply.
     bindR (transpose_map (\<lambda>h. decode_amount np (Some h)) (as_height st)) (\<lambda>height.
     bindR (mapM_result id (filter_map (decode_balance np) (as_balances st))) (\<lambda>balances.
     bindR (transpose_map (decode_account np) (as_representative st)) (\<lambda>rep.
     bindR (decode_hash np (as_head st)) (\<lambda>head_block.
     Inr \<lparr>st_representative = rep, st_head = head_block, st_height = height,
          st_info = map_option (\<lambda>i. (ai_name i, ai_description i, ai_metadata i)) (as_info st),
          st_supply = supply, st_balances = balances\<rparr>)))))"

definition node_account_state ::
    "'w host_io \<Rightarrow> ('a, 'm, 'h) node_parsers \<Rightarrow> string \<Rightarrow> string \<Rightarrow> 'w \<Rightarrow> (host_node_error + ('a, 'm, 'h) account_state) \<times> 'w" where
  "node_account_state host np base account w =
     (case get_json host base decode_state_response (''/node/ledger/account/'' @ account) w of
        (r, w) \<Rightarrow> (bindR r (decode_account_state np), w))"

definition published_record :: "certificate_record_response \<Rightarrow> (string \<times> string list) option" where
  "published_record r =
     map_option (\<lambda>cert. (cert, case cr_intermediates r of None \<Rightarrow> [] | Some chain \<Rightarrow> chain)) (cr_certificate r)"

definition node_certificates ::
    "'w host_io \<Rightarrow> string \<Rightarrow> string \<Rightarrow> 'w \<Rightarrow> (host_node_error + (string \<times> string list) list) \<times> 'w" where
  "node_certificates host base account w =
     (case get_json host base decode_certificates_response (''/node/ledger/account/'' @ account @ ''/certificates'') w of
        (r, w) \<Rightarrow> (bindR r (\<lambda>records. Inr (filter_map published_record records)), w))"

text \<open>Every other operation of the interface, by its name.\<close>

definition node_unsupported :: "string \<Rightarrow> 'w \<Rightarrow> (host_node_error + 'r) \<times> 'w" where
  "node_unsupported meth w = (Inl (NodeUnsupported meth), w)"

definition host_node_create :: "string \<Rightarrow> string" where
  "host_node_create url = node_base url"

section \<open>The runtime\<close>

text \<open>A sleep is cut to the milliseconds a \<open>u64\<close> can hold.\<close>

definition node_sleep :: "'w host_io \<Rightarrow> nat \<Rightarrow> 'w \<Rightarrow> 'w" where
  "node_sleep host requested w = host_sleep_ms host (if requested < 2 ^ 64 then of_nat requested else u64_max) w"

section \<open>Facts\<close>

lemma node_base_last: "node_base url = [] \<or> last (node_base url) \<noteq> CHR ''/''"
proof (cases "dropWhile (\<lambda>c. c = CHR ''/'') (rev url) = []")
  case False
  then have "hd (dropWhile (\<lambda>c. c = CHR ''/'') (rev url)) \<noteq> CHR ''/''" by (metis (mono_tags) hd_dropWhile)
  with False show ?thesis by (simp add: node_base_def last_rev)
qed (simp add: node_base_def)

lemma node_base_idem: "node_base (node_base url) = node_base url"
proof -
  let ?x = "dropWhile (\<lambda>c. c = CHR ''/'') (rev url)"
  have "dropWhile (\<lambda>c. c = CHR ''/'') ?x = ?x" by (simp add: dropWhile_idem)
  then show ?thesis by (simp add: node_base_def)
qed

text \<open>Which balances a read reports.\<close>

lemma mapM_id: "mapM_result id ys = Inr xs \<longleftrightarrow> ys = map Inr xs"
  by (induction ys arbitrary: xs) (auto simp: result_elims)

lemma decoded_balances:
  assumes "decode_account_state np st = Inr a"
  shows "filter_map (decode_balance np) (as_balances st) = map Inr (st_balances a)"
  using assms by (auto simp: decode_account_state_def mapM_id result_elims)

text \<open>A read that is not a success fails with its status, whatever its body.\<close>

lemma get_json_status:
  "fetch host ''GET'' (base @ path) None w = (Inr response, w') \<Longrightarrow> \<not> is_success response
    \<Longrightarrow> get_json host base dec path w = (Inl (NodeStatus (resp_status response)), w')"
  by (simp add: get_json_def)

end
