(* ===== verification/ResponseJson.thy ===== *)
theory ResponseJson
  imports AssetJsonProps AssetResponse
begin

text \<open>
  The derived serializers of \<open>services/asset_movement/response.rs\<close>: the JSON a response crosses the boundary of
  the bindings as. A struct is written in the order of its fields, an optional field that is \<open>None\<close> is left out
  where its attribute says so, and flattened extra members follow the named ones. A response that was read from a
  body is read back from what is written for it.
\<close>

section \<open>Writers\<close>

fun located_asset_to_json :: "located_asset \<Rightarrow> json" where
  "located_asset_to_json (IdAsset i) = JString i"
| "located_asset_to_json (AtLocation i l) = JObject [(''id'', JString i), (''location'', JString l)]"

fun asset_or_pair_to_json :: "asset_or_pair \<Rightarrow> json" where
  "asset_or_pair_to_json (AssetSingle a) = JString a"
| "asset_or_pair_to_json (AssetPair source dest) = JObject [(''from'', JString source), (''to'', JString dest)]"

fun content_to_json :: "renderable_content \<Rightarrow> json" where
  "content_to_json (Markdown c) = JObject [(''type'', JString ''markdown''), (''content'', JString c)]"
| "content_to_json (Plaintext c) = JObject [(''type'', JString ''plaintext''), (''content'', JString c)]"

text \<open>The fields of a struct with flattened extras: those that are written.\<close>

definition members_of :: "(string \<times> json option) list \<Rightarrow> (string \<times> json) list" where
  "members_of fs = concat (map (\<lambda>(n, v). member_some n v) fs)"

definition fee_line_item_to_json :: "fee_line_item \<Rightarrow> json" where
  "fee_line_item_to_json f = JObject (members_of
     [(''purpose'', Some (JString (fee_purpose f))),
      (''value'', map_option JString (fee_value f)),
      (''basisPoints'', map_option JNumber (fee_basis_points f)),
      (''asset'', map_option located_asset_to_json (fee_asset f)),
      (''details'', map_option content_to_json (fee_details f))] @ fee_extra f)"

definition fee_breakdown_to_json :: "fee_breakdown \<Rightarrow> json" where
  "fee_breakdown_to_json b = JObject (members_of
     [(''lineItems'', Some (JArray (map fee_line_item_to_json (fb_line_items b)))),
      (''total'', map_option JString (fb_total b)),
      (''totalPricedIn'', map_option located_asset_to_json (fb_total_priced_in b))] @ fb_extra b)"

definition minimum_to_json :: "minimum_transfer_value \<Rightarrow> json" where
  "minimum_to_json m = JObject [(''asset'', JString (mt_asset m)), (''value'', JString (mt_value m))]"

definition forwarding_address_to_json :: "forwarding_address \<Rightarrow> json" where
  "forwarding_address_to_json a = JObject (members_of
     [(''id'', map_option JString (fa_id a)),
      (''address'', Some (fa_address a)),
      (''depositMessage'', fa_deposit_message a),
      (''asset'', map_option asset_or_pair_to_json (fa_asset a)),
      (''sourceLocation'', fa_source_location a),
      (''destinationLocation'', fa_destination_location a),
      (''destinationAddress'', fa_destination_address a),
      (''outgoingRail'', map_option JString (fa_outgoing_rail a)),
      (''incomingRail'', map_option string_array (fa_incoming_rail a)),
      (''minimumTransferValue'', map_option minimum_to_json (fa_minimum a)),
      (''fees'', map_option fee_breakdown_to_json (fa_fees a))] @ fa_extra a)"

definition transfer_to_json :: "transfer \<Rightarrow> json" where
  "transfer_to_json t = JObject [(''id'', JString (xf_id t)), (''instructionChoices'', JArray (xf_instruction_choices t))]"

definition simulated_transfer_to_json :: "simulated_transfer \<Rightarrow> json" where
  "simulated_transfer_to_json t = JObject [(''instructionChoices'', JArray (sim_instruction_choices t))]"

definition transfer_status_to_json :: "transfer_status \<Rightarrow> json" where
  "transfer_status_to_json t = JObject [(''transaction'', ts_transaction t)]"

definition template_session_to_json :: "template_session \<Rightarrow> json" where
  "template_session_to_json s = JObject
     [(''id'', JString (tsn_id s)), (''expiresAt'', JString (tsn_expires_at s)), (''data'', tsn_data s)]"

definition forwarding_template_to_json :: "forwarding_template \<Rightarrow> json" where
  "forwarding_template_to_json t = JObject
     [(''id'', JString (ft_id t)), (''location'', ft_location t), (''asset'', ft_asset t), (''address'', ft_address t)]"

definition page_to_json :: "string \<Rightarrow> ('a \<Rightarrow> json) \<Rightarrow> 'a page \<Rightarrow> json" where
  "page_to_json name item p = JObject [(name, JArray (map item (page_items p))), (''total'', JString (page_total p))]"

definition template_page_to_json :: "template_page \<Rightarrow> json" where
  "template_page_to_json = page_to_json ''templates'' id"

definition address_page_to_json :: "address_page \<Rightarrow> json" where
  "address_page_to_json = page_to_json ''addresses'' forwarding_address_to_json"

definition transaction_page_to_json :: "transaction_page \<Rightarrow> json" where
  "transaction_page_to_json = page_to_json ''transactions'' id"

text \<open>The URL of a share is written as null when there is none.\<close>

definition share_kyc_outcome_to_json :: "share_kyc_outcome \<Rightarrow> json" where
  "share_kyc_outcome_to_json s = JObject
     [(''isPending'', JBool (so_is_pending s)),
      (''promiseURL'', case so_promise_url s of None \<Rightarrow> JNull | Some url \<Rightarrow> JString url)]"

section \<open>Reading back\<close>

lemma optional_map:
  "(\<And>x. v = Some x \<Longrightarrow> dec (f x) = Inr x) \<Longrightarrow> (\<And>x. \<not> is_null (f x)) \<Longrightarrow> optional_value dec (map_option f v) = Inr v"
  by (cases v) (simp_all add: optional_value_def)

lemma keys_members_of: "fst ` set (members_of fs) \<subseteq> fst ` set fs"
  by (force simp: members_of_def member_some_def split: option.splits)

lemma distinct_members_of: "distinct (map fst fs) \<Longrightarrow> distinct (map fst (members_of fs))"
proof (induction fs)
  case (Cons f fs)
  obtain n v where f: "f = (n, v)" by (cases f)
  have "n \<notin> fst ` set (members_of fs)" using Cons.prems keys_members_of [of fs] f by auto
  with Cons show ?case by (cases v) (simp_all add: f members_of_def member_some_def)
qed (simp add: members_of_def)

lemma map_of_members_of:
  "distinct (map fst fs) \<Longrightarrow> (n, v) \<in> set fs \<Longrightarrow> map_of (members_of fs) n = v"
proof (induction fs)
  case (Cons f fs)
  obtain m u where f: "f = (m, u)" by (cases f)
  show ?case
  proof (cases "n = m")
    case True
    have "m \<notin> fst ` set (members_of fs)" using Cons.prems(1) keys_members_of [of fs] f by auto
    then have "map_of (members_of fs) m = None" by (simp add: map_of_eq_None_iff)
    moreover have "v = u" using Cons.prems True f by force
    ultimately show ?thesis by (cases u) (simp_all add: f True members_of_def member_some_def)
  next
    case False
    with Cons show ?thesis by (cases u) (auto simp: f members_of_def member_some_def)
  qed
qed simp

definition extra_ok :: "string list \<Rightarrow> (string \<times> json) list \<Rightarrow> bool" where
  "extra_ok names extra \<longleftrightarrow> map_ok extra \<and> (\<forall>(k, v) \<in> set extra. k \<notin> set names \<and> json_ok v)"

lemma extra_keys: "extra_ok names extra \<Longrightarrow> n \<in> set names \<Longrightarrow> n \<notin> fst ` set extra"
  by (fastforce simp: extra_ok_def)

lemma to_value_extra: "extra_ok names extra \<Longrightarrow> map_from (map (\<lambda>(k, v). (k, to_value v)) extra) = extra"
proof -
  assume e: "extra_ok names extra"
  then have "map (\<lambda>(k, v). (k, to_value v)) extra = extra"
    by (intro map_idI) (auto simp: extra_ok_def to_value_id)
  with e show ?thesis by (simp add: extra_ok_def map_from_id)
qed

text \<open>Named members followed by extras are read as both.\<close>

lemma flat_struct_fields:
  assumes "extra_ok names extra" "fst ` set known \<subseteq> set names" "distinct (map fst known)"
  shows "flat_struct names (JObject (known @ extra)) = Inr (map_of (known @ extra), extra)"
proof -
  have "set (map fst known) \<inter> set (map fst extra) = {}"
    using assms(2) extra_keys [OF assms(1)] by (simp only: set_map) blast
  with assms(1,3) have "distinct (map fst (known @ extra))" by (simp add: extra_ok_def map_ok_distinct)
  then have "doc_struct names (JObject (known @ extra)) = Inr (map_of (known @ extra))" by (rule doc_struct_distinct)
  moreover have "filter (\<lambda>(k, _). \<not> List.member names k) known = []"
    using assms(2) by (auto simp: filter_empty_conv List.member_iff)
  moreover have "filter (\<lambda>(k, _). \<not> List.member names k) extra = extra"
    using assms(1) by (auto simp: filter_id_conv extra_ok_def List.member_iff)
  ultimately show ?thesis using to_value_extra [OF assms(1)] by (simp add: flat_struct_def)
qed

lemma flat_extra_ok:
  assumes "flat_struct names doc = Inr (members, extra)"
  shows "extra_ok names extra"
proof -
  from assms obtain ms where d: "doc = JObject ms"
      "extra = map_from (map (\<lambda>(k, v). (k, to_value v)) (filter (\<lambda>(k, _). \<not> List.member names k) ms))"
    by (auto simp: flat_struct_def result_elims split: json.splits)
  let ?kvs = "map (\<lambda>(k, v). (k, to_value v)) (filter (\<lambda>(k, _). \<not> List.member names k) ms)"
  have "set extra \<subseteq> set ?kvs" unfolding d(2) by (rule set_map_from)
  moreover have "map_ok extra" unfolding d(2) by simp
  ultimately show ?thesis by (fastforce simp: extra_ok_def List.member_iff json_ok_to_value)
qed

text \<open>A struct written from its fields reads back each of them, and its extras.\<close>

lemma flat_struct_members:
  assumes "extra_ok names extra" "map fst fs = names" "distinct names"
  shows "\<exists>members. flat_struct names (JObject (members_of fs @ extra)) = Inr (members, extra)
    \<and> (\<forall>(n, v) \<in> set fs. members n = v)"
proof -
  have keys: "fst ` set (members_of fs) \<subseteq> set names" using keys_members_of [of fs] assms(2) by force
  have "flat_struct names (JObject (members_of fs @ extra)) = Inr (map_of (members_of fs @ extra), extra)"
    by (rule flat_struct_fields) (use assms keys in \<open>simp_all add: distinct_members_of\<close>)
  moreover have "map_of (members_of fs @ extra) n = v" if "(n, v) \<in> set fs" for n v
  proof -
    have "map_of (members_of fs) n = v" using map_of_members_of [of fs] assms(2,3) that by simp
    moreover have "map_of extra n = None"
      using extra_keys [OF assms(1)] assms(2) that by (force simp: map_of_eq_None_iff)
    ultimately show ?thesis by (simp add: map_add_def split: option.splits)
  qed
  ultimately show ?thesis by blast
qed

subsection \<open>Small structs\<close>

lemma decode_located [simp]: "decode_located_asset (located_asset_to_json l) = Inr l" "\<not> is_null (located_asset_to_json l)"
  by (cases l; simp add: decode_located_asset_def doc_struct_distinct required_string_def)+

lemma decode_pair [simp]: "decode_asset_or_pair (asset_or_pair_to_json a) = Inr a" "\<not> is_null (asset_or_pair_to_json a)"
  by (cases a; simp add: decode_asset_or_pair_def doc_struct_distinct required_string_def)+

lemma decode_content_written [simp]: "decode_content (content_to_json c) = Inr c" "\<not> is_null (content_to_json c)"
  by (cases c; simp add: decode_content_def doc_struct_distinct required_string_def content_variant_def)+

lemma decode_minimum_written [simp]: "decode_minimum (minimum_to_json m) = Inr m" "\<not> is_null (minimum_to_json m)"
  by (cases m; simp add: decode_minimum_def minimum_to_json_def doc_struct_distinct required_string_def)+

lemma optional_small [simp]:
  "optional_value decode_located_asset (map_option located_asset_to_json l) = Inr l"
  "optional_value decode_asset_or_pair (map_option asset_or_pair_to_json a) = Inr a"
  "optional_value decode_content (map_option content_to_json c) = Inr c"
  "optional_value decode_minimum (map_option minimum_to_json m) = Inr m"
  "optional_value decode_number (map_option JNumber n) = Inr n"
  by (rule optional_map; simp add: decode_number_def)+

subsection \<open>Fees\<close>

definition fee_names :: "string list" where
  "fee_names = [''purpose'', ''value'', ''basisPoints'', ''asset'', ''details'']"

definition breakdown_names :: "string list" where
  "breakdown_names = [''lineItems'', ''total'', ''totalPricedIn'']"

definition breakdown_ok :: "fee_breakdown \<Rightarrow> bool" where
  "breakdown_ok b \<longleftrightarrow> extra_ok breakdown_names (fb_extra b) \<and> list_all (\<lambda>f. extra_ok fee_names (fee_extra f)) (fb_line_items b)"

lemma decode_fee_line_item_to_json:
  assumes "extra_ok fee_names (fee_extra f)"
  shows "decode_fee_line_item (fee_line_item_to_json f) = Inr f"
proof -
  obtain members where "flat_struct fee_names (fee_line_item_to_json f) = Inr (members, fee_extra f)"
      "members ''purpose'' = Some (JString (fee_purpose f))" "members ''value'' = map_option JString (fee_value f)"
      "members ''basisPoints'' = map_option JNumber (fee_basis_points f)"
      "members ''asset'' = map_option located_asset_to_json (fee_asset f)"
      "members ''details'' = map_option content_to_json (fee_details f)"
    using flat_struct_members [OF assms, of "[(''purpose'', Some (JString (fee_purpose f))),
      (''value'', map_option JString (fee_value f)), (''basisPoints'', map_option JNumber (fee_basis_points f)),
      (''asset'', map_option located_asset_to_json (fee_asset f)),
      (''details'', map_option content_to_json (fee_details f))]"]
    by (auto simp: fee_names_def fee_line_item_to_json_def simp del: append.simps)
  then show ?thesis by (cases f) (simp add: decode_fee_line_item_def fee_names_def required_string_def)
qed

lemma decode_fee_breakdown_to_json:
  assumes "breakdown_ok b"
  shows "decode_fee_breakdown (fee_breakdown_to_json b) = Inr b"
proof -
  have items: "decode_list decode_fee_line_item (JArray (map fee_line_item_to_json (fb_line_items b))) = Inr (fb_line_items b)"
    by (rule decode_list_inverse) (use assms in \<open>simp add: breakdown_ok_def list_all_iff decode_fee_line_item_to_json\<close>)
  have "extra_ok breakdown_names (fb_extra b)" using assms by (simp add: breakdown_ok_def)
  from flat_struct_members [OF this, of "[(''lineItems'', Some (JArray (map fee_line_item_to_json (fb_line_items b)))),
      (''total'', map_option JString (fb_total b)), (''totalPricedIn'', map_option located_asset_to_json (fb_total_priced_in b))]"]
  obtain members where "flat_struct breakdown_names (fee_breakdown_to_json b) = Inr (members, fb_extra b)"
      "members ''lineItems'' = Some (JArray (map fee_line_item_to_json (fb_line_items b)))"
      "members ''total'' = map_option JString (fb_total b)"
      "members ''totalPricedIn'' = map_option located_asset_to_json (fb_total_priced_in b)"
    by (auto simp: breakdown_names_def fee_breakdown_to_json_def simp del: append.simps)
  with items show ?thesis by (cases b) (simp add: decode_fee_breakdown_def breakdown_names_def defaulted_def)
qed

lemma breakdown_not_null [simp]: "\<not> is_null (fee_breakdown_to_json b)"
  by (simp add: fee_breakdown_to_json_def)

subsection \<open>Forwarding addresses\<close>

definition address_names :: "string list" where
  "address_names = [''id'', ''address'', ''depositMessage'', ''asset'', ''sourceLocation'', ''destinationLocation'',
     ''destinationAddress'', ''outgoingRail'', ''incomingRail'', ''minimumTransferValue'', ''fees'']"

definition address_ok :: "forwarding_address \<Rightarrow> bool" where
  "address_ok a \<longleftrightarrow> extra_ok address_names (fa_extra a) \<and> json_ok (fa_address a) \<and> kept_value (fa_deposit_message a)
     \<and> kept_value (fa_source_location a) \<and> kept_value (fa_destination_location a) \<and> kept_value (fa_destination_address a)
     \<and> (case fa_fees a of None \<Rightarrow> True | Some b \<Rightarrow> breakdown_ok b)"

lemma decode_forwarding_address_to_json:
  assumes "address_ok a"
  shows "decode_forwarding_address (forwarding_address_to_json a) = Inr a"
proof -
  have fees: "optional_value decode_fee_breakdown (map_option fee_breakdown_to_json (fa_fees a)) = Inr (fa_fees a)"
    by (rule optional_map) (use assms in \<open>simp_all add: address_ok_def decode_fee_breakdown_to_json\<close>)
  have vals: "decode_value (fa_address a) = Inr (fa_address a)"
      "optional_value decode_value (fa_deposit_message a) = Inr (fa_deposit_message a)"
      "optional_value decode_value (fa_source_location a) = Inr (fa_source_location a)"
      "optional_value decode_value (fa_destination_location a) = Inr (fa_destination_location a)"
      "optional_value decode_value (fa_destination_address a) = Inr (fa_destination_address a)"
    using assms by (simp_all add: address_ok_def decode_kept optional_kept)
  let ?fields = "[(''id'', map_option JString (fa_id a)), (''address'', Some (fa_address a)),
      (''depositMessage'', fa_deposit_message a), (''asset'', map_option asset_or_pair_to_json (fa_asset a)),
      (''sourceLocation'', fa_source_location a), (''destinationLocation'', fa_destination_location a),
      (''destinationAddress'', fa_destination_address a), (''outgoingRail'', map_option JString (fa_outgoing_rail a)),
      (''incomingRail'', map_option string_array (fa_incoming_rail a)),
      (''minimumTransferValue'', map_option minimum_to_json (fa_minimum a)),
      (''fees'', map_option fee_breakdown_to_json (fa_fees a))]"
  have "extra_ok address_names (fa_extra a)" using assms by (simp add: address_ok_def)
  from flat_struct_members [OF this, of ?fields] obtain members where
    "flat_struct address_names (forwarding_address_to_json a) = Inr (members, fa_extra a)" "\<forall>(n, v) \<in> set ?fields. members n = v"
    by (auto simp: address_names_def forwarding_address_to_json_def simp del: append.simps)
  with fees vals show ?thesis
    by (cases a) (simp add: decode_forwarding_address_def address_names_def required_def)
qed

subsection \<open>What was read is kept\<close>

lemma fee_line_item_read: "decode_fee_line_item doc = Inr f \<Longrightarrow> extra_ok fee_names (fee_extra f)"
  by (auto simp: decode_fee_line_item_def fee_names_def result_elims dest: flat_extra_ok)

lemma mapM_result_all: "mapM_result f xs = Inr ys \<Longrightarrow> (\<And>x y. f x = Inr y \<Longrightarrow> P y) \<Longrightarrow> list_all P ys"
  by (induction xs arbitrary: ys) (auto simp: result_elims)

lemma decode_list_all: "decode_list dec doc = Inr xs \<Longrightarrow> (\<And>x y. dec x = Inr y \<Longrightarrow> P y) \<Longrightarrow> list_all P xs"
  by (auto simp: decode_list_def result_elims intro: mapM_result_all)

lemma fee_items_read: "decode_list decode_fee_line_item doc = Inr fs \<Longrightarrow> list_all (\<lambda>f. extra_ok fee_names (fee_extra f)) fs"
  by (erule decode_list_all) (rule fee_line_item_read)

lemma fee_breakdown_read: "decode_fee_breakdown doc = Inr b \<Longrightarrow> breakdown_ok b"
  by (auto simp: decode_fee_breakdown_def breakdown_names_def breakdown_ok_def defaulted_def result_elims
      dest!: flat_extra_ok fee_items_read split: option.splits)

lemma optional_value_read: "optional_value decode_value v = Inr w \<Longrightarrow> kept_value w"
proof -
  assume v: "optional_value decode_value v = Inr w"
  have "is_null (to_value j) \<Longrightarrow> is_null j" for j by (cases j) simp_all
  with v show ?thesis
    by (cases v) (auto simp: optional_value_def kept_value_def decode_value_def json_ok_to_value split: if_splits)
qed

lemma optional_fees_read: "optional_value decode_fee_breakdown v = Inr w \<Longrightarrow> case w of None \<Rightarrow> True | Some b \<Rightarrow> breakdown_ok b"
  by (cases v) (auto simp: optional_value_def result_elims intro: fee_breakdown_read split: if_splits)

lemma forwarding_address_read:
  assumes "decode_forwarding_address doc = Inr a"
  shows "address_ok a"
proof -
  from assms obtain members where
    "flat_struct address_names doc = Inr (members, fa_extra a)" "required members ''address'' decode_value = Inr (fa_address a)"
    "optional_value decode_value (members ''depositMessage'') = Inr (fa_deposit_message a)"
    "optional_value decode_value (members ''sourceLocation'') = Inr (fa_source_location a)"
    "optional_value decode_value (members ''destinationLocation'') = Inr (fa_destination_location a)"
    "optional_value decode_value (members ''destinationAddress'') = Inr (fa_destination_address a)"
    "optional_value decode_fee_breakdown (members ''fees'') = Inr (fa_fees a)"
    by (auto simp: decode_forwarding_address_def address_names_def result_elims)
  moreover from this(2) obtain x where "to_value x = fa_address a" by (auto simp: required_def result_elims decode_value_def)
  with json_ok_to_value [of x] have "json_ok (fa_address a)" by simp
  ultimately show ?thesis by (simp add: address_ok_def flat_extra_ok optional_value_read optional_fees_read)
qed

lemma values_read: "decode_list decode_value doc = Inr xs \<Longrightarrow> list_all json_ok xs"
  by (erule decode_list_all) (auto simp: decode_value_def json_ok_to_value)

lemma addresses_read: "decode_list decode_forwarding_address doc = Inr xs \<Longrightarrow> list_all address_ok xs"
  by (erule decode_list_all) (rule forwarding_address_read)

lemma decode_values_written: "list_all json_ok xs \<Longrightarrow> decode_list decode_value (JArray xs) = Inr xs"
  using decode_list_inverse [of xs decode_value id] by (simp add: list_all_iff decode_kept)

lemma decode_addresses_written:
  "list_all address_ok xs \<Longrightarrow> decode_list decode_forwarding_address (JArray (map forwarding_address_to_json xs)) = Inr xs"
  by (rule decode_list_inverse) (simp add: list_all_iff decode_forwarding_address_to_json)

text \<open>A page is read back from its own items.\<close>

lemma page_crosses:
  assumes "decode_page name dec doc = Inr p" "name \<noteq> ''total''"
    and "\<And>d xs. decode_list dec d = Inr xs \<Longrightarrow> decode_list dec (JArray (map item xs)) = Inr xs"
  shows "decode_page name dec (page_to_json name item p) = Inr p"
proof -
  have empty: "decode_list dec (JArray (map item [])) = Inr []" by (simp add: decode_list_def)
  from assms(1) have "decode_list dec (JArray (map item (page_items p))) = Inr (page_items p)"
    using assms(3) empty by (auto simp: decode_page_def defaulted_def result_elims split: option.splits)
  with assms(2) show ?thesis
    by (cases p) (simp add: decode_page_def page_to_json_def defaulted_def doc_struct_distinct)
qed

text \<open>What crosses: whatever was read is read again from what is written for it.\<close>

definition crosses :: "'r decoder \<Rightarrow> ('r \<Rightarrow> json) \<Rightarrow> bool" where
  "crosses dec enc \<longleftrightarrow> (\<forall>doc r. dec doc = Inr r \<longrightarrow> dec (enc r) = Inr r)"

lemma crosses_pages:
  "crosses decode_template_page template_page_to_json" "crosses decode_transaction_page transaction_page_to_json"
  "crosses decode_address_page address_page_to_json"
proof -
  have items: "decode_list decode_value (JArray (map id xs)) = Inr xs" if "decode_list decode_value d = Inr xs" for d xs
    using decode_values_written [OF values_read [OF that]] by simp
  show "crosses decode_template_page template_page_to_json"
    using page_crosses [where dec = decode_value and item = id and name = "''templates''", OF _ _ items]
    by (simp add: crosses_def decode_template_page_def template_page_to_json_def)
  show "crosses decode_transaction_page transaction_page_to_json"
    using page_crosses [where dec = decode_value and item = id and name = "''transactions''", OF _ _ items]
    by (simp add: crosses_def decode_transaction_page_def transaction_page_to_json_def)
  show "crosses decode_address_page address_page_to_json"
    using page_crosses [where dec = decode_forwarding_address and item = forwarding_address_to_json and name = "''addresses''",
        OF _ _ decode_addresses_written [OF addresses_read]]
    by (simp add: crosses_def decode_address_page_def address_page_to_json_def)
qed

lemma values_again:
  "decode_list decode_value d = Inr xs \<Longrightarrow> decode_list decode_value (JArray xs) = Inr xs"
  "decode_list decode_value (JArray []) = Inr []"
  by (rule decode_values_written, erule values_read) (simp add: decode_list_def)

lemma crosses_structs:
  "crosses decode_simulated_transfer simulated_transfer_to_json" "crosses decode_transfer transfer_to_json"
  "crosses decode_transfer_status transfer_status_to_json" "crosses decode_template_session template_session_to_json"
  "crosses decode_forwarding_template forwarding_template_to_json"
  "crosses decode_share_kyc_outcome share_kyc_outcome_to_json"
  "crosses decode_forwarding_address forwarding_address_to_json"
proof -
  show "crosses decode_simulated_transfer simulated_transfer_to_json"
    by (auto simp: crosses_def decode_simulated_transfer_def simulated_transfer_to_json_def defaulted_def result_elims
        doc_struct_distinct values_again split: option.splits)
  show "crosses decode_forwarding_address forwarding_address_to_json"
    by (auto simp: crosses_def dest: forwarding_address_read intro: decode_forwarding_address_to_json)
  show "crosses decode_transfer_status transfer_status_to_json"
    by (auto simp: crosses_def decode_transfer_status_def transfer_status_to_json_def required_def result_elims
        doc_struct_distinct decode_value_def)
  show "crosses decode_template_session template_session_to_json"
    by (auto simp: crosses_def decode_template_session_def template_session_to_json_def required_def required_string_def
        result_elims doc_struct_distinct decode_value_def)
  show "crosses decode_forwarding_template forwarding_template_to_json"
    by (auto simp: crosses_def decode_forwarding_template_def forwarding_template_to_json_def required_def required_string_def
        result_elims doc_struct_distinct decode_value_def)
  show "crosses decode_share_kyc_outcome share_kyc_outcome_to_json"
    by (auto simp: crosses_def decode_share_kyc_outcome_def share_kyc_outcome_to_json_def defaulted_def optional_value_def
        result_elims doc_struct_distinct decode_bool_def split: option.splits if_splits)
  show "crosses decode_transfer transfer_to_json"
    by (auto simp: crosses_def decode_transfer_def transfer_to_json_def defaulted_def result_elims required_string_def
        doc_struct_distinct values_again split: option.splits)
qed

section \<open>Properties\<close>

text \<open>C37. Every response crosses the boundary of the bindings unchanged: whatever was read from the body of an
  anchor's answer, written as JSON for the guest, is read as the same response, with the members the client does
  not model.\<close>

theorem responses_cross_boundary:
  "crosses decode_simulated_transfer simulated_transfer_to_json \<and> crosses decode_transfer transfer_to_json
    \<and> crosses decode_transfer_status transfer_status_to_json \<and> crosses decode_template_session template_session_to_json
    \<and> crosses decode_forwarding_template forwarding_template_to_json \<and> crosses decode_template_page template_page_to_json
    \<and> crosses decode_forwarding_address forwarding_address_to_json \<and> crosses decode_address_page address_page_to_json
    \<and> crosses decode_transaction_page transaction_page_to_json \<and> crosses decode_share_kyc_outcome share_kyc_outcome_to_json"
  by (simp add: crosses_structs crosses_pages)

end
