(* ===== verification/HostKyc.thy ===== *)
theory HostKyc
  imports HostTransport Kyc ErrorText ResponseJson
begin

text \<open>
  \<open>keetanetwork-anchor-client-wasi/src/p1/kyc.rs\<close>: the networked KYC exports of the flat boundary, over the table
  of clients. A client is the context it was built from; what it is built of (the node client, the base transport and
  the runtime that the resilient transport is built over, the coders) is the record \<open>host_kit\<close>. A discovery that
  does not return, and a full table, are \<open>None\<close>.
\<close>

section \<open>Clients\<close>

record ('a, 't, 'w, 'u) host_kit =
  hk_env :: "('a, 't, 'w) signing_env"
  hk_urls :: "'u url_ops"
  hk_to_vec :: "json \<Rightarrow> string + bytes"
  hk_text :: json_text
  hk_inflate :: "bytes \<Rightarrow> bytes option"
  hk_node :: "string \<Rightarrow> 'a \<Rightarrow> 'w \<Rightarrow> (string + string option option) \<times> 'w"
  hk_base :: "'w transport"
  hk_runtime :: "'w runtime"

text \<open>The transport of a client: the base transport under the default policy of retries.\<close>

definition hk_transport :: "('a, 't, 'w, 'u) host_kit \<Rightarrow> 'w transport" where
  "hk_transport kit = as_transport (resilient_new (hk_base kit) (hk_runtime kit))"

text \<open>Over the imports of the host this is the host transport.\<close>

lemma hk_transport_host:
  "hk_transport (kit\<lparr>hk_base := bare_host_transport host, hk_runtime := host_runtime host\<rparr>) = as_transport (host_transport host)"
  by (simp add: hk_transport_def host_transport_def)

definition build_client :: "('a, 't, 'w, 'u) host_kit \<Rightarrow> string \<Rightarrow> 'a \<Rightarrow> 'a \<Rightarrow> ('a, 't, 'w, 'u) anchor_context" where
  "build_client kit node_url root signer =
     \<lparr>ctx_source = \<lparr>ms_env = hk_env kit, ms_inflate = hk_inflate kit, ms_text = hk_text kit, ms_state = hk_node kit node_url,
        ms_transport = hk_transport kit\<rparr>,
      ctx_roots = [root],
      ctx_caller = caller_new (hk_env kit) (hk_urls kit) (hk_to_vec kit) (hk_text kit) (hk_transport kit) signer\<rparr>"

text \<open>Running a call of the client behind a handle: the error of the table, or the coded error of the client.\<close>

definition with_session ::
    "(client_error \<Rightarrow> coded_error) \<Rightarrow> int \<Rightarrow> ('s \<Rightarrow> 'w \<Rightarrow> ((client_error + 'x) \<times> 'w) option) \<Rightarrow> 's registry \<Rightarrow> 'w
     \<Rightarrow> ((coded_error + 'x) \<times> 'w) option" where
  "with_session coding h body sessions w =
     (case with_handle h (\<lambda>s. body s w) sessions of
        Inl e \<Rightarrow> Some (Inl e, w)
      | Inr r \<Rightarrow> map_option (apfst (map_err coding)) r)"

text \<open>A call that always returns.\<close>

definition returning :: "('s \<Rightarrow> 'w \<Rightarrow> 'r \<times> 'w) \<Rightarrow> 's \<Rightarrow> 'w \<Rightarrow> ('r \<times> 'w) option" where
  "returning f s w = Some (f s w)"

definition kyc_client_coded :: "client_error \<Rightarrow> coded_error" where
  "kyc_client_coded e = coded_error_new (client_error_code e) (client_message e)"

section \<open>The JSON of the boundary\<close>

definition kyc_operations_to_json :: "kyc_operations \<Rightarrow> json" where
  "kyc_operations_to_json ops = JObject
     (member_some ''createVerification'' (map_option JString (create_verification ops))
      @ member_some ''getCertificates'' (map_option JString (get_certificates ops))
      @ member_some ''getVerificationStatus'' (map_option JString (get_verification_status ops))
      @ member_some ''checkLocality'' (map_option JString (check_locality ops))
      @ member_some ''getEstimate'' (map_option JString (get_estimate ops)))"

definition kyc_provider_to_json :: "kyc_provider_info \<Rightarrow> json" where
  "kyc_provider_to_json p = JObject
     ([(''id'', JString (info_id p)), (''ca'', JString (info_ca p)), (''operations'', kyc_operations_to_json (info_operations p))]
      @ member_some ''countryCodes'' (map_option json_strings (info_country_codes p)))"

definition decode_operations_dto :: "kyc_operations decoder" where
  "decode_operations_dto doc =
     bindR (doc_struct [''createVerification'', ''getCertificates'', ''getVerificationStatus'', ''checkLocality'',
        ''getEstimate''] doc) (\<lambda>members.
     bindR (optional_value decode_string (members ''createVerification'')) (\<lambda>create.
     bindR (optional_value decode_string (members ''getCertificates'')) (\<lambda>certs.
     bindR (optional_value decode_string (members ''getVerificationStatus'')) (\<lambda>status.
     bindR (optional_value decode_string (members ''checkLocality'')) (\<lambda>locality.
     bindR (optional_value decode_string (members ''getEstimate'')) (\<lambda>estimate.
     Inr \<lparr>create_verification = create, get_certificates = certs, get_verification_status = status,
          check_locality = locality, get_estimate = estimate\<rparr>))))))"

record kyc_provider_dto =
  kpd_id :: string
  kpd_ca :: string
  kpd_operations :: kyc_operations
  kpd_country_codes :: "string list option"

definition decode_kyc_provider_dto :: "kyc_provider_dto decoder" where
  "decode_kyc_provider_dto doc =
     bindR (doc_struct [''id'', ''ca'', ''operations'', ''countryCodes''] doc) (\<lambda>members.
     bindR (required members ''id'' decode_string) (\<lambda>ident.
     bindR (required members ''ca'' decode_string) (\<lambda>ca.
     bindR (required members ''operations'' decode_operations_dto) (\<lambda>operations.
     bindR (optional_value decode_strings (members ''countryCodes'')) (\<lambda>codes.
     Inr \<lparr>kpd_id = ident, kpd_ca = ca, kpd_operations = operations, kpd_country_codes = codes\<rparr>)))))"

definition invalid_country :: coded_error where
  "invalid_country = coded_error_new ''INVALID_COUNTRY'' ''invalid country code''"

definition canonical :: "(string \<Rightarrow> string) \<Rightarrow> string list \<Rightarrow> coded_error + country_code list" where
  "canonical upper vs = mapM_result (\<lambda>v. map_err (\<lambda>_. invalid_country) (country_code_of upper v)) vs"

definition provider_from_dto :: "(string \<Rightarrow> string) \<Rightarrow> kyc_provider_dto \<Rightarrow> coded_error + kyc_provider_info" where
  "provider_from_dto upper d =
     bindR (transpose_map (canonical upper) (kpd_country_codes d)) (\<lambda>codes.
     Inr \<lparr>info_id = kpd_id d, info_operations = kpd_operations d, info_country_codes = codes, info_ca = kpd_ca d\<rparr>)"

definition expected_cost_to_json :: "expected_cost \<Rightarrow> json" where
  "expected_cost_to_json c =
     JObject [(''min'', JString (cost_min c)), (''max'', JString (cost_max c)), (''token'', JString (cost_token c))]"

definition verification_to_json :: "verification \<Rightarrow> json" where
  "verification_to_json v = JObject
     [(''id'', JString (ver_id v)), (''webUrl'', JString (ver_web_url v)),
      (''expectedCost'', expected_cost_to_json (ver_expected_cost v))]"

definition status_to_json :: "verification_status \<Rightarrow> json" where
  "status_to_json s = JObject ((''status'', JString (vs_status s))
     # member_some ''requiresManualVerification'' (map_option JBool (vs_requires_manual s)))"

definition certificate_to_json :: "certificate \<Rightarrow> json" where
  "certificate_to_json c = JObject
     [(''certificate'', JString (cert_certificate c)), (''intermediates'', json_strings (cert_intermediates c))]"

definition certificates_to_json :: "certificates \<Rightarrow> json" where
  "certificates_to_json c = JObject [(''results'', JArray (map certificate_to_json (certs_results c)))]"

text \<open>The three outcomes: an enum tagged with its variant, whose value has a name of its own.\<close>

fun outcome_to_json :: "string \<Rightarrow> ('r \<Rightarrow> json) \<Rightarrow> 'r anchor_outcome \<Rightarrow> json" where
  "outcome_to_json name enc (Ready v) = JObject [(''type'', JString ''ready''), (name, enc v)]"
| "outcome_to_json name enc (Retry after_ms) =
     JObject [(''type'', JString ''retry''), (''afterMs'', JNumber (PosInt (ucast after_ms)))]"

definition verification_outcome_to_json :: "verification anchor_outcome \<Rightarrow> json" where
  "verification_outcome_to_json = outcome_to_json ''verification'' verification_to_json"

definition status_outcome_to_json :: "verification_status anchor_outcome \<Rightarrow> json" where
  "status_outcome_to_json = outcome_to_json ''status'' status_to_json"

definition certificates_outcome_to_json :: "certificates anchor_outcome \<Rightarrow> json" where
  "certificates_outcome_to_json = outcome_to_json ''certificates'' certificates_to_json"

section \<open>Arguments\<close>

definition parse_countries ::
    "('a, 'c, 'w) abi \<Rightarrow> (string \<Rightarrow> string) \<Rightarrow> string \<Rightarrow> coded_error + country_code list" where
  "parse_countries abi upper j =
     bindR (map_err invalid_input (from_slice (abi_from_text abi) decode_strings j)) (canonical upper)"

definition parse_kyc_provider ::
    "('a, 'c, 'w) abi \<Rightarrow> (string \<Rightarrow> string) \<Rightarrow> string \<Rightarrow> coded_error + kyc_provider_info" where
  "parse_kyc_provider abi upper j =
     bindR (map_err invalid_input (from_slice (abi_from_text abi) decode_kyc_provider_dto j)) (provider_from_dto upper)"

section \<open>Operation bodies\<close>

type_synonym ('a, 't, 'w, 'u) kyc_sessions = "('a, 't, 'w, 'u) anchor_context registry"

text \<open>A parsed argument or its error, and the JSON of a result.\<close>

definition given :: "coded_error + 'x \<Rightarrow> ('x \<Rightarrow> 'w \<Rightarrow> ((coded_error + 'y) \<times> 'w) option) \<Rightarrow> 'w \<Rightarrow> ((coded_error + 'y) \<times> 'w) option" where
  "given arg f w = (case arg of Inl e \<Rightarrow> Some (Inl e, w) | Inr x \<Rightarrow> f x w)"

definition encoded ::
    "('a, 'c, 'w) abi \<Rightarrow> ('x \<Rightarrow> json) \<Rightarrow> ((coded_error + 'x) \<times> 'w) option \<Rightarrow> ((coded_error + bytes) \<times> 'w) option" where
  "encoded abi enc m = map_option (apfst (\<lambda>r. bindR r (\<lambda>x. encode_json abi (enc x)))) m"

definition host_kyc_providers ::
    "('a, 'c, 'w) abi \<Rightarrow> (string \<Rightarrow> string) \<Rightarrow> int \<Rightarrow> string \<Rightarrow> ('a, 't, 'w, 'u) kyc_sessions \<Rightarrow> 'w
     \<Rightarrow> ((coded_error + bytes) \<times> 'w) option" where
  "host_kyc_providers abi upper h countries_json sessions w =
     given (parse_countries abi upper countries_json) (\<lambda>countries w.
       encoded abi (\<lambda>ps. JArray (map kyc_provider_to_json ps))
         (with_session kyc_client_coded h (\<lambda>ctx. kyc_providers upper ctx countries) sessions w)) w"

definition host_create_verification ::
    "('a, 'c, 'w) abi \<Rightarrow> (string \<Rightarrow> string) \<Rightarrow> int \<Rightarrow> string \<Rightarrow> string \<Rightarrow> string \<Rightarrow> ('a, 't, 'w, 'u) kyc_sessions \<Rightarrow> 'w
     \<Rightarrow> ((coded_error + bytes) \<times> 'w) option" where
  "host_create_verification abi upper h provider_json countries_json redirect sessions w =
     given (parse_kyc_provider abi upper provider_json) (\<lambda>p.
     given (parse_countries abi upper countries_json) (\<lambda>countries w.
       encoded abi verification_outcome_to_json
         (with_session kyc_client_coded h
           (returning (\<lambda>ctx. kyc_create_verification ctx p countries (if redirect = [] then None else Some redirect)))
           sessions w))) w"

definition host_get_certificates ::
    "('a, 'c, 'w) abi \<Rightarrow> (string \<Rightarrow> string) \<Rightarrow> int \<Rightarrow> string \<Rightarrow> string \<Rightarrow> ('a, 't, 'w, 'u) kyc_sessions \<Rightarrow> 'w
     \<Rightarrow> ((coded_error + bytes) \<times> 'w) option" where
  "host_get_certificates abi upper h provider_json ident sessions w =
     given (parse_kyc_provider abi upper provider_json) (\<lambda>p w.
       encoded abi certificates_outcome_to_json
         (with_session kyc_client_coded h (returning (\<lambda>ctx. kyc_get_certificates ctx p ident)) sessions w)) w"

definition host_get_verification_status ::
    "('a, 'c, 'w) abi \<Rightarrow> (string \<Rightarrow> string) \<Rightarrow> int \<Rightarrow> string \<Rightarrow> string \<Rightarrow> ('a, 't, 'w, 'u) kyc_sessions \<Rightarrow> 'w
     \<Rightarrow> ((coded_error + bytes) \<times> 'w) option" where
  "host_get_verification_status abi upper h provider_json ident sessions w =
     given (parse_kyc_provider abi upper provider_json) (\<lambda>p w.
       encoded abi status_outcome_to_json
         (with_session kyc_client_coded h (returning (\<lambda>ctx. kyc_get_verification_status ctx p ident)) sessions w)) w"

section \<open>Exports\<close>

definition kyc_sessions_new :: "('a, 't, 'w, 'u) kyc_sessions" where
  "kyc_sessions_new = registry_new ''kyc-client''"

definition insert_client :: "'s \<Rightarrow> 's registry \<Rightarrow> 'w \<Rightarrow> (int \<times> 's registry \<times> 'w) option" where
  "insert_client s sessions w = store_in sessions s w"

definition keeta_kyc_with_account ::
    "('a, 'c, 'w) abi \<Rightarrow> ('a, 't, 'w, 'u) host_kit \<Rightarrow> int \<Rightarrow> int \<Rightarrow> int \<Rightarrow> int \<Rightarrow> int \<Rightarrow> ('a, 't, 'w, 'u) kyc_sessions \<Rightarrow> 'w
     \<Rightarrow> (int \<times> ('a, 't, 'w, 'u) kyc_sessions \<times> 'w) option" where
  "keeta_kyc_with_account abi kit node_url_ptr node_url_len root_ptr root_len account_handle sessions w =
     or_return 0 sessions (with_account_args abi node_url_ptr node_url_len root_ptr root_len account_handle w)
       (\<lambda>(node_url, root, signer) w. insert_client (build_client kit node_url root signer) sessions w)"

text \<open>Two strings are read, both of them whatever the first gives; a body runs on them.\<close>

definition read_two :: "('a, 'c, 'w) abi \<Rightarrow> int \<Rightarrow> int \<Rightarrow> int \<Rightarrow> int \<Rightarrow> 'w \<Rightarrow> (string \<times> string) option \<times> 'w" where
  "read_two abi p1 l1 p2 l2 w =
     (case abi_string_in abi p1 l1 w of (a, w) \<Rightarrow>
     (case abi_string_in abi p2 l2 w of (b, w) \<Rightarrow>
       (Option.bind a (\<lambda>a. Option.bind b (\<lambda>b. Some (a, b))), w)))"

definition finish :: "('a, 'c, 'w) abi \<Rightarrow> ((coded_error + bytes) \<times> 'w) option \<Rightarrow> (int \<times> 'w) option" where
  "finish abi m = map_option (\<lambda>(r, w). abi_bytes_result abi r w) m"

definition keeta_kyc_providers ::
    "('a, 'c, 'w) abi \<Rightarrow> (string \<Rightarrow> string) \<Rightarrow> int \<Rightarrow> int \<Rightarrow> int \<Rightarrow> ('a, 't, 'w, 'u) kyc_sessions \<Rightarrow> 'w \<Rightarrow> (int \<times> 'w) option" where
  "keeta_kyc_providers abi upper h countries_ptr countries_len sessions w =
     (case abi_string_in abi countries_ptr countries_len w of
        (None, w) \<Rightarrow> Some (0, w)
      | (Some countries, w) \<Rightarrow> finish abi (host_kyc_providers abi upper h countries sessions w))"

definition keeta_kyc_create_verification ::
    "('a, 'c, 'w) abi \<Rightarrow> (string \<Rightarrow> string) \<Rightarrow> int \<Rightarrow> int \<Rightarrow> int \<Rightarrow> int \<Rightarrow> int \<Rightarrow> int \<Rightarrow> int \<Rightarrow> ('a, 't, 'w, 'u) kyc_sessions \<Rightarrow> 'w
     \<Rightarrow> (int \<times> 'w) option" where
  "keeta_kyc_create_verification abi upper h provider_ptr provider_len countries_ptr countries_len redirect_ptr redirect_len
       sessions w =
     (case read_two abi provider_ptr provider_len countries_ptr countries_len w of (pc, w) \<Rightarrow>
     (case abi_string_in abi redirect_ptr redirect_len w of (r, w) \<Rightarrow>
     (case (pc, r) of
        (Some (provider, countries), Some redirect) \<Rightarrow>
          finish abi (host_create_verification abi upper h provider countries redirect sessions w)
      | _ \<Rightarrow> Some (0, w))))"

definition keeta_kyc_get_certificates ::
    "('a, 'c, 'w) abi \<Rightarrow> (string \<Rightarrow> string) \<Rightarrow> int \<Rightarrow> int \<Rightarrow> int \<Rightarrow> int \<Rightarrow> int \<Rightarrow> ('a, 't, 'w, 'u) kyc_sessions \<Rightarrow> 'w
     \<Rightarrow> (int \<times> 'w) option" where
  "keeta_kyc_get_certificates abi upper h provider_ptr provider_len id_ptr id_len sessions w =
     (case read_two abi provider_ptr provider_len id_ptr id_len w of
        (Some (provider, ident), w) \<Rightarrow> finish abi (host_get_certificates abi upper h provider ident sessions w)
      | (None, w) \<Rightarrow> Some (0, w))"

definition keeta_kyc_get_verification_status ::
    "('a, 'c, 'w) abi \<Rightarrow> (string \<Rightarrow> string) \<Rightarrow> int \<Rightarrow> int \<Rightarrow> int \<Rightarrow> int \<Rightarrow> int \<Rightarrow> ('a, 't, 'w, 'u) kyc_sessions \<Rightarrow> 'w
     \<Rightarrow> (int \<times> 'w) option" where
  "keeta_kyc_get_verification_status abi upper h provider_ptr provider_len id_ptr id_len sessions w =
     (case read_two abi provider_ptr provider_len id_ptr id_len w of
        (Some (provider, ident), w) \<Rightarrow> finish abi (host_get_verification_status abi upper h provider ident sessions w)
      | (None, w) \<Rightarrow> Some (0, w))"

definition keeta_kyc_free :: "int \<Rightarrow> ('a, 't, 'w, 'u) kyc_sessions \<Rightarrow> ('a, 't, 'w, 'u) kyc_sessions" where
  "keeta_kyc_free h sessions = remove h sessions"

section \<open>Facts\<close>

text \<open>An ISO code: upper-case letters and digits.\<close>

definition iso_code :: "string \<Rightarrow> bool" where
  "iso_code c \<longleftrightarrow> c \<noteq> [] \<and> list_all (\<lambda>x. is_ascii_upper x \<or> is_ascii_digit x) c"

lemma iso_char: "is_ascii_upper x \<or> is_ascii_digit x \<Longrightarrow> is_ascii x \<and> \<not> whitespace_char [x] \<and> ascii_upper x = x"
  by (auto simp: is_ascii_upper_def is_ascii_digit_def is_ascii_def whitespace_char_def is_whitespace_def scalar_value_def
      ascii_upper_def is_ascii_lower_def Let_def)

lemma iso_code_canonical:
  assumes "iso_code c"
  shows "country_code_of upper c = Inr c"
proof -
  have ascii: "list_all is_ascii c" and same: "map ascii_upper c = c"
    using assms iso_char by (auto simp: iso_code_def list_all_iff intro!: map_idI)
  have "trim_chars (map (\<lambda>x. [x]) c) = map (\<lambda>x. [x]) c"
    using assms iso_char by (intro trim_chars_id) (auto simp: iso_code_def hd_map last_map list_all_iff)
  then have "trim c = c" using ascii by (simp add: trim_def utf8_chars_ascii concat_map_singleton)
  with assms ascii same show ?thesis by (simp add: country_code_of_def to_uppercase_ascii iso_code_def)
qed

lemma canonical_iso: "list_all iso_code cs \<Longrightarrow> canonical upper cs = Inr cs"
  by (induction cs) (simp_all add: canonical_def iso_code_canonical)

text \<open>A provider a guest was told of is the provider it hands back.\<close>

lemma decode_operations_written: "decode_operations_dto (kyc_operations_to_json ops) = Inr ops"
proof -
  let ?fs = "[(''createVerification'', map_option JString (create_verification ops)),
    (''getCertificates'', map_option JString (get_certificates ops)),
    (''getVerificationStatus'', map_option JString (get_verification_status ops)),
    (''checkLocality'', map_option JString (check_locality ops)), (''getEstimate'', map_option JString (get_estimate ops))]"
  have "kyc_operations_to_json ops = JObject (members_of ?fs)" by (simp add: kyc_operations_to_json_def members_of_def)
  moreover have "map_of (members_of ?fs) n = v" if "(n, v) \<in> set ?fs" for n v by (rule map_of_members_of) (use that in auto)
  moreover have "distinct (map fst (members_of ?fs))" by (rule distinct_members_of) simp
  ultimately show ?thesis
    by (cases ops) (simp add: decode_operations_dto_def doc_struct_distinct del: One_nat_def)
qed

lemma json_strings_array: "json_strings = string_array"
  by (rule ext) (simp add: json_strings_def string_array_def)

lemma parse_kyc_provider_written:
  assumes "case info_country_codes p of None \<Rightarrow> True | Some cs \<Rightarrow> list_all iso_code cs"
    and "abi_from_text abi j = Inr (kyc_provider_to_json p)"
  shows "parse_kyc_provider abi upper j = Inr p"
proof -
  have "decode_kyc_provider_dto (kyc_provider_to_json p) =
      Inr \<lparr>kpd_id = info_id p, kpd_ca = info_ca p, kpd_operations = info_operations p, kpd_country_codes = info_country_codes p\<rparr>"
    by (cases "info_country_codes p")
      (simp_all add: decode_kyc_provider_dto_def kyc_provider_to_json_def doc_struct_distinct member_some_def required_def
        decode_operations_written json_strings_array optional_value_def)
  with assms show ?thesis
    by (cases p) (auto simp: parse_kyc_provider_def from_slice_def provider_from_dto_def transpose_map_def canonical_iso
        split: option.splits)
qed

end
