(* ===== verification/Component.thy ===== *)
theory Component
  imports HostKyc CertificateBinding
begin

text \<open>
  The component of the WASI preview 2 build: \<open>keetanetwork-anchor-client-wasi/src/p2/mod.rs\<close>, \<open>account.rs\<close> and
  \<open>certificate.rs\<close>. Here the component runtime keeps the resources: an operation takes the objects behind its
  borrowed handles, and answers with a value or with the error type of the boundary. The operations on accounts and
  on base certificates are those of the shared bindings crate: the record \<open>crypto_ops\<close>.
\<close>

section \<open>Third-party operations\<close>

datatype keypair_type =
    KpEd25519 | KpEcdsaSecp256k1 | KpEcdsaSecp256r1 | KpNetwork | KpToken | KpStorage | KpMultisig

record ('k, 'c, 'w) crypto_ops =
  co_default_algorithm :: string
  co_from_seed :: "string \<Rightarrow> u32 \<Rightarrow> string \<Rightarrow> coded_error + 'k"
  co_from_private_key :: "string \<Rightarrow> string \<Rightarrow> coded_error + 'k"
  co_from_passphrase :: "string list \<Rightarrow> u32 \<Rightarrow> string \<Rightarrow> coded_error + 'k"
  co_from_public_key :: "string \<Rightarrow> string \<Rightarrow> coded_error + 'k"
  co_from_public_key_string :: "string \<Rightarrow> coded_error + 'k"
  co_from_public_key_and_type :: "string \<Rightarrow> coded_error + 'k"
  co_generate_seed :: "'w \<Rightarrow> (coded_error + string) \<times> 'w"
  co_generate_passphrase :: "'w \<Rightarrow> (coded_error + string list) \<times> 'w"
  co_public_key_string :: "'k \<Rightarrow> string"
  co_public_key :: "'k \<Rightarrow> string"
  co_public_key_and_type :: "'k \<Rightarrow> string"
  co_keypair_type :: "'k \<Rightarrow> keypair_type"
  co_sign :: "'k \<Rightarrow> bytes \<Rightarrow> 'w \<Rightarrow> (coded_error + bytes) \<times> 'w"
  co_verify :: "'k \<Rightarrow> bytes \<Rightarrow> bytes \<Rightarrow> bool"
  co_encrypt :: "'k \<Rightarrow> bytes \<Rightarrow> 'w \<Rightarrow> (coded_error + bytes) \<times> 'w"
  co_decrypt :: "'k \<Rightarrow> bytes \<Rightarrow> coded_error + bytes"
  co_certificate_from_pem :: "string \<Rightarrow> coded_error + 'c"
  co_certificate_pem :: "'c \<Rightarrow> coded_error + string"
  co_certificate_valid_at :: "'c \<Rightarrow> int \<Rightarrow> coded_error + bool"
  co_certificate_subject :: "'c \<Rightarrow> string"
  co_certificate_issuer :: "'c \<Rightarrow> string"
  co_certificate_serial :: "'c \<Rightarrow> string"
  co_certificate_not_before :: "'c \<Rightarrow> int"
  co_certificate_not_after :: "'c \<Rightarrow> int"
  co_certificate_subject_public_key :: "'c \<Rightarrow> coded_error + string"

section \<open>The boundary\<close>

record 'k account_resource =
  acr_account :: 'k

record 'c certificate_resource =
  cer_certificate :: 'c

text \<open>An \<open>i64\<close> of seconds as milliseconds, unless that overflows.\<close>

definition i64_checked_mul :: "int \<Rightarrow> int \<Rightarrow> int option" where
  "i64_checked_mul a b = (let p = a * b in if - (2 ^ 63) \<le> p \<and> p < 2 ^ 63 then Some p else None)"

definition seconds_to_millis :: "int \<Rightarrow> coded_error + int" where
  "seconds_to_millis seconds =
     ok_or (coded_error_new ''INVALID_DATE'' ''unix seconds out of range'') (i64_checked_mul seconds 1000)"

definition collect_accounts :: "'k account_resource list \<Rightarrow> 'k list" where
  "collect_accounts borrows = map acr_account borrows"

definition collect_certificates :: "'c certificate_resource list \<Rightarrow> 'c list" where
  "collect_certificates borrows = map cer_certificate borrows"

text \<open>No principals are \<open>None\<close>.\<close>

definition optional_slice :: "'k list \<Rightarrow> 'k list option" where
  "optional_slice ps = (case ps of [] \<Rightarrow> None | _ \<Rightarrow> Some ps)"

definition from_client_error :: "client_error \<Rightarrow> coded_error" where
  "from_client_error e = \<lparr>code = client_error_code e, message = client_message e\<rparr>"

definition from_core_error :: "coded_error \<Rightarrow> coded_error" where
  "from_core_error e = \<lparr>code = code e, message = message e\<rparr>"

lemma from_core_error_id [simp]: "from_core_error e = e"
  by (simp add: from_core_error_def)

text \<open>Running a call of the client, and the question mark on a core result.\<close>

definition run_call :: "((client_error + 'x) \<times> 'w) option \<Rightarrow> ((coded_error + 'x) \<times> 'w) option" where
  "run_call m = map_option (apfst (map_err from_client_error)) m"

definition core_result :: "coded_error + 'x \<Rightarrow> coded_error + 'x" where
  "core_result r = map_err from_core_error r"

lemma core_result_id [simp]: "core_result r = r"
  by (cases r) (simp_all add: core_result_def)

section \<open>Accounts\<close>

datatype key_algorithm = Ed25519 | EcdsaSecp256k1 | EcdsaSecp256r1

datatype identifier_kind = NetworkIdentifier | TokenIdentifier | StorageIdentifier | MultisigIdentifier

datatype wit_account_kind = SigningAccount key_algorithm | IdentifierAccount identifier_kind

fun wit_algorithm_name :: "key_algorithm \<Rightarrow> string" where
  "wit_algorithm_name Ed25519 = ''ed25519''"
| "wit_algorithm_name EcdsaSecp256k1 = ''ecdsa_secp256k1''"
| "wit_algorithm_name EcdsaSecp256r1 = ''ecdsa_secp256r1''"

definition new_account :: "coded_error + 'k \<Rightarrow> coded_error + 'k account_resource" where
  "new_account r = bindR (core_result r) (\<lambda>a. Inr \<lparr>acr_account = a\<rparr>)"

definition component_account_from_seed ::
    "('k, 'c, 'w) crypto_ops \<Rightarrow> string \<Rightarrow> u32 \<Rightarrow> key_algorithm option \<Rightarrow> coded_error + 'k account_resource" where
  "component_account_from_seed ops seed index algorithm =
     (let algorithm = (case algorithm of None \<Rightarrow> co_default_algorithm ops | Some a \<Rightarrow> wit_algorithm_name a) in
      new_account (co_from_seed ops seed index algorithm))"

definition component_account_from_private_key ::
    "('k, 'c, 'w) crypto_ops \<Rightarrow> string \<Rightarrow> key_algorithm \<Rightarrow> coded_error + 'k account_resource" where
  "component_account_from_private_key ops key algorithm =
     new_account (co_from_private_key ops key (wit_algorithm_name algorithm))"

definition component_account_from_passphrase ::
    "('k, 'c, 'w) crypto_ops \<Rightarrow> string list \<Rightarrow> u32 \<Rightarrow> key_algorithm \<Rightarrow> coded_error + 'k account_resource" where
  "component_account_from_passphrase ops words index algorithm =
     new_account (co_from_passphrase ops words index (wit_algorithm_name algorithm))"

definition component_account_from_public_key ::
    "('k, 'c, 'w) crypto_ops \<Rightarrow> string \<Rightarrow> key_algorithm \<Rightarrow> coded_error + 'k account_resource" where
  "component_account_from_public_key ops key algorithm =
     new_account (co_from_public_key ops key (wit_algorithm_name algorithm))"

definition component_account_from_public_key_string ::
    "('k, 'c, 'w) crypto_ops \<Rightarrow> string \<Rightarrow> coded_error + 'k account_resource" where
  "component_account_from_public_key_string ops key = new_account (co_from_public_key_string ops key)"

definition component_account_from_public_key_and_type ::
    "('k, 'c, 'w) crypto_ops \<Rightarrow> string \<Rightarrow> coded_error + 'k account_resource" where
  "component_account_from_public_key_and_type ops key = new_account (co_from_public_key_and_type ops key)"

text \<open>A failure to generate is an empty answer.\<close>

definition component_generate_seed :: "('k, 'c, 'w) crypto_ops \<Rightarrow> 'w \<Rightarrow> string \<times> 'w" where
  "component_generate_seed ops w = apfst (case_sum (\<lambda>_. []) (\<lambda>seed. seed)) (co_generate_seed ops w)"

definition component_generate_passphrase :: "('k, 'c, 'w) crypto_ops \<Rightarrow> 'w \<Rightarrow> string list \<times> 'w" where
  "component_generate_passphrase ops w = apfst (case_sum (\<lambda>_. []) (\<lambda>words. words)) (co_generate_passphrase ops w)"

definition component_account_public_key_string :: "('k, 'c, 'w) crypto_ops \<Rightarrow> 'k account_resource \<Rightarrow> string" where
  "component_account_public_key_string ops a = co_public_key_string ops (acr_account a)"

definition component_account_public_key :: "('k, 'c, 'w) crypto_ops \<Rightarrow> 'k account_resource \<Rightarrow> string" where
  "component_account_public_key ops a = co_public_key ops (acr_account a)"

definition component_account_public_key_and_type :: "('k, 'c, 'w) crypto_ops \<Rightarrow> 'k account_resource \<Rightarrow> string" where
  "component_account_public_key_and_type ops a = co_public_key_and_type ops (acr_account a)"

definition component_account_kind :: "('k, 'c, 'w) crypto_ops \<Rightarrow> 'k account_resource \<Rightarrow> wit_account_kind" where
  "component_account_kind ops a =
     (case co_keypair_type ops (acr_account a) of
        KpEd25519 \<Rightarrow> SigningAccount Ed25519
      | KpEcdsaSecp256k1 \<Rightarrow> SigningAccount EcdsaSecp256k1
      | KpEcdsaSecp256r1 \<Rightarrow> SigningAccount EcdsaSecp256r1
      | KpNetwork \<Rightarrow> IdentifierAccount NetworkIdentifier
      | KpToken \<Rightarrow> IdentifierAccount TokenIdentifier
      | KpStorage \<Rightarrow> IdentifierAccount StorageIdentifier
      | KpMultisig \<Rightarrow> IdentifierAccount MultisigIdentifier)"

definition component_account_sign ::
    "('k, 'c, 'w) crypto_ops \<Rightarrow> 'k account_resource \<Rightarrow> bytes \<Rightarrow> 'w \<Rightarrow> (coded_error + bytes) \<times> 'w" where
  "component_account_sign ops a bs w = apfst core_result (co_sign ops (acr_account a) bs w)"

definition component_account_verify :: "('k, 'c, 'w) crypto_ops \<Rightarrow> 'k account_resource \<Rightarrow> bytes \<Rightarrow> bytes \<Rightarrow> bool" where
  "component_account_verify ops a bs sig = co_verify ops (acr_account a) bs sig"

definition component_account_encrypt ::
    "('k, 'c, 'w) crypto_ops \<Rightarrow> 'k account_resource \<Rightarrow> bytes \<Rightarrow> 'w \<Rightarrow> (coded_error + bytes) \<times> 'w" where
  "component_account_encrypt ops a bs w = apfst core_result (co_encrypt ops (acr_account a) bs w)"

definition component_account_decrypt ::
    "('k, 'c, 'w) crypto_ops \<Rightarrow> 'k account_resource \<Rightarrow> bytes \<Rightarrow> coded_error + bytes" where
  "component_account_decrypt ops a bs = core_result (co_decrypt ops (acr_account a) bs)"

section \<open>Base certificates\<close>

definition component_certificate_parse :: "('k, 'c, 'w) crypto_ops \<Rightarrow> string \<Rightarrow> coded_error + 'c certificate_resource" where
  "component_certificate_parse ops pem =
     bindR (core_result (co_certificate_from_pem ops pem)) (\<lambda>c. Inr \<lparr>cer_certificate = c\<rparr>)"

definition component_certificate_pem :: "('k, 'c, 'w) crypto_ops \<Rightarrow> 'c certificate_resource \<Rightarrow> coded_error + string" where
  "component_certificate_pem ops c = core_result (co_certificate_pem ops (cer_certificate c))"

text \<open>Validity is a plain flag: what cannot be answered is \<open>False\<close>.\<close>

definition valid_at_seconds :: "(int \<Rightarrow> coded_error + bool) \<Rightarrow> int \<Rightarrow> bool" where
  "valid_at_seconds valid_at seconds =
     (case Option.bind (ok (seconds_to_millis seconds)) (\<lambda>millis. ok (valid_at millis)) of None \<Rightarrow> False | Some b \<Rightarrow> b)"

definition component_certificate_valid_at :: "('k, 'c, 'w) crypto_ops \<Rightarrow> 'c certificate_resource \<Rightarrow> int \<Rightarrow> bool" where
  "component_certificate_valid_at ops c unix_seconds =
     valid_at_seconds (co_certificate_valid_at ops (cer_certificate c)) unix_seconds"

definition component_certificate_subject :: "('k, 'c, 'w) crypto_ops \<Rightarrow> 'c certificate_resource \<Rightarrow> string" where
  "component_certificate_subject ops c = co_certificate_subject ops (cer_certificate c)"

definition component_certificate_issuer :: "('k, 'c, 'w) crypto_ops \<Rightarrow> 'c certificate_resource \<Rightarrow> string" where
  "component_certificate_issuer ops c = co_certificate_issuer ops (cer_certificate c)"

definition component_certificate_serial :: "('k, 'c, 'w) crypto_ops \<Rightarrow> 'c certificate_resource \<Rightarrow> string" where
  "component_certificate_serial ops c = co_certificate_serial ops (cer_certificate c)"

definition component_certificate_not_before :: "('k, 'c, 'w) crypto_ops \<Rightarrow> 'c certificate_resource \<Rightarrow> int" where
  "component_certificate_not_before ops c = co_certificate_not_before ops (cer_certificate c)"

definition component_certificate_not_after :: "('k, 'c, 'w) crypto_ops \<Rightarrow> 'c certificate_resource \<Rightarrow> int" where
  "component_certificate_not_after ops c = co_certificate_not_after ops (cer_certificate c)"

definition component_certificate_subject_public_key ::
    "('k, 'c, 'w) crypto_ops \<Rightarrow> 'c certificate_resource \<Rightarrow> coded_error + string" where
  "component_certificate_subject_public_key ops c = core_result (co_certificate_subject_public_key ops (cer_certificate c))"

section \<open>Facts\<close>

text \<open>Every second of an \<open>i64\<close> of milliseconds converts, and no other.\<close>

lemma seconds_to_millis_Inr:
  "seconds_to_millis s = Inr ms \<longleftrightarrow> ms = s * 1000 \<and> - 9223372036854775 \<le> s \<and> s \<le> 9223372036854775"
  by (auto simp: seconds_to_millis_def i64_checked_mul_def Let_def)

lemma valid_at_seconds_iff:
  "valid_at_seconds valid_at s \<longleftrightarrow>
     - 9223372036854775 \<le> s \<and> s \<le> 9223372036854775 \<and> valid_at (s * 1000) = Inr True"
proof (cases "seconds_to_millis s")
  case (Inl e)
  then have "\<not> (- 9223372036854775 \<le> s \<and> s \<le> 9223372036854775)"
    using seconds_to_millis_Inr [of s "s * 1000"] by auto
  with Inl show ?thesis by (auto simp: valid_at_seconds_def)
next
  case (Inr ms)
  then show ?thesis
    using seconds_to_millis_Inr [of s ms] by (cases "valid_at ms") (simp_all add: valid_at_seconds_def)
qed

end
