(* ===== verification/ComponentObjects.thy ===== *)
theory ComponentObjects
  imports Component SharableBinding
begin

text \<open>
  \<open>keetanetwork-anchor-client-wasi/src/p2/encrypted_container.rs\<close>, \<open>kyc_certificate.rs\<close> and \<open>sharable.rs\<close>: the
  containers, KYC leaves and sharable bundles of the component. An operation on a resource behind a \<open>RefCell\<close>
  returns the resource after it. The records \<open>wit_\<close> are those of \<open>wit/world.wit\<close>. A panic of the core crate is
  \<open>None\<close>.
\<close>

section \<open>Containers\<close>

record 'k container_resource =
  cor_container :: "'k container"

definition new_container :: "coded_error + 'k container \<Rightarrow> coded_error + 'k container_resource" where
  "new_container r = bindR (core_result r) (\<lambda>c. Inr \<lparr>cor_container = c\<rparr>)"

text \<open>An operation on the container inside, whose result crosses the boundary.\<close>

definition in_container ::
    "('k container \<Rightarrow> (coded_error + 'r) \<times> 'k container) \<Rightarrow> 'k container_resource
     \<Rightarrow> (coded_error + 'r) \<times> 'k container_resource" where
  "in_container f res = (case f (cor_container res) of (r, c) \<Rightarrow> (core_result r, res\<lparr>cor_container := c\<rparr>))"

definition in_container_drawing ::
    "('k container \<Rightarrow> 'w \<Rightarrow> (coded_error + 'r) \<times> 'k container \<times> 'w) \<Rightarrow> 'k container_resource \<Rightarrow> 'w
     \<Rightarrow> (coded_error + 'r) \<times> 'k container_resource \<times> 'w" where
  "in_container_drawing f res w =
     (case f (cor_container res) w of (r, c, w) \<Rightarrow> (core_result r, res\<lparr>cor_container := c\<rparr>, w))"

definition component_container_from_plaintext ::
    "bytes \<Rightarrow> 'k account_resource list \<Rightarrow> bool option \<Rightarrow> 'k account_resource option \<Rightarrow> 'k container_resource" where
  "component_container_from_plaintext data borrows locked signing =
     (let accounts = collect_accounts borrows; account = map_option acr_account signing in
      \<lparr>cor_container = ec_from_plaintext data (optional_slice accounts) locked account\<rparr>)"

definition component_container_from_encoded ::
    "('k, 'w) container_env \<Rightarrow> bytes \<Rightarrow> 'k account_resource list \<Rightarrow> coded_error + 'k container_resource" where
  "component_container_from_encoded env data borrows =
     (let accounts = collect_accounts borrows in new_container (ec_from_encoded env data (optional_slice accounts)))"

definition component_container_from_encrypted ::
    "('k, 'w) container_env \<Rightarrow> bytes \<Rightarrow> 'k account_resource list \<Rightarrow> coded_error + 'k container_resource" where
  "component_container_from_encrypted env data borrows =
     (let accounts = collect_accounts borrows in new_container (ec_from_encrypted env data accounts))"

definition component_container_get_plaintext ::
    "('k, 'w) container_env \<Rightarrow> 'k container_resource \<Rightarrow> (coded_error + bytes) \<times> 'k container_resource" where
  "component_container_get_plaintext env res = in_container (ec_get_plaintext env) res"

definition component_container_get_encoded ::
    "('k, 'w) container_env \<Rightarrow> 'k container_resource \<Rightarrow> 'w \<Rightarrow> (coded_error + bytes) \<times> 'k container_resource \<times> 'w" where
  "component_container_get_encoded env res w = in_container_drawing (ec_get_encoded env) res w"

definition component_container_is_encrypted :: "'k container_resource \<Rightarrow> bool" where
  "component_container_is_encrypted res = ec_is_encrypted (cor_container res)"

definition component_container_is_signed :: "'k container_resource \<Rightarrow> bool" where
  "component_container_is_signed res = ec_is_signed (cor_container res)"

definition component_container_verify_signature ::
    "('k, 'w) container_env \<Rightarrow> 'k container_resource \<Rightarrow> 'w \<Rightarrow> (coded_error + bool) \<times> 'k container_resource \<times> 'w" where
  "component_container_verify_signature env res w = in_container_drawing (ec_verify_signature env) res w"

definition component_container_signing_account ::
    "('k, 'w) container_env \<Rightarrow> 'k container_resource \<Rightarrow> coded_error + bytes option" where
  "component_container_signing_account env res = core_result (ec_signing_account env (cor_container res))"

definition component_container_principals ::
    "('k, 'w) container_env \<Rightarrow> 'k container_resource \<Rightarrow> coded_error + bytes list" where
  "component_container_principals env res = core_result (ec_principals env (cor_container res))"

definition component_container_grant_access ::
    "('k, 'w) container_env \<Rightarrow> 'k account_resource list \<Rightarrow> 'k container_resource
     \<Rightarrow> (coded_error + unit) \<times> 'k container_resource" where
  "component_container_grant_access env borrows res = in_container (ec_grant_access env (collect_accounts borrows)) res"

definition component_container_revoke_access ::
    "('k, 'w) container_env \<Rightarrow> bytes \<Rightarrow> 'k container_resource \<Rightarrow> (coded_error + unit) \<times> 'k container_resource" where
  "component_container_revoke_access env key res = in_container (ec_revoke_access env key) res"

section \<open>KYC leaves\<close>

record 'c leaf_resource =
  ler_certificate :: "'c kyc_certificate"

record wit_kyc_attribute =
  wka_name :: string
  wka_sensitive :: bool

record wit_issue_attribute =
  wia_name :: string
  wia_sensitive :: bool
  wia_value :: bytes

record wit_attribute_proof =
  wap_value :: string
  wap_salt :: string

record wit_attribute_reference =
  war_attribute :: string
  war_id :: string
  war_url :: string
  war_content_type :: string
  war_digest_algorithm :: string
  war_encryption_algorithm :: string

definition component_leaf_parse ::
    "('c, 'b, 'k, 'd, 'w) cert_binding \<Rightarrow> string \<Rightarrow> coded_error + 'c leaf_resource" where
  "component_leaf_parse env pem = bindR (core_result (cert_from_pem env pem)) (\<lambda>c. Inr \<lparr>ler_certificate = c\<rparr>)"

definition component_leaf_issue ::
    "('c, 'b, 'k, 'd, 'w) cert_binding \<Rightarrow> 'k account_resource \<Rightarrow> 'k account_resource \<Rightarrow> string \<Rightarrow> string \<Rightarrow> u64 \<Rightarrow> int \<Rightarrow> int
     \<Rightarrow> bool \<Rightarrow> wit_issue_attribute list \<Rightarrow> 'w \<Rightarrow> (coded_error + 'c leaf_resource) \<times> 'w" where
  "component_leaf_issue env subject issuer subject_dn issuer_dn serial not_before not_after is_ca attrs w =
     (let issue_attributes = map (\<lambda>a. \<lparr>ia_name = wia_name a, ia_sensitive = wia_sensitive a, ia_value = wia_value a\<rparr>) attrs in
      case cert_issue env (acr_account subject) (acr_account issuer) subject_dn issuer_dn serial not_before not_after is_ca
             issue_attributes w of
        (r, w) \<Rightarrow> (bindR (core_result r) (\<lambda>c. Inr \<lparr>ler_certificate = c\<rparr>), w))"

definition component_leaf_base :: "'c leaf_resource \<Rightarrow> 'c certificate_resource" where
  "component_leaf_base res = \<lparr>cer_certificate = kc_inner (ler_certificate res)\<rparr>"

definition component_leaf_pem :: "('c, 'b, 'k, 'd, 'w) cert_binding \<Rightarrow> 'c leaf_resource \<Rightarrow> coded_error + string" where
  "component_leaf_pem env res = core_result (cert_pem env (ler_certificate res))"

definition component_leaf_valid_at :: "('c, 'b, 'k, 'd, 'w) cert_binding \<Rightarrow> 'c leaf_resource \<Rightarrow> int \<Rightarrow> bool" where
  "component_leaf_valid_at env res unix_seconds = valid_at_seconds (cert_valid_at env (ler_certificate res)) unix_seconds"

definition component_leaf_verify ::
    "('c::linorder, 'b, 'k, 'd, 'w) cert_binding \<Rightarrow> 'c leaf_resource \<Rightarrow> 'c certificate_resource list
     \<Rightarrow> 'c certificate_resource list \<Rightarrow> int \<Rightarrow> coded_error + bool" where
  "component_leaf_verify env res trusted_roots chain unix_seconds =
     (let roots = collect_certificates trusted_roots; bridges = collect_certificates chain in
      bindR (seconds_to_millis unix_seconds) (\<lambda>millis.
        core_result (cert_verify env (ler_certificate res) roots bridges millis)))"

definition component_leaf_attributes ::
    "('c, 'b, 'k, 'd, 'w) cert_binding \<Rightarrow> 'c leaf_resource \<Rightarrow> wit_kyc_attribute list" where
  "component_leaf_attributes env res =
     map (\<lambda>(name, sensitive). \<lparr>wka_name = name, wka_sensitive = sensitive\<rparr>) (cert_attributes env (ler_certificate res))"

definition component_leaf_plain_attribute ::
    "('c, 'b, 'k, 'd, 'w) cert_binding \<Rightarrow> 'c leaf_resource \<Rightarrow> string \<Rightarrow> coded_error + bytes" where
  "component_leaf_plain_attribute env res name = core_result (cert_plain_attribute env (ler_certificate res) name)"

definition component_leaf_decrypt_attribute ::
    "('c, 'b, 'k, 'd, 'w) cert_binding \<Rightarrow> 'c leaf_resource \<Rightarrow> string \<Rightarrow> 'k account_resource \<Rightarrow> (coded_error + bytes) option" where
  "component_leaf_decrypt_attribute env res name subject =
     map_option core_result (cert_decrypt_with_account env (ler_certificate res) name (acr_account subject))"

definition component_leaf_prove ::
    "('c, 'b, 'k, 'd, 'w) cert_binding \<Rightarrow> 'c leaf_resource \<Rightarrow> string \<Rightarrow> 'k account_resource
     \<Rightarrow> (coded_error + wit_attribute_proof) option" where
  "component_leaf_prove env res name subject =
     map_option (\<lambda>r. bindR (core_result r) (\<lambda>p. Inr \<lparr>wap_value = bp_value p, wap_salt = bp_salt p\<rparr>))
       (cert_prove_with_account env (ler_certificate res) name (acr_account subject))"

definition component_leaf_validate_proof ::
    "('c, 'b, 'k, 'd, 'w) cert_binding \<Rightarrow> 'c leaf_resource \<Rightarrow> string \<Rightarrow> 'k account_resource \<Rightarrow> wit_attribute_proof
     \<Rightarrow> coded_error + bool" where
  "component_leaf_validate_proof env res name subject p =
     core_result (cert_validate_with_account env (ler_certificate res) name (acr_account subject)
       \<lparr>bp_value = wap_value p, bp_salt = wap_salt p\<rparr>)"

definition wit_reference_of :: "external_reference_record \<Rightarrow> wit_attribute_reference" where
  "wit_reference_of r =
     \<lparr>war_attribute = er_attribute r, war_id = er_id r, war_url = er_url r, war_content_type = er_content_type r,
      war_digest_algorithm = er_digest_algorithm r, war_encryption_algorithm = er_encryption_algorithm r\<rparr>"

definition component_leaf_external_references ::
    "('c, 'b, 'k, 'd, 'w) cert_binding \<Rightarrow> 'c leaf_resource \<Rightarrow> 'k account_resource \<Rightarrow> string list
     \<Rightarrow> (coded_error + wit_attribute_reference list) option" where
  "component_leaf_external_references env res subject names =
     map_option (\<lambda>r. bindR (core_result r) (\<lambda>records. Inr (map wit_reference_of records)))
       (cert_external_references env (ler_certificate res) (acr_account subject) names)"

section \<open>Sharable bundles\<close>

record ('c, 'k) bundle_resource =
  bur_bundle :: "('c, 'k) sharable"

definition new_bundle :: "coded_error + ('c, 'k) sharable \<Rightarrow> coded_error + ('c, 'k) bundle_resource" where
  "new_bundle r = bindR (core_result r) (\<lambda>b. Inr \<lparr>bur_bundle = b\<rparr>)"

definition in_bundle ::
    "('c, 'k, 'r) bundle_op \<Rightarrow> ('c, 'k) bundle_resource \<Rightarrow> (coded_error + 'r) \<times> ('c, 'k) bundle_resource" where
  "in_bundle f res = (case f (bur_bundle res) of (r, b) \<Rightarrow> (core_result r, res\<lparr>bur_bundle := b\<rparr>))"

definition in_bundle_drawing ::
    "(('c, 'k) sharable \<Rightarrow> 'w \<Rightarrow> (coded_error + 'r) \<times> ('c, 'k) sharable \<times> 'w) \<Rightarrow> ('c, 'k) bundle_resource \<Rightarrow> 'w
     \<Rightarrow> (coded_error + 'r) \<times> ('c, 'k) bundle_resource \<times> 'w" where
  "in_bundle_drawing f res w = (case f (bur_bundle res) w of (r, b, w) \<Rightarrow> (core_result r, res\<lparr>bur_bundle := b\<rparr>, w))"

definition component_bundle_from_certificate ::
    "('c, 'b, 'k, 'd, 'w) sharable_binding \<Rightarrow> 'c leaf_resource \<Rightarrow> 'k account_resource \<Rightarrow> 'c certificate_resource list
     \<Rightarrow> string list \<Rightarrow> 'w \<Rightarrow> ((coded_error + ('c, 'k) bundle_resource) \<times> 'w) option" where
  "component_bundle_from_certificate env cert subject chain names w =
     map_option (apfst new_bundle)
       (sb_from_certificate env (ler_certificate cert) (acr_account subject) (collect_certificates chain) names w)"

definition component_bundle_from_certificate_with_references ::
    "('c, 'b, 'k, 'd, 'w) sharable_binding \<Rightarrow> 'c leaf_resource \<Rightarrow> 'k account_resource \<Rightarrow> 'c certificate_resource list
     \<Rightarrow> string list \<Rightarrow> (string \<times> bytes) list \<Rightarrow> 'w \<Rightarrow> ((coded_error + ('c, 'k) bundle_resource) \<times> 'w) option" where
  "component_bundle_from_certificate_with_references env cert subject chain names blobs w =
     map_option (apfst new_bundle)
       (sb_from_certificate_with_references env (ler_certificate cert) (acr_account subject) (collect_certificates chain) names
          (blobs_from blobs) w)"

definition component_bundle_from_encoded ::
    "('c, 'b, 'k, 'd, 'w) sharable_binding \<Rightarrow> bytes \<Rightarrow> 'k account_resource list \<Rightarrow> coded_error + ('c, 'k) bundle_resource" where
  "component_bundle_from_encoded env data borrows = new_bundle (sb_from_encoded env data (collect_accounts borrows))"

definition component_bundle_from_pem ::
    "('c, 'b, 'k, 'd, 'w) sharable_binding \<Rightarrow> string \<Rightarrow> 'k account_resource list \<Rightarrow> coded_error + ('c, 'k) bundle_resource" where
  "component_bundle_from_pem env pem borrows = new_bundle (sb_from_pem env pem (collect_accounts borrows))"

text \<open>Every other operation is that of the binding on the bundle inside.\<close>

type_synonym ('c, 'k, 'r) resource_op = "('c, 'k) bundle_resource \<Rightarrow> (coded_error + 'r) \<times> ('c, 'k) bundle_resource"

definition component_bundle_grant_access ::
    "('c, 'b, 'k, 'd, 'w) sharable_binding \<Rightarrow> 'k account_resource list \<Rightarrow> ('c, 'k, unit) resource_op" where
  "component_bundle_grant_access env borrows res = in_bundle (sb_grant_access env (collect_accounts borrows)) res"

definition component_bundle_revoke_access :: "('c, 'b, 'k, 'd, 'w) sharable_binding \<Rightarrow> bytes \<Rightarrow> ('c, 'k, unit) resource_op" where
  "component_bundle_revoke_access env key res = in_bundle (sb_revoke_access env key) res"

definition component_bundle_principals ::
    "('c, 'b, 'k, 'd, 'w) sharable_binding \<Rightarrow> ('c, 'k) bundle_resource \<Rightarrow> coded_error + bytes list" where
  "component_bundle_principals env res = core_result (sb_principals env (bur_bundle res))"

definition component_bundle_export ::
    "('c, 'b, 'k, 'd, 'w) sharable_binding \<Rightarrow> ('c, 'k) bundle_resource \<Rightarrow> 'w
     \<Rightarrow> (coded_error + bytes) \<times> ('c, 'k) bundle_resource \<times> 'w" where
  "component_bundle_export env res w = in_bundle_drawing (sb_export env) res w"

definition component_bundle_to_pem ::
    "('c, 'b, 'k, 'd, 'w) sharable_binding \<Rightarrow> ('c, 'k) bundle_resource \<Rightarrow> 'w
     \<Rightarrow> (coded_error + string) \<times> ('c, 'k) bundle_resource \<times> 'w" where
  "component_bundle_to_pem env res w = in_bundle_drawing (sb_to_pem env) res w"

definition component_bundle_certificate :: "('c, 'b, 'k, 'd, 'w) sharable_binding \<Rightarrow> ('c, 'k, 'c leaf_resource) resource_op" where
  "component_bundle_certificate env res =
     apfst (\<lambda>r. bindR r (\<lambda>c. Inr \<lparr>ler_certificate = c\<rparr>)) (in_bundle (sb_certificate env) res)"

definition component_bundle_intermediates ::
    "('c, 'b, 'k, 'd, 'w) sharable_binding \<Rightarrow> ('c, 'k, 'c certificate_resource list) resource_op" where
  "component_bundle_intermediates env res =
     apfst (\<lambda>r. bindR r (\<lambda>cs. Inr (map (\<lambda>c. \<lparr>cer_certificate = c\<rparr>) cs))) (in_bundle (sb_intermediates env) res)"

definition component_bundle_attribute_names :: "('c, 'b, 'k, 'd, 'w) sharable_binding \<Rightarrow> ('c, 'k, string list) resource_op" where
  "component_bundle_attribute_names env res = in_bundle (sb_attribute_names env) res"

definition component_bundle_attribute_buffer ::
    "('c, 'b, 'k, 'd, 'w) sharable_binding \<Rightarrow> string \<Rightarrow> ('c, 'k, bytes option) resource_op" where
  "component_bundle_attribute_buffer env name res = in_bundle (sb_attribute_buffer env name) res"

definition component_bundle_attribute_value ::
    "('c, 'b, 'k, 'd, 'w) sharable_binding \<Rightarrow> string \<Rightarrow> ('c, 'k, bytes option) resource_op" where
  "component_bundle_attribute_value env name res = in_bundle (sb_attribute_value env name) res"

definition component_bundle_reference_blob ::
    "('c, 'b, 'k, 'd, 'w) sharable_binding \<Rightarrow> string \<Rightarrow> string \<Rightarrow> ('c, 'k, bytes option) resource_op" where
  "component_bundle_reference_blob env name ident res = in_bundle (sb_reference_blob env name ident) res"

end
