(* ===== verification/ComponentKyc.thy ===== *)
theory ComponentKyc
  imports Component
begin

text \<open>
  \<open>keetanetwork-anchor-client-wasi/src/p2/kyc.rs\<close>: the networked KYC client of the component, and the conversions
  between the values of the client and the records of \<open>wit/world.wit\<close>. What a client is built of is the record
  \<open>host_kit\<close> (here over the HTTP of the component runtime).
\<close>

section \<open>Sessions\<close>

record ('a, 't, 'w, 'u) kyc_session =
  ks_inner :: "('a, 't, 'w, 'u) anchor_context"

definition component_context :: "('a, 't, 'w, 'u) host_kit \<Rightarrow> string \<Rightarrow> 'a \<Rightarrow> 'a \<Rightarrow> ('a, 't, 'w, 'u) anchor_context" where
  "component_context kit node_url root account =
     (let resolver = \<lparr>ms_env = hk_env kit, ms_inflate = hk_inflate kit, ms_text = hk_text kit,
            ms_state = hk_node kit node_url, ms_transport = hk_transport kit\<rparr>
      in \<lparr>ctx_source = resolver, ctx_roots = [root],
          ctx_caller = caller_new (hk_env kit) (hk_urls kit) (hk_to_vec kit) (hk_text kit) (hk_transport kit) account\<rparr>)"

definition component_kyc_with_account ::
    "('a, 't, 'w, 'u) host_kit \<Rightarrow> string \<Rightarrow> 'a account_resource \<Rightarrow> 'a account_resource \<Rightarrow> ('a, 't, 'w, 'u) kyc_session" where
  "component_kyc_with_account kit node_url root account =
     \<lparr>ks_inner = component_context kit node_url (acr_account root) (acr_account account)\<rparr>"

section \<open>Conversions\<close>

record wit_kyc_operations =
  wko_create_verification :: "string option"
  wko_get_certificates :: "string option"
  wko_get_verification_status :: "string option"
  wko_check_locality :: "string option"
  wko_get_estimate :: "string option"

record wit_kyc_provider =
  wkp_id :: string
  wkp_ca :: string
  wkp_operations :: wit_kyc_operations
  wkp_country_codes :: "string list option"

record wit_expected_cost =
  wec_min :: string
  wec_max :: string
  wec_token :: string

record wit_verification =
  wv_id :: string
  wv_web_url :: string
  wv_expected_cost :: wit_expected_cost

record wit_verification_status =
  wvs_status :: string
  wvs_requires_manual :: "bool option"

record wit_certificate_group =
  wcg_certificate :: string
  wcg_intermediates :: "string list"

datatype 'v wit_outcome = WitReady 'v | WitRetry u32

definition country_codes :: "(string \<Rightarrow> string) \<Rightarrow> string list \<Rightarrow> coded_error + country_code list" where
  "country_codes upper vs =
     mapM_result (\<lambda>v. map_err (\<lambda>_. coded_error_new ''INVALID_COUNTRY'' ''invalid country code'') (country_code_of upper v)) vs"

definition wit_operations_of :: "kyc_operations \<Rightarrow> wit_kyc_operations" where
  "wit_operations_of ops =
     \<lparr>wko_create_verification = create_verification ops, wko_get_certificates = get_certificates ops,
      wko_get_verification_status = get_verification_status ops, wko_check_locality = check_locality ops,
      wko_get_estimate = get_estimate ops\<rparr>"

definition operations_of_wit :: "wit_kyc_operations \<Rightarrow> kyc_operations" where
  "operations_of_wit ops =
     \<lparr>create_verification = wko_create_verification ops, get_certificates = wko_get_certificates ops,
      get_verification_status = wko_get_verification_status ops, check_locality = wko_check_locality ops,
      get_estimate = wko_get_estimate ops\<rparr>"

definition wit_provider_of :: "kyc_provider_info \<Rightarrow> wit_kyc_provider" where
  "wit_provider_of p =
     \<lparr>wkp_id = info_id p, wkp_ca = info_ca p, wkp_operations = wit_operations_of (info_operations p),
      wkp_country_codes = info_country_codes p\<rparr>"

definition provider_of_wit :: "(string \<Rightarrow> string) \<Rightarrow> wit_kyc_provider \<Rightarrow> coded_error + kyc_provider_info" where
  "provider_of_wit upper p =
     bindR (transpose_map (country_codes upper) (wkp_country_codes p)) (\<lambda>codes.
     Inr \<lparr>info_id = wkp_id p, info_operations = operations_of_wit (wkp_operations p), info_country_codes = codes,
          info_ca = wkp_ca p\<rparr>)"

definition wit_cost_of :: "expected_cost \<Rightarrow> wit_expected_cost" where
  "wit_cost_of c = \<lparr>wec_min = cost_min c, wec_max = cost_max c, wec_token = cost_token c\<rparr>"

fun wit_verification_outcome :: "verification anchor_outcome \<Rightarrow> wit_verification wit_outcome" where
  "wit_verification_outcome (Ready v) =
     WitReady \<lparr>wv_id = ver_id v, wv_web_url = ver_web_url v, wv_expected_cost = wit_cost_of (ver_expected_cost v)\<rparr>"
| "wit_verification_outcome (Retry after_ms) = WitRetry after_ms"

fun wit_status_outcome :: "verification_status anchor_outcome \<Rightarrow> wit_verification_status wit_outcome" where
  "wit_status_outcome (Ready v) = WitReady \<lparr>wvs_status = vs_status v, wvs_requires_manual = vs_requires_manual v\<rparr>"
| "wit_status_outcome (Retry after_ms) = WitRetry after_ms"

fun wit_certificates_outcome :: "certificates anchor_outcome \<Rightarrow> wit_certificate_group list wit_outcome" where
  "wit_certificates_outcome (Ready v) =
     WitReady (map (\<lambda>c. \<lparr>wcg_certificate = cert_certificate c, wcg_intermediates = cert_intermediates c\<rparr>) (certs_results v))"
| "wit_certificates_outcome (Retry after_ms) = WitRetry after_ms"

section \<open>Operations\<close>

text \<open>A result of the client, converted.\<close>

definition converted ::
    "('x \<Rightarrow> 'y) \<Rightarrow> ((coded_error + 'x) \<times> 'w) option \<Rightarrow> ((coded_error + 'y) \<times> 'w) option" where
  "converted f m = map_option (apfst (\<lambda>r. bindR r (\<lambda>x. Inr (f x)))) m"

definition component_kyc_providers ::
    "(string \<Rightarrow> string) \<Rightarrow> string list \<Rightarrow> ('a, 't, 'w, 'u) kyc_session \<Rightarrow> 'w
     \<Rightarrow> ((coded_error + wit_kyc_provider list) \<times> 'w) option" where
  "component_kyc_providers upper countries s w =
     given (country_codes upper countries) (\<lambda>codes w.
       converted (map wit_provider_of) (run_call (kyc_providers upper (ks_inner s) codes w))) w"

definition component_kyc_create_verification ::
    "(string \<Rightarrow> string) \<Rightarrow> wit_kyc_provider \<Rightarrow> string list \<Rightarrow> string option \<Rightarrow> ('a, 't, 'w, 'u) kyc_session \<Rightarrow> 'w
     \<Rightarrow> ((coded_error + wit_verification wit_outcome) \<times> 'w) option" where
  "component_kyc_create_verification upper provider countries redirect s w =
     given (provider_of_wit upper provider) (\<lambda>p.
     given (country_codes upper countries) (\<lambda>codes w.
       converted wit_verification_outcome
         (run_call (Some (kyc_create_verification (ks_inner s) p codes redirect w))))) w"

definition component_kyc_get_certificates ::
    "(string \<Rightarrow> string) \<Rightarrow> wit_kyc_provider \<Rightarrow> string \<Rightarrow> ('a, 't, 'w, 'u) kyc_session \<Rightarrow> 'w
     \<Rightarrow> ((coded_error + wit_certificate_group list wit_outcome) \<times> 'w) option" where
  "component_kyc_get_certificates upper provider ident s w =
     given (provider_of_wit upper provider) (\<lambda>p w.
       converted wit_certificates_outcome (run_call (Some (kyc_get_certificates (ks_inner s) p ident w)))) w"

definition component_kyc_get_verification_status ::
    "(string \<Rightarrow> string) \<Rightarrow> wit_kyc_provider \<Rightarrow> string \<Rightarrow> ('a, 't, 'w, 'u) kyc_session \<Rightarrow> 'w
     \<Rightarrow> ((coded_error + wit_verification_status wit_outcome) \<times> 'w) option" where
  "component_kyc_get_verification_status upper provider ident s w =
     given (provider_of_wit upper provider) (\<lambda>p w.
       converted wit_status_outcome (run_call (Some (kyc_get_verification_status (ks_inner s) p ident w)))) w"

section \<open>Facts\<close>

lemma operations_of_wit_of [simp]: "operations_of_wit (wit_operations_of ops) = ops"
  by (simp add: operations_of_wit_def wit_operations_of_def)

text \<open>A provider the component told of is the provider it takes back.\<close>

lemma country_codes_canonical: "country_codes upper = canonical upper"
  by (rule ext) (simp add: country_codes_def canonical_def invalid_country_def)

lemma provider_of_wit_of:
  assumes "case info_country_codes p of None \<Rightarrow> True | Some cs \<Rightarrow> list_all iso_code cs"
  shows "provider_of_wit upper (wit_provider_of p) = Inr p"
  using assms
  by (cases p) (auto simp: provider_of_wit_def wit_provider_of_def transpose_map_def country_codes_canonical canonical_iso
      split: option.splits)

end
