(* ===== verification/HostAsset.thy ===== *)
theory HostAsset
  imports HostKyc AssetClient
begin

text \<open>
  \<open>keetanetwork-anchor-client-wasi/src/p1/asset_movement.rs\<close>: the networked asset-movement exports of the flat
  boundary, over the table of clients. Every export reads its JSON arguments, runs one operation of the client
  behind its handle and answers with the JSON of the result. The text of a JSON value and of a float are those of
  \<open>serde_json\<close>: the record \<open>host_format\<close>.
\<close>

record host_format =
  show_json :: "json \<Rightarrow> string"
  show_float :: "u64 \<Rightarrow> string"

type_synonym ('a, 't, 'w, 'u) asset_sessions = "('a, 't, 'w, 'u) asset_client registry"

section \<open>Errors and options\<close>

definition asset_client_coded :: "host_format \<Rightarrow> client_error \<Rightarrow> coded_error" where
  "asset_client_coded fmt e =
     (case e of
        CeBlocker b \<Rightarrow> coded_error_new (case transport_code b of None \<Rightarrow> ''SERVICE'' | Some c \<Rightarrow> c) (show_json fmt (blocker_to_json b))
      | _ \<Rightarrow> coded_error_new (client_error_code e) (client_message e))"

definition unreadable :: coded_error where
  "unreadable = coded_error_new ''INVALID_INPUT'' ''unreadable argument buffer''"

text \<open>A positive argument overrides its default.\<close>

definition positive_or :: "u32 \<Rightarrow> int \<Rightarrow> u32" where
  "positive_or default_ms v = (if 0 < v then word_of_int v else default_ms)"

definition host_await_options :: "int \<Rightarrow> int \<Rightarrow> await_options" where
  "host_await_options interval timeout =
     \<lparr>interval_ms = positive_or (interval_ms default_await_options) interval,
      timeout_ms = positive_or (timeout_ms default_await_options) timeout\<rparr>"

section \<open>Sessions\<close>

definition asset_sessions_new :: "('a, 't, 'w, 'u) asset_sessions" where
  "asset_sessions_new = registry_new ''asset-movement-client''"

definition build_asset_client ::
    "('a, 't, 'w, 'u) host_kit \<Rightarrow> asset_env \<Rightarrow> ('u \<Rightarrow> string \<Rightarrow> string + 'u) \<Rightarrow> string \<Rightarrow> 'a \<Rightarrow> 'a \<Rightarrow> ('a, 't, 'w, 'u) asset_client" where
  "build_asset_client kit env join node_url root signer =
     \<lparr>am_context = build_client kit node_url root signer, am_asset_env = env, am_url_join = join\<rparr>"

definition asset_session ::
    "host_format \<Rightarrow> int \<Rightarrow> (('a, 't, 'w, 'u) asset_client \<Rightarrow> 'w \<Rightarrow> ((client_error + 'x) \<times> 'w) option)
     \<Rightarrow> ('a, 't, 'w, 'u) asset_sessions \<Rightarrow> 'w \<Rightarrow> ((coded_error + 'x) \<times> 'w) option" where
  "asset_session fmt h body sessions w = with_session (asset_client_coded fmt) h body sessions w"

definition dispatch2 ::
    "('a, 'c, 'w) abi \<Rightarrow> int \<Rightarrow> int \<Rightarrow> int \<Rightarrow> int
     \<Rightarrow> (asset_provider_info \<Rightarrow> string \<Rightarrow> 'w \<Rightarrow> ((coded_error + bytes) \<times> 'w) option) \<Rightarrow> 'w \<Rightarrow> (int \<times> 'w) option" where
  "dispatch2 abi provider_ptr provider_len arg_ptr arg_len body w =
     finish abi
       (case abi_string_in abi provider_ptr provider_len w of
          (None, w) \<Rightarrow> Some (Inl unreadable, w)
        | (Some provider_json, w) \<Rightarrow>
            (case abi_string_in abi arg_ptr arg_len w of
               (None, w) \<Rightarrow> Some (Inl unreadable, w)
             | (Some argument, w) \<Rightarrow> given (parse_provider (abi_from_text abi) provider_json) (\<lambda>p. body p argument) w))"

text \<open>The shape of most bodies: the request, the operation of the client, the JSON of its result.\<close>

definition operation_body ::
    "('a, 'c, 'w) abi \<Rightarrow> host_format \<Rightarrow> int \<Rightarrow> ('a, 't, 'w, 'u) asset_sessions \<Rightarrow> (string \<Rightarrow> coded_error + 'q)
     \<Rightarrow> (('a, 't, 'w, 'u) asset_client \<Rightarrow> asset_provider_info \<Rightarrow> 'q \<Rightarrow> 'w \<Rightarrow> (client_error + 'r) \<times> 'w) \<Rightarrow> ('r \<Rightarrow> json)
     \<Rightarrow> asset_provider_info \<Rightarrow> string \<Rightarrow> 'w \<Rightarrow> ((coded_error + bytes) \<times> 'w) option" where
  "operation_body abi fmt h sessions parse operate enc p argument w =
     given (parse argument) (\<lambda>request w.
       encoded abi enc (asset_session fmt h (returning (\<lambda>c. operate c p request)) sessions w)) w"

section \<open>Discovery\<close>

definition host_lookup ::
    "('a, 't, 'w, 'u) asset_client \<Rightarrow> provider_filter \<Rightarrow> 'w \<Rightarrow> ((client_error + asset_provider_info list) \<times> 'w) option" where
  "host_lookup c f w =
     map_option (\<lambda>(r, w). (bindR r (\<lambda>found. Inr (filter_providers found f)), w)) (asset_providers c w)"

definition host_providers ::
    "('a, 'c, 'w) abi \<Rightarrow> host_format \<Rightarrow> int \<Rightarrow> provider_filter \<Rightarrow> ('a, 't, 'w, 'u) asset_sessions \<Rightarrow> 'w
     \<Rightarrow> ((coded_error + bytes) \<times> 'w) option" where
  "host_providers abi fmt h f sessions w =
     map_option (apfst (\<lambda>r. bindR r (encode_providers (abi_to_vec abi)))) (asset_session fmt h (\<lambda>c. host_lookup c f) sessions w)"

definition host_providers_for_transfer ::
    "('a, 'c, 'w) abi \<Rightarrow> host_format \<Rightarrow> int \<Rightarrow> string \<Rightarrow> ('a, 't, 'w, 'u) asset_sessions \<Rightarrow> 'w
     \<Rightarrow> ((coded_error + bytes) \<times> 'w) option" where
  "host_providers_for_transfer abi fmt h search_json sessions w =
     given (parse_provider_search (abi_from_text abi) search_json) (\<lambda>s w.
       map_option (apfst (\<lambda>r. bindR r (encode_providers (abi_to_vec abi))))
         (asset_session fmt h (\<lambda>c. providers_for_transfer c s) sessions w)) w"

definition host_provider_one ::
    "('a, 'c, 'w) abi \<Rightarrow> host_format \<Rightarrow> int \<Rightarrow> provider_filter \<Rightarrow> ('a, 't, 'w, 'u) asset_sessions \<Rightarrow> 'w
     \<Rightarrow> ((coded_error + bytes) \<times> 'w) option" where
  "host_provider_one abi fmt h f sessions w =
     map_option (apfst (\<lambda>r. bindR r (\<lambda>found. encode_provider (abi_to_vec abi) (case found of [] \<Rightarrow> None | p # _ \<Rightarrow> Some p))))
       (asset_session fmt h (\<lambda>c. host_lookup c f) sessions w)"

section \<open>Exports\<close>

type_synonym ('a, 't, 'w, 'u) asset_call = "('a, 't, 'w, 'u) asset_sessions \<Rightarrow> 'w \<Rightarrow> (int \<times> 'w) option"

definition keeta_asset_with_account ::
    "('a, 'c, 'w) abi \<Rightarrow> ('a, 't, 'w, 'u) host_kit \<Rightarrow> asset_env \<Rightarrow> ('u \<Rightarrow> string \<Rightarrow> string + 'u)
     \<Rightarrow> int \<Rightarrow> int \<Rightarrow> int \<Rightarrow> int \<Rightarrow> int \<Rightarrow> ('a, 't, 'w, 'u) asset_sessions \<Rightarrow> 'w
     \<Rightarrow> (int \<times> ('a, 't, 'w, 'u) asset_sessions \<times> 'w) option" where
  "keeta_asset_with_account abi kit env join node_url_ptr node_url_len root_ptr root_len account_handle sessions w =
     or_return 0 sessions (with_account_args abi node_url_ptr node_url_len root_ptr root_len account_handle w)
       (\<lambda>(node_url, root, signer) w. insert_client (build_asset_client kit env join node_url root signer) sessions w)"

definition keeta_asset_providers :: "('a, 'c, 'w) abi \<Rightarrow> host_format \<Rightarrow> int \<Rightarrow> ('a, 't, 'w, 'u) asset_call" where
  "keeta_asset_providers abi fmt h sessions w = finish abi (host_providers abi fmt h default_filter sessions w)"

definition keeta_asset_providers_for_transfer ::
    "('a, 'c, 'w) abi \<Rightarrow> host_format \<Rightarrow> int \<Rightarrow> int \<Rightarrow> int \<Rightarrow> ('a, 't, 'w, 'u) asset_call" where
  "keeta_asset_providers_for_transfer abi fmt h search_ptr search_len sessions w =
     (case abi_string_in abi search_ptr search_len w of
        (None, w) \<Rightarrow> Some (0, w)
      | (Some search_json, w) \<Rightarrow> finish abi (host_providers_for_transfer abi fmt h search_json sessions w))"

definition keeta_asset_provider_by_id ::
    "('a, 'c, 'w) abi \<Rightarrow> host_format \<Rightarrow> int \<Rightarrow> int \<Rightarrow> int \<Rightarrow> ('a, 't, 'w, 'u) asset_call" where
  "keeta_asset_provider_by_id abi fmt h id_ptr id_len sessions w =
     (case abi_string_in abi id_ptr id_len w of
        (None, w) \<Rightarrow> Some (0, w)
      | (Some ident, w) \<Rightarrow> finish abi (host_provider_one abi fmt h (by_id ident) sessions w))"

definition keeta_asset_provider_by_account ::
    "('a, 'c, 'w) abi \<Rightarrow> host_format \<Rightarrow> int \<Rightarrow> int \<Rightarrow> int \<Rightarrow> ('a, 't, 'w, 'u) asset_call" where
  "keeta_asset_provider_by_account abi fmt h account_ptr account_len sessions w =
     (case abi_string_in abi account_ptr account_len w of
        (None, w) \<Rightarrow> Some (0, w)
      | (Some account, w) \<Rightarrow> finish abi (host_provider_one abi fmt h (by_account account) sessions w))"

definition keeta_asset_simulate_transfer ::
    "('a, 'c, 'w) abi \<Rightarrow> host_format \<Rightarrow> int \<Rightarrow> int \<Rightarrow> int \<Rightarrow> int \<Rightarrow> int \<Rightarrow> ('a, 't, 'w, 'u) asset_call" where
  "keeta_asset_simulate_transfer abi fmt h pp pl rp rl sessions w =
     dispatch2 abi pp pl rp rl (operation_body abi fmt h sessions (transfer_request_of (abi_from_text abi) (show_float fmt))
       simulate_transfer simulated_transfer_to_json) w"

definition keeta_asset_initiate_transfer ::
    "('a, 'c, 'w) abi \<Rightarrow> host_format \<Rightarrow> int \<Rightarrow> int \<Rightarrow> int \<Rightarrow> int \<Rightarrow> int \<Rightarrow> ('a, 't, 'w, 'u) asset_call" where
  "keeta_asset_initiate_transfer abi fmt h pp pl rp rl sessions w =
     dispatch2 abi pp pl rp rl (operation_body abi fmt h sessions (transfer_request_of (abi_from_text abi) (show_float fmt))
       initiate_transfer transfer_to_json) w"

definition keeta_asset_execute_transfer ::
    "('a, 'c, 'w) abi \<Rightarrow> host_format \<Rightarrow> int \<Rightarrow> int \<Rightarrow> int \<Rightarrow> int \<Rightarrow> int \<Rightarrow> ('a, 't, 'w, 'u) asset_call" where
  "keeta_asset_execute_transfer abi fmt h pp pl rp rl sessions w =
     dispatch2 abi pp pl rp rl (operation_body abi fmt h sessions (execute_request_of (abi_from_text abi))
       execute_transfer transfer_status_to_json) w"

definition keeta_asset_transfer_status ::
    "('a, 'c, 'w) abi \<Rightarrow> host_format \<Rightarrow> int \<Rightarrow> int \<Rightarrow> int \<Rightarrow> int \<Rightarrow> int \<Rightarrow> ('a, 't, 'w, 'u) asset_call" where
  "keeta_asset_transfer_status abi fmt h pp pl ip il sessions w =
     dispatch2 abi pp pl ip il (operation_body abi fmt h sessions Inr fetch_transfer_status transfer_status_to_json) w"

definition keeta_asset_account_status ::
    "('a, 'c, 'w) abi \<Rightarrow> host_format \<Rightarrow> int \<Rightarrow> int \<Rightarrow> int \<Rightarrow> ('a, 't, 'w, 'u) asset_call" where
  "keeta_asset_account_status abi fmt h pp pl sessions w =
     (case abi_string_in abi pp pl w of
        (None, w) \<Rightarrow> Some (0, w)
      | (Some provider_json, w) \<Rightarrow> finish abi
          (given (parse_provider (abi_from_text abi) provider_json) (\<lambda>p w.
             map_option (apfst (\<lambda>r. bindR r (encode_account_status (abi_to_vec abi))))
               (asset_session fmt h (returning (\<lambda>c. fetch_account_status c p)) sessions w)) w))"

definition keeta_asset_initiate_template ::
    "('a, 'c, 'w) abi \<Rightarrow> host_format \<Rightarrow> int \<Rightarrow> int \<Rightarrow> int \<Rightarrow> int \<Rightarrow> int \<Rightarrow> ('a, 't, 'w, 'u) asset_call" where
  "keeta_asset_initiate_template abi fmt h pp pl rp rl sessions w =
     dispatch2 abi pp pl rp rl (operation_body abi fmt h sessions (initiate_template_request_of (abi_from_text abi))
       initiate_template template_session_to_json) w"

definition keeta_asset_create_template ::
    "('a, 'c, 'w) abi \<Rightarrow> host_format \<Rightarrow> int \<Rightarrow> int \<Rightarrow> int \<Rightarrow> int \<Rightarrow> int \<Rightarrow> ('a, 't, 'w, 'u) asset_call" where
  "keeta_asset_create_template abi fmt h pp pl rp rl sessions w =
     dispatch2 abi pp pl rp rl (operation_body abi fmt h sessions (create_template_request_of (abi_from_text abi))
       create_template forwarding_template_to_json) w"

definition keeta_asset_list_templates ::
    "('a, 'c, 'w) abi \<Rightarrow> host_format \<Rightarrow> int \<Rightarrow> int \<Rightarrow> int \<Rightarrow> int \<Rightarrow> int \<Rightarrow> ('a, 't, 'w, 'u) asset_call" where
  "keeta_asset_list_templates abi fmt h pp pl rp rl sessions w =
     dispatch2 abi pp pl rp rl (operation_body abi fmt h sessions (list_templates_request_of (abi_from_text abi))
       list_templates template_page_to_json) w"

definition keeta_asset_create_address ::
    "('a, 'c, 'w) abi \<Rightarrow> host_format \<Rightarrow> int \<Rightarrow> int \<Rightarrow> int \<Rightarrow> int \<Rightarrow> int \<Rightarrow> ('a, 't, 'w, 'u) asset_call" where
  "keeta_asset_create_address abi fmt h pp pl rp rl sessions w =
     dispatch2 abi pp pl rp rl (operation_body abi fmt h sessions (create_address_request_of (abi_from_text abi))
       create_address forwarding_address_to_json) w"

definition keeta_asset_list_addresses ::
    "('a, 'c, 'w) abi \<Rightarrow> host_format \<Rightarrow> int \<Rightarrow> int \<Rightarrow> int \<Rightarrow> int \<Rightarrow> int \<Rightarrow> ('a, 't, 'w, 'u) asset_call" where
  "keeta_asset_list_addresses abi fmt h pp pl rp rl sessions w =
     dispatch2 abi pp pl rp rl (operation_body abi fmt h sessions (list_addresses_request_of (abi_from_text abi))
       list_addresses address_page_to_json) w"

text \<open>Deactivating answers with an empty object.\<close>

definition ack_body ::
    "('a, 'c, 'w) abi \<Rightarrow> host_format \<Rightarrow> int \<Rightarrow> ('a, 't, 'w, 'u) asset_sessions
     \<Rightarrow> (('a, 't, 'w, 'u) asset_client \<Rightarrow> asset_provider_info \<Rightarrow> string \<Rightarrow> 'w \<Rightarrow> (client_error + unit) \<times> 'w)
     \<Rightarrow> asset_provider_info \<Rightarrow> string \<Rightarrow> 'w \<Rightarrow> ((coded_error + bytes) \<times> 'w) option" where
  "ack_body abi fmt h sessions operate p ident w =
     map_option (apfst (\<lambda>r. bindR r (\<lambda>_. encode_ack (abi_to_vec abi))))
       (asset_session fmt h (returning (\<lambda>c. operate c p ident)) sessions w)"

definition keeta_asset_deactivate_template ::
    "('a, 'c, 'w) abi \<Rightarrow> host_format \<Rightarrow> int \<Rightarrow> int \<Rightarrow> int \<Rightarrow> int \<Rightarrow> int \<Rightarrow> ('a, 't, 'w, 'u) asset_call" where
  "keeta_asset_deactivate_template abi fmt h pp pl ip il sessions w =
     dispatch2 abi pp pl ip il (ack_body abi fmt h sessions deactivate_template) w"

definition keeta_asset_deactivate_address ::
    "('a, 'c, 'w) abi \<Rightarrow> host_format \<Rightarrow> int \<Rightarrow> int \<Rightarrow> int \<Rightarrow> int \<Rightarrow> int \<Rightarrow> ('a, 't, 'w, 'u) asset_call" where
  "keeta_asset_deactivate_address abi fmt h pp pl ip il sessions w =
     dispatch2 abi pp pl ip il (ack_body abi fmt h sessions deactivate_address) w"

definition keeta_asset_list_transactions ::
    "('a, 'c, 'w) abi \<Rightarrow> host_format \<Rightarrow> int \<Rightarrow> int \<Rightarrow> int \<Rightarrow> int \<Rightarrow> int \<Rightarrow> ('a, 't, 'w, 'u) asset_call" where
  "keeta_asset_list_transactions abi fmt h pp pl rp rl sessions w =
     dispatch2 abi pp pl rp rl (operation_body abi fmt h sessions (list_transactions_request_of (abi_from_text abi))
       list_transactions transaction_page_to_json) w"

definition keeta_asset_share_kyc ::
    "('a, 'c, 'w) abi \<Rightarrow> host_format \<Rightarrow> int \<Rightarrow> int \<Rightarrow> int \<Rightarrow> int \<Rightarrow> int \<Rightarrow> ('a, 't, 'w, 'u) asset_call" where
  "keeta_asset_share_kyc abi fmt h pp pl rp rl sessions w =
     dispatch2 abi pp pl rp rl (operation_body abi fmt h sessions (share_kyc_request_of (abi_from_text abi))
       share_kyc_attributes share_kyc_outcome_to_json) w"

text \<open>Waiting pauses through the timer of the host, \<open>sleep\<close>.\<close>

definition keeta_asset_share_kyc_and_wait ::
    "('a, 'c, 'w) abi \<Rightarrow> host_format \<Rightarrow> (u64 \<Rightarrow> 'w \<Rightarrow> 'w) \<Rightarrow> int \<Rightarrow> int \<Rightarrow> int \<Rightarrow> int \<Rightarrow> int \<Rightarrow> int \<Rightarrow> int \<Rightarrow> ('a, 't, 'w, 'u) asset_call" where
  "keeta_asset_share_kyc_and_wait abi fmt sleep h pp pl rp rl interval timeout sessions w =
     dispatch2 abi pp pl rp rl (\<lambda>p argument w.
       given (share_kyc_request_of (abi_from_text abi) argument) (\<lambda>request w.
         encoded abi share_kyc_outcome_to_json
           (asset_session fmt h (\<lambda>c. share_kyc_attributes_and_wait c p request (host_await_options interval timeout)
              (\<lambda>millis. sleep (ucast millis))) sessions w)) w) w"

definition keeta_asset_free :: "int \<Rightarrow> ('a, 't, 'w, 'u) asset_sessions \<Rightarrow> ('a, 't, 'w, 'u) asset_sessions" where
  "keeta_asset_free h sessions = remove h sessions"

end
