(* ===== verification/ComponentAsset.thy ===== *)
theory ComponentAsset
  imports ComponentKyc HostAsset
begin

text \<open>
  \<open>keetanetwork-anchor-client-wasi/src/p2/asset_movement.rs\<close>: the networked asset-movement client of the component.
  Every operation reads its JSON arguments, runs the client and answers with a JSON text, as the exports of the flat
  boundary do. At the end: the two boundaries give the same answers, up to the message of an error.
\<close>

section \<open>Sessions\<close>

record ('a, 't, 'w, 'u) component_asset_session =
  cas_inner :: "('a, 't, 'w, 'u) asset_client"

record wit_await_options =
  wao_interval_ms :: u32
  wao_timeout_ms :: u32

definition component_build_client ::
    "('a, 't, 'w, 'u) host_kit \<Rightarrow> asset_env \<Rightarrow> ('u \<Rightarrow> string \<Rightarrow> string + 'u) \<Rightarrow> string \<Rightarrow> 'a \<Rightarrow> 'a \<Rightarrow> ('a, 't, 'w, 'u) asset_client" where
  "component_build_client kit env join node_url root account =
     \<lparr>am_context = component_context kit node_url root account, am_asset_env = env, am_url_join = join\<rparr>"

definition component_asset_with_account ::
    "('a, 't, 'w, 'u) host_kit \<Rightarrow> asset_env \<Rightarrow> ('u \<Rightarrow> string \<Rightarrow> string + 'u) \<Rightarrow> string \<Rightarrow> 'a account_resource \<Rightarrow> 'a account_resource
     \<Rightarrow> ('a, 't, 'w, 'u) component_asset_session" where
  "component_asset_with_account kit env join node_url root account =
     \<lparr>cas_inner = component_build_client kit env join node_url (acr_account root) (acr_account account)\<rparr>"

section \<open>Results\<close>

text \<open>JSON bytes as a text, which must be UTF-8.\<close>

definition boundary_text :: "coded_error + bytes \<Rightarrow> coded_error + string" where
  "boundary_text r =
     bindR (core_result r) (\<lambda>bs.
       if is_utf8 bs then Inr bs else Inl (coded_error_new ''ENCODE'' ''asset-movement response was not valid UTF-8''))"

definition boundary_result ::
    "('x \<Rightarrow> coded_error + bytes) \<Rightarrow> ((client_error + 'x) \<times> 'w) option \<Rightarrow> ((coded_error + string) \<times> 'w) option" where
  "boundary_result enc m = map_option (apfst (\<lambda>r. bindR r (\<lambda>x. boundary_text (enc x)))) (run_call m)"

text \<open>The shape of an operation: the provider, the request, the call, the JSON of its result.\<close>

type_synonym ('a, 't, 'w, 'u) component_call =
  "('a, 't, 'w, 'u) component_asset_session \<Rightarrow> 'w \<Rightarrow> ((coded_error + string) \<times> 'w) option"

definition component_operation ::
    "('a, 't, 'w, 'u) host_kit \<Rightarrow> (string \<Rightarrow> coded_error + 'q)
     \<Rightarrow> (('a, 't, 'w, 'u) asset_client \<Rightarrow> asset_provider_info \<Rightarrow> 'q \<Rightarrow> 'w \<Rightarrow> (client_error + 'r) \<times> 'w)
     \<Rightarrow> ('r \<Rightarrow> coded_error + bytes) \<Rightarrow> string \<Rightarrow> string \<Rightarrow> ('a, 't, 'w, 'u) component_call" where
  "component_operation kit reader operate enc provider request s w =
     given (core_result (parse_provider (hk_text kit) provider)) (\<lambda>p.
     given (core_result (reader request)) (\<lambda>q w.
       boundary_result enc (Some (operate (cas_inner s) p q w)))) w"

definition component_json :: "('a, 't, 'w, 'u) host_kit \<Rightarrow> ('r \<Rightarrow> json) \<Rightarrow> 'r \<Rightarrow> coded_error + bytes" where
  "component_json kit enc v = encode_payload (hk_to_vec kit) (enc v)"

section \<open>Discovery\<close>

definition component_asset_providers :: "('a, 't, 'w, 'u) host_kit \<Rightarrow> ('a, 't, 'w, 'u) component_call" where
  "component_asset_providers kit s w =
     boundary_result (\<lambda>found. encode_providers (hk_to_vec kit) (filter_providers found default_filter))
       (asset_providers (cas_inner s) w)"

definition first_of :: "'x list \<Rightarrow> 'x option" where
  "first_of xs = (case xs of [] \<Rightarrow> None | x # _ \<Rightarrow> Some x)"

definition component_asset_provider_by_id :: "('a, 't, 'w, 'u) host_kit \<Rightarrow> string \<Rightarrow> ('a, 't, 'w, 'u) component_call" where
  "component_asset_provider_by_id kit ident s w =
     boundary_result (\<lambda>found. encode_provider (hk_to_vec kit) (first_of (filter_providers found (by_id ident))))
       (asset_providers (cas_inner s) w)"

definition component_asset_provider_by_account ::
    "('a, 't, 'w, 'u) host_kit \<Rightarrow> 'a account_resource \<Rightarrow> ('a, 't, 'w, 'u) component_call" where
  "component_asset_provider_by_account kit borrow s w =
     (let account = account_to_string (hk_env kit) (acr_account borrow) in
      boundary_result (\<lambda>found. encode_provider (hk_to_vec kit) (first_of (filter_providers found (by_account account))))
        (asset_providers (cas_inner s) w))"

definition component_asset_providers_for_transfer ::
    "('a, 't, 'w, 'u) host_kit \<Rightarrow> string \<Rightarrow> ('a, 't, 'w, 'u) component_call" where
  "component_asset_providers_for_transfer kit search s w =
     given (core_result (parse_provider_search (hk_text kit) search)) (\<lambda>search w.
       boundary_result (encode_providers (hk_to_vec kit)) (providers_for_transfer (cas_inner s) search w)) w"

section \<open>Operations\<close>

definition component_asset_simulate_transfer ::
    "('a, 't, 'w, 'u) host_kit \<Rightarrow> host_format \<Rightarrow> string \<Rightarrow> string \<Rightarrow> ('a, 't, 'w, 'u) component_call" where
  "component_asset_simulate_transfer kit fmt = component_operation kit (transfer_request_of (hk_text kit) (show_float fmt))
     simulate_transfer (component_json kit simulated_transfer_to_json)"

definition component_asset_initiate_transfer ::
    "('a, 't, 'w, 'u) host_kit \<Rightarrow> host_format \<Rightarrow> string \<Rightarrow> string \<Rightarrow> ('a, 't, 'w, 'u) component_call" where
  "component_asset_initiate_transfer kit fmt = component_operation kit (transfer_request_of (hk_text kit) (show_float fmt))
     initiate_transfer (component_json kit transfer_to_json)"

definition component_asset_execute_transfer ::
    "('a, 't, 'w, 'u) host_kit \<Rightarrow> string \<Rightarrow> string \<Rightarrow> ('a, 't, 'w, 'u) component_call" where
  "component_asset_execute_transfer kit = component_operation kit (execute_request_of (hk_text kit))
     execute_transfer (component_json kit transfer_status_to_json)"

definition component_asset_transfer_status ::
    "('a, 't, 'w, 'u) host_kit \<Rightarrow> string \<Rightarrow> string \<Rightarrow> ('a, 't, 'w, 'u) component_call" where
  "component_asset_transfer_status kit = component_operation kit Inr
     fetch_transfer_status (component_json kit transfer_status_to_json)"

definition component_asset_account_status ::
    "('a, 't, 'w, 'u) host_kit \<Rightarrow> string \<Rightarrow> ('a, 't, 'w, 'u) component_call" where
  "component_asset_account_status kit provider s w =
     given (core_result (parse_provider (hk_text kit) provider)) (\<lambda>p w.
       boundary_result (encode_account_status (hk_to_vec kit)) (Some (fetch_account_status (cas_inner s) p w))) w"

definition component_asset_initiate_template ::
    "('a, 't, 'w, 'u) host_kit \<Rightarrow> string \<Rightarrow> string \<Rightarrow> ('a, 't, 'w, 'u) component_call" where
  "component_asset_initiate_template kit = component_operation kit (initiate_template_request_of (hk_text kit))
     initiate_template (component_json kit template_session_to_json)"

definition component_asset_create_template ::
    "('a, 't, 'w, 'u) host_kit \<Rightarrow> string \<Rightarrow> string \<Rightarrow> ('a, 't, 'w, 'u) component_call" where
  "component_asset_create_template kit = component_operation kit (create_template_request_of (hk_text kit))
     create_template (component_json kit forwarding_template_to_json)"

definition component_asset_list_templates ::
    "('a, 't, 'w, 'u) host_kit \<Rightarrow> string \<Rightarrow> string \<Rightarrow> ('a, 't, 'w, 'u) component_call" where
  "component_asset_list_templates kit = component_operation kit (list_templates_request_of (hk_text kit))
     list_templates (component_json kit template_page_to_json)"

definition component_asset_create_address ::
    "('a, 't, 'w, 'u) host_kit \<Rightarrow> string \<Rightarrow> string \<Rightarrow> ('a, 't, 'w, 'u) component_call" where
  "component_asset_create_address kit = component_operation kit (create_address_request_of (hk_text kit))
     create_address (component_json kit forwarding_address_to_json)"

definition component_asset_list_addresses ::
    "('a, 't, 'w, 'u) host_kit \<Rightarrow> string \<Rightarrow> string \<Rightarrow> ('a, 't, 'w, 'u) component_call" where
  "component_asset_list_addresses kit = component_operation kit (list_addresses_request_of (hk_text kit))
     list_addresses (component_json kit address_page_to_json)"

definition component_asset_deactivate_template ::
    "('a, 't, 'w, 'u) host_kit \<Rightarrow> string \<Rightarrow> string \<Rightarrow> ('a, 't, 'w, 'u) component_call" where
  "component_asset_deactivate_template kit =
     component_operation kit Inr deactivate_template (\<lambda>_. encode_ack (hk_to_vec kit))"

definition component_asset_deactivate_address ::
    "('a, 't, 'w, 'u) host_kit \<Rightarrow> string \<Rightarrow> string \<Rightarrow> ('a, 't, 'w, 'u) component_call" where
  "component_asset_deactivate_address kit =
     component_operation kit Inr deactivate_address (\<lambda>_. encode_ack (hk_to_vec kit))"

definition component_asset_list_transactions ::
    "('a, 't, 'w, 'u) host_kit \<Rightarrow> string \<Rightarrow> string \<Rightarrow> ('a, 't, 'w, 'u) component_call" where
  "component_asset_list_transactions kit = component_operation kit (list_transactions_request_of (hk_text kit))
     list_transactions (component_json kit transaction_page_to_json)"

definition component_asset_share_kyc ::
    "('a, 't, 'w, 'u) host_kit \<Rightarrow> string \<Rightarrow> string \<Rightarrow> ('a, 't, 'w, 'u) component_call" where
  "component_asset_share_kyc kit = component_operation kit (share_kyc_request_of (hk_text kit))
     share_kyc_attributes (component_json kit share_kyc_outcome_to_json)"

text \<open>The bounds of a wait are taken as they are given.\<close>

definition await_options_of :: "wit_await_options option \<Rightarrow> await_options" where
  "await_options_of options =
     (case options of
        None \<Rightarrow> default_await_options
      | Some asked \<Rightarrow> \<lparr>interval_ms = wao_interval_ms asked, timeout_ms = wao_timeout_ms asked\<rparr>)"

definition component_asset_share_kyc_and_wait ::
    "('a, 't, 'w, 'u) host_kit \<Rightarrow> (u64 \<Rightarrow> 'w \<Rightarrow> 'w) \<Rightarrow> string \<Rightarrow> string \<Rightarrow> wit_await_options option
     \<Rightarrow> ('a, 't, 'w, 'u) component_call" where
  "component_asset_share_kyc_and_wait kit sleep provider request options s w =
     given (core_result (parse_provider (hk_text kit) provider)) (\<lambda>p.
     given (core_result (share_kyc_request_of (hk_text kit) request)) (\<lambda>q w.
       boundary_result (component_json kit share_kyc_outcome_to_json)
         (share_kyc_attributes_and_wait (cas_inner s) p q (await_options_of options) (\<lambda>millis. sleep (ucast millis)) w))) w"

end
