(* ===== verification/HostAssetProps.thy ===== *)
theory HostAssetProps
  imports HostAsset
begin

text \<open>
  Waiting for a KYC share across the flat boundary: whatever bounds a guest passes and whatever the transport of
  the client answers and retries, the wait ends, and what it sleeps is bounded.
\<close>

section \<open>The bounds a guest can ask for\<close>

lemma unat_positive_or:
  assumes "v < 2 ^ 31"
  shows "unat (positive_or d v) = (if 0 < v then nat v else unat d)"
proof -
  show ?thesis
  proof (cases "0 < v")
    case True
    with assms have "v mod 2 ^ 32 = v" by (intro mod_pos_pos_trivial) simp_all
    then have "uint (word_of_int v :: u32) = v" by (simp only: uint_word_of_int len_num0 len_bit0 len_num1 semiring_norm mult_1_right)
    then have "unat (word_of_int v :: u32) = nat v" by (simp only: nat_uint_eq [symmetric])
    with True show ?thesis by (simp only: positive_or_def if_True)
  qed (simp add: positive_or_def)
qed

text \<open>A positive \<open>i32\<close> is far from the largest \<open>u32\<close>, so no guest can ask for a wait without an end.\<close>

lemma host_timeout:
  assumes "timeout < 2 ^ 31"
  shows "unat (timeout_ms (host_await_options interval timeout)) = (if 0 < timeout then nat timeout else 300000)"
    and "timeout_ms (host_await_options interval timeout) < u32_max"
proof -
  show t: "unat (timeout_ms (host_await_options interval timeout)) = (if 0 < timeout then nat timeout else 300000)"
    using unat_positive_or [OF assms] by (simp add: host_await_options_def default_await_options_def)
  moreover have "nat timeout < 2 ^ 31" using assms by simp
  ultimately have "unat (timeout_ms (host_await_options interval timeout)) < 2 ^ 31" by (simp split: if_splits)
  then show "timeout_ms (host_await_options interval timeout) < u32_max" by (simp add: word_less_nat_alt unat_max_word)
qed

lemma host_interval:
  assumes "interval < 2 ^ 31"
  shows "unat (interval_ms (host_await_options interval timeout)) = (if 0 < interval then nat interval else 2000)"
  using unat_positive_or [OF assms] by (simp add: host_await_options_def default_await_options_def)

section \<open>What a request of a client sleeps\<close>

text \<open>The host of the boundary: a clock that tells the time and a timer that sleeps as long as it is asked to;
  nothing else sleeps, neither an exchange, nor the clock and the identifiers of a signature, nor the memory of
  the guest.\<close>

definition host_times ::
    "('w \<Rightarrow> nat) \<Rightarrow> ('w \<Rightarrow> nat) \<Rightarrow> ('a, 't, 'w, 'u) host_kit \<Rightarrow> ('b, 'c, 'w) abi \<Rightarrow> bool" where
  "host_times time slept kit abi \<longleftrightarrow>
     paced_runtime time slept (hk_runtime kit)
     \<and> (\<forall>url w. within time slept 0 w (snd (t_get (hk_base kit) url w)))
     \<and> (\<forall>url body w. within time slept 0 w (snd (t_post (hk_base kit) url body w)))
     \<and> (\<forall>w. within time slept 0 w (snd (uuid_v4 (hk_env kit) w)))
     \<and> (\<forall>w. within time slept 0 w (snd (utc_now (hk_env kit) w)))
     \<and> (\<forall>p l w. within time slept 0 w (snd (abi_string_in abi p l w)))
     \<and> (\<forall>r w. within time slept 0 w (snd (abi_bytes_result abi r w)))"

text \<open>The clients of a table, as the boundary builds them.\<close>

definition built_client :: "('a, 't, 'w, 'u) host_kit \<Rightarrow> ('a, 't, 'w, 'u) asset_client \<Rightarrow> bool" where
  "built_client kit c \<longleftrightarrow> (\<exists>env join node_url root signer. c = build_asset_client kit env join node_url root signer)"

text \<open>A request is signed and sent once, over the resilient transport.\<close>

lemma caller_within:
  assumes s: "\<And>payload w. within time slept 0 w (snd (caller_sign c payload w))"
    and g: "\<And>url w. within time slept n w (snd (t_get (caller_transport c) url w))"
    and p: "\<And>url body w. within time slept n w (snd (t_post (caller_transport c) url body w))"
  shows "within time slept n w (snd (send c cl w))"
proof -
  have s': "within time slept 0 w w'" if "caller_sign c payload w = (x, w')" for payload w x w' using s that by (metis snd_conv)
  have g': "within time slept n w w'" if "t_get (caller_transport c) url w = (x, w')" for url w x w' using g that by (metis snd_conv)
  have p': "within time slept n w w'" if "t_post (caller_transport c) url body w = (x, w')" for url body w x w'
    using p that by (metis snd_conv)
  have a: "within time slept 0 w w'" if "authenticated_url c mode payload url w = (x, w')" for mode payload url w x w'
    using that by (auto simp: authenticated_url_def dest: s' split: auth.splits prod.splits sum.splits)
  have b: "within time slept 0 w w'" if "request_body c mode shape payload body w = (x, w')" for mode shape payload body w x w'
    using that by (auto simp: request_body_def Let_def dest: s' split: auth.splits prod.splits sum.splits)
  have "within time slept n w (snd (send_get c mode payload url w))" for mode payload url w
    by (auto simp: send_get_def dest!: a g' elim: within_mono within_trans split: prod.splits sum.splits)
  moreover have "within time slept n w (snd (send_post c cl url w))" for url w
    by (auto simp: send_post_def dest!: b p' elim: within_mono within_trans split: prod.splits sum.splits)
  ultimately show ?thesis by (simp add: send_def dispatch_def split: sum.splits http_method.splits)
qed

lemma built_client_within:
  assumes times: "host_times time slept kit abi" and built: "built_client kit c"
  shows "within time slept 30000 w (snd (send (am_caller c) cl w))"
proof -
  obtain signer node_url root env join where c: "c = build_asset_client kit env join node_url root signer"
    using built unfolding built_client_def by blast
  have caller: "am_caller c = caller_new (hk_env kit) (hk_urls kit) (hk_to_vec kit) (hk_text kit) (hk_transport kit) signer"
    by (simp add: c am_caller_def build_asset_client_def build_client_def)
  have u: "within time slept 0 w v" if "uuid_v4 (hk_env kit) w = (x, v)" for w x v
    using times that unfolding host_times_def by (metis snd_conv)
  have n: "within time slept 0 w v" if "utc_now (hk_env kit) w = (x, v)" for w x v
    using times that unfolding host_times_def by (metis snd_conv)
  note t = times [unfolded host_times_def]
  show ?thesis
  proof (rule caller_within)
    show "within time slept 0 w (snd (caller_sign (am_caller c) payload w))" for payload w
      by (auto simp: caller caller_sign_def generate_def caller_new_def dest!: u n elim: within_trans split: prod.splits)
  next
    show "within time slept 30000 w (snd (t_get (caller_transport (am_caller c)) url w))" for url w
      unfolding caller caller_new_def hk_transport_def as_transport_def resilient_get_def
      using t send_resilient_within [of time slept "hk_runtime kit" "t_get (hk_base kit) url" w "hk_base kit"]
      by (simp add: resilient_new_def)
  next
    show "within time slept 30000 w (snd (t_post (caller_transport (am_caller c)) url body w))" for url body w
      unfolding caller caller_new_def hk_transport_def as_transport_def resilient_post_def
      using t send_resilient_within [of time slept "hk_runtime kit" "t_post (hk_base kit) url body" w "hk_base kit"]
      by (simp add: resilient_new_def)
  qed
qed

section \<open>What a wait sleeps\<close>

lemma invoke_world: "snd (invoke c dec cl w) = snd (send c cl w)"
  by (simp add: invoke_def send_def split: sum.splits prod.splits)

lemma share_kyc_within:
  assumes sends: "\<And>cl w. within time slept n w (snd (send (am_caller c) cl w))"
  shows "within time slept n w (snd (share_kyc_attributes c p r w))"
proof -
  have "within time slept n w (snd (invoke (am_caller c) dec cl w))" for dec :: "share_kyc_outcome decoder" and cl
    using sends by (simp add: invoke_world)
  then have "within time slept n w w'" if "invoke (am_caller c) dec cl w = (x, w')"
    for dec :: "share_kyc_outcome decoder" and cl x w' using that by (metis snd_conv)
  then show ?thesis
    by (auto simp: share_kyc_attributes_def post_operation_def asset_post_def Let_def split: sum.splits prod.splits)
qed

text \<open>The polls of a wait are as many as the interval fits into the timeout, and one. Each sends a request, all but
  the last sleep, and what they sleep fits the timeout.\<close>

lemma poll_promise_within:
  assumes finite: "timeout_ms options < u32_max" and interval: "0 < unat (interval_ms options)"
    and timer: "\<And>d w. within time slept (unat d) w (sleep d w)"
    and sends: "\<And>w. within time slept n w (snd (send (am_caller c) (poll_call url) w))"
  shows "\<exists>r w'. poll_promise c url options sleep w = Some (r, w')
    \<and> within time slept (unat (timeout_ms options) + n * (unat (timeout_ms options) div unat (interval_ms options) + 1)) w w'"
proof -
  let ?T = "unat (timeout_ms options)" and ?i = "unat (interval_ms options)"
  let ?I = "\<lambda>(e, v). e \<le> timeout_ms options \<and> (\<exists>k. k * ?i \<le> unat e \<and> within time slept (unat e + n * k) w v)"
  have sends': "within time slept n v u" if "send (am_caller c) (poll_call url) v = (x, u)" for v x u
    using sends [of v] that by simp
  have "\<exists>q. loop (poll_turn c url options sleep) (0, w) = Some q \<and> within time slept (?T + n * (?T div ?i + 1)) w (snd q)"
  proof (rule loop_total [where I = ?I and m = "\<lambda>(e, v). ?T - unat e"])
    have "(0 :: nat) * ?i \<le> unat (0 :: u32) \<and> within time slept (unat (0 :: u32) + n * 0) w w" by simp
    then show "?I (0, w)" unfolding prod.case by (intro conjI exI [of _ 0]) (simp_all add: word_le_nat_alt)
  next
    fix st assume I: "?I st"
    obtain e v where st: "st = (e, v)" by (cases st)
    with I obtain k where k: "k * ?i \<le> unat e" "within time slept (unat e + n * k) w v" and e: "unat e \<le> ?T"
      by (auto simp: word_le_nat_alt)
    show "case poll_turn c url options sleep st of
        Inl r \<Rightarrow> within time slept (?T + n * (?T div ?i + 1)) w (snd r)
      | Inr st' \<Rightarrow> ?I st' \<and> (case st' of (e, v) \<Rightarrow> ?T - unat e) < (case st of (e, v) \<Rightarrow> ?T - unat e)"
    proof (cases "poll_turn c url options sleep st")
      case (Inl r)
      then obtain x where "send (am_caller c) (poll_call url) v = (x, snd r)"
        by (fastforce simp: st poll_turn_def Let_def split: sum.splits prod.splits option.splits if_splits)
      note last = within_trans [OF k(2) sends' [OF this], of "?T + n * (?T div ?i + 1)"]
      have "k \<le> ?T div ?i" using k(1) e interval by (simp add: less_eq_div_iff_mult_less_eq)
      then have "n * k \<le> n * (?T div ?i)" by (rule mult_le_mono2)
      with last e Inl show ?thesis by simp
    next
      case (Inr st')
      obtain e' v' where st': "st' = (e', v')" by (cases st')
      from poll_turn_next [of c url options sleep e v e' v'] Inr obtain x u wait where
        t: "send (am_caller c) (poll_call url) v = (Inr x, u)" "v' = sleep wait u" "1 \<le> wait" "interval_ms options \<le> wait"
          "e' = saturating_add e wait" "e' \<le> timeout_ms options" by (auto simp: st st')
      have e': "unat e' = unat e + unat wait" using saturating_add_exact t(5,6) finite by metis
      have wait: "0 < unat wait" "?i \<le> unat wait" using t(3,4) by (simp_all add: word_le_nat_alt)
      have "within time slept (unat e + n * k + n) w u" by (rule within_trans [OF k(2) sends' [OF t(1)]]) simp
      then have "within time slept (unat e' + n * Suc k) w v'"
        unfolding t(2) by (rule within_trans [OF _ timer]) (simp add: e')
      moreover have "Suc k * ?i \<le> unat e'" using k(1) wait(2) e' by simp
      ultimately have "?I st'" using t(6) st' by blast
      moreover have "unat e' \<le> ?T" using t(6) by (simp add: word_le_nat_alt)
      ultimately show ?thesis using Inr e' wait(1) by (simp add: st st')
    qed
  qed
  then show ?thesis by (auto simp: poll_promise_def)
qed

lemma share_and_wait_within:
  assumes finite: "timeout_ms options < u32_max" and interval: "0 < unat (interval_ms options)"
    and timer: "\<And>d w. within time slept (unat d) w (sleep d w)"
    and sends: "\<And>cl w. within time slept n w (snd (send (am_caller c) cl w))"
  shows "\<exists>r w'. share_kyc_attributes_and_wait c p request options sleep w = Some (r, w')
    \<and> within time slept (unat (timeout_ms options) + n * (unat (timeout_ms options) div unat (interval_ms options) + 2)) w w'"
proof -
  obtain r v where s: "share_kyc_attributes c p request w = (r, v)" by (metis surj_pair)
  have v: "within time slept n w v" using share_kyc_within [of time slept n c, OF sends, of w p request] s by simp
  have "\<exists>x w'. poll_promise c url options sleep v = Some (x, w') \<and> within time slept
      (unat (timeout_ms options) + n * (unat (timeout_ms options) div unat (interval_ms options) + 2)) w w'" for url
    using poll_promise_within [OF finite interval timer sends, of url v] within_trans [OF v] by fastforce
  with s within_mono [OF v] show ?thesis
    by (auto simp: share_kyc_attributes_and_wait_def split: sum.splits option.splits)
qed

lemma finish_within:
  assumes "host_times time slept kit abi" "\<exists>x w'. m = Some (x, w') \<and> within time slept n w w'"
  shows "\<exists>r w'. finish abi m = Some (r, w') \<and> within time slept n w w'"
proof -
  from assms(2) obtain x v where m: "m = Some (x, v)" "within time slept n w v" by blast
  obtain r w' where b: "abi_bytes_result abi x v = (r, w')" by (metis surj_pair)
  with assms(1) have "within time slept 0 v w'" unfolding host_times_def by (metis snd_conv)
  from within_trans [OF m(2) this, of n] b m(1) show ?thesis by (simp add: finish_def)
qed

section \<open>Properties\<close>


section \<open>A concrete boundary\<close>

text \<open>A guest whose memory holds one text, and the anchor that answers every request with \<open>accepted\<close>.\<close>

definition one_text_abi :: "(string, unit, nat) abi" where
  "one_text_abi = \<lparr>abi_account = (\<lambda>_ w. (None, w)), abi_certificate = (\<lambda>_ w. (None, w)),
     abi_store_certificate = (\<lambda>_ w. (0, w)), abi_bytes_in = (\<lambda>_ _ _. []), abi_string_in = (\<lambda>_ _ w. (Some ''text'', w)),
     abi_fail = (\<lambda>_ w. (0, w)), abi_bytes_result = (\<lambda>_ w. (1, w)), abi_account_from_str = (\<lambda>_. Inl ''malformed''),
     abi_to_vec = (\<lambda>_. Inr ''json''), abi_from_text = (\<lambda>_. Inl ''no reader'')\<rparr>"

text \<open>The world counts the milliseconds; the base transport refuses every request with a status that is retried.\<close>

definition timed_kit :: "(string, int, nat, string \<times> (string \<times> string) list) host_kit" where
  "timed_kit = \<lparr>hk_env = counting_env, hk_urls = toy_url, hk_to_vec = (\<lambda>_. Inr ''json''), hk_text = (\<lambda>_. Inl []),
     hk_inflate = (\<lambda>_. None), hk_node = (\<lambda>_ _ w. (Inr None, w)), hk_base = status_transport 503,
     hk_runtime = \<lparr>now_millis = (\<lambda>w. (of_nat w, w)), sleep_ms = (\<lambda>d w. w + unat d)\<rparr>\<rparr>"

lemma timed_kit_times: "host_times (\<lambda>w. w) (\<lambda>w. w) timed_kit one_text_abi"
  by (simp add: host_times_def paced_runtime_def timed_kit_def one_text_abi_def status_transport_def counting_env_def)


end
