(* ===== verification/ComponentAssetProps.thy ===== *)
theory ComponentAssetProps
  imports ComponentAsset HostAssetProps
begin

text \<open>
  The two boundaries of the asset-movement client, the flat exports and the component, against each other.
\<close>

section \<open>Agreeing answers\<close>

text \<open>The same bytes, or errors of the same code.\<close>

fun agreed :: "coded_error + bytes \<Rightarrow> coded_error + string \<Rightarrow> bool" where
  "agreed (Inr bs) (Inr t) = (bs = t)"
| "agreed (Inl e) (Inl e') = (code e = code e')"
| "agreed _ _ = False"

text \<open>The flat call stores an answer that agrees with the one of the component, in the same world; it does not return
  exactly if the component does not.\<close>

definition same_answer :: "('a, 'c, 'w) abi \<Rightarrow> (int \<times> 'w) option \<Rightarrow> ((coded_error + string) \<times> 'w) option \<Rightarrow> bool" where
  "same_answer abi flat component =
     (case component of
        None \<Rightarrow> flat = None
      | Some (r, w) \<Rightarrow> \<exists>q. agreed q r \<and> flat = Some (abi_bytes_result abi q w))"

lemma agreed_same: "agreed r r"
  by (cases r) simp_all

lemma same_answer_simps:
  "same_answer abi (finish abi (Some (q, w))) (Some (r, w)) \<longleftrightarrow>
     (\<exists>q'. agreed q' r \<and> abi_bytes_result abi q w = abi_bytes_result abi q' w)"
  "same_answer abi (finish abi None) None"
  by (auto simp: same_answer_def finish_def)

lemma same_code: "code (asset_client_coded fmt e) = code (from_client_error e)"
  by (cases e) (simp_all add: asset_client_coded_def from_client_error_def coded_error_new_def)

lemma boundary_text_utf8: "(\<And>bs. r = Inr bs \<Longrightarrow> is_utf8 bs) \<Longrightarrow> boundary_text r = r"
  by (cases r) (simp_all add: boundary_text_def)

lemma result_agrees:
  assumes "\<And>x bs. enc x = Inr bs \<Longrightarrow> is_utf8 bs"
  shows "same_answer abi
    (finish abi (map_option (apfst (\<lambda>r. bindR r enc)) (map_option (apfst (map_err (asset_client_coded fmt))) m)))
    (boundary_result enc m)"
proof -
  have "\<exists>q. agreed q (bindR (map_err from_client_error r) (\<lambda>x. boundary_text (enc x)))
      \<and> abi_bytes_result abi (bindR (map_err (asset_client_coded fmt) r) enc) w = abi_bytes_result abi q w" for r w
  proof (cases r)
    case (Inl e)
    then show ?thesis by (auto simp: same_code intro!: exI [of _ "Inl (asset_client_coded fmt e)"])
  next
    case (Inr x)
    with assms show ?thesis by (auto simp: boundary_text_utf8 agreed_same intro!: exI [of _ "enc x"])
  qed
  then show ?thesis
    by (cases m) (auto simp: boundary_result_def run_call_def same_answer_simps split: prod.splits)
qed

lemma given_agrees:
  assumes "\<And>x. arg = Inr x \<Longrightarrow> same_answer abi (finish abi (f x w)) (g x w)"
  shows "same_answer abi (finish abi (given arg f w)) (given arg g w)"
  using assms by (cases arg) (auto simp: given_def same_answer_simps intro!: exI [of _ "Inl _"])

lemma session_found:
  "map_of (rg_entries sessions) h = Some c
   \<Longrightarrow> asset_session fmt h body sessions w = map_option (apfst (map_err (asset_client_coded fmt))) (body c w)"
  by (simp add: asset_session_def with_session_def with_handle_def)

section \<open>The two sides of one client\<close>

text \<open>A flat boundary and a component over the same JSON library, whose texts are UTF-8.\<close>

definition same_json :: "('a, 'c, 'w) abi \<Rightarrow> ('k, 't, 'w, 'u) host_kit \<Rightarrow> bool" where
  "same_json abi kit \<longleftrightarrow>
     abi_to_vec abi = hk_to_vec kit \<and> abi_from_text abi = hk_text kit \<and> (\<forall>j bs. hk_to_vec kit j = Inr bs \<longrightarrow> is_utf8 bs)"

lemma encode_payload_utf8: "same_json abi kit \<Longrightarrow> encode_payload (hk_to_vec kit) j = Inr bs \<Longrightarrow> is_utf8 bs"
  by (auto simp: same_json_def encode_payload_def map_err_eq_Inr)

lemma encode_json_payload: "encode_json abi j = encode_payload (abi_to_vec abi) j"
  by (simp add: encode_json_def encode_payload_def)

lemma operation_agrees:
  assumes json: "same_json abi kit" and c: "map_of (rg_entries sessions) h = Some c"
    and reads: "abi_string_in abi pp pl w = (Some provider, w)" "abi_string_in abi rp rl w = (Some request, w)"
  shows "same_answer abi
    (dispatch2 abi pp pl rp rl (operation_body abi fmt h sessions reader operate enc) w)
    (component_operation kit reader operate (component_json kit enc) provider request \<lparr>cas_inner = c\<rparr> w)"
proof -
  have kit: "abi_to_vec abi = hk_to_vec kit" "abi_from_text abi = hk_text kit" using json by (simp_all add: same_json_def)
  have "same_answer abi
      (finish abi (encoded abi enc (asset_session fmt h (returning (\<lambda>c. operate c p q)) sessions w)))
      (boundary_result (component_json kit enc) (Some (operate c p q w)))" for p q
    using result_agrees [of "component_json kit enc" abi fmt "Some (operate c p q w)"] encode_payload_utf8 [OF json]
    by (simp add: encoded_def session_found [OF c] returning_def component_json_def [abs_def] encode_json_payload kit)
  then have "same_answer abi (finish abi (operation_body abi fmt h sessions reader operate enc p request w))
      (given (reader request) (\<lambda>q w. boundary_result (component_json kit enc) (Some (operate c p q w))) w)" for p
    unfolding operation_body_def by (rule given_agrees)
  then show ?thesis by (simp add: dispatch2_def component_operation_def reads kit given_agrees)
qed

lemma ack_agrees:
  assumes json: "same_json abi kit" and c: "map_of (rg_entries sessions) h = Some c"
    and reads: "abi_string_in abi pp pl w = (Some provider, w)" "abi_string_in abi rp rl w = (Some request, w)"
  shows "same_answer abi
    (dispatch2 abi pp pl rp rl (ack_body abi fmt h sessions operate) w)
    (component_operation kit Inr operate (\<lambda>_. encode_ack (hk_to_vec kit)) provider request \<lparr>cas_inner = c\<rparr> w)"
proof -
  have kit: "abi_to_vec abi = hk_to_vec kit" "abi_from_text abi = hk_text kit" using json by (simp_all add: same_json_def)
  have "same_answer abi (finish abi (ack_body abi fmt h sessions operate p q w))
      (boundary_result (\<lambda>_. encode_ack (hk_to_vec kit)) (Some (operate c p q w)))" for p q
    using result_agrees [of "\<lambda>_. encode_ack (hk_to_vec kit)" abi fmt "Some (operate c p q w)"] encode_payload_utf8 [OF json]
    by (simp add: ack_body_def session_found [OF c] returning_def encode_ack_def kit)
  then have "same_answer abi (finish abi (ack_body abi fmt h sessions operate p request w))
      (given (Inr request) (\<lambda>q w. boundary_result (\<lambda>_. encode_ack (hk_to_vec kit)) (Some (operate c p q w))) w)" for p
    by (simp add: given_def)
  then show ?thesis by (simp add: dispatch2_def component_operation_def reads kit given_agrees)
qed

lemma account_status_agrees:
  assumes json: "same_json abi kit" and c: "map_of (rg_entries sessions) h = Some c"
    and reads: "abi_string_in abi pp pl w = (Some provider, w)"
  shows "same_answer abi (keeta_asset_account_status abi fmt h pp pl sessions w)
    (component_asset_account_status kit provider \<lparr>cas_inner = c\<rparr> w)"
proof -
  have kit: "abi_to_vec abi = hk_to_vec kit" "abi_from_text abi = hk_text kit" using json by (simp_all add: same_json_def)
  have "same_answer abi
      (finish abi (map_option (apfst (\<lambda>r. bindR r (encode_account_status (abi_to_vec abi))))
        (asset_session fmt h (returning (\<lambda>c. fetch_account_status c p)) sessions w)))
      (boundary_result (encode_account_status (hk_to_vec kit)) (Some (fetch_account_status c p w)))" for p
    using result_agrees [of "encode_account_status (hk_to_vec kit)" abi fmt "Some (fetch_account_status c p w)"]
      encode_payload_utf8 [OF json]
    by (simp add: session_found [OF c] returning_def encode_account_status_def kit)
  then show ?thesis
    by (simp add: keeta_asset_account_status_def component_asset_account_status_def reads kit given_agrees)
qed

text \<open>Discovery: the flat boundary filters inside the session, the component outside.\<close>

lemma lookup_agrees:
  assumes json: "same_json abi kit" and c: "map_of (rg_entries sessions) h = Some c"
    and utf8: "\<And>found bs. enc found = Inr bs \<Longrightarrow> is_utf8 bs"
  shows "same_answer abi
    (finish abi (map_option (apfst (\<lambda>r. bindR r enc)) (asset_session fmt h (\<lambda>c. host_lookup c f) sessions w)))
    (boundary_result (\<lambda>found. enc (filter_providers found f)) (asset_providers c w))"
proof -
  have "map_option (apfst (\<lambda>r. bindR r enc)) (asset_session fmt h (\<lambda>c. host_lookup c f) sessions w) =
      map_option (apfst (\<lambda>r. bindR r (\<lambda>found. enc (filter_providers found f))))
        (map_option (apfst (map_err (asset_client_coded fmt))) (asset_providers c w))"
    by (cases "asset_providers c w")
      (auto simp: session_found [OF c] host_lookup_def bindR_def map_err_def split: sum.splits prod.splits)
  with result_agrees [of "\<lambda>found. enc (filter_providers found f)"] utf8 show ?thesis by simp
qed

lemma encode_providers_utf8: "same_json abi kit \<Longrightarrow> encode_providers (hk_to_vec kit) ps = Inr bs \<Longrightarrow> is_utf8 bs"
  using encode_payload_utf8 by (auto simp: encode_providers_def)

lemma encode_provider_utf8: "same_json abi kit \<Longrightarrow> encode_provider (hk_to_vec kit) p = Inr bs \<Longrightarrow> is_utf8 bs"
  using encode_payload_utf8 by (auto simp: encode_provider_def split: option.splits)

lemma providers_agree:
  assumes json: "same_json abi kit" and c: "map_of (rg_entries sessions) h = Some c"
  shows "same_answer abi (keeta_asset_providers abi fmt h sessions w) (component_asset_providers kit \<lparr>cas_inner = c\<rparr> w)"
proof -
  have "abi_to_vec abi = hk_to_vec kit" using json by (simp add: same_json_def)
  with lookup_agrees [OF json c encode_providers_utf8 [OF json]] show ?thesis
    by (simp add: keeta_asset_providers_def host_providers_def component_asset_providers_def)
qed

lemma provider_one_agrees:
  assumes json: "same_json abi kit" and c: "map_of (rg_entries sessions) h = Some c"
  shows "same_answer abi (finish abi (host_provider_one abi fmt h f sessions w))
    (boundary_result (\<lambda>found. encode_provider (hk_to_vec kit) (first_of (filter_providers found f))) (asset_providers c w))"
proof -
  have "abi_to_vec abi = hk_to_vec kit" using json by (simp add: same_json_def)
  moreover have "same_answer abi
      (finish abi (map_option (apfst (\<lambda>r. bindR r (\<lambda>found. encode_provider (hk_to_vec kit) (first_of found))))
        (asset_session fmt h (\<lambda>c. host_lookup c f) sessions w)))
      (boundary_result (\<lambda>found. encode_provider (hk_to_vec kit) (first_of (filter_providers found f))) (asset_providers c w))"
    by (rule lookup_agrees [OF json c]) (rule encode_provider_utf8 [OF json])
  ultimately show ?thesis by (simp add: host_provider_one_def first_of_def)
qed

lemma search_agrees:
  assumes json: "same_json abi kit" and c: "map_of (rg_entries sessions) h = Some c"
    and reads: "abi_string_in abi rp rl w = (Some request, w)"
  shows "same_answer abi (keeta_asset_providers_for_transfer abi fmt h rp rl sessions w)
    (component_asset_providers_for_transfer kit request \<lparr>cas_inner = c\<rparr> w)"
proof -
  have kit: "abi_to_vec abi = hk_to_vec kit" "abi_from_text abi = hk_text kit" using json by (simp_all add: same_json_def)
  have "same_answer abi
      (finish abi (map_option (apfst (\<lambda>r. bindR r (encode_providers (abi_to_vec abi))))
        (asset_session fmt h (\<lambda>c. providers_for_transfer c s) sessions w)))
      (boundary_result (encode_providers (hk_to_vec kit)) (providers_for_transfer c s w))" for s
    using result_agrees [of "encode_providers (hk_to_vec kit)" abi fmt "providers_for_transfer c s w"]
      encode_providers_utf8 [OF json]
    by (simp add: session_found [OF c] kit)
  then show ?thesis
    by (simp add: keeta_asset_providers_for_transfer_def host_providers_for_transfer_def
        component_asset_providers_for_transfer_def reads kit given_agrees)
qed

lemma wait_agrees:
  assumes json: "same_json abi kit" and c: "map_of (rg_entries sessions) h = Some c"
    and reads: "abi_string_in abi pp pl w = (Some provider, w)" "abi_string_in abi rp rl w = (Some request, w)"
    and options: "await_options_of options = host_await_options interval timeout"
  shows "same_answer abi (keeta_asset_share_kyc_and_wait abi fmt sleep h pp pl rp rl interval timeout sessions w)
    (component_asset_share_kyc_and_wait kit sleep provider request options \<lparr>cas_inner = c\<rparr> w)"
proof -
  have kit: "abi_to_vec abi = hk_to_vec kit" "abi_from_text abi = hk_text kit" using json by (simp_all add: same_json_def)
  let ?flat = "\<lambda>p q w. encoded abi share_kyc_outcome_to_json (asset_session fmt h (\<lambda>c. share_kyc_attributes_and_wait c p q
      (host_await_options interval timeout) (\<lambda>millis. sleep (ucast millis))) sessions w)"
  let ?component = "\<lambda>p q w. boundary_result (component_json kit share_kyc_outcome_to_json)
      (share_kyc_attributes_and_wait c p q (host_await_options interval timeout) (\<lambda>millis. sleep (ucast millis)) w)"
  have "same_answer abi (finish abi (?flat p q w)) (?component p q w)" for p q
    using result_agrees [of "component_json kit share_kyc_outcome_to_json" abi fmt] encode_payload_utf8 [OF json]
    by (simp add: encoded_def session_found [OF c] component_json_def [abs_def] encode_json_payload kit)
  then have "same_answer abi (finish abi (given (share_kyc_request_of (hk_text kit) request) (?flat p) w))
      (given (share_kyc_request_of (hk_text kit) request) (?component p) w)" for p
    by (rule given_agrees)
  then have "same_answer abi
      (finish abi (given (parse_provider (hk_text kit) provider)
        (\<lambda>p. given (share_kyc_request_of (hk_text kit) request) (?flat p)) w))
      (given (parse_provider (hk_text kit) provider)
        (\<lambda>p. given (share_kyc_request_of (hk_text kit) request) (?component p)) w)"
    by (rule given_agrees)
  then show ?thesis
    by (simp add: keeta_asset_share_kyc_and_wait_def component_asset_share_kyc_and_wait_def dispatch2_def reads kit options)
qed

section \<open>Waiting without an end\<close>

text \<open>The flat boundary cannot ask for it (\<open>host_share_and_wait_returns\<close>); the component hands the bounds on as they are.\<close>

lemma component_wait_unbounded:
  assumes "parse_provider (hk_text kit) provider = Inr p" "share_kyc_request_of (hk_text kit) request = Inr q"
    and share: "share_kyc_attributes (cas_inner s) p q w = (Inr outcome, w')" "so_is_pending outcome"
      "so_promise_url outcome = Some promise" "resolve_promise_url (cas_inner s) p promise = Inr url"
    and pending: "\<And>w. \<exists>response w'. send (am_caller (cas_inner s)) (poll_call url) w = (Inr response, w')
      \<and> pending_delay (caller_text (am_caller (cas_inner s))) response \<noteq> None"
  shows "component_asset_share_kyc_and_wait kit sleep provider request
    (Some \<lparr>wao_interval_ms = interval, wao_timeout_ms = u32_max\<rparr>) s w = None"
proof -
  have "poll_promise (cas_inner s) url \<lparr>interval_ms = interval, timeout_ms = u32_max\<rparr> (\<lambda>ms. sleep (ucast ms)) w' = None"
    using poll_forever [OF _ pending] by (simp add: poll_promise_def)
  with assms(1,2) share show ?thesis
    by (simp add: component_asset_share_kyc_and_wait_def await_options_of_def given_def boundary_result_def run_call_def
        share_kyc_attributes_and_wait_def)
qed

section \<open>Properties\<close>

text \<open>C39. The two boundaries give the same answers. Over one client, one JSON library whose texts are UTF-8, and
  arguments the guest memory holds, every asset-movement export of the flat boundary stores the bytes the component
  returns, or an error of the same code, and leaves the same world; it does not return exactly when the component does
  not. Only the message of an error may differ: the flat boundary writes a blocker as its JSON, the component as the
  text it displays.\<close>

theorem boundaries_agree:
  assumes json: "same_json abi kit" and c: "map_of (rg_entries sessions) h = Some c"
    and provider: "abi_string_in abi pp pl w = (Some provider, w)" and request: "abi_string_in abi rp rl w = (Some request, w)"
    and options: "await_options_of options = host_await_options interval timeout"
  shows
    "same_answer abi (keeta_asset_providers abi fmt h sessions w) (component_asset_providers kit \<lparr>cas_inner = c\<rparr> w)
   \<and> same_answer abi (keeta_asset_provider_by_id abi fmt h rp rl sessions w)
       (component_asset_provider_by_id kit request \<lparr>cas_inner = c\<rparr> w)
   \<and> (request = account_to_string (hk_env kit) (acr_account account) \<longrightarrow>
       same_answer abi (keeta_asset_provider_by_account abi fmt h rp rl sessions w)
         (component_asset_provider_by_account kit account \<lparr>cas_inner = c\<rparr> w))
   \<and> same_answer abi (keeta_asset_providers_for_transfer abi fmt h rp rl sessions w)
       (component_asset_providers_for_transfer kit request \<lparr>cas_inner = c\<rparr> w)
   \<and> same_answer abi (keeta_asset_simulate_transfer abi fmt h pp pl rp rl sessions w)
       (component_asset_simulate_transfer kit fmt provider request \<lparr>cas_inner = c\<rparr> w)
   \<and> same_answer abi (keeta_asset_initiate_transfer abi fmt h pp pl rp rl sessions w)
       (component_asset_initiate_transfer kit fmt provider request \<lparr>cas_inner = c\<rparr> w)
   \<and> same_answer abi (keeta_asset_execute_transfer abi fmt h pp pl rp rl sessions w)
       (component_asset_execute_transfer kit provider request \<lparr>cas_inner = c\<rparr> w)
   \<and> same_answer abi (keeta_asset_transfer_status abi fmt h pp pl rp rl sessions w)
       (component_asset_transfer_status kit provider request \<lparr>cas_inner = c\<rparr> w)
   \<and> same_answer abi (keeta_asset_account_status abi fmt h pp pl sessions w)
       (component_asset_account_status kit provider \<lparr>cas_inner = c\<rparr> w)
   \<and> same_answer abi (keeta_asset_initiate_template abi fmt h pp pl rp rl sessions w)
       (component_asset_initiate_template kit provider request \<lparr>cas_inner = c\<rparr> w)
   \<and> same_answer abi (keeta_asset_create_template abi fmt h pp pl rp rl sessions w)
       (component_asset_create_template kit provider request \<lparr>cas_inner = c\<rparr> w)
   \<and> same_answer abi (keeta_asset_list_templates abi fmt h pp pl rp rl sessions w)
       (component_asset_list_templates kit provider request \<lparr>cas_inner = c\<rparr> w)
   \<and> same_answer abi (keeta_asset_create_address abi fmt h pp pl rp rl sessions w)
       (component_asset_create_address kit provider request \<lparr>cas_inner = c\<rparr> w)
   \<and> same_answer abi (keeta_asset_list_addresses abi fmt h pp pl rp rl sessions w)
       (component_asset_list_addresses kit provider request \<lparr>cas_inner = c\<rparr> w)
   \<and> same_answer abi (keeta_asset_deactivate_template abi fmt h pp pl rp rl sessions w)
       (component_asset_deactivate_template kit provider request \<lparr>cas_inner = c\<rparr> w)
   \<and> same_answer abi (keeta_asset_deactivate_address abi fmt h pp pl rp rl sessions w)
       (component_asset_deactivate_address kit provider request \<lparr>cas_inner = c\<rparr> w)
   \<and> same_answer abi (keeta_asset_list_transactions abi fmt h pp pl rp rl sessions w)
       (component_asset_list_transactions kit provider request \<lparr>cas_inner = c\<rparr> w)
   \<and> same_answer abi (keeta_asset_share_kyc abi fmt h pp pl rp rl sessions w)
       (component_asset_share_kyc kit provider request \<lparr>cas_inner = c\<rparr> w)
   \<and> same_answer abi (keeta_asset_share_kyc_and_wait abi fmt sleep h pp pl rp rl interval timeout sessions w)
       (component_asset_share_kyc_and_wait kit sleep provider request options \<lparr>cas_inner = c\<rparr> w)"
proof -
  have "abi_from_text abi = hk_text kit" using json by (simp add: same_json_def)
  note flat = keeta_asset_provider_by_id_def keeta_asset_provider_by_account_def keeta_asset_simulate_transfer_def
    keeta_asset_initiate_transfer_def keeta_asset_execute_transfer_def keeta_asset_transfer_status_def
    keeta_asset_initiate_template_def keeta_asset_create_template_def keeta_asset_list_templates_def
    keeta_asset_create_address_def keeta_asset_list_addresses_def keeta_asset_deactivate_template_def
    keeta_asset_deactivate_address_def keeta_asset_list_transactions_def keeta_asset_share_kyc_def this
  note component = component_asset_provider_by_id_def component_asset_provider_by_account_def
    component_asset_simulate_transfer_def component_asset_initiate_transfer_def component_asset_execute_transfer_def
    component_asset_transfer_status_def component_asset_initiate_template_def component_asset_create_template_def
    component_asset_list_templates_def component_asset_create_address_def component_asset_list_addresses_def
    component_asset_deactivate_template_def component_asset_deactivate_address_def component_asset_list_transactions_def
    component_asset_share_kyc_def
  show ?thesis
    using providers_agree [OF json c] provider_one_agrees [OF json c] search_agrees [OF json c request]
      account_status_agrees [OF json c provider] wait_agrees [OF json c provider request options]
    by (simp add: flat component provider request operation_agrees [OF json c provider request]
        ack_agrees [OF json c provider request])
qed

section \<open>A concrete pair of boundaries\<close>

text \<open>One text serves as every argument, and reads as a provider.\<close>

definition toy_kit :: "(string, int, nat, string \<times> (string \<times> string) list) host_kit" where
  "toy_kit = \<lparr>hk_env = counting_env, hk_urls = toy_url, hk_to_vec = (\<lambda>_. Inr ''json''),
     hk_text = (\<lambda>_. Inr (provider_to_json (provider_from_entry ''p'' toy_entry))), hk_inflate = (\<lambda>_. None),
     hk_node = (\<lambda>_ _ w. (Inr None, w)), hk_base = status_transport 202,
     hk_runtime = \<lparr>now_millis = (\<lambda>w. (of_nat w, w)), sleep_ms = (\<lambda>d w. w + unat d)\<rparr>\<rparr>"

definition toy_asset_abi :: "(string, unit, nat) abi" where
  "toy_asset_abi = one_text_abi\<lparr>abi_from_text := hk_text toy_kit\<rparr>"

theorem boundaries_agree_witness:
  "let sessions = \<lparr>rg_resource = ''asset-movement-client'', rg_next = 1, rg_entries = [(1, toy_asset_client 202)]\<rparr>;
       fmt = \<lparr>show_json = (\<lambda>_. []), show_float = (\<lambda>_. [])\<rparr>; s = \<lparr>cas_inner = toy_asset_client 202\<rparr>
   in same_answer toy_asset_abi (keeta_asset_transfer_status toy_asset_abi fmt 1 0 4 0 4 sessions 7)
        (component_asset_transfer_status toy_kit ''text'' ''text'' s 7)
    \<and> same_answer toy_asset_abi (keeta_asset_provider_by_account toy_asset_abi fmt 1 0 4 sessions 7)
        (component_asset_provider_by_account toy_kit \<lparr>acr_account = ''text''\<rparr> s 7)
    \<and> same_answer toy_asset_abi (keeta_asset_share_kyc_and_wait toy_asset_abi fmt (\<lambda>n w. w + unat n) 1 0 4 0 4 0 60000 sessions 7)
        (component_asset_share_kyc_and_wait toy_kit (\<lambda>n w. w + unat n) ''text'' ''text''
          (Some \<lparr>wao_interval_ms = 2000, wao_timeout_ms = 60000\<rparr>) s 7)"
proof -
  have "is_utf8 ''json''" by code_simp
  then have json: "same_json toy_asset_abi toy_kit" by (simp add: same_json_def toy_asset_abi_def toy_kit_def one_text_abi_def)
  have reads: "abi_string_in toy_asset_abi p l w = (Some ''text'', w)" for p l w by (simp add: toy_asset_abi_def one_text_abi_def)
  have options: "await_options_of (Some \<lparr>wao_interval_ms = 2000, wao_timeout_ms = 60000\<rparr>) = host_await_options 0 60000"
    by (simp add: await_options_of_def host_await_options_def positive_or_def default_await_options_def)
  have account: "''text'' = account_to_string (hk_env toy_kit) (acr_account \<lparr>acr_account = ''text''\<rparr>)"
    by (simp add: toy_kit_def counting_env_def toy_env_def)
  show ?thesis
    using boundaries_agree [where c = "toy_asset_client 202" and h = 1 and w = 7 and pp = 0 and pl = 4 and rp = 0 and rl = 4
        and account = "\<lparr>acr_account = ''text''\<rparr>" and fmt = "\<lparr>show_json = (\<lambda>_. []), show_float = (\<lambda>_. [])\<rparr>"
        and sessions = "\<lparr>rg_resource = ''asset-movement-client'', rg_next = 1, rg_entries = [(1, toy_asset_client 202)]\<rparr>"
        and sleep = "\<lambda>n w. w + unat n", OF json _ reads reads options] account
    by (simp add: Let_def)
qed

end
