(* ===== verification/SchemaGenerator.thy ===== *)
theory SchemaGenerator
  imports Json
begin

text \<open>
  \<open>keetanetwork-anchor/build.rs\<close>, the schema generator: the code of \<open>generated/iso20022_schema.rs\<close> from the object
  identifiers of the shared ASN.1 crate (\<open>oids.json\<close>, here any JSON document). Generated code is built as a term of
  \<open>schema_code\<close> and printed by \<open>show_code\<close>. The recursion of the generator follows the aliases and members of the
  document, which may be cyclic: it takes fuel, \<open>None\<close> is out of fuel, and a panic of the build is the error of the
  sum. Case mapping of non-ASCII characters is Unicode data: the record \<open>char_tables\<close>.
\<close>

section \<open>Names\<close>

record char_tables =
  ct_is_upper :: "string \<Rightarrow> bool"
  ct_lower_first :: "string \<Rightarrow> string"
  ct_upper_first :: "string \<Rightarrow> string"
  ct_upper :: "string \<Rightarrow> string"

text \<open>One character, as the bytes of its encoding.\<close>

definition on_ascii :: "(char \<Rightarrow> 'x) \<Rightarrow> (string \<Rightarrow> 'x) \<Rightarrow> string \<Rightarrow> 'x" where
  "on_ascii f table ch = (case ch of [c] \<Rightarrow> if is_ascii c then f c else table ch | _ \<Rightarrow> table ch)"

definition char_is_uppercase :: "char_tables \<Rightarrow> string \<Rightarrow> bool" where
  "char_is_uppercase ct = on_ascii is_ascii_upper (ct_is_upper ct)"

definition char_lower_first :: "char_tables \<Rightarrow> string \<Rightarrow> string" where
  "char_lower_first ct = on_ascii (\<lambda>c. [ascii_lower c]) (ct_lower_first ct)"

definition char_upper_first :: "char_tables \<Rightarrow> string \<Rightarrow> string" where
  "char_upper_first ct = on_ascii (\<lambda>c. [ascii_upper c]) (ct_upper_first ct)"

definition snake_step :: "char_tables \<Rightarrow> (string \<Rightarrow> string) \<Rightarrow> string \<Rightarrow> string \<Rightarrow> string" where
  "snake_step ct cased result ch =
     (if char_is_uppercase ct ch \<and> result \<noteq> [] then result @ ''_'' else result) @ cased ch"

definition camel_to_snake_case :: "char_tables \<Rightarrow> string \<Rightarrow> string" where
  "camel_to_snake_case ct s = foldl (snake_step ct (char_lower_first ct)) [] (utf8_chars s)"

definition camel_to_snake_upper :: "char_tables \<Rightarrow> string \<Rightarrow> string" where
  "camel_to_snake_upper ct s = foldl (snake_step ct (char_upper_first ct)) [] (utf8_chars s)"

section \<open>Reading the document\<close>

text \<open>\<open>value[key]\<close> of a JSON value, whose missing member is null; the members of an object.\<close>

definition json_at :: "json \<Rightarrow> string \<Rightarrow> json" where
  "json_at v k = (case get_key k v of None \<Rightarrow> JNull | Some x \<Rightarrow> x)"

definition object_of :: "json \<Rightarrow> (string \<times> json) list" where
  "object_of v = (case as_object v of None \<Rightarrow> [] | Some m \<Rightarrow> m)"

definition str_or_default :: "json \<Rightarrow> string" where
  "str_or_default v = (case as_str v of None \<Rightarrow> [] | Some s \<Rightarrow> s)"

definition alias_type :: "json \<Rightarrow> string" where
  "alias_type def = str_or_default (json_at def ''type'')"

definition is_optional_field :: "json \<Rightarrow> bool" where
  "is_optional_field fd = (case as_bool (json_at fd ''optional'') of None \<Rightarrow> False | Some b \<Rightarrow> b)"

definition scalar_type :: "string \<Rightarrow> bool" where
  "scalar_type type_str = (type_str = ''UTF8String'' \<or> type_str = ''GeneralizedTime'')"

definition structured_tokens :: "json \<Rightarrow> string list" where
  "structured_tokens oids =
     filter_map (\<lambda>(_, info).
       case (as_str (json_at info ''token''), as_str (json_at info ''type'')) of
         (Some token, Some type_str) \<Rightarrow> if scalar_type type_str then None else Some token
       | _ \<Rightarrow> None) (object_of (json_at oids ''sensitive_attributes''))"

section \<open>Generated code\<close>

datatype schema_code =
    CUtf8
  | CDate
  | COid
  | COctetString
  | CSequenceOf schema_code
  | CContext nat schema_code
  | CChoice "schema_code list"
  | COptional schema_code
  | CStruct "(string \<times> schema_code) list"
  | CCall string

definition join_parts :: "string \<Rightarrow> string list \<Rightarrow> string" where
  "join_parts sep parts = (case parts of [] \<Rightarrow> [] | p # ps \<Rightarrow> p @ concat (map (\<lambda>q. sep @ q) ps))"

definition quoted :: "string \<Rightarrow> string" where
  "quoted s = CHR 0x22 # s @ [CHR 0x22]"

fun show_code :: "schema_code \<Rightarrow> string" where
  "show_code CUtf8 = ''Schema::Utf8''"
| "show_code CDate = ''Schema::Date''"
| "show_code COid = ''Schema::Oid''"
| "show_code COctetString = ''Schema::OctetString''"
| "show_code (CSequenceOf e) = ''Schema::SequenceOf(Box::new('' @ show_code e @ ''))''"
| "show_code (CContext i e) = ''Schema::Context('' @ show_nat i @ '', Box::new('' @ show_code e @ ''))''"
| "show_code (CChoice es) = ''Schema::Choice(vec!['' @ join_parts '', '' (map show_code es) @ ''])''"
| "show_code (COptional e) = ''Schema::Optional(Box::new('' @ show_code e @ ''))''"
| "show_code (CStruct ms) =
     ''Schema::Struct(vec!['' @ join_parts '', ''
        (map (\<lambda>(name, e). ''Field::new('' @ quoted name @ '', '' @ show_code e @ '')'') ms) @ ''])''"
| "show_code (CCall f) = f @ ''()''"

section \<open>The generator\<close>

record generator_tables =
  sg_case :: char_tables
  sg_primitives :: "(string \<times> json) list"
  sg_choices :: "(string \<times> json) list"
  sg_enumerations :: "(string \<times> json) list"
  sg_sequences :: "(string \<times> json) list"
  sg_ext_structs :: "(string \<times> json) list"
  sg_sensitive_by_token :: "(string \<times> json) list"

record generator_state =
  gs_visited :: "string set"
  gs_builders :: "(string \<times> schema_code) list"

definition schema_tables_new :: "char_tables \<Rightarrow> json \<Rightarrow> generator_tables" where
  "schema_tables_new ct oids =
     (let types = json_at oids ''iso20022_types'' in
      \<lparr>sg_case = ct,
       sg_primitives = object_of (json_at types ''primitives''),
       sg_choices = object_of (json_at types ''choices''),
       sg_enumerations = object_of (json_at types ''enumerations''),
       sg_sequences = object_of (json_at types ''sequences''),
       sg_ext_structs = map_from (filter (\<lambda>(_, def). get_key ''fields'' def \<noteq> None) (object_of (json_at oids ''extensions''))),
       sg_sensitive_by_token = map_from (filter_map (\<lambda>(_, def).
           map_option (\<lambda>token. (token, def)) (as_str (json_at def ''token''))) (object_of (json_at oids ''sensitive_attributes'')))\<rparr>)"

definition generator_new :: generator_state where
  "generator_new = \<lparr>gs_visited = {}, gs_builders = []\<rparr>"

type_synonym 'x generating = "generator_state \<Rightarrow> (string + 'x \<times> generator_state) option"

definition bind_gen :: "(string + 'x \<times> generator_state) option \<Rightarrow> ('x \<Rightarrow> 'y generating) \<Rightarrow> (string + 'y \<times> generator_state) option" where
  "bind_gen m f =
     (case m of None \<Rightarrow> None | Some (Inl e) \<Rightarrow> Some (Inl e) | Some (Inr (x, st)) \<Rightarrow> f x st)"

definition gen_return :: "'x \<Rightarrow> 'x generating" where
  "gen_return x st = Some (Inr (x, st))"

definition gen_panic :: "string \<Rightarrow> 'x generating" where
  "gen_panic e st = Some (Inl e)"

text \<open>One after the other over a list.\<close>

fun gen_map :: "('a \<Rightarrow> 'x generating) \<Rightarrow> 'a list \<Rightarrow> 'x list generating" where
  "gen_map f [] st = gen_return [] st"
| "gen_map f (a # as) st = bind_gen (f a st) (\<lambda>x. \<lambda>st. bind_gen (gen_map f as st) (\<lambda>xs. gen_return (x # xs)))"

definition keyword_code :: "string \<Rightarrow> schema_code option" where
  "keyword_code type_name =
     (if type_name = ''UTF8String'' then Some CUtf8
      else if type_name = ''GeneralizedTime'' then Some CDate
      else if type_name = ''OBJECT IDENTIFIER'' then Some COid
      else if type_name = ''OCTET STRING'' then Some COctetString
      else None)"

definition named_type :: "generator_tables \<Rightarrow> string \<Rightarrow> bool" where
  "named_type t type_name \<longleftrightarrow>
     map_of (sg_choices t) type_name \<noteq> None \<or> map_of (sg_sequences t) type_name \<noteq> None
     \<or> map_of (sg_ext_structs t) type_name \<noteq> None"

definition sequence_definition :: "json \<Rightarrow> bool" where
  "sequence_definition def \<longleftrightarrow> as_str (json_at def ''type'') = Some ''SEQUENCE''"

text \<open>Whether a type is a choice in the end, through its aliases: one step, and its repetition.\<close>

definition choice_step :: "(string \<Rightarrow> bool option) \<Rightarrow> generator_tables \<Rightarrow> string \<Rightarrow> bool option" where
  "choice_step again t type_name =
     (let type_name = trim type_name in
      if map_of (sg_choices t) type_name \<noteq> None then Some True
      else case map_of (sg_primitives t) type_name of
        Some primitive \<Rightarrow> again (alias_type primitive)
      | None \<Rightarrow>
          (case map_of (sg_sensitive_by_token t) type_name of
             Some def \<Rightarrow> if sequence_definition def then Some False else again (alias_type def)
           | None \<Rightarrow> Some False))"

primrec is_choice_type :: "nat \<Rightarrow> generator_tables \<Rightarrow> string \<Rightarrow> bool option" where
  "is_choice_type 0 t = (\<lambda>_. None)"
| "is_choice_type (Suc n) t = choice_step (is_choice_type n t) t"

definition struct_def :: "generator_tables \<Rightarrow> string \<Rightarrow> json option" where
  "struct_def t type_name =
     (case map_of (sg_sequences t) type_name of Some d \<Rightarrow> Some d | None \<Rightarrow>
     (case map_of (sg_ext_structs t) type_name of Some d \<Rightarrow> Some d | None \<Rightarrow>
      map_of (sg_sensitive_by_token t) type_name))"

text \<open>Each alternative of a choice has its own tag.\<close>

definition choice_body :: "(string \<Rightarrow> schema_code generating) \<Rightarrow> json \<Rightarrow> schema_code generating" where
  "choice_body member choice st =
     (let alternatives = map snd (object_of (json_at choice ''choices'')) in
      bind_gen (gen_map (\<lambda>(index, alternative). \<lambda>st.
          bind_gen (member (alias_type alternative) st) (\<lambda>inner. gen_return (CContext index inner)))
        (enumerate 0 alternatives) st)
      (\<lambda>parts. gen_return (CChoice parts)))"

text \<open>A member of a sequence with an optional member has its position as tag, unless it is a choice.\<close>

definition struct_member ::
    "(string \<Rightarrow> schema_code generating) \<Rightarrow> (string \<Rightarrow> bool option) \<Rightarrow> (string \<times> json) list \<Rightarrow> bool \<Rightarrow> nat \<times> string
     \<Rightarrow> (string \<times> schema_code) generating" where
  "struct_member member choice flds has_optional entry st =
     (case entry of (index, name) \<Rightarrow>
        (case map_of flds name of
           None \<Rightarrow> gen_panic ''no entry found for key'' st
         | Some fd \<Rightarrow>
             (case choice (alias_type fd) of
                None \<Rightarrow> None
              | Some is_choice \<Rightarrow>
                  bind_gen (member (alias_type fd) st) (\<lambda>inner.
                    let positioned = (if is_choice then inner else if has_optional then CContext index inner else inner);
                        code = (if is_optional_field fd then COptional positioned else positioned)
                    in gen_return (name, code)))))"

definition field_names :: "json \<Rightarrow> string list" where
  "field_names def = (case as_array (json_at def ''field_order'') of None \<Rightarrow> [] | Some xs \<Rightarrow> filter_map as_str xs)"

text \<open>The test for an optional member stops at the first one, and panics at a name without a field before it.\<close>

fun any_optional :: "(string \<times> json) list \<Rightarrow> string list \<Rightarrow> bool option" where
  "any_optional flds [] = Some False"
| "any_optional flds (name # names) =
     (case map_of flds name of
        None \<Rightarrow> None
      | Some fd \<Rightarrow> if is_optional_field fd then Some True else any_optional flds names)"

definition struct_body ::
    "(string \<Rightarrow> schema_code generating) \<Rightarrow> (string \<Rightarrow> bool option) \<Rightarrow> json \<Rightarrow> schema_code generating" where
  "struct_body member choice def st =
     (let order = field_names def; flds = object_of (json_at def ''fields'') in
      case any_optional flds order of
        None \<Rightarrow> gen_panic ''no entry found for key'' st
      | Some has_optional \<Rightarrow>
          bind_gen (gen_map (struct_member member choice flds has_optional) (enumerate 0 order) st)
            (\<lambda>members. gen_return (CStruct members)))"

definition define_body ::
    "(string \<Rightarrow> schema_code generating) \<Rightarrow> (string \<Rightarrow> bool option) \<Rightarrow> generator_tables \<Rightarrow> string \<Rightarrow> schema_code generating" where
  "define_body member choice t type_name st =
     (case map_of (sg_choices t) type_name of
        Some c \<Rightarrow> choice_body member c st
      | None \<Rightarrow>
          (case struct_def t type_name of
             None \<Rightarrow> gen_panic (''unknown iso20022 struct type: '' @ type_name) st
           | Some def \<Rightarrow> struct_body member choice def st))"

definition builder_name :: "generator_tables \<Rightarrow> string \<Rightarrow> string" where
  "builder_name t type_name = camel_to_snake_case (sg_case t) type_name @ ''_schema''"

text \<open>A builder is registered before its body is built, so a type may refer to itself.\<close>

definition ensure_builder ::
    "(string \<Rightarrow> schema_code generating) \<Rightarrow> (string \<Rightarrow> bool option) \<Rightarrow> generator_tables \<Rightarrow> string \<Rightarrow> string generating" where
  "ensure_builder member choice t type_name st =
     (let fn_name = builder_name t type_name in
      if fn_name \<in> gs_visited st then gen_return fn_name st
      else bind_gen (define_body member choice t type_name (st\<lparr>gs_visited := insert fn_name (gs_visited st)\<rparr>))
        (\<lambda>body st. gen_return fn_name (st\<lparr>gs_builders := gs_builders st @ [(fn_name, body)]\<rparr>)))"

definition call_builder ::
    "(string \<Rightarrow> schema_code generating) \<Rightarrow> (string \<Rightarrow> bool option) \<Rightarrow> generator_tables \<Rightarrow> string \<Rightarrow> schema_code generating" where
  "call_builder member choice t type_name st =
     bind_gen (ensure_builder member choice t type_name st) (\<lambda>builder. gen_return (CCall builder))"

text \<open>The expression of a type used as a member: one step, and its repetition.\<close>

definition member_step ::
    "(string \<Rightarrow> schema_code generating) \<Rightarrow> (string \<Rightarrow> bool option) \<Rightarrow> generator_tables \<Rightarrow> string \<Rightarrow> schema_code generating" where
  "member_step member choice t type_name st =
     (let type_name = trim type_name in
      case strip_prefix ''SEQUENCE OF '' type_name of
        Some inner \<Rightarrow> bind_gen (member inner st) (\<lambda>element. gen_return (CSequenceOf element))
      | None \<Rightarrow>
      case keyword_code type_name of
        Some c \<Rightarrow> gen_return c st
      | None \<Rightarrow>
      if named_type t type_name then call_builder member choice t type_name st
      else if map_of (sg_enumerations t) type_name \<noteq> None then gen_return CUtf8 st
      else case map_of (sg_primitives t) type_name of
        Some primitive \<Rightarrow> member (alias_type primitive) st
      | None \<Rightarrow>
      case map_of (sg_sensitive_by_token t) type_name of
        Some def \<Rightarrow>
          if sequence_definition def then call_builder member choice t type_name st
          else member (alias_type def) st
      | None \<Rightarrow> gen_panic (''unknown iso20022 type: '' @ type_name) st)"

primrec member_expr :: "nat \<Rightarrow> generator_tables \<Rightarrow> string \<Rightarrow> schema_code generating" where
  "member_expr 0 t = (\<lambda>_ _. None)"
| "member_expr (Suc n) t = member_step (member_expr n t) (is_choice_type n t) t"

text \<open>The expression of every structured token, in order, and the builders they need, by name.\<close>

definition generate_schema ::
    "nat \<Rightarrow> char_tables \<Rightarrow> json \<Rightarrow> (string + (string \<times> schema_code) list \<times> (string \<times> schema_code) list) option" where
  "generate_schema n ct oids =
     (let t = schema_tables_new ct oids; tokens = sort (structured_tokens oids) in
      case gen_map (\<lambda>token st. bind_gen (member_expr n t token st) (\<lambda>e. gen_return (token, e))) tokens generator_new of
        None \<Rightarrow> None
      | Some (Inl e) \<Rightarrow> Some (Inl e)
      | Some (Inr (arms, st)) \<Rightarrow> Some (Inr (arms, sort_key fst (gs_builders st))))"

end
