(* ===== verification/BuildScript.thy ===== *)
theory BuildScript
  imports SchemaGenerator
begin

text \<open>
  \<open>keetanetwork-anchor/build.rs\<close>, the rest: the texts of the generated modules and the upkeep of the list of modules,
  \<open>src/generated.rs\<close>. The compiler of the ASN.1 directory and the document of object identifiers are third-party
  (the first gives the initial files, the second is an argument). A file that cannot be read panics, which is the error
  of the sum; writing succeeds.
\<close>

section \<open>Text\<close>

definition newline :: string where
  "newline = [CHR 0x0A]"

definition tabs :: "nat \<Rightarrow> string \<Rightarrow> string" where
  "tabs k s = replicate k (CHR 0x09) @ s"

definition text_lines :: "(nat \<times> string) list \<Rightarrow> string" where
  "text_lines ls = concat (map (\<lambda>(k, s). tabs k s @ newline) ls)"

fun str_contains :: "string \<Rightarrow> string \<Rightarrow> bool" where
  "str_contains pat [] = (pat = [])"
| "str_contains pat (c # cs) = (starts_with pat (c # cs) \<or> str_contains pat cs)"

definition trim_end :: "string \<Rightarrow> string" where
  "trim_end s = concat (rev (dropWhile whitespace_char (rev (utf8_chars s))))"

text \<open>\<open>str::lines\<close>: the parts between newlines without a carriage return before it; a last empty part is no line.\<close>

fun newline_parts :: "string \<Rightarrow> string list" where
  "newline_parts [] = [[]]"
| "newline_parts (c # cs) =
     (if c = CHR 0x0A then [] # newline_parts cs
      else case newline_parts cs of [] \<Rightarrow> [[c]] | p # ps \<Rightarrow> (c # p) # ps)"

definition lines_of :: "string \<Rightarrow> string list" where
  "lines_of s =
     (let parts = newline_parts s;
          ended = map (\<lambda>p. if p \<noteq> [] \<and> last p = CHR 0x0D then butlast p else p) (butlast parts)
      in ended @ (if last parts = [] then [] else [last parts]))"

section \<open>Object identifiers\<close>

definition format_oid_dotted :: "json list \<Rightarrow> string" where
  "format_oid_dotted oid_array = join_parts ''.'' (map (\<lambda>n. show_nat (unat n)) (filter_map as_u64 oid_array))"

definition format_oid_comment :: "json list \<Rightarrow> string" where
  "format_oid_comment oid_array =
     (let numbers = map (\<lambda>n. show_nat (unat n)) (filter_map as_u64 oid_array) in join_parts ''.'' numbers)"

definition str_or :: "string \<Rightarrow> json \<Rightarrow> string" where
  "str_or default_str v = (case as_str v of None \<Rightarrow> default_str | Some s \<Rightarrow> s)"

section \<open>The list of modules\<close>

type_synonym files = "string \<Rightarrow> string option"

definition generated_rs :: string where
  "generated_rs = ''src/generated.rs''"

definition update_file :: "string \<Rightarrow> (string \<Rightarrow> string) \<Rightarrow> files \<Rightarrow> string + files" where
  "update_file path f files =
     (case files path of None \<Rightarrow> Inl ''Failed to read generated.rs'' | Some content \<Rightarrow> Inr (files(path := Some (f content))))"

definition declare_module :: "string \<Rightarrow> bool \<Rightarrow> string \<Rightarrow> string" where
  "declare_module module public content =
     (let mod_decl = (if public then ''pub mod '' @ module @ '';'' else ''mod '' @ module @ '';'') in
      if str_contains mod_decl content then content
      else let path_attr = ''#[path = '' @ quoted (''generated/'' @ module @ ''.rs'') @ '']''
           in trim_end content @ newline @ path_attr @ newline @ mod_decl @ newline)"

definition ensure_generated_module :: "string \<Rightarrow> bool \<Rightarrow> files \<Rightarrow> string + files" where
  "ensure_generated_module module public files = update_file generated_rs (declare_module module public) files"

definition declare_serde_module :: "string \<Rightarrow> string \<Rightarrow> string" where
  "declare_serde_module module content =
     (let mod_decl = ''pub mod '' @ module @ '';'' in
      if str_contains mod_decl content then content
      else trim_end content @ newline @ ''#[cfg(feature = '' @ quoted ''serde'' @ '')]'' @ newline
        @ ''#[path = '' @ quoted (''generated/'' @ module @ ''.rs'') @ '']'' @ newline @ ''pub mod '' @ module @ '';'' @ newline)"

definition ensure_generated_module_serde :: "string \<Rightarrow> files \<Rightarrow> string + files" where
  "ensure_generated_module_serde module files = update_file generated_rs (declare_serde_module module) files"

definition builder_declarations :: "string \<Rightarrow> string list" where
  "builder_declarations content =
     (if str_contains ''mod from_impls;'' content then []
      else [''#[path = '' @ quoted ''generated/from_impls.rs'' @ '']'', ''mod from_impls;''])
     @ (if str_contains ''mod builder_ext;'' content then []
        else [''#[path = '' @ quoted ''generated/builder_ext.rs'' @ '']'', ''pub mod builder_ext;''])"

text \<open>The declarations go before the first re-export, or at the end.\<close>

fun insert_declarations :: "string list \<Rightarrow> string list \<Rightarrow> bool \<times> string list" where
  "insert_declarations decls [] = (False, [])"
| "insert_declarations decls (l # ls) =
     (if starts_with ''// Re-export'' l \<or> starts_with ''pub use'' l then (True, decls @ [[]] @ l # ls)
      else case insert_declarations decls ls of (inserted, ls') \<Rightarrow> (inserted, l # ls'))"

definition declare_builders :: "string \<Rightarrow> string" where
  "declare_builders content =
     (if str_contains ''mod builder_ext;'' content \<and> str_contains ''mod from_impls;'' content then content
      else let decls = builder_declarations content in
        (case insert_declarations decls (lines_of content) of
           (True, ls) \<Rightarrow> join_parts newline ls
         | (False, ls) \<Rightarrow> join_parts newline (ls @ [[]] @ decls)))"

definition update_generated_rs_with_builder_trait :: "files \<Rightarrow> string + files" where
  "update_generated_rs_with_builder_trait files = update_file generated_rs declare_builders files"

section \<open>The registry of value types\<close>

definition value_type_entries :: "json \<Rightarrow> string \<Rightarrow> (string \<times> string) list" where
  "value_type_entries attrs default_type =
     filter_map (\<lambda>(_, info). map_option (\<lambda>oid_array.
         let type_str = str_or default_type (json_at info ''type''); token = str_or_default (json_at info ''token'');
             variant = (if type_str = ''UTF8String'' then ''AttributeValueType::Utf8String''
                        else if type_str = ''GeneralizedTime'' then ''AttributeValueType::GeneralizedTime''
                        else ''AttributeValueType::Structured('' @ quoted token @ '')'')
         in (format_oid_dotted oid_array, variant)) (as_array (json_at info ''oid''))) (object_of attrs)"

text \<open>\<open>dedup_by\<close>: of neighbours with one key the first stays.\<close>

fun dedup_keys :: "(string \<times> 'v) list \<Rightarrow> (string \<times> 'v) list" where
  "dedup_keys ((k, v) # (k', v') # kvs) = (if k = k' then dedup_keys ((k, v) # kvs) else (k, v) # dedup_keys ((k', v') # kvs))"
| "dedup_keys kvs = kvs"

definition value_type_registry :: "json \<Rightarrow> (string \<times> string) list" where
  "value_type_registry oids =
     dedup_keys (sort_key fst (value_type_entries (json_at oids ''plain_attributes'') ''UTF8String''
       @ value_type_entries (json_at oids ''sensitive_attributes'') ''UTF8String''))"

definition attribute_types_text :: "string \<Rightarrow> string" where
  "attribute_types_text arms = text_lines
      [(0, ''//! Generated registry mapping KYC attribute OIDs to their ASN.1 value type.''),
       (0, ''//!''),
       (0, ''//! This file is automatically generated by build.rs - do not edit manually.''),
       (0, []),
       (0, ''/// The ASN.1 value type of a KYC attribute.''),
       (0, ''#[derive(Debug, Clone, Copy, PartialEq, Eq)]''),
       (0, ''pub enum AttributeValueType {''),
       (1, ''/// A UTF-8 string value (DER `UTF8String`).''),
       (1, ''Utf8String,''),
       (1, ''/// A timestamp value (DER `GeneralizedTime`).''),
       (1, ''GeneralizedTime,''),
       (1, ''/// A structured `SEQUENCE`/`CHOICE` value; the token is the iso20022 type name.''),
       (1, ''Structured(&'static str),''),
       (0, ''}''),
       (0, []),
       (0, ''/// Resolve the ASN.1 value type for a KYC attribute OID in dotted-decimal form.''),
       (0, ''pub fn attribute_value_type(oid: &str) -> Option<AttributeValueType> {''),
       (1, ''match oid {''),
       (0, arms @ tabs 2 [] @ ''_ => None,''),
       (1, ''}''),
       (0, ''}'')]"

definition generate_attribute_value_types :: "json \<Rightarrow> files \<Rightarrow> string + files" where
  "generate_attribute_value_types oids files =
     (let arms = concat (map (\<lambda>(i, variant).
            tabs 2 (quoted i @ '' => Some('' @ variant @ ''),'') @ newline) (value_type_registry oids))
      in ensure_generated_module ''attribute_types'' True
           (files(''src/generated/attribute_types.rs'' \<mapsto> attribute_types_text arms)))"

section \<open>The schema module\<close>

definition iso20022_schema_text :: "string \<Rightarrow> string \<Rightarrow> string" where
  "iso20022_schema_text arms body = text_lines
      [(0, ''//! Generated declarative iso20022 schema descriptors.''),
       (0, ''//!''),
       (0, ''//! This file is automatically generated by build.rs - do not edit manually. It''),
       (0, ''//! is derived from `oids.json`.''),
       (0, []),
       (0, ''use alloc::boxed::Box;''),
       (0, ''use alloc::vec;''),
       (0, []),
       (0, ''use keetanetwork_asn1::schema_codec::{Field, Schema};''),
       (0, []),
       (0, ''/// Resolve the declarative schema for a structured KYC attribute token.''),
       (0, ''pub fn attribute_schema(token: &str) -> Option<Schema> {''),
       (1, ''match token {''),
       (0, arms @ tabs 2 [] @ ''_ => None,''),
       (1, ''}''),
       (0, ''}''),
       (0, [])] @ tabs 0 (body)"

definition schema_module_text :: "(string \<times> schema_code) list \<Rightarrow> (string \<times> schema_code) list \<Rightarrow> string" where
  "schema_module_text arms builders = iso20022_schema_text
     (concat (map (\<lambda>(token, expr). tabs 2 (quoted token @ '' => Some('' @ show_code expr @ ''),'') @ newline) arms))
     (concat (map (\<lambda>(name, definition). ''fn '' @ name @ ''() -> Schema {'' @ newline @ tabs 1 (show_code definition) @ newline
        @ ''}'' @ newline @ newline) builders))"

definition generate_iso20022_schema :: "nat \<Rightarrow> char_tables \<Rightarrow> json \<Rightarrow> files \<Rightarrow> (string + files) option" where
  "generate_iso20022_schema n ct oids files =
     map_option (\<lambda>r. bindR r (\<lambda>(arms, builders).
         ensure_generated_module_serde ''iso20022_schema''
           (files(''src/generated/iso20022_schema.rs'' \<mapsto> schema_module_text arms builders)))) (generate_schema n ct oids)"

section \<open>Conversions of structured attributes\<close>

definition strip_suffix :: "string \<Rightarrow> string \<Rightarrow> string option" where
  "strip_suffix suffix s = map_option rev (strip_prefix (rev suffix) (rev s))"

definition from_impl_text :: "string \<Rightarrow> string \<Rightarrow> string" where
  "from_impl_text type_name const_name = text_lines
      [(0, ''impl TryFrom<'' @ type_name @ ''> for Attribute {''),
       (1, ''type Error = AnchorAsn1Error;''),
       (0, []),
       (1, ''fn try_from(value: '' @ type_name @ '') -> Result<Self, Self::Error> {''),
       (2, ''let name = '' @ const_name @ '';''),
       (2, ''let encoded = rasn::der::encode(&value)?;''),
       (2, ''let value = AttributeValue::sensitiveValue(OctetString::from_slice(&encoded));''),
       (2, ''Ok(Attribute { name, value })''),
       (1, ''}''),
       (0, ''}''),
       (0, [])]"

definition attribute_from_impl :: "char_tables \<Rightarrow> string \<times> json \<Rightarrow> string" where
  "attribute_from_impl ct entry =
     (case entry of (name, info) \<Rightarrow>
      case (as_str (json_at info ''token''), as_array (json_at info ''oid''), as_str (json_at info ''type'')) of
        (Some token, Some _, Some attr_type) \<Rightarrow>
          let const_name = ''oids::keeta::'' @ camel_to_snake_upper ct name in
          if attr_type = ''SEQUENCE'' \<or> attr_type = ''CHOICE'' then
            let type_name = (case strip_suffix ''Attribute'' token of Some stripped \<Rightarrow> stripped | None \<Rightarrow> token)
            in from_impl_text type_name const_name
          else []
      | _ \<Rightarrow> [])"

definition from_impls_header :: string where
  "from_impls_header = text_lines
      [(0, ''use crate::asn1::{oids, error::AnchorAsn1Error};''),
       (0, ''use crate::generated::{Attribute, AttributeValue};''),
       (0, ''use keetanetwork_asn1::generated::iso20022::*;''),
       (0, ''use rasn::types::OctetString;''),
       (0, [])]"

definition generate_attribute_from_impl :: "char_tables \<Rightarrow> json \<Rightarrow> files \<Rightarrow> files" where
  "generate_attribute_from_impl ct oids files =
     files(''src/generated/from_impls.rs'' \<mapsto>
       from_impls_header @ concat (map (attribute_from_impl ct) (object_of (json_at oids ''sensitive_attributes''))))"

section \<open>Builders of named attributes\<close>

record named_attribute =
  na_name :: string
  na_oid_comment :: string
  na_sensitive :: bool
  na_source :: string
  na_type :: string

definition named_attributes_of :: "json \<Rightarrow> bool \<Rightarrow> string \<Rightarrow> string \<Rightarrow> named_attribute list" where
  "named_attributes_of attrs is_sensitive source default_type =
     filter_map (\<lambda>(name, info). map_option (\<lambda>oid_array.
         \<lparr>na_name = name, na_oid_comment = format_oid_comment oid_array, na_sensitive = is_sensitive, na_source = source,
          na_type = str_or default_type (json_at info ''type'')\<rparr>) (as_array (json_at info ''oid''))) (object_of attrs)"

definition all_named_attributes :: "json \<Rightarrow> named_attribute list" where
  "all_named_attributes oids =
     sort_key na_name (named_attributes_of (json_at oids ''plain_attributes'') False ''plain'' ''UTF8String''
       @ named_attributes_of (json_at oids ''sensitive_attributes'') True ''sensitive'' ''Unknown'')"

definition method_name :: "char_tables \<Rightarrow> named_attribute \<Rightarrow> string" where
  "method_name ct a = ''for_'' @ camel_to_snake_case ct (na_name a)"

definition const_name :: "char_tables \<Rightarrow> named_attribute \<Rightarrow> string" where
  "const_name ct a =
     (if na_source a = ''plain'' then
        if na_name a = ''postalCode'' then ''oids::ADDRESS_POSTAL_CODE''
        else ''oids::ADDRESS_'' @ to_uppercase (ct_upper ct) (na_name a)
      else ''oids::keeta::'' @ camel_to_snake_upper ct (na_name a))"

definition method_text :: "string \<Rightarrow> string \<Rightarrow> string \<Rightarrow> string \<Rightarrow> string" where
  "method_text attr_name sensitivity method constant = text_lines
      [(1, ''/// Create a '' @ attr_name @ '' attribute ('' @ sensitivity @ '')''),
       (1, ''///''),
       (1, ''/// Creates a '' @ sensitivity @ '' attribute for '' @ attr_name @ '' with the predefined OID.''),
       (1, ''///''),
       (1, ''/// # Arguments''),
       (1, ''///''),
       (1, ''/// - `value` - The attribute value as bytes''),
       (1, ''fn '' @ method @ ''<V: AsRef<[u8]>>(value: V) -> Attribute {''),
       (2, ''Self::default()''),
       (3, ''.with_oid('' @ constant @ '')''),
       (3, ''.with_value(value)''),
       (3, ''.as_'' @ sensitivity @ ''()''),
       (3, ''.build()''),
       (3, ''.expect(\"Failed to build '' @ attr_name @ '' attribute\")''),
       (1, ''}''),
       (0, [])]"

definition builder_method :: "char_tables \<Rightarrow> named_attribute \<Rightarrow> string" where
  "builder_method ct a =
     (if na_type a = ''SEQUENCE'' \<or> na_type a = ''CHOICE'' then []
      else method_text (na_name a) (if na_sensitive a then ''sensitive'' else ''plain'') (method_name ct a) (const_name ct a))"

definition builder_header_text :: string where
  "builder_header_text = text_lines
      [(0, ''//! Generated trait extension for AttributeBuilderLike with typed methods''),
       (0, ''//!''),
       (0, ''//! This module provides a trait extension that adds `for_*` methods for all''),
       (0, ''//! available KYC attributes, making the builder API more ergonomic and type-safe.''),
       (0, []),
       (0, ''use crate::kyc_schema::builder::AttributeBuilderLike;''),
       (0, ''use crate::generated::Attribute;''),
       (0, ''use crate::asn1::oids;''),
       (0, []),
       (0, ''/// Extension trait for [`AttributeBuilderLike`] providing typed methods for KYC attributes.''),
       (0, ''///''),
       (0, ''/// This trait extends the basic [`AttributeBuilderLike`] functionality with convenience''),
       (0, ''/// methods for creating attributes with predefined OIDs. Each method is infallible''),
       (0, ''/// and will panic if the attribute cannot be created.''),
       (0, ''pub trait AttributeBuilderExtensions: AttributeBuilderLike + Sized {'')]"

definition builder_tests_text :: string where
  "builder_tests_text = text_lines
      [(0, ''// Implement the extension trait for any type that implements AttributeBuilderLike''),
       (0, ''impl<T: AttributeBuilderLike> AttributeBuilderExtensions for T {}''),
       (0, []),
       (0, ''#[cfg(test)]''),
       (0, ''mod tests {''),
       (1, ''use super::*;''),
       (1, ''use crate::kyc_schema::builder::AttributeBuilder;''),
       (0, []),
       (1, ''struct AttributeTestData {''),
       (2, ''method_name: &'static str,''),
       (2, ''test_value: &'static [u8],''),
       (2, ''expected_sensitivity: bool,''),
       (1, ''}''),
       (0, []),
       (1, ''const ATTRIBUTE_TEST_DATA: &[AttributeTestData] = &['')]"

definition show_bool :: "bool \<Rightarrow> string" where
  "show_bool b = (if b then ''true'' else ''false'')"

definition test_data_text :: "string \<Rightarrow> string \<Rightarrow> string \<Rightarrow> string" where
  "test_data_text method attr_name is_sensitive = text_lines
      [(2, ''AttributeTestData {''),
       (3, ''method_name: \"'' @ method @ ''\",''),
       (3, ''test_value: b\"test_'' @ attr_name @ ''_value\",''),
       (3, ''expected_sensitivity: '' @ is_sensitive @ '','')] @ tabs 2 (''}'')"

definition test_function_text :: string where
  "test_function_text = text_lines
      [(0, []),
       (1, ''];''),
       (0, []),
       (1, ''#[test]''),
       (1, ''fn test_all_attribute_builder_extensions() {''),
       (2, ''for test_data in ATTRIBUTE_TEST_DATA {''),
       (3, ''// Test that each method exists and works correctly''),
       (3, ''let result = match test_data.method_name {'')]"

definition test_arm_text :: "string \<Rightarrow> string" where
  "test_arm_text method = text_lines
      [(4, ''\"'' @ method @ ''\" => AttributeBuilder::'' @ method @ ''(test_data.test_value),'')]"

definition test_end_text :: string where
  "test_end_text = text_lines
      [(4, ''_ => panic!(\"Unknown method: {}\", test_data.method_name),''),
       (3, ''};''),
       (0, []),
       (3, ''// Verify the attribute was created correctly''),
       (3, ''assert_eq!(result.is_sensitive(), test_data.expected_sensitivity, ''),
       (4, ''\"Method {} should create {} attribute\", ''),
       (4, ''test_data.method_name, ''),
       (4, ''if test_data.expected_sensitivity { \"sensitive\" } else { \"plain\" }''),
       (3, '');''),
       (0, []),
       (3, ''// Verify the value was set correctly''),
       (3, ''let expected_value = test_data.test_value;''),
       (3, ''let actual_value = result.as_ref();''),
       (3, ''assert_eq!(actual_value, expected_value,''),
       (4, ''\"Method {} should set value correctly\", test_data.method_name''),
       (3, '');''),
       (2, ''}''),
       (1, ''}'')]"

definition test_count_text :: "string \<Rightarrow> string" where
  "test_count_text testable_count = text_lines
      [(0, []),
       (1, ''#[test]''),
       (1, ''fn test_method_count() {''),
       (2, ''// Ensure we have the expected number of testable methods (simple types only)''),
       (2, ''assert_eq!(ATTRIBUTE_TEST_DATA.len(), '' @ testable_count @ '', ''),
       (3, ''\"Expected '' @ testable_count @ '' testable attribute methods\"); ''),
       (1, ''}''),
       (0, ''}'')]"

definition builder_ext_text :: "char_tables \<Rightarrow> named_attribute list \<Rightarrow> string" where
  "builder_ext_text ct attrs =
     (let testable = filter (\<lambda>a. scalar_type (na_type a)) attrs in
      builder_header_text @ concat (map (builder_method ct) attrs) @ ''}'' @ newline @ newline @ builder_tests_text
      @ join_parts ('','' @ newline) (map (\<lambda>a. test_data_text (method_name ct a) (na_name a) (show_bool (na_sensitive a))) testable)
      @ test_function_text @ concat (map (\<lambda>a. test_arm_text (method_name ct a)) testable) @ test_end_text
      @ test_count_text (show_nat (length testable)))"

definition generate_builder_trait_extension :: "char_tables \<Rightarrow> json \<Rightarrow> files \<Rightarrow> string + files" where
  "generate_builder_trait_extension ct oids files =
     update_generated_rs_with_builder_trait
       (files(''src/generated/builder_ext.rs'' \<mapsto> builder_ext_text ct (all_named_attributes oids)))"

section \<open>The build\<close>

text \<open>After the ASN.1 compiler: \<open>compiled\<close> is its error or the files it leaves.\<close>

definition build_main :: "nat \<Rightarrow> char_tables \<Rightarrow> json \<Rightarrow> string + files \<Rightarrow> (string + files) option" where
  "build_main n ct oids compiled =
     (case bindR (map_err (\<lambda>e. ''ASN.1 compilation failed: '' @ e) compiled) (\<lambda>files.
           bindR (generate_builder_trait_extension ct oids (generate_attribute_from_impl ct oids files)) (\<lambda>files.
           generate_attribute_value_types oids files)) of
        Inl e \<Rightarrow> Some (Inl e)
      | Inr files \<Rightarrow> generate_iso20022_schema n ct oids files)"

section \<open>Facts\<close>

text \<open>A module is declared once: declaring it again changes nothing.\<close>

lemma str_contains_append: "str_contains pat (xs @ pat @ ys)"
proof (induction xs)
  case Nil
  have "starts_with pat (pat @ ys)" by (simp add: starts_with_def strip_prefix_append)
  then show ?case by (cases "pat @ ys") auto
qed simp

lemma declare_module_once:
  "declare_module module public (declare_module module public content) = declare_module module public content"
  using str_contains_append [of "if public then ''pub mod '' @ module @ '';'' else ''mod '' @ module @ '';''"
      "trim_end content @ newline @ (''#[path = '' @ quoted (''generated/'' @ module @ ''.rs'') @ '']'') @ newline" newline]
  by (simp add: declare_module_def Let_def)

lemma declare_serde_module_once:
  "declare_serde_module module (declare_serde_module module content) = declare_serde_module module content"
  using str_contains_append [of "''pub mod '' @ module @ '';''"
      "trim_end content @ newline @ ''#[cfg(feature = '' @ quoted ''serde'' @ '')]'' @ newline
        @ ''#[path = '' @ quoted (''generated/'' @ module @ ''.rs'') @ '']'' @ newline" newline]
  by (simp add: declare_serde_module_def Let_def)

text \<open>The registry has every identifier once, with the entry that comes first, plain attributes before sensitive ones.\<close>

lemma dedup_keys_sorted:
  "sorted (map fst kvs) \<Longrightarrow> sorted_wrt (<) (map fst (dedup_keys kvs)) \<and> fst ` set (dedup_keys kvs) \<subseteq> fst ` set kvs"
proof (induction kvs rule: dedup_keys.induct)
  case (1 k v k' v' kvs)
  show ?case
  proof (cases "k = k'")
    case True
    with "1.IH"(1) "1.prems" show ?thesis by auto
  next
    case False
    note rest = "1.IH"(2) [OF False]
    have "sorted (map fst ((k', v') # kvs))" "\<forall>l \<in> fst ` set ((k', v') # kvs). k < l"
      using "1.prems" False by (auto simp: order_less_le)
    with rest have "\<forall>l \<in> fst ` set (dedup_keys ((k', v') # kvs)). k < l"
      "sorted_wrt (<) (map fst (dedup_keys ((k', v') # kvs)))"
      "fst ` set (dedup_keys ((k', v') # kvs)) \<subseteq> fst ` set ((k', v') # kvs)" by blast+
    with False show ?thesis by (auto simp del: image_subset_iff)
  qed
qed simp_all

lemma map_of_dedup_keys: "map_of (dedup_keys kvs) = map_of kvs"
  by (induction kvs rule: dedup_keys.induct) (auto simp: fun_eq_iff)

lemma map_of_sort_key: "map_of (sort_key fst kvs) = map_of kvs" for kvs :: "('k::linorder \<times> 'v) list"
proof
  fix k
  have by_key: "map_of xs k = map_of (filter (\<lambda>kv. fst kv = k) xs) k" for xs :: "('k \<times> 'v) list"
    by (induction xs) auto
  have "map_of (sort_key fst kvs) k = map_of (filter (\<lambda>kv. fst kv = k) (sort_key fst kvs)) k" by (rule by_key)
  also have "\<dots> = map_of (filter (\<lambda>kv. fst kv = k) kvs) k" by (simp only: sort_key_stable)
  also have "\<dots> = map_of kvs k" by (rule by_key [symmetric])
  finally show "map_of (sort_key fst kvs) k = map_of kvs k" .
qed

lemma value_type_registry_exact:
  "sorted_wrt (<) (map fst (value_type_registry oids))"
  "map_of (value_type_registry oids) =
     map_of (value_type_entries (json_at oids ''plain_attributes'') ''UTF8String''
       @ value_type_entries (json_at oids ''sensitive_attributes'') ''UTF8String'')"
  unfolding value_type_registry_def
  by (rule conjunct1 [OF dedup_keys_sorted]) (simp_all only: sorted_sort_key map_of_dedup_keys map_of_sort_key)

end
