(* ===== verification/SchemaGeneratorProps.thy ===== *)
theory SchemaGeneratorProps
  imports SchemaGenerator
begin

text \<open>
  The schema generator returns whenever no type is an alias of itself, and what it generates hangs together: every
  builder that is called is defined, and none is defined twice.
\<close>

section \<open>Calls\<close>

fun code_calls :: "schema_code \<Rightarrow> string set" where
  "code_calls (CSequenceOf e) = code_calls e"
| "code_calls (CContext _ e) = code_calls e"
| "code_calls (CChoice es) = \<Union> (set (map code_calls es))"
| "code_calls (COptional e) = code_calls e"
| "code_calls (CStruct ms) = \<Union> (set (map (\<lambda>(_, e). code_calls e) ms))"
| "code_calls (CCall f) = {f}"
| "code_calls _ = {}"

text \<open>From one state of the generator to a later one: the builders added are those of the names visited since, each of
  them once, and they call visited names only.\<close>

definition grew :: "generator_state \<Rightarrow> generator_state \<Rightarrow> bool" where
  "grew st st' \<longleftrightarrow> gs_visited st \<subseteq> gs_visited st' \<and>
     (\<exists>new. gs_builders st' = gs_builders st @ new \<and> distinct (map fst new)
        \<and> set (map fst new) = gs_visited st' - gs_visited st
        \<and> (\<forall>(f, body) \<in> set new. code_calls body \<subseteq> gs_visited st'))"

lemma grew_refl: "grew st st"
  by (simp add: grew_def)

lemma grew_visited: "grew st st' \<Longrightarrow> gs_visited st \<subseteq> gs_visited st'"
  by (simp add: grew_def)

lemma grew_trans:
  assumes "grew a b" "grew b c"
  shows "grew a c"
proof -
  from assms obtain x y where x: "gs_builders b = gs_builders a @ x" "distinct (map fst x)"
      "set (map fst x) = gs_visited b - gs_visited a" "\<forall>(f, body) \<in> set x. code_calls body \<subseteq> gs_visited b"
    and y: "gs_builders c = gs_builders b @ y" "distinct (map fst y)"
      "set (map fst y) = gs_visited c - gs_visited b" "\<forall>(f, body) \<in> set y. code_calls body \<subseteq> gs_visited c"
    and v: "gs_visited a \<subseteq> gs_visited b" "gs_visited b \<subseteq> gs_visited c"
    unfolding grew_def by blast
  have "distinct (map fst (x @ y))" using x(2,3) y(2,3) by auto
  moreover have "set (map fst (x @ y)) = gs_visited c - gs_visited a" using x(3) y(3) v by auto
  moreover have "\<forall>(f, body) \<in> set (x @ y). code_calls body \<subseteq> gs_visited c" using x(4) y(4) v by fastforce
  ultimately show ?thesis
    unfolding grew_def using x(1) y(1) v by (intro conjI exI [of _ "x @ y"]) simp_all
qed

text \<open>A step of the generator is sound: it only grows the state, and its result calls visited names.\<close>

definition sound :: "('x \<Rightarrow> string set) \<Rightarrow> 'x generating \<Rightarrow> bool" where
  "sound calls m \<longleftrightarrow> (\<forall>st x st'. m st = Some (Inr (x, st')) \<longrightarrow> grew st st' \<and> calls x \<subseteq> gs_visited st')"

lemma soundD: "sound calls m \<Longrightarrow> m st = Some (Inr (x, st')) \<Longrightarrow> grew st st' \<and> calls x \<subseteq> gs_visited st'"
  by (simp add: sound_def)

lemma bind_gen_Inr:
  "bind_gen m f = Some (Inr r) \<longleftrightarrow> (\<exists>x st. m = Some (Inr (x, st)) \<and> f x st = Some (Inr r))"
  by (auto simp: bind_gen_def split: option.splits sum.splits)

lemma gen_return_Inr [simp]: "gen_return x st = Some (Inr (y, st')) \<longleftrightarrow> y = x \<and> st' = st"
  by (auto simp: gen_return_def)

lemma gen_panic_Inr [simp]: "gen_panic e st \<noteq> Some (Inr r)"
  by (simp add: gen_panic_def)

lemma sound_return: "calls x = {} \<Longrightarrow> sound calls (gen_return x)"
  by (auto simp: sound_def grew_refl)

lemma sound_map:
  assumes "\<And>a. sound calls (f a)"
  shows "sound (\<lambda>xs. \<Union> (set (map calls xs))) (gen_map f as)"
proof (induction as)
  case (Cons a as)
  show ?case
    unfolding sound_def
  proof (intro allI impI)
    fix st r st'
    assume "gen_map f (a # as) st = Some (Inr (r, st'))"
    then obtain x u xs where r: "f a st = Some (Inr (x, u))" "gen_map f as u = Some (Inr (xs, st'))" "r = x # xs"
      by (auto simp: bind_gen_Inr)
    note x = soundD [OF assms r(1)] and xs = soundD [OF Cons r(2)]
    have "grew st st'" using x xs grew_trans by blast
    moreover have "calls x \<subseteq> gs_visited st'" using x xs grew_visited [of u st'] by blast
    ultimately show "grew st st' \<and> \<Union> (set (map calls r)) \<subseteq> gs_visited st'" using xs r(3) by simp
  qed
qed (simp add: sound_def grew_refl)

section \<open>Soundness of the generator\<close>

definition choice_member :: "(string \<Rightarrow> schema_code generating) \<Rightarrow> nat \<times> json \<Rightarrow> schema_code generating" where
  "choice_member member entry st =
     bind_gen (member (alias_type (snd entry)) st) (\<lambda>inner. gen_return (CContext (fst entry) inner))"

lemma choice_body_members:
  "choice_body member choice st =
     bind_gen (gen_map (choice_member member) (enumerate 0 (map snd (object_of (json_at choice ''choices'')))) st)
       (\<lambda>parts. gen_return (CChoice parts))"
  by (simp add: choice_body_def choice_member_def [abs_def] case_prod_unfold)

lemma choice_member_sound: "(\<And>x. sound code_calls (member x)) \<Longrightarrow> sound code_calls (choice_member member entry)"
  unfolding sound_def by (fastforce simp: choice_member_def bind_gen_Inr)

lemma choice_body_sound:
  assumes "\<And>x. sound code_calls (member x)"
  shows "sound code_calls (choice_body member choice)"
proof -
  note all = sound_map [where calls = code_calls, OF choice_member_sound [OF assms]]
  show ?thesis unfolding sound_def by (auto simp: choice_body_members bind_gen_Inr dest!: soundD [OF all])
qed

lemma struct_member_sound:
  assumes "\<And>x. sound code_calls (member x)"
  shows "sound (\<lambda>(_, e). code_calls e) (struct_member member choice flds has_optional entry)"
  unfolding sound_def
  by (cases entry) (auto simp: struct_member_def bind_gen_Inr Let_def dest!: soundD [OF assms] split: option.splits if_splits)

lemma struct_body_sound:
  assumes "\<And>x. sound code_calls (member x)"
  shows "sound code_calls (struct_body member choice def)"
proof -
  have all: "sound (\<lambda>xs. \<Union> (set (map (\<lambda>(_, e). code_calls e) xs))) (gen_map (struct_member member choice flds some) as)"
    for flds some as
    by (rule sound_map) (rule struct_member_sound [OF assms])
  show ?thesis
    unfolding sound_def
    by (auto simp: struct_body_def Let_def bind_gen_Inr dest!: soundD [OF all] split: option.splits)
qed

lemma ensure_builder_sound:
  assumes "\<And>x. sound code_calls (member x)"
  shows "sound (\<lambda>f. {f}) (ensure_builder member choice t x)"
  unfolding sound_def
proof (intro allI impI)
  fix st f st'
  let ?f = "builder_name t x"
  assume run: "ensure_builder member choice t x st = Some (Inr (f, st'))"
  show "grew st st' \<and> {f} \<subseteq> gs_visited st'"
  proof (cases "?f \<in> gs_visited st")
    case True
    with run show ?thesis by (simp add: ensure_builder_def grew_refl)
  next
    case False
    let ?st = "st\<lparr>gs_visited := insert ?f (gs_visited st)\<rparr>"
    from run False obtain body u where b: "define_body member choice t x ?st = Some (Inr (body, u))"
        and r: "f = ?f" "st' = u\<lparr>gs_builders := gs_builders u @ [(?f, body)]\<rparr>"
      by (auto simp: ensure_builder_def Let_def bind_gen_Inr)
    have "grew ?st u \<and> code_calls body \<subseteq> gs_visited u"
      using b soundD [OF choice_body_sound [OF assms]] soundD [OF struct_body_sound [OF assms]]
      by (auto simp: define_body_def split: option.splits)
    then obtain new where n: "gs_builders u = gs_builders st @ new" "distinct (map fst new)"
        "set (map fst new) = gs_visited u - insert ?f (gs_visited st)" "\<forall>(f, body) \<in> set new. code_calls body \<subseteq> gs_visited u"
      and v: "insert ?f (gs_visited st) \<subseteq> gs_visited u" "code_calls body \<subseteq> gs_visited u"
      by (auto simp: grew_def)
    have "distinct (map fst (new @ [(?f, body)]))" using n(2,3) by auto
    moreover have "set (map fst (new @ [(?f, body)])) = gs_visited st' - gs_visited st" using n(3) v(1) False r by auto
    ultimately show ?thesis
      unfolding grew_def using n v r by (intro conjI exI [of _ "new @ [(?f, body)]"]) auto
  qed
qed

lemma member_step_sound:
  assumes "\<And>x. sound code_calls (member x)"
  shows "sound code_calls (member_step member choice t x)"
proof -
  have call: "sound code_calls (call_builder member choice t y)" for y
    unfolding sound_def by (auto simp: call_builder_def bind_gen_Inr dest!: soundD [OF ensure_builder_sound [OF assms]])
  have none: "keyword_code y = Some c \<Longrightarrow> code_calls c = {}" for y c by (auto simp: keyword_code_def split: if_splits)
  show ?thesis
    unfolding sound_def
    by (auto simp: member_step_def Let_def bind_gen_Inr grew_refl none dest!: soundD [OF assms] soundD [OF call]
        split: option.splits if_splits)
qed

lemma member_expr_sound: "sound code_calls (member_expr n t x)"
  by (induction n arbitrary: x) (simp_all add: member_step_sound, simp add: sound_def)

section \<open>Fuel\<close>

text \<open>More fuel does not change a result, and some fuel gives one.\<close>

definition rises :: "(nat \<Rightarrow> 'r option) \<Rightarrow> bool" where
  "rises m \<longleftrightarrow> (\<forall>i j r. i \<le> j \<longrightarrow> m i = Some r \<longrightarrow> m j = Some r)"

definition returns :: "(nat \<Rightarrow> 'r option) \<Rightarrow> bool" where
  "returns m \<longleftrightarrow> (\<exists>n. m n \<noteq> None)"

named_theorems fuelled

lemma rises_const [fuelled]: "rises (\<lambda>_. r)"
  by (simp add: rises_def)

lemma rises_bind [fuelled]:
  "rises m \<Longrightarrow> (\<And>x st. rises (\<lambda>n. f n x st)) \<Longrightarrow> rises (\<lambda>n. bind_gen (m n) (f n))"
  unfolding rises_def bind_gen_def by (fastforce split: option.splits sum.splits)

lemma rises_option [fuelled]:
  "rises c \<Longrightarrow> (\<And>b. rises (\<lambda>n. f n b)) \<Longrightarrow> rises (\<lambda>n. case c n of None \<Rightarrow> None | Some b \<Rightarrow> f n b)"
  unfolding rises_def by (fastforce split: option.splits)

lemma rises_if [fuelled]: "rises m \<Longrightarrow> rises m' \<Longrightarrow> rises (\<lambda>n. if b then m n else m' n)"
  by (cases b) simp_all

lemma rises_gen_map [fuelled]:
  assumes "\<And>a st. rises (\<lambda>n. f n a st)"
  shows "rises (\<lambda>n. gen_map (f n) as st)"
  by (induction as arbitrary: st) (auto simp: assms intro!: fuelled)

lemma returns_const: "r \<noteq> None \<Longrightarrow> returns (\<lambda>_. r)"
  by (simp add: returns_def)

lemma returns_if: "(b \<Longrightarrow> returns m) \<Longrightarrow> (\<not> b \<Longrightarrow> returns m') \<Longrightarrow> returns (\<lambda>n. if b then m n else m' n)"
  by (cases b) simp_all

lemma returns_bind:
  assumes "rises m" "returns m" "\<And>x st. rises (\<lambda>n. f n x st)"
    and "\<And>n x st. m n = Some (Inr (x, st)) \<Longrightarrow> returns (\<lambda>n. f n x st)"
  shows "returns (\<lambda>n. bind_gen (m n) (f n))"
proof -
  from assms(2) obtain n r where n: "m n = Some r" by (auto simp: returns_def)
  show ?thesis
  proof (cases r)
    case (Inl e)
    with n show ?thesis by (auto simp: returns_def bind_gen_def intro!: exI [of _ n])
  next
    case (Inr q)
    obtain x st where q: "q = (x, st)" by (cases q)
    with assms(4) n Inr obtain k y where "f k x st = Some y" by (fastforce simp: returns_def)
    with assms(3) have "f (max n k) x st = Some y" by (metis rises_def max.cobounded2)
    moreover have "m (max n k) = Some r" using assms(1) n by (metis rises_def max.cobounded1)
    ultimately show ?thesis using Inr q by (auto simp: returns_def bind_gen_def intro!: exI [of _ "max n k"])
  qed
qed

lemma returns_option:
  assumes "rises c" "returns c" "\<And>b. rises (\<lambda>n. f n b)" "\<And>b. returns (\<lambda>n. f n b)"
  shows "returns (\<lambda>n. case c n of None \<Rightarrow> None | Some b \<Rightarrow> f n b)"
proof -
  from assms(2,4) obtain n b k y where "c n = Some b" "f k b = Some y" by (fastforce simp: returns_def)
  with assms(1,3) have "c (max n k) = Some b" "f (max n k) b = Some y" by (metis rises_def max.cobounded1 max.cobounded2)+
  then show ?thesis by (auto simp: returns_def intro!: exI [of _ "max n k"])
qed

lemma returns_Suc: "returns (\<lambda>n. m (Suc n)) \<Longrightarrow> returns m"
  by (auto simp: returns_def)

subsection \<open>More fuel\<close>

lemma choice_step_rises:
  assumes "\<And>x. rises (\<lambda>n. again n x)"
  shows "rises (\<lambda>n. choice_step (again n) t x)"
  by (cases "map_of (sg_choices t) (trim x)"; cases "map_of (sg_primitives t) (trim x)";
      cases "map_of (sg_sensitive_by_token t) (trim x)") (auto simp: choice_step_def Let_def intro!: fuelled assms)

text \<open>Two approximations in a row are a rising sequence.\<close>

lemma rises_pair: "(\<And>r. a = Some r \<Longrightarrow> b = Some r) \<Longrightarrow> rises (\<lambda>n. if n = 0 then a else b)"
  by (auto simp: rises_def)

lemma rises_SucI:
  assumes "\<And>i r. m i = Some r \<Longrightarrow> m (Suc i) = Some r"
  shows "rises m"
proof -
  have "m j = Some r" if "i \<le> j" "m i = Some r" for i j r using that by (induction j rule: dec_induct) (auto intro: assms)
  then show ?thesis by (auto simp: rises_def)
qed

lemma is_choice_type_rises [fuelled]: "rises (\<lambda>n. is_choice_type n t x)"
proof (rule rises_SucI)
  show "is_choice_type i t x = Some r \<Longrightarrow> is_choice_type (Suc i) t x = Some r" for i r
  proof (induction i arbitrary: x r)
    case (Suc i)
    let ?again = "\<lambda>n x. if n = 0 then is_choice_type i t x else is_choice_type (Suc i) t x"
    have "rises (\<lambda>n. choice_step (?again n) t x)" by (intro choice_step_rises rises_pair Suc.IH)
    from this [unfolded rises_def, rule_format, of 0 1 r] Suc.prems show ?case by simp
  qed simp
qed

lemma struct_member_rises:
  assumes "\<And>x st. rises (\<lambda>n. member n x st)" "\<And>x. rises (\<lambda>n. choice n x)"
  shows "rises (\<lambda>n. struct_member (member n) (choice n) flds has_optional entry st)"
proof (cases "map_of flds (snd entry)")
  case (Some fd)
  then show ?thesis
    by (cases entry) (auto simp: struct_member_def Let_def intro!: fuelled assms)
qed (cases entry, simp add: struct_member_def fuelled)

lemma choice_body_rises:
  assumes "\<And>x st. rises (\<lambda>n. member n x st)"
  shows "rises (\<lambda>n. choice_body (member n) c st)"
  unfolding choice_body_def Let_def case_prod_unfold by (intro fuelled assms)

lemma struct_body_rises:
  assumes "\<And>x st. rises (\<lambda>n. member n x st)" "\<And>x. rises (\<lambda>n. choice n x)"
  shows "rises (\<lambda>n. struct_body (member n) (choice n) def st)"
  by (cases "any_optional (object_of (json_at def ''fields'')) (field_names def)")
    (auto simp: struct_body_def Let_def intro!: fuelled struct_member_rises assms)

lemma define_body_rises:
  assumes "\<And>x st. rises (\<lambda>n. member n x st)" "\<And>x. rises (\<lambda>n. choice n x)"
  shows "rises (\<lambda>n. define_body (member n) (choice n) t x st)"
  by (cases "map_of (sg_choices t) x"; cases "struct_def t x")
    (auto simp: define_body_def intro!: fuelled choice_body_rises struct_body_rises assms)

lemma ensure_builder_rises:
  assumes "\<And>x st. rises (\<lambda>n. member n x st)" "\<And>x. rises (\<lambda>n. choice n x)"
  shows "rises (\<lambda>n. ensure_builder (member n) (choice n) t x st)"
  by (cases "builder_name t x \<in> gs_visited st")
    (auto simp: ensure_builder_def Let_def intro!: fuelled define_body_rises assms)

lemma member_step_rises:
  assumes "\<And>x st. rises (\<lambda>n. member n x st)" "\<And>x. rises (\<lambda>n. choice n x)"
  shows "rises (\<lambda>n. member_step (member n) (choice n) t x st)"
proof -
  have call: "rises (\<lambda>n. call_builder (member n) (choice n) t y st)" for y
    unfolding call_builder_def by (intro fuelled ensure_builder_rises assms)
  show ?thesis
    by (cases "strip_prefix ''SEQUENCE OF '' (trim x)"; cases "keyword_code (trim x)"; cases "named_type t (trim x)";
        cases "map_of (sg_enumerations t) (trim x)"; cases "map_of (sg_primitives t) (trim x)";
        cases "map_of (sg_sensitive_by_token t) (trim x)")
      (auto simp: member_step_def Let_def intro!: fuelled assms call)
qed

lemma member_expr_rises [fuelled]: "rises (\<lambda>n. member_expr n t x st)"
proof (rule rises_SucI)
  show "member_expr i t x st = Some r \<Longrightarrow> member_expr (Suc i) t x st = Some r" for i r
  proof (induction i arbitrary: x st r)
    case (Suc i)
    let ?member = "\<lambda>n x st. if n = 0 then member_expr i t x st else member_expr (Suc i) t x st"
    let ?choice = "\<lambda>n x. if n = 0 then is_choice_type i t x else is_choice_type (Suc i) t x"
    have "is_choice_type i t y = Some b \<Longrightarrow> is_choice_type (Suc i) t y = Some b" for y b
      using is_choice_type_rises [of t y, unfolded rises_def, rule_format, of i "Suc i" b] by simp
    then have "rises (\<lambda>n. member_step (?member n) (?choice n) t x st)"
      by (intro member_step_rises rises_pair Suc.IH)
    from this [unfolded rises_def, rule_format, of 0 1 r] Suc.prems show ?case by simp
  qed simp
qed

section \<open>Enough fuel\<close>

text \<open>What a type is another name for, or a sequence of.\<close>

definition alias_of :: "generator_tables \<Rightarrow> string \<Rightarrow> string \<Rightarrow> bool" where
  "alias_of t x y \<longleftrightarrow>
     strip_prefix ''SEQUENCE OF '' (trim x) = Some y
     \<or> (\<exists>p. map_of (sg_primitives t) (trim x) = Some p \<and> y = alias_type p)
     \<or> (\<exists>d. map_of (sg_sensitive_by_token t) (trim x) = Some d \<and> \<not> sequence_definition d \<and> y = alias_type d)"

text \<open>No type is, through others, an alias of itself.\<close>

definition aliases_ranked :: "(string \<Rightarrow> nat) \<Rightarrow> generator_tables \<Rightarrow> bool" where
  "aliases_ranked rank t \<longleftrightarrow> (\<forall>x y. alias_of t x y \<longrightarrow> rank y < rank x)"

lemma aliases_rankedD:
  assumes "aliases_ranked rank t"
  shows "strip_prefix ''SEQUENCE OF '' (trim x) = Some y \<Longrightarrow> rank y < rank x"
    and "map_of (sg_primitives t) (trim x) = Some p \<Longrightarrow> rank (alias_type p) < rank x"
    and "map_of (sg_sensitive_by_token t) (trim x) = Some d \<Longrightarrow> \<not> sequence_definition d \<Longrightarrow> rank (alias_type d) < rank x"
  using assms unfolding aliases_ranked_def alias_of_def by blast+

lemma is_choice_type_returns:
  assumes "aliases_ranked rank t"
  shows "returns (\<lambda>n. is_choice_type n t x)"
proof (induction "rank x" arbitrary: x rule: less_induct)
  case less
  note ranks = aliases_rankedD [OF assms, THEN less.hyps]
  have "returns (\<lambda>n. choice_step (is_choice_type n t) t x)"
  proof (cases "map_of (sg_choices t) (trim x)")
    case None
    note choices = this
    show ?thesis
    proof (cases "map_of (sg_primitives t) (trim x)")
      case None
      with choices ranks(3) show ?thesis
        by (cases "map_of (sg_sensitive_by_token t) (trim x)")
          (auto simp: choice_step_def Let_def intro!: returns_const returns_if)
    qed (simp add: choice_step_def Let_def choices ranks(2))
  qed (simp add: choice_step_def Let_def returns_const)
  then show ?case using returns_Suc [of "\<lambda>n. is_choice_type n t x"] by simp
qed

text \<open>The builders that can be visited.\<close>

definition builder_names :: "generator_tables \<Rightarrow> string set" where
  "builder_names t = builder_name t ` (dom (map_of (sg_choices t)) \<union> dom (map_of (sg_sequences t))
     \<union> dom (map_of (sg_ext_structs t)) \<union> dom (map_of (sg_sensitive_by_token t)))"

lemma finite_builder_names: "finite (builder_names t)"
  by (simp add: builder_names_def finite_dom_map_of)

definition unvisited :: "generator_tables \<Rightarrow> generator_state \<Rightarrow> nat" where
  "unvisited t st = card (builder_names t - gs_visited st)"

lemma unvisited_grew: "grew st st' \<Longrightarrow> unvisited t st' \<le> unvisited t st"
  using finite_builder_names [of t] grew_visited [of st st']
  by (auto simp: unvisited_def intro!: card_mono)

lemma unvisited_insert:
  assumes "f \<in> builder_names t" "f \<notin> gs_visited st"
  shows "unvisited t (st\<lparr>gs_visited := insert f (gs_visited st)\<rparr>) < unvisited t st"
  unfolding unvisited_def by (rule psubset_card_mono) (use finite_builder_names assms in auto)

text \<open>A list is run through when each of its steps returns in the states the earlier ones lead to.\<close>

lemma gen_map_returns:
  assumes rises: "\<And>a st. rises (\<lambda>n. f n a st)" and sound: "\<And>n a. sound calls (f n a)"
    and steps: "\<And>a st. a \<in> set as \<Longrightarrow> unvisited t st \<le> k \<Longrightarrow> returns (\<lambda>n. f n a st)"
    and "unvisited t st \<le> k"
  shows "returns (\<lambda>n. gen_map (f n) as st)"
  using steps \<open>unvisited t st \<le> k\<close>
proof (induction as arbitrary: st)
  case (Cons a as)
  have "returns (\<lambda>n. gen_map (f n) as u)" if "f n a st = Some (Inr (x, u))" for n x u
  proof (rule Cons.IH)
    from soundD [OF sound that] have "unvisited t u \<le> unvisited t st" by (intro unvisited_grew) simp
    with Cons.prems(2) show "unvisited t u \<le> k" by simp
  qed (simp add: Cons.prems(1))
  then show ?case
    by (auto simp: gen_return_def intro!: returns_bind fuelled rises returns_const Cons.prems)
qed (simp add: gen_return_def returns_const)

lemma returns_bind_return:
  assumes "rises m" "returns m"
  shows "returns (\<lambda>n. bind_gen (m n) (\<lambda>x. gen_return (g x)))"
  using assms by (intro returns_bind fuelled returns_const) (simp_all add: gen_return_def)

lemma define_body_returns:
  assumes ranked: "aliases_ranked rank t" and k: "unvisited t st \<le> k"
    and members: "\<And>x st. unvisited t st \<le> k \<Longrightarrow> returns (\<lambda>n. member_expr n t x st)"
  shows "returns (\<lambda>n. define_body (member_expr n t) (is_choice_type n t) t x st)"
proof -
  have "returns (\<lambda>n. gen_map (choice_member (member_expr n t)) as st)" for as
  proof (rule gen_map_returns [OF _ choice_member_sound [OF member_expr_sound] _ k])
    show "rises (\<lambda>n. choice_member (member_expr n t) a st)" for a st
      unfolding choice_member_def by (intro fuelled)
    show "returns (\<lambda>n. choice_member (member_expr n t) a u)" if "unvisited t u \<le> k" for a u
      unfolding choice_member_def by (intro returns_bind_return fuelled members that)
  qed
  then have choices: "returns (\<lambda>n. choice_body (member_expr n t) c st)" for c
    unfolding choice_body_members choice_member_def by (intro returns_bind_return fuelled)
  have "returns (\<lambda>n. gen_map (struct_member (member_expr n t) (is_choice_type n t) flds has_optional) as st)"
    for flds has_optional as
  proof (rule gen_map_returns [OF struct_member_rises struct_member_sound [OF member_expr_sound] _ k])
    show "returns (\<lambda>n. struct_member (member_expr n t) (is_choice_type n t) flds has_optional a u)"
      if u: "unvisited t u \<le> k" for a u
    proof (cases "map_of flds (snd a)")
      case (Some fd)
      then show ?thesis
        by (cases a) (auto simp: struct_member_def Let_def
            intro!: returns_option returns_bind_return fuelled members u is_choice_type_returns [OF ranked])
    qed (cases a, simp add: struct_member_def gen_panic_def returns_const)
  qed (intro fuelled)+
  then have structs: "returns (\<lambda>n. struct_body (member_expr n t) (is_choice_type n t) d st)" for d
    by (cases "any_optional (object_of (json_at d ''fields'')) (field_names d)")
      (auto simp: struct_body_def Let_def gen_panic_def
        intro!: returns_const returns_bind_return fuelled struct_member_rises)
  show ?thesis
    by (cases "map_of (sg_choices t) x"; cases "struct_def t x")
      (auto simp: define_body_def gen_panic_def intro!: choices structs returns_const)
qed

lemma call_builder_returns:
  assumes ranked: "aliases_ranked rank t" and name: "builder_name t x \<in> builder_names t"
    and members: "\<And>x u. unvisited t u < unvisited t st \<Longrightarrow> returns (\<lambda>n. member_expr n t x u)"
  shows "returns (\<lambda>n. call_builder (member_expr n t) (is_choice_type n t) t x st)"
proof -
  have "returns (\<lambda>n. ensure_builder (member_expr n t) (is_choice_type n t) t x st)"
  proof (cases "builder_name t x \<in> gs_visited st")
    case False
    let ?st = "st\<lparr>gs_visited := insert (builder_name t x) (gs_visited st)\<rparr>"
    have less: "unvisited t ?st < unvisited t st" by (rule unvisited_insert [OF name False])
    have "returns (\<lambda>n. define_body (member_expr n t) (is_choice_type n t) t x ?st)"
      by (rule define_body_returns [OF ranked order_refl]) (use members less in simp)
    with False show ?thesis
      by (simp add: ensure_builder_def Let_def) (intro returns_bind fuelled define_body_rises, auto simp: gen_return_def returns_const)
  qed (simp add: ensure_builder_def gen_return_def returns_const)
  then show ?thesis
    unfolding call_builder_def by (intro returns_bind_return ensure_builder_rises fuelled)
qed

lemma member_expr_returns:
  assumes ranked: "aliases_ranked rank t"
  shows "returns (\<lambda>n. member_expr n t x st)"
proof (induction "unvisited t st" arbitrary: x st rule: less_induct)
  case less
  note visited = less.hyps
  show ?case
  proof (induction "rank x" arbitrary: x rule: less_induct)
    case less
    note ranks = aliases_rankedD [OF ranked, THEN less.hyps]
    have call: "builder_name t y \<in> builder_names t
        \<Longrightarrow> returns (\<lambda>n. call_builder (member_expr n t) (is_choice_type n t) t y st)" for y
      by (rule call_builder_returns [OF ranked]) (use visited in auto)
    have "returns (\<lambda>n. member_step (member_expr n t) (is_choice_type n t) t x st)"
    proof (cases "strip_prefix ''SEQUENCE OF '' (trim x)")
      case (Some inner)
      with returns_bind_return [OF member_expr_rises ranks(1) [OF Some]] show ?thesis by (simp add: member_step_def)
    next
      case None
      note plain = this
      show ?thesis
      proof (cases "keyword_code (trim x) \<noteq> None \<or> named_type t (trim x) \<or> map_of (sg_enumerations t) (trim x) \<noteq> None")
        case True
        have "named_type t (trim x) \<Longrightarrow> builder_name t (trim x) \<in> builder_names t"
          by (auto simp: named_type_def builder_names_def)
        with plain True call [of "trim x"] show ?thesis
          by (cases "keyword_code (trim x)"; cases "named_type t (trim x)")
            (auto simp: member_step_def gen_return_def returns_const)
      next
        case False
        show ?thesis
        proof (cases "map_of (sg_primitives t) (trim x)")
          case (Some p)
          with plain False ranks(2) [OF Some] show ?thesis by (simp add: member_step_def)
        next
          case None
          note no_primitive = this
          show ?thesis
          proof (cases "map_of (sg_sensitive_by_token t) (trim x)")
            case (Some d)
            then have "builder_name t (trim x) \<in> builder_names t" by (auto simp: builder_names_def)
            with plain False no_primitive Some call ranks(3) [OF Some] show ?thesis
              by (cases "sequence_definition d") (simp_all add: member_step_def)
          qed (use plain False no_primitive in \<open>simp add: member_step_def gen_panic_def returns_const\<close>)
        qed
      qed
    qed
    then show ?case using returns_Suc [of "\<lambda>n. member_expr n t x st"] by simp
  qed
qed

section \<open>The generated module\<close>

definition token_arm :: "generator_tables \<Rightarrow> nat \<Rightarrow> string \<Rightarrow> (string \<times> schema_code) generating" where
  "token_arm t n token st = bind_gen (member_expr n t token st) (\<lambda>e. gen_return (token, e))"

lemma token_arm_sound: "sound (\<lambda>(_, e). code_calls e) (token_arm t n token)"
  unfolding sound_def by (auto simp: token_arm_def bind_gen_Inr dest!: soundD [OF member_expr_sound])

lemma token_arm_names:
  "gen_map (token_arm t n) tokens st = Some (Inr (arms, st')) \<Longrightarrow> map fst arms = tokens"
  by (induction tokens arbitrary: st arms) (auto simp: bind_gen_Inr token_arm_def)

lemma generate_schema_arms:
  "generate_schema n ct oids =
     (case gen_map (token_arm (schema_tables_new ct oids) n) (sort (structured_tokens oids)) generator_new of
        None \<Rightarrow> None
      | Some (Inl e) \<Rightarrow> Some (Inl e)
      | Some (Inr (arms, st)) \<Rightarrow> Some (Inr (arms, sort_key fst (gs_builders st))))"
  by (simp add: generate_schema_def token_arm_def [abs_def])

text \<open>What a generated module is to be: an arm per token, in order, and a builder per name that is called.\<close>

definition module_closed :: "string list \<Rightarrow> (string \<times> schema_code) list \<Rightarrow> (string \<times> schema_code) list \<Rightarrow> bool" where
  "module_closed tokens arms builders \<longleftrightarrow>
     map fst arms = tokens \<and> sorted_wrt (<) (map fst builders)
     \<and> (\<forall>(_, e) \<in> set (arms @ builders). code_calls e \<subseteq> fst ` set builders)"

lemma generated_closed:
  assumes "generate_schema n ct oids = Some (Inr (arms, builders))"
  shows "module_closed (sort (structured_tokens oids)) arms builders"
proof -
  let ?t = "schema_tables_new ct oids"
  from assms obtain st where run: "gen_map (token_arm ?t n) (sort (structured_tokens oids)) generator_new = Some (Inr (arms, st))"
      and b: "builders = sort_key fst (gs_builders st)"
    by (auto simp: generate_schema_arms split: option.splits sum.splits)
  from soundD [OF sound_map [OF token_arm_sound] run]
  have g: "grew generator_new st" and arms: "\<forall>(_, e) \<in> set arms. code_calls e \<subseteq> gs_visited st"
    by auto
  from g have new: "distinct (map fst (gs_builders st))" "fst ` set (gs_builders st) = gs_visited st"
      "\<forall>(_, body) \<in> set (gs_builders st). code_calls body \<subseteq> gs_visited st"
    by (auto simp: grew_def generator_new_def)
  have "distinct (map fst builders)" using new(1) by (simp add: b distinct_map)
  then have "sorted_wrt (<) (map fst builders)" by (simp add: b strict_sorted_iff)
  then show ?thesis
    using arms new token_arm_names [OF run] by (auto simp: module_closed_def b)
qed

lemma generate_schema_rises: "rises (\<lambda>n. generate_schema n ct oids)"
proof -
  have "rises (\<lambda>n. gen_map (token_arm (schema_tables_new ct oids) n) tokens generator_new)" for tokens
    unfolding token_arm_def [abs_def] by (intro fuelled)
  then show ?thesis
    unfolding generate_schema_arms rises_def by (fastforce split: option.splits)
qed

lemma generate_schema_returns:
  assumes "aliases_ranked rank (schema_tables_new ct oids)"
  shows "returns (\<lambda>n. generate_schema n ct oids)"
proof -
  let ?t = "schema_tables_new ct oids"
  have "returns (\<lambda>n. gen_map (token_arm ?t n) tokens generator_new)" for tokens
  proof (rule gen_map_returns [OF _ token_arm_sound _ order_refl])
    show "rises (\<lambda>n. token_arm ?t n token st)" for token st unfolding token_arm_def by (intro fuelled)
    show "returns (\<lambda>n. token_arm ?t n token st)" for token st
      unfolding token_arm_def by (intro returns_bind_return fuelled member_expr_returns [OF assms])
  qed
  then obtain n r where "gen_map (token_arm ?t n) (sort (structured_tokens oids)) generator_new = Some r"
    by (fastforce simp: returns_def)
  then show ?thesis
    by (auto simp: returns_def generate_schema_arms intro!: exI [of _ n] split: sum.splits)
qed

section \<open>Properties\<close>

text \<open>C40. The schema generator of the build ends, and what it generates hangs together. For every document of object
  identifiers in which no type is (through others) an alias of itself, types that contain themselves included, some
  amount of fuel is enough and more gives the same: either the build panics at a type or field that is not there, or
  the module has one arm per structured token, in order, its builders are strictly sorted by name (so none is defined
  twice), and every builder that an arm or a builder calls is among them.\<close>

theorem generated_schema_closed:
  assumes "aliases_ranked rank (schema_tables_new ct oids)"
  shows "\<exists>n r. (\<forall>m. n \<le> m \<longrightarrow> generate_schema m ct oids = Some r) \<and>
    (case r of Inl _ \<Rightarrow> True | Inr (arms, builders) \<Rightarrow> module_closed (sort (structured_tokens oids)) arms builders)"
proof -
  from generate_schema_returns [OF assms] obtain n r where n: "generate_schema n ct oids = Some r" by (auto simp: returns_def)
  with generate_schema_rises [of ct oids] have "\<forall>m. n \<le> m \<longrightarrow> generate_schema m ct oids = Some r" by (auto simp: rises_def)
  moreover have "case r of Inl _ \<Rightarrow> True | Inr (arms, builders) \<Rightarrow> module_closed (sort (structured_tokens oids)) arms builders"
    using n generated_closed by (auto split: sum.splits)
  ultimately show ?thesis by blast
qed

section \<open>A concrete document\<close>

text \<open>An address with an aliased text, a choice, and addresses inside.\<close>

definition toy_tables :: char_tables where
  "toy_tables = \<lparr>ct_is_upper = (\<lambda>_. False), ct_lower_first = (\<lambda>s. s), ct_upper_first = (\<lambda>s. s), ct_upper = (\<lambda>s. s)\<rparr>"

definition typed :: "string \<Rightarrow> json" where
  "typed ty = JObject [(''type'', JString ty)]"

definition toy_oids :: json where
  "toy_oids = JObject
     [(''iso20022_types'', JObject
        [(''choices'', JObject [(''HomeKind'', JObject [(''choices'', JObject [(''code'', typed ''Max35Text''), (''since'', typed ''GeneralizedTime'')])])]),
         (''primitives'', JObject [(''Max35Text'', typed ''UTF8String'')])]),
      (''sensitive_attributes'', JObject
        [(''address'', JObject
           [(''field_order'', JArray [JString ''street'', JString ''kind'', JString ''former'']),
            (''fields'', JObject
              [(''former'', JObject [(''optional'', JBool True), (''type'', JString ''SEQUENCE OF HomeAddress'')]),
               (''kind'', typed ''HomeKind''), (''street'', typed ''Max35Text'')]),
            (''token'', JString ''HomeAddress''), (''type'', JString ''SEQUENCE'')])])]"

lemma length_concat_dropWhile: "length (concat (dropWhile P xs)) \<le> length (concat xs)"
  by (induction xs) auto

lemma length_trim: "length (trim s) \<le> length s"
proof -
  have rev: "length (concat (rev xs)) = length (concat xs)" for xs :: "string list" by (simp add: length_concat rev_map [symmetric])
  have "length (concat (dropWhile Q (rev (dropWhile P xs)))) \<le> length (concat xs)" for P Q and xs :: "string list"
    by (metis length_concat_dropWhile order_trans rev)
  then show ?thesis unfolding trim_def trim_chars_def rev by (metis concat_utf8_chars)
qed

lemma length_strip_prefix: "strip_prefix p s = Some r \<Longrightarrow> length s = length p + length r"
  by (auto simp: strip_prefix_Some)

definition toy_rank :: "string \<Rightarrow> nat" where
  "toy_rank x = length x + (if trim x = ''Max35Text'' then 2 else 0)"

definition toy_address :: json where
  "toy_address = json_at (json_at toy_oids ''sensitive_attributes'') ''address''"

definition toy_kind :: json where
  "toy_kind = json_at (json_at (json_at toy_oids ''iso20022_types'') ''choices'') ''HomeKind''"

definition toy_t :: generator_tables where
  "toy_t = schema_tables_new toy_tables toy_oids"

lemma toy_t_sels:
  "sg_primitives toy_t = [(''Max35Text'', typed ''UTF8String'')]" "sg_choices toy_t = [(''HomeKind'', toy_kind)]"
  "sg_enumerations toy_t = []" "sg_sequences toy_t = []" "sg_ext_structs toy_t = []"
  "sg_sensitive_by_token toy_t = [(''HomeAddress'', toy_address)]" "sg_case toy_t = toy_tables"
  by (simp_all add: toy_t_def schema_tables_new_def toy_oids_def toy_address_def toy_kind_def object_of_def json_at_def map_from_def)

lemma toy_address_sels:
  "sequence_definition toy_address" "field_names toy_address = [''street'', ''kind'', ''former'']"
  "object_of (json_at toy_address ''fields'') =
     [(''former'', JObject [(''optional'', JBool True), (''type'', JString ''SEQUENCE OF HomeAddress'')]),
      (''kind'', typed ''HomeKind''), (''street'', typed ''Max35Text'')]"
  by (simp_all add: toy_address_def toy_oids_def json_at_def sequence_definition_def field_names_def object_of_def)

lemma toy_kind_sels:
  "object_of (json_at toy_kind ''choices'') = [(''code'', typed ''Max35Text''), (''since'', typed ''GeneralizedTime'')]"
  by (simp add: toy_kind_def toy_oids_def json_at_def object_of_def)

lemma typed_sels: "alias_type (typed ty) = ty" "\<not> is_optional_field (typed ty)"
  by (simp_all add: alias_type_def typed_def json_at_def str_or_default_def is_optional_field_def)

lemma trim_ascii:
  "list_all is_ascii s \<Longrightarrow> s \<noteq> [] \<Longrightarrow> \<not> whitespace_char [hd s] \<Longrightarrow> \<not> whitespace_char [last s] \<Longrightarrow> trim s = s"
  by (simp add: trim_def utf8_chars_ascii trim_chars_id hd_map last_map concat_map_singleton)

lemma toy_trims:
  "trim ''UTF8String'' = ''UTF8String''" "trim ''GeneralizedTime'' = ''GeneralizedTime''" "trim ''Max35Text'' = ''Max35Text''"
  "trim ''HomeKind'' = ''HomeKind''" "trim ''HomeAddress'' = ''HomeAddress''"
  "trim ''SEQUENCE OF HomeAddress'' = ''SEQUENCE OF HomeAddress''"
  by (simp_all add: trim_ascii is_ascii_def whitespace_char_def is_whitespace_def scalar_value_def)

lemma toy_ranked: "aliases_ranked toy_rank (schema_tables_new toy_tables toy_oids)"
proof -
  have "toy_rank y < toy_rank x" if named: "alias_of toy_t x y" for x y
  proof -
    consider "strip_prefix ''SEQUENCE OF '' (trim x) = Some y" | "trim x = ''Max35Text''" "y = ''UTF8String''"
      using named by (auto simp: alias_of_def toy_t_sels toy_address_sels typed_sels split: if_splits)
    then show ?thesis
    proof cases
      case 1
      from length_strip_prefix [OF this] length_trim [of x] show ?thesis by (simp add: toy_rank_def)
    next
      case 2
      with length_trim [of x] show ?thesis by (simp add: toy_rank_def toy_trims)
    qed
  qed
  then show ?thesis by (simp add: aliases_ranked_def toy_t_def)
qed

lemma toy_names:
  "builder_name toy_t ''HomeAddress'' = ''home_address_schema''" "builder_name toy_t ''HomeKind'' = ''home_kind_schema''"
proof -
  have "camel_to_snake_case toy_tables ''HomeAddress'' = ''home_address''" "camel_to_snake_case toy_tables ''HomeKind'' = ''home_kind''"
    by (simp_all add: camel_to_snake_case_def utf8_chars_ascii is_ascii_def snake_step_def char_is_uppercase_def
        char_lower_first_def on_ascii_def is_ascii_upper_def ascii_lower_def utf8_len_def char_of_def bit_Suc_0_iff)
  then show "builder_name toy_t ''HomeAddress'' = ''home_address_schema''" "builder_name toy_t ''HomeKind'' = ''home_kind_schema''"
    by (simp_all add: builder_name_def toy_t_sels)
qed

lemmas toy_simps = toy_t_sels toy_address_sels toy_kind_sels typed_sels toy_trims toy_names named_type_def keyword_code_def

lemma toy_choices:
  "is_choice_type (Suc n) toy_t ''HomeKind'' = Some True" "is_choice_type (Suc (Suc n)) toy_t ''Max35Text'' = Some False"
  "is_choice_type (Suc n) toy_t ''SEQUENCE OF HomeAddress'' = Some False"
  by (simp_all add: choice_step_def toy_simps)

lemma toy_scalars:
  "member_expr (Suc (Suc n)) toy_t ''Max35Text'' st = gen_return CUtf8 st"
  "member_expr (Suc n) toy_t ''GeneralizedTime'' st = gen_return CDate st"
  by (simp_all add: member_step_def toy_simps)

lemma toy_home_kind:
  "''home_kind_schema'' \<notin> gs_visited st \<Longrightarrow>
   member_expr (Suc (Suc (Suc n))) toy_t ''HomeKind'' st = gen_return (CCall ''home_kind_schema'')
     (st\<lparr>gs_visited := insert ''home_kind_schema'' (gs_visited st),
       gs_builders := gs_builders st @ [(''home_kind_schema'', CChoice [CContext 0 CUtf8, CContext 1 CDate])]\<rparr>)"
  unfolding member_expr.simps(2) [of "Suc (Suc n)"]
  by (simp add: member_step_def toy_simps call_builder_def ensure_builder_def define_body_def choice_body_def toy_scalars
      bind_gen_def gen_return_def enumerate_eq_zip Let_def del: member_expr.simps)

lemma toy_inner:
  "''home_address_schema'' \<in> gs_visited st \<Longrightarrow>
   member_expr (Suc (Suc n)) toy_t ''SEQUENCE OF HomeAddress'' st = gen_return (CSequenceOf (CCall ''home_address_schema'')) st"
  by (simp add: member_step_def toy_simps call_builder_def ensure_builder_def bind_gen_def gen_return_def)

lemma toy_optional_field:
  "is_optional_field (JObject [(''optional'', JBool True), (''type'', JString ty)])"
  "alias_type (JObject [(''optional'', JBool True), (''type'', JString ty)]) = ty"
  by (simp_all add: is_optional_field_def alias_type_def json_at_def str_or_default_def)

lemma toy_home_address:
  "member_expr (Suc (Suc (Suc (Suc n)))) toy_t ''HomeAddress'' generator_new = gen_return (CCall ''home_address_schema'')
     \<lparr>gs_visited = {''home_address_schema'', ''home_kind_schema''},
      gs_builders =
        [(''home_kind_schema'', CChoice [CContext 0 CUtf8, CContext 1 CDate]),
         (''home_address_schema'', CStruct
            [(''street'', CContext 0 CUtf8), (''kind'', CCall ''home_kind_schema''),
             (''former'', COptional (CContext 2 (CSequenceOf (CCall ''home_address_schema''))))])]\<rparr>"
  unfolding member_expr.simps(2) [of "Suc (Suc (Suc n))"]
  by (simp add: member_step_def toy_simps call_builder_def ensure_builder_def define_body_def struct_def_def struct_body_def
      struct_member_def toy_optional_field toy_choices toy_scalars toy_home_kind toy_inner generator_new_def bind_gen_def gen_return_def
      enumerate_eq_zip Let_def insert_commute del: member_expr.simps is_choice_type.simps)

lemma toy_generated:
  "generate_schema (Suc (Suc (Suc (Suc n)))) toy_tables toy_oids = Some (Inr
     ([(''HomeAddress'', CCall ''home_address_schema'')],
      [(''home_address_schema'', CStruct
         [(''street'', CContext 0 CUtf8), (''kind'', CCall ''home_kind_schema''),
          (''former'', COptional (CContext 2 (CSequenceOf (CCall ''home_address_schema''))))]),
       (''home_kind_schema'', CChoice [CContext 0 CUtf8, CContext 1 CDate])]))"
proof -
  have "structured_tokens toy_oids = [''HomeAddress'']"
    by (simp add: structured_tokens_def toy_oids_def json_at_def object_of_def scalar_type_def)
  then show ?thesis
    unfolding generate_schema_arms toy_t_def [symmetric]
    by (simp add: token_arm_def toy_home_address bind_gen_def gen_return_def del: member_expr.simps)
qed

theorem generated_schema_closed_witness:
  "\<exists>n r. (\<forall>m. n \<le> m \<longrightarrow> generate_schema m toy_tables toy_oids = Some r) \<and> r = Inr
     ([(''HomeAddress'', CCall ''home_address_schema'')],
      [(''home_address_schema'', CStruct
         [(''street'', CContext 0 CUtf8), (''kind'', CCall ''home_kind_schema''),
          (''former'', COptional (CContext 2 (CSequenceOf (CCall ''home_address_schema''))))]),
       (''home_kind_schema'', CChoice [CContext 0 CUtf8, CContext 1 CDate])])"
proof -
  from generated_schema_closed [OF toy_ranked] obtain n r where
    n: "\<forall>m. n \<le> m \<longrightarrow> generate_schema m toy_tables toy_oids = Some r" by blast
  then have "generate_schema (Suc (Suc (Suc (Suc n)))) toy_tables toy_oids = Some r" by simp
  with toy_generated [of n] n show ?thesis by auto
qed

end
