(* ===== verification/Spec2Isabelle.thy ===== *)
theory Spec2Isabelle
  imports RetryFacts Caller CanonicalInj Location Kyc Trust ContainerProps AssetClient CertificateProps SharableProps SharableClient TypedAttributes Registry AssetJsonProps HostContainerProps HostSharable HostNode ComponentObjects ComponentAssetProps BuildScript SchemaGeneratorProps
begin

text \<open>
  A verification library for the Rust workspace of the anchor client: the core crate
  \<open>keetanetwork-anchor\<close> (signing, containers, certificates), the client \<open>keetanetwork-anchor-client\<close> (transports,
  resolver, services), what the bindings \<open>keetanetwork-anchor-bindings\<close> add to them, and the two boundaries of
  \<open>keetanetwork-anchor-client-wasi\<close>, flat exports and a component. Paths below are relative to the \<open>src\<close> directory of their crate.

  \<^bold>\<open>How the parts interact.\<close> A service call of the client starts at the resolver, which reads the metadata
  documents of the root accounts, follows their \<open>ExternalURL\<close> indirections, verifies the signatures of the
  entries and projects them to providers. A provider names endpoints; the caller fills their templates, signs
  the request (core crate), sends it over a transport that may be paced and retried (resilience), and classifies
  the response. On the other side of the core crate a builder puts plain and sealed attributes into an X.509
  extension; a certificate gives them back, proves them and checks proofs; a sharable bundle takes a chosen part
  of them, seals it in an encrypted container for its recipients, and is opened and validated by these. The
  bindings keep such objects behind integer handles and reduce every error to a stable code.

  \<^bold>\<open>Conventions.\<close> A \<open>String\<close> and a \<open>Vec<u8>\<close> are a HOL string of bytes. \<open>u64\<close>, \<open>u32\<close> and \<open>u16\<close> are words with the
  saturating, checked and wrapping operations of the code; \<open>Result\<close> is a sum with the error on the left; a panic
  is the value \<open>None\<close> of the operations that can panic. A method on \<open>&mut self\<close> returns the object after it, also
  on its error paths. What the code does to the world outside (sending, sleeping, drawing random bytes) threads
  a world \<open>'w\<close>. Code of other crates is a field of a record of parameters (\<open>signing_env\<close>, \<open>url_ops\<close>,
  \<open>metadata_source\<close>, \<open>container_env\<close>, \<open>schema_env\<close>, \<open>oid_env\<close>, \<open>sensitive_env\<close>, \<open>cert_env\<close>, \<open>x509_ops\<close>,
  \<open>asset_env\<close>, \<open>cert_binding\<close>, \<open>abi\<close>, \<open>host_io\<close>, \<open>host_kit\<close>, \<open>crypto_ops\<close>), and what is relied on is a named hypothesis (\<open>..._laws\<close>) that an example instance satisfies.

  \<^bold>\<open>Foundations.\<close>
  \<^item> \<open>Prelude\<close>: words, results, \<open>mapM\<close>, the lemma collections \<open>rust_arith\<close> and \<open>result_elims\<close>.
  \<^item> \<open>RustStr\<close>: the string operations of the standard library (trim, split, decimal, UTF-8 and UTF-16).
  \<^item> \<open>Json\<close>: \<open>serde_json::Value\<close> and its ordered maps (locale \<open>ordered_map\<close>, interpreted by sorted association
    lists).
  \<^item> \<open>Loop\<close>: the \<open>loop\<close> statement as a partial function, whose value \<open>None\<close> is a loop that never leaves, with the
    rules for returning, for what a returned value satisfies, and for running for ever. No loop of the client or the core has
    fuel: the retry loop, the worklist of the resolver, the wait for a permit, the polling of a promise and the
    search for a free handle are each shown to return under the conditions they return under, and to run for
    ever otherwise. The two walks of a JSON value with an explicit stack (\<open>Canonical\<close>, \<open>References\<close>) are total
    functions, with a measure on the nodes left.

  \<^bold>\<open>Core crate, signing\<close> (\<open>signing/\<close>).
  \<^item> \<open>Canonical\<close> (\<open>canonical.rs\<close>, \<open>signable.rs\<close>): canonical JSON by the stack machine of the code, shown to refine
    the recursive printer \<open>canon\<close> under its limits; \<open>CanonicalInj\<close>: the canonical text determines the value.
  \<^item> \<open>Der\<close> (\<open>format.rs\<close>): the verification bytes and their injectivity.
  \<^item> \<open>Signing\<close> (\<open>mod.rs\<close>, \<open>request.rs\<close>): envelopes, skew, URL and body verification; what is signed verifies, and
    nothing else does for the same signature.
  \<^item> \<open>Errors\<close>, \<open>ErrorText\<close>: the error types (the \<open>error.rs\<close> files), and the messages they display.

  \<^bold>\<open>Core crate, containers\<close> (\<open>encrypted_container/\<close>).
  \<^item> \<open>ContainerCodec\<close> (\<open>codec.rs\<close>): package, sealing, detached signature, opening.
  \<^item> \<open>Container\<close> (\<open>mod.rs\<close>): the container with its two caches and every operation.
  \<^item> \<open>ContainerFacts\<close>, \<open>ContainerProps\<close>: a sealed body opens for its principals, a revoked key is locked out, the
    caches stay coherent over all sequences of operations, a signed export verifies.

  \<^bold>\<open>Core crate, attributes and certificates.\<close>
  \<^item> \<open>Oids\<close> (\<open>asn1/utils.rs\<close>, \<open>utils.rs\<close>), \<open>KycSchema\<close> (\<open>kyc_schema/mod.rs\<close>, \<open>builder.rs\<close>, \<open>serde.rs\<close>), \<open>SchemaEngine\<close>
    (\<open>iso20022_engine.rs\<close> and the generated schema table), \<open>Codec\<close> (\<open>codec.rs\<close>), \<open>References\<close> (\<open>references.rs\<close>),
    \<open>TypedAttributes\<close> (the generated builders): the attribute values between JSON, text and DER, with their
    round trips, the bounds of the tag-length-value reader and the search for references to documents.
  \<^item> \<open>Sensitive\<close> (\<open>sensitive_attributes/\<close>): sealing, opening, proving and validating one attribute.
  \<^item> \<open>Certificate\<close>, \<open>CertificateProps\<close> (\<open>certificates/\<close>): the builder and the certificate; what was built is read.
  \<^item> \<open>Trust\<close> (\<open>trust/mod.rs\<close>, and \<open>trust.rs\<close> of the client): published chains and trusted issuers.
  \<^item> \<open>Sharable\<close>, \<open>SharableProps\<close> (\<open>sharable_attributes/\<close>): the bundle, from the issuer to the recipient.

  \<^bold>\<open>Client.\<close>
  \<^item> \<open>Transport\<close> (\<open>transport/\<close>), \<open>ClientError\<close> (\<open>error.rs\<close>): responses, \<open>Retry-After\<close>, the unified error.
  \<^item> \<open>Backoff\<close>, \<open>RateLimit\<close>, \<open>Retry\<close>, \<open>RetryFacts\<close> (\<open>resilience/\<close>): schedules and jitter, the token bucket (locale
    \<open>rate_limiter\<close>), the retry loop and the decorated transport: outcome, budget, termination and divergence.
  \<^item> \<open>Endpoint\<close>, \<open>Envelope\<close>, \<open>Caller\<close> (\<open>service/\<close>): templates, classification and signed dispatch.
  \<^item> \<open>Metadata\<close>, \<open>Resolver\<close>, \<open>ResolverFacts\<close>, \<open>ResolverProps\<close> (\<open>resolver/\<close>): documents, indirections, lookup.
  \<^item> \<open>Kyc\<close> (\<open>services/kyc.rs\<close>); \<open>Location\<close>, \<open>Blocker\<close>, \<open>Asset\<close>, \<open>AssetMetadata\<close>, \<open>AssetRequest\<close>, \<open>AssetResponse\<close>,
    \<open>AssetClient\<close> (\<open>services/asset_movement/\<close>): providers, requests, responses, every operation and its polling.
  \<^item> \<open>SharableClient\<close> (\<open>sharable.rs\<close>): fetching the documents a certificate refers to.

  \<^bold>\<open>Bindings.\<close>
  \<^item> \<open>Registry\<close> (\<open>registry.rs\<close>, \<open>parse.rs\<close>, \<open>account.rs\<close>, \<open>error.rs\<close> of the bindings): the handle table (locale
    \<open>handle_table\<close>) and the checks of text arguments.
  \<^item> \<open>ContainerBinding\<close>, \<open>CertificateBinding\<close>, \<open>SharableBinding\<close> (\<open>encrypted_container.rs\<close>, \<open>certificate.rs\<close>,
    \<open>sharable_attributes.rs\<close> of the bindings): the operations on the three objects with their stable codes.

  \<^bold>\<open>WASI crate\<close> (\<open>keetanetwork-anchor-client-wasi\<close>).
  \<^item> \<open>AssetJson\<close>, \<open>AssetJsonProps\<close> (\<open>asset_json.rs\<close>), \<open>ResponseJson\<close> (the serializers of \<open>response.rs\<close> in the client):
    the JSON both boundaries speak. Providers, requests and responses survive it.
  \<^item> \<open>Host\<close>, \<open>HostContainer\<close>, \<open>HostContainerProps\<close>, \<open>HostCertificate\<close>, \<open>HostSharable\<close> (\<open>p1/mod.rs\<close>,
    \<open>encrypted_container.rs\<close>, \<open>kyc_certificate.rs\<close>, \<open>sharable.rs\<close>): the flat exports over their tables of handles. An
    export takes the table and the world and gives the integer it answers with; \<open>None\<close> is a call that does not return.
    The container exports refine a map from handles to containers.
  \<^item> \<open>HostTransport\<close>, \<open>HostNode\<close> (\<open>p1/transport.rs\<close>, \<open>p1/node.rs\<close>): the exchange with the host and the reads of the node.
  \<^item> \<open>HostKyc\<close>, \<open>HostAsset\<close>, \<open>HostAssetProps\<close> (\<open>p1/kyc.rs\<close>, \<open>p1/asset_movement.rs\<close>): the networked exports; the wait
    for a KYC share ends in time for every bound a guest can pass.
  \<^item> \<open>Component\<close>, \<open>ComponentObjects\<close>, \<open>ComponentKyc\<close>, \<open>ComponentAsset\<close>, \<open>ComponentAssetProps\<close> (\<open>p2/\<close>): the resources of
    the component. Its asset-movement operations give the answers of the flat exports, up to the message of an error.

  \<^bold>\<open>Build script\<close> (\<open>build.rs\<close> of the core crate).
  \<^item> \<open>SchemaGenerator\<close>, \<open>SchemaGeneratorProps\<close>: the generator of the schema table. Its recursion over the types of the
    document takes fuel (\<open>None\<close> is out of fuel). The depth is bounded by the builders not yet visited and, for each of
    them, the chain of aliases; so some amount is enough for every document without an alias cycle, and more gives
    the same.
  \<^item> \<open>BuildScript\<close>: the texts of the other generated modules, and the list of modules.

  \<^bold>\<open>What the lemmas show.\<close> Each component theory ends with its invariants, the exact behaviour of its operations
  on every branch its clients need, and its interpretations; the theories named \<open>...Facts\<close> and \<open>...Props\<close> hold
  the properties that span operations. A property that has hypotheses is followed by an instance of it at
  concrete values (\<open>..._witness\<close>), evaluated in the kernel.

  \<^bold>\<open>Not modelled.\<close> The HTTP clients behind the transport (they only call \<open>reqwest\<close> and \<open>wstd\<close>), the node client,
  and the cryptographic, X.509, ASN.1, zlib, base64, chrono and URL crates, which are parameters; so are the memory of
  a guest, its error slot and the tables of accounts of the shared node module. The generated glue of the component and
  its resource table are left out, and a future that is driven to completion is a call. Tests, test support and module
  roots are left out. Locks and the spawning of tasks are not modelled: each operation is one step on the state it
  locks.
\<close>

end
